(* ===== verification/Prelude.thy ===== *)
theory Prelude
  imports Complex_Main "HOL-Library.AList" "HOL-Library.Sublist" "HOL-Library.List_Lexorder"
begin

text \<open>
  The vocabulary shared by every component: Python strings as lists of code points, the
  dynamic values that travel through dictionaries and JSON (\<open>pyval\<close>), dictionaries with
  insertion order (\<open>pdict\<close>), exceptions as values, and the lemmas about them that the component
  theories rest on. Two collections carry the automation: \<open>dict_simps\<close> for reading and writing
  dictionaries and \<open>str_simps\<close> for strings.
\<close>

named_theorems dict_simps \<open>reading and writing Python dictionaries\<close>
named_theorems str_simps \<open>Python string operations\<close>

section \<open>Strings\<close>

text \<open>
  A Python \<open>str\<close> is a sequence of Unicode code points. \<open>lit\<close> embeds an ASCII literal; characters
  outside ASCII are written as their code point.
\<close>

type_synonym pychar = nat
type_synonym pystr = "pychar list"

definition lit :: "string \<Rightarrow> pystr" where
  "lit s = map of_char s"

lemma lit_eq_iff [simp]: "lit a = lit b \<longleftrightarrow> a = b"
proof -
  have "inj (of_char :: char \<Rightarrow> nat)" by (rule inj_of_char)
  then show ?thesis by (simp add: lit_def inj_map_eq_map)
qed

lemma lit_Nil [simp]: "lit [] = []"
  by (simp add: lit_def)

lemma lit_eq_Nil [simp]: "lit a = [] \<longleftrightarrow> a = []" and Nil_eq_lit [simp]: "[] = lit a \<longleftrightarrow> a = []"
  by (auto simp: lit_def)

lemma length_lit [simp]: "length (lit a) = length a"
  by (simp add: lit_def)

text \<open>\<open>str.isspace\<close> for one code point, and the stripping operations built on it.\<close>

definition is_space :: "pychar \<Rightarrow> bool" where
  "is_space c \<longleftrightarrow> (9 \<le> c \<and> c \<le> 13) \<or> (28 \<le> c \<and> c \<le> 32) \<or> c = 133 \<or> c = 160 \<or> c = 5760
     \<or> (8192 \<le> c \<and> c \<le> 8202) \<or> c = 8232 \<or> c = 8233 \<or> c = 8239 \<or> c = 8287 \<or> c = 12288"

definition py_lstrip :: "pystr \<Rightarrow> pystr" where
  "py_lstrip s = dropWhile is_space s"

definition strip_end :: "(pychar \<Rightarrow> bool) \<Rightarrow> pystr \<Rightarrow> pystr" where
  "strip_end p s = rev (dropWhile p (rev s))"

definition py_rstrip :: "pystr \<Rightarrow> pystr" where
  "py_rstrip s = strip_end is_space s"

definition py_strip :: "pystr \<Rightarrow> pystr" where
  "py_strip s = py_rstrip (py_lstrip s)"

lemma length_strip_end: "length (strip_end p s) \<le> length s"
  by (simp add: strip_end_def length_dropWhile_le[of p "rev s", simplified])

lemma strip_end_prefix: "prefix (strip_end p s) s"
proof -
  have "s = rev (takeWhile p (rev s) @ dropWhile p (rev s))" by simp
  also have "\<dots> = strip_end p s @ rev (takeWhile p (rev s))"
    by (simp only: rev_append strip_end_def)
  finally show ?thesis by (metis prefixI)
qed

lemma strip_end_last: "strip_end p s \<noteq> [] \<Longrightarrow> \<not> p (last (strip_end p s))"
  by (metis hd_dropWhile last_rev rev_is_Nil_conv strip_end_def)

lemma strip_end_idem [simp]: "strip_end p (strip_end p s) = strip_end p s"
  by (simp add: strip_end_def dropWhile_idem)

lemma py_lstrip_hd: "py_lstrip s \<noteq> [] \<Longrightarrow> \<not> is_space (hd (py_lstrip s))"
  by (simp add: py_lstrip_def hd_dropWhile)

lemma py_strip_Nil [simp]: "py_strip [] = []"
  by (simp add: py_strip_def py_rstrip_def py_lstrip_def strip_end_def)

lemma py_strip_edges:
  assumes "py_strip s \<noteq> []"
  shows "\<not> is_space (hd (py_strip s))" and "\<not> is_space (last (py_strip s))"
proof -
  let ?t = "py_lstrip s"
  have pre: "prefix (py_strip s) ?t"
    by (simp add: py_strip_def py_rstrip_def strip_end_prefix)
  with assms have "hd (py_strip s) = hd ?t" "?t \<noteq> []"
    by (auto simp: prefix_def)
  then show "\<not> is_space (hd (py_strip s))" by (simp add: py_lstrip_hd)
  show "\<not> is_space (last (py_strip s))"
    using assms strip_end_last by (simp add: py_strip_def py_rstrip_def)
qed

lemma dropWhile_not_hd: "xs = [] \<or> \<not> p (hd xs) \<Longrightarrow> dropWhile p xs = xs"
  by (cases xs) auto

lemma py_strip_fix:
  assumes "s = [] \<or> (\<not> is_space (hd s) \<and> \<not> is_space (last s))"
  shows "py_strip s = s"
proof -
  have "py_lstrip s = s" unfolding py_lstrip_def by (rule dropWhile_not_hd) (use assms in auto)
  moreover have "dropWhile is_space (rev s) = rev s"
    by (rule dropWhile_not_hd) (use assms in \<open>auto simp: hd_rev\<close>)
  ultimately show ?thesis by (simp add: py_strip_def py_rstrip_def strip_end_def)
qed

lemma py_strip_idem [simp]: "py_strip (py_strip s) = py_strip s"
  by (rule py_strip_fix) (use py_strip_edges in blast)

lemma length_py_strip: "length (py_strip s) \<le> length s"
  by (metis le_trans length_dropWhile_le length_strip_end py_lstrip_def py_rstrip_def py_strip_def)

lemma set_py_strip: "set (py_strip s) \<subseteq> set s"
proof -
  have "set (strip_end is_space (py_lstrip s)) \<subseteq> set (py_lstrip s)"
    by (meson strip_end_prefix set_mono_prefix)
  also have "\<dots> \<subseteq> set s" by (auto simp: py_lstrip_def dest: set_dropWhileD)
  finally show ?thesis by (simp add: py_strip_def py_rstrip_def)
qed

text \<open>\<open>str.split()\<close> without arguments: the maximal runs of non-space characters.\<close>

function (sequential) py_split :: "pystr \<Rightarrow> pystr list" where
  "py_split s =
     (case py_lstrip s of
        [] \<Rightarrow> []
      | c # cs \<Rightarrow> (c # takeWhile (\<lambda>x. \<not> is_space x) cs) # py_split (dropWhile (\<lambda>x. \<not> is_space x) cs))"
  by pat_completeness auto
termination
proof (relation "measure length", goal_cases)
  case 1
  show ?case by simp
next
  case (2 s c cs)
  then have "length (c # cs) \<le> length s"
    by (metis length_dropWhile_le py_lstrip_def)
  moreover have "length (dropWhile (\<lambda>x. \<not> is_space x) cs) \<le> length cs"
    by (rule length_dropWhile_le)
  ultimately show ?case by simp
qed

declare py_split.simps [simp del]

lemma py_split_words:
  "w \<in> set (py_split s) \<Longrightarrow> w \<noteq> [] \<and> (\<forall>c \<in> set w. \<not> is_space c)"
proof (induction s rule: py_split.induct)
  case (1 s)
  show ?case
  proof (cases "py_lstrip s")
    case Nil
    with "1.prems" show ?thesis by (simp add: py_split.simps[of s])
  next
    case (Cons c cs)
    then have c: "\<not> is_space c" using py_lstrip_hd[of s] by simp
    let ?w = "c # takeWhile (\<lambda>x. \<not> is_space x) cs"
    let ?r = "dropWhile (\<lambda>x. \<not> is_space x) cs"
    have "py_split s = ?w # py_split ?r" by (subst py_split.simps) (simp add: Cons)
    with "1.prems" consider "w = ?w" | "w \<in> set (py_split ?r)" by auto
    then show ?thesis
    proof cases
      case 1
      with c show ?thesis by (auto dest: set_takeWhileD)
    next
      case 2
      from "1.IH"[OF Cons 2] show ?thesis .
    qed
  qed
qed

text \<open>\<open>sep.join(parts)\<close>.\<close>

fun py_join :: "pystr \<Rightarrow> pystr list \<Rightarrow> pystr" where
  "py_join sep [] = []"
| "py_join sep [p] = p"
| "py_join sep (p # q # ps) = p @ sep @ py_join sep (q # ps)"

lemma py_join_Cons: "ps \<noteq> [] \<Longrightarrow> py_join sep (p # ps) = p @ sep @ py_join sep ps"
  by (cases ps) auto

lemma py_join_eq_Nil: "(\<forall>p \<in> set ps. p \<noteq> []) \<Longrightarrow> py_join sep ps = [] \<longleftrightarrow> ps = []"
  by (induction sep ps rule: py_join.induct) auto

lemma set_py_join: "set (py_join sep ps) \<subseteq> set sep \<union> (\<Union>p \<in> set ps. set p)"
  by (induction sep ps rule: py_join.induct) auto

lemma hd_py_join: "ps \<noteq> [] \<Longrightarrow> hd ps \<noteq> [] \<Longrightarrow> hd (py_join sep ps) = hd (hd ps)"
  by (cases ps rule: list.exhaust; cases "tl ps") (auto simp: py_join_Cons)

lemma last_py_join:
  "ps \<noteq> [] \<Longrightarrow> \<forall>p \<in> set ps. p \<noteq> [] \<Longrightarrow> last (py_join sep ps) = last (last ps)"
  by (induction sep ps rule: py_join.induct) (auto simp: py_join_eq_Nil)

text \<open>Substring search: \<open>s.find(p)\<close>, \<open>p in s\<close> and \<open>s.count(p)\<close>.\<close>

fun find_sub :: "pystr \<Rightarrow> pystr \<Rightarrow> nat option" where
  "find_sub p [] = (if p = [] then Some 0 else None)"
| "find_sub p (c # cs) = (if prefix p (c # cs) then Some 0 else map_option Suc (find_sub p cs))"

definition str_in :: "pystr \<Rightarrow> pystr \<Rightarrow> bool" where
  "str_in p s \<longleftrightarrow> find_sub p s \<noteq> None"

lemma str_in_iff: "str_in p s \<longleftrightarrow> (\<exists>a b. s = a @ p @ b)"
proof (induction s)
  case Nil
  show ?case by (simp add: str_in_def)
next
  case (Cons c cs)
  have "str_in p (c # cs) \<longleftrightarrow> prefix p (c # cs) \<or> str_in p cs"
    by (auto simp: str_in_def)
  also have "\<dots> \<longleftrightarrow> (\<exists>a b. c # cs = a @ p @ b)"
    unfolding Cons.IH by (auto simp: prefix_def Cons_eq_append_conv)
  finally show ?case .
qed

lemma str_in_single [simp]: "str_in [c] s \<longleftrightarrow> c \<in> set s"
  by (auto simp: str_in_iff in_set_conv_decomp)

end
