(* ===== verification/PyValue.thy ===== *)
theory PyValue
  imports Prelude
begin

text \<open>
  Dynamic values, dictionaries and exceptions. A \<open>pyval\<close> is what the code types as \<open>Any\<close>: the
  values that come out of \<open>json.loads\<close>, out of a model's tool call or out of a database row.
  A dictionary is an association list in insertion order with string keys, as every dictionary
  of the modelled code has; a Python float is kept as the rational number it denotes.
\<close>

section \<open>Values\<close>

datatype pyval =
    PNone
  | PBool bool
  | PInt int
  | PFloat rat
  | PStr pystr
  | PList "pyval list"
  | PTuple "pyval list"
  | PDict "(pystr \<times> pyval) list"

type_synonym pdict = "(pystr \<times> pyval) list"

text \<open>\<open>bool(v)\<close> and the operator \<open>a or b\<close>.\<close>

fun truthy :: "pyval \<Rightarrow> bool" where
  "truthy PNone = False"
| "truthy (PBool b) = b"
| "truthy (PInt i) = (i \<noteq> 0)"
| "truthy (PFloat r) = (r \<noteq> 0)"
| "truthy (PStr s) = (s \<noteq> [])"
| "truthy (PList xs) = (xs \<noteq> [])"
| "truthy (PTuple xs) = (xs \<noteq> [])"
| "truthy (PDict d) = (d \<noteq> [])"

definition py_or :: "pyval \<Rightarrow> pyval \<Rightarrow> pyval" where
  "py_or a b = (if truthy a then a else b)"

lemma py_or_simps [simp]:
  "py_or PNone b = b" "py_or (PStr []) b = b"
  "s \<noteq> [] \<Longrightarrow> py_or (PStr s) b = PStr s"
  by (simp_all add: py_or_def)

text \<open>An optional integer or string as a value.\<close>

definition opt_int :: "int option \<Rightarrow> pyval" where
  "opt_int i = (case i of None \<Rightarrow> PNone | Some n \<Rightarrow> PInt n)"

definition opt_str :: "pystr option \<Rightarrow> pyval" where
  "opt_str s = (case s of None \<Rightarrow> PNone | Some t \<Rightarrow> PStr t)"

text \<open>Numbers of every kind compare by value (\<open>1 == 1.0 == True\<close>), everything else by structure.\<close>

fun num_val :: "pyval \<Rightarrow> rat option" where
  "num_val (PBool b) = Some (if b then 1 else 0)"
| "num_val (PInt i) = Some (of_int i)"
| "num_val (PFloat r) = Some r"
| "num_val _ = None"

fun is_str :: "pyval \<Rightarrow> bool" where
  "is_str (PStr _) = True"
| "is_str _ = False"

fun is_dict :: "pyval \<Rightarrow> bool" where
  "is_dict (PDict _) = True"
| "is_dict _ = False"

text \<open>The decimal text of an integer.\<close>

fun dec_nat :: "nat \<Rightarrow> pystr" where
  "dec_nat n = (if n < 10 then [48 + n] else dec_nat (n div 10) @ [48 + n mod 10])"

declare dec_nat.simps [simp del]

definition dec_int :: "int \<Rightarrow> pystr" where
  "dec_int i = (if i < 0 then 45 # dec_nat (nat (- i)) else dec_nat (nat i))"

lemma dec_nat_not_Nil [simp]: "dec_nat n \<noteq> []"
  by (subst dec_nat.simps) simp

lemma dec_nat_digits: "c \<in> set (dec_nat n) \<Longrightarrow> 48 \<le> c \<and> c \<le> 57"
proof (induction n rule: dec_nat.induct)
  case (1 n)
  have "n mod 10 \<le> 9" by (simp add: less_Suc_eq_le[symmetric])
  with 1 show ?case by (subst (asm) (2) dec_nat.simps) (auto split: if_splits)
qed

lemma dec_int_not_Nil [simp]: "dec_int i \<noteq> []"
  by (simp add: dec_int_def)

lemma dec_int_chars: "c \<in> set (dec_int i) \<Longrightarrow> c = 45 \<or> (48 \<le> c \<and> c \<le> 57)"
  by (auto simp: dec_int_def dest: dec_nat_digits split: if_splits)

text \<open>
  \<open>int(s)\<close> for a string: surrounding blanks, a sign, and decimal digits that single underscores may
  separate. Decimal digits outside ASCII are not recognised.
\<close>

fun parse_digits :: "nat \<Rightarrow> bool \<Rightarrow> pystr \<Rightarrow> nat option" where
  "parse_digits acc after_digit [] = (if after_digit then Some acc else None)"
| "parse_digits acc after_digit (c # cs) =
     (if 48 \<le> c \<and> c \<le> 57 then parse_digits (acc * 10 + (c - 48)) True cs
      else if c = 95 \<and> after_digit then parse_digits acc False cs
      else None)"

definition parse_int :: "pystr \<Rightarrow> int option" where
  "parse_int s =
     (case py_strip s of
        [] \<Rightarrow> None
      | c # cs \<Rightarrow>
          if c = 45 then map_option (\<lambda>n. - int n) (parse_digits 0 False cs)
          else if c = 43 then map_option int (parse_digits 0 False cs)
          else map_option int (parse_digits 0 False (c # cs)))"

lemma parse_digits_dec_nat:
  "parse_digits acc b (dec_nat n @ rest) = parse_digits (acc * 10 ^ length (dec_nat n) + n) True rest"
proof (induction n arbitrary: acc b rest rule: dec_nat.induct)
  case (1 n)
  show ?case
  proof (cases "n < 10")
    case True
    then show ?thesis by (simp add: dec_nat.simps[of n])
  next
    case False
    have d: "n mod 10 \<le> 9" by (simp add: less_Suc_eq_le[symmetric])
    have split: "dec_nat n = dec_nat (n div 10) @ [48 + n mod 10]"
      using False by (simp add: dec_nat.simps[of n])
    have "parse_digits acc b (dec_nat n @ rest)
        = parse_digits (acc * 10 ^ length (dec_nat (n div 10)) + n div 10) True ((48 + n mod 10) # rest)"
      using "1"[OF False, of acc b "(48 + n mod 10) # rest"] by (simp add: split)
    also have "\<dots> = parse_digits (acc * 10 ^ length (dec_nat n) + n) True rest"
      using d by (simp add: split add_mult_distrib algebra_simps)
    finally show ?thesis .
  qed
qed

lemma parse_int_dec_int: "parse_int (dec_int i) = Some i"
proof -
  have nsp: "\<not> is_space c" if "c \<in> set (dec_int i)" for c
    using dec_int_chars[OF that] by (auto simp: is_space_def)
  then have st: "py_strip (dec_int i) = dec_int i"
    by (intro py_strip_fix) auto
  have pd: "parse_digits 0 False (dec_nat n) = Some n" for n
    using parse_digits_dec_nat[of 0 False n "[]"] by simp
  show ?thesis
  proof (cases "i < 0")
    case True
    then show ?thesis by (simp add: parse_int_def st) (simp add: dec_int_def pd)
  next
    case False
    obtain c cs where c: "dec_nat (nat i) = c # cs" by (cases "dec_nat (nat i)") auto
    then have "48 \<le> c \<and> c \<le> 57" using dec_nat_digits[of c "nat i"] by simp
    then show ?thesis using False c pd[of "nat i"]
      by (simp add: parse_int_def st) (simp add: dec_int_def)
  qed
qed

text \<open>
  \<open>str(v)\<close>: strings are themselves, constants and integers have their usual text; the text of a
  float or of a container is \<open>repr\<close>'s, a parameter of the definitions that need it.
\<close>

type_synonym repr = "pyval \<Rightarrow> pystr"

fun py_str :: "repr \<Rightarrow> pyval \<Rightarrow> pystr" where
  "py_str rp PNone = lit ''None''"
| "py_str rp (PBool b) = (if b then lit ''True'' else lit ''False'')"
| "py_str rp (PInt i) = dec_int i"
| "py_str rp (PStr s) = s"
| "py_str rp v = rp v"

section \<open>Dictionaries\<close>

text \<open>\<open>d.get(k)\<close>, \<open>k in d\<close>, \<open>d[k] = v\<close>, \<open>{**a, **b}\<close> and the comprehension that keeps some keys.\<close>

definition dget :: "pdict \<Rightarrow> pystr \<Rightarrow> pyval" where
  "dget d k = (case map_of d k of None \<Rightarrow> PNone | Some v \<Rightarrow> v)"

definition dhas :: "pdict \<Rightarrow> pystr \<Rightarrow> bool" where
  "dhas d k \<longleftrightarrow> k \<in> fst ` set d"

definition dget_or :: "pdict \<Rightarrow> pystr \<Rightarrow> pyval \<Rightarrow> pyval" where
  "dget_or d k v = (case map_of d k of None \<Rightarrow> v | Some w \<Rightarrow> w)"

definition dput :: "pystr \<Rightarrow> pyval \<Rightarrow> pdict \<Rightarrow> pdict" where
  "dput k v d = AList.update k v d"

definition dmerge :: "pdict \<Rightarrow> pdict \<Rightarrow> pdict" where
  "dmerge a b = fold (\<lambda>(k, v) d. dput k v d) b a"

definition dkeep :: "(pystr \<Rightarrow> bool) \<Rightarrow> pdict \<Rightarrow> pdict" where
  "dkeep p d = filter (\<lambda>(k, _). p k) d"

definition dkeys :: "pdict \<Rightarrow> pystr set" where
  "dkeys d = fst ` set d"

lemma map_of_dput [dict_simps]: "map_of (dput k v d) k' = (if k' = k then Some v else map_of d k')"
  by (simp add: dput_def update_conv')

lemma dget_dput [dict_simps]: "dget (dput k v d) k' = (if k' = k then v else dget d k')"
  by (simp add: dget_def map_of_dput)

lemma dhas_iff: "dhas d k \<longleftrightarrow> map_of d k \<noteq> None"
  by (simp add: dhas_def map_of_eq_None_iff)

lemma dhas_dput [dict_simps]: "dhas (dput k v d) k' \<longleftrightarrow> k' = k \<or> dhas d k'"
  by (simp add: dhas_iff map_of_dput)

lemma dkeys_dput [dict_simps]: "dkeys (dput k v d) = insert k (dkeys d)"
  by (simp add: dkeys_def dput_def dom_update)

lemma dget_Nil [dict_simps]: "dget [] k = PNone"
  by (simp add: dget_def)

lemma dget_Cons [dict_simps]: "dget ((k', v) # d) k = (if k = k' then v else dget d k)"
  by (simp add: dget_def)

lemma dget_or_Cons [dict_simps]: "dget_or ((k', v) # d) k w = (if k = k' then v else dget_or d k w)"
  by (simp add: dget_or_def)

lemma dget_or_Nil [dict_simps]: "dget_or [] k w = w"
  by (simp add: dget_or_def)

lemma dput_not_Nil [simp]: "dput k v d \<noteq> []"
  by (simp add: dput_def)

lemma map_of_fold_dput:
  "map_of (fold (\<lambda>(k, v). dput k v) b a) k = (case map_of (rev b) k of None \<Rightarrow> map_of a k | Some v \<Rightarrow> Some v)"
proof (induction b arbitrary: a)
  case Nil
  show ?case by simp
next
  case (Cons p b)
  obtain k' v where p: "p = (k', v)" by force
  show ?case
    by (simp add: p Cons.IH map_of_dput map_add_def split: option.splits)
qed

lemma map_of_dmerge_distinct:
  assumes "distinct (map fst b)"
  shows "map_of (dmerge a b) k = (case map_of b k of None \<Rightarrow> map_of a k | Some v \<Rightarrow> Some v)"
proof -
  have "map_of (rev b) k = map_of b k"
    using assms
  proof (induction b)
    case (Cons p b)
    then have "map_of (rev b) k = map_of b k" and "k = fst p \<Longrightarrow> map_of b k = None"
      by (auto simp: map_of_eq_None_iff)
    then show ?case by (cases p) (auto simp: map_add_def split: option.splits)
  qed simp
  then show ?thesis by (simp add: dmerge_def map_of_fold_dput)
qed

lemma dget_dkeep [dict_simps]: "dget (dkeep p d) k = (if p k then dget d k else PNone)"
  by (induction d) (auto simp: dget_def dkeep_def)

lemma dkeys_dkeep [dict_simps]: "dkeys (dkeep p d) = {k \<in> dkeys d. p k}"
  by (auto simp: dkeys_def dkeep_def image_iff)

lemma dkeep_Cons [dict_simps]: "dkeep p ((k, v) # d) = (if p k then (k, v) # dkeep p d else dkeep p d)"
  by (simp add: dkeep_def)

lemma dkeep_Nil [dict_simps]: "dkeep p [] = []"
  by (simp add: dkeep_def)

lemma distinct_dput: "distinct (map fst d) \<Longrightarrow> distinct (map fst (dput k v d))"
  by (simp add: dput_def distinct_update)

lemma distinct_dkeep: "distinct (map fst d) \<Longrightarrow> distinct (map fst (dkeep p d))"
  by (induction d) (auto simp: dkeep_def)

lemma distinct_dmerge: "distinct (map fst a) \<Longrightarrow> distinct (map fst (dmerge a b))"
  unfolding dmerge_def by (induction b arbitrary: a) (auto simp: distinct_dput)

section \<open>Exceptions as values\<close>

datatype exn_class =
    ValueError | KeyError | RuntimeError | TypeError | FileNotFoundError | TimeoutError
  | UnsafeQueryError | QueryTimeoutError | GapError | ProviderError bool | SQLAlchemyError
  | AgentUnavailableError | GraphRecursionError | CancelledError | HTTPStatus int | OtherError pystr

datatype py_exn = Exn exn_class pystr

fun exn_kind :: "py_exn \<Rightarrow> exn_class" where
  "exn_kind (Exn c _) = c"

fun exn_msg :: "py_exn \<Rightarrow> pystr" where
  "exn_msg (Exn _ m) = m"

type_synonym 'a res = "py_exn + 'a"

text \<open>\<open>str(exc)\<close>: the message, except that a \<open>KeyError\<close> prints the \<open>repr\<close> of its argument.\<close>

definition exn_str :: "repr \<Rightarrow> py_exn \<Rightarrow> pystr" where
  "exn_str rp e = (case e of Exn KeyError m \<Rightarrow> rp (PStr m) | Exn _ m \<Rightarrow> m)"

definition rbind :: "'a res \<Rightarrow> ('a \<Rightarrow> 'b res) \<Rightarrow> 'b res" where
  "rbind m f = (case m of Inl e \<Rightarrow> Inl e | Inr a \<Rightarrow> f a)"

lemma rbind_simps [simp]: "rbind (Inl e) f = Inl e" "rbind (Inr a) f = f a"
  by (simp_all add: rbind_def)

lemma rbind_eq_Inr [simp]: "rbind m f = Inr b \<longleftrightarrow> (\<exists>a. m = Inr a \<and> f a = Inr b)"
  by (cases m) auto

lemma rbind_eq_Inl: "rbind m f = Inl e \<longleftrightarrow> m = Inl e \<or> (\<exists>a. m = Inr a \<and> f a = Inl e)"
  by (cases m) auto

definition guard :: "bool \<Rightarrow> py_exn \<Rightarrow> unit res" where
  "guard ok e = (if ok then Inr () else Inl e)"

lemma guard_simps [simp]: "guard True e = Inr ()" "guard False e = Inl e"
  by (simp_all add: guard_def)

lemma guard_eq_Inr [simp]: "guard ok e = Inr u \<longleftrightarrow> ok"
  by (simp add: guard_def)

fun mapM_res :: "('a \<Rightarrow> 'b res) \<Rightarrow> 'a list \<Rightarrow> 'b list res" where
  "mapM_res f [] = Inr []"
| "mapM_res f (x # xs) = rbind (f x) (\<lambda>y. rbind (mapM_res f xs) (\<lambda>ys. Inr (y # ys)))"

lemma mapM_res_Inr: "mapM_res f xs = Inr ys \<Longrightarrow> list_all2 (\<lambda>x y. f x = Inr y) xs ys"
  by (induction xs arbitrary: ys) auto

lemma mapM_res_length: "mapM_res f xs = Inr ys \<Longrightarrow> length ys = length xs"
  by (auto dest!: mapM_res_Inr list_all2_lengthD)

section \<open>Shared list facts\<close>

text \<open>\<open>xs[-n:]\<close> for a positive \<open>n\<close>.\<close>

definition last_n :: "nat \<Rightarrow> 'a list \<Rightarrow> 'a list" where
  "last_n n xs = drop (length xs - n) xs"

lemma length_last_n [simp]: "length (last_n n xs) = min n (length xs)"
  by (simp add: last_n_def)

lemma last_n_all [simp]: "length xs \<le> n \<Longrightarrow> last_n n xs = xs"
  by (simp add: last_n_def)

lemma set_last_n: "set (last_n n xs) \<subseteq> set xs"
  by (simp add: last_n_def set_drop_subset)

lemma suffix_last_n: "suffix (last_n n xs) xs"
  by (simp add: last_n_def suffix_drop)

lemma last_n_snoc: "0 < n \<Longrightarrow> last_n n (xs @ [x]) = last_n (n - 1) xs @ [x]"
  by (cases n) (simp_all add: last_n_def)

text \<open>Keep the first occurrence of every element, in order (the \<open>if x not in xs\<close> loop).\<close>

fun uniq_onto :: "'a list \<Rightarrow> 'a list \<Rightarrow> 'a list" where
  "uniq_onto acc [] = acc"
| "uniq_onto acc (x # xs) = (if x \<in> set acc then uniq_onto acc xs else uniq_onto (acc @ [x]) xs)"

lemma set_uniq_onto [simp]: "set (uniq_onto acc xs) = set acc \<union> set xs"
  by (induction acc xs rule: uniq_onto.induct) auto

lemma distinct_uniq_onto [simp]: "distinct (uniq_onto acc xs) \<longleftrightarrow> distinct acc"
  by (induction acc xs rule: uniq_onto.induct) auto

lemma uniq_onto_prefix: "prefix acc (uniq_onto acc xs)"
  by (induction acc xs rule: uniq_onto.induct) (auto dest: append_prefixD)

lemma uniq_onto_id: "distinct (acc @ xs) \<Longrightarrow> uniq_onto acc xs = acc @ xs"
  by (induction acc xs rule: uniq_onto.induct) auto

end
