(* ===== verification/Events.thy ===== *)
theory Events
  imports PyValue
begin

text \<open>
  The observable facts of an execution: the event types and phases of \<open>observer/events.py\<close>, the
  frames of \<open>observer/frames.py\<close>, the whitelist that turns an internal event into its public form
  (\<open>observer/projection.py\<close>, \<open>public_event\<close>) and the policy that decides which events reach the
  durable trace (\<open>trace/collector.py\<close>).
\<close>

section \<open>Phases and event types\<close>

datatype phase =
    PENDING | CONTEXT | REASONING | SKILL | TOOL | RESPONSE_PREPARING | RESPONSE_STREAMING
  | FINALIZING | PH_CANCEL_REQUESTED | PH_COMPLETED | PH_FAILED | PH_CANCELLED

fun phase_value :: "phase \<Rightarrow> pystr" where
  "phase_value PENDING = lit ''pending''"
| "phase_value CONTEXT = lit ''context''"
| "phase_value REASONING = lit ''reasoning''"
| "phase_value SKILL = lit ''skill''"
| "phase_value TOOL = lit ''tool''"
| "phase_value RESPONSE_PREPARING = lit ''response_preparing''"
| "phase_value RESPONSE_STREAMING = lit ''response_streaming''"
| "phase_value FINALIZING = lit ''finalizing''"
| "phase_value PH_CANCEL_REQUESTED = lit ''cancel_requested''"
| "phase_value PH_COMPLETED = lit ''completed''"
| "phase_value PH_FAILED = lit ''failed''"
| "phase_value PH_CANCELLED = lit ''cancelled''"

datatype event_type =
    EXECUTION_STARTED | EXECUTION_PHASE_CHANGED | EXECUTION_CANCEL_REQUESTED
  | EXECUTION_CANCELLED | EXECUTION_COMPLETED | EXECUTION_FAILED
  | AGENT_ITERATION_STARTED | AGENT_DECISION | AGENT_MAX_ITERATIONS_REACHED
  | ANSWER_STARTED | ANSWER_GENERATED | ANSWER_COMPLETED
  | CONTEXT_LOADED | CONTEXT_BUDGET_EXCEEDED | CONTEXT_SNAPSHOT_CREATED | CONTEXT_RETRIEVED
  | SKILL_REQUESTED | SKILL_CONTEXT_LOADED | SKILL_CONTEXT_RELEASED
  | SCHEMA_INSPECTED | PLAN_CREATED | LLM_STARTED | ASSISTANT_DELTA | LLM_COMPLETED
  | TOOL_STARTED | TOOL_COMPLETED | TOOL_FAILED
  | SQL_GENERATED | SQL_EXECUTED | VISUALIZATION_SELECTED

fun event_value :: "event_type \<Rightarrow> pystr" where
  "event_value EXECUTION_STARTED = lit ''execution.started''"
| "event_value EXECUTION_PHASE_CHANGED = lit ''execution.phase.changed''"
| "event_value EXECUTION_CANCEL_REQUESTED = lit ''execution.cancel_requested''"
| "event_value EXECUTION_CANCELLED = lit ''execution.cancelled''"
| "event_value EXECUTION_COMPLETED = lit ''execution.completed''"
| "event_value EXECUTION_FAILED = lit ''execution.failed''"
| "event_value AGENT_ITERATION_STARTED = lit ''agent.iteration.started''"
| "event_value AGENT_DECISION = lit ''agent.decision''"
| "event_value AGENT_MAX_ITERATIONS_REACHED = lit ''agent.max_iterations_reached''"
| "event_value ANSWER_STARTED = lit ''answer.started''"
| "event_value ANSWER_GENERATED = lit ''answer.generated''"
| "event_value ANSWER_COMPLETED = lit ''answer.completed''"
| "event_value CONTEXT_LOADED = lit ''context.loaded''"
| "event_value CONTEXT_BUDGET_EXCEEDED = lit ''context.budget.exceeded''"
| "event_value CONTEXT_SNAPSHOT_CREATED = lit ''context.snapshot.created''"
| "event_value CONTEXT_RETRIEVED = lit ''context.retrieved''"
| "event_value SKILL_REQUESTED = lit ''skill.requested''"
| "event_value SKILL_CONTEXT_LOADED = lit ''skill.context.loaded''"
| "event_value SKILL_CONTEXT_RELEASED = lit ''skill.context.released''"
| "event_value SCHEMA_INSPECTED = lit ''schema.inspected''"
| "event_value PLAN_CREATED = lit ''plan.created''"
| "event_value LLM_STARTED = lit ''llm.started''"
| "event_value ASSISTANT_DELTA = lit ''assistant.delta''"
| "event_value LLM_COMPLETED = lit ''llm.completed''"
| "event_value TOOL_STARTED = lit ''tool.started''"
| "event_value TOOL_COMPLETED = lit ''tool.completed''"
| "event_value TOOL_FAILED = lit ''tool.failed''"
| "event_value SQL_GENERATED = lit ''sql.generated''"
| "event_value SQL_EXECUTED = lit ''sql.executed''"
| "event_value VISUALIZATION_SELECTED = lit ''visualization.selected''"

definition all_event_types :: "event_type list" where
  "all_event_types =
     [EXECUTION_STARTED, EXECUTION_PHASE_CHANGED, EXECUTION_CANCEL_REQUESTED,
      EXECUTION_CANCELLED, EXECUTION_COMPLETED, EXECUTION_FAILED,
      AGENT_ITERATION_STARTED, AGENT_DECISION, AGENT_MAX_ITERATIONS_REACHED,
      ANSWER_STARTED, ANSWER_GENERATED, ANSWER_COMPLETED,
      CONTEXT_LOADED, CONTEXT_BUDGET_EXCEEDED, CONTEXT_SNAPSHOT_CREATED, CONTEXT_RETRIEVED,
      SKILL_REQUESTED, SKILL_CONTEXT_LOADED, SKILL_CONTEXT_RELEASED,
      SCHEMA_INSPECTED, PLAN_CREATED, LLM_STARTED, ASSISTANT_DELTA, LLM_COMPLETED,
      TOOL_STARTED, TOOL_COMPLETED, TOOL_FAILED,
      SQL_GENERATED, SQL_EXECUTED, VISUALIZATION_SELECTED]"

lemma in_all_event_types: "t \<in> set all_event_types"
  by (cases t) (simp_all add: all_event_types_def)

lemma distinct_event_values: "distinct (map event_value all_event_types)"
  by (simp add: all_event_types_def)

lemma event_value_inj [simp]: "event_value a = event_value b \<longleftrightarrow> a = b"
proof -
  have "inj_on event_value (set all_event_types)"
    using distinct_event_values distinct_map by blast
  then show ?thesis
    using in_all_event_types by (auto dest: inj_onD)
qed

lemma phase_value_inj [simp]: "phase_value a = phase_value b \<longleftrightarrow> a = b"
  by (cases a; cases b) simp_all

lemma phase_value_not_Nil [simp]: "phase_value a \<noteq> []"
  by (cases a) simp_all

declare event_value.simps [simp del] phase_value.simps [simp del]

section \<open>Events, frames and the trace policy\<close>

text \<open>The creation time is carried as its ISO text, the only use the code makes of it.\<close>

record exec_event =
  ev_execution_id :: pystr
  ev_type :: event_type
  ev_payload :: pdict
  ev_created_at :: pystr

definition TRACEABLE_EVENT_TYPES :: "event_type list" where
  "TRACEABLE_EVENT_TYPES =
     [EXECUTION_STARTED, EXECUTION_PHASE_CHANGED, EXECUTION_CANCEL_REQUESTED,
      EXECUTION_CANCELLED, EXECUTION_COMPLETED, EXECUTION_FAILED,
      AGENT_ITERATION_STARTED, AGENT_DECISION, AGENT_MAX_ITERATIONS_REACHED,
      ANSWER_STARTED, ANSWER_GENERATED, ANSWER_COMPLETED,
      CONTEXT_LOADED, CONTEXT_BUDGET_EXCEEDED, CONTEXT_SNAPSHOT_CREATED, CONTEXT_RETRIEVED,
      SKILL_REQUESTED, SKILL_CONTEXT_LOADED, SKILL_CONTEXT_RELEASED,
      SCHEMA_INSPECTED, PLAN_CREATED,
      TOOL_STARTED, TOOL_COMPLETED, TOOL_FAILED,
      SQL_GENERATED, SQL_EXECUTED, VISUALIZATION_SELECTED]"

definition should_record :: "exec_event \<Rightarrow> bool" where
  "should_record e \<longleftrightarrow> ev_type e \<in> set TRACEABLE_EVENT_TYPES"

record exec_frame =
  fr_execution_id :: pystr
  fr_type :: pystr
  fr_sequence :: "int option"
  fr_payload :: pdict

definition EXECUTION_STATE_FRAME :: pystr where
  "EXECUTION_STATE_FRAME = lit ''execution.state''"

definition REALTIME_UNAVAILABLE_FRAME :: pystr where
  "REALTIME_UNAVAILABLE_FRAME = lit ''execution.realtime_unavailable''"

definition HEARTBEAT_FRAME :: pystr where
  "HEARTBEAT_FRAME = lit ''heartbeat''"

definition TERMINAL_EXECUTION_STATUSES :: "pystr list" where
  "TERMINAL_EXECUTION_STATUSES = [lit ''completed'', lit ''failed'', lit ''cancelled'']"

definition TERMINAL_EVENT_TYPES :: "pystr list" where
  "TERMINAL_EVENT_TYPES =
     [lit ''execution.completed'', lit ''execution.failed'', lit ''execution.cancelled'']"

lemma TERMINAL_EVENT_TYPES_values:
  "TERMINAL_EVENT_TYPES = map event_value [EXECUTION_COMPLETED, EXECUTION_FAILED, EXECUTION_CANCELLED]"
  by (simp add: TERMINAL_EVENT_TYPES_def event_value.simps)

lemma value_in_TERMINAL_EVENT_TYPES [simp]:
  "event_value t \<in> set TERMINAL_EVENT_TYPES
     \<longleftrightarrow> t = EXECUTION_COMPLETED \<or> t = EXECUTION_FAILED \<or> t = EXECUTION_CANCELLED"
  by (simp add: TERMINAL_EVENT_TYPES_values)

section \<open>The public whitelist\<close>

fun PUBLIC_FIELDS :: "event_type \<Rightarrow> pystr list" where
  "PUBLIC_FIELDS EXECUTION_STARTED = [lit ''session_id'']"
| "PUBLIC_FIELDS EXECUTION_PHASE_CHANGED = [lit ''phase'']"
| "PUBLIC_FIELDS EXECUTION_CANCEL_REQUESTED = [lit ''reason'']"
| "PUBLIC_FIELDS EXECUTION_CANCELLED = [lit ''reason'', lit ''partial_answer'']"
| "PUBLIC_FIELDS EXECUTION_COMPLETED = [lit ''answer'', lit ''result'']"
| "PUBLIC_FIELDS EXECUTION_FAILED = [lit ''error'']"
| "PUBLIC_FIELDS AGENT_ITERATION_STARTED = [lit ''iteration'', lit ''max_iterations'']"
| "PUBLIC_FIELDS AGENT_DECISION = [lit ''iteration'', lit ''decision'', lit ''actions'']"
| "PUBLIC_FIELDS AGENT_MAX_ITERATIONS_REACHED = [lit ''iterations'', lit ''max_iterations'']"
| "PUBLIC_FIELDS ANSWER_STARTED = [lit ''iteration'']"
| "PUBLIC_FIELDS ANSWER_GENERATED = [lit ''iterations'', lit ''stop_reason'']"
| "PUBLIC_FIELDS ANSWER_COMPLETED = [lit ''iteration'', lit ''content_length'']"
| "PUBLIC_FIELDS CONTEXT_LOADED =
     [lit ''history_turns'', lit ''snapshot_sequence'', lit ''skills'', lit ''tools'']"
| "PUBLIC_FIELDS CONTEXT_BUDGET_EXCEEDED =
     [lit ''iteration'', lit ''dynamic_budget_tokens'', lit ''dynamic_tokens_after_compaction'']"
| "PUBLIC_FIELDS CONTEXT_SNAPSHOT_CREATED = [lit ''sequence'', lit ''reason'', lit ''estimated_tokens'']"
| "PUBLIC_FIELDS CONTEXT_RETRIEVED = [lit ''iteration'', lit ''query'', lit ''matches'']"
| "PUBLIC_FIELDS SKILL_REQUESTED = [lit ''iteration'', lit ''skills'', lit ''tool_call_id'']"
| "PUBLIC_FIELDS SKILL_CONTEXT_LOADED = [lit ''iteration'', lit ''skills'']"
| "PUBLIC_FIELDS SKILL_CONTEXT_RELEASED = [lit ''iteration'', lit ''skills'']"
| "PUBLIC_FIELDS SCHEMA_INSPECTED = [lit ''tables'', lit ''table_count'']"
| "PUBLIC_FIELDS PLAN_CREATED = [lit ''steps'', lit ''step_count'']"
| "PUBLIC_FIELDS LLM_STARTED =
     [lit ''iteration'', lit ''context_dynamic_tokens'', lit ''context_dynamic_budget_tokens'']"
| "PUBLIC_FIELDS ASSISTANT_DELTA = [lit ''content'']"
| "PUBLIC_FIELDS LLM_COMPLETED = [lit ''iteration'', lit ''content_length'', lit ''tool_call_count'']"
| "PUBLIC_FIELDS TOOL_STARTED = [lit ''iteration'', lit ''tool'', lit ''tool_call_id'', lit ''arguments'']"
| "PUBLIC_FIELDS TOOL_COMPLETED = [lit ''iteration'', lit ''tool'', lit ''tool_call_id'', lit ''result'']"
| "PUBLIC_FIELDS TOOL_FAILED = [lit ''iteration'', lit ''tool'', lit ''tool_call_id'', lit ''error'']"
| "PUBLIC_FIELDS SQL_GENERATED = [lit ''iteration'', lit ''sql'']"
| "PUBLIC_FIELDS SQL_EXECUTED = [lit ''iteration'', lit ''sql'', lit ''row_count'', lit ''truncated'']"
| "PUBLIC_FIELDS VISUALIZATION_SELECTED = [lit ''type'', lit ''title'', lit ''x'', lit ''y'']"

definition public_event :: "exec_event \<Rightarrow> pystr \<times> pdict" where
  "public_event e =
     (let allowed = PUBLIC_FIELDS (ev_type e)
      in (event_value (ev_type e), dkeep (\<lambda>k. k \<in> set allowed) (ev_payload e)))"

text \<open>What the publisher sends: the whitelisted payload with the creation time merged in.\<close>

definition public_payload :: "exec_event \<Rightarrow> pdict" where
  "public_payload e = dput (lit ''created_at'') (PStr (ev_created_at e)) (snd (public_event e))"

lemma public_event_fst [simp]: "fst (public_event e) = event_value (ev_type e)"
  by (simp add: public_event_def)

lemma dkeys_public_event: "dkeys (snd (public_event e)) = dkeys (ev_payload e) \<inter> set (PUBLIC_FIELDS (ev_type e))"
  by (auto simp: public_event_def dict_simps)

lemma dget_public_payload:
  "dget (public_payload e) k =
     (if k = lit ''created_at'' then PStr (ev_created_at e)
      else if k \<in> set (PUBLIC_FIELDS (ev_type e)) then dget (ev_payload e) k else PNone)"
  by (simp add: public_payload_def public_event_def dict_simps)

lemma distinct_public_payload:
  "distinct (map fst (ev_payload e)) \<Longrightarrow> distinct (map fst (public_payload e))"
  by (simp add: public_payload_def public_event_def distinct_dput distinct_dkeep)

end
