(* ===== verification/Projection.thy ===== *)
theory Projection
  imports Events
begin

text \<open>
  The reattachable projection of one execution (\<open>observer/projection.py\<close>): the state an observer
  that connects late is given, computed from the durable record and the public events. A
  projection is a dictionary, as in the code; an event whose payload has the wrong shape makes
  the reducer raise, which is the \<open>Inl\<close> branch.
\<close>

section \<open>Conversions the reducer applies to payload values\<close>

text \<open>\<open>int(v)\<close>, \<open>list(v)\<close> and \<open>v.get\<close> on the values a payload can hold.\<close>

fun py_int :: "pyval \<Rightarrow> int res" where
  "py_int (PInt i) = Inr i"
| "py_int (PBool b) = Inr (if b then 1 else 0)"
| "py_int (PFloat r) = Inr (if r < 0 then - floor (- r) else floor r)"
| "py_int (PStr s) = (case parse_int s of None \<Rightarrow> Inl (Exn ValueError s) | Some i \<Rightarrow> Inr i)"
| "py_int _ = Inl (Exn TypeError (lit ''int() argument must be a number''))"

fun py_list :: "pyval \<Rightarrow> pyval list res" where
  "py_list (PList xs) = Inr xs"
| "py_list (PTuple xs) = Inr xs"
| "py_list (PStr s) = Inr (map (\<lambda>c. PStr [c]) s)"
| "py_list (PDict d) = Inr (map (\<lambda>(k, _). PStr k) d)"
| "py_list _ = Inl (Exn TypeError (lit ''object is not iterable''))"

fun as_dict :: "pyval \<Rightarrow> pdict res" where
  "as_dict (PDict d) = Inr d"
| "as_dict _ = Inl (Exn (OtherError (lit ''AttributeError'')) (lit ''get''))"

abbreviation get_or :: "pdict \<Rightarrow> pystr \<Rightarrow> pyval \<Rightarrow> pyval" where
  "get_or d k v \<equiv> py_or (dget d k) v"

section \<open>The initial projection\<close>

definition TERMINAL_PHASES :: "pystr list" where
  "TERMINAL_PHASES = [phase_value PH_COMPLETED, phase_value PH_FAILED, phase_value PH_CANCELLED]"

definition phase_from_status :: "pystr \<Rightarrow> pystr" where
  "phase_from_status status =
     (if status = lit ''completed'' then phase_value PH_COMPLETED
      else if status = lit ''failed'' then phase_value PH_FAILED
      else if status = lit ''cancelled'' then phase_value PH_CANCELLED
      else if status = lit ''cancel_requested'' then phase_value PH_CANCEL_REQUESTED
      else if status = lit ''running'' then phase_value REASONING
      else phase_value PENDING)"

text \<open>The durable record is a dictionary whose dates are already their ISO text.\<close>

definition initial_projection :: "repr \<Rightarrow> pystr \<Rightarrow> pdict option \<Rightarrow> pdict" where
  "initial_projection rp execution_id durable_opt =
     (let durable = (case durable_opt of None \<Rightarrow> [] | Some d \<Rightarrow> d);
          status = py_str rp (get_or durable (lit ''status'') (PStr (lit ''pending'')));
          phase = phase_from_status status
      in [(lit ''execution_id'', PStr execution_id),
          (lit ''session_id'', dget durable (lit ''session_id'')),
          (lit ''status'', PStr status),
          (lit ''sequence'', PInt 0),
          (lit ''phase'', PStr phase),
          (lit ''stage'', PStr phase),
          (lit ''iteration'', PInt 0),
          (lit ''partial_answer'', PStr (py_str rp (get_or durable (lit ''answer'') (PStr [])))),
          (lit ''answer'', dget durable (lit ''answer'')),
          (lit ''error'', dget durable (lit ''error'')),
          (lit ''result'', dget durable (lit ''result'')),
          (lit ''active_skills'', PList []),
          (lit ''active_tools'', PList []),
          (lit ''activities'', PList []),
          (lit ''last_event'', PNone),
          (lit ''updated_at'', dget durable (lit ''updated_at''))])"

section \<open>The reducer\<close>

definition set_phase :: "repr \<Rightarrow> pystr \<Rightarrow> pdict \<Rightarrow> pdict" where
  "set_phase rp phase state =
     (if phase = [] then state
      else
        let current = py_str rp (get_or state (lit ''phase'') (get_or state (lit ''stage'') (PStr [])))
        in if current \<in> set TERMINAL_PHASES \<and> phase \<notin> set TERMINAL_PHASES then state
           else if current = phase_value RESPONSE_STREAMING \<and> phase = phase_value RESPONSE_PREPARING
           then state
           else dput (lit ''stage'') (PStr phase) (dput (lit ''phase'') (PStr phase) state))"

definition call_id_of :: "repr \<Rightarrow> pdict \<Rightarrow> pystr" where
  "call_id_of rp d = py_str rp (get_or d (lit ''tool_call_id'') (PStr []))"

text \<open>The entries of \<open>active_tools\<close> whose call id differs; an entry that is no dictionary raises.\<close>

fun without_call :: "repr \<Rightarrow> pystr \<Rightarrow> pyval list \<Rightarrow> pyval list res" where
  "without_call rp call_id [] = Inr []"
| "without_call rp call_id (item # items) =
     rbind (as_dict item) (\<lambda>d.
     rbind (without_call rp call_id items) (\<lambda>rest.
       Inr (if call_id_of rp d \<noteq> call_id then item # rest else rest)))"

definition mark_tool_started :: "repr \<Rightarrow> pdict \<Rightarrow> pdict \<Rightarrow> pdict res" where
  "mark_tool_started rp payload state =
     (let call_id = call_id_of rp payload
      in rbind (py_list (get_or state (lit ''active_tools'') (PList []))) (\<lambda>items.
         rbind (without_call rp call_id items) (\<lambda>active.
           Inr (dput (lit ''active_tools'')
             (PList (active @ [PDict
                [(lit ''tool'', dget payload (lit ''tool'')),
                 (lit ''tool_call_id'', PStr call_id),
                 (lit ''iteration'', dget payload (lit ''iteration'')),
                 (lit ''arguments'', dget payload (lit ''arguments''))]])) state))))"

definition mark_tool_finished :: "repr \<Rightarrow> pdict \<Rightarrow> pdict \<Rightarrow> pdict res" where
  "mark_tool_finished rp payload state =
     (let call_id = call_id_of rp payload
      in rbind (py_list (get_or state (lit ''active_tools'') (PList []))) (\<lambda>items.
         rbind (without_call rp call_id items) (\<lambda>active.
           Inr (dput (lit ''active_tools'') (PList active) state))))"

definition clear_active :: "pdict \<Rightarrow> pdict" where
  "clear_active state = dput (lit ''active_tools'') (PList []) (dput (lit ''active_skills'') (PList []) state)"

text \<open>The branch of \<open>reduce_projection\<close> that depends on the event type.\<close>

definition reduce_event :: "repr \<Rightarrow> pystr \<Rightarrow> pdict \<Rightarrow> pdict \<Rightarrow> pdict res" where
  "reduce_event rp event_type payload state =
     (if event_type = event_value EXECUTION_STARTED then
        Inr (set_phase rp (phase_value CONTEXT)
          (dput (lit ''session_id'') (get_or payload (lit ''session_id'') (dget state (lit ''session_id'')))
          (dput (lit ''status'') (PStr (lit ''running'')) state)))
      else if event_type = event_value EXECUTION_PHASE_CHANGED then
        Inr (set_phase rp (py_str rp (get_or payload (lit ''phase'') (PStr []))) state)
      else if event_type = event_value EXECUTION_CANCEL_REQUESTED then
        Inr (set_phase rp (phase_value PH_CANCEL_REQUESTED)
          (dput (lit ''status'') (PStr (lit ''cancel_requested'')) state))
      else if event_type = event_value CONTEXT_LOADED then
        Inr (set_phase rp (phase_value REASONING) state)
      else if event_type = event_value AGENT_ITERATION_STARTED then
        rbind (py_int (get_or payload (lit ''iteration'') (get_or state (lit ''iteration'') (PInt 0)))) (\<lambda>i.
          Inr (set_phase rp (phase_value REASONING) (dput (lit ''iteration'') (PInt i) state)))
      else if event_type = event_value LLM_STARTED then
        Inr (set_phase rp (phase_value REASONING) state)
      else if event_type = event_value SKILL_REQUESTED then
        Inr (set_phase rp (phase_value SKILL) state)
      else if event_type = event_value SKILL_CONTEXT_LOADED then
        rbind (py_list (get_or payload (lit ''skills'') (PList []))) (\<lambda>skills.
          Inr (set_phase rp (phase_value SKILL) (dput (lit ''active_skills'') (PList skills) state)))
      else if event_type = event_value SKILL_CONTEXT_RELEASED then
        Inr (set_phase rp (phase_value REASONING) (dput (lit ''active_skills'') (PList []) state))
      else if event_type = event_value TOOL_STARTED then
        rbind (mark_tool_started rp payload state) (\<lambda>state. Inr (set_phase rp (phase_value TOOL) state))
      else if event_type = event_value TOOL_COMPLETED \<or> event_type = event_value TOOL_FAILED then
        rbind (mark_tool_finished rp payload state) (\<lambda>state. Inr (set_phase rp (phase_value REASONING) state))
      else if event_type = event_value ANSWER_STARTED then
        Inr (set_phase rp (phase_value RESPONSE_STREAMING) state)
      else if event_type = event_value ASSISTANT_DELTA then
        let content = py_str rp (get_or payload (lit ''content'') (PStr []))
        in Inr (set_phase rp (phase_value RESPONSE_STREAMING)
             (dput (lit ''partial_answer'')
               (PStr (py_str rp (get_or state (lit ''partial_answer'') (PStr [])) @ content)) state))
      else if event_type = event_value ANSWER_COMPLETED then
        Inr (set_phase rp (phase_value FINALIZING) state)
      else if event_type = event_value EXECUTION_COMPLETED then
        Inr (set_phase rp (phase_value PH_COMPLETED) (clear_active
          (dput (lit ''result'') (dget payload (lit ''result''))
          (dput (lit ''partial_answer'')
             (PStr (py_str rp (get_or payload (lit ''answer'') (get_or state (lit ''partial_answer'') (PStr [])))))
          (dput (lit ''answer'') (dget payload (lit ''answer''))
          (dput (lit ''status'') (PStr (lit ''completed'')) state))))))
      else if event_type = event_value EXECUTION_FAILED then
        Inr (set_phase rp (phase_value PH_FAILED) (clear_active
          (dput (lit ''error'') (dget payload (lit ''error''))
          (dput (lit ''status'') (PStr (lit ''failed'')) state))))
      else if event_type = event_value EXECUTION_CANCELLED then
        let state' = dput (lit ''status'') (PStr (lit ''cancelled'')) state;
            partial = dget payload (lit ''partial_answer'');
            state'' = (if partial \<noteq> PNone then dput (lit ''partial_answer'') (PStr (py_str rp partial)) state'
                       else state')
        in Inr (set_phase rp (phase_value PH_CANCELLED) (clear_active state''))
      else Inr state)"

text \<open>Python's \<open>xs[-n:]\<close>, where \<open>-0\<close> is \<open>0\<close> and keeps the whole list.\<close>

definition py_tail :: "nat \<Rightarrow> 'a list \<Rightarrow> 'a list" where
  "py_tail n xs = (if n = 0 then xs else last_n n xs)"

definition activity_record :: "int \<Rightarrow> pystr \<Rightarrow> pdict \<Rightarrow> pyval" where
  "activity_record sequence event_type payload =
     PDict [(lit ''sequence'', PInt sequence),
            (lit ''type'', PStr event_type),
            (lit ''payload'', PDict (dkeep (\<lambda>k. k \<noteq> lit ''created_at'') payload)),
            (lit ''created_at'', dget payload (lit ''created_at''))]"

definition append_activity :: "nat \<Rightarrow> int \<Rightarrow> pystr \<Rightarrow> pdict \<Rightarrow> pdict \<Rightarrow> pdict res" where
  "append_activity max_activities sequence event_type payload state =
     (if event_type = event_value ASSISTANT_DELTA then Inr state
      else rbind (py_list (get_or state (lit ''activities'') (PList []))) (\<lambda>activities.
        Inr (dput (lit ''activities'')
          (PList (py_tail max_activities (activities @ [activity_record sequence event_type payload]))) state)))"

definition stamp :: "int \<Rightarrow> pystr \<Rightarrow> pdict \<Rightarrow> pdict \<Rightarrow> pdict" where
  "stamp sequence event_type payload projection =
     (let state = dput (lit ''last_event'') (PStr event_type)
                    (dput (lit ''sequence'') (PInt sequence) projection)
      in if dget payload (lit ''created_at'') \<noteq> PNone
         then dput (lit ''updated_at'') (dget payload (lit ''created_at'')) state
         else state)"

definition reduce_projection ::
  "repr \<Rightarrow> pystr \<Rightarrow> pdict \<Rightarrow> int \<Rightarrow> nat \<Rightarrow> pdict \<Rightarrow> pdict res" where
  "reduce_projection rp event_type payload sequence max_activities projection =
     rbind (reduce_event rp event_type payload (stamp sequence event_type payload projection))
       (append_activity max_activities sequence event_type payload)"

section \<open>The public view\<close>

definition PROJECTION_KEYS :: "pystr list" where
  "PROJECTION_KEYS =
     [lit ''execution_id'', lit ''session_id'', lit ''status'', lit ''sequence'', lit ''phase'',
      lit ''stage'', lit ''iteration'', lit ''partial_answer'', lit ''answer'', lit ''error'',
      lit ''result'', lit ''active_skills'', lit ''active_tools'', lit ''activities'',
      lit ''last_event'', lit ''updated_at'']"

definition public_projection :: "pdict \<Rightarrow> bool \<Rightarrow> pdict" where
  "public_projection projection realtime_available =
     dput (lit ''realtime_available'') (PBool realtime_available)
       (map (\<lambda>key. (key, dget projection key)) PROJECTION_KEYS)"

section \<open>What a reducer step can change\<close>

definition phase_of :: "repr \<Rightarrow> pdict \<Rightarrow> pystr" where
  "phase_of rp s = py_str rp (get_or s (lit ''phase'') (get_or s (lit ''stage'') (PStr [])))"

lemma set_phase_alt:
  "set_phase rp p s =
     (if p = [] \<or> (phase_of rp s \<in> set TERMINAL_PHASES \<and> p \<notin> set TERMINAL_PHASES)
         \<or> (phase_of rp s = phase_value RESPONSE_STREAMING \<and> p = phase_value RESPONSE_PREPARING)
      then s else dput (lit ''stage'') (PStr p) (dput (lit ''phase'') (PStr p) s))"
  by (simp add: set_phase_def phase_of_def Let_def)

lemma dget_set_phase [dict_simps]:
  "k \<noteq> lit ''phase'' \<Longrightarrow> k \<noteq> lit ''stage'' \<Longrightarrow> dget (set_phase rp p s) k = dget s k"
  by (simp add: set_phase_alt dict_simps)

lemma phase_of_set_phase:
  "phase_of rp (set_phase rp p s) =
     (if p = [] \<or> (phase_of rp s \<in> set TERMINAL_PHASES \<and> p \<notin> set TERMINAL_PHASES)
         \<or> (phase_of rp s = phase_value RESPONSE_STREAMING \<and> p = phase_value RESPONSE_PREPARING)
      then phase_of rp s else p)"
  unfolding set_phase_alt by (auto simp: phase_of_def dict_simps)

lemma set_phase_keeps_terminal:
  "phase_of rp s \<in> set TERMINAL_PHASES \<Longrightarrow> phase_of rp (set_phase rp p s) \<in> set TERMINAL_PHASES"
  by (auto simp: phase_of_set_phase)

text \<open>The keys a single event branch never writes directly: only \<open>set_phase\<close> moves the phase.\<close>

definition FRAME_KEYS :: "pystr list" where
  "FRAME_KEYS = [lit ''execution_id'', lit ''sequence'', lit ''phase'', lit ''stage'',
     lit ''activities'', lit ''last_event'', lit ''updated_at'']"

lemma reduce_event_shape:
  assumes "reduce_event rp t p s = Inr s'"
  obtains q s0 where "s' = set_phase rp q s0" "\<And>k. k \<in> set FRAME_KEYS \<Longrightarrow> dget s0 k = dget s k"
proof -
  have "\<exists>q s0. s' = set_phase rp q s0 \<and> (\<forall>k \<in> set FRAME_KEYS. dget s0 k = dget s k)"
  proof (cases "t \<in> range event_value")
    case False
    then have "reduce_event rp t p s = Inr s" by (auto simp: reduce_event_def)
    with assms have "s' = set_phase rp [] s" by (simp add: set_phase_def)
    then show ?thesis by blast
  next
    case True
    then obtain e where e: "t = event_value e" by auto
    show ?thesis
    proof (cases "e \<in> {SCHEMA_INSPECTED, PLAN_CREATED, LLM_COMPLETED, SQL_GENERATED, SQL_EXECUTED,
          VISUALIZATION_SELECTED, CONTEXT_BUDGET_EXCEEDED, CONTEXT_SNAPSHOT_CREATED,
          CONTEXT_RETRIEVED, AGENT_DECISION, AGENT_MAX_ITERATIONS_REACHED, ANSWER_GENERATED}")
      case True
      then have "reduce_event rp t p s = Inr s" by (auto simp: reduce_event_def e)
      with assms have "s' = set_phase rp [] s" by (simp add: set_phase_def)
      then show ?thesis by blast
    next
      case False
      with assms show ?thesis
        by (cases e)
          (fastforce simp: reduce_event_def e Let_def clear_active_def mark_tool_started_def
            mark_tool_finished_def FRAME_KEYS_def dict_simps)+
    qed
  qed
  then show ?thesis using that by blast
qed

end
