(* ===== verification/Projection_Props.thy ===== *)
theory Projection_Props
  imports Projection
begin

text \<open>
  What the reducer of \<open>observer/projection.py\<close> guarantees: it is total on well-typed events, phases
  never leave a terminal phase, the activity window is bounded, the streamed answer is the
  concatenation of its deltas, and the open tool calls are exactly those started and not finished.
\<close>

section \<open>Reading the stamped and reduced projection\<close>

lemma dget_stamp [dict_simps]:
  "dget (stamp n t p s) k =
     (if k = lit ''updated_at'' \<and> dget p (lit ''created_at'') \<noteq> PNone then dget p (lit ''created_at'')
      else if k = lit ''last_event'' then PStr t
      else if k = lit ''sequence'' then PInt n
      else dget s k)"
  by (simp add: stamp_def Let_def dict_simps)

lemma reduce_projection_cases:
  assumes "reduce_projection rp t p n m s = Inr s'"
  obtains s1 where "reduce_event rp t p (stamp n t p s) = Inr s1"
    and "append_activity m n t p s1 = Inr s'"
  using assms by (auto simp: reduce_projection_def)

lemma append_activity_frame:
  assumes "append_activity m n t p s = Inr s'" and "k \<noteq> lit ''activities''"
  shows "dget s' k = dget s k"
  using assms by (auto simp: append_activity_def dict_simps split: if_splits)

lemma phase_of_cong:
  "dget s (lit ''phase'') = dget s' (lit ''phase'') \<Longrightarrow> dget s (lit ''stage'') = dget s' (lit ''stage'')
     \<Longrightarrow> phase_of rp s = phase_of rp s'"
  by (simp add: phase_of_def)

lemma phase_of_append_activity:
  "append_activity m n t p s = Inr s' \<Longrightarrow> phase_of rp s' = phase_of rp s"
  by (rule phase_of_cong) (simp_all add: append_activity_frame)

lemma phase_of_stamp [simp]: "phase_of rp (stamp n t p s) = phase_of rp s"
  by (rule phase_of_cong) (simp_all add: dict_simps)

lemma reduce_event_sequence:
  assumes "reduce_event rp t p s = Inr s'" and "k \<in> {lit ''execution_id'', lit ''sequence'', lit ''activities'', lit ''last_event'', lit ''updated_at''}"
  shows "dget s' k = dget s k"
proof -
  from assms(1) obtain q s0 where s': "s' = set_phase rp q s0"
    and fr: "\<And>k. k \<in> set FRAME_KEYS \<Longrightarrow> dget s0 k = dget s k"
    by (blast elim: reduce_event_shape)
  have "k \<in> set FRAME_KEYS" "k \<noteq> lit ''phase''" "k \<noteq> lit ''stage''"
    using assms(2) by (auto simp: FRAME_KEYS_def)
  then show ?thesis by (simp add: s' dget_set_phase fr)
qed

section \<open>Folding a sequence of events\<close>

type_synonym stream_item = "int \<times> pystr \<times> pdict"

fun reduce_all :: "repr \<Rightarrow> nat \<Rightarrow> pdict \<Rightarrow> stream_item list \<Rightarrow> pdict res" where
  "reduce_all rp m s [] = Inr s"
| "reduce_all rp m s ((n, t, p) # es) =
     rbind (reduce_projection rp t p n m s) (\<lambda>s'. reduce_all rp m s' es)"

lemma reduce_all_append:
  "reduce_all rp m s (xs @ ys) = rbind (reduce_all rp m s xs) (\<lambda>s'. reduce_all rp m s' ys)"
proof (induction xs arbitrary: s)
  case (Cons x xs)
  obtain n t p where "x = (n, t, p)" by (cases x)
  with Cons show ?case by (cases "reduce_projection rp t p n m s") auto
qed simp

lemma reduce_all_invariant:
  assumes "reduce_all rp m s es = Inr s'" and "P s"
    and "\<And>n t p s s'. (n, t, p) \<in> set es \<Longrightarrow> reduce_projection rp t p n m s = Inr s' \<Longrightarrow> P s \<Longrightarrow> P s'"
  shows "P s'"
  using assms
proof (induction es arbitrary: s)
  case (Cons e es)
  obtain n t p where e: "e = (n, t, p)" by (cases e)
  with Cons.prems(1) obtain s1 where "reduce_projection rp t p n m s = Inr s1"
    and "reduce_all rp m s1 es = Inr s'" by auto
  with Cons e show ?case by (metis list.set_intros)
qed simp

section \<open>Terminal phases\<close>

lemma reduce_projection_keeps_terminal:
  assumes "reduce_projection rp t p n m s = Inr s'" and "phase_of rp s \<in> set TERMINAL_PHASES"
  shows "phase_of rp s' \<in> set TERMINAL_PHASES"
proof -
  from assms(1) obtain s1 where r: "reduce_event rp t p (stamp n t p s) = Inr s1"
    and a: "append_activity m n t p s1 = Inr s'" by (rule reduce_projection_cases)
  from r obtain q s0 where s1: "s1 = set_phase rp q s0"
    and fr: "\<And>k. k \<in> set FRAME_KEYS \<Longrightarrow> dget s0 k = dget (stamp n t p s) k"
    by (blast elim: reduce_event_shape)
  have "phase_of rp s0 = phase_of rp s"
    by (rule phase_of_cong) (simp_all add: fr FRAME_KEYS_def dict_simps)
  with assms(2) have "phase_of rp s1 \<in> set TERMINAL_PHASES"
    by (simp add: s1 set_phase_keeps_terminal)
  with a show ?thesis by (simp add: phase_of_append_activity)
qed

text \<open>
  Terminal phases are absorbing: once a projection is completed, failed or cancelled, no
  sequence of further events moves its phase back to a live one, whatever the events are.
\<close>
theorem terminal_phase_absorbing:
  assumes "reduce_all rp m s es = Inr s'" and "phase_of rp s \<in> set TERMINAL_PHASES"
  shows "phase_of rp s' \<in> set TERMINAL_PHASES"
  using assms by (rule reduce_all_invariant) (rule reduce_projection_keeps_terminal)

section \<open>The activity window\<close>

definition activity_count :: "pdict \<Rightarrow> nat" where
  "activity_count s = (case dget s (lit ''activities'') of PList xs \<Rightarrow> length xs | _ \<Rightarrow> 0)"

lemma length_py_tail: "0 < n \<Longrightarrow> length (py_tail n xs) \<le> n"
  by (simp add: py_tail_def)

lemma reduce_projection_activity_bound:
  assumes "reduce_projection rp t p n m s = Inr s'" and "0 < m" and "activity_count s \<le> m"
  shows "activity_count s' \<le> m"
proof -
  from assms(1) obtain s1 where r: "reduce_event rp t p (stamp n t p s) = Inr s1"
    and a: "append_activity m n t p s1 = Inr s'" by (rule reduce_projection_cases)
  have "dget s1 (lit ''activities'') = dget s (lit ''activities'')"
    using reduce_event_sequence[OF r] by (simp add: dict_simps)
  with a assms(2,3) show ?thesis
    by (auto simp: append_activity_def activity_count_def dict_simps length_py_tail split: if_splits)
qed

text \<open>
  The activity window is bounded: whatever events arrive, the projection keeps at most
  \<open>max_activities\<close> activity records.
\<close>
theorem activities_bounded:
  assumes "reduce_all rp m s es = Inr s'" and "0 < m" and "activity_count s \<le> m"
  shows "activity_count s' \<le> m"
  using assms(1,3) by (rule reduce_all_invariant) (rule reduce_projection_activity_bound[OF _ assms(2)])

section \<open>Well-typed projections: the reducer does not raise\<close>

definition proj_wf :: "pdict \<Rightarrow> bool" where
  "proj_wf s \<longleftrightarrow>
     (\<exists>items. dget s (lit ''active_tools'') = PList items \<and> list_all is_dict items) \<and>
     (\<exists>acts. dget s (lit ''activities'') = PList acts) \<and>
     (\<exists>i. dget s (lit ''iteration'') = PInt i) \<and>
     (\<exists>t. dget s (lit ''partial_answer'') = PStr t) \<and>
     (\<exists>p. dget s (lit ''phase'') = PStr p) \<and>
     (\<exists>p. dget s (lit ''stage'') = PStr p)"

definition payload_ok :: "pystr \<Rightarrow> pdict \<Rightarrow> bool" where
  "payload_ok t p \<longleftrightarrow>
     (t = event_value AGENT_ITERATION_STARTED \<longrightarrow> (\<exists>i. dget p (lit ''iteration'') = PInt i)) \<and>
     (t = event_value SKILL_CONTEXT_LOADED \<longrightarrow> (\<exists>xs. dget p (lit ''skills'') = PList xs))"

lemma initial_projection_wf: "proj_wf (initial_projection rp x d)"
  by (simp add: proj_wf_def initial_projection_def Let_def dict_simps)

lemma py_list_get_or [simp]:
  "py_list (py_or (PList xs) (PList [])) = Inr xs"
  by (simp add: py_or_def)

lemma without_call_total:
  "list_all is_dict items \<Longrightarrow> \<exists>ys. without_call rp c items = Inr ys \<and> list_all is_dict ys \<and> set ys \<subseteq> set items"
proof (induction items)
  case (Cons i items)
  then obtain d ys where "i = PDict d" "without_call rp c items = Inr ys"
    and "list_all is_dict ys" "set ys \<subseteq> set items" by (cases i) auto
  then show ?case by (cases "call_id_of rp d = c") auto
qed simp

lemma stamp_wf: "proj_wf s \<Longrightarrow> proj_wf (stamp n t p s)"
  by (simp add: proj_wf_def dict_simps)

lemma set_phase_wf: "proj_wf s \<Longrightarrow> proj_wf (set_phase rp p s)"
  by (auto simp: proj_wf_def set_phase_alt dict_simps)

lemma proj_wf_dput:
  assumes "proj_wf s"
    and "k = lit ''active_tools'' \<Longrightarrow> \<exists>items. v = PList items \<and> list_all is_dict items"
    and "k = lit ''activities'' \<Longrightarrow> \<exists>acts. v = PList acts"
    and "k = lit ''iteration'' \<Longrightarrow> \<exists>i. v = PInt i"
    and "k = lit ''partial_answer'' \<Longrightarrow> \<exists>t. v = PStr t"
    and "k = lit ''phase'' \<or> k = lit ''stage'' \<Longrightarrow> \<exists>t. v = PStr t"
  shows "proj_wf (dput k v s)"
  using assms by (auto simp: proj_wf_def dict_simps)

lemma tools_wf:
  assumes "proj_wf s"
  shows "\<exists>s'. mark_tool_started rp p s = Inr s' \<and> proj_wf s'"
    and "\<exists>s'. mark_tool_finished rp p s = Inr s' \<and> proj_wf s'"
proof -
  from assms obtain items where t: "dget s (lit ''active_tools'') = PList items" "list_all is_dict items"
    by (auto simp: proj_wf_def)
  from without_call_total[OF t(2), of rp "call_id_of rp p"]
  obtain ys where "without_call rp (call_id_of rp p) items = Inr ys" "list_all is_dict ys" by blast
  with assms t show "\<exists>s'. mark_tool_started rp p s = Inr s' \<and> proj_wf s'"
    and "\<exists>s'. mark_tool_finished rp p s = Inr s' \<and> proj_wf s'"
    by (auto simp: mark_tool_started_def mark_tool_finished_def Let_def intro!: proj_wf_dput)
qed

lemma clear_active_wf: "proj_wf s \<Longrightarrow> proj_wf (clear_active s)"
  by (auto simp: clear_active_def intro!: proj_wf_dput)

lemma reduce_event_total:
  assumes "proj_wf s" and "payload_ok t p"
  shows "\<exists>s'. reduce_event rp t p s = Inr s' \<and> proj_wf s'"
proof (cases "t \<in> range event_value")
  case False
  then have "reduce_event rp t p s = Inr s" by (auto simp: reduce_event_def)
  with assms show ?thesis by blast
next
  case True
  then obtain e where e: "t = event_value e" by auto
  from assms(1) obtain i where it: "dget s (lit ''iteration'') = PInt i" by (auto simp: proj_wf_def)
  note wf = assms(1) set_phase_wf proj_wf_dput clear_active_wf
  from tools_wf[OF assms(1), of rp p] assms(2) show ?thesis
    by (cases e) (auto simp: reduce_event_def e Let_def payload_ok_def py_or_def it intro!: wf)
qed

lemma reduce_projection_total:
  assumes "proj_wf s" and "payload_ok t p"
  shows "\<exists>s'. reduce_projection rp t p n m s = Inr s' \<and> proj_wf s'"
proof -
  from reduce_event_total[OF stamp_wf[OF assms(1)] assms(2), of rp n t p]
  obtain s1 where r: "reduce_event rp t p (stamp n t p s) = Inr s1" and wf: "proj_wf s1" by blast
  from wf obtain acts where "dget s1 (lit ''activities'') = PList acts" by (auto simp: proj_wf_def)
  with wf r show ?thesis
    by (auto simp: reduce_projection_def append_activity_def intro!: proj_wf_dput)
qed

lemma reduce_all_wf:
  assumes "proj_wf s" and "list_all (\<lambda>(n, t, p). payload_ok t p) es"
  shows "\<exists>s'. reduce_all rp m s es = Inr s' \<and> proj_wf s'"
  using assms
proof (induction es arbitrary: s)
  case (Cons e es)
  obtain n t p where e: "e = (n, t, p)" by (cases e)
  with Cons.prems obtain s1 where "reduce_projection rp t p n m s = Inr s1" "proj_wf s1"
    using reduce_projection_total[of s t p rp n m] by auto
  with Cons e show ?case by auto
qed simp

text \<open>
  The reducer is total and type-preserving on the events the runtime emits: from a well-formed
  projection, any sequence of events with well-typed payloads reduces without raising, and
  the result is well-formed again.
\<close>
theorem reduce_all_total:
  assumes "proj_wf s" and "list_all (\<lambda>(n, t, p). payload_ok t p) es"
  shows "\<exists>s'. reduce_all rp m s es = Inr s' \<and> proj_wf s'"
  using assms by (rule reduce_all_wf)

section \<open>The streamed answer\<close>

definition answer_text :: "repr \<Rightarrow> pdict \<Rightarrow> pystr" where
  "answer_text rp s = py_str rp (get_or s (lit ''partial_answer'') (PStr []))"

definition delta_text :: "repr \<Rightarrow> stream_item \<Rightarrow> pystr" where
  "delta_text rp item = (case item of (n, t, p) \<Rightarrow>
     if t = event_value ASSISTANT_DELTA then py_str rp (get_or p (lit ''content'') (PStr [])) else [])"

definition rewrites_answer :: "stream_item \<Rightarrow> bool" where
  "rewrites_answer item \<longleftrightarrow> (case item of (n, t, p) \<Rightarrow>
     t = event_value EXECUTION_COMPLETED \<or> t = event_value EXECUTION_CANCELLED)"

lemma py_str_str_or [simp]: "py_str rp (py_or (PStr s) (PStr [])) = s"
  by (cases s) (simp_all add: py_or_def)

lemma answer_text_cong: "dget s (lit ''partial_answer'') = dget s' (lit ''partial_answer'') \<Longrightarrow> answer_text rp s = answer_text rp s'"
  by (simp add: answer_text_def)

lemma tools_frame:
  "mark_tool_started rp p s = Inr s' \<Longrightarrow> k \<noteq> lit ''active_tools'' \<Longrightarrow> dget s' k = dget s k"
  "mark_tool_finished rp p s = Inr s' \<Longrightarrow> k \<noteq> lit ''active_tools'' \<Longrightarrow> dget s' k = dget s k"
  by (auto simp: mark_tool_started_def mark_tool_finished_def Let_def dict_simps)

lemma reduce_event_answer:
  assumes "reduce_event rp t p s = Inr s'" and "\<not> rewrites_answer (n, t, p)"
  shows "answer_text rp s' = answer_text rp s @ delta_text rp (n, t, p)"
proof (cases "t \<in> range event_value")
  case False
  then have "reduce_event rp t p s = Inr s" by (auto simp: reduce_event_def)
  with assms False show ?thesis by (auto simp: delta_text_def)
next
  case True
  then obtain e where e: "t = event_value e" by auto
  from assms show ?thesis
    by (cases e) (auto simp: reduce_event_def e Let_def rewrites_answer_def delta_text_def
        answer_text_def clear_active_def tools_frame dict_simps)
qed

lemma reduce_projection_answer:
  assumes "reduce_projection rp t p n m s = Inr s'" and "\<not> rewrites_answer (n, t, p)"
  shows "answer_text rp s' = answer_text rp s @ delta_text rp (n, t, p)"
proof -
  from assms(1) obtain s1 where r: "reduce_event rp t p (stamp n t p s) = Inr s1"
    and a: "append_activity m n t p s1 = Inr s'" by (rule reduce_projection_cases)
  have "answer_text rp (stamp n t p s) = answer_text rp s" "answer_text rp s' = answer_text rp s1"
    using a by (auto intro!: answer_text_cong simp: dict_simps append_activity_frame)
  with reduce_event_answer[OF r assms(2)] show ?thesis by simp
qed

text \<open>
  No streamed text is lost or reordered: as long as no event replaces the answer (completion or
  cancellation), the projected partial answer is the previous one followed by the contents of
  the answer deltas, in order.
\<close>
lemma deltas_concatenate:
  assumes "reduce_all rp m s es = Inr s'" and "list_all (\<lambda>e. \<not> rewrites_answer e) es"
  shows "answer_text rp s' = answer_text rp s @ concat (map (delta_text rp) es)"
  using assms
proof (induction es arbitrary: s)
  case (Cons e es)
  obtain n t p where e: "e = (n, t, p)" by (cases e)
  with Cons.prems(1) obtain s1 where r: "reduce_projection rp t p n m s = Inr s1"
    and "reduce_all rp m s1 es = Inr s'" by auto
  moreover from r Cons.prems(2) e have "answer_text rp s1 = answer_text rp s @ delta_text rp e"
    by (simp add: reduce_projection_answer)
  ultimately show ?case using Cons.IH[of s1] Cons.prems(2) by simp
qed simp

section \<open>The open tool calls\<close>

definition active_ids :: "repr \<Rightarrow> pdict \<Rightarrow> pystr list" where
  "active_ids rp s = (case dget s (lit ''active_tools'') of
     PList items \<Rightarrow> map (\<lambda>i. case i of PDict d \<Rightarrow> call_id_of rp d | _ \<Rightarrow> []) items | _ \<Rightarrow> [])"

text \<open>The set of open calls as a specification: started adds, finished removes, the end clears.\<close>

definition open_calls_step :: "repr \<Rightarrow> stream_item \<Rightarrow> pystr set \<Rightarrow> pystr set" where
  "open_calls_step rp item calls = (case item of (n, t, p) \<Rightarrow>
     if t = event_value TOOL_STARTED then insert (call_id_of rp p) calls
     else if t = event_value TOOL_COMPLETED \<or> t = event_value TOOL_FAILED
     then calls - {call_id_of rp p}
     else if t = event_value EXECUTION_COMPLETED \<or> t = event_value EXECUTION_FAILED
       \<or> t = event_value EXECUTION_CANCELLED then {}
     else calls)"

lemma active_ids_cong: "dget s (lit ''active_tools'') = dget s' (lit ''active_tools'') \<Longrightarrow> active_ids rp s = active_ids rp s'"
  by (simp add: active_ids_def)

lemma without_call_ids:
  assumes "without_call rp c items = Inr ys"
  shows "map (\<lambda>i. case i of PDict d \<Rightarrow> call_id_of rp d | _ \<Rightarrow> []) ys
    = filter (\<lambda>x. x \<noteq> c) (map (\<lambda>i. case i of PDict d \<Rightarrow> call_id_of rp d | _ \<Rightarrow> []) items)"
  using assms
proof (induction items arbitrary: ys)
  case (Cons i items)
  then obtain d zs where "i = PDict d" "without_call rp c items = Inr zs"
    and "ys = (if call_id_of rp d \<noteq> c then i # zs else zs)"
    by (cases i) auto
  with Cons.IH show ?case by simp
qed simp

lemma mark_tool_ids:
  assumes "dget s (lit ''active_tools'') = PList items"
  shows "mark_tool_started rp p s = Inr s' \<Longrightarrow>
      active_ids rp s' = filter (\<lambda>x. x \<noteq> call_id_of rp p) (active_ids rp s) @ [call_id_of rp p]"
    and "mark_tool_finished rp p s = Inr s' \<Longrightarrow>
      active_ids rp s' = filter (\<lambda>x. x \<noteq> call_id_of rp p) (active_ids rp s)"
  using assms
  by (auto simp: mark_tool_started_def mark_tool_finished_def Let_def active_ids_def dict_simps
      without_call_ids) (simp add: call_id_of_def dict_simps)

lemma reduce_event_calls:
  assumes "reduce_event rp t p s = Inr s'" and "proj_wf s" and "distinct (active_ids rp s)"
  shows "distinct (active_ids rp s') \<and> set (active_ids rp s') = open_calls_step rp (n, t, p) (set (active_ids rp s))"
proof (cases "t \<in> range event_value")
  case False
  then have "reduce_event rp t p s = Inr s" by (auto simp: reduce_event_def)
  with assms False show ?thesis by (auto simp: open_calls_step_def)
next
  case True
  then obtain e where e: "t = event_value e" by auto
  from assms(2) obtain items where it: "dget s (lit ''active_tools'') = PList items"
    by (auto simp: proj_wf_def)
  have sp: "active_ids rp (set_phase rp q x) = active_ids rp x" for q x
    by (rule active_ids_cong) (simp add: dict_simps)
  have cl: "active_ids rp (clear_active x) = []" for x
    by (simp add: active_ids_def clear_active_def dict_simps)
  have other: "k \<noteq> lit ''active_tools'' \<Longrightarrow> active_ids rp (dput k v x) = active_ids rp x" for k v x
    by (rule active_ids_cong) (simp add: dict_simps)
  show ?thesis
  proof (cases "e \<in> {TOOL_STARTED, TOOL_COMPLETED, TOOL_FAILED}")
    case True
    with assms it show ?thesis
      by (auto simp: reduce_event_def e open_calls_step_def sp mark_tool_ids[OF it] distinct_filter)
  next
    case False
    with assms show ?thesis
      by (cases e) (auto simp: reduce_event_def e Let_def open_calls_step_def sp cl other)
  qed
qed

lemma reduce_projection_calls:
  assumes "reduce_projection rp t p n m s = Inr s'" and "proj_wf s" and "distinct (active_ids rp s)"
  shows "distinct (active_ids rp s') \<and> set (active_ids rp s') = open_calls_step rp (n, t, p) (set (active_ids rp s))"
proof -
  from assms(1) obtain s1 where r: "reduce_event rp t p (stamp n t p s) = Inr s1"
    and a: "append_activity m n t p s1 = Inr s'" by (rule reduce_projection_cases)
  have eq: "active_ids rp (stamp n t p s) = active_ids rp s" "active_ids rp s' = active_ids rp s1"
    using a by (auto intro!: active_ids_cong simp: dict_simps append_activity_frame)
  with reduce_event_calls[OF r stamp_wf[OF assms(2)]] assms(3) show ?thesis by simp
qed

text \<open>
  C10. The active tools shown to an observer refine the set of open calls: after any events from a
  well-formed projection, the call ids listed are distinct and are exactly the calls started
  and neither finished nor swept away by the end of the execution.
\<close>
theorem active_tools_refine_open_calls:
  assumes "reduce_all rp m s es = Inr s'" and "proj_wf s"
    and "list_all (\<lambda>(n, t, p). payload_ok t p) es" and "distinct (active_ids rp s)"
  shows "distinct (active_ids rp s') \<and> set (active_ids rp s') = fold (open_calls_step rp) es (set (active_ids rp s))"
  using assms
proof (induction es arbitrary: s)
  case (Cons e es)
  obtain n t p where e: "e = (n, t, p)" by (cases e)
  with Cons.prems(1) obtain s1 where r: "reduce_projection rp t p n m s = Inr s1"
    and r': "reduce_all rp m s1 es = Inr s'" by auto
  from reduce_projection_total[OF Cons.prems(2), of t p rp n m] Cons.prems(3) e r
  have wf: "proj_wf s1" by auto
  from reduce_projection_calls[OF r Cons.prems(2,4)] e
  have "distinct (active_ids rp s1)" "set (active_ids rp s1) = open_calls_step rp e (set (active_ids rp s))"
    by auto
  with Cons.IH[OF r' wf] Cons.prems(3) show ?case by simp
qed simp

section \<open>Witnesses\<close>

text \<open>
  One concrete execution: a projection whose execution is already completed, a fresh one, and the
  events of a short run with one tool call and a streamed answer.
\<close>

lemmas proj_eval = initial_projection_def phase_from_status_def reduce_projection_def
  reduce_event_def append_activity_def mark_tool_started_def mark_tool_finished_def
  clear_active_def py_or_def call_id_of_def Let_def dict_simps

definition ex_done :: pdict where
  "ex_done = initial_projection (\<lambda>_. []) (lit ''e1'') (Some [(lit ''status'', PStr (lit ''completed''))])"

definition ex_fresh :: pdict where
  "ex_fresh = initial_projection (\<lambda>_. []) (lit ''e1'') None"

definition ex_run :: "stream_item list" where
  "ex_run =
     [(1, event_value EXECUTION_STARTED, [(lit ''session_id'', PStr (lit ''s1''))]),
      (2, event_value TOOL_STARTED, [(lit ''tool_call_id'', PStr (lit ''c1''))]),
      (3, event_value ASSISTANT_DELTA, [(lit ''content'', PStr (lit ''hel''))]),
      (4, event_value ASSISTANT_DELTA, [(lit ''content'', PStr (lit ''lo''))])]"

lemma ex_run_reduces:
  "\<exists>s. reduce_all (\<lambda>_. []) 3 ex_done ex_run = Inr s"
  "\<exists>s. reduce_all (\<lambda>_. []) 3 ex_fresh ex_run = Inr s"
  by (simp_all add: ex_done_def ex_fresh_def ex_run_def proj_eval)

lemma ex_run_ok: "list_all (\<lambda>(n, t, p). payload_ok t p) ex_run"
  by (simp add: ex_run_def payload_ok_def)

lemma ex_fresh_wf: "proj_wf ex_fresh"
  unfolding ex_fresh_def by (rule initial_projection_wf)

theorem terminal_phase_absorbing_witness:
  "\<exists>s. reduce_all (\<lambda>_. []) 3 ex_done ex_run = Inr s \<and> phase_of (\<lambda>_. []) s \<in> set TERMINAL_PHASES"
proof -
  obtain s where s: "reduce_all (\<lambda>_. []) 3 ex_done ex_run = Inr s" using ex_run_reduces by blast
  have "phase_of (\<lambda>_. []) ex_done \<in> set TERMINAL_PHASES"
    by (simp add: ex_done_def phase_of_def TERMINAL_PHASES_def phase_value.simps proj_eval)
  with s show ?thesis using terminal_phase_absorbing[OF s] by blast
qed

theorem activities_bounded_witness:
  "\<exists>s. reduce_all (\<lambda>_. []) 3 ex_fresh ex_run = Inr s \<and> activity_count s \<le> 3"
proof -
  obtain s where s: "reduce_all (\<lambda>_. []) 3 ex_fresh ex_run = Inr s" using ex_run_reduces by blast
  have "activity_count ex_fresh \<le> 3"
    by (simp add: ex_fresh_def activity_count_def proj_eval)
  with s show ?thesis using activities_bounded[OF s] by simp
qed

theorem reduce_all_total_witness: "\<exists>s. reduce_all (\<lambda>_. []) 3 ex_fresh ex_run = Inr s \<and> proj_wf s"
  using reduce_all_total[OF ex_fresh_wf ex_run_ok] .

theorem deltas_concatenate_witness:
  "\<exists>s. reduce_all (\<lambda>_. []) 3 ex_fresh ex_run = Inr s \<and> answer_text (\<lambda>_. []) s = lit ''hello''"
proof -
  obtain s where s: "reduce_all (\<lambda>_. []) 3 ex_fresh ex_run = Inr s" using ex_run_reduces by blast
  have "answer_text (\<lambda>_. []) s
      = answer_text (\<lambda>_. []) ex_fresh @ concat (map (delta_text (\<lambda>_. [])) ex_run)"
    by (rule deltas_concatenate[OF s]) (simp add: ex_run_def rewrites_answer_def)
  also have "\<dots> = lit ''hello''"
    by (simp add: ex_fresh_def ex_run_def answer_text_def delta_text_def proj_eval lit_def)
  finally show ?thesis using s by blast
qed

theorem active_tools_refine_open_calls_witness:
  "\<exists>s. reduce_all (\<lambda>_. []) 3 ex_fresh ex_run = Inr s \<and> set (active_ids (\<lambda>_. []) s) = {lit ''c1''}"
proof -
  obtain s where s: "reduce_all (\<lambda>_. []) 3 ex_fresh ex_run = Inr s" using ex_run_reduces by blast
  have ids: "active_ids (\<lambda>_. []) ex_fresh = []"
    by (simp add: ex_fresh_def active_ids_def proj_eval)
  then have "distinct (active_ids (\<lambda>_. []) s) \<and> set (active_ids (\<lambda>_. []) s)
      = fold (open_calls_step (\<lambda>_. [])) ex_run (set (active_ids (\<lambda>_. []) ex_fresh))"
    by (intro active_tools_refine_open_calls[OF s ex_fresh_wf ex_run_ok]) simp
  then show ?thesis using s
    by (auto simp: ids ex_run_def open_calls_step_def call_id_of_def py_or_def dict_simps)
qed

end
