(* ===== verification/Effects.thy ===== *)
theory Effects
  imports PyValue
begin

text \<open>
  Effectful code: a coroutine of the program is a function from the world to a result or a raised
  exception together with the new world (\<open>act\<close>). The world is a type parameter, so the same
  definitions run over Redis, over the database or over the runtime's own state; what the world
  has done before an exception is raised is kept, as in the code.
\<close>

type_synonym ('w, 'a) act = "'w \<Rightarrow> 'a res \<times> 'w"

definition mret :: "'a \<Rightarrow> ('w, 'a) act" where
  "mret a w = (Inr a, w)"

definition mraise :: "py_exn \<Rightarrow> ('w, 'a) act" where
  "mraise e w = (Inl e, w)"

definition mlift :: "'a res \<Rightarrow> ('w, 'a) act" where
  "mlift r w = (r, w)"

definition mbind :: "('w, 'a) act \<Rightarrow> ('a \<Rightarrow> ('w, 'b) act) \<Rightarrow> ('w, 'b) act" where
  "mbind m f w = (case m w of (Inl e, w') \<Rightarrow> (Inl e, w') | (Inr a, w') \<Rightarrow> f a w')"

definition mtry :: "('w, 'a) act \<Rightarrow> (py_exn \<Rightarrow> ('w, 'a) act) \<Rightarrow> ('w, 'a) act" where
  "mtry m h w = (case m w of (Inl e, w') \<Rightarrow> h e w' | (Inr a, w') \<Rightarrow> (Inr a, w'))"

text \<open>\<open>except Exception\<close> does not catch a cancellation.\<close>

definition mexcept :: "('w, 'a) act \<Rightarrow> (py_exn \<Rightarrow> ('w, 'a) act) \<Rightarrow> ('w, 'a) act" where
  "mexcept m h = mtry m (\<lambda>e. if exn_kind e = CancelledError then mraise e else h e)"

text \<open>\<open>try ... finally\<close>: the cleanup runs on both outcomes, and its own exception wins.\<close>

definition mfinally :: "('w, 'a) act \<Rightarrow> ('w, unit) act \<Rightarrow> ('w, 'a) act" where
  "mfinally m c w =
     (case m w of (r, w') \<Rightarrow> (case c w' of (Inl e, w'') \<Rightarrow> (Inl e, w'') | (Inr _, w'') \<Rightarrow> (r, w'')))"

definition mget :: "('w \<Rightarrow> 'a) \<Rightarrow> ('w, 'a) act" where
  "mget f w = (Inr (f w), w)"

definition mput :: "('w \<Rightarrow> 'w) \<Rightarrow> ('w, unit) act" where
  "mput f w = (Inr (), f w)"

definition mwhen :: "bool \<Rightarrow> ('w, unit) act \<Rightarrow> ('w, unit) act" where
  "mwhen b m = (if b then m else mret ())"

fun mfor :: "'a list \<Rightarrow> ('a \<Rightarrow> ('w, unit) act) \<Rightarrow> ('w, unit) act" where
  "mfor [] f = mret ()"
| "mfor (x # xs) f = mbind (f x) (\<lambda>_. mfor xs f)"

fun mmap :: "('a \<Rightarrow> ('w, 'b) act) \<Rightarrow> 'a list \<Rightarrow> ('w, 'b list) act" where
  "mmap f [] = mret []"
| "mmap f (x # xs) = mbind (f x) (\<lambda>y. mbind (mmap f xs) (\<lambda>ys. mret (y # ys)))"

named_theorems act_simps \<open>running effectful code\<close>

lemma mret_run [act_simps, simp]: "mret a w = (Inr a, w)"
  by (simp add: mret_def)

lemma mraise_run [act_simps, simp]: "mraise e w = (Inl e, w)"
  by (simp add: mraise_def)

lemma mlift_run [act_simps, simp]: "mlift r w = (r, w)"
  by (simp add: mlift_def)

lemma mget_run [act_simps, simp]: "mget f w = (Inr (f w), w)"
  by (simp add: mget_def)

lemma mput_run [act_simps, simp]: "mput f w = (Inr (), f w)"
  by (simp add: mput_def)

lemma mbind_Inr [act_simps]: "m w = (Inr a, w') \<Longrightarrow> mbind m f w = f a w'"
  by (simp add: mbind_def)

lemma mbind_Inl [act_simps]: "m w = (Inl e, w') \<Longrightarrow> mbind m f w = (Inl e, w')"
  by (simp add: mbind_def)

lemma mbind_run [simp]:
  "mbind (mret a) f w = f a w" "mbind (mraise e) f w = (Inl e, w)"
  "mbind (mlift (Inr a)) f w = f a w" "mbind (mlift (Inl e)) f w = (Inl e, w)"
  "mbind (mget g) f w = f (g w) w" "mbind (mput u) h w = h () (u w)"
  by (simp_all add: mbind_def)

lemma mbind_InrD:
  assumes "mbind m f w = (Inr b, w'')"
  obtains a w' where "m w = (Inr a, w')" and "f a w' = (Inr b, w'')"
  using assms by (auto simp: mbind_def split: prod.splits sum.splits)

lemma mbind_assoc: "mbind (mbind m f) g = mbind m (\<lambda>a. mbind (f a) g)"
  by (rule ext) (simp add: mbind_def split: prod.splits sum.splits)

lemma mwhen_simps [simp]: "mwhen True m = m" "mwhen False m = mret ()"
  by (simp_all add: mwhen_def)

section \<open>Invariants of effectful code\<close>

text \<open>
  \<open>holds P m Q\<close>: from a world in \<open>P\<close>, the outcome of \<open>m\<close> and its new world are related by \<open>Q\<close>, whether
  \<open>m\<close> returns or raises. \<open>keeps P m\<close> is the invariant form.
\<close>

definition holds :: "('w \<Rightarrow> bool) \<Rightarrow> ('w, 'a) act \<Rightarrow> ('a res \<Rightarrow> 'w \<Rightarrow> bool) \<Rightarrow> bool" where
  "holds P m Q \<longleftrightarrow> (\<forall>w. P w \<longrightarrow> (case m w of (r, w') \<Rightarrow> Q r w'))"

definition keeps :: "('w \<Rightarrow> bool) \<Rightarrow> ('w, 'a) act \<Rightarrow> bool" where
  "keeps P m \<longleftrightarrow> holds P m (\<lambda>_. P)"

named_theorems keeps_intros \<open>rules for invariants of effectful code\<close>

lemma keepsI: "(\<And>w r w'. P w \<Longrightarrow> m w = (r, w') \<Longrightarrow> P w') \<Longrightarrow> keeps P m"
  by (auto simp: keeps_def holds_def)

lemma keepsD: "keeps P m \<Longrightarrow> P w \<Longrightarrow> m w = (r, w') \<Longrightarrow> P w'"
  by (fastforce simp: keeps_def holds_def)

lemma keeps_mret [keeps_intros]: "keeps P (mret a)"
  and keeps_mraise [keeps_intros]: "keeps P (mraise e)"
  and keeps_mlift [keeps_intros]: "keeps P (mlift r)"
  and keeps_mget [keeps_intros]: "keeps P (mget f)"
  by (auto intro!: keepsI)

lemma keeps_mbind [keeps_intros]: "keeps P m \<Longrightarrow> (\<And>a. keeps P (f a)) \<Longrightarrow> keeps P (mbind m f)"
  by (rule keepsI) (auto simp: mbind_def dest: keepsD split: prod.splits sum.splits)

lemma keeps_mtry [keeps_intros]: "keeps P m \<Longrightarrow> (\<And>e. keeps P (h e)) \<Longrightarrow> keeps P (mtry m h)"
  by (rule keepsI) (auto simp: mtry_def dest: keepsD split: prod.splits sum.splits)

lemma keeps_mfinally [keeps_intros]: "keeps P m \<Longrightarrow> keeps P c \<Longrightarrow> keeps P (mfinally m c)"
  by (rule keepsI) (auto simp: mfinally_def dest: keepsD split: prod.splits sum.splits)

lemma keeps_mput: "(\<And>w. P w \<Longrightarrow> P (f w)) \<Longrightarrow> keeps P (mput f)"
  by (rule keepsI) auto

lemma keeps_mwhen [keeps_intros]: "keeps P m \<Longrightarrow> keeps P (mwhen b m)"
  by (simp add: mwhen_def keeps_mret)

lemma keeps_mfor [keeps_intros]: "(\<And>x. x \<in> set xs \<Longrightarrow> keeps P (f x)) \<Longrightarrow> keeps P (mfor xs f)"
  by (induction xs) (auto intro: keeps_intros)

lemma keeps_mmap [keeps_intros]: "(\<And>x. x \<in> set xs \<Longrightarrow> keeps P (f x)) \<Longrightarrow> keeps P (mmap f xs)"
  by (induction xs) (auto intro!: keeps_intros)

lemma keeps_if [keeps_intros]:
  "(b \<Longrightarrow> keeps P m) \<Longrightarrow> (\<not> b \<Longrightarrow> keeps P n) \<Longrightarrow> keeps P (if b then m else n)"
  by simp

lemma keeps_case_option [keeps_intros]:
  "(x = None \<Longrightarrow> keeps P m) \<Longrightarrow> (\<And>a. x = Some a \<Longrightarrow> keeps P (f a))
     \<Longrightarrow> keeps P (case x of None \<Rightarrow> m | Some a \<Rightarrow> f a)"
  by (cases x) auto

lemma mmap_length: "mmap f xs w = (Inr ys, w') \<Longrightarrow> length ys = length xs"
  by (induction xs arbitrary: w ys w') (auto elim!: mbind_InrD)

section \<open>Total correctness of effectful code\<close>

text \<open>\<open>attains P m Q\<close>: from a world in \<open>P\<close>, \<open>m\<close> returns, does not raise, and ends in \<open>Q\<close>.\<close>

definition attains :: "('w \<Rightarrow> bool) \<Rightarrow> ('w, 'a) act \<Rightarrow> ('a \<Rightarrow> 'w \<Rightarrow> bool) \<Rightarrow> bool" where
  "attains P m Q \<longleftrightarrow> (\<forall>w. P w \<longrightarrow> (\<exists>a w'. m w = (Inr a, w') \<and> Q a w'))"

lemma attainsI: "(\<And>w. P w \<Longrightarrow> \<exists>a w'. m w = (Inr a, w') \<and> Q a w') \<Longrightarrow> attains P m Q"
  by (simp add: attains_def)

lemma attainsD:
  assumes "attains P m Q" and "P w"
  obtains a w' where "m w = (Inr a, w')" and "Q a w'"
  using assms unfolding attains_def by blast

lemma attains_weaken: "attains P m Q \<Longrightarrow> (\<And>a w. Q a w \<Longrightarrow> R a w) \<Longrightarrow> attains P m R"
  unfolding attains_def by blast

lemma attains_mret: "(\<And>w. P w \<Longrightarrow> Q a w) \<Longrightarrow> attains P (mret a) Q"
  by (simp add: attains_def)

lemma attains_mlift: "r = Inr a \<Longrightarrow> (\<And>w. P w \<Longrightarrow> Q a w) \<Longrightarrow> attains P (mlift r) Q"
  by (simp add: attains_def)

lemma attains_mget: "(\<And>w. P w \<Longrightarrow> Q (f w) w) \<Longrightarrow> attains P (mget f) Q"
  by (simp add: attains_def)

lemma attains_mput: "(\<And>w. P w \<Longrightarrow> Q () (u w)) \<Longrightarrow> attains P (mput u) Q"
  by (simp add: attains_def)

lemma attains_mbind:
  assumes "attains P m R" and "\<And>a. attains (R a) (f a) Q"
  shows "attains P (mbind m f) Q"
proof (rule attainsI)
  fix w
  assume "P w"
  then obtain a w1 where m: "m w = (Inr a, w1)" and "R a w1" using attainsD[OF assms(1)] by blast
  then obtain b w2 where "f a w1 = (Inr b, w2)" "Q b w2" using attainsD[OF assms(2)] by blast
  with m show "\<exists>a w'. mbind m f w = (Inr a, w') \<and> Q a w'" by (simp add: mbind_def)
qed

lemma attains_then: "attains P m (\<lambda>_. P) \<Longrightarrow> (\<And>a. attains P (f a) Q) \<Longrightarrow> attains P (mbind m f) Q"
  by (rule attains_mbind)

end
