(* ===== verification/Json.thy ===== *)
theory Json
  imports PyValue
begin

text \<open>
  The part of Python's \<open>json\<close> module the program uses: \<open>json.dumps\<close> with \<open>ensure_ascii=False\<close> and
  either the default or the compact separators, and \<open>json.loads\<close>. The text of a float and the
  value of a fractional literal are parameters (\<open>ftext\<close>, \<open>fvalue\<close>); \<open>NaN\<close> and the infinities are
  not accepted. The parser is a recursive descent with fuel; \<open>json_loads\<close> gives it the length of
  the text, and the round trip shows that this is enough for every text \<open>json_dumps\<close> writes.
\<close>

section \<open>Strings\<close>

definition hex_digit :: "nat \<Rightarrow> pychar" where
  "hex_digit n = (if n < 10 then 48 + n else 87 + n)"

definition esc_char :: "pychar \<Rightarrow> pystr" where
  "esc_char c =
     (if c = 34 then [92, 34] else if c = 92 then [92, 92]
      else if c = 10 then [92, 110] else if c = 13 then [92, 114] else if c = 9 then [92, 116]
      else if c = 12 then [92, 102] else if c = 8 then [92, 98]
      else if c < 32 then [92, 117, 48, 48, hex_digit (c div 16), hex_digit (c mod 16)]
      else [c])"

definition json_quote :: "pystr \<Rightarrow> pystr" where
  "json_quote s = 34 # concat (map esc_char s) @ [34]"

definition hex_val :: "pychar \<Rightarrow> nat option" where
  "hex_val c =
     (if 48 \<le> c \<and> c \<le> 57 then Some (c - 48)
      else if 97 \<le> c \<and> c \<le> 102 then Some (c - 87)
      else if 65 \<le> c \<and> c \<le> 70 then Some (c - 55) else None)"

fun hex4 :: "pystr \<Rightarrow> (nat \<times> pystr) option" where
  "hex4 (a # b # c # d # r) =
     (case (hex_val a, hex_val b, hex_val c, hex_val d) of
        (Some a, Some b, Some c, Some d) \<Rightarrow> Some (((a * 16 + b) * 16 + c) * 16 + d, r)
      | _ \<Rightarrow> None)"
| "hex4 _ = None"

lemma hex4_length: "hex4 s = Some (n, r) \<Longrightarrow> length r < length s"
  by (induction s rule: hex4.induct) (auto split: option.splits)

definition simple_escape :: "pychar \<Rightarrow> pychar option" where
  "simple_escape c =
     (if c = 34 then Some 34 else if c = 92 then Some 92 else if c = 47 then Some 47
      else if c = 98 then Some 8 else if c = 102 then Some 12 else if c = 110 then Some 10
      else if c = 114 then Some 13 else if c = 116 then Some 9 else None)"

text \<open>A \<open>u\<close> escape, with the low half of a surrogate pair taken along when it follows.\<close>

definition unicode_escape :: "pystr \<Rightarrow> (pychar \<times> pystr) option" where
  "unicode_escape s =
     (case hex4 s of
        None \<Rightarrow> None
      | Some (n, r) \<Rightarrow>
          if 55296 \<le> n \<and> n \<le> 56319 \<and> prefix [92, 117] r then
            (case hex4 (drop 2 r) of
               None \<Rightarrow> None
             | Some (m, r') \<Rightarrow>
                 if 56320 \<le> m \<and> m \<le> 57343
                 then Some (65536 + ((n - 55296) * 1024 + (m - 56320)), r')
                 else Some (n, r))
          else Some (n, r))"

lemma unicode_escape_length: "unicode_escape s = Some (n, r) \<Longrightarrow> length r < length s"
proof -
  assume a: "unicode_escape s = Some (n, r)"
  then obtain n1 r1 where h: "hex4 s = Some (n1, r1)" by (auto simp: unicode_escape_def split: option.splits)
  have "length r \<le> length r1"
  proof (cases "hex4 (drop 2 r1)")
    case None
    with a h show ?thesis by (auto simp: unicode_escape_def split: if_splits)
  next
    case (Some mr)
    obtain m r2 where mr: "mr = (m, r2)" by (cases mr)
    with Some have "length r2 < length r1 - 2" using hex4_length by fastforce
    with a h Some mr show ?thesis by (auto simp: unicode_escape_def split: if_splits)
  qed
  with hex4_length[OF h] show ?thesis by simp
qed

text \<open>The rest of a string after its opening quote: control characters are rejected (strict mode).\<close>

function (sequential) json_string :: "pystr \<Rightarrow> (pystr \<times> pystr) option" where
  "json_string [] = None"
| "json_string (c # cs) =
     (if c = 34 then Some ([], cs)
      else if c = 92 then
        (case cs of
           [] \<Rightarrow> None
         | e # es \<Rightarrow>
             if e = 117 then
               (case unicode_escape es of
                  None \<Rightarrow> None
                | Some (u, r) \<Rightarrow> map_option (\<lambda>(t, r'). (u # t, r')) (json_string r))
             else
               (case simple_escape e of
                  None \<Rightarrow> None
                | Some u \<Rightarrow> map_option (\<lambda>(t, r'). (u # t, r')) (json_string es)))
      else if c < 32 then None
      else map_option (\<lambda>(t, r'). (c # t, r')) (json_string cs))"
  by pat_completeness auto
termination
  by (relation "measure length") (auto dest: unicode_escape_length)

lemma hex_digit_val: "n < 16 \<Longrightarrow> hex_val (hex_digit n) = Some n"
  by (auto simp: hex_digit_def hex_val_def)

lemma json_string_esc: "json_string (esc_char c @ r) = map_option (\<lambda>(t, r'). (c # t, r')) (json_string r)"
proof -
  consider "c \<in> {34, 92, 10, 13, 9, 12, 8}" | "c < 32" "c \<notin> {34, 92, 10, 13, 9, 12, 8}"
    | "32 \<le> c" "c \<noteq> 34" "c \<noteq> 92" by force
  then show ?thesis
  proof cases
    case 1
    then show ?thesis by (auto simp: esc_char_def simple_escape_def)
  next
    case 2
    have d: "c div 16 < 16" "c mod 16 < 16" "(c div 16) * 16 + c mod 16 = c" using 2 by auto
    have z: "hex_val 48 = Some 0" by (simp add: hex_val_def)
    have "unicode_escape (48 # 48 # hex_digit (c div 16) # hex_digit (c mod 16) # r) = Some (c, r)"
      using d 2 by (simp add: unicode_escape_def hex_digit_val z)
    with 2 show ?thesis by (simp add: esc_char_def)
  next
    case 3
    then show ?thesis by (auto simp: esc_char_def)
  qed
qed

lemma json_string_quote: "json_string (concat (map esc_char s) @ 34 # r) = Some (s, r)"
  by (induction s) (simp_all add: json_string_esc)

lemma esc_char_no_control: "x \<in> set (esc_char c) \<Longrightarrow> 32 \<le> x"
  by (auto simp: esc_char_def hex_digit_def split: if_splits)

lemma json_quote_no_control: "x \<in> set (json_quote s) \<Longrightarrow> 32 \<le> x"
  by (auto simp: json_quote_def dest: esc_char_no_control)

section \<open>Writing\<close>

record json_style =
  item_sep :: pystr
  key_sep :: pystr
  ftext :: "rat \<Rightarrow> pystr"

definition default_style :: "(rat \<Rightarrow> pystr) \<Rightarrow> json_style" where
  "default_style ft = \<lparr>item_sep = lit '', '', key_sep = lit '': '', ftext = ft\<rparr>"

definition compact_style :: "(rat \<Rightarrow> pystr) \<Rightarrow> json_style" where
  "compact_style ft = \<lparr>item_sep = lit '','', key_sep = lit '':'', ftext = ft\<rparr>"

fun json_dumps :: "json_style \<Rightarrow> pyval \<Rightarrow> pystr"
  and json_items :: "json_style \<Rightarrow> pyval list \<Rightarrow> pystr"
  and json_members :: "json_style \<Rightarrow> pdict \<Rightarrow> pystr" where
  "json_dumps st PNone = lit ''null''"
| "json_dumps st (PBool b) = (if b then lit ''true'' else lit ''false'')"
| "json_dumps st (PInt i) = dec_int i"
| "json_dumps st (PFloat r) = ftext st r"
| "json_dumps st (PStr s) = json_quote s"
| "json_dumps st (PList xs) = 91 # json_items st xs @ [93]"
| "json_dumps st (PTuple xs) = 91 # json_items st xs @ [93]"
| "json_dumps st (PDict d) = 123 # json_members st d @ [125]"
| "json_items st [] = []"
| "json_items st [x] = json_dumps st x"
| "json_items st (x # y # zs) = json_dumps st x @ item_sep st @ json_items st (y # zs)"
| "json_members st [] = []"
| "json_members st [(k, v)] = json_quote k @ key_sep st @ json_dumps st v"
| "json_members st ((k, v) # m # ms) =
     json_quote k @ key_sep st @ json_dumps st v @ item_sep st @ json_members st (m # ms)"

section \<open>Reading\<close>

definition json_ws :: "pychar \<Rightarrow> bool" where
  "json_ws c \<longleftrightarrow> c = 32 \<or> c = 9 \<or> c = 10 \<or> c = 13"

definition skip_ws :: "pystr \<Rightarrow> pystr" where
  "skip_ws s = dropWhile json_ws s"

definition is_digit :: "pychar \<Rightarrow> bool" where
  "is_digit c \<longleftrightarrow> 48 \<le> c \<and> c \<le> 57"

definition digits_value :: "pystr \<Rightarrow> nat" where
  "digits_value s = foldl (\<lambda>n c. n * 10 + (c - 48)) 0 s"

text \<open>The optional fraction and exponent of a number: the text they span and what follows.\<close>

definition json_frac :: "pystr \<Rightarrow> pystr \<times> pystr" where
  "json_frac s =
     (case s of
        [] \<Rightarrow> ([], s)
      | c # cs \<Rightarrow>
          let ds = takeWhile is_digit cs
          in if c = 46 \<and> ds \<noteq> [] then (c # ds, dropWhile is_digit cs) else ([], s))"

definition json_exp :: "pystr \<Rightarrow> pystr \<times> pystr" where
  "json_exp s =
     (case s of
        [] \<Rightarrow> ([], s)
      | c # cs \<Rightarrow>
          if c = 101 \<or> c = 69 then
            let sg = (case cs of [] \<Rightarrow> [] | d # _ \<Rightarrow> if d = 43 \<or> d = 45 then [d] else []);
                rest = drop (length sg) cs;
                ds = takeWhile is_digit rest
            in if ds \<noteq> [] then (c # sg @ ds, dropWhile is_digit rest) else ([], s)
          else ([], s))"

text \<open>The integer part: a single zero, or digits that do not start with one.\<close>

definition json_int_part :: "pystr \<Rightarrow> pystr" where
  "json_int_part s = (case s of [] \<Rightarrow> [] | c # cs \<Rightarrow> if c = 48 then [c] else takeWhile is_digit s)"

definition json_number :: "(pystr \<Rightarrow> rat) \<Rightarrow> pystr \<Rightarrow> (pyval \<times> pystr) option" where
  "json_number fv s =
     (let neg = (case s of [] \<Rightarrow> False | c # _ \<Rightarrow> c = 45);
          body = (if neg then tl s else s);
          ds = json_int_part body;
          rest = drop (length ds) body
      in if ds = [] then None
         else
           let (fr, rest1) = json_frac rest; (ex, rest2) = json_exp rest1
           in if fr = [] \<and> ex = []
              then Some (PInt (if neg then - int (digits_value ds) else int (digits_value ds)), rest2)
              else Some (PFloat (fv ((if neg then [45] else []) @ ds @ fr @ ex)), rest2))"

fun json_value :: "(pystr \<Rightarrow> rat) \<Rightarrow> nat \<Rightarrow> pystr \<Rightarrow> (pyval \<times> pystr) option"
  and json_elems :: "(pystr \<Rightarrow> rat) \<Rightarrow> nat \<Rightarrow> pystr \<Rightarrow> (pyval list \<times> pystr) option"
  and json_pairs :: "(pystr \<Rightarrow> rat) \<Rightarrow> nat \<Rightarrow> pystr \<Rightarrow> (pdict \<times> pystr) option" where
  "json_value fv 0 s = None"
| "json_value fv (Suc n) s =
     (case s of
        [] \<Rightarrow> None
      | c # cs \<Rightarrow>
          if c = 34 then map_option (\<lambda>(t, r). (PStr t, r)) (json_string cs)
          else if c = 123 then
            (if prefix [125] (skip_ws cs) then Some (PDict [], tl (skip_ws cs))
             else map_option (\<lambda>(d, r). (PDict (dmerge [] d), r)) (json_pairs fv n (skip_ws cs)))
          else if c = 91 then
            (if prefix [93] (skip_ws cs) then Some (PList [], tl (skip_ws cs))
             else map_option (\<lambda>(xs, r). (PList xs, r)) (json_elems fv n (skip_ws cs)))
          else if prefix (lit ''null'') s then Some (PNone, drop 4 s)
          else if prefix (lit ''true'') s then Some (PBool True, drop 4 s)
          else if prefix (lit ''false'') s then Some (PBool False, drop 5 s)
          else json_number fv s)"
| "json_elems fv 0 s = None"
| "json_elems fv (Suc n) s =
     (case json_value fv n s of
        None \<Rightarrow> None
      | Some (v, r) \<Rightarrow>
          (case skip_ws r of
             [] \<Rightarrow> None
           | c # cs \<Rightarrow>
               if c = 93 then Some ([v], cs)
               else if c = 44 then map_option (\<lambda>(vs, r'). (v # vs, r')) (json_elems fv n (skip_ws cs))
               else None))"
| "json_pairs fv 0 s = None"
| "json_pairs fv (Suc n) s =
     (if \<not> prefix [34] s then None
      else
        (case json_string (tl s) of
           None \<Rightarrow> None
         | Some (k, r) \<Rightarrow>
             if \<not> prefix [58] (skip_ws r) then None
             else
               (case json_value fv n (skip_ws (tl (skip_ws r))) of
                  None \<Rightarrow> None
                | Some (v, r1) \<Rightarrow>
                    (case skip_ws r1 of
                       [] \<Rightarrow> None
                     | c # cs \<Rightarrow>
                         if c = 125 then Some ([(k, v)], cs)
                         else if c = 44 then
                           map_option (\<lambda>(ms, r'). ((k, v) # ms, r')) (json_pairs fv n (skip_ws cs))
                         else None))))"

text \<open>\<open>json.loads\<close>: one value, with blanks around it and nothing after; \<open>None\<close> is \<open>JSONDecodeError\<close>.\<close>

definition json_loads :: "(pystr \<Rightarrow> rat) \<Rightarrow> pystr \<Rightarrow> pyval option" where
  "json_loads fv s =
     (case json_value fv (Suc (length s)) (skip_ws s) of
        None \<Rightarrow> None
      | Some (v, r) \<Rightarrow> if skip_ws r = [] then Some v else None)"

section \<open>Reading back what was written\<close>

text \<open>
  The values that survive: no tuple (it comes back as a list), no repeated key, and only floats of
  a set \<open>fok\<close> on which the text of a float and its reading agree (\<open>floats_ok\<close>).
\<close>

fun json_ok :: "(rat \<Rightarrow> bool) \<Rightarrow> pyval \<Rightarrow> bool" where
  "json_ok fok (PFloat r) = fok r"
| "json_ok fok (PTuple xs) = False"
| "json_ok fok (PList xs) = (\<forall>x \<in> set xs. json_ok fok x)"
| "json_ok fok (PDict d) = (distinct (map fst d) \<and> (\<forall>m \<in> set d. json_ok fok (snd m)))"
| "json_ok fok v = True"

fun json_need :: "pyval \<Rightarrow> nat"
  and items_need :: "pyval list \<Rightarrow> nat"
  and members_need :: "pdict \<Rightarrow> nat" where
  "json_need (PList xs) = Suc (items_need xs)"
| "json_need (PTuple xs) = Suc (items_need xs)"
| "json_need (PDict d) = Suc (members_need d)"
| "json_need PNone = 1"
| "json_need (PBool b) = 1"
| "json_need (PInt i) = 1"
| "json_need (PFloat x) = 1"
| "json_need (PStr s) = 1"
| "items_need [] = 0"
| "items_need (x # xs) = Suc (max (json_need x) (items_need xs))"
| "members_need [] = 0"
| "members_need ((k, v) # ms) = Suc (max (json_need v) (members_need ms))"

definition style_ok :: "json_style \<Rightarrow> bool" where
  "style_ok st \<longleftrightarrow>
     (\<exists>a b. item_sep st = 44 # a \<and> key_sep st = 58 # b \<and> list_all json_ws a \<and> list_all json_ws b)"

lemma style_ok_styles: "style_ok (default_style ft)" "style_ok (compact_style ft)"
  by (simp_all add: style_ok_def default_style_def compact_style_def lit_def json_ws_def)

text \<open>A rest of the text that cannot prolong a number.\<close>

definition ends_number :: "pystr \<Rightarrow> bool" where
  "ends_number r \<longleftrightarrow> (case r of [] \<Rightarrow> True | c # _ \<Rightarrow> \<not> is_digit c \<and> c \<noteq> 46 \<and> c \<noteq> 101 \<and> c \<noteq> 69)"

definition floats_ok :: "json_style \<Rightarrow> (pystr \<Rightarrow> rat) \<Rightarrow> (rat \<Rightarrow> bool) \<Rightarrow> bool" where
  "floats_ok st fv fok \<longleftrightarrow>
     (\<forall>r. fok r \<longrightarrow>
        ftext st r \<noteq> [] \<and> (hd (ftext st r) = 45 \<or> is_digit (hd (ftext st r)))
        \<and> (\<forall>rest. ends_number rest \<longrightarrow> json_number fv (ftext st r @ rest) = Some (PFloat r, rest)))"

lemma floats_ok_none [simp]: "floats_ok st fv (\<lambda>_. False)"
  by (simp add: floats_ok_def)

lemma skip_ws_append: "list_all json_ws a \<Longrightarrow> skip_ws (a @ s) = skip_ws s"
  by (induction a) (auto simp: skip_ws_def)

lemma skip_ws_hd: "s = [] \<or> \<not> json_ws (hd s) \<Longrightarrow> skip_ws s = s"
  by (cases s) (auto simp: skip_ws_def)

lemma dec_nat_hd: "n \<noteq> 0 \<Longrightarrow> hd (dec_nat n) \<noteq> 48"
proof (induction n rule: dec_nat.induct)
  case (1 n)
  then show ?case by (subst dec_nat.simps) (auto simp: div_eq_0_iff)
qed

lemma digits_value_snoc: "digits_value (s @ [c]) = digits_value s * 10 + (c - 48)"
  by (simp add: digits_value_def)

lemma digits_value_dec_nat: "digits_value (dec_nat n) = n"
proof (induction n rule: dec_nat.induct)
  case (1 n)
  show ?case
  proof (cases "n < 10")
    case True
    then show ?thesis by (simp add: dec_nat.simps[of n] digits_value_def)
  next
    case False
    with 1 show ?thesis by (simp add: dec_nat.simps[of n] digits_value_snoc)
  qed
qed

lemma takeWhile_digits:
  assumes "\<forall>c \<in> set ds. is_digit c" and "ends_number r"
  shows "takeWhile is_digit (ds @ r) = ds"
  using assms by (cases r) (auto simp: ends_number_def takeWhile_append)

lemma json_number_dec:
  assumes "ends_number r"
  shows "json_number fv (dec_int i @ r) = Some (PInt i, r)"
proof -
  have dig: "\<forall>c \<in> set (dec_nat n). is_digit c" for n
    by (auto simp: is_digit_def dest: dec_nat_digits)
  have tail: "json_frac r = ([], r)" "json_exp r = ([], r)"
    using assms by (auto simp: json_frac_def json_exp_def ends_number_def split: list.splits)
  have pick: "json_int_part (dec_nat n @ r) = dec_nat n" for n
  proof (cases "n = 0")
    case True
    then show ?thesis by (simp add: dec_nat.simps[of 0] json_int_part_def)
  next
    case False
    obtain c cs where c: "dec_nat n = c # cs" by (cases "dec_nat n") auto
    with dec_nat_hd[OF False] have "c \<noteq> 48" by simp
    with c takeWhile_digits[OF dig assms, of n] show ?thesis by (simp add: json_int_part_def)
  qed
  show ?thesis
  proof (cases "i < 0")
    case True
    then show ?thesis
      using pick[of "nat (- i)"]
      by (simp add: json_number_def dec_int_def Let_def tail digits_value_dec_nat)
  next
    case False
    obtain c cs where c: "dec_nat (nat i) = c # cs" by (cases "dec_nat (nat i)") auto
    then have "c \<noteq> 45" using dig[of "nat i"] by (auto simp: is_digit_def)
    then show ?thesis
      using False c pick[of "nat i"] digits_value_dec_nat[of "nat i"]
      by (auto simp: json_number_def dec_int_def Let_def tail)
  qed
qed

lemma json_dumps_hd:
  assumes "json_ok fok v" and "floats_ok st fv fok"
  shows "json_dumps st v \<noteq> [] \<and> \<not> json_ws (hd (json_dumps st v))
    \<and> hd (json_dumps st v) \<noteq> 93 \<and> hd (json_dumps st v) \<noteq> 125"
proof (cases v)
  case (PInt i)
  obtain c cs where c: "dec_int i = c # cs" by (cases "dec_int i") auto
  then have "c = 45 \<or> 48 \<le> c \<and> c \<le> 57" using dec_int_chars[of c i] by simp
  with PInt c show ?thesis by (auto simp: json_ws_def)
next
  case (PFloat r)
  then show ?thesis using assms by (fastforce simp: floats_ok_def json_ws_def is_digit_def)
qed (use assms in \<open>auto simp: json_ws_def json_quote_def lit_def\<close>)

lemma json_value_number:
  assumes "s \<noteq> []" and "hd s = 45 \<or> is_digit (hd s)"
  shows "json_value fv (Suc n) (s @ r) = json_number fv (s @ r)"
proof -
  obtain c cs where c: "s = c # cs" using assms(1) by (cases s) auto
  with assms(2) have "c \<notin> {34, 123, 91, 110, 116, 102}" by (auto simp: is_digit_def)
  with c show ?thesis by (simp add: lit_def)
qed

lemma json_value_int:
  assumes "ends_number r"
  shows "json_value fv (Suc n) (dec_int i @ r) = Some (PInt i, r)"
proof -
  have "hd (dec_int i) \<in> set (dec_int i)" by simp
  then have "hd (dec_int i) = 45 \<or> is_digit (hd (dec_int i))"
    using dec_int_chars[of "hd (dec_int i)" i] by (simp add: is_digit_def)
  from json_value_number[OF dec_int_not_Nil this] show ?thesis
    by (simp only: json_number_dec[OF assms])
qed

lemma members_not_Nil: "ms \<noteq> [] \<Longrightarrow> \<exists>cs. json_members st ms = 34 # cs"
  by (induction st ms rule: json_dumps_json_items_json_members.induct(3)[where P = "\<lambda>_ _. True" and Q = "\<lambda>_ _. True"])
    (auto simp: json_quote_def)

lemma members_hd: "ms \<noteq> [] \<Longrightarrow> prefix [34] (json_members st ms)"
  using members_not_Nil[of ms st] by auto

text \<open>A dictionary with distinct keys is rebuilt pair by pair.\<close>

lemma dput_new: "k \<notin> fst ` set d \<Longrightarrow> dput k v d = d @ [(k, v)]"
  by (induction d) (auto simp: dput_def)

lemma dmerge_new: "distinct (map fst (a @ d)) \<Longrightarrow> dmerge a d = a @ d"
proof (induction d arbitrary: a)
  case (Cons m d)
  obtain k v where m: "m = (k, v)" by (cases m)
  with Cons.prems have "dput k v a = a @ [(k, v)]" by (intro dput_new) auto
  with Cons m show ?case by (simp add: dmerge_def)
qed (simp add: dmerge_def)

lemma json_items_Cons:
  "xs \<noteq> [] \<Longrightarrow> json_items st (x # xs) = json_dumps st x @ item_sep st @ json_items st xs"
  by (cases xs) auto

lemma json_members_Cons:
  "ms \<noteq> [] \<Longrightarrow> json_members st ((k, v) # ms)
     = json_quote k @ key_sep st @ json_dumps st v @ item_sep st @ json_members st ms"
  by (cases ms) auto

lemma json_items_hd:
  "floats_ok st fv fok \<Longrightarrow> xs \<noteq> [] \<Longrightarrow> \<forall>x \<in> set xs. json_ok fok x \<Longrightarrow>
     json_items st xs \<noteq> [] \<and> \<not> json_ws (hd (json_items st xs)) \<and> hd (json_items st xs) \<noteq> 93"
  using json_dumps_hd[of fok _ st fv] by (cases xs; cases "tl xs") (auto simp: json_items_Cons)

lemma ends_number_simps [simp]:
  "ends_number []" "ends_number (93 # r)" "ends_number (125 # r)" "ends_number (44 # r)"
  by (simp_all add: ends_number_def is_digit_def)

lemma json_round_trip_step:
  assumes "style_ok st" and fl: "floats_ok st fv fok"
  shows "json_ok fok v \<Longrightarrow> json_need v \<le> n \<Longrightarrow> ends_number r \<Longrightarrow>
           json_value fv n (json_dumps st v @ r) = Some (v, r)"
    and "xs \<noteq> [] \<Longrightarrow> \<forall>x \<in> set xs. json_ok fok x \<Longrightarrow> items_need xs \<le> n \<Longrightarrow>
           json_elems fv n (json_items st xs @ 93 # r) = Some (xs, r)"
    and "ms \<noteq> [] \<Longrightarrow> \<forall>m \<in> set ms. json_ok fok (snd m) \<Longrightarrow> members_need ms \<le> n \<Longrightarrow>
           json_pairs fv n (json_members st ms @ 125 # r) = Some (ms, r)"
proof (induction v and xs and ms arbitrary: n r and n r and n r rule: json_need_items_need_members_need.induct)
  case (1 xs)
  then obtain m where n: "n = Suc m" by (cases n) auto
  show ?case
  proof (cases "xs = []")
    case True
    then show ?thesis by (simp add: n skip_ws_def json_ws_def)
  next
    case False
    from 1 n False have ih: "json_elems fv m (json_items st xs @ 93 # r) = Some (xs, r)" by simp
    from json_items_hd[OF fl False] "1.prems"
    have "json_items st xs \<noteq> []" "\<not> json_ws (hd (json_items st xs))" "hd (json_items st xs) \<noteq> 93" by auto
    then have "skip_ws (json_items st xs @ 93 # r) = json_items st xs @ 93 # r"
      "\<not> prefix [93] (json_items st xs @ 93 # r)"
      by (auto intro!: skip_ws_hd simp: neq_Nil_conv)
    with ih show ?thesis by (simp add: n)
  qed
next
  case (2 xs)
  then show ?case by simp
next
  case (3 d)
  then obtain m where n: "n = Suc m" by (cases n) auto
  show ?case
  proof (cases "d = []")
    case True
    then show ?thesis by (simp add: n skip_ws_def json_ws_def)
  next
    case False
    from 3 n False have ih: "json_pairs fv m (json_members st d @ 125 # r) = Some (d, r)" by auto
    from members_not_Nil[OF False, of st] obtain cs where cs: "json_members st d = 34 # cs" by blast
    then have "skip_ws (json_members st d @ 125 # r) = json_members st d @ 125 # r"
      "\<not> prefix [125] (json_members st d @ 125 # r)"
      by (auto intro!: skip_ws_hd simp: json_ws_def)
    moreover have "dmerge [] d = d" using "3.prems" dmerge_new[of "[]" d] by simp
    ultimately show ?thesis using ih by (simp add: n)
  qed
next
  case 4
  then show ?case by (cases n) (auto simp: lit_def)
next
  case (5 b)
  then show ?case by (cases n) (auto simp: lit_def)
next
  case (6 i)
  then obtain m where n: "n = Suc m" by (cases n) auto
  from json_value_int[OF "6.prems"(3), of fv m i] show ?case by (simp only: n json_dumps.simps)
next
  case (7 x)
  then obtain m where n: "n = Suc m" by (cases n) auto
  from 7 fl have f: "ftext st x \<noteq> []" "hd (ftext st x) = 45 \<or> is_digit (hd (ftext st x))"
    "json_number fv (ftext st x @ r) = Some (PFloat x, r)"
    by (auto simp: floats_ok_def)
  show ?case by (simp only: n json_dumps.simps json_value_number[OF f(1,2)] f(3))
next
  case (8 s)
  then show ?case by (cases n) (auto simp: json_quote_def json_string_quote)
next
  case 9
  then show ?case by simp
next
  case (10 x xs)
  then obtain m where n: "n = Suc m" by (cases n) auto
  from assms(1) obtain a where a: "item_sep st = 44 # a" "list_all json_ws a" by (auto simp: style_ok_def)
  have x: "json_ok fok x" "json_need x \<le> m" using "10.prems" n by auto
  show ?case
  proof (cases "xs = []")
    case True
    from "10.IH"(1)[OF x, of "93 # r"] True show ?thesis
      by (simp add: n skip_ws_def json_ws_def)
  next
    case False
    have rest: "json_elems fv m (json_items st xs @ 93 # r) = Some (xs, r)"
      using "10.IH"(2)[OF False] "10.prems" n by auto
    have "\<not> json_ws (hd (json_items st xs @ 93 # r))"
      using json_items_hd[OF fl False] "10.prems" by (auto simp: neq_Nil_conv)
    then have sk: "skip_ws (a @ json_items st xs @ 93 # r) = json_items st xs @ 93 # r"
      by (simp add: skip_ws_append[OF a(2)] skip_ws_hd)
    from "10.IH"(1)[OF x, of "44 # a @ json_items st xs @ 93 # r"] rest sk False show ?thesis
      by (simp add: n json_items_Cons a(1)) (simp add: skip_ws_def json_ws_def)
  qed
next
  case 11
  then show ?case by simp
next
  case (12 k v ms)
  then obtain m where n: "n = Suc m" by (cases n) auto
  from assms(1) obtain a b where a: "item_sep st = 44 # a" "list_all json_ws a"
    and b: "key_sep st = 58 # b" "list_all json_ws b" by (auto simp: style_ok_def)
  have v: "json_ok fok v" "json_need v \<le> m" using "12.prems" n by auto
  have colon: "skip_ws (58 # t) = 58 # t" "skip_ws (125 # t) = 125 # t" "skip_ws (44 # t) = 44 # t" for t
    by (simp_all add: skip_ws_def json_ws_def)
  have sv: "skip_ws (b @ json_dumps st v @ t) = json_dumps st v @ t" for t
    using json_dumps_hd[OF v(1) fl] by (simp add: skip_ws_append[OF b(2)]) (rule skip_ws_hd, simp)
  show ?case
  proof (cases "ms = []")
    case True
    from "12.IH"(1)[OF v, of "125 # r"] True sv show ?thesis
      by (simp add: n json_quote_def json_string_quote b(1) colon)
  next
    case False
    have rest: "json_pairs fv m (json_members st ms @ 125 # r) = Some (ms, r)"
      using "12.IH"(2)[OF False] "12.prems" n by auto
    obtain cs where "json_members st ms = 34 # cs" using members_not_Nil[OF False] by blast
    then have sk: "skip_ws (a @ json_members st ms @ 125 # r) = json_members st ms @ 125 # r"
      by (simp add: skip_ws_append[OF a(2)]) (simp add: skip_ws_def json_ws_def)
    from "12.IH"(1)[OF v, of "44 # a @ json_members st ms @ 125 # r"] rest sk sv False show ?thesis
      by (simp add: n json_members_Cons json_quote_def json_string_quote a(1) b(1) colon)
  qed
qed

text \<open>The fuel \<open>json_loads\<close> starts with is enough: every node of a value writes at least one character.\<close>

lemma json_need_length:
  assumes "style_ok st" and fl: "floats_ok st fv fok"
  shows "json_ok fok v \<Longrightarrow> json_need v \<le> length (json_dumps st v)"
    and "\<forall>x \<in> set xs. json_ok fok x \<Longrightarrow> items_need xs \<le> Suc (length (json_items st xs))"
    and "\<forall>m \<in> set ms. json_ok fok (snd m) \<Longrightarrow> members_need ms \<le> Suc (length (json_members st ms))"
proof (induction v and xs and ms rule: json_need_items_need_members_need.induct)
  case (10 x xs)
  have "json_dumps st x \<noteq> []" using json_dumps_hd[of fok x st fv] "10.prems" fl by auto
  then obtain c cs where "json_dumps st x = c # cs" by (cases "json_dumps st x") auto
  moreover have "json_need x \<le> length (json_dumps st x)" using 10 by simp
  moreover have "items_need xs \<le> Suc (length (json_items st xs))" using 10 by simp
  moreover have "items_need [] = 0" by simp
  ultimately show ?case by (cases "xs = []") (auto simp: json_items_Cons)
next
  case (12 k v ms)
  have "json_need v \<le> length (json_dumps st v)" using 12 by simp
  moreover have "members_need ms \<le> Suc (length (json_members st ms))" using 12 by simp
  ultimately show ?case by (cases "ms = []") (auto simp: json_members_Cons json_quote_def)
qed (use fl in \<open>auto simp: json_quote_def Suc_le_eq floats_ok_def\<close>)

lemma json_round_trip:
  assumes "style_ok st" and "floats_ok st fv fok" and "json_ok fok v"
  shows "json_loads fv (json_dumps st v) = Some v"
proof -
  have "skip_ws (json_dumps st v) = json_dumps st v"
    using json_dumps_hd[OF assms(3,2)] by (intro skip_ws_hd) simp
  moreover have "json_value fv (Suc (length (json_dumps st v))) (json_dumps st v @ []) = Some (v, [])"
    by (rule json_round_trip_step(1)[OF assms]) (use json_need_length(1)[OF assms] in auto)
  ultimately show ?thesis by (simp add: json_loads_def skip_ws_def)
qed

end
