(* ===== verification/EventLog.thy ===== *)
theory EventLog
  imports Effects Projection_Props Json
begin

text \<open>
  The realtime store of an execution: the Redis stream of its public events
  (\<open>cache/event_stream.py\<close>) and its hot projection (\<open>cache/execution_state.py\<close>). Redis itself is a
  service: \<open>redis_api\<close> names the commands the code sends, and the locale \<open>redis_server\<close> states the
  documented effect of each on what a client can read back.
\<close>

section \<open>Redis commands\<close>

text \<open>An entry of a stream is its id and its fields; every key is a string of the one key space.\<close>

type_synonym stream_entry = "pystr \<times> (pystr \<times> pystr) list"

record 'w redis_api =
  rd_incr :: "pystr \<Rightarrow> ('w, int) act"
  rd_xadd :: "pystr \<Rightarrow> (pystr \<times> pystr) list \<Rightarrow> nat \<Rightarrow> ('w, pystr) act"
  rd_xread :: "pystr \<Rightarrow> pystr \<Rightarrow> nat \<Rightarrow> nat \<Rightarrow> ('w, (pystr \<times> stream_entry list) list) act"
  rd_xrange :: "pystr \<Rightarrow> nat \<Rightarrow> ('w, stream_entry list) act"
  rd_xrevrange :: "pystr \<Rightarrow> nat \<Rightarrow> ('w, stream_entry list) act"
  rd_expire :: "pystr \<Rightarrow> nat \<Rightarrow> ('w, unit) act"
  rd_set :: "pystr \<Rightarrow> pystr \<Rightarrow> nat \<Rightarrow> ('w, unit) act"
  rd_get :: "pystr \<Rightarrow> ('w, pystr option) act"

text \<open>How Python values become text and back: \<open>repr\<close>, the text of a float and its reading.\<close>

record py_text =
  tx_repr :: repr
  tx_float :: "rat \<Rightarrow> pystr"
  tx_read :: "pystr \<Rightarrow> rat"

definition dumps :: "py_text \<Rightarrow> pyval \<Rightarrow> pystr" where
  "dumps tx v = json_dumps (default_style (tx_float tx)) v"

definition loads :: "py_text \<Rightarrow> pystr \<Rightarrow> pyval res" where
  "loads tx s = (case json_loads (tx_read tx) s of
     None \<Rightarrow> Inl (Exn ValueError (lit ''JSONDecodeError'')) | Some v \<Rightarrow> Inr v)"

section \<open>The event stream\<close>

record stream_event =
  se_stream_id :: pystr
  se_sequence :: int
  se_event_type :: pystr
  se_payload :: pyval

record stream_conf =
  sc_key_prefix :: pystr
  sc_maxlen :: nat
  sc_ttl_seconds :: nat
  sc_read_block_ms :: nat
  sc_read_count :: nat

text \<open>\<open>key_prefix.strip(":")\<close>; an empty prefix is refused by the constructor.\<close>

definition strip_colons :: "pystr \<Rightarrow> pystr" where
  "strip_colons s = strip_end (\<lambda>c. c = 58) (dropWhile (\<lambda>c. c = 58) s)"

definition new_event_stream :: "pystr \<Rightarrow> nat \<Rightarrow> nat \<Rightarrow> nat \<Rightarrow> nat \<Rightarrow> stream_conf res" where
  "new_event_stream key_prefix maxlen ttl_seconds read_block_ms read_count =
     (let normalized_prefix = strip_colons key_prefix
      in if normalized_prefix = [] then Inl (Exn ValueError (lit ''Redis key prefix cannot be empty''))
         else Inr \<lparr>sc_key_prefix = normalized_prefix, sc_maxlen = maxlen, sc_ttl_seconds = ttl_seconds,
                   sc_read_block_ms = read_block_ms, sc_read_count = read_count\<rparr>)"

definition execution_key :: "pystr \<Rightarrow> pystr \<Rightarrow> pystr \<Rightarrow> pystr" where
  "execution_key key_prefix execution_id kind = key_prefix @ lit '':execution:'' @ execution_id @ lit '':'' @ kind"

definition stream_key :: "stream_conf \<Rightarrow> pystr \<Rightarrow> pystr" where
  "stream_key c execution_id = execution_key (sc_key_prefix c) execution_id (lit ''events'')"

definition sequence_key :: "stream_conf \<Rightarrow> pystr \<Rightarrow> pystr" where
  "sequence_key c execution_id = execution_key (sc_key_prefix c) execution_id (lit ''sequence'')"

definition event_fields :: "py_text \<Rightarrow> int \<Rightarrow> pystr \<Rightarrow> pdict \<Rightarrow> (pystr \<times> pystr) list" where
  "event_fields tx sequence event_type payload =
     [(lit ''sequence'', dec_int sequence), (lit ''type'', event_type),
      (lit ''payload'', dumps tx (PDict payload))]"

definition es_append ::
  "py_text \<Rightarrow> 'w redis_api \<Rightarrow> stream_conf \<Rightarrow> pystr \<Rightarrow> pystr \<Rightarrow> pdict \<Rightarrow> ('w, stream_event) act" where
  "es_append tx api c execution_id event_type payload =
     mbind (rd_incr api (sequence_key c execution_id)) (\<lambda>sequence.
     mbind (rd_xadd api (stream_key c execution_id) (event_fields tx sequence event_type payload)
              (sc_maxlen c)) (\<lambda>stream_id.
       mret \<lparr>se_stream_id = stream_id, se_sequence = sequence, se_event_type = event_type,
             se_payload = PDict payload\<rparr>))"

definition decode_message :: "py_text \<Rightarrow> stream_entry \<Rightarrow> stream_event res" where
  "decode_message tx m =
     (case m of (stream_id, flds) \<Rightarrow>
        (case map_of flds (lit ''sequence'') of
           None \<Rightarrow> Inl (Exn KeyError (lit ''sequence''))
         | Some sq \<Rightarrow>
             rbind (py_int (PStr sq)) (\<lambda>sequence.
             (case map_of flds (lit ''type'') of
                None \<Rightarrow> Inl (Exn KeyError (lit ''type''))
              | Some event_type \<Rightarrow>
                  (case map_of flds (lit ''payload'') of
                     None \<Rightarrow> Inl (Exn KeyError (lit ''payload''))
                   | Some raw \<Rightarrow>
                       rbind (loads tx raw) (\<lambda>payload.
                         Inr \<lparr>se_stream_id = stream_id, se_sequence = sequence,
                              se_event_type = event_type, se_payload = payload\<rparr>))))))"

definition decode_messages :: "py_text \<Rightarrow> stream_entry list \<Rightarrow> stream_event list res" where
  "decode_messages tx = mapM_res (decode_message tx)"

definition es_read ::
  "py_text \<Rightarrow> 'w redis_api \<Rightarrow> stream_conf \<Rightarrow> pystr \<Rightarrow> pystr \<Rightarrow> ('w, stream_event list) act" where
  "es_read tx api c execution_id after =
     mbind (rd_xread api (stream_key c execution_id) after (sc_read_count c) (sc_read_block_ms c)) (\<lambda>result.
     mbind (mlift (mapM_res (\<lambda>(_, messages). decode_messages tx messages) result)) (\<lambda>events.
       mret (concat events)))"

definition es_retained ::
  "py_text \<Rightarrow> 'w redis_api \<Rightarrow> stream_conf \<Rightarrow> pystr \<Rightarrow> ('w, stream_event list) act" where
  "es_retained tx api c execution_id =
     mbind (rd_xrange api (stream_key c execution_id) (sc_maxlen c)) (\<lambda>messages.
       mlift (decode_messages tx messages))"

definition es_latest ::
  "py_text \<Rightarrow> 'w redis_api \<Rightarrow> stream_conf \<Rightarrow> pystr \<Rightarrow> ('w, stream_event option) act" where
  "es_latest tx api c execution_id =
     mbind (rd_xrevrange api (stream_key c execution_id) 1) (\<lambda>messages.
     mbind (mlift (decode_messages tx messages)) (\<lambda>decoded.
       mret (case decoded of [] \<Rightarrow> None | e # _ \<Rightarrow> Some e)))"

definition es_expire :: "'w redis_api \<Rightarrow> stream_conf \<Rightarrow> pystr \<Rightarrow> ('w, unit) act" where
  "es_expire api c execution_id =
     mbind (rd_expire api (stream_key c execution_id) (sc_ttl_seconds c)) (\<lambda>_.
       rd_expire api (sequence_key c execution_id) (sc_ttl_seconds c))"

section \<open>The hot state\<close>

record hot_conf =
  hc_key_prefix :: pystr
  hc_ttl_seconds :: nat

definition new_hot_state :: "pystr \<Rightarrow> nat \<Rightarrow> hot_conf res" where
  "new_hot_state key_prefix ttl_seconds =
     (let normalized_prefix = strip_colons key_prefix
      in if normalized_prefix = [] then Inl (Exn ValueError (lit ''Redis key prefix cannot be empty''))
         else Inr \<lparr>hc_key_prefix = normalized_prefix, hc_ttl_seconds = ttl_seconds\<rparr>)"

definition state_key :: "hot_conf \<Rightarrow> pystr \<Rightarrow> pystr" where
  "state_key c execution_id = execution_key (hc_key_prefix c) execution_id (lit ''state'')"

definition hs_set :: "py_text \<Rightarrow> 'w redis_api \<Rightarrow> hot_conf \<Rightarrow> pystr \<Rightarrow> pdict \<Rightarrow> ('w, unit) act" where
  "hs_set tx api c execution_id state =
     rd_set api (state_key c execution_id) (dumps tx (PDict state)) (hc_ttl_seconds c)"

text \<open>A missing key and a stored \<open>null\<close> both read as \<open>None\<close>.\<close>

definition hs_get :: "py_text \<Rightarrow> 'w redis_api \<Rightarrow> hot_conf \<Rightarrow> pystr \<Rightarrow> ('w, pyval) act" where
  "hs_get tx api c execution_id =
     mbind (rd_get api (state_key c execution_id)) (\<lambda>raw.
       mlift (case raw of None \<Rightarrow> Inr PNone | Some s \<Rightarrow> loads tx s))"

definition hs_expire :: "'w redis_api \<Rightarrow> hot_conf \<Rightarrow> pystr \<Rightarrow> ('w, unit) act" where
  "hs_expire api c execution_id = rd_expire api (state_key c execution_id) (hc_ttl_seconds c)"

section \<open>The keys of different executions and kinds never meet\<close>

lemma execution_key_kind:
  assumes "execution_key p e k = execution_key q f l" and "last k \<noteq> last l" and "k \<noteq> []" and "l \<noteq> []"
  shows False
proof -
  have "last (execution_key p e k) = last k" "last (execution_key q f l) = last l"
    using assms(3,4) by (simp_all add: execution_key_def)
  with assms(1,2) show False by simp
qed

lemma execution_key_id [simp]: "execution_key p e k = execution_key p f k \<longleftrightarrow> e = f"
  by (simp add: execution_key_def)

lemma stream_key_inj [simp]: "stream_key c e = stream_key c f \<longleftrightarrow> e = f"
  and sequence_key_inj [simp]: "sequence_key c e = sequence_key c f \<longleftrightarrow> e = f"
  and state_key_inj [simp]: "state_key h e = state_key h f \<longleftrightarrow> e = f"
  by (simp_all add: stream_key_def sequence_key_def state_key_def)

lemma sequence_state_apart:
  "execution_key p e (lit ''sequence'') \<noteq> execution_key q f (lit ''state'')"
proof
  assume "execution_key p e (lit ''sequence'') = execution_key q f (lit ''state'')"
  then have "rev (execution_key p e (lit ''sequence'')) ! 1 = rev (execution_key q f (lit ''state'')) ! 1"
    by simp
  then show False by (simp add: execution_key_def lit_def)
qed

lemma keys_apart [simp]:
  "stream_key c e \<noteq> state_key h f" "state_key h f \<noteq> stream_key c e"
  "stream_key c e \<noteq> sequence_key d f" "sequence_key d f \<noteq> stream_key c e"
  "sequence_key c e \<noteq> state_key h f" "state_key h f \<noteq> sequence_key c e"
proof -
  have l: "last (lit ''events'') \<noteq> last (lit ''state'')" "last (lit ''events'') \<noteq> last (lit ''sequence'')"
    by (simp_all add: lit_def)
  show "stream_key c e \<noteq> state_key h f" "state_key h f \<noteq> stream_key c e"
    "stream_key c e \<noteq> sequence_key d f" "sequence_key d f \<noteq> stream_key c e"
    using l by (auto simp: stream_key_def state_key_def sequence_key_def dest!: execution_key_kind)
  show "sequence_key c e \<noteq> state_key h f" "state_key h f \<noteq> sequence_key c e"
    by (simp_all add: sequence_key_def state_key_def sequence_state_apart sequence_state_apart[symmetric])
qed

section \<open>What an appended event reads back as\<close>

lemma loads_dumps:
  assumes "floats_ok (default_style (tx_float tx)) (tx_read tx) fok" and "json_ok fok v"
  shows "loads tx (dumps tx v) = Inr v"
  using json_round_trip[OF style_ok_styles(1) assms] by (simp add: loads_def dumps_def)

lemma decode_event_fields:
  assumes "floats_ok (default_style (tx_float tx)) (tx_read tx) fok" and "json_ok fok (PDict payload)"
  shows "decode_message tx (i, event_fields tx n t payload)
           = Inr \<lparr>se_stream_id = i, se_sequence = n, se_event_type = t, se_payload = PDict payload\<rparr>"
  by (simp add: decode_message_def event_fields_def parse_int_dec_int loads_dumps[OF assms])

end
