(* ===== verification/Observer.thy ===== *)
theory Observer
  imports EventLog
begin

text \<open>
  The observer of \<open>observer/observer.py\<close>: it resolves the current state of an execution from the
  durable record, the hot projection and the retained stream, then follows the live tail. Its
  dependencies are a record of actions (\<open>observer_deps\<close>), so the same definitions run over any
  store and any interference between two reads. The generator \<open>observe\<close> is a bounded run: the frames
  it has yielded, how it ended, and the world; a run that spends its fuel is a prefix of a longer one.
\<close>

section \<open>Dependencies and helpers\<close>

record 'w observer_deps =
  od_durable :: "pystr \<Rightarrow> ('w, pdict option) act"
  od_hot :: "pystr \<Rightarrow> ('w, pyval) act"
  od_latest :: "pystr \<Rightarrow> ('w, stream_event option) act"
  od_retained :: "pystr \<Rightarrow> ('w, stream_event list) act"
  od_read :: "pystr \<Rightarrow> pystr \<Rightarrow> ('w, stream_event list) act"
  od_sleep :: "('w, unit) act"
  od_now :: "('w, pystr) act"

record observer_conf =
  oc_repr :: repr
  oc_max_activities :: nat

definition new_observer :: "repr \<Rightarrow> rat \<Rightarrow> int \<Rightarrow> observer_conf res" where
  "new_observer rp acceptance_poll_seconds projection_max_activities =
     (if acceptance_poll_seconds \<le> 0
      then Inl (Exn ValueError (lit ''acceptance_poll_seconds must be greater than zero''))
      else if projection_max_activities < 1
      then Inl (Exn ValueError (lit ''projection_max_activities must be greater than zero''))
      else Inr \<lparr>oc_repr = rp, oc_max_activities = nat projection_max_activities\<rparr>)"

fun as_mapping :: "pyval \<Rightarrow> pdict res" where
  "as_mapping (PDict d) = Inr d"
| "as_mapping _ = Inl (Exn TypeError (lit ''object is not a mapping''))"

text \<open>\<open>str.lower\<close> on ASCII letters: no other character lowers to a letter of a terminal status.\<close>

definition ascii_lower :: "pystr \<Rightarrow> pystr" where
  "ascii_lower s = map (\<lambda>c. if 65 \<le> c \<and> c \<le> 90 then c + 32 else c) s"

definition projection_sequence :: "pdict \<Rightarrow> int" where
  "projection_sequence projection =
     (case dget projection (lit ''sequence'') of
        PInt raw \<Rightarrow> max 0 raw
      | _ \<Rightarrow> (case dget projection (lit ''last_sequence'') of PInt legacy \<Rightarrow> max 0 legacy | _ \<Rightarrow> 0))"

definition nonzero :: "int \<Rightarrow> int option" where
  "nonzero i = (if i = 0 then None else Some i)"

definition is_terminal_state :: "repr \<Rightarrow> exec_frame \<Rightarrow> bool" where
  "is_terminal_state rp frame \<longleftrightarrow>
     ascii_lower (py_str rp (get_or (fr_payload frame) (lit ''status'') (PStr [])))
       \<in> set TERMINAL_EXECUTION_STATUSES"

definition realtime_unavailable :: "pystr \<Rightarrow> pystr \<Rightarrow> pystr \<Rightarrow> exec_frame" where
  "realtime_unavailable execution_id reason detail =
     \<lparr>fr_execution_id = execution_id, fr_type = REALTIME_UNAVAILABLE_FRAME, fr_sequence = None,
      fr_payload = [(lit ''execution_id'', PStr execution_id), (lit ''reason'', PStr reason),
        (lit ''detail'', PStr detail), (lit ''realtime_available'', PBool False)]\<rparr>"

definition event_frame :: "pystr \<Rightarrow> stream_event \<Rightarrow> exec_frame res" where
  "event_frame execution_id event =
     rbind (as_mapping (se_payload event)) (\<lambda>payload.
       Inr \<lparr>fr_execution_id = execution_id, fr_type = se_event_type event,
            fr_sequence = Some (se_sequence event),
            fr_payload = dmerge [(lit ''execution_id'', PStr execution_id),
                                 (lit ''sequence'', PInt (se_sequence event))] payload\<rparr>)"

definition state_frame :: "pystr \<Rightarrow> int option \<Rightarrow> pdict \<Rightarrow> exec_frame" where
  "state_frame execution_id sequence payload =
     \<lparr>fr_execution_id = execution_id, fr_type = EXECUTION_STATE_FRAME, fr_sequence = sequence,
      fr_payload = payload\<rparr>"

definition put_reattached :: "int option \<Rightarrow> pdict \<Rightarrow> pdict" where
  "put_reattached last_sequence payload =
     (case last_sequence of None \<Rightarrow> payload
      | Some n \<Rightarrow> dput (lit ''reattached_from_sequence'') (PInt n) payload)"

definition gap_error :: "pystr \<Rightarrow> py_exn" where
  "gap_error msg = Exn GapError msg"

section \<open>Resolving the current state\<close>

text \<open>The state of an execution whose hot projection is missing or unreadable.\<close>

definition durable_frame :: "repr \<Rightarrow> pystr \<Rightarrow> pdict \<Rightarrow> pystr \<Rightarrow> int option \<Rightarrow> exec_frame" where
  "durable_frame rp execution_id durable reason last_sequence =
     state_frame execution_id None
       (put_reattached last_sequence
         (dput (lit ''realtime_reason'') (PStr reason)
         (dput (lit ''sequence'') PNone
           (public_projection (initial_projection rp execution_id (Some durable)) False))))"

text \<open>Replaying the retained events one by one, each with the sequence that is due.\<close>

fun bridge :: "repr \<Rightarrow> nat \<Rightarrow> int \<Rightarrow> stream_event list \<Rightarrow> pdict \<Rightarrow> pdict res" where
  "bridge rp m expected [] projection = Inr projection"
| "bridge rp m expected (event # events) projection =
     (if se_sequence event \<noteq> expected
      then Inl (gap_error (lit ''expected='' @ dec_int expected @ lit '' observed='' @ dec_int (se_sequence event)))
      else rbind (as_dict (se_payload event)) (\<lambda>payload.
           rbind (reduce_projection rp (se_event_type event) payload (se_sequence event) m projection)
             (bridge rp m (expected + 1) events)))"

definition replay :: "repr \<Rightarrow> nat \<Rightarrow> int \<Rightarrow> int \<Rightarrow> stream_event list \<Rightarrow> pdict \<Rightarrow> pdict res" where
  "replay rp m projection_seq high_watermark retained projection =
     (let relevant = filter (\<lambda>event. projection_seq < se_sequence event \<and> se_sequence event \<le> high_watermark)
                       retained
      in if relevant = [] \<or> se_sequence (hd relevant) \<noteq> projection_seq + 1
         then Inl (gap_error (lit ''retained history cannot bridge projection projection=''
                @ dec_int projection_seq @ lit '' first=''
                @ (if relevant = [] then lit ''None'' else dec_int (se_sequence (hd relevant)))
                @ lit '' high='' @ dec_int high_watermark))
         else rbind (bridge rp m (projection_seq + 1) relevant projection) (\<lambda>projection'.
                if se_sequence (last relevant) \<noteq> high_watermark
                then Inl (gap_error (lit ''projection stopped at '' @ dec_int (se_sequence (last relevant))
                       @ lit '', high='' @ dec_int high_watermark))
                else Inr projection'))"

definition unavailable_frame :: "pystr \<Rightarrow> int option \<Rightarrow> int option \<Rightarrow> pdict \<Rightarrow> exec_frame" where
  "unavailable_frame execution_id sequence last_sequence projection =
     state_frame execution_id sequence
       (put_reattached last_sequence
         (dput (lit ''realtime_reason'') (PStr (lit ''stream_unavailable''))
           (public_projection projection False)))"

definition live_frame :: "pystr \<Rightarrow> int \<Rightarrow> int option \<Rightarrow> pdict \<Rightarrow> exec_frame" where
  "live_frame execution_id high_watermark last_sequence projection =
     state_frame execution_id (Some high_watermark)
       (put_reattached last_sequence
         (public_projection (dput (lit ''sequence'') (PInt high_watermark) projection) True))"

definition resolve_current_state ::
  "observer_conf \<Rightarrow> 'w observer_deps \<Rightarrow> pystr \<Rightarrow> int option \<Rightarrow> ('w, exec_frame \<times> pystr option) act" where
  "resolve_current_state oc od execution_id last_sequence =
     mbind (od_durable od execution_id) (\<lambda>found.
     (case found of
        None \<Rightarrow> mraise (Exn KeyError execution_id)
      | Some durable \<Rightarrow>
          mbind (mexcept (mbind (od_hot od execution_id) (\<lambda>hot. mret (Some hot))) (\<lambda>_. mret None)) (\<lambda>hot_read.
          (case hot_read of
             None \<Rightarrow>
               mret (durable_frame (oc_repr oc) execution_id durable (lit ''hot_state_unavailable'') last_sequence, None)
           | Some hot \<Rightarrow>
               if hot = PNone then
                 mret (durable_frame (oc_repr oc) execution_id durable (lit ''awaiting_runtime'') last_sequence, None)
               else
                 mbind (mexcept (od_latest od execution_id) (\<lambda>_. mret None)) (\<lambda>latest_read.
                 mbind (mlift (as_mapping hot)) (\<lambda>hot_state.
                 let projection = dmerge (initial_projection (oc_repr oc) execution_id (Some durable)) hot_state;
                     projection_seq = projection_sequence projection
                 in (case latest_read of
                       None \<Rightarrow>
                         mret (unavailable_frame execution_id (nonzero projection_seq) last_sequence projection, None)
                     | Some latest \<Rightarrow>
                         let high_watermark = se_sequence latest in
                         if projection_seq < high_watermark then
                           mbind (mexcept (mbind (od_retained od execution_id) (\<lambda>es. mret (Some es)))
                                    (\<lambda>_. mret None)) (\<lambda>retained_read.
                           (case retained_read of
                              None \<Rightarrow>
                                mret (unavailable_frame execution_id (nonzero projection_seq) None projection, None)
                            | Some retained \<Rightarrow>
                                mbind (mlift (replay (oc_repr oc) (oc_max_activities oc) projection_seq
                                         high_watermark retained projection)) (\<lambda>projection'.
                                mret (live_frame execution_id high_watermark last_sequence projection',
                                      Some (se_stream_id latest)))))
                         else if high_watermark < projection_seq then
                           mret (unavailable_frame execution_id (Some projection_seq) last_sequence projection, None)
                         else
                           mret (live_frame execution_id high_watermark last_sequence projection,
                                 Some (se_stream_id latest))))))))) "

definition current_state ::
  "observer_conf \<Rightarrow> 'w observer_deps \<Rightarrow> pystr \<Rightarrow> int option \<Rightarrow> ('w, exec_frame) act" where
  "current_state oc od execution_id last_sequence =
     mbind (resolve_current_state oc od execution_id last_sequence) (\<lambda>(frame, _). mret frame)"

section \<open>The generator\<close>

datatype obs_end = Finished | Suspended | Raised py_exn

type_synonym 'w obs_run = "exec_frame list \<times> obs_end \<times> 'w"

definition obs_yield :: "exec_frame list \<Rightarrow> 'w obs_run \<Rightarrow> 'w obs_run" where
  "obs_yield frames run = (case run of (rest, fin, w) \<Rightarrow> (frames @ rest, fin, w))"

text \<open>
  One batch of events: the frames it yields, the new cursor and sequence, and whether the generator
  returned or raised inside the batch.
\<close>

fun scan_events ::
  "pystr \<Rightarrow> pystr \<Rightarrow> int \<Rightarrow> stream_event list \<Rightarrow> exec_frame list \<times> pystr \<times> int \<times> obs_end option" where
  "scan_events execution_id cursor sequence [] = ([], cursor, sequence, None)"
| "scan_events execution_id cursor sequence (event # events) =
     (if se_sequence event \<le> sequence then scan_events execution_id (se_stream_id event) sequence events
      else if se_sequence event \<noteq> sequence + 1 then
        ([realtime_unavailable execution_id (lit ''sequence_gap'')
            (lit ''expected='' @ dec_int (sequence + 1) @ lit '' observed='' @ dec_int (se_sequence event))],
         se_stream_id event, sequence, Some Finished)
      else
        (case event_frame execution_id event of
           Inl e \<Rightarrow> ([], se_stream_id event, se_sequence event, Some (Raised e))
         | Inr frame \<Rightarrow>
             if se_event_type event \<in> set TERMINAL_EVENT_TYPES
             then ([frame], se_stream_id event, se_sequence event, Some Finished)
             else (case scan_events execution_id (se_stream_id event) (se_sequence event) events of
                     (frames, rest) \<Rightarrow> (frame # frames, rest))))"

definition heartbeat :: "pystr \<Rightarrow> pystr \<Rightarrow> exec_frame" where
  "heartbeat execution_id now =
     \<lparr>fr_execution_id = execution_id, fr_type = HEARTBEAT_FRAME, fr_sequence = None,
      fr_payload = [(lit ''timestamp'', PStr now)]\<rparr>"

fun follow_tail :: "nat \<Rightarrow> 'w observer_deps \<Rightarrow> repr \<Rightarrow> pystr \<Rightarrow> pystr \<Rightarrow> int \<Rightarrow> 'w \<Rightarrow> 'w obs_run" where
  "follow_tail 0 od rp execution_id cursor sequence w = ([], Suspended, w)"
| "follow_tail (Suc n) od rp execution_id cursor sequence w =
     (case od_read od execution_id cursor w of
        (Inl e, w1) \<Rightarrow>
          if exn_kind e = CancelledError then ([], Raised e, w1)
          else ([realtime_unavailable execution_id (lit ''stream_unavailable'') (exn_str rp e)], Finished, w1)
      | (Inr events, w1) \<Rightarrow>
          if events = [] then
            (case od_now od w1 of
               (Inl e, w2) \<Rightarrow> ([], Raised e, w2)
             | (Inr now, w2) \<Rightarrow>
                 obs_yield [heartbeat execution_id now] (follow_tail n od rp execution_id cursor sequence w2))
          else
            (case scan_events execution_id cursor sequence events of
               (frames, cursor', sequence', Some fin) \<Rightarrow> (frames, fin, w1)
             | (frames, cursor', sequence', None) \<Rightarrow>
                 obs_yield frames (follow_tail n od rp execution_id cursor' sequence' w1)))"

definition realtime_reason :: "exec_frame \<Rightarrow> pyval" where
  "realtime_reason frame = dget (fr_payload frame) (lit ''realtime_reason'')"

definition is_unavailable_reason :: "pyval \<Rightarrow> bool" where
  "is_unavailable_reason v \<longleftrightarrow> v = PStr (lit ''hot_state_unavailable'') \<or> v = PStr (lit ''stream_unavailable'')"

definition durable_notice :: "repr \<Rightarrow> pystr \<Rightarrow> exec_frame \<Rightarrow> exec_frame" where
  "durable_notice rp execution_id frame =
     realtime_unavailable execution_id (py_str rp (realtime_reason frame))
       (lit ''Realtime observation is unavailable; durable state remains authoritative.'')"

definition gap_frame :: "repr \<Rightarrow> pystr \<Rightarrow> py_exn \<Rightarrow> exec_frame" where
  "gap_frame rp execution_id e = realtime_unavailable execution_id (lit ''sequence_gap'') (exn_str rp e)"

definition frame_sequence :: "exec_frame \<Rightarrow> int" where
  "frame_sequence frame = (case fr_sequence frame of None \<Rightarrow> 0 | Some n \<Rightarrow> n)"

text \<open>Polling until the runtime has published something; \<open>last_seq\<close> is the sequence of the frame shown so far.\<close>

fun await_runtime ::
  "nat \<Rightarrow> observer_conf \<Rightarrow> 'w observer_deps \<Rightarrow> pystr \<Rightarrow> int option \<Rightarrow> 'w \<Rightarrow> 'w obs_run" where
  "await_runtime 0 oc od execution_id last_seq w = ([], Suspended, w)"
| "await_runtime (Suc n) oc od execution_id last_seq w =
     (case od_sleep od w of
        (Inl e, w1) \<Rightarrow> ([], Raised e, w1)
      | (Inr _, w1) \<Rightarrow>
          (case resolve_current_state oc od execution_id last_seq w1 of
             (Inl e, w2) \<Rightarrow>
               if exn_kind e = GapError then ([gap_frame (oc_repr oc) execution_id e], Finished, w2)
               else ([], Raised e, w2)
           | (Inr (candidate, cursor), w2) \<Rightarrow>
               if is_terminal_state (oc_repr oc) candidate then ([candidate], Finished, w2)
               else if is_unavailable_reason (realtime_reason candidate) then
                 ([candidate, durable_notice (oc_repr oc) execution_id candidate], Finished, w2)
               else if truthy (dget (fr_payload candidate) (lit ''realtime_available'')) then
                 obs_yield [candidate]
                   (case cursor of
                      None \<Rightarrow> ([], Finished, w2)
                    | Some c \<Rightarrow>
                        follow_tail n od (oc_repr oc) execution_id c (frame_sequence candidate) w2)
               else (case cursor of
                       None \<Rightarrow> await_runtime n oc od execution_id last_seq w2
                     | Some c \<Rightarrow> follow_tail n od (oc_repr oc) execution_id c
                         (case last_seq of None \<Rightarrow> 0 | Some k \<Rightarrow> k) w2)))"

definition observe ::
  "nat \<Rightarrow> observer_conf \<Rightarrow> 'w observer_deps \<Rightarrow> pystr \<Rightarrow> int option \<Rightarrow> 'w \<Rightarrow> 'w obs_run" where
  "observe fuel oc od execution_id last_sequence w =
     (case resolve_current_state oc od execution_id last_sequence w of
        (Inl e, w1) \<Rightarrow>
          if exn_kind e = GapError then ([gap_frame (oc_repr oc) execution_id e], Finished, w1)
          else ([], Raised e, w1)
      | (Inr (frame, cursor), w1) \<Rightarrow>
          obs_yield [frame]
            (if is_terminal_state (oc_repr oc) frame then ([], Finished, w1)
             else if cursor = None \<and> is_unavailable_reason (realtime_reason frame) then
               ([durable_notice (oc_repr oc) execution_id frame], Finished, w1)
             else (case cursor of
                     None \<Rightarrow> await_runtime fuel oc od execution_id (fr_sequence frame) w1
                   | Some c \<Rightarrow>
                       follow_tail fuel od (oc_repr oc) execution_id c (frame_sequence frame) w1)))"

end
