(* ===== verification/Publisher.thy ===== *)
theory Publisher
  imports EventLog
begin

text \<open>
  The event sink of a running execution (\<open>observer/publisher.py\<close>) and its composition
  (\<open>observer/composite.py\<close>): every runtime fact is numbered by a Redis counter, appended to the
  stream in public form, folded into the hot projection and, when the trace policy asks for it,
  recorded. The per-execution lock makes \<open>emit\<close> atomic, so an emission is one action.
\<close>

section \<open>The documented effect of the Redis commands\<close>

text \<open>What a client can read back: the counter, the stream and the string under a key.\<close>

record 'w redis_view =
  rv_ctr :: "pystr \<Rightarrow> 'w \<Rightarrow> int"
  rv_strm :: "pystr \<Rightarrow> 'w \<Rightarrow> stream_entry list"
  rv_val :: "pystr \<Rightarrow> 'w \<Rightarrow> pystr option"

definition same_view :: "'w redis_view \<Rightarrow> 'w \<Rightarrow> 'w \<Rightarrow> bool" where
  "same_view V w w' \<longleftrightarrow>
     (\<forall>k. rv_ctr V k w' = rv_ctr V k w \<and> rv_strm V k w' = rv_strm V k w \<and> rv_val V k w' = rv_val V k w)"

text \<open>
  \<open>XADD\<close> with an approximate \<open>MAXLEN\<close> may evict a front part of the stream, but never leaves fewer
  than \<open>maxlen\<close> entries; \<open>EXPIRE\<close> schedules a removal and changes nothing at once.
\<close>

locale redis_server =
  fixes api :: "'w redis_api" and V :: "'w redis_view"
  assumes incr_ok: "rd_incr api k w = (Inr n, w') \<Longrightarrow>
      n = rv_ctr V k w + 1 \<and> rv_ctr V k w' = n \<and>
      (\<forall>k'. rv_strm V k' w' = rv_strm V k' w \<and>
        (k' \<noteq> k \<longrightarrow> rv_ctr V k' w' = rv_ctr V k' w \<and> rv_val V k' w' = rv_val V k' w))"
    and xadd_ok: "rd_xadd api k fs maxlen w = (Inr i, w') \<Longrightarrow>
      (\<exists>d. rv_strm V k w' = drop d (rv_strm V k w @ [(i, fs)]) \<and>
           (0 < d \<longrightarrow> maxlen \<le> length (rv_strm V k w'))) \<and>
      (\<forall>k'. k' \<noteq> k \<longrightarrow> rv_strm V k' w' = rv_strm V k' w \<and>
        rv_ctr V k' w' = rv_ctr V k' w \<and> rv_val V k' w' = rv_val V k' w)"
    and set_ok: "rd_set api k v ttl w = (Inr u, w') \<Longrightarrow>
      rv_val V k w' = Some v \<and>
      (\<forall>k'. k' \<noteq> k \<longrightarrow> rv_strm V k' w' = rv_strm V k' w \<and>
        rv_ctr V k' w' = rv_ctr V k' w \<and> rv_val V k' w' = rv_val V k' w)"
    and get_ok: "rd_get api k w = (r, w') \<Longrightarrow> same_view V w w' \<and> (\<forall>x. r = Inr x \<longrightarrow> x = rv_val V k w)"
    and expire_ok: "rd_expire api k ttl w = (Inr u, w') \<Longrightarrow> same_view V w w'"
    and xrange_ok: "rd_xrange api k cnt w = (q, w') \<Longrightarrow>
      same_view V w w' \<and> (\<forall>es. q = Inr es \<longrightarrow> es = take cnt (rv_strm V k w))"
    and xrevrange_ok: "rd_xrevrange api k cnt w = (q, w') \<Longrightarrow>
      same_view V w w' \<and> (\<forall>es. q = Inr es \<longrightarrow> es = take cnt (rev (rv_strm V k w)))"
    and xread_ok: "rd_xread api k after cnt block w = (qs, w') \<Longrightarrow>
      same_view V w w' \<and>
      (\<forall>rs. qs = Inr rs \<longrightarrow> (\<forall>m \<in> set rs. set (snd m) \<subseteq> set (rv_strm V k w)))"

section \<open>The sink\<close>

record 'w sink_conf =
  sk_text :: py_text
  sk_redis :: "'w redis_api"
  sk_stream :: stream_conf
  sk_hot :: hot_conf
  sk_max_activities :: nat
  sk_recorder :: "(exec_event \<Rightarrow> int \<Rightarrow> ('w, unit) act) option"

definition new_event_sink ::
  "py_text \<Rightarrow> 'w redis_api \<Rightarrow> stream_conf \<Rightarrow> hot_conf \<Rightarrow> nat
     \<Rightarrow> (exec_event \<Rightarrow> int \<Rightarrow> ('w, unit) act) option \<Rightarrow> 'w sink_conf res" where
  "new_event_sink tx api sc hc projection_max_activities recorder =
     (if projection_max_activities < 1
      then Inl (Exn ValueError (lit ''projection_max_activities must be greater than zero''))
      else Inr \<lparr>sk_text = tx, sk_redis = api, sk_stream = sc, sk_hot = hc,
                sk_max_activities = projection_max_activities, sk_recorder = recorder\<rparr>)"

definition emit :: "'w sink_conf \<Rightarrow> exec_event \<Rightarrow> ('w, unit) act" where
  "emit sk event =
     (let tx = sk_text sk; api = sk_redis sk; execution_id = ev_execution_id event;
          event_type = fst (public_event event); payload = public_payload event
      in mbind (es_append tx api (sk_stream sk) execution_id event_type payload) (\<lambda>stream_event.
         mbind (hs_get tx api (sk_hot sk) execution_id) (\<lambda>current.
         mbind (mlift (if truthy current then as_dict current
                       else Inr (initial_projection (tx_repr tx) execution_id None))) (\<lambda>projection.
         mbind (mlift (reduce_projection (tx_repr tx) event_type payload (se_sequence stream_event)
                   (sk_max_activities sk) projection)) (\<lambda>projection'.
         mbind (hs_set tx api (sk_hot sk) execution_id projection') (\<lambda>_.
         mbind (case sk_recorder sk of
                  Some record_event \<Rightarrow>
                    mwhen (should_record event) (record_event event (se_sequence stream_event))
                | None \<Rightarrow> mret ()) (\<lambda>_.
         mwhen (ev_type event \<in> {EXECUTION_COMPLETED, EXECUTION_FAILED, EXECUTION_CANCELLED})
           (mbind (hs_expire api (sk_hot sk) execution_id) (\<lambda>_.
              es_expire api (sk_stream sk) execution_id))))))))) "

definition composite_emit :: "(exec_event \<Rightarrow> ('w, unit) act) list \<Rightarrow> exec_event \<Rightarrow> ('w, unit) act" where
  "composite_emit sinks event = mfor sinks (\<lambda>sink. sink event)"

section \<open>Projections survive the trip through JSON\<close>

lemma json_ok_dput: "json_ok fok (PDict d) \<Longrightarrow> json_ok fok v \<Longrightarrow> json_ok fok (PDict (dput k v d))"
proof -
  assume a: "json_ok fok (PDict d)" "json_ok fok v"
  have "set (dput k v d) \<subseteq> insert (k, v) (set d)"
    unfolding dput_def by (induction d) auto
  with a show ?thesis by (auto simp: distinct_dput)
qed

lemma json_ok_dget: "json_ok fok (PDict d) \<Longrightarrow> json_ok fok (dget d k)"
  by (auto simp: dget_def split: option.splits dest: map_of_SomeD)

lemma json_ok_get_or: "json_ok fok (PDict d) \<Longrightarrow> json_ok fok v \<Longrightarrow> json_ok fok (get_or d k v)"
  by (simp add: py_or_def json_ok_dget)

lemma json_ok_dkeep: "json_ok fok (PDict d) \<Longrightarrow> json_ok fok (PDict (dkeep p d))"
  by (auto simp: distinct_dkeep) (auto simp: dkeep_def)

lemma json_ok_py_list: "py_list v = Inr xs \<Longrightarrow> json_ok fok v \<Longrightarrow> x \<in> set xs \<Longrightarrow> json_ok fok x"
  by (cases v rule: py_list.cases) auto

lemma json_ok_public_payload: "json_ok fok (PDict (ev_payload e)) \<Longrightarrow> json_ok fok (PDict (public_payload e))"
  unfolding public_payload_def public_event_def Let_def snd_conv
  by (intro json_ok_dput json_ok_dkeep) auto

lemma json_ok_initial:
  "json_ok fok (PDict (initial_projection rp e None))"
  by (simp add: initial_projection_def Let_def dict_simps)

lemma json_ok_set_phase: "json_ok fok (PDict s) \<Longrightarrow> json_ok fok (PDict (set_phase rp p s))"
  by (auto simp: set_phase_alt intro!: json_ok_dput simp del: json_ok.simps(4))

lemma without_call_subset: "without_call rp c xs = Inr ys \<Longrightarrow> set ys \<subseteq> set xs"
  by (induction xs arbitrary: ys) (auto split: if_splits)

lemma json_ok_stamp:
  "json_ok fok (PDict s) \<Longrightarrow> json_ok fok (PDict p) \<Longrightarrow> json_ok fok (PDict (stamp n t p s))"
  by (auto simp: stamp_def Let_def intro!: json_ok_dput json_ok_dget simp del: json_ok.simps(4))

lemma json_ok_tools:
  assumes "json_ok fok (PDict s)" and "json_ok fok (PDict p)"
  shows "mark_tool_started rp p s = Inr s' \<Longrightarrow> json_ok fok (PDict s')"
    and "mark_tool_finished rp p s = Inr s' \<Longrightarrow> json_ok fok (PDict s')"
proof -
  have items: "json_ok fok x"
    if "py_list (get_or s (lit ''active_tools'') (PList [])) = Inr items"
      "without_call rp c items = Inr active" "x \<in> set active" for items active x c
    using json_ok_py_list[OF that(1) json_ok_get_or[OF assms(1)]] without_call_subset[OF that(2)] that(3)
    by auto
  note ok = json_ok_dget[OF assms(2)]
  show "mark_tool_started rp p s = Inr s' \<Longrightarrow> json_ok fok (PDict s')"
    using items ok
    by (auto simp: mark_tool_started_def Let_def intro!: json_ok_dput assms(1) simp del: json_ok.simps(4))
      (auto simp: ok)
  show "mark_tool_finished rp p s = Inr s' \<Longrightarrow> json_ok fok (PDict s')"
    using items
    by (auto simp: mark_tool_finished_def Let_def intro!: json_ok_dput assms(1) simp del: json_ok.simps(4))
qed

lemma json_ok_reduce_event:
  assumes "reduce_event rp t p s = Inr s'" and "json_ok fok (PDict s)" and "json_ok fok (PDict p)"
  shows "json_ok fok (PDict s')"
proof -
  have skills: "json_ok fok x" if "py_list (get_or p (lit ''skills'') (PList [])) = Inr xs" "x \<in> set xs" for x xs
    using json_ok_py_list[OF that(1) json_ok_get_or[OF assms(3)] that(2)] by simp
  note ok = json_ok_dput json_ok_dget json_ok_get_or json_ok_set_phase assms(2,3)
  show ?thesis
    using assms(1,2) unfolding reduce_event_def clear_active_def
    by (auto split: if_splits simp: Let_def skills simp del: json_ok.simps(4)
      intro!: ok dest!: json_ok_tools(1)[OF assms(2,3)] json_ok_tools(2)[OF assms(2,3)])
qed

lemma set_py_tail: "set (py_tail n xs) \<subseteq> set xs"
  using set_last_n[of n xs] by (auto simp: py_tail_def)

lemma json_ok_append_activity:
  assumes "append_activity m n t p s = Inr s'" and "json_ok fok (PDict s)" and "json_ok fok (PDict p)"
  shows "json_ok fok (PDict s')"
proof (cases "t = event_value ASSISTANT_DELTA")
  case True
  with assms(1,2) show ?thesis by (simp add: append_activity_def)
next
  case False
  with assms(1) obtain xs where xs: "py_list (get_or s (lit ''activities'') (PList [])) = Inr xs"
    and s': "s' = dput (lit ''activities'') (PList (py_tail m (xs @ [activity_record n t p]))) s"
    by (auto simp: append_activity_def)
  have "json_ok fok x" if "x \<in> set xs" for x
    using json_ok_py_list[OF xs json_ok_get_or[OF assms(2)] that] by simp
  moreover have "json_ok fok (activity_record n t p)"
    using json_ok_dkeep[OF assms(3)] json_ok_dget[OF assms(3)] by (auto simp: activity_record_def)
  ultimately have "json_ok fok (PList (py_tail m (xs @ [activity_record n t p])))"
    using set_py_tail[of m "xs @ [activity_record n t p]"] by auto
  then show ?thesis unfolding s' by (rule json_ok_dput[OF assms(2)])
qed

lemma json_ok_reduce_projection:
  assumes "reduce_projection rp t p n m s = Inr s'" and "json_ok fok (PDict s)" and "json_ok fok (PDict p)"
  shows "json_ok fok (PDict s')"
proof -
  from assms(1) obtain s1 where r: "reduce_event rp t p (stamp n t p s) = Inr s1"
    and a: "append_activity m n t p s1 = Inr s'" by (rule reduce_projection_cases)
  from json_ok_append_activity[OF a json_ok_reduce_event[OF r json_ok_stamp[OF assms(2,3)] assms(3)] assms(3)]
  show ?thesis .
qed

lemma json_ok_reduce_all:
  assumes "reduce_all rp m s es = Inr s'" and "json_ok fok (PDict s)"
    and "\<forall>(n, t, p) \<in> set es. json_ok fok (PDict p)"
  shows "json_ok fok (PDict s')"
  using assms(1,2)
  by (rule reduce_all_invariant) (use assms(3) in \<open>auto intro: json_ok_reduce_projection simp del: json_ok.simps(4)\<close>)

lemma reduce_projection_not_Nil:
  assumes "reduce_projection rp t p n m s = Inr s'"
  shows "s' \<noteq> []"
proof
  assume "s' = []"
  moreover from assms obtain s1 where r: "reduce_event rp t p (stamp n t p s) = Inr s1"
    and a: "append_activity m n t p s1 = Inr s'" by (rule reduce_projection_cases)
  have "dget s' (lit ''last_event'') = PStr t"
    using append_activity_frame[OF a] reduce_event_sequence[OF r] by (simp add: dict_simps)
  ultimately show False by (simp add: dict_simps)
qed

section \<open>What has been published\<close>

text \<open>The stream items of the events an execution emitted, numbered from 1.\<close>

definition numbered :: "exec_event list \<Rightarrow> stream_item list" where
  "numbered es = map (\<lambda>(i, e). (int i, event_value (ev_type e), public_payload e)) (enumerate 1 es)"

lemma numbered_Nil [simp]: "numbered [] = []"
  by (simp add: numbered_def)

lemma numbered_snoc:
  "numbered (es @ [e]) = numbered es @ [(int (length es) + 1, event_value (ev_type e), public_payload e)]"
  by (simp add: numbered_def enumerate_append_eq)

lemma length_numbered [simp]: "length (numbered es) = length es"
  by (simp add: numbered_def)

definition item_fields :: "py_text \<Rightarrow> stream_item \<Rightarrow> (pystr \<times> pystr) list" where
  "item_fields tx it = (case it of (n, t, p) \<Rightarrow> event_fields tx n t p)"

text \<open>
  The store agrees with the events \<open>es\<close> of execution \<open>e\<close>: the counter is their number, the hot state
  is the fold of the reducer over them, and the stream holds a suffix of them that lost its front
  only if it still has \<open>maxlen\<close> entries.
\<close>

definition projected :: "'w sink_conf \<Rightarrow> pystr \<Rightarrow> exec_event list \<Rightarrow> pdict res" where
  "projected sk e es =
     reduce_all (tx_repr (sk_text sk)) (sk_max_activities sk)
       (initial_projection (tx_repr (sk_text sk)) e None) (numbered es)"

definition published :: "'w redis_view \<Rightarrow> 'w sink_conf \<Rightarrow> pystr \<Rightarrow> exec_event list \<Rightarrow> 'w \<Rightarrow> bool" where
  "published V sk e es w \<longleftrightarrow>
     rv_ctr V (sequence_key (sk_stream sk) e) w = int (length es)
     \<and> (\<exists>d. map snd (rv_strm V (stream_key (sk_stream sk) e) w)
              = drop d (map (item_fields (sk_text sk)) (numbered es))
            \<and> (0 < d \<longrightarrow> sc_maxlen (sk_stream sk) \<le> length (rv_strm V (stream_key (sk_stream sk) e) w)))
     \<and> (\<exists>s. projected sk e es = Inr s
            \<and> rv_val V (state_key (sk_hot sk) e) w
                = (if es = [] then None else Some (dumps (sk_text sk) (PDict s))))"

lemma published_same_view: "published V sk e es w \<Longrightarrow> same_view V w w' \<Longrightarrow> published V sk e es w'"
  by (simp add: published_def same_view_def)

lemma same_view_trans: "same_view V w w' \<Longrightarrow> same_view V w' w'' \<Longrightarrow> same_view V w w''"
  by (simp add: same_view_def)

lemma same_view_refl [simp]: "same_view V w w"
  by (simp add: same_view_def)

section \<open>One emission\<close>

text \<open>The recorder writes to the database: nothing a Redis client reads changes.\<close>

definition recorder_apart :: "'w redis_view \<Rightarrow> 'w sink_conf \<Rightarrow> bool" where
  "recorder_apart V sk \<longleftrightarrow>
     (\<forall>record_event ev n w r w'. sk_recorder sk = Some record_event \<longrightarrow>
        record_event ev n w = (r, w') \<longrightarrow> same_view V w w')"

definition sink_text_ok :: "(rat \<Rightarrow> bool) \<Rightarrow> 'w sink_conf \<Rightarrow> bool" where
  "sink_text_ok fok sk \<longleftrightarrow>
     floats_ok (default_style (tx_float (sk_text sk))) (tx_read (sk_text sk)) fok"

lemma drop_drop_snoc:
  "\<exists>d'. drop d (drop e xs @ [y]) = drop d' (xs @ [y]) \<and> (0 < d' \<longrightarrow> 0 < d \<or> (0 < e \<and> d = 0))"
proof (cases "e \<le> length xs")
  case True
  then have "drop d (drop e xs @ [y]) = drop (d + e) (xs @ [y])"
    by (simp add: drop_append)
  then show ?thesis by (intro exI[of _ "d + e"]) auto
next
  case False
  then have "drop d (drop e xs @ [y]) = drop (d + length xs) (xs @ [y])" by simp
  then show ?thesis using False by (intro exI[of _ "d + length xs"]) auto
qed

lemma projected_snoc:
  "projected sk e (es @ [ev]) = rbind (projected sk e es) (\<lambda>s.
     reduce_projection (tx_repr (sk_text sk)) (event_value (ev_type ev)) (public_payload ev)
       (int (length es) + 1) (sk_max_activities sk) s)"
  by (simp add: projected_def numbered_snoc reduce_all_append) (simp add: rbind_def split: sum.splits)

lemma json_ok_projected:
  assumes "projected sk e es = Inr s" and "\<forall>ev \<in> set es. json_ok fok (PDict (ev_payload ev))"
  shows "json_ok fok (PDict s)"
proof -
  have "\<forall>(n, t, p) \<in> set (numbered es). json_ok fok (PDict p)"
    using assms(2) json_ok_public_payload
    by (auto simp: numbered_def in_set_enumerate_eq simp del: json_ok.simps(4))
  with json_ok_reduce_all[OF assms(1)[unfolded projected_def]] json_ok_initial show ?thesis by blast
qed

lemma projected_not_Nil: "projected sk e es = Inr s \<Longrightarrow> es \<noteq> [] \<Longrightarrow> s \<noteq> []"
  by (cases es rule: rev_exhaust) (auto simp: projected_snoc dest: reduce_projection_not_Nil)

context redis_server begin

lemma expire_all_same:
  "mwhen b (mbind (hs_expire api h e) (\<lambda>_. es_expire api c e)) w = (Inr u, w') \<Longrightarrow> same_view V w w'"
  by (cases b) (auto simp: hs_expire_def es_expire_def elim!: mbind_InrD dest!: expire_ok
      intro: same_view_trans)

lemma append_effect:
  assumes "es_append tx api c e t p w = (Inr se, w')"
  shows "se_sequence se = rv_ctr V (sequence_key c e) w + 1"
    and "rv_ctr V (sequence_key c e) w' = se_sequence se"
    and "\<exists>d. rv_strm V (stream_key c e) w'
               = drop d (rv_strm V (stream_key c e) w @ [(se_stream_id se, event_fields tx (se_sequence se) t p)])
             \<and> (0 < d \<longrightarrow> sc_maxlen c \<le> length (rv_strm V (stream_key c e) w'))"
    and "rv_val V (state_key h f) w' = rv_val V (state_key h f) w"
    and "f \<noteq> e \<Longrightarrow> rv_ctr V (sequence_key c f) w' = rv_ctr V (sequence_key c f) w"
    and "f \<noteq> e \<Longrightarrow> rv_strm V (stream_key c f) w' = rv_strm V (stream_key c f) w"
proof -
  from assms obtain n w1 i where i: "rd_incr api (sequence_key c e) w = (Inr n, w1)"
    and x: "rd_xadd api (stream_key c e) (event_fields tx n t p) (sc_maxlen c) w1 = (Inr i, w')"
    and se: "se_sequence se = n" "se_stream_id se = i"
    by (auto simp: es_append_def elim!: mbind_InrD)
  note I = incr_ok[OF i] and X = xadd_ok[OF x]
  show "se_sequence se = rv_ctr V (sequence_key c e) w + 1"
    and "rv_ctr V (sequence_key c e) w' = se_sequence se"
    and "rv_val V (state_key h f) w' = rv_val V (state_key h f) w"
    using I X se by simp_all
  show "\<exists>d. rv_strm V (stream_key c e) w'
               = drop d (rv_strm V (stream_key c e) w @ [(se_stream_id se, event_fields tx (se_sequence se) t p)])
             \<and> (0 < d \<longrightarrow> sc_maxlen c \<le> length (rv_strm V (stream_key c e) w'))"
    using I X se by simp
  show "f \<noteq> e \<Longrightarrow> rv_ctr V (sequence_key c f) w' = rv_ctr V (sequence_key c f) w"
    and "f \<noteq> e \<Longrightarrow> rv_strm V (stream_key c f) w' = rv_strm V (stream_key c f) w"
    using I X by simp_all
qed

lemma hs_get_effect:
  assumes "hs_get tx api h e w = (Inr r, w')"
  shows "same_view V w w' \<and>
    (case rv_val V (state_key h e) w of None \<Rightarrow> r = PNone | Some t \<Rightarrow> loads tx t = Inr r)"
proof -
  from assms obtain raw where g: "rd_get api (state_key h e) w = (Inr raw, w')"
    and l: "(case raw of None \<Rightarrow> Inr PNone | Some s \<Rightarrow> loads tx s) = Inr r"
    by (auto simp: hs_get_def elim!: mbind_InrD)
  from get_ok[OF g] l show ?thesis by (auto split: option.splits)
qed

lemma emit_steps:
  assumes "emit sk ev w = (Inr u, w')" and "sk_redis sk = api" and "recorder_apart V sk"
  obtains se w1 r w2 s0 s w3 where
    "es_append (sk_text sk) api (sk_stream sk) (ev_execution_id ev) (event_value (ev_type ev)) (public_payload ev) w
       = (Inr se, w1)"
    "hs_get (sk_text sk) api (sk_hot sk) (ev_execution_id ev) w1 = (Inr r, w2)"
    "(if truthy r then as_dict r
      else Inr (initial_projection (tx_repr (sk_text sk)) (ev_execution_id ev) None)) = Inr s0"
    "reduce_projection (tx_repr (sk_text sk)) (event_value (ev_type ev)) (public_payload ev)
       (se_sequence se) (sk_max_activities sk) s0 = Inr s"
    "hs_set (sk_text sk) api (sk_hot sk) (ev_execution_id ev) s w2 = (Inr (), w3)"
    "same_view V w3 w'"
proof -
  let ?rec = "case sk_recorder sk of
      Some record_event \<Rightarrow> \<lambda>se. mwhen (should_record ev) (record_event ev (se_sequence se))
    | None \<Rightarrow> \<lambda>se. mret ()"
  have rec: "same_view V a b" if "?rec se a = (x, b)" for se a x b
    using that assms(3)
    by (auto simp: recorder_apart_def mwhen_def split: option.splits if_splits)
  from assms(1,2) show ?thesis
    by (auto simp: emit_def Let_def elim!: mbind_InrD
        intro!: that intro: same_view_trans[OF rec expire_all_same] split: option.splits)
qed

text \<open>
  One emission extends what is published of its own execution by one event and leaves every other
  execution alone.
\<close>

lemma emit_own:
  assumes "emit sk ev w = (Inr u, w')" and "sk_redis sk = api" and "recorder_apart V sk"
    and "sink_text_ok fok sk" and "published V sk (ev_execution_id ev) es w"
    and "\<forall>e \<in> set (es @ [ev]). json_ok fok (PDict (ev_payload e))"
  shows "published V sk (ev_execution_id ev) (es @ [ev]) w'"
proof -
  let ?e = "ev_execution_id ev" and ?tx = "sk_text sk" and ?c = "sk_stream sk" and ?h = "sk_hot sk"
  from assms(1-3) obtain se w1 r w2 s0 s w3 where
    ap: "es_append ?tx api ?c ?e (event_value (ev_type ev)) (public_payload ev) w = (Inr se, w1)"
    and ge: "hs_get ?tx api ?h ?e w1 = (Inr r, w2)"
    and s0: "(if truthy r then as_dict r else Inr (initial_projection (tx_repr ?tx) ?e None)) = Inr s0"
    and re: "reduce_projection (tx_repr ?tx) (event_value (ev_type ev)) (public_payload ev)
       (se_sequence se) (sk_max_activities sk) s0 = Inr s"
    and st: "hs_set ?tx api ?h ?e s w2 = (Inr (), w3)" and sv: "same_view V w3 w'"
    by (rule emit_steps)
  note A = append_effect[OF ap] and G = hs_get_effect[OF ge] and S = set_ok[OF st[unfolded hs_set_def]]
  from assms(5) obtain p where p: "projected sk ?e es = Inr p"
    and val: "rv_val V (state_key ?h ?e) w = (if es = [] then None else Some (dumps ?tx (PDict p)))"
    and ctr: "rv_ctr V (sequence_key ?c ?e) w = int (length es)"
    by (auto simp: published_def)
  have n: "se_sequence se = int (length es) + 1" using A(1) ctr by simp
  have "s0 = p"
  proof (cases "es = []")
    case True
    with G val s0 p show ?thesis by (simp add: A(4) projected_def)
  next
    case False
    have "loads ?tx (dumps ?tx (PDict p)) = Inr (PDict p)"
      by (rule loads_dumps[of _ fok])
        (use assms(4,6) json_ok_projected[OF p] in \<open>auto simp: sink_text_ok_def simp del: json_ok.simps(4)\<close>)
    with False G val s0 projected_not_Nil[OF p False] show ?thesis by (auto simp: A(4))
  qed
  with re p n have proj: "projected sk ?e (es @ [ev]) = Inr s" by (simp add: projected_snoc)
  have strm: "rv_strm V (stream_key ?c ?e) w' = rv_strm V (stream_key ?c ?e) w1"
    and ctr': "rv_ctr V (sequence_key ?c ?e) w' = int (length es) + 1"
    and val': "rv_val V (state_key ?h ?e) w' = Some (dumps ?tx (PDict s))"
    using A(2) n G S sv by (simp_all add: same_view_def)
  have "\<exists>d. map snd (rv_strm V (stream_key ?c ?e) w1) = drop d (map (item_fields ?tx) (numbered (es @ [ev])))
        \<and> (0 < d \<longrightarrow> sc_maxlen ?c \<le> length (rv_strm V (stream_key ?c ?e) w1))"
  proof -
    from A(3) obtain d where d: "rv_strm V (stream_key ?c ?e) w1 = drop d (rv_strm V (stream_key ?c ?e) w
           @ [(se_stream_id se, event_fields ?tx (se_sequence se) (event_value (ev_type ev)) (public_payload ev))])"
      "0 < d \<longrightarrow> sc_maxlen ?c \<le> length (rv_strm V (stream_key ?c ?e) w1)" by blast
    from assms(5) obtain d0 where d0: "map snd (rv_strm V (stream_key ?c ?e) w) = drop d0 (map (item_fields ?tx) (numbered es))"
      "0 < d0 \<longrightarrow> sc_maxlen ?c \<le> length (rv_strm V (stream_key ?c ?e) w)"
      by (auto simp: published_def)
    have eq: "map snd (rv_strm V (stream_key ?c ?e) w1)
        = drop d (drop d0 (map (item_fields ?tx) (numbered es))
            @ [event_fields ?tx (se_sequence se) (event_value (ev_type ev)) (public_payload ev)])"
      by (simp only: d(1) drop_map[symmetric] map_append d0(1) list.map snd_conv)
    from drop_drop_snoc[of d d0 "map (item_fields ?tx) (numbered es)"
        "event_fields ?tx (se_sequence se) (event_value (ev_type ev)) (public_payload ev)"]
    obtain d' where d': "map snd (rv_strm V (stream_key ?c ?e) w1)
        = drop d' (map (item_fields ?tx) (numbered (es @ [ev])))" "0 < d' \<longrightarrow> 0 < d \<or> (0 < d0 \<and> d = 0)"
      unfolding eq numbered_snoc map_append list.map item_fields_def prod.case n by blast
    have "length (rv_strm V (stream_key ?c ?e) w1) = Suc (length (rv_strm V (stream_key ?c ?e) w)) - d"
      by (simp add: d(1))
    with d' d(2) d0(2) show ?thesis by (intro exI[of _ d']) auto
  qed
  with proj ctr' val' show ?thesis by (simp add: published_def strm)
qed

lemma emit_other:
  assumes "emit sk ev w = (Inr u, w')" and "sk_redis sk = api" and "recorder_apart V sk"
    and "published V sk e es w" and "e \<noteq> ev_execution_id ev"
  shows "published V sk e es w'"
proof -
  let ?e = "ev_execution_id ev" and ?tx = "sk_text sk" and ?c = "sk_stream sk" and ?h = "sk_hot sk"
  from assms(1-3) obtain se w1 r w2 s0 s w3 where
    ap: "es_append ?tx api ?c ?e (event_value (ev_type ev)) (public_payload ev) w = (Inr se, w1)"
    and ge: "hs_get ?tx api ?h ?e w1 = (Inr r, w2)"
    and st: "hs_set ?tx api ?h ?e s w2 = (Inr (), w3)" and sv: "same_view V w3 w'"
    by (rule emit_steps)
  note A = append_effect[OF ap] and G = hs_get_effect[OF ge] and S = set_ok[OF st[unfolded hs_set_def]]
  have "rv_ctr V (sequence_key ?c e) w' = rv_ctr V (sequence_key ?c e) w"
    "rv_strm V (stream_key ?c e) w' = rv_strm V (stream_key ?c e) w"
    "rv_val V (state_key ?h e) w' = rv_val V (state_key ?h e) w"
    using A(4)[of ?h e] A(5,6)[OF assms(5)] G S sv assms(5) by (simp_all add: same_view_def)
  with assms(4) show ?thesis by (simp add: published_def)
qed

lemma emit_all:
  assumes "mfor evs (emit sk) w = (Inr u, w')" and "sk_redis sk = api" and "recorder_apart V sk"
    and "sink_text_ok fok sk" and "published V sk e es w"
    and "\<forall>ev \<in> set (es @ evs). json_ok fok (PDict (ev_payload ev))"
  shows "published V sk e (es @ filter (\<lambda>ev. ev_execution_id ev = e) evs) w'"
  using assms(1,5,6)
proof (induction evs arbitrary: w es)
  case Nil
  then show ?case by simp
next
  case (Cons ev evs)
  then obtain w1 where e: "emit sk ev w = (Inr (), w1)" and r: "mfor evs (emit sk) w1 = (Inr u, w')"
    by (auto elim!: mbind_InrD)
  show ?case
  proof (cases "ev_execution_id ev = e")
    case True
    have "published V sk e (es @ [ev]) w1"
      using emit_own[OF e assms(2-4), of es] Cons.prems True by (auto simp del: json_ok.simps(4))
    from Cons.IH[OF r this] Cons.prems True show ?thesis by (simp del: json_ok.simps(4))
  next
    case False
    have "published V sk e es w1" using emit_other[OF e assms(2,3) Cons.prems(2)] False by auto
    from Cons.IH[OF r this] Cons.prems False show ?thesis by (simp del: json_ok.simps(4))
  qed
qed

end

section \<open>A server that answers\<close>

text \<open>When Redis and the recorder answer every command, an emission never raises.\<close>

locale redis_up = redis_server +
  assumes incr_up: "\<exists>n w'. rd_incr api k w = (Inr n, w')"
    and xadd_up: "\<exists>i w'. rd_xadd api k fs maxlen w = (Inr i, w')"
    and set_up: "\<exists>w'. rd_set api k v ttl w = (Inr (), w')"
    and get_up: "\<exists>r w'. rd_get api k w = (Inr r, w')"
    and expire_up: "\<exists>w'. rd_expire api k ttl w = (Inr (), w')"

definition recorder_up :: "'w sink_conf \<Rightarrow> bool" where
  "recorder_up sk \<longleftrightarrow>
     (\<forall>record_event ev n w. sk_recorder sk = Some record_event \<longrightarrow> (\<exists>w'. record_event ev n w = (Inr (), w')))"

lemma mbind_up: "\<exists>a w'. m w = (Inr a, w') \<Longrightarrow> (\<And>a w. \<exists>b w'. f a w = (Inr b, w')) \<Longrightarrow> \<exists>b w'. mbind m f w = (Inr b, w')"
  by (metis mbind_Inr)

definition event_ok :: "exec_event \<Rightarrow> bool" where
  "event_ok ev \<longleftrightarrow> payload_ok (event_value (ev_type ev)) (public_payload ev)"

lemma projected_total:
  assumes "\<forall>ev \<in> set es. event_ok ev"
  shows "\<exists>s. projected sk e es = Inr s \<and> proj_wf s"
  unfolding projected_def
  by (rule reduce_all_wf) (use assms in \<open>auto simp: initial_projection_wf numbered_def list_all_iff
      in_set_enumerate_eq event_ok_def\<close>)

context redis_up begin

lemma append_up: "\<exists>se w'. es_append tx api c e t p w = (Inr se, w')"
  unfolding es_append_def by (intro mbind_up incr_up xadd_up) auto

lemma expire_all_up:
  "\<exists>u w'. mwhen b (mbind (hs_expire api h e) (\<lambda>_. es_expire api c e)) w = (Inr u, w')"
proof -
  have up: "\<exists>u w'. rd_expire api k ttl w = (Inr u, w')" for k ttl w using expire_up by blast
  have "\<exists>u w'. mbind (hs_expire api h e) (\<lambda>_. es_expire api c e) w = (Inr u, w')"
    unfolding hs_expire_def es_expire_def by (intro mbind_up up)
  then show ?thesis by (cases b) simp_all
qed

lemma emit_up:
  assumes "sk_redis sk = api" and "recorder_up sk" and "sink_text_ok fok sk"
    and "published V sk (ev_execution_id ev) es w"
    and "\<forall>e \<in> set es. json_ok fok (PDict (ev_payload e)) \<and> event_ok e" and "event_ok ev"
  shows "\<exists>w'. emit sk ev w = (Inr (), w')"
proof -
  let ?e = "ev_execution_id ev" and ?tx = "sk_text sk" and ?c = "sk_stream sk" and ?h = "sk_hot sk"
  obtain se w1 where ap: "es_append ?tx api ?c ?e (event_value (ev_type ev)) (public_payload ev) w = (Inr se, w1)"
    using append_up by blast
  obtain raw w2 where ge: "rd_get api (state_key ?h ?e) w1 = (Inr raw, w2)" using get_up by blast
  have raw: "raw = rv_val V (state_key ?h ?e) w" using get_ok[OF ge] append_effect(4)[OF ap] by simp
  have es: "\<forall>e \<in> set es. event_ok e" "\<forall>e \<in> set es. json_ok fok (PDict (ev_payload e))" using assms(5) by auto
  from projected_total[OF es(1)] obtain s where s: "projected sk ?e es = Inr s" "proj_wf s" by blast
  have lo: "loads ?tx (dumps ?tx (PDict s)) = Inr (PDict s)"
    by (rule loads_dumps[of _ fok])
      (use assms(3) json_ok_projected[OF s(1) es(2)] in \<open>auto simp: sink_text_ok_def simp del: json_ok.simps(4)\<close>)
  have val: "raw = (if es = [] then None else Some (dumps ?tx (PDict s)))"
    using assms(4) s(1) by (auto simp: raw published_def)
  have current: "\<exists>r. hs_get ?tx api ?h ?e w1 = (Inr r, w2) \<and>
      (if truthy r then as_dict r else Inr (initial_projection (tx_repr ?tx) ?e None)) = Inr s"
  proof (cases "es = []")
    case True
    with val s(1) have "raw = None" "s = initial_projection (tx_repr ?tx) ?e None"
      by (simp_all add: projected_def)
    then show ?thesis using ge by (simp add: hs_get_def mbind_def)
  next
    case False
    with val projected_not_Nil[OF s(1)] have "raw = Some (dumps ?tx (PDict s))" "s \<noteq> []" by auto
    then show ?thesis using ge lo by (simp add: hs_get_def mbind_def)
  qed
  from assms(6) reduce_projection_total[OF s(2)] obtain s' where
    re: "reduce_projection (tx_repr ?tx) (event_value (ev_type ev)) (public_payload ev)
           (se_sequence se) (sk_max_activities sk) s = Inr s'"
    unfolding event_ok_def by blast
  obtain w3 where st: "hs_set ?tx api ?h ?e s' w2 = (Inr (), w3)"
    unfolding hs_set_def using set_up by blast
  have rec: "\<exists>u w'. (case sk_recorder sk of
        Some record_event \<Rightarrow> mwhen (should_record ev) (record_event ev (se_sequence se))
      | None \<Rightarrow> mret ()) w3 = (Inr u, w')"
    using assms(2) by (auto simp: recorder_up_def mwhen_def split: option.splits)
  from current obtain r where r: "hs_get ?tx api ?h ?e w1 = (Inr r, w2)"
    and s0: "(if truthy r then as_dict r else Inr (initial_projection (tx_repr ?tx) ?e None)) = Inr s" by blast
  from rec obtain u w4 where rc: "(case sk_recorder sk of
        Some record_event \<Rightarrow> mwhen (should_record ev) (record_event ev (se_sequence se))
      | None \<Rightarrow> mret ()) w3 = (Inr u, w4)" by blast
  show ?thesis
    using expire_all_up[of _ ?h ?e ?c w4]
    by (simp add: emit_def Let_def assms(1) mbind_def ap r s0 re st rc)
qed

lemma emit_all_up:
  assumes "sk_redis sk = api" and "recorder_apart V sk" and "recorder_up sk" and "sink_text_ok fok sk"
    and "\<And>e. published V sk e (past e) w"
    and "\<And>e. \<forall>ev \<in> set (past e). json_ok fok (PDict (ev_payload ev)) \<and> event_ok ev"
    and "\<forall>ev \<in> set evs. json_ok fok (PDict (ev_payload ev)) \<and> event_ok ev"
  shows "\<exists>w'. mfor evs (emit sk) w = (Inr (), w')"
  using assms(5-)
proof (induction evs arbitrary: w past)
  case (Cons ev evs)
  let ?e = "ev_execution_id ev"
  obtain w1 where e: "emit sk ev w = (Inr (), w1)"
    using emit_up[OF assms(1,3,4) Cons.prems(1)[of ?e] Cons.prems(2)[of ?e]] Cons.prems(3) by auto
  let ?past = "past(?e := past ?e @ [ev])"
  have "published V sk f (?past f) w1" for f
  proof (cases "f = ?e")
    case True
    then show ?thesis
      using emit_own[OF e assms(1,2,4) Cons.prems(1)[of ?e]] Cons.prems(2)[of ?e] Cons.prems(3) by simp
  next
    case False
    then show ?thesis using emit_other[OF e assms(1,2) Cons.prems(1)[of f]] by simp
  qed
  moreover have "\<forall>x \<in> set (?past f). json_ok fok (PDict (ev_payload x)) \<and> event_ok x" for f
    using Cons.prems(2)[of f] Cons.prems(2)[of ?e] Cons.prems(3) by (auto simp del: json_ok.simps(4))
  ultimately obtain w' where "mfor evs (emit sk) w1 = (Inr (), w')"
    using Cons.IH[of ?past w1] Cons.prems(3) by (auto simp del: json_ok.simps(4))
  then show ?case by (simp add: mbind_def e)
qed simp

end

end
