(* ===== verification/RedisModel.thy ===== *)
theory RedisModel
  imports Publisher
begin

text \<open>
  A Redis that behaves as documented, executable: counters, strings and streams in memory, stream
  ids drawn from a clock, and approximate trimming that evicts whole nodes of \<open>mr_node\<close> entries
  while at least \<open>maxlen\<close> remain. It interprets the interface the publisher relies on, and the
  publisher's main property is stated at the end.
\<close>

record mem_redis =
  mr_counters :: "pystr \<Rightarrow> int"
  mr_values :: "pystr \<Rightarrow> pystr option"
  mr_streams :: "pystr \<Rightarrow> stream_entry list"
  mr_clock :: nat
  mr_node :: nat

definition mem_empty :: "nat \<Rightarrow> mem_redis" where
  "mem_empty node = \<lparr>mr_counters = (\<lambda>_. 0), mr_values = (\<lambda>_. None), mr_streams = (\<lambda>_. []),
     mr_clock = 0, mr_node = node\<rparr>"

definition mem_incr :: "pystr \<Rightarrow> (mem_redis, int) act" where
  "mem_incr k w =
     (let n = mr_counters w k + 1 in (Inr n, w\<lparr>mr_counters := (mr_counters w)(k := n)\<rparr>))"

definition mem_trim :: "nat \<Rightarrow> nat \<Rightarrow> stream_entry list \<Rightarrow> stream_entry list" where
  "mem_trim node maxlen es = drop (node * ((length es - maxlen) div node)) es"

definition mem_xadd :: "pystr \<Rightarrow> (pystr \<times> pystr) list \<Rightarrow> nat \<Rightarrow> (mem_redis, pystr) act" where
  "mem_xadd k fs maxlen w =
     (let i = dec_nat (mr_clock w + 1) @ lit ''-0'';
          es = mem_trim (mr_node w) maxlen (mr_streams w k @ [(i, fs)])
      in (Inr i, w\<lparr>mr_streams := (mr_streams w)(k := es), mr_clock := mr_clock w + 1\<rparr>))"

definition id_number :: "pystr \<Rightarrow> nat" where
  "id_number i = digits_value (takeWhile is_digit i)"

definition mem_xread :: "pystr \<Rightarrow> pystr \<Rightarrow> nat \<Rightarrow> nat \<Rightarrow> (mem_redis, (pystr \<times> stream_entry list) list) act" where
  "mem_xread k after cnt block w =
     (let es = take cnt (filter (\<lambda>(i, _). id_number after < id_number i) (mr_streams w k))
      in (Inr (if es = [] then [] else [(k, es)]), w))"

definition mem_xrange :: "pystr \<Rightarrow> nat \<Rightarrow> (mem_redis, stream_entry list) act" where
  "mem_xrange k cnt w = (Inr (take cnt (mr_streams w k)), w)"

definition mem_xrevrange :: "pystr \<Rightarrow> nat \<Rightarrow> (mem_redis, stream_entry list) act" where
  "mem_xrevrange k cnt w = (Inr (take cnt (rev (mr_streams w k))), w)"

definition mem_expire :: "pystr \<Rightarrow> nat \<Rightarrow> (mem_redis, unit) act" where
  "mem_expire k ttl w = (Inr (), w)"

definition mem_set :: "pystr \<Rightarrow> pystr \<Rightarrow> nat \<Rightarrow> (mem_redis, unit) act" where
  "mem_set k v ttl w = (Inr (), w\<lparr>mr_values := (mr_values w)(k := Some v)\<rparr>)"

definition mem_get :: "pystr \<Rightarrow> (mem_redis, pystr option) act" where
  "mem_get k w = (Inr (mr_values w k), w)"

definition mem_api :: "mem_redis redis_api" where
  "mem_api = \<lparr>rd_incr = mem_incr, rd_xadd = mem_xadd, rd_xread = mem_xread, rd_xrange = mem_xrange,
     rd_xrevrange = mem_xrevrange, rd_expire = mem_expire, rd_set = mem_set, rd_get = mem_get\<rparr>"

definition mem_view :: "mem_redis redis_view" where
  "mem_view = \<lparr>rv_ctr = (\<lambda>k w. mr_counters w k), rv_strm = (\<lambda>k w. mr_streams w k),
     rv_val = (\<lambda>k w. mr_values w k)\<rparr>"

lemmas mem_defs = mem_api_def mem_view_def mem_incr_def mem_xadd_def mem_xread_def mem_xrange_def
  mem_xrevrange_def mem_expire_def mem_set_def mem_get_def Let_def

lemma mem_trim_keeps:
  "\<exists>d. mem_trim node maxlen es = drop d es \<and> (0 < d \<longrightarrow> maxlen \<le> length (mem_trim node maxlen es))"
proof -
  let ?d = "node * ((length es - maxlen) div node)"
  have "?d \<le> length es - maxlen" by simp
  then have "0 < ?d \<longrightarrow> maxlen \<le> length es - ?d" by linarith
  then show ?thesis by (intro exI[of _ ?d]) (simp add: mem_trim_def)
qed

lemma mem_xadd_trims:
  assumes "mem_xadd k fs maxlen w = (Inr i, w')"
  shows "\<exists>d. mr_streams w' k = drop d (mr_streams w k @ [(i, fs)])
           \<and> (0 < d \<longrightarrow> maxlen \<le> length (mr_streams w' k))"
proof -
  have "mr_streams w' k = mem_trim (mr_node w) maxlen (mr_streams w k @ [(i, fs)])"
    using assms by (auto simp: mem_xadd_def Let_def)
  with mem_trim_keeps[of "mr_node w" maxlen "mr_streams w k @ [(i, fs)]"] show ?thesis by simp
qed

interpretation mem: redis_up mem_api mem_view
proof unfold_locales
  show "(\<exists>d. rv_strm mem_view k w' = drop d (rv_strm mem_view k w @ [(i, fs)])
          \<and> (0 < d \<longrightarrow> maxlen \<le> length (rv_strm mem_view k w')))
      \<and> (\<forall>k'. k' \<noteq> k \<longrightarrow> rv_strm mem_view k' w' = rv_strm mem_view k' w
          \<and> rv_ctr mem_view k' w' = rv_ctr mem_view k' w \<and> rv_val mem_view k' w' = rv_val mem_view k' w)"
    if "rd_xadd mem_api k fs maxlen w = (Inr i, w')" for k fs maxlen w i w'
  proof -
    have x: "mem_xadd k fs maxlen w = (Inr i, w')" using that by (simp add: mem_api_def)
    then have "\<forall>k'. k' \<noteq> k \<longrightarrow> mr_streams w' k' = mr_streams w k'"
      and "mr_counters w' = mr_counters w" "mr_values w' = mr_values w"
      by (auto simp: mem_xadd_def Let_def)
    with mem_xadd_trims[OF x] show ?thesis by (simp add: mem_view_def del: drop_append)
  qed
qed (auto simp: mem_defs same_view_def dest!: in_set_takeD)

section \<open>The publisher's contract\<close>

text \<open>
  C1. Publishing refines the fold of the reducer. Over any Redis that behaves as documented and
  answers, emitting the events of several interleaved executions returns, and afterwards every
  execution is published: its counter equals the number of its events, its hot state is the
  fold of the reducer over exactly its own events numbered from 1, and its stream is a
  suffix of them that lost entries only while keeping \<open>maxlen\<close>.
\<close>
theorem emit_publishes_fold:
  assumes "redis_up (sk_redis sk) V" and "recorder_apart V sk" and "recorder_up sk"
    and "sink_text_ok fok sk" and "\<And>e. published V sk e [] w"
    and "\<forall>ev \<in> set evs. json_ok fok (PDict (ev_payload ev)) \<and> event_ok ev"
  shows "\<exists>w'. mfor evs (emit sk) w = (Inr (), w')
           \<and> (\<forall>e. published V sk e (filter (\<lambda>ev. ev_execution_id ev = e) evs) w')"
proof -
  have up: "redis_up (sk_redis sk) V" and sv: "redis_server (sk_redis sk) V"
    using assms(1) by (simp_all add: redis_up_def)
  obtain w' where w': "mfor evs (emit sk) w = (Inr (), w')"
    using redis_up.emit_all_up[OF up refl assms(2-4), of "\<lambda>_. []" w evs] assms(5,6) by auto
  have "published V sk e (filter (\<lambda>ev. ev_execution_id ev = e) evs) w'" for e
    using redis_server.emit_all[OF sv w' refl assms(2,4,5)] assms(6) by auto
  with w' show ?thesis by blast
qed

definition ex_text :: py_text where
  "ex_text = \<lparr>tx_repr = (\<lambda>_. []), tx_float = (\<lambda>_. lit ''0.0''), tx_read = (\<lambda>_. 0)\<rparr>"

definition ex_sink :: "mem_redis sink_conf" where
  "ex_sink = \<lparr>sk_text = ex_text, sk_redis = mem_api,
     sk_stream = \<lparr>sc_key_prefix = lit ''agent'', sc_maxlen = 2, sc_ttl_seconds = 60,
                  sc_read_block_ms = 10, sc_read_count = 10\<rparr>,
     sk_hot = \<lparr>hc_key_prefix = lit ''agent'', hc_ttl_seconds = 60\<rparr>,
     sk_max_activities = 3, sk_recorder = None\<rparr>"

definition ex_event :: "string \<Rightarrow> event_type \<Rightarrow> pdict \<Rightarrow> exec_event" where
  "ex_event e t p = \<lparr>ev_execution_id = lit e, ev_type = t, ev_payload = p, ev_created_at = lit ''t0''\<rparr>"

definition ex_events :: "exec_event list" where
  "ex_events =
     [ex_event ''a'' EXECUTION_STARTED [(lit ''session_id'', PStr (lit ''s''))],
      ex_event ''b'' EXECUTION_STARTED [(lit ''session_id'', PStr (lit ''t''))],
      ex_event ''a'' ASSISTANT_DELTA [(lit ''content'', PStr (lit ''hi''))],
      ex_event ''a'' EXECUTION_COMPLETED [(lit ''answer'', PStr (lit ''hi''))]]"

theorem emit_publishes_fold_witness:
  "\<exists>w'. mfor ex_events (emit ex_sink) (mem_empty 1) = (Inr (), w')
     \<and> (\<forall>e. published mem_view ex_sink e (filter (\<lambda>ev. ev_execution_id ev = e) ex_events) w')"
proof (rule emit_publishes_fold[where fok = "\<lambda>_. False"])
  show "redis_up (sk_redis ex_sink) mem_view"
    using mem.redis_up_axioms by (simp add: ex_sink_def)
  show "\<And>e. published mem_view ex_sink e [] (mem_empty 1)"
    by (simp add: published_def projected_def ex_sink_def mem_view_def mem_empty_def)
  show "\<forall>ev \<in> set ex_events. json_ok (\<lambda>_. False) (PDict (ev_payload ev)) \<and> event_ok ev"
    by (simp add: ex_events_def ex_event_def event_ok_def payload_ok_def)
qed (simp_all add: recorder_apart_def recorder_up_def sink_text_ok_def ex_sink_def)

end
