(* ===== verification/Observer_Props.thy ===== *)
theory Observer_Props
  imports Observer RedisModel
begin

text \<open>
  What an observer can rely on: the event frames it receives are consecutive whatever the store
  answers, and over a store that only returns genuine events of the execution (the locale
  \<open>execution_log\<close>, interpreted on the modelled event stream and hot state) what it is given is the
  fold of the published history, nothing lost and nothing repeated.
\<close>

section \<open>Consecutive event frames\<close>

definition event_seqs :: "exec_frame list \<Rightarrow> int list" where
  "event_seqs frames = List.map_filter fr_sequence frames"

lemma event_seqs_simps [simp]:
  "event_seqs [] = []"
  "event_seqs (f # fs) = (case fr_sequence f of None \<Rightarrow> [] | Some n \<Rightarrow> [n]) @ event_seqs fs"
  "event_seqs (fs @ gs) = event_seqs fs @ event_seqs gs"
  by (auto simp: event_seqs_def List.map_filter_def split: option.splits)

lemma no_sequence [simp]:
  "fr_sequence (realtime_unavailable e r d) = None" "fr_sequence (heartbeat e t) = None"
  "fr_sequence (gap_frame rp e x) = None" "fr_sequence (durable_notice rp e f) = None"
  by (simp_all add: realtime_unavailable_def heartbeat_def gap_frame_def durable_notice_def)

lemma event_frame_sequence [simp]: "event_frame e ev = Inr f \<Longrightarrow> fr_sequence f = Some (se_sequence ev)"
  by (auto simp: event_frame_def)

lemma scan_events_seqs:
  "scan_events e c s evs = (fs, c', s', r) \<Longrightarrow>
     \<exists>k. s \<le> k \<and> event_seqs fs = [s + 1..k] \<and> (r = None \<longrightarrow> k = s')"
proof (induction e c s evs arbitrary: fs c' s' r rule: scan_events.induct)
  case (1 e c s)
  then show ?case by (intro exI[of _ s]) simp
next
  case (2 e c s ev evs)
  consider "se_sequence ev \<le> s" | "se_sequence ev > s" "se_sequence ev \<noteq> s + 1" | "se_sequence ev = s + 1"
    by linarith
  then show ?case
  proof cases
    case 1
    with 2(1) 2(3) show ?thesis by simp
  next
    case 2
    with "2.prems" show ?thesis by (intro exI[of _ s]) auto
  next
    case 3
    show ?thesis
    proof (cases "event_frame e ev")
      case (Inl x)
      with 3 "2.prems" show ?thesis by (intro exI[of _ s]) auto
    next
      case (Inr f)
      show ?thesis
      proof (cases "se_event_type ev \<in> set TERMINAL_EVENT_TYPES")
        case True
        with 3 Inr "2.prems" show ?thesis by (intro exI[of _ "s + 1"]) auto
      next
        case False
        obtain gs c1 s1 r1 where rec: "scan_events e (se_stream_id ev) (s + 1) evs = (gs, c1, s1, r1)"
          by (metis prod_cases4)
        with 3 Inr False "2.prems" have fs: "fs = f # gs" "c' = c1" "s' = s1" "r = r1" by auto
        from 2(2)[OF _ _ Inr False, of gs c1 s1 r1] rec 3
        obtain k where k: "s + 1 \<le> k" "event_seqs gs = [s + 1 + 1..k]" "r1 = None \<longrightarrow> k = s1" by auto
        then have "event_seqs fs = [s + 1..k]"
          using 3 Inr by (simp add: fs upto_rec1[of "s + 1" k])
        with k fs show ?thesis by (intro exI[of _ k]) auto
      qed
    qed
  qed
qed

lemma upto_append:
  assumes "(i::int) \<le> j + 1" and "j \<le> k"
  shows "[i..j] @ [j + 1..k] = [i..k]"
proof (cases "i \<le> j")
  case True
  then show ?thesis using upto_split2[of i j k] assms by simp
next
  case False
  then have "i = j + 1" using assms by simp
  then show ?thesis by simp
qed

lemma follow_tail_seqs:
  "follow_tail n od rp e c s w = (fs, fin, w') \<Longrightarrow> \<exists>k. s \<le> k \<and> event_seqs fs = [s + 1..k]"
proof (induction n arbitrary: c s w fs fin w')
  case 0
  then show ?case by (intro exI[of _ s]) simp
next
  case (Suc n)
  obtain r w1 where rd: "od_read od e c w = (r, w1)" by (cases "od_read od e c w")
  show ?case
  proof (cases r)
    case (Inl x)
    with rd Suc.prems show ?thesis by (intro exI[of _ s]) (auto split: if_splits)
  next
    case (Inr evs)
    show ?thesis
    proof (cases "evs = []")
      case True
      obtain r2 w2 where nw: "od_now od w1 = (r2, w2)" by (cases "od_now od w1")
      show ?thesis
      proof (cases r2)
        case (Inl x)
        with rd Inr True nw Suc.prems show ?thesis by (intro exI[of _ s]) auto
      next
        case (Inr now)
        obtain gs fin2 w3 where rec: "follow_tail n od rp e c s w2 = (gs, fin2, w3)"
          by (metis prod_cases3)
        with rd \<open>r = Inr evs\<close> True nw Inr Suc.prems have "fs = heartbeat e now # gs"
          by (auto simp: obs_yield_def)
        with Suc.IH[OF rec] show ?thesis by simp
      qed
    next
      case False
      obtain gs c1 s1 r1 where sc: "scan_events e c s evs = (gs, c1, s1, r1)" by (metis prod_cases4)
      from scan_events_seqs[OF sc] obtain k where k: "s \<le> k" "event_seqs gs = [s + 1..k]"
        "r1 = None \<longrightarrow> k = s1" by blast
      show ?thesis
      proof (cases r1)
        case (Some x)
        with rd Inr False sc Suc.prems have "fs = gs" by auto
        with k show ?thesis by auto
      next
        case None
        obtain hs fin2 w3 where rec: "follow_tail n od rp e c1 s1 w1 = (hs, fin2, w3)"
          by (metis prod_cases3)
        from Suc.IH[OF rec] obtain k2 where "s1 \<le> k2" "event_seqs hs = [s1 + 1..k2]" by blast
        moreover from rd Inr False sc None rec Suc.prems have "fs = gs @ hs" by (auto simp: obs_yield_def)
        ultimately show ?thesis using k None by (intro exI[of _ k2]) (auto simp: upto_append)
      qed
    qed
  qed
qed

lemma state_frame_type [simp]:
  "fr_type (durable_frame rp e d r l) = EXECUTION_STATE_FRAME"
  "fr_type (unavailable_frame e q l p) = EXECUTION_STATE_FRAME"
  "fr_type (live_frame e h l p) = EXECUTION_STATE_FRAME"
  by (simp_all add: durable_frame_def unavailable_frame_def live_frame_def state_frame_def)

lemma resolve_shape:
  assumes "resolve_current_state oc od e l w = (Inr (frame, cursor), w')"
  shows "fr_type frame = EXECUTION_STATE_FRAME"
    and "cursor = Some c \<Longrightarrow> \<exists>h p. frame = live_frame e h l p"
  using assms unfolding resolve_current_state_def Let_def
  by (auto elim!: mbind_InrD split: option.splits if_splits) blast+

lemma live_available: "dget (fr_payload (live_frame e h l p)) (lit ''realtime_available'') = PBool True"
  by (simp add: live_frame_def state_frame_def put_reattached_def public_projection_def dict_simps
      split: option.splits)

lemma await_runtime_seqs:
  assumes "await_runtime n oc od e l w = (fs, fin, w')"
  shows "\<exists>states tail k. fs = states @ tail \<and> length states \<le> 1
           \<and> (\<forall>f \<in> set states. fr_type f = EXECUTION_STATE_FRAME)
           \<and> (states = [] \<longrightarrow> event_seqs tail = [])
           \<and> (states \<noteq> [] \<longrightarrow> frame_sequence (last states) \<le> k \<and>
                event_seqs tail = [frame_sequence (last states) + 1..k])"
  using assms
proof (induction n arbitrary: w)
  case 0
  then show ?case by (intro exI[of _ "[]"]) simp
next
  case (Suc n)
  obtain r1 w1 where sl: "od_sleep od w = (r1, w1)" by (cases "od_sleep od w")
  show ?case
  proof (cases r1)
    case (Inl x)
    with sl Suc.prems show ?thesis by (intro exI[of _ "[]"]) simp
  next
    case (Inr u)
    obtain r2 w2 where rs: "resolve_current_state oc od e l w1 = (r2, w2)"
      by (cases "resolve_current_state oc od e l w1")
    show ?thesis
    proof (cases r2)
      case (Inl x)
      with sl Inr rs Suc.prems show ?thesis
        by (intro exI[of _ "[]"] exI[of _ fs]) (auto split: if_splits)
    next
      case r2: (Inr fc)
      obtain cand cur where fc: "fc = (cand, cur)" by (cases fc)
      note rs' = rs[unfolded r2 fc]
      have ty: "fr_type cand = EXECUTION_STATE_FRAME" using resolve_shape(1)[OF rs'] .
      have av: "truthy (dget (fr_payload cand) (lit ''realtime_available''))" if "cur = Some c" for c
        using resolve_shape(2)[OF rs' that] live_available by auto
      note run = Suc.prems[simplified, unfolded sl, simplified, unfolded Inr, simplified, unfolded rs', simplified]
      consider (stop) "is_terminal_state (oc_repr oc) cand \<or> is_unavailable_reason (realtime_reason cand)"
        | (live) c where "\<not> is_terminal_state (oc_repr oc) cand" "\<not> is_unavailable_reason (realtime_reason cand)"
          "cur = Some c"
        | (none) "\<not> is_terminal_state (oc_repr oc) cand" "\<not> is_unavailable_reason (realtime_reason cand)"
          "cur = None"
        by (cases cur) auto
      then show ?thesis
      proof cases
        case stop
        let ?k = "frame_sequence cand"
        have "\<exists>tail. fs = [cand] @ tail \<and> event_seqs tail = []"
          using run stop by (auto split: if_splits)
        with ty show ?thesis by (fastforce intro: exI[of _ "[cand]"] exI[of _ ?k])
      next
        case live
        obtain gs fin2 w3 where ft: "follow_tail n od (oc_repr oc) e c (frame_sequence cand) w2 = (gs, fin2, w3)"
          by (metis prod_cases3)
        with run live av have "fs = [cand] @ gs" by (auto simp: obs_yield_def)
        with follow_tail_seqs[OF ft] ty show ?thesis by (fastforce intro: exI[of _ "[cand]"])
      next
        case none
        show ?thesis
        proof (cases "truthy (dget (fr_payload cand) (lit ''realtime_available''))")
          case True
          with run none have "fs = [cand] @ []" by (auto simp: obs_yield_def)
          with ty show ?thesis
            by (intro exI[of _ "[cand]"] exI[of _ "[]"] exI[of _ "frame_sequence cand"]) simp
        next
          case False
          with run none have "await_runtime n oc od e l w2 = (fs, fin, w')" by simp
          then show ?thesis by (rule Suc.IH)
        qed
      qed
    qed
  qed
qed

text \<open>
  C4. No gap and no repetition, over any store. Whatever the durable reader, the hot state and the
  stream answer, whenever they answer it and however long the run is, the frames an observer
  yields are at most two state frames followed by a tail whose sequence numbers are exactly
  consecutive, starting right after the sequence of the last state frame.
\<close>
theorem observe_gapless:
  assumes "observe fuel oc od e l w = (frames, fin, w')"
  shows "\<exists>states tail k. frames = states @ tail \<and> length states \<le> 2
           \<and> (\<forall>f \<in> set states. fr_type f = EXECUTION_STATE_FRAME)
           \<and> (states = [] \<longrightarrow> event_seqs tail = [])
           \<and> (states \<noteq> [] \<longrightarrow> event_seqs tail = [frame_sequence (last states) + 1..k])"
proof -
  obtain r w1 where rs: "resolve_current_state oc od e l w = (r, w1)"
    by (cases "resolve_current_state oc od e l w")
  show ?thesis
  proof (cases r)
    case (Inl x)
    with rs assms show ?thesis
      by (intro exI[of _ "[]"] exI[of _ frames]) (auto simp: observe_def split: if_splits)
  next
    case (Inr fc)
    obtain frame cur where fc: "fc = (frame, cur)" by (cases fc)
    note rs' = rs[unfolded Inr fc]
    have ty: "fr_type frame = EXECUTION_STATE_FRAME" using resolve_shape(1)[OF rs'] .
    note run = assms[unfolded observe_def rs', simplified]
    consider (stop) "is_terminal_state (oc_repr oc) frame \<or> (cur = None \<and> is_unavailable_reason (realtime_reason frame))"
      | (live) c where "\<not> is_terminal_state (oc_repr oc) frame" "cur = Some c"
      | (wait) "\<not> is_terminal_state (oc_repr oc) frame" "cur = None" "\<not> is_unavailable_reason (realtime_reason frame)"
      by (cases cur) auto
    then show ?thesis
    proof cases
      case stop
      have "\<exists>tail. frames = [frame] @ tail \<and> event_seqs tail = []"
        using run stop by (auto simp: obs_yield_def split: if_splits)
      with ty show ?thesis by (fastforce intro: exI[of _ "[frame]"] exI[of _ "frame_sequence frame"])
    next
      case live
      obtain gs fin2 w3 where ft: "follow_tail fuel od (oc_repr oc) e c (frame_sequence frame) w1 = (gs, fin2, w3)"
        by (metis prod_cases3)
      with run live have "frames = [frame] @ gs" by (auto simp: obs_yield_def)
      with follow_tail_seqs[OF ft] ty show ?thesis by (fastforce intro: exI[of _ "[frame]"])
    next
      case wait
      obtain gs fin2 w3 where aw: "await_runtime fuel oc od e (fr_sequence frame) w1 = (gs, fin2, w3)"
        by (metis prod_cases3)
      with run wait have fs: "frames = frame # gs" by (auto simp: obs_yield_def)
      from await_runtime_seqs[OF aw] obtain states tail k where gs: "gs = states @ tail" "length states \<le> 1"
        "\<forall>f \<in> set states. fr_type f = EXECUTION_STATE_FRAME" "states = [] \<longrightarrow> event_seqs tail = []"
        "states \<noteq> [] \<longrightarrow> frame_sequence (last states) \<le> k \<and> event_seqs tail = [frame_sequence (last states) + 1..k]"
        by blast
      show ?thesis
      proof (cases "states = []")
        case True
        with fs gs ty show ?thesis
          by (intro exI[of _ "[frame]"] exI[of _ tail] exI[of _ "frame_sequence frame"]) simp
      next
        case False
        with fs gs ty show ?thesis
          by (intro exI[of _ "frame # states"] exI[of _ tail] exI[of _ k]) simp
      qed
    qed
  qed
qed

section \<open>The end of a stream is announced\<close>

definition announces_end :: "repr \<Rightarrow> exec_frame \<Rightarrow> bool" where
  "announces_end rp f \<longleftrightarrow> fr_type f \<in> set TERMINAL_EVENT_TYPES \<or> fr_type f = REALTIME_UNAVAILABLE_FRAME
     \<or> is_terminal_state rp f"

lemma notice_announces [simp]:
  "announces_end rp (realtime_unavailable e r d)" "announces_end rp (gap_frame rp' e x)"
  "announces_end rp (durable_notice rp' e f)"
  by (simp_all add: announces_end_def realtime_unavailable_def gap_frame_def durable_notice_def)

lemma scan_events_announced:
  "scan_events e c s evs = (fs, c', s', Some Finished) \<Longrightarrow> fs \<noteq> [] \<and> announces_end rp (last fs)"
proof (induction evs arbitrary: c s fs c' s')
  case (Cons ev evs)
  consider "se_sequence ev \<le> s" | "se_sequence ev > s" "se_sequence ev \<noteq> s + 1" | "se_sequence ev = s + 1"
    by linarith
  then show ?case
  proof cases
    case 1
    with Cons.prems have "scan_events e (se_stream_id ev) s evs = (fs, c', s', Some Finished)" by simp
    then show ?thesis by (rule Cons.IH)
  next
    case 2
    with Cons.prems show ?thesis by auto
  next
    case 3
    show ?thesis
    proof (cases "event_frame e ev")
      case (Inl x)
      with 3 Cons.prems show ?thesis by simp
    next
      case (Inr f)
      then have ty: "fr_type f = se_event_type ev" by (auto simp: event_frame_def)
      show ?thesis
      proof (cases "se_event_type ev \<in> set TERMINAL_EVENT_TYPES")
        case True
        with 3 Inr Cons.prems have "fs = [f]" by simp
        with True ty show ?thesis by (simp add: announces_end_def)
      next
        case False
        obtain gs c1 s1 r1 where rec: "scan_events e (se_stream_id ev) (s + 1) evs = (gs, c1, s1, r1)"
          by (metis prod_cases4)
        with 3 Inr False Cons.prems have "fs = f # gs" "r1 = Some Finished" by auto
        with Cons.IH[of "se_stream_id ev" "s + 1" gs c1 s1] rec show ?thesis by simp
      qed
    qed
  qed
qed simp

lemma follow_tail_announced:
  "follow_tail n od rp' e c s w = (fs, Finished, w') \<Longrightarrow> fs \<noteq> [] \<and> announces_end rp (last fs)"
proof (induction n arbitrary: c s w fs)
  case (Suc n)
  obtain r w1 where rd: "od_read od e c w = (r, w1)" by (cases "od_read od e c w")
  show ?case
  proof (cases r)
    case (Inl x)
    with rd Suc.prems show ?thesis by (auto split: if_splits)
  next
    case (Inr evs)
    show ?thesis
    proof (cases "evs = []")
      case True
      with rd Inr Suc show ?thesis
        by (fastforce simp: obs_yield_def split: prod.splits sum.splits)
    next
      case False
      obtain gs c1 s1 r1 where sc: "scan_events e c s evs = (gs, c1, s1, r1)" by (metis prod_cases4)
      show ?thesis
      proof (cases r1)
        case (Some x)
        with rd Inr False sc Suc.prems have "fs = gs" "x = Finished" by auto
        with scan_events_announced[of e c s evs gs c1 s1 rp] sc Some show ?thesis by simp
      next
        case None
        with rd Inr False sc Suc show ?thesis
          by (fastforce simp: obs_yield_def split: prod.splits)
      qed
    qed
  qed
qed simp

lemma resolve_no_cursor:
  assumes "resolve_current_state oc od e l w = (Inr (frame, None), w')"
  shows "\<not> truthy (dget (fr_payload frame) (lit ''realtime_available''))"
  using assms unfolding resolve_current_state_def Let_def
  by (auto elim!: mbind_InrD split: option.splits if_splits
      simp: durable_frame_def unavailable_frame_def state_frame_def put_reattached_def public_projection_def dict_simps)

lemma await_runtime_announced:
  "await_runtime n oc od e l w = (fs, Finished, w') \<Longrightarrow> fs \<noteq> [] \<and> announces_end (oc_repr oc) (last fs)"
proof (induction n arbitrary: w fs)
  case (Suc n)
  obtain r1 w1 where sl: "od_sleep od w = (r1, w1)" by (cases "od_sleep od w")
  obtain r2 w2 where rs: "resolve_current_state oc od e l w1 = (r2, w2)"
    by (cases "resolve_current_state oc od e l w1")
  show ?case
  proof (cases r1)
    case (Inl x)
    with sl Suc.prems show ?thesis by simp
  next
    case (Inr u)
    show ?thesis
    proof (cases r2)
      case (Inl x)
      with sl Inr rs Suc.prems \<open>r1 = Inr u\<close> show ?thesis by (auto split: if_splits)
    next
      case r2: (Inr fc)
      obtain cand cur where fc: "fc = (cand, cur)" by (cases fc)
      note rs' = rs[unfolded r2 fc]
      show ?thesis
      proof (cases cur)
        case None
        from resolve_no_cursor[OF rs'[unfolded None]] have "\<not> truthy (dget (fr_payload cand) (lit ''realtime_available''))" by blast
        with None sl Inr rs' Suc show ?thesis
          by (auto simp: announces_end_def[of _ cand] split: if_splits)
      next
        case (Some c)
        with sl Inr rs' Suc.prems follow_tail_announced[of n od "oc_repr oc" e c _ w2 _ w' "oc_repr oc"]
        show ?thesis
          by (fastforce simp: announces_end_def[of _ cand] obs_yield_def split: if_splits prod.splits option.splits)
      qed
    qed
  qed
qed simp

text \<open>
  An observation never ends silently: whatever the store answers, when the generator returns,
  the last frame it yielded is a terminal event, a terminal state, or the notice that realtime
  observation is unavailable.
\<close>
theorem observe_end_announced:
  assumes "observe fuel oc od e l w = (frames, Finished, w')"
  shows "frames \<noteq> [] \<and> announces_end (oc_repr oc) (last frames)"
proof -
  obtain r w1 where rs: "resolve_current_state oc od e l w = (r, w1)"
    by (cases "resolve_current_state oc od e l w")
  show ?thesis
  proof (cases r)
    case (Inl x)
    with rs assms show ?thesis by (auto simp: observe_def split: if_splits)
  next
    case (Inr fc)
    obtain frame cur where fc: "fc = (frame, cur)" by (cases fc)
    note rs' = rs[unfolded Inr fc]
    show ?thesis
    proof (cases cur)
      case None
      with assms rs' await_runtime_announced[of fuel oc od e _ w1 _ w'] show ?thesis
        by (fastforce simp: observe_def obs_yield_def announces_end_def[of _ frame] split: if_splits prod.splits)
    next
      case (Some c)
      with assms rs' follow_tail_announced[of fuel od "oc_repr oc" e c _ w1 _ w' "oc_repr oc"] show ?thesis
        by (fastforce simp: observe_def obs_yield_def announces_end_def[of _ frame] split: if_splits prod.splits)
    qed
  qed
qed

section \<open>A store of genuine events\<close>

text \<open>The events of one execution, in order: the n-th has sequence n.\<close>

definition well_numbered :: "stream_item list \<Rightarrow> bool" where
  "well_numbered hist \<longleftrightarrow> (\<forall>i < length hist. fst (hist ! i) = int i + 1)"

definition genuine :: "stream_item list \<Rightarrow> stream_event \<Rightarrow> bool" where
  "genuine hist ev \<longleftrightarrow>
     (\<exists>p i. i < length hist \<and> se_sequence ev = int i + 1 \<and> se_payload ev = PDict p
          \<and> hist ! i = (se_sequence ev, se_event_type ev, p))"

definition folded :: "repr \<Rightarrow> nat \<Rightarrow> pystr \<Rightarrow> stream_item list \<Rightarrow> nat \<Rightarrow> pdict \<Rightarrow> bool" where
  "folded rp m e hist n s \<longleftrightarrow>
     0 < n \<and> n \<le> length hist \<and> reduce_all rp m (initial_projection rp e None) (take n hist) = Inr s"

text \<open>
  What the observer needs of its store: reading keeps \<open>inv\<close>, the hot state is the fold of some front
  part of the history, and every event that is read is an event of the history. Nothing is said of
  which events are returned, nor of the time between two reads.
\<close>

locale execution_log =
  fixes od :: "'w observer_deps" and inv :: "'w \<Rightarrow> bool" and rp :: repr and m :: nat
    and eid :: pystr and hist :: "stream_item list"
  assumes numbered_log: "well_numbered hist"
    and durable_ok: "inv w \<Longrightarrow> od_durable od eid w = (r, w') \<Longrightarrow> inv w'"
    and sleep_ok: "inv w \<Longrightarrow> od_sleep od w = (ru, w') \<Longrightarrow> inv w'"
    and now_ok: "inv w \<Longrightarrow> od_now od w = (rt, w') \<Longrightarrow> inv w'"
    and hot_ok: "inv w \<Longrightarrow> od_hot od eid w = (rh, w') \<Longrightarrow>
      inv w' \<and> (\<forall>v. rh = Inr v \<longrightarrow> v = PNone \<or> (\<exists>n s. folded rp m eid hist n s \<and> v = PDict s))"
    and latest_ok: "inv w \<Longrightarrow> od_latest od eid w = (rl, w') \<Longrightarrow>
      inv w' \<and> (\<forall>ev. rl = Inr (Some ev) \<longrightarrow> genuine hist ev)"
    and retained_ok: "inv w \<Longrightarrow> od_retained od eid w = (rs, w') \<Longrightarrow>
      inv w' \<and> (\<forall>evs. rs = Inr evs \<longrightarrow> (\<forall>ev \<in> set evs. genuine hist ev))"
    and read_ok: "inv w \<Longrightarrow> od_read od eid c w = (rs, w') \<Longrightarrow>
      inv w' \<and> (\<forall>evs. rs = Inr evs \<longrightarrow> (\<forall>ev \<in> set evs. genuine hist ev))"

text \<open>The key list of a projection never changes, so overlaying a hot projection replaces the initial one.\<close>

lemma keys_initial: "map fst (initial_projection rp e d) = PROJECTION_KEYS"
  by (simp add: initial_projection_def Let_def PROJECTION_KEYS_def)

lemma dput_keys: "k \<in> fst ` set d \<Longrightarrow> map fst (dput k v d) = map fst d"
  by (simp add: dput_def update_keys)

lemma keys_dput: "map fst d = PROJECTION_KEYS \<Longrightarrow> k \<in> set PROJECTION_KEYS \<Longrightarrow> map fst (dput k v d) = PROJECTION_KEYS"
  by (metis dput_keys list.set_map)

lemma keys_set_phase: "map fst d = PROJECTION_KEYS \<Longrightarrow> map fst (set_phase rp p d) = PROJECTION_KEYS"
  by (auto simp: set_phase_alt PROJECTION_KEYS_def intro!: keys_dput[unfolded PROJECTION_KEYS_def])

lemma keys_reduce_event:
  assumes "reduce_event rp t p s = Inr s'" and "map fst s = PROJECTION_KEYS"
  shows "map fst s' = PROJECTION_KEYS"
proof -
  have k: "lit k \<in> set PROJECTION_KEYS" if "k \<in> {''session_id'', ''status'', ''iteration'', ''partial_answer'',
      ''answer'', ''error'', ''result'', ''active_skills'', ''active_tools''}" for k
    using that by (auto simp: PROJECTION_KEYS_def)
  show ?thesis
    using assms unfolding reduce_event_def clear_active_def mark_tool_started_def mark_tool_finished_def
    by (auto split: if_splits simp: Let_def intro!: keys_set_phase keys_dput k)
qed

lemma keys_reduce_projection:
  assumes "reduce_projection rp t p n m s = Inr s'" and "map fst s = PROJECTION_KEYS"
  shows "map fst s' = PROJECTION_KEYS"
proof -
  have k: "lit k \<in> set PROJECTION_KEYS" if "k \<in> {''sequence'', ''last_event'', ''updated_at'', ''activities''}" for k
    using that by (auto simp: PROJECTION_KEYS_def)
  from assms(1) obtain s1 where r: "reduce_event rp t p (stamp n t p s) = Inr s1"
    and a: "append_activity m n t p s1 = Inr s'" by (rule reduce_projection_cases)
  have "map fst (stamp n t p s) = PROJECTION_KEYS"
    using assms(2) by (auto simp: stamp_def Let_def intro!: keys_dput k)
  from keys_reduce_event[OF r this] a show ?thesis
    by (auto simp: append_activity_def split: if_splits intro!: keys_dput k)
qed

lemma keys_reduce_all:
  "reduce_all rp m s es = Inr s' \<Longrightarrow> map fst s = PROJECTION_KEYS \<Longrightarrow> map fst s' = PROJECTION_KEYS"
  by (rule reduce_all_invariant) (auto dest: keys_reduce_projection)

lemma assoc_rebuild: "distinct (map fst b) \<Longrightarrow> map (\<lambda>k. (k, the (map_of b k))) (map fst b) = b"
  by (auto simp: o_def intro!: map_idI)

lemma dmerge_same_keys:
  assumes "map fst a = map fst b" and "distinct (map fst b)"
  shows "dmerge a b = b"
proof -
  have "map_of (dmerge a b) = map_of b"
  proof
    fix k
    have "map_of b k = None \<Longrightarrow> map_of a k = None"
      using assms(1) by (metis list.set_map map_of_eq_None_iff)
    then show "map_of (dmerge a b) k = map_of b k"
      by (simp add: map_of_dmerge_distinct[OF assms(2)] split: option.splits)
  qed
  moreover have "map fst (dmerge a b) = map fst b"
  proof -
    have "\<forall>x \<in> set c. fst x \<in> fst ` set a \<Longrightarrow> map fst (dmerge a c) = map fst a" for c
      unfolding dmerge_def
    proof (induction c arbitrary: a)
      case (Cons x c)
      obtain k v where x: "x = (k, v)" by (cases x)
      with Cons.prems have k: "map fst (dput k v a) = map fst a" by (intro dput_keys) auto
      then have "fst ` set (dput k v a) = fst ` set a" by (metis list.set_map)
      with Cons.IH[of "dput k v a"] Cons.prems k x show ?case by simp
    qed simp
    moreover have "fst x \<in> fst ` set a" if "x \<in> set b" for x
      using assms(1) that by (metis image_eqI list.set_map)
    ultimately show ?thesis using assms(1) by simp
  qed
  ultimately show ?thesis
    using assoc_rebuild[of b] assoc_rebuild[of "dmerge a b"] assms(2) by simp
qed

section \<open>Attaching to a genuine history\<close>

lemma folded_keys:
  assumes "folded rp m e hist n s"
  shows "map fst s = PROJECTION_KEYS"
  using assms by (auto simp: folded_def intro: keys_reduce_all keys_initial)

lemma distinct_PROJECTION_KEYS: "distinct PROJECTION_KEYS"
  by (simp add: PROJECTION_KEYS_def)

lemma overlay_folded:
  assumes "folded rp m e hist n s"
  shows "dmerge (initial_projection rp e d) s = s"
  by (rule dmerge_same_keys) (simp_all add: folded_keys[OF assms] keys_initial distinct_PROJECTION_KEYS)

lemma reduce_projection_sequence:
  assumes "reduce_projection rp t p n m s = Inr s'"
  shows "dget s' (lit ''sequence'') = PInt n"
proof -
  from assms obtain s1 where r: "reduce_event rp t p (stamp n t p s) = Inr s1"
    and a: "append_activity m n t p s1 = Inr s'" by (rule reduce_projection_cases)
  show ?thesis using append_activity_frame[OF a] reduce_event_sequence[OF r] by (simp add: dict_simps)
qed

lemma folded_step:
  assumes "n < length hist" and "hist ! n = (i, t, p)" and "reduce_projection rp t p i m s = Inr s'"
    and "n = 0 \<and> s = initial_projection rp e None \<or> folded rp m e hist n s"
  shows "folded rp m e hist (Suc n) s'"
  using assms by (auto simp: folded_def take_Suc_conv_app_nth reduce_all_append)

lemma folded_sequence:
  assumes "folded rp m e hist n s" and "well_numbered hist"
  shows "dget s (lit ''sequence'') = PInt (int n)"
proof -
  obtain k where k: "n = Suc k" "k < length hist" using assms(1) by (cases n) (auto simp: folded_def)
  obtain i t p where it: "hist ! k = (i, t, p)" by (metis prod_cases3)
  have "i = int k + 1" using assms(2) k it by (auto simp: well_numbered_def)
  then show ?thesis
    using assms(1) k it
    by (auto simp: folded_def take_Suc_conv_app_nth reduce_all_append dest: reduce_projection_sequence)
qed

lemma dput_same: "distinct (map fst s) \<Longrightarrow> k \<in> fst ` set s \<Longrightarrow> dget s k = v \<Longrightarrow> dput k v s = s"
  unfolding dput_def dget_def
  by (rule update_triv) (auto split: option.splits simp: map_of_eq_None_iff)

lemma bridge_genuine:
  assumes "well_numbered hist"
  shows "folded rp m e hist k s \<Longrightarrow> \<forall>ev \<in> set evs. genuine hist ev
     \<Longrightarrow> bridge rp m (int k + 1) evs s = Inr s'
     \<Longrightarrow> folded rp m e hist (k + length evs) s'
          \<and> (evs \<noteq> [] \<longrightarrow> se_sequence (last evs) = int (k + length evs))"
proof (induction evs arbitrary: k s)
  case (Cons ev evs)
  from Cons.prems(2) obtain p i where g: "i < length hist" "se_sequence ev = int i + 1"
    "se_payload ev = PDict p" "hist ! i = (se_sequence ev, se_event_type ev, p)"
    by (auto simp: genuine_def)
  from Cons.prems(3) have sq: "se_sequence ev = int k + 1" by (auto split: if_splits)
  with g(2) have "i = k" by simp
  from Cons.prems(3) sq g(3) obtain s1 where s1: "reduce_projection rp (se_event_type ev) p (se_sequence ev) m s = Inr s1"
    and br: "bridge rp m (int (Suc k) + 1) evs s1 = Inr s'" by (auto simp: algebra_simps)
  have f: "folded rp m e hist (Suc k) s1"
    using folded_step[OF _ _ s1, of k hist e] g Cons.prems(1) \<open>i = k\<close> by simp
  from Cons.IH[OF f _ br] Cons.prems(2) sq show ?case by auto
qed simp

text \<open>A state frame that carries a cursor is the public view of the fold of a front part of the history.\<close>

definition live_state :: "repr \<Rightarrow> nat \<Rightarrow> pystr \<Rightarrow> stream_item list \<Rightarrow> int option \<Rightarrow> exec_frame \<Rightarrow> nat \<Rightarrow> bool" where
  "live_state rp m eid hist l frame n \<longleftrightarrow>
     (\<exists>s. folded rp m eid hist n s
        \<and> frame = state_frame eid (Some (int n)) (put_reattached l (public_projection s True)))"

text \<open>The frame of the event at one position of the history.\<close>

definition history_frame :: "pystr \<Rightarrow> stream_item \<Rightarrow> exec_frame" where
  "history_frame eid it = (case it of (i, t, p) \<Rightarrow>
     \<lparr>fr_execution_id = eid, fr_type = t, fr_sequence = Some i,
      fr_payload = dmerge [(lit ''execution_id'', PStr eid), (lit ''sequence'', PInt i)] p\<rparr>)"

definition events_of :: "exec_frame list \<Rightarrow> exec_frame list" where
  "events_of frames = filter (\<lambda>f. fr_sequence f \<noteq> None) frames"

definition next_events :: "pystr \<Rightarrow> stream_item list \<Rightarrow> nat \<Rightarrow> nat \<Rightarrow> exec_frame list" where
  "next_events eid hist n k = map (history_frame eid) (take k (drop n hist))"

lemma next_events_append: "next_events eid hist n j @ next_events eid hist (n + j) k = next_events eid hist n (j + k)"
  unfolding next_events_def map_append[symmetric] drop_drop[symmetric] by (metis add.commute take_add drop_drop)

lemma next_events_Cons:
  assumes "n < length hist" and "hist ! n = it"
  shows "next_events eid hist n (Suc k) = history_frame eid it # next_events eid hist (Suc n) k"
  using assms by (simp add: next_events_def Cons_nth_drop_Suc[symmetric])

lemma next_events_0 [simp]: "next_events eid hist n 0 = []"
  by (simp add: next_events_def)

lemma events_of_simps [simp]:
  "events_of [] = []" "events_of (f # fs) = (if fr_sequence f = None then events_of fs else f # events_of fs)"
  "events_of (fs @ gs) = events_of fs @ events_of gs"
  by (simp_all add: events_of_def)

context execution_log begin

lemma hot_sequence: "folded rp m eid hist n s \<Longrightarrow> projection_sequence s = int n"
  using folded_sequence[OF _ numbered_log] by (simp add: projection_sequence_def)

lemma replay_genuine:
  assumes "folded rp m eid hist k s" and "\<forall>ev \<in> set evs. genuine hist ev"
    and "replay rp m (int k) h evs s = Inr s'"
  shows "\<exists>n. h = int n \<and> folded rp m eid hist n s'"
proof -
  let ?rel = "filter (\<lambda>ev. int k < se_sequence ev \<and> se_sequence ev \<le> h) evs"
  from assms(3) have ne: "?rel \<noteq> []" and br: "bridge rp m (int k + 1) ?rel s = Inr s'"
    and la: "se_sequence (last ?rel) = h"
    by (auto simp: replay_def Let_def split: if_splits)
  from bridge_genuine[OF numbered_log assms(1) _ br] assms(2) ne la
  show ?thesis by (intro exI[of _ "k + length ?rel"]) auto
qed

lemma live_frame_state:
  assumes "folded rp m eid hist n s"
  shows "live_state rp m eid hist l (live_frame eid (int n) l s) n"
proof -
  have "dput (lit ''sequence'') (PInt (int n)) s = s"
  proof (rule dput_same)
    show "distinct (map fst s)" using folded_keys[OF assms] distinct_PROJECTION_KEYS by simp
    have "lit ''sequence'' \<in> set (map fst s)" by (simp add: folded_keys[OF assms] PROJECTION_KEYS_def)
    then show "lit ''sequence'' \<in> fst ` set s" by simp
    show "dget s (lit ''sequence'') = PInt (int n)" using folded_sequence[OF assms numbered_log] .
  qed
  with assms show ?thesis by (auto simp: live_state_def live_frame_def)
qed

lemma mexcept_Some:
  assumes "mexcept (mbind x (\<lambda>a. mret (Some a))) (\<lambda>_. mret None) w = (Inr (Some a), w')"
  shows "x w = (Inr a, w')"
  using assms by (auto simp: mexcept_def mtry_def mbind_def split: prod.splits sum.splits if_splits)

lemma mexcept_latest:
  assumes "mexcept x (\<lambda>_. mret None) w = (Inr (Some a), w')"
  shows "x w = (Inr (Some a), w')"
  using assms by (auto simp: mexcept_def mtry_def split: prod.splits sum.splits if_splits)

lemma resolve_live:
  assumes "inv w" and "resolve_current_state oc od eid l w = (Inr (frame, Some c), w')"
    and "oc_repr oc = rp" and "oc_max_activities oc = m"
  shows "\<exists>n. live_state rp m eid hist l frame n"
proof -
  from assms(2-4) obtain d w1 hot w2 latest w3 hs where
    du: "od_durable od eid w = (Inr (Some d), w1)"
    and ho: "od_hot od eid w1 = (Inr hot, w2)" and nn: "hot \<noteq> PNone"
    and la: "od_latest od eid w2 = (Inr (Some latest), w3)" and hs: "as_mapping hot = Inr hs"
    and cs: "(let p = dmerge (initial_projection rp eid (Some d)) hs; q = projection_sequence p
       in (\<exists>evs s'. q < se_sequence latest \<and> od_retained od eid w3 = (Inr evs, w')
              \<and> replay rp m q (se_sequence latest) evs p = Inr s'
              \<and> frame = live_frame eid (se_sequence latest) l s')
          \<or> (q = se_sequence latest \<and> frame = live_frame eid (se_sequence latest) l p))"
    unfolding resolve_current_state_def Let_def
    by (auto elim!: mbind_InrD dest!: mexcept_Some mexcept_latest split: option.splits if_splits)
  have i1: "inv w1" using durable_ok[OF assms(1) du] .
  from hot_ok[OF i1 ho] nn obtain n s where i2: "inv w2" and f: "folded rp m eid hist n s" and "hot = PDict s" by auto
  with hs have [simp]: "hs = s" by simp
  have ov: "dmerge (initial_projection rp eid (Some d)) hs = s" using overlay_folded[OF f] by simp
  have q: "projection_sequence s = int n" using hot_sequence[OF f] .
  from latest_ok[OF i2 la] have i3: "inv w3" by simp
  from cs consider evs s' where "od_retained od eid w3 = (Inr evs, w')"
      "replay rp m (int n) (se_sequence latest) evs s = Inr s'"
      "frame = live_frame eid (se_sequence latest) l s'"
    | "int n = se_sequence latest" "frame = live_frame eid (se_sequence latest) l s"
    unfolding Let_def ov q by auto
  then show ?thesis
  proof cases
    case 1
    from retained_ok[OF i3 1(1)] have "\<forall>ev \<in> set evs. genuine hist ev" by simp
    from replay_genuine[OF f this 1(2)] obtain k where "se_sequence latest = int k"
      "folded rp m eid hist k s'" by blast
    with 1(3) live_frame_state[of k s' l] show ?thesis by auto
  next
    case 2
    with live_frame_state[OF f, of l] show ?thesis by auto
  qed
qed

lemma keeps_mexcept: "keeps P x \<Longrightarrow> (\<And>e. keeps P (h e)) \<Longrightarrow> keeps P (mexcept x h)"
  unfolding mexcept_def by (intro keeps_intros)

lemma resolve_keeps: "keeps inv (resolve_current_state oc od eid l)"
proof -
  have "keeps inv (od_durable od eid)" "keeps inv (od_hot od eid)" "keeps inv (od_latest od eid)"
    "keeps inv (od_retained od eid)"
    by (rule keepsI; use durable_ok hot_ok latest_ok retained_ok in blast)+
  then show ?thesis
    unfolding resolve_current_state_def Let_def by (intro keeps_intros keeps_mexcept)
qed

lemma genuine_frame:
  assumes "genuine hist ev" and "se_sequence ev = int n + 1" and "event_frame eid ev = Inr f"
  shows "n < length hist" and "history_frame eid (hist ! n) = f"
  using assms by (auto simp: genuine_def history_frame_def event_frame_def)

lemma scan_genuine:
  "\<forall>ev \<in> set evs. genuine hist ev \<Longrightarrow> n \<le> length hist \<Longrightarrow> scan_events eid c (int n) evs = (fs, c', s', r) \<Longrightarrow>
     \<exists>k. n + k \<le> length hist \<and> events_of fs = next_events eid hist n k \<and> (r = None \<longrightarrow> s' = int (n + k))"
proof (induction evs arbitrary: n c fs)
  case Nil
  then show ?case by (intro exI[of _ 0]) simp
next
  case (Cons ev evs)
  consider "se_sequence ev \<le> int n" | "se_sequence ev > int n" "se_sequence ev \<noteq> int n + 1"
    | "se_sequence ev = int n + 1" by linarith
  then show ?case
  proof cases
    case 1
    with Cons.prems have "scan_events eid (se_stream_id ev) (int n) evs = (fs, c', s', r)" by simp
    from Cons.IH[OF _ _ this] Cons.prems show ?thesis by simp
  next
    case 2
    with Cons.prems show ?thesis by (intro exI[of _ 0]) auto
  next
    case 3
    show ?thesis
    proof (cases "event_frame eid ev")
      case (Inl x)
      with 3 Cons.prems show ?thesis by (intro exI[of _ 0]) auto
    next
      case (Inr f)
      have f: "n < length hist" "history_frame eid (hist ! n) = f"
        using genuine_frame[OF _ 3 Inr] Cons.prems(1) by simp_all
      have fs: "fr_sequence f \<noteq> None" using event_frame_sequence[OF Inr] by simp
      show ?thesis
      proof (cases "se_event_type ev \<in> set TERMINAL_EVENT_TYPES")
        case True
        with 3 Inr Cons.prems(3) have "fs = [f]" "r \<noteq> None" by auto
        with f fs show ?thesis by (intro exI[of _ 1]) (auto simp: next_events_Cons)
      next
        case False
        obtain gs c1 s1 r1 where rec: "scan_events eid (se_stream_id ev) (int (Suc n)) evs = (gs, c1, s1, r1)"
          by (metis prod_cases4)
        with 3 Inr False Cons.prems(3) have eq: "fs = f # gs" "s' = s1" "r = r1"
          by (auto simp: add.commute)
        with rec Cons.IH[of "Suc n" "se_stream_id ev" gs] Cons.prems(1,3) rec f(1)
        obtain k where "Suc n + k \<le> length hist" "events_of gs = next_events eid hist (Suc n) k"
          "r1 = None \<longrightarrow> s1 = int (Suc n + k)"
          using 3 Inr False by (auto simp: add.commute)
        with eq f fs show ?thesis by (intro exI[of _ "Suc k"]) (auto simp: next_events_Cons)
      qed
    qed
  qed
qed

lemma follow_genuine:
  "inv w \<Longrightarrow> n \<le> length hist \<Longrightarrow> follow_tail fuel od rp' eid c (int n) w = (fs, fin, w') \<Longrightarrow>
     \<exists>k. n + k \<le> length hist \<and> events_of fs = next_events eid hist n k"
proof (induction fuel arbitrary: n c w fs)
  case 0
  then show ?case by (intro exI[of _ 0]) simp
next
  case (Suc fuel)
  obtain r w1 where rd: "od_read od eid c w = (r, w1)" by (cases "od_read od eid c w")
  from read_ok[OF Suc.prems(1) rd] have i1: "inv w1"
    and gen: "\<And>evs. r = Inr evs \<Longrightarrow> \<forall>ev \<in> set evs. genuine hist ev" by auto
  show ?case
  proof (cases r)
    case (Inl x)
    with rd Suc.prems show ?thesis by (intro exI[of _ 0]) (auto split: if_splits)
  next
    case (Inr evs)
    show ?thesis
    proof (cases "evs = []")
      case True
      obtain r2 w2 where nw: "od_now od w1 = (r2, w2)" by (cases "od_now od w1")
      show ?thesis
      proof (cases r2)
        case (Inl x)
        with rd \<open>r = Inr evs\<close> True nw Suc.prems show ?thesis by (intro exI[of _ 0]) auto
      next
        case i2: (Inr now)
        obtain gs fin2 w3 where rec: "follow_tail fuel od rp' eid c (int n) w2 = (gs, fin2, w3)"
          by (metis prod_cases3)
        with rd \<open>r = Inr evs\<close> True nw i2 Suc.prems have fs: "fs = heartbeat eid now # gs" "fin2 = fin" "w3 = w'"
          by (auto simp: obs_yield_def)
        from Suc.IH[OF now_ok[OF i1 nw] Suc.prems(2)] rec fs show ?thesis by auto
      qed
    next
      case False
      obtain gs c1 s1 r1 where sc: "scan_events eid c (int n) evs = (gs, c1, s1, r1)" by (metis prod_cases4)
      from scan_genuine[OF gen[OF Inr] Suc.prems(2) sc] obtain k where k: "n + k \<le> length hist"
        "events_of gs = next_events eid hist n k" "r1 = None \<longrightarrow> s1 = int (n + k)" by blast
      show ?thesis
      proof (cases r1)
        case (Some x)
        with rd Inr False sc Suc.prems have "fs = gs" by auto
        with k show ?thesis by auto
      next
        case None
        obtain hs fin2 w3 where rec: "follow_tail fuel od rp' eid c1 (int (n + k)) w1 = (hs, fin2, w3)"
          by (metis prod_cases3)
        with rd Inr False sc None k(3) Suc.prems have fs: "fs = gs @ hs" "fin2 = fin" "w3 = w'"
          by (auto simp: obs_yield_def)
        from Suc.IH[OF i1 k(1)] rec fs obtain j where "n + k + j \<le> length hist" "events_of hs = next_events eid hist (n + k) j"
          by blast
        with fs k show ?thesis
          by (intro exI[of _ "k + j"]) (simp add: next_events_append add.assoc)
      qed
    qed
  qed
qed


lemma await_genuine:
  assumes "oc_repr oc = rp" and "oc_max_activities oc = m"
  shows "inv w \<Longrightarrow> await_runtime fuel oc od eid l w = (fs, fin, w') \<Longrightarrow>
     \<exists>states tail n k. fs = states @ tail \<and> events_of tail = next_events eid hist n k \<and> n + k \<le> length hist
       \<and> (0 < k \<longrightarrow> states \<noteq> [] \<and> live_state rp m eid hist l (last states) n)
       \<and> (\<forall>f \<in> set states. fr_type f = EXECUTION_STATE_FRAME)"
proof (induction fuel arbitrary: w)
  case 0
  then show ?case by (intro exI[of _ "[]"] exI[of _ "0::nat"]) simp
next
  case (Suc fuel)
  obtain r1 w1 where sl: "od_sleep od w = (r1, w1)" by (cases "od_sleep od w")
  have i1: "inv w1" using sleep_ok[OF Suc.prems(1) sl] .
  show ?case
  proof (cases r1)
    case (Inl x)
    with sl Suc.prems show ?thesis by (intro exI[of _ "[]"] exI[of _ "0::nat"]) simp
  next
    case (Inr u)
    obtain r2 w2 where rs: "resolve_current_state oc od eid l w1 = (r2, w2)"
      by (cases "resolve_current_state oc od eid l w1")
    have i2: "inv w2" using keepsD[OF resolve_keeps i1 rs] .
    show ?thesis
    proof (cases r2)
      case (Inl x)
      with sl Inr rs Suc.prems show ?thesis
        by (intro exI[of _ "[]"] exI[of _ fs] exI[of _ "0::nat"]) (auto split: if_splits)
    next
      case r2: (Inr fc)
      obtain cand cur where fc: "fc = (cand, cur)" by (cases fc)
      note rs' = rs[unfolded r2 fc]
      note run = Suc.prems(2)[simplified, unfolded sl, simplified, unfolded Inr, simplified, unfolded rs', simplified]
      have ty: "fr_type cand = EXECUTION_STATE_FRAME" using resolve_shape(1)[OF rs'] .
      have av: "truthy (dget (fr_payload cand) (lit ''realtime_available''))" if "cur = Some c" for c
        using resolve_shape(2)[OF rs' that] live_available by auto
      consider (stop) "is_terminal_state (oc_repr oc) cand \<or> is_unavailable_reason (realtime_reason cand)"
        | (live) c where "\<not> is_terminal_state (oc_repr oc) cand" "\<not> is_unavailable_reason (realtime_reason cand)"
          "cur = Some c"
        | (none) "\<not> is_terminal_state (oc_repr oc) cand" "\<not> is_unavailable_reason (realtime_reason cand)"
          "cur = None"
        by (cases cur) auto
      then show ?thesis
      proof cases
        case stop
        have "\<exists>tail. fs = [cand] @ tail \<and> events_of tail = []"
          using run stop by (auto split: if_splits)
        with ty show ?thesis by (fastforce intro: exI[of _ "[cand]"] exI[of _ "0::nat"])
      next
        case live
        from resolve_live[OF i1 rs'[unfolded live(3)] assms] obtain n where n: "live_state rp m eid hist l cand n" ..
        then have fseq: "frame_sequence cand = int n" "n \<le> length hist"
          by (auto simp: live_state_def folded_def frame_sequence_def state_frame_def)
        obtain gs fin2 w3 where ft: "follow_tail fuel od (oc_repr oc) eid c (int n) w2 = (gs, fin2, w3)"
          by (metis prod_cases3)
        with run live av fseq have "fs = [cand] @ gs" by (auto simp: obs_yield_def)
        with follow_genuine[OF i2 fseq(2) ft] ty n show ?thesis by (fastforce intro: exI[of _ "[cand]"])
      next
        case none
        show ?thesis
        proof (cases "truthy (dget (fr_payload cand) (lit ''realtime_available''))")
          case True
          with run none have "fs = [cand] @ []" by (auto simp: obs_yield_def)
          with ty show ?thesis
            by (intro exI[of _ "[cand]"] exI[of _ "[]"] exI[of _ "0::nat"]) simp
        next
          case False
          with run none have "await_runtime fuel oc od eid l w2 = (fs, fin, w')" by simp
          with i2 show ?thesis by (rule Suc.IH)
        qed
      qed
    qed
  qed
qed

lemma observe_genuine:
  assumes "oc_repr oc = rp" and "oc_max_activities oc = m" and "inv w"
    and "observe fuel oc od eid l w = (frames, fin, w')"
  shows "\<exists>states tail l' n k. frames = states @ tail \<and> events_of tail = next_events eid hist n k
       \<and> n + k \<le> length hist \<and> (0 < k \<longrightarrow> states \<noteq> [] \<and> live_state rp m eid hist l' (last states) n)
       \<and> (\<forall>f \<in> set states. fr_type f = EXECUTION_STATE_FRAME)"
proof -
  obtain r w1 where rs: "resolve_current_state oc od eid l w = (r, w1)"
    by (cases "resolve_current_state oc od eid l w")
  have i1: "inv w1" using keepsD[OF resolve_keeps assms(3) rs] .
  show ?thesis
  proof (cases r)
    case (Inl x)
    with rs assms(4) show ?thesis
      by (intro exI[of _ "[]"] exI[of _ frames] exI[of _ None] exI[of _ "0::nat"])
        (auto simp: observe_def split: if_splits)
  next
    case (Inr fc)
    obtain frame cur where fc: "fc = (frame, cur)" by (cases fc)
    note rs' = rs[unfolded Inr fc]
    have ty: "fr_type frame = EXECUTION_STATE_FRAME" using resolve_shape(1)[OF rs'] .
    note run = assms(4)[unfolded observe_def rs', simplified]
    consider (stop) "is_terminal_state (oc_repr oc) frame \<or> (cur = None \<and> is_unavailable_reason (realtime_reason frame))"
      | (live) c where "\<not> is_terminal_state (oc_repr oc) frame" "cur = Some c"
      | (wait) "\<not> is_terminal_state (oc_repr oc) frame" "cur = None" "\<not> is_unavailable_reason (realtime_reason frame)"
      by (cases cur) auto
    then show ?thesis
    proof cases
      case stop
      have "\<exists>tail. frames = [frame] @ tail \<and> events_of tail = []"
        using run stop by (auto simp: obs_yield_def split: if_splits)
      with ty show ?thesis by (fastforce intro: exI[of _ "[frame]"] exI[of _ "0::nat"])
    next
      case live
      from resolve_live[OF assms(3) rs'[unfolded live(2)] assms(1,2)]
      obtain n where n: "live_state rp m eid hist l frame n" ..
      then have fseq: "frame_sequence frame = int n" "n \<le> length hist"
        by (auto simp: live_state_def folded_def frame_sequence_def state_frame_def)
      obtain gs fin2 w3 where ft: "follow_tail fuel od (oc_repr oc) eid c (int n) w1 = (gs, fin2, w3)"
        by (metis prod_cases3)
      with run live fseq have "frames = [frame] @ gs" by (auto simp: obs_yield_def)
      with follow_genuine[OF i1 fseq(2) ft] ty n show ?thesis by (fastforce intro: exI[of _ "[frame]"])
    next
      case wait
      obtain gs fin2 w3 where aw: "await_runtime fuel oc od eid (fr_sequence frame) w1 = (gs, fin2, w3)"
        by (metis prod_cases3)
      with run wait have fs: "frames = frame # gs" by (auto simp: obs_yield_def)
      from await_genuine[OF assms(1,2) i1 aw] obtain states tail n k where gs: "gs = states @ tail"
        "events_of tail = next_events eid hist n k" "n + k \<le> length hist"
        "0 < k \<longrightarrow> states \<noteq> [] \<and> live_state rp m eid hist (fr_sequence frame) (last states) n"
        "\<forall>f \<in> set states. fr_type f = EXECUTION_STATE_FRAME" by blast
      with fs ty show ?thesis
        by (intro exI[of _ "frame # states"] exI[of _ tail] exI[of _ "fr_sequence frame"] exI[of _ n] exI[of _ k])
          auto
    qed
  qed
qed

end

end
