(* ===== verification/Observer_Store.thy ===== *)
theory Observer_Store
  imports Observer_Props
begin

text \<open>
  The observer over the modelled store: the event stream and the hot state of \<open>EventLog\<close> provide the
  interface of \<open>Observer_Props\<close> while a publisher runs in parallel, so what an observer is shown is
  the published history.
\<close>

section \<open>The modelled store is one\<close>

text \<open>
  The dependencies the composition root gives the observer: the hot state and the event stream over
  Redis. Before every read the environment may have moved (\<open>env\<close>): a publisher running in parallel.
\<close>

definition store_deps ::
  "'w sink_conf \<Rightarrow> ('w \<Rightarrow> 'w) \<Rightarrow> (pystr \<Rightarrow> ('w, pdict option) act) \<Rightarrow> ('w, unit) act \<Rightarrow> ('w, pystr) act
     \<Rightarrow> 'w observer_deps" where
  "store_deps sk env durable sleep now =
     \<lparr>od_durable = (\<lambda>e w. durable e (env w)),
      od_hot = (\<lambda>e w. hs_get (sk_text sk) (sk_redis sk) (sk_hot sk) e (env w)),
      od_latest = (\<lambda>e w. es_latest (sk_text sk) (sk_redis sk) (sk_stream sk) e (env w)),
      od_retained = (\<lambda>e w. es_retained (sk_text sk) (sk_redis sk) (sk_stream sk) e (env w)),
      od_read = (\<lambda>e c w. es_read (sk_text sk) (sk_redis sk) (sk_stream sk) e c (env w)),
      od_sleep = (\<lambda>w. sleep (env w)), od_now = (\<lambda>w. now (env w))\<rparr>"

text \<open>
  What a reader can see of the events \<open>es\<close>, also between the steps of one emission: a projection of a
  front part, and stream entries that are events.
\<close>

definition visible :: "'w redis_view \<Rightarrow> 'w sink_conf \<Rightarrow> pystr \<Rightarrow> exec_event list \<Rightarrow> 'w \<Rightarrow> bool" where
  "visible V sk e es w \<longleftrightarrow>
     (rv_val V (state_key (sk_hot sk) e) w = None
      \<or> (\<exists>k s. 0 < k \<and> k \<le> length es \<and> projected sk e (take k es) = Inr s
             \<and> rv_val V (state_key (sk_hot sk) e) w = Some (dumps (sk_text sk) (PDict s))))
     \<and> (\<forall>entry \<in> set (rv_strm V (stream_key (sk_stream sk) e) w).
          snd entry \<in> set (map (item_fields (sk_text sk)) (numbered es)))"

lemma nth_numbered:
  "i < length es \<Longrightarrow> numbered es ! i = (int i + 1, event_value (ev_type (es ! i)), public_payload (es ! i))"
  by (simp add: numbered_def nth_enumerate_eq)

lemma numbered_take: "numbered (take k es) = take k (numbered es)"
  by (rule nth_equalityI) (simp_all add: nth_numbered)

lemma published_visible:
  assumes "published V sk e (take k es) w"
  shows "visible V sk e es w"
proof -
  from assms obtain d s where
    st: "map snd (rv_strm V (stream_key (sk_stream sk) e) w)
           = drop d (map (item_fields (sk_text sk)) (take k (numbered es)))"
    and p: "projected sk e (take k es) = Inr s"
    and v: "rv_val V (state_key (sk_hot sk) e) w
              = (if take k es = [] then None else Some (dumps (sk_text sk) (PDict s)))"
    by (auto simp: published_def numbered_take)
  have "set (drop d (map (item_fields (sk_text sk)) (take k (numbered es))))
      \<subseteq> set (map (item_fields (sk_text sk)) (numbered es))"
    by (meson in_set_dropD set_take_subset subset_iff take_map set_drop_subset order_trans
        image_mono set_map set_mono_prefix map_mono_prefix take_is_prefix)
  moreover have "snd entry \<in> set (map snd (rv_strm V (stream_key (sk_stream sk) e) w))"
    if "entry \<in> set (rv_strm V (stream_key (sk_stream sk) e) w)" for entry using that by simp
  ultimately have "\<forall>entry \<in> set (rv_strm V (stream_key (sk_stream sk) e) w).
      snd entry \<in> set (map (item_fields (sk_text sk)) (numbered es))"
    unfolding st by blast
  moreover have "rv_val V (state_key (sk_hot sk) e) w = None
      \<or> (\<exists>k s. 0 < k \<and> k \<le> length es \<and> projected sk e (take k es) = Inr s
             \<and> rv_val V (state_key (sk_hot sk) e) w = Some (dumps (sk_text sk) (PDict s)))"
  proof (cases "take k es = []")
    case False
    then have "take (min k (length es)) es = take k es" "0 < min k (length es)" by (auto simp: min_def)
    with p v False show ?thesis by (intro disjI2 exI[of _ "min k (length es)"]) auto
  qed (simp add: v)
  ultimately show ?thesis by (simp add: visible_def)
qed

lemma visible_same_view: "visible V sk e es w \<Longrightarrow> same_view V w w' \<Longrightarrow> visible V sk e es w'"
  by (simp add: visible_def same_view_def)

locale published_store = redis_server +
  fixes sk :: "'a sink_conf" and e :: pystr and evs :: "exec_event list" and fok :: "rat \<Rightarrow> bool"
    and env :: "'a \<Rightarrow> 'a" and durable :: "pystr \<Rightarrow> ('a, pdict option) act"
    and sleep :: "('a, unit) act" and now :: "('a, pystr) act"
  assumes sink_api: "sk_redis sk = api" and text_ok: "sink_text_ok fok sk"
    and payloads_ok: "ev \<in> set evs \<Longrightarrow> json_ok fok (PDict (ev_payload ev))"
    and env_ok: "visible V sk e evs w \<Longrightarrow> visible V sk e evs (env w)"
    and durable_same: "durable e w = (r, w') \<Longrightarrow> same_view V w w'"
    and sleep_same: "sleep w = (ru, w') \<Longrightarrow> same_view V w w'"
    and now_same: "now w = (rt, w') \<Longrightarrow> same_view V w w'"
begin

lemma decode_genuine:
  assumes "snd entry \<in> set (map (item_fields (sk_text sk)) (numbered evs))"
    and "decode_message (sk_text sk) entry = Inr ev"
  shows "genuine (numbered evs) ev"
proof -
  obtain i where i: "i < length evs" and f: "snd entry = item_fields (sk_text sk) (numbered evs ! i)"
    using assms(1) by (auto simp: in_set_conv_nth)
  have "json_ok fok (PDict (public_payload (evs ! i)))"
    using payloads_ok[of "evs ! i"] i by (intro json_ok_public_payload) simp
  from decode_event_fields[OF text_ok[unfolded sink_text_ok_def] this] i f assms(2)
  show ?thesis
    by (cases entry) (auto simp: genuine_def item_fields_def nth_numbered)
qed

lemma decode_all_genuine:
  assumes "visible V sk e evs w" and "set ms \<subseteq> set (rv_strm V (stream_key (sk_stream sk) e) w)"
    and "decode_messages (sk_text sk) ms = Inr es" and "ev \<in> set es"
  shows "genuine (numbered evs) ev"
proof -
  from assms(3) have "list_all2 (\<lambda>m e. decode_message (sk_text sk) m = Inr e) ms es"
    unfolding decode_messages_def by (rule mapM_res_Inr)
  moreover obtain i where "i < length es" "ev = es ! i" using assms(4) by (auto simp: in_set_conv_nth)
  ultimately have "ms ! i \<in> set ms" "decode_message (sk_text sk) (ms ! i) = Inr ev"
    by (auto simp: list_all2_conv_all_nth)
  with assms(1,2) show ?thesis by (intro decode_genuine[of "ms ! i"]) (auto simp: visible_def)
qed

lemma well_numbered_events: "well_numbered (numbered evs)"
  by (simp add: well_numbered_def nth_numbered)

lemma hot_genuine:
  assumes "visible V sk e evs w" and "hs_get (sk_text sk) api (sk_hot sk) e w = (r, w')"
  shows "visible V sk e evs w' \<and> (\<forall>v. r = Inr v \<longrightarrow> v = PNone \<or>
      (\<exists>n s. folded (tx_repr (sk_text sk)) (sk_max_activities sk) e (numbered evs) n s \<and> v = PDict s))"
proof -
  obtain raw w1 where g: "rd_get api (state_key (sk_hot sk) e) w = (raw, w1)"
    by (cases "rd_get api (state_key (sk_hot sk) e) w")
  note G = get_ok[OF g]
  have "w' = w1" using assms(2) g by (auto simp: hs_get_def mbind_def split: sum.splits)
  then have vis: "visible V sk e evs w'" using visible_same_view[OF assms(1)] G by simp
  have "\<exists>n s. folded (tx_repr (sk_text sk)) (sk_max_activities sk) e (numbered evs) n s \<and> v = PDict s"
    if r: "r = Inr v" and v: "v \<noteq> PNone" for v
  proof -
    from assms(2) g r v obtain t where t: "raw = Inr (Some t)" "loads (sk_text sk) t = Inr v"
      by (auto simp: hs_get_def mbind_def split: sum.splits option.splits)
    with G assms(1) obtain k s where k: "0 < k" "k \<le> length evs" "projected sk e (take k evs) = Inr s"
      "t = dumps (sk_text sk) (PDict s)" by (auto simp: visible_def)
    have "loads (sk_text sk) (dumps (sk_text sk) (PDict s)) = Inr (PDict s)"
      by (rule loads_dumps[OF text_ok[unfolded sink_text_ok_def]])
        (rule json_ok_projected[OF k(3)], use payloads_ok in \<open>auto dest: in_set_takeD simp del: json_ok.simps(4)\<close>)
    with t(2) k(4) have "v = PDict s" by simp
    moreover have "folded (tx_repr (sk_text sk)) (sk_max_activities sk) e (numbered evs) k s"
      using k by (simp add: folded_def projected_def numbered_take)
    ultimately show ?thesis by blast
  qed
  with vis show ?thesis by blast
qed

lemma latest_genuine:
  assumes "visible V sk e evs w" and "es_latest (sk_text sk) api (sk_stream sk) e w = (r, w')"
  shows "visible V sk e evs w' \<and> (\<forall>ev. r = Inr (Some ev) \<longrightarrow> genuine (numbered evs) ev)"
proof -
  obtain q w1 where g: "rd_xrevrange api (stream_key (sk_stream sk) e) 1 w = (q, w1)"
    by (cases "rd_xrevrange api (stream_key (sk_stream sk) e) 1 w")
  note G = xrevrange_ok[OF g]
  have "w' = w1" using assms(2) g by (auto simp: es_latest_def mbind_def split: sum.splits)
  then have vis: "visible V sk e evs w'" using visible_same_view[OF assms(1)] G by simp
  have "genuine (numbered evs) ev" if r: "r = Inr (Some ev)" for ev
  proof -
    from assms(2) r obtain ms w2 es where x: "rd_xrevrange api (stream_key (sk_stream sk) e) 1 w = (Inr ms, w2)"
      and dec: "decode_messages (sk_text sk) ms = Inr es" and hd: "(case es of [] \<Rightarrow> None | e # _ \<Rightarrow> Some e) = Some ev"
      by (auto simp: es_latest_def elim!: mbind_InrD)
    have ms: "q = Inr ms" "decode_messages (sk_text sk) ms = Inr es" "ev \<in> set es"
      using g x dec hd by (auto split: list.splits)
    from G ms(1) have "set ms \<subseteq> set (rv_strm V (stream_key (sk_stream sk) e) w)"
      by (auto dest: in_set_takeD)
    from decode_all_genuine[OF assms(1) this ms(2,3)] show ?thesis .
  qed
  with vis show ?thesis by blast
qed

lemma retained_genuine:
  assumes "visible V sk e evs w" and "es_retained (sk_text sk) api (sk_stream sk) e w = (r, w')"
  shows "visible V sk e evs w' \<and> (\<forall>es. r = Inr es \<longrightarrow> (\<forall>ev \<in> set es. genuine (numbered evs) ev))"
proof -
  obtain q w1 where g: "rd_xrange api (stream_key (sk_stream sk) e) (sc_maxlen (sk_stream sk)) w = (q, w1)"
    by (cases "rd_xrange api (stream_key (sk_stream sk) e) (sc_maxlen (sk_stream sk)) w")
  note G = xrange_ok[OF g]
  have "w' = w1" using assms(2) g by (auto simp: es_retained_def mbind_def split: sum.splits)
  then have vis: "visible V sk e evs w'" using visible_same_view[OF assms(1)] G by simp
  have "genuine (numbered evs) ev" if r: "r = Inr es" and ev: "ev \<in> set es" for es ev
  proof -
    from assms(2) r obtain ms w2
      where x: "rd_xrange api (stream_key (sk_stream sk) e) (sc_maxlen (sk_stream sk)) w = (Inr ms, w2)"
      and dec: "decode_messages (sk_text sk) ms = Inr es"
      by (auto simp: es_retained_def elim!: mbind_InrD)
    have ms: "q = Inr ms" "decode_messages (sk_text sk) ms = Inr es" using g x dec by auto
    from G ms(1) have "set ms \<subseteq> set (rv_strm V (stream_key (sk_stream sk) e) w)"
      by (auto dest: in_set_takeD)
    from decode_all_genuine[OF assms(1) this ms(2) ev] show ?thesis .
  qed
  with vis show ?thesis by blast
qed

lemma read_genuine:
  assumes "visible V sk e evs w" and "es_read (sk_text sk) api (sk_stream sk) e c w = (r, w')"
  shows "visible V sk e evs w' \<and> (\<forall>es. r = Inr es \<longrightarrow> (\<forall>ev \<in> set es. genuine (numbered evs) ev))"
proof -
  obtain q w1 where g: "rd_xread api (stream_key (sk_stream sk) e) c (sc_read_count (sk_stream sk))
      (sc_read_block_ms (sk_stream sk)) w = (q, w1)"
    by (metis surj_pair)
  note G = xread_ok[OF g]
  have "w' = w1" using assms(2) g by (auto simp: es_read_def mbind_def split: sum.splits)
  then have vis: "visible V sk e evs w'" using visible_same_view[OF assms(1)] G by simp
  have "genuine (numbered evs) ev" if r: "r = Inr es" and ev: "ev \<in> set es" for es ev
  proof -
    from assms(2) g r obtain rs ess where rs: "q = Inr rs"
      and dec: "mapM_res (\<lambda>(_, messages). decode_messages (sk_text sk) messages) rs = Inr ess"
      and es: "es = concat ess"
      by (auto simp: es_read_def mbind_def split: sum.splits)
    from ev es obtain es1 where es1: "es1 \<in> set ess" "ev \<in> set es1" by auto
    from mapM_res_Inr[OF dec] es1(1) obtain x where x: "x \<in> set rs" "decode_messages (sk_text sk) (snd x) = Inr es1"
      by (auto simp: list_all2_conv_all_nth in_set_conv_nth split: prod.splits) (metis snd_conv surj_pair)
    from G rs x(1) have "set (snd x) \<subseteq> set (rv_strm V (stream_key (sk_stream sk) e) w)" by blast
    from decode_all_genuine[OF assms(1) this x(2) es1(2)] show ?thesis .
  qed
  with vis show ?thesis by blast
qed

end

sublocale published_store \<subseteq> hist: execution_log "store_deps sk env durable sleep now" "visible V sk e evs"
  "tx_repr (sk_text sk)" "sk_max_activities sk" e "numbered evs"
proof unfold_locales
  show "well_numbered (numbered evs)" by (rule well_numbered_events)
next
  fix w w' r
  assume v: "visible V sk e evs w"
  let ?od = "store_deps sk env durable sleep now"
  note S = visible_same_view[OF env_ok[OF v]]
  show "od_durable ?od e w = (r, w') \<Longrightarrow> visible V sk e evs w'" for r
    using S durable_same by (simp add: store_deps_def)
  show "od_sleep ?od w = (r, w') \<Longrightarrow> visible V sk e evs w'" for r
    using S sleep_same by (simp add: store_deps_def)
  show "od_now ?od w = (r, w') \<Longrightarrow> visible V sk e evs w'" for r
    using S now_same by (simp add: store_deps_def)
  show "od_hot ?od e w = (r, w') \<Longrightarrow> visible V sk e evs w' \<and> (\<forall>v. r = Inr v \<longrightarrow> v = PNone \<or>
      (\<exists>n s. folded (tx_repr (sk_text sk)) (sk_max_activities sk) e (numbered evs) n s \<and> v = PDict s))" for r
    using hot_genuine[OF env_ok[OF v]] by (simp add: store_deps_def sink_api)
  show "od_latest ?od e w = (r, w') \<Longrightarrow>
      visible V sk e evs w' \<and> (\<forall>ev. r = Inr (Some ev) \<longrightarrow> genuine (numbered evs) ev)" for r
    using latest_genuine[OF env_ok[OF v]] by (simp add: store_deps_def sink_api)
  show "od_retained ?od e w = (r, w') \<Longrightarrow>
      visible V sk e evs w' \<and> (\<forall>es. r = Inr es \<longrightarrow> (\<forall>ev \<in> set es. genuine (numbered evs) ev))" for r
    using retained_genuine[OF env_ok[OF v]] by (simp add: store_deps_def sink_api)
  show "od_read ?od e c w = (r, w') \<Longrightarrow>
      visible V sk e evs w' \<and> (\<forall>es. r = Inr es \<longrightarrow> (\<forall>ev \<in> set es. genuine (numbered evs) ev))" for r c
    using read_genuine[OF env_ok[OF v]] by (simp add: store_deps_def sink_api)
qed

section \<open>The observer's contract\<close>

text \<open>
  C2. Reattaching loses nothing and repeats nothing. Over a store whose reads are genuine (the
  modelled event stream and hot state provide this, with a publisher running between any two
  reads), an observer that attaches at any moment receives event frames that are exactly the
  consecutive events n+1, ..., n+k of the published history, and when there are any, the state frame
  before them is the public view of the fold of the reducer over the first n events.
\<close>
theorem observe_lossless:
  assumes "execution_log od okw (oc_repr oc) (oc_max_activities oc) e hist" and "okw w"
    and "observe fuel oc od e l w = (frames, fin, w')"
  shows "\<exists>states tail l' n k. frames = states @ tail \<and> events_of tail = next_events e hist n k
       \<and> n + k \<le> length hist
       \<and> (0 < k \<longrightarrow> states \<noteq> [] \<and> live_state (oc_repr oc) (oc_max_activities oc) e hist l' (last states) n)
       \<and> (\<forall>f \<in> set states. fr_type f = EXECUTION_STATE_FRAME)"
  using execution_log.observe_genuine[OF assms(1) refl refl assms(2,3)] .

definition ex_durable :: "pystr \<Rightarrow> (mem_redis, pdict option) act" where
  "ex_durable e w = (Inr (Some [(lit ''session_id'', PStr (lit ''s'')), (lit ''status'', PStr (lit ''running''))]), w)"

definition ex_sleep :: "(mem_redis, unit) act" where
  "ex_sleep = mret ()"

definition ex_now :: "(mem_redis, pystr) act" where
  "ex_now = mret (lit ''t0'')"

definition ex_own :: "exec_event list" where
  "ex_own = filter (\<lambda>ev. ev_execution_id ev = lit ''a'') ex_events"

definition ex_world :: mem_redis where
  "ex_world = snd (mfor ex_events (emit ex_sink) (mem_empty 1))"

interpretation ex: published_store mem_api mem_view ex_sink "lit ''a''" ex_own "\<lambda>_. False" id ex_durable ex_sleep ex_now
  by unfold_locales
    (auto simp: ex_sink_def sink_text_ok_def ex_own_def ex_events_def ex_event_def ex_durable_def
      ex_sleep_def ex_now_def)

lemma ex_world_visible: "visible mem_view ex_sink (lit ''a'') ex_own ex_world"
proof -
  have "\<exists>w'. mfor ex_events (emit ex_sink) (mem_empty 1) = (Inr (), w')"
  proof (rule mem.emit_all_up[where past = "\<lambda>_. []" and fok = "\<lambda>_. False"])
    show "\<And>e. published mem_view ex_sink e [] (mem_empty 1)"
      by (simp add: published_def projected_def ex_sink_def mem_view_def mem_empty_def)
  qed (simp_all add: recorder_apart_def recorder_up_def sink_text_ok_def ex_sink_def
      ex_events_def ex_event_def event_ok_def payload_ok_def)
  then obtain w' where w': "mfor ex_events (emit ex_sink) (mem_empty 1) = (Inr (), w')" ..
  have "published mem_view ex_sink (lit ''a'') ([] @ ex_own) w'"
    unfolding ex_own_def
    by (rule mem.emit_all[OF w', where fok = "\<lambda>_. False"])
      (simp_all add: recorder_apart_def sink_text_ok_def ex_sink_def ex_events_def ex_event_def
        published_def projected_def mem_view_def mem_empty_def)
  then have "published mem_view ex_sink (lit ''a'') (take (length ex_own) ex_own) w'" by simp
  from published_visible[OF this] show ?thesis by (simp only: ex_world_def w' snd_conv)
qed

theorem observe_lossless_witness:
  "\<exists>states tail l' n k.
     fst (observe 3 \<lparr>oc_repr = (\<lambda>_. []), oc_max_activities = 3\<rparr>
            (store_deps ex_sink id ex_durable ex_sleep ex_now) (lit ''a'') None ex_world) = states @ tail
     \<and> events_of tail = next_events (lit ''a'') (numbered ex_own) n k \<and> n + k \<le> length (numbered ex_own)
     \<and> (0 < k \<longrightarrow> states \<noteq> [] \<and> live_state (\<lambda>_. []) 3 (lit ''a'') (numbered ex_own) l' (last states) n)
     \<and> (\<forall>f \<in> set states. fr_type f = EXECUTION_STATE_FRAME)"
proof -
  let ?oc = "\<lparr>oc_repr = (\<lambda>_. []), oc_max_activities = 3\<rparr>"
  let ?od = "store_deps ex_sink id ex_durable ex_sleep ex_now"
  have log: "execution_log ?od (visible mem_view ex_sink (lit ''a'') ex_own) (oc_repr ?oc) (oc_max_activities ?oc)
      (lit ''a'') (numbered ex_own)"
    using ex.hist.execution_log_axioms by (simp add: ex_sink_def ex_text_def)
  obtain frames fin w' where o: "observe 3 ?oc ?od (lit ''a'') None ex_world = (frames, fin, w')"
    by (metis prod_cases3)
  from observe_lossless[OF log ex_world_visible o] show ?thesis by (simp add: o)
qed

theorem observe_gapless_witness:
  "\<exists>states tail k.
     fst (observe 3 \<lparr>oc_repr = (\<lambda>_. []), oc_max_activities = 3\<rparr>
            (store_deps ex_sink id ex_durable ex_sleep ex_now) (lit ''a'') None ex_world) = states @ tail
     \<and> length states \<le> 2 \<and> (\<forall>f \<in> set states. fr_type f = EXECUTION_STATE_FRAME)
     \<and> (states = [] \<longrightarrow> event_seqs tail = [])
     \<and> (states \<noteq> [] \<longrightarrow> event_seqs tail = [frame_sequence (last states) + 1..k])"
proof -
  obtain frames fin w' where o: "observe 3 \<lparr>oc_repr = (\<lambda>_. []), oc_max_activities = 3\<rparr>
      (store_deps ex_sink id ex_durable ex_sleep ex_now) (lit ''a'') None ex_world = (frames, fin, w')"
    by (metis prod_cases3)
  from observe_gapless[OF o] show ?thesis by (simp add: o)
qed

definition ex_gone :: "pystr \<Rightarrow> (mem_redis, pdict option) act" where
  "ex_gone e w = (Inr (Some [(lit ''status'', PStr (lit ''completed''))]), w)"

theorem observe_end_announced_witness:
  "\<exists>frames. observe 3 \<lparr>oc_repr = (\<lambda>_. []), oc_max_activities = 3\<rparr>
      (store_deps ex_sink id ex_gone ex_sleep ex_now) (lit ''a'') None (mem_empty 1) = (frames, Finished, mem_empty 1)
    \<and> frames \<noteq> [] \<and> announces_end (\<lambda>_. []) (last frames)"
proof -
  have "\<exists>frames. observe 3 \<lparr>oc_repr = (\<lambda>_. []), oc_max_activities = 3\<rparr>
      (store_deps ex_sink id ex_gone ex_sleep ex_now) (lit ''a'') None (mem_empty 1) = (frames, Finished, mem_empty 1)"
    by (simp add: observe_def resolve_current_state_def store_deps_def ex_gone_def mexcept_def mtry_def mbind_def
        hs_get_def ex_sink_def mem_api_def mem_get_def mem_empty_def obs_yield_def is_terminal_state_def
        durable_frame_def state_frame_def put_reattached_def public_projection_def initial_projection_def Let_def
        py_or_def dict_simps ascii_lower_def TERMINAL_EXECUTION_STATUSES_def PROJECTION_KEYS_def lit_def)
  then obtain frames where o: "observe 3 \<lparr>oc_repr = (\<lambda>_. []), oc_max_activities = 3\<rparr>
      (store_deps ex_sink id ex_gone ex_sleep ex_now) (lit ''a'') None (mem_empty 1) = (frames, Finished, mem_empty 1)" ..
  from observe_end_announced[OF o] o show ?thesis by (intro exI[of _ frames]) simp
qed

section \<open>A gap that is not there\<close>

lemma mapM_res_all:
  assumes "\<forall>x \<in> set xs. \<exists>y. f x = Inr y \<and> P y"
  shows "\<exists>ys. mapM_res f xs = Inr ys \<and> (\<forall>y \<in> set ys. P y)"
  using assms by (induction xs) auto

lemma decode_item:
  assumes "sink_text_ok fok sk" and "\<forall>ev \<in> set es. json_ok fok (PDict (ev_payload ev))"
    and "i < length es" and "snd entry = item_fields (sk_text sk) (numbered es ! i)"
  shows "\<exists>ev. decode_message (sk_text sk) entry = Inr ev \<and> se_sequence ev = int i + 1"
proof -
  have "json_ok fok (PDict (public_payload (es ! i)))"
    using assms(2,3) nth_mem[of i es] by (intro json_ok_public_payload) blast
  from decode_event_fields[OF assms(1)[unfolded sink_text_ok_def] this] assms(3,4) show ?thesis
    by (cases entry) (auto simp: item_fields_def nth_numbered)
qed

text \<open>
  C9. A false gap. Trimming is approximate, so the stream may hold more than \<open>maxlen\<close> entries, but
  \<open>retained\<close> reads only the first \<open>maxlen\<close> of them: in that situation an observer that attaches
  between the append of an event and the update of the projection is refused with a sequence gap,
  although the one event it misses is in the stream.
\<close>
theorem retained_window_false_gap:
  assumes "sk_redis sk = mem_api" and "sink_text_ok fok sk"
    and "\<forall>x \<in> set (es @ [ev]). json_ok fok (PDict (ev_payload x))"
    and "published mem_view sk e es w" and "es \<noteq> []"
    and "es_append (sk_text sk) mem_api (sk_stream sk) e (event_value (ev_type ev)) (public_payload ev) w = (Inr se, w1)"
    and "sc_maxlen (sk_stream sk) < length (mr_streams w1 (stream_key (sk_stream sk) e))"
    and "durable e w1 = (Inr (Some d), w1)"
  shows "(\<exists>msg w2. current_state oc (store_deps sk id durable sleep now) e l w1 = (Inl (Exn GapError msg), w2))
    \<and> item_fields (sk_text sk) (numbered (es @ [ev]) ! length es)
        \<in> snd ` set (mr_streams w1 (stream_key (sk_stream sk) e))"
proof -
  let ?k = "stream_key (sk_stream sk) e" and ?tx = "sk_text sk" and ?m = "sc_maxlen (sk_stream sk)"
  let ?n = "length es" and ?od = "store_deps sk id durable sleep now"
  let ?new = "(se_stream_id se, event_fields ?tx (se_sequence se) (event_value (ev_type ev)) (public_payload ev))"
  note A = mem.append_effect[OF assms(6)]
  from assms(4) obtain s where s: "projected sk e es = Inr s"
    and val: "mr_values w (state_key (sk_hot sk) e) = Some (dumps ?tx (PDict s))"
    and ctr: "mr_counters w (sequence_key (sk_stream sk) e) = int ?n"
    and old: "\<exists>d. map snd (mr_streams w ?k) = drop d (map (item_fields ?tx) (numbered es))"
    using assms(5) by (auto simp: published_def mem_view_def)
  have sq: "se_sequence se = int ?n + 1" using A(1) ctr by (simp add: mem_view_def)
  from A(3) obtain c where st: "mr_streams w1 ?k = drop c (mr_streams w ?k @ [?new])"
    by (auto simp: mem_view_def)
  with assms(7) have ne: "mr_streams w1 ?k \<noteq> []" by auto
  with st have c: "c \<le> length (mr_streams w ?k)" by auto
  then have st': "mr_streams w1 ?k = drop c (mr_streams w ?k) @ [?new]" using st by simp
  have new: "snd ?new = item_fields ?tx (numbered (es @ [ev]) ! ?n)"
    by (simp add: nth_numbered item_fields_def sq)
  have olds: "\<exists>i < ?n. snd x = item_fields ?tx (numbered es ! i)" if "x \<in> set (drop c (mr_streams w ?k))" for x
  proof -
    have "snd x \<in> set (map snd (mr_streams w ?k))" using that by (auto dest: in_set_dropD)
    with old have "snd x \<in> set (map (item_fields ?tx) (numbered es))" by (metis in_set_dropD)
    then obtain it where "it \<in> set (numbered es)" "snd x = item_fields ?tx it" by auto
    then show ?thesis by (metis in_set_conv_nth length_numbered)
  qed
  have pay: "\<forall>x \<in> set es. json_ok fok (PDict (ev_payload x))" using assms(3) by (simp del: json_ok.simps(4))
  have hot: "hs_get ?tx mem_api (sk_hot sk) e w1 = (Inr (PDict s), w1)"
  proof -
    have "loads ?tx (dumps ?tx (PDict s)) = Inr (PDict s)"
      by (rule loads_dumps[OF assms(2)[unfolded sink_text_ok_def] json_ok_projected[OF s pay]])
    moreover have "mr_values w1 (state_key (sk_hot sk) e) = Some (dumps ?tx (PDict s))"
      using A(4)[of "sk_hot sk" e] val by (simp add: mem_view_def)
    ultimately show ?thesis by (simp add: hs_get_def mem_api_def mem_get_def mbind_def)
  qed
  have latest: "\<exists>lt. es_latest ?tx mem_api (sk_stream sk) e w1 = (Inr (Some lt), w1) \<and> se_sequence lt = int ?n + 1"
  proof -
    obtain lt where "decode_message ?tx ?new = Inr lt" "se_sequence lt = int ?n + 1"
      using decode_item[OF assms(2,3) _ new] by auto
    then show ?thesis
      by (simp add: es_latest_def mem_api_def mem_xrevrange_def mbind_def st' decode_messages_def)
  qed
  have retained: "\<exists>evs. es_retained ?tx mem_api (sk_stream sk) e w1 = (Inr evs, w1) \<and> (\<forall>x \<in> set evs. se_sequence x \<le> int ?n)"
  proof -
    have sub: "set (take ?m (mr_streams w1 ?k)) \<subseteq> set (drop c (mr_streams w ?k))"
      using assms(7) by (auto simp: st' dest: in_set_takeD)
    have "\<forall>x \<in> set (take ?m (mr_streams w1 ?k)). \<exists>y. decode_message ?tx x = Inr y \<and> se_sequence y \<le> int ?n"
    proof
      fix x assume "x \<in> set (take ?m (mr_streams w1 ?k))"
      with sub olds obtain i where "i < ?n" "snd x = item_fields ?tx (numbered es ! i)" by blast
      with decode_item[OF assms(2) pay] show "\<exists>y. decode_message ?tx x = Inr y \<and> se_sequence y \<le> int ?n" by fastforce
    qed
    from mapM_res_all[OF this] show ?thesis
      by (auto simp: es_retained_def mem_api_def mem_xrange_def mbind_def decode_messages_def)
  qed
  from latest obtain lt where lt: "es_latest ?tx mem_api (sk_stream sk) e w1 = (Inr (Some lt), w1)"
    "se_sequence lt = int ?n + 1" by blast
  from retained obtain evs where re: "es_retained ?tx mem_api (sk_stream sk) e w1 = (Inr evs, w1)"
    "\<forall>x \<in> set evs. se_sequence x \<le> int ?n" by blast
  have fo: "folded (tx_repr ?tx) (sk_max_activities sk) e (numbered es) ?n s"
    using s assms(5) by (simp add: folded_def projected_def)
  have wn: "well_numbered (numbered es)" by (simp add: well_numbered_def nth_numbered)
  have ps: "projection_sequence (dmerge (initial_projection (oc_repr oc) e (Some d)) s) = int ?n"
  proof -
    have "dmerge (initial_projection (oc_repr oc) e (Some d)) s = s"
      by (rule dmerge_same_keys) (simp_all add: folded_keys[OF fo] keys_initial distinct_PROJECTION_KEYS)
    with folded_sequence[OF fo wn] show ?thesis by (simp add: projection_sequence_def)
  qed
  have rel: "filter (\<lambda>x. int ?n < se_sequence x \<and> se_sequence x \<le> int ?n + 1) evs = []"
    using re(2) by (auto simp: filter_empty_conv)
  have "\<exists>msg. resolve_current_state oc ?od e l w1 = (Inl (Exn GapError msg), w1)"
    by (simp add: resolve_current_state_def store_deps_def assms(1,8) hot lt re(1) mbind_def mexcept_def mtry_def
        Let_def ps replay_def rel gap_error_def)
  then show ?thesis
    using new by (auto simp: current_state_def mbind_def st')
qed

definition ex_tight :: "mem_redis sink_conf" where
  "ex_tight = ex_sink\<lparr>sk_stream := (sk_stream ex_sink)\<lparr>sc_maxlen := 1\<rparr>\<rparr>"

definition ex_first :: exec_event where
  "ex_first = ex_event ''a'' EXECUTION_STARTED [(lit ''session_id'', PStr (lit ''s''))]"

definition ex_second :: exec_event where
  "ex_second = ex_event ''a'' LLM_STARTED []"

theorem retained_window_false_gap_witness:
  "\<exists>w1. (\<exists>msg w2. current_state \<lparr>oc_repr = (\<lambda>_. []), oc_max_activities = 3\<rparr> (store_deps ex_tight id ex_durable ex_sleep ex_now) (lit ''a'') None w1
             = (Inl (Exn GapError msg), w2))
     \<and> item_fields ex_text (numbered [ex_first, ex_second] ! 1)
          \<in> snd ` set (mr_streams w1 (stream_key (sk_stream ex_tight) (lit ''a'')))"
proof -
  note D = ex_tight_def ex_sink_def ex_first_def ex_second_def ex_event_def
  have start: "published mem_view ex_tight (lit ''a'') [] (mem_empty 100)"
    by (auto simp: published_def projected_def mem_view_def mem_empty_def D)
  obtain w where w: "emit ex_tight ex_first (mem_empty 100) = (Inr (), w)"
    using mem.emit_up[of ex_tight "\<lambda>_. False" ex_first "[]" "mem_empty 100"] start
    by (auto simp: D recorder_up_def sink_text_ok_def event_ok_def payload_ok_def)
  have pub: "published mem_view ex_tight (lit ''a'') [ex_first] w"
    using mem.emit_own[OF w, of "\<lambda>_. False" "[]"] start
    by (auto simp: D recorder_apart_def sink_text_ok_def)
  let ?k = "stream_key (sk_stream ex_tight) (lit ''a'')"
  obtain se w1 where ap: "es_append (sk_text ex_tight) mem_api (sk_stream ex_tight) (lit ''a'')
      (event_value (ev_type ex_second)) (public_payload ex_second) w = (Inr se, w1)"
    using mem.append_up by blast
  have "0 < length (mr_streams w ?k)"
    using pub by (auto simp: published_def mem_view_def D dest: arg_cong[of _ _ length])
  moreover have node: "mr_node w = 100"
    using w
    by (auto simp: emit_def Let_def D mem_api_def mem_empty_def es_append_def hs_get_def hs_set_def
        mem_incr_def mem_xadd_def mem_get_def mem_set_def elim!: mbind_InrD)
  moreover have "length (mr_streams w ?k) \<le> 1"
    using pub by (auto simp: published_def mem_view_def dest: arg_cong[of _ _ length])
  ultimately have len: "1 < length (mr_streams w1 ?k)"
    using ap
    by (auto simp: es_append_def mem_api_def mem_incr_def mem_xadd_def mem_trim_def Let_def D elim!: mbind_InrD)
  have "(\<exists>msg w2. current_state \<lparr>oc_repr = (\<lambda>_. []), oc_max_activities = 3\<rparr> (store_deps ex_tight id ex_durable ex_sleep ex_now) (lit ''a'') None w1
             = (Inl (Exn GapError msg), w2))
     \<and> item_fields (sk_text ex_tight) (numbered ([ex_first] @ [ex_second]) ! length [ex_first])
          \<in> snd ` set (mr_streams w1 ?k)"
  proof (rule retained_window_false_gap[where fok = "\<lambda>_. False" and w = w])
    show "sc_maxlen (sk_stream ex_tight) < length (mr_streams w1 ?k)" using len by (simp add: D)
  qed (use pub ap in \<open>simp_all add: D sink_text_ok_def ex_durable_def\<close>)
  then show ?thesis by (auto simp: D)
qed

end
