(* ===== verification/Store.thy ===== *)
theory Store
  imports Effects Events "HOL-Library.Product_Lexorder"
begin

text \<open>
  The durable store: the tables of \<open>database/models\<close> and the repositories over them for sessions,
  executions, the outbox and the trace (\<open>database/repositories\<close>). A table is the list of its rows in
  insertion order; a query is a filter, a stable sort and a slice; a timestamp is a rational number
  of seconds. A repository method is a function of the database and of the instant \<open>now\<close> it runs at.
  A transaction of the code is one such function, so two transactions never overlap.
\<close>

section \<open>Rows\<close>

datatype execution_status = ES_PENDING | ES_RUNNING | ES_CANCEL_REQUESTED | ES_CANCELLED | ES_COMPLETED | ES_FAILED

fun status_value :: "execution_status \<Rightarrow> pystr" where
  "status_value ES_PENDING = lit ''pending''"
| "status_value ES_RUNNING = lit ''running''"
| "status_value ES_CANCEL_REQUESTED = lit ''cancel_requested''"
| "status_value ES_CANCELLED = lit ''cancelled''"
| "status_value ES_COMPLETED = lit ''completed''"
| "status_value ES_FAILED = lit ''failed''"

definition TERMINAL_STATUSES :: "execution_status list" where
  "TERMINAL_STATUSES = [ES_CANCELLED, ES_COMPLETED, ES_FAILED]"

record execution_row =
  ex_id :: pystr
  ex_session_id :: pystr
  ex_question :: pystr
  ex_status :: execution_status
  ex_answer :: "pystr option"
  ex_error :: "pystr option"
  ex_result :: "pdict option"
  ex_created_at :: rat
  ex_updated_at :: rat
  ex_started_at :: "rat option"
  ex_completed_at :: "rat option"

datatype outbox_status = OB_PENDING | OB_PROCESSING | OB_PROCESSED | OB_FAILED

record outbox_row =
  ob_id :: pystr
  ob_event_type :: pystr
  ob_aggregate_id :: pystr
  ob_payload :: pdict
  ob_status :: outbox_status
  ob_attempts :: int
  ob_available_at :: rat
  ob_locked_at :: "rat option"
  ob_locked_by :: "pystr option"
  ob_last_error :: "pystr option"
  ob_created_at :: rat
  ob_processed_at :: "rat option"

record session_row =
  ss_id :: pystr
  ss_title :: "pystr option"
  ss_metadata :: pdict
  ss_created_at :: rat
  ss_updated_at :: rat

record trace_row =
  tr_execution_id :: pystr
  tr_sequence :: int
  tr_event_type :: pystr
  tr_payload :: pdict
  tr_created_at :: rat

text \<open>The database; \<open>db_ids\<close> is the supply of primary keys (\<open>uuid4\<close>), \<open>db_next\<close> how many were drawn.\<close>

record db =
  db_sessions :: "session_row list"
  db_executions :: "execution_row list"
  db_outbox :: "outbox_row list"
  db_traces :: "trace_row list"
  db_ids :: "nat \<Rightarrow> pystr"
  db_next :: nat

definition new_id :: "db \<Rightarrow> pystr" where
  "new_id d = db_ids d (db_next d)"

section \<open>Executions\<close>

definition new_execution :: "pystr \<Rightarrow> pystr \<Rightarrow> pystr \<Rightarrow> rat \<Rightarrow> execution_row" where
  "new_execution i session_id question now =
     \<lparr>ex_id = i, ex_session_id = session_id, ex_question = question, ex_status = ES_PENDING,
      ex_answer = None, ex_error = None, ex_result = None, ex_created_at = now, ex_updated_at = now,
      ex_started_at = None, ex_completed_at = None\<rparr>"

definition execution_create :: "pystr \<Rightarrow> pystr \<Rightarrow> rat \<Rightarrow> db \<Rightarrow> execution_row \<times> db" where
  "execution_create session_id question now d =
     (let entity = new_execution (new_id d) session_id question now
      in (entity, d\<lparr>db_executions := db_executions d @ [entity], db_next := db_next d + 1\<rparr>))"

definition execution_get :: "db \<Rightarrow> pystr \<Rightarrow> execution_row option" where
  "execution_get d i = find (\<lambda>r. ex_id r = i) (db_executions d)"

definition list_by_session :: "db \<Rightarrow> pystr \<Rightarrow> execution_row list" where
  "list_by_session d session_id =
     sort_key (\<lambda>r. (ex_created_at r, ex_id r)) (filter (\<lambda>r. ex_session_id r = session_id) (db_executions d))"

text \<open>The lifecycle methods act on one entity; a write moves its \<open>updated_at\<close>.\<close>

definition mark_running :: "rat \<Rightarrow> execution_row \<Rightarrow> execution_row" where
  "mark_running now r =
     (if ex_status r = ES_CANCEL_REQUESTED then r
      else if ex_status r \<in> set TERMINAL_STATUSES then r
      else r\<lparr>ex_status := ES_RUNNING, ex_started_at := Some now, ex_error := None, ex_updated_at := now\<rparr>)"

definition request_cancel :: "rat \<Rightarrow> execution_row \<Rightarrow> bool \<times> execution_row" where
  "request_cancel now r =
     (if ex_status r \<in> set TERMINAL_STATUSES then (False, r)
      else if ex_status r = ES_CANCEL_REQUESTED then (True, r)
      else (True, r\<lparr>ex_status := ES_CANCEL_REQUESTED, ex_updated_at := now\<rparr>))"

definition mark_cancelled :: "rat \<Rightarrow> pystr option \<Rightarrow> execution_row \<Rightarrow> execution_row" where
  "mark_cancelled now answer r =
     (if ex_status r \<in> {ES_COMPLETED, ES_FAILED, ES_CANCELLED} then r
      else r\<lparr>ex_status := ES_CANCELLED,
             ex_answer := (case answer of None \<Rightarrow> ex_answer r | Some a \<Rightarrow> Some a),
             ex_completed_at := Some now, ex_updated_at := now\<rparr>)"

definition mark_completed :: "rat \<Rightarrow> pystr \<Rightarrow> pdict option \<Rightarrow> execution_row \<Rightarrow> execution_row" where
  "mark_completed now answer result r =
     (if ex_status r \<in> {ES_CANCEL_REQUESTED, ES_CANCELLED, ES_FAILED, ES_COMPLETED} then r
      else r\<lparr>ex_status := ES_COMPLETED, ex_answer := Some answer, ex_result := result,
             ex_completed_at := Some now, ex_updated_at := now\<rparr>)"

definition mark_failed :: "rat \<Rightarrow> pystr \<Rightarrow> execution_row \<Rightarrow> execution_row" where
  "mark_failed now error r =
     (if ex_status r \<in> {ES_CANCEL_REQUESTED, ES_CANCELLED, ES_COMPLETED, ES_FAILED} then r
      else r\<lparr>ex_status := ES_FAILED, ex_error := Some (take 4000 error),
             ex_completed_at := Some now, ex_updated_at := now\<rparr>)"

text \<open>Applying an entity method to the row with a given key.\<close>

definition on_execution :: "pystr \<Rightarrow> (execution_row \<Rightarrow> execution_row) \<Rightarrow> db \<Rightarrow> db" where
  "on_execution i f d = d\<lparr>db_executions := map (\<lambda>r. if ex_id r = i then f r else r) (db_executions d)\<rparr>"

section \<open>The outbox\<close>

definition outbox_enqueue :: "pystr \<Rightarrow> pystr \<Rightarrow> pdict \<Rightarrow> rat \<Rightarrow> db \<Rightarrow> outbox_row \<times> db" where
  "outbox_enqueue event_type aggregate_id payload now d =
     (let message = \<lparr>ob_id = new_id d, ob_event_type = event_type, ob_aggregate_id = aggregate_id,
            ob_payload = payload, ob_status = OB_PENDING, ob_attempts = 0, ob_available_at = now,
            ob_locked_at = None, ob_locked_by = None, ob_last_error = None, ob_created_at = now,
            ob_processed_at = None\<rparr>
      in (message, d\<lparr>db_outbox := db_outbox d @ [message], db_next := db_next d + 1\<rparr>))"

definition delete_by_aggregate_ids :: "pystr list \<Rightarrow> db \<Rightarrow> db" where
  "delete_by_aggregate_ids aggregate_ids d =
     (if aggregate_ids = [] then d
      else d\<lparr>db_outbox := filter (\<lambda>m. ob_aggregate_id m \<notin> set aggregate_ids) (db_outbox d)\<rparr>)"

definition outbox_get :: "db \<Rightarrow> pystr \<Rightarrow> outbox_row option" where
  "outbox_get d i = find (\<lambda>m. ob_id m = i) (db_outbox d)"

definition on_message :: "pystr \<Rightarrow> (outbox_row \<Rightarrow> outbox_row) \<Rightarrow> db \<Rightarrow> db" where
  "on_message i f d = d\<lparr>db_outbox := map (\<lambda>m. if ob_id m = i then f m else m) (db_outbox d)\<rparr>"

text \<open>
  \<open>claim_batch\<close>: the oldest pending messages that are due and not locked by another transaction
  (\<open>skip_locked\<close>), at most \<open>limit\<close> of them.
\<close>

definition claimable :: "rat \<Rightarrow> pystr set \<Rightarrow> outbox_row \<Rightarrow> bool" where
  "claimable now locked m \<longleftrightarrow> ob_status m = OB_PENDING \<and> ob_available_at m \<le> now \<and> ob_id m \<notin> locked"

definition claim_row :: "rat \<Rightarrow> pystr \<Rightarrow> outbox_row \<Rightarrow> outbox_row" where
  "claim_row now runner_id m =
     m\<lparr>ob_status := OB_PROCESSING, ob_locked_at := Some now, ob_locked_by := Some runner_id,
       ob_attempts := ob_attempts m + 1\<rparr>"

definition claim_batch :: "rat \<Rightarrow> pystr set \<Rightarrow> pystr \<Rightarrow> nat \<Rightarrow> db \<Rightarrow> outbox_row list \<times> db" where
  "claim_batch now locked runner_id limit d =
     (let rows = take limit (sort_key ob_created_at (filter (claimable now locked) (db_outbox d)));
          ids = map ob_id rows
      in (map (claim_row now runner_id) rows,
          d\<lparr>db_outbox := map (\<lambda>m. if ob_id m \<in> set ids then claim_row now runner_id m else m) (db_outbox d)\<rparr>))"

definition message_processed :: "rat \<Rightarrow> outbox_row \<Rightarrow> outbox_row" where
  "message_processed now m =
     m\<lparr>ob_status := OB_PROCESSED, ob_processed_at := Some now, ob_locked_at := None, ob_locked_by := None\<rparr>"

definition message_failed :: "rat \<Rightarrow> pystr \<Rightarrow> outbox_row \<Rightarrow> outbox_row" where
  "message_failed now error m =
     m\<lparr>ob_status := OB_FAILED, ob_last_error := Some (take 1000 error), ob_processed_at := Some now,
       ob_locked_at := None, ob_locked_by := None\<rparr>"

definition release_with_error :: "rat \<Rightarrow> pystr \<Rightarrow> rat \<Rightarrow> outbox_row \<Rightarrow> outbox_row" where
  "release_with_error now error retry_delay_seconds m =
     m\<lparr>ob_status := OB_PENDING, ob_available_at := now + retry_delay_seconds, ob_locked_at := None,
       ob_locked_by := None, ob_last_error := Some (take 1000 error)\<rparr>"

text \<open>The retry delay of \<open>runtime/retry.py\<close>.\<close>

record retry_policy =
  rp_base_delay_seconds :: rat
  rp_max_delay_seconds :: rat
  rp_exponent_cap :: int

definition retry_delay :: "retry_policy \<Rightarrow> int \<Rightarrow> rat" where
  "retry_delay p attempt =
     (let normalized_attempt = max attempt 1;
          exponent = min (normalized_attempt - 1) (rp_exponent_cap p)
      in min (rp_max_delay_seconds p)
           (rp_base_delay_seconds p * (if exponent \<ge> 0 then 2 ^ nat exponent else 1 / 2 ^ nat (- exponent))))"

section \<open>Sessions\<close>

definition session_create :: "pdict \<Rightarrow> pystr option \<Rightarrow> rat \<Rightarrow> db \<Rightarrow> session_row \<times> db" where
  "session_create metadata title now d =
     (let entity = \<lparr>ss_id = new_id d, ss_title = title, ss_metadata = metadata, ss_created_at = now,
            ss_updated_at = now\<rparr>
      in (entity, d\<lparr>db_sessions := db_sessions d @ [entity], db_next := db_next d + 1\<rparr>))"

definition session_get :: "db \<Rightarrow> pystr \<Rightarrow> session_row option" where
  "session_get d i = find (\<lambda>s. ss_id s = i) (db_sessions d)"

definition list_recent :: "int \<Rightarrow> int \<Rightarrow> bool \<Rightarrow> db \<Rightarrow> session_row list res" where
  "list_recent limit offset only_with_executions d =
     (if limit < 1 then Inl (Exn ValueError (lit ''limit must be greater than zero''))
      else if offset < 0 then Inl (Exn ValueError (lit ''offset cannot be negative''))
      else
        let rows = (if only_with_executions
                    then filter (\<lambda>s. \<exists>r \<in> set (db_executions d). ex_session_id r = ss_id s) (db_sessions d)
                    else db_sessions d)
        in Inr (take (nat limit) (drop (nat offset)
             (sort_key (\<lambda>s. (- ss_updated_at s, - ss_created_at s)) rows))))"

definition on_session :: "pystr \<Rightarrow> (session_row \<Rightarrow> session_row) \<Rightarrow> db \<Rightarrow> db" where
  "on_session i f d = d\<lparr>db_sessions := map (\<lambda>s. if ss_id s = i then f s else s) (db_sessions d)\<rparr>"

definition update_title :: "rat \<Rightarrow> pystr \<Rightarrow> session_row \<Rightarrow> session_row" where
  "update_title now title s = s\<lparr>ss_title := Some title, ss_updated_at := now\<rparr>"

definition touch :: "rat \<Rightarrow> session_row \<Rightarrow> session_row" where
  "touch now s = s\<lparr>ss_updated_at := now\<rparr>"

definition execution_ids :: "pystr \<Rightarrow> db \<Rightarrow> pystr list" where
  "execution_ids session_id d = map ex_id (filter (\<lambda>r. ex_session_id r = session_id) (db_executions d))"

definition has_active_executions :: "pystr \<Rightarrow> db \<Rightarrow> bool" where
  "has_active_executions session_id d \<longleftrightarrow>
     (\<exists>r \<in> set (db_executions d). ex_session_id r = session_id \<and> ex_status r \<notin> set TERMINAL_STATUSES)"

text \<open>Deleting a session cascades to its executions and, through them, to their traces.\<close>

definition session_delete :: "pystr \<Rightarrow> db \<Rightarrow> bool \<times> db" where
  "session_delete session_id d =
     (let gone = execution_ids session_id d
      in (\<exists>s \<in> set (db_sessions d). ss_id s = session_id,
          d\<lparr>db_sessions := filter (\<lambda>s. ss_id s \<noteq> session_id) (db_sessions d),
            db_executions := filter (\<lambda>r. ex_session_id r \<noteq> session_id) (db_executions d),
            db_traces := filter (\<lambda>t. tr_execution_id t \<notin> set gone) (db_traces d)\<rparr>))"

section \<open>The trace\<close>

definition trace_append :: "pystr \<Rightarrow> int \<Rightarrow> pystr \<Rightarrow> pdict \<Rightarrow> rat \<Rightarrow> db \<Rightarrow> db" where
  "trace_append execution_id sequence event_type payload now d =
     d\<lparr>db_traces := db_traces d @ [\<lparr>tr_execution_id = execution_id, tr_sequence = sequence,
         tr_event_type = event_type, tr_payload = payload, tr_created_at = now\<rparr>]\<rparr>"

definition list_for_execution :: "db \<Rightarrow> pystr \<Rightarrow> trace_row list" where
  "list_for_execution d execution_id =
     sort_key tr_sequence (filter (\<lambda>t. tr_execution_id t = execution_id) (db_traces d))"

definition trace_record :: "exec_event \<Rightarrow> int \<Rightarrow> rat \<Rightarrow> db \<Rightarrow> db" where
  "trace_record e sequence now d =
     trace_append (ev_execution_id e) sequence (event_value (ev_type e)) (ev_payload e) now d"

end
