(* ===== verification/Api.thy ===== *)
theory Api
  imports Store
begin

text \<open>
  The HTTP routes for sessions and executions (\<open>api/http/routes\<close>), with the request schemas that
  validate their input and the title a conversation gets from its first question
  (\<open>session_title.py\<close>). A route is a function of the database at one instant; an \<open>HTTPException\<close> is
  the exception \<open>HTTPStatus\<close>, and a rejected request changes nothing because nothing is committed.
\<close>

section \<open>Requests\<close>

definition DEFAULT_SESSION_TITLE_MAX_LENGTH :: nat where
  "DEFAULT_SESSION_TITLE_MAX_LENGTH = 56"

text \<open>\<open>" ".join(text.split()).strip()\<close>.\<close>

definition normalize_spaces :: "pystr \<Rightarrow> pystr" where
  "normalize_spaces s = py_strip (py_join (lit '' '') (py_split s))"

definition build_session_title :: "pystr \<Rightarrow> nat \<Rightarrow> pystr res" where
  "build_session_title question max_length =
     (if max_length < 4 then Inl (Exn ValueError (lit ''max_length must be at least 4''))
      else
        let normalized = normalize_spaces question
        in if normalized = [] then Inl (Exn ValueError (lit ''question cannot be empty''))
           else if length normalized \<le> max_length then Inr normalized
           else Inr (py_rstrip (take (max_length - 3) normalized) @ lit ''...''))"

definition unprocessable :: "pystr \<Rightarrow> py_exn" where
  "unprocessable msg = Exn (HTTPStatus 422) msg"

definition validate_question :: "pystr \<Rightarrow> pystr res" where
  "validate_question value =
     (if value = [] then Inl (unprocessable (lit ''String should have at least 1 character''))
      else let normalized = py_strip value
           in if normalized = [] then Inl (unprocessable (lit ''question cannot be empty'')) else Inr normalized)"

definition validate_title :: "pystr \<Rightarrow> pystr res" where
  "validate_title value =
     (if value = [] then Inl (unprocessable (lit ''String should have at least 1 character''))
      else if 120 < length value then Inl (unprocessable (lit ''String should have at most 120 characters''))
      else let normalized = normalize_spaces value
           in if normalized = [] then Inl (unprocessable (lit ''title cannot be empty'')) else Inr normalized)"

definition not_found :: "string \<Rightarrow> py_exn" where
  "not_found what = Exn (HTTPStatus 404) (lit what)"

section \<open>Responses\<close>

record execution_response =
  er_id :: pystr
  er_session_id :: pystr
  er_question :: pystr
  er_status :: pystr
  er_answer :: "pystr option"
  er_error :: "pystr option"
  er_result :: "pdict option"
  er_created_at :: rat
  er_started_at :: "rat option"
  er_completed_at :: "rat option"

definition present_execution :: "execution_row \<Rightarrow> execution_response" where
  "present_execution r =
     \<lparr>er_id = ex_id r, er_session_id = ex_session_id r, er_question = ex_question r,
      er_status = status_value (ex_status r), er_answer = ex_answer r, er_error = ex_error r,
      er_result = ex_result r, er_created_at = ex_created_at r, er_started_at = ex_started_at r,
      er_completed_at = ex_completed_at r\<rparr>"

record session_response =
  sr_id :: pystr
  sr_title :: "pystr option"
  sr_metadata :: pdict
  sr_created_at :: rat
  sr_updated_at :: rat

definition present_session :: "session_row \<Rightarrow> session_response" where
  "present_session s =
     \<lparr>sr_id = ss_id s, sr_title = ss_title s, sr_metadata = ss_metadata s, sr_created_at = ss_created_at s,
      sr_updated_at = ss_updated_at s\<rparr>"

section \<open>Session routes\<close>

text \<open>A route returns its response and the database; on an exception the database is the old one.\<close>

type_synonym 'a route = "db \<Rightarrow> 'a res \<times> db"

definition create_session :: "repr \<Rightarrow> rat \<Rightarrow> pdict \<Rightarrow> session_response route" where
  "create_session rp now metadata d =
     (let raw_title = dget metadata (lit ''title'');
          title = (if truthy raw_title then Some (py_strip (py_str rp raw_title)) else None)
      in (case session_create metadata title now d of (entity, d') \<Rightarrow> (Inr (present_session entity), d')))"

definition request_message :: "pystr \<Rightarrow> pystr \<Rightarrow> pystr \<Rightarrow> pdict" where
  "request_message execution_id session_id question =
     [(lit ''execution_id'', PStr execution_id), (lit ''session_id'', PStr session_id),
      (lit ''question'', PStr question)]"

definition start_session ::
  "rat \<Rightarrow> pystr \<Rightarrow> pdict \<Rightarrow> (session_response \<times> execution_response) route" where
  "start_session now question_text metadata d =
     (case rbind (validate_question question_text) (\<lambda>question.
             rbind (build_session_title question DEFAULT_SESSION_TITLE_MAX_LENGTH) (\<lambda>title.
               Inr (question, title))) of
        Inl e \<Rightarrow> (Inl e, d)
      | Inr (question, title) \<Rightarrow>
          (case session_create metadata (Some title) now d of (session, d1) \<Rightarrow>
          (case execution_create (ss_id session) question now d1 of (execution, d2) \<Rightarrow>
          (case outbox_enqueue (lit ''execution.requested'') (ex_id execution)
                  (request_message (ex_id execution) (ss_id session) question) now d2 of (_, d3) \<Rightarrow>
             (Inr (present_session session, present_execution execution), d3)))))"

definition list_sessions :: "int \<Rightarrow> int \<Rightarrow> session_response list route" where
  "list_sessions limit offset d =
     (if limit < 1 \<or> 200 < limit \<or> offset < 0 then (Inl (unprocessable (lit ''query'')), d)
      else (rbind (list_recent limit offset True d) (\<lambda>entities. Inr (map present_session entities)), d))"

definition update_session :: "rat \<Rightarrow> pystr \<Rightarrow> pystr \<Rightarrow> session_response route" where
  "update_session now session_id title_text d =
     (case validate_title title_text of
        Inl e \<Rightarrow> (Inl e, d)
      | Inr title \<Rightarrow>
          (case session_get d session_id of
             None \<Rightarrow> (Inl (not_found ''Session not found''), d)
           | Some entity \<Rightarrow>
               (Inr (present_session (update_title now title entity)), on_session session_id (update_title now title) d)))"

definition delete_session :: "pystr \<Rightarrow> unit route" where
  "delete_session session_id d =
     (case session_get d session_id of
        None \<Rightarrow> (Inl (not_found ''Session not found''), d)
      | Some _ \<Rightarrow>
          if has_active_executions session_id d
          then (Inl (Exn (HTTPStatus 409)
                  (lit ''N'' @ [227] @ lit ''o '' @ [233] @ lit '' poss'' @ [237]
                   @ lit ''vel excluir uma conversa com execu'' @ [231, 227] @ lit ''o ativa.'')), d)
          else
            (case session_delete session_id (delete_by_aggregate_ids (execution_ids session_id d) d) of
               (_, d') \<Rightarrow> (Inr (), d')))"

definition get_session :: "pystr \<Rightarrow> session_response route" where
  "get_session session_id d =
     (case session_get d session_id of
        None \<Rightarrow> (Inl (not_found ''Session not found''), d)
      | Some entity \<Rightarrow> (Inr (present_session entity), d))"

section \<open>Execution routes\<close>

definition list_session_executions :: "pystr \<Rightarrow> execution_response list route" where
  "list_session_executions session_id d =
     (case session_get d session_id of
        None \<Rightarrow> (Inl (not_found ''Session not found''), d)
      | Some _ \<Rightarrow> (Inr (map present_execution (list_by_session d session_id)), d))"

definition create_execution :: "rat \<Rightarrow> pystr \<Rightarrow> pystr \<Rightarrow> execution_response route" where
  "create_execution now session_id question d =
     (case session_get d session_id of
        None \<Rightarrow> (Inl (not_found ''Session not found''), d)
      | Some session \<Rightarrow>
          (case execution_create session_id question now d of (execution, d1) \<Rightarrow>
          (case outbox_enqueue (lit ''execution.requested'') (ex_id execution)
                  (request_message (ex_id execution) session_id question) now d1 of (_, d2) \<Rightarrow>
             (Inr (present_execution execution), on_session session_id (touch now) d2))))"

definition cancel_execution :: "rat \<Rightarrow> pystr \<Rightarrow> execution_response route" where
  "cancel_execution now execution_id d =
     (case execution_get d execution_id of
        None \<Rightarrow> (Inl (not_found ''Execution not found''), d)
      | Some execution \<Rightarrow>
          (Inr (present_execution (snd (request_cancel now execution))),
           on_execution execution_id (\<lambda>r. snd (request_cancel now r)) d))"

text \<open>The partial answer of the hot state stands in for the answer while the execution is live.\<close>

definition get_execution :: "repr \<Rightarrow> pdict option \<Rightarrow> pystr \<Rightarrow> execution_response route" where
  "get_execution rp hot execution_id d =
     (case execution_get d execution_id of
        None \<Rightarrow> (Inl (not_found ''Execution not found''), d)
      | Some execution \<Rightarrow>
          let response = present_execution execution
          in (case hot of
                None \<Rightarrow> (Inr response, d)
              | Some h \<Rightarrow>
                  if h \<noteq> [] \<and> er_status response \<in> {lit ''running'', lit ''cancel_requested''}
                     \<and> truthy (dget h (lit ''partial_answer''))
                  then (Inr (response\<lparr>er_answer := Some (py_str rp (dget h (lit ''partial_answer'')))\<rparr>), d)
                  else (Inr response, d)))"

record trace_step =
  ts_sequence :: int
  ts_event_type :: pystr
  ts_payload :: pdict
  ts_created_at :: rat

definition present_trace :: "trace_row \<Rightarrow> trace_step" where
  "present_trace t =
     \<lparr>ts_sequence = tr_sequence t, ts_event_type = tr_event_type t, ts_payload = tr_payload t,
      ts_created_at = tr_created_at t\<rparr>"

definition get_execution_trace :: "pystr \<Rightarrow> trace_step list route" where
  "get_execution_trace execution_id d = (Inr (map present_trace (list_for_execution d execution_id)), d)"

end
