(* ===== verification/Lifecycle.thy ===== *)
theory Lifecycle
  imports Store
begin

text \<open>
  The life of one execution row and of one outbox message: the repository methods as a step
  relation, what they can never undo, and what a claim hands to a runner.
\<close>

section \<open>The steps of an execution\<close>

inductive exec_step :: "execution_row \<Rightarrow> execution_row \<Rightarrow> bool" where
  running: "exec_step r (mark_running now r)"
| cancel: "exec_step r (snd (request_cancel now r))"
| cancelled: "exec_step r (mark_cancelled now answer r)"
| completed: "exec_step r (mark_completed now text result r)"
| failed: "exec_step r (mark_failed now message r)"

inductive exec_reach :: "execution_row \<Rightarrow> bool" where
  created: "exec_reach (new_execution i session_id question now)"
| step: "exec_reach r \<Longrightarrow> exec_step r r' \<Longrightarrow> exec_reach r'"

lemmas lifecycle_defs = mark_running_def request_cancel_def mark_cancelled_def mark_completed_def
  mark_failed_def TERMINAL_STATUSES_def

inductive_cases exec_stepE: "exec_step r r'"

lemma step_keeps_terminal: "exec_step r r' \<Longrightarrow> ex_status r \<in> set TERMINAL_STATUSES \<Longrightarrow> r' = r"
  by (erule exec_stepE) (auto simp: lifecycle_defs)

lemma step_keeps_cancel:
  "exec_step r r' \<Longrightarrow> ex_status r = ES_CANCEL_REQUESTED \<Longrightarrow> ex_status r' \<in> {ES_CANCEL_REQUESTED, ES_CANCELLED}"
  by (erule exec_stepE) (auto simp: lifecycle_defs)

lemma step_identity:
  "exec_step r r' \<Longrightarrow> ex_id r' = ex_id r \<and> ex_session_id r' = ex_session_id r \<and> ex_question r' = ex_question r
     \<and> ex_created_at r' = ex_created_at r"
  by (erule exec_stepE) (auto simp: lifecycle_defs)

definition outcome_ok :: "execution_row \<Rightarrow> bool" where
  "outcome_ok r \<longleftrightarrow>
     (case ex_status r of
        ES_PENDING \<Rightarrow> ex_answer r = None \<and> ex_error r = None \<and> ex_result r = None \<and> ex_completed_at r = None
          \<and> ex_started_at r = None
      | ES_RUNNING \<Rightarrow> ex_answer r = None \<and> ex_error r = None \<and> ex_result r = None \<and> ex_completed_at r = None
          \<and> ex_started_at r \<noteq> None
      | ES_CANCEL_REQUESTED \<Rightarrow> ex_answer r = None \<and> ex_error r = None \<and> ex_result r = None \<and> ex_completed_at r = None
      | ES_CANCELLED \<Rightarrow> ex_error r = None \<and> ex_result r = None \<and> ex_completed_at r \<noteq> None
      | ES_COMPLETED \<Rightarrow> ex_answer r \<noteq> None \<and> ex_error r = None \<and> ex_completed_at r \<noteq> None
      | ES_FAILED \<Rightarrow> (\<exists>e. ex_error r = Some e \<and> length e \<le> 4000) \<and> ex_answer r = None \<and> ex_result r = None
          \<and> ex_completed_at r \<noteq> None)"

lemma outcome_ok_step: "exec_step r r' \<Longrightarrow> outcome_ok r \<Longrightarrow> outcome_ok r'"
  by (erule exec_stepE; cases "ex_status r") (auto simp: lifecycle_defs outcome_ok_def split: option.splits)

text \<open>
  C7. The outcome columns always agree with the status. On every execution row that the
  repository methods can produce, in any order and at any instants, an answer exists exactly
  where it should (a completed row has one, a pending, running or failed row has none), a
  failed row carries an error of at most 4000 characters and nothing else does, and the
  completion time is set exactly on terminal rows.
\<close>
theorem lifecycle_outcome:
  assumes "exec_reach r"
  shows "outcome_ok r \<and> (ex_completed_at r \<noteq> None \<longleftrightarrow> ex_status r \<in> set TERMINAL_STATUSES)"
proof -
  have "outcome_ok r"
    using assms
  proof induction
    case (created i session_id question now)
    show ?case by (simp add: outcome_ok_def new_execution_def)
  next
    case (step r r')
    then show ?case using outcome_ok_step by blast
  qed
  then show ?thesis by (cases "ex_status r") (auto simp: outcome_ok_def TERMINAL_STATUSES_def)
qed

text \<open>
  C6. Terminal statuses are final and a cancellation request wins: however the repository methods
  are applied afterwards, a terminal row is not changed in any column, and a row whose
  cancellation was requested can only become cancelled, never completed, failed or running.
\<close>
theorem terminal_is_final:
  assumes "exec_step\<^sup>*\<^sup>* r r'"
  shows "(ex_status r \<in> set TERMINAL_STATUSES \<longrightarrow> r' = r)
       \<and> (ex_status r = ES_CANCEL_REQUESTED \<longrightarrow> ex_status r' \<in> {ES_CANCEL_REQUESTED, ES_CANCELLED})"
  using assms
proof induction
  case (step y z)
  then show ?case
    using step_keeps_terminal[OF step(2)] step_keeps_cancel[OF step(2)]
    by (auto simp: TERMINAL_STATUSES_def)
qed auto

theorem lifecycle_outcome_witness:
  "outcome_ok (mark_completed 3 (lit ''hi'') None (mark_running 2 (new_execution (lit ''e'') (lit ''s'') (lit ''q'') 1)))
   \<and> (ex_completed_at (mark_completed 3 (lit ''hi'') None (mark_running 2 (new_execution (lit ''e'') (lit ''s'') (lit ''q'') 1)))
        \<noteq> None \<longleftrightarrow>
      ex_status (mark_completed 3 (lit ''hi'') None (mark_running 2 (new_execution (lit ''e'') (lit ''s'') (lit ''q'') 1)))
        \<in> set TERMINAL_STATUSES)"
  by (rule lifecycle_outcome) (rule exec_reach.step[OF exec_reach.step[OF exec_reach.created exec_step.running] exec_step.completed])

definition ex_row :: execution_row where
  "ex_row = snd (request_cancel 2 (new_execution (lit ''e'') (lit ''s'') (lit ''q'') 1))"

theorem terminal_is_final_witness:
  "ex_status (mark_completed 4 (lit ''hi'') None (mark_cancelled 3 None ex_row)) \<in> {ES_CANCEL_REQUESTED, ES_CANCELLED}"
proof -
  have "exec_step\<^sup>*\<^sup>* ex_row (mark_completed 4 (lit ''hi'') None (mark_cancelled 3 None ex_row))"
    by (rule rtranclp.rtrancl_into_rtrancl[OF rtranclp.rtrancl_into_rtrancl[OF rtranclp.rtrancl_refl]])
      (rule exec_step.intros)+
  from terminal_is_final[OF this] show ?thesis
    by (simp add: ex_row_def new_execution_def request_cancel_def TERMINAL_STATUSES_def)
qed

section \<open>Claiming messages\<close>

lemma claim_batch_rows:
  assumes "claim_batch now locked rid limit d = (ms, d')"
  shows "ms = map (claim_row now rid) (take limit (sort_key ob_created_at (filter (claimable now locked) (db_outbox d))))"
    and "db_outbox d' = map (\<lambda>m. if ob_id m \<in> ob_id ` set ms then claim_row now rid m else m) (db_outbox d)"
proof -
  show ms: "ms = map (claim_row now rid) (take limit (sort_key ob_created_at (filter (claimable now locked) (db_outbox d))))"
    using assms by (simp add: claim_batch_def Let_def)
  have "ob_id ` set ms = set (map ob_id (take limit (sort_key ob_created_at (filter (claimable now locked) (db_outbox d)))))"
    by (simp add: ms image_image claim_row_def)
  then show "db_outbox d' = map (\<lambda>m. if ob_id m \<in> ob_id ` set ms then claim_row now rid m else m) (db_outbox d)"
    using assms by (auto simp: claim_batch_def Let_def)
qed

lemma set_take_sort: "set (take n (sort_key f (filter p xs))) \<subseteq> {x \<in> set xs. p x}"
  by (auto dest: in_set_takeD)

text \<open>
  C8. A claim takes the oldest due messages and only those. The messages handed out are at most
  \<open>limit\<close>, each was pending, due and unlocked and is now processing for this runner with one more
  attempt; they come oldest first; any eligible message left behind is at least as recent as
  every claimed one, and something is left behind only when the batch is full.
\<close>
theorem claim_batch_oldest_due:
  assumes "claim_batch now locked rid limit d = (ms, d')"
  shows "length ms \<le> limit \<and> sorted (map ob_created_at ms)
    \<and> (\<forall>m \<in> set ms. \<exists>r \<in> set (db_outbox d). claimable now locked r \<and> m = claim_row now rid r)
    \<and> (\<forall>r \<in> set (db_outbox d). claimable now locked r \<and> claim_row now rid r \<notin> set ms
         \<longrightarrow> length ms = limit \<and> (\<forall>m \<in> set ms. ob_created_at m \<le> ob_created_at r))"
proof -
  let ?es = "sort_key ob_created_at (filter (claimable now locked) (db_outbox d))"
  have ms: "ms = map (claim_row now rid) (take limit ?es)" using claim_batch_rows(1)[OF assms] .
  have so: "sorted (map ob_created_at ?es)" by simp
  have len: "length ms \<le> limit" by (simp add: ms)
  have srt: "sorted (map ob_created_at ms)"
  proof -
    have "map ob_created_at ms = take limit (map ob_created_at ?es)"
      by (simp add: ms o_def claim_row_def take_map)
    then show ?thesis using so by (simp add: sorted_wrt_take)
  qed
  have elig: "\<forall>m \<in> set ms. \<exists>r \<in> set (db_outbox d). claimable now locked r \<and> m = claim_row now rid r"
    unfolding ms using set_take_sort[of limit ob_created_at "claimable now locked" "db_outbox d"] by auto
  have left: "length ms = limit \<and> (\<forall>m \<in> set ms. ob_created_at m \<le> ob_created_at r)"
    if r: "r \<in> set (db_outbox d)" "claimable now locked r" "claim_row now rid r \<notin> set ms" for r
  proof -
    have "r \<in> set ?es" using r by simp
    moreover have "r \<notin> set (take limit ?es)" using r(3) by (auto simp: ms)
    ultimately have "r \<in> set (drop limit ?es)" by (metis append_take_drop_id set_append Un_iff)
    then have more: "limit < length ?es" by (metis drop_all empty_iff empty_set linorder_not_le)
    have "sorted (map ob_created_at (take limit ?es @ drop limit ?es))" using so by simp
    then have "\<forall>a \<in> set (take limit ?es). \<forall>b \<in> set (drop limit ?es). ob_created_at a \<le> ob_created_at b"
      unfolding map_append sorted_append by auto
    with \<open>r \<in> set (drop limit ?es)\<close> have "\<forall>m \<in> set ms. ob_created_at m \<le> ob_created_at r"
      by (auto simp: ms claim_row_def)
    with more show ?thesis by (simp add: ms)
  qed
  from len srt elig left show ?thesis by blast
qed

text \<open>
  No message is delivered twice: when two runners claim one after the other, at whatever
  instants, the second batch shares no message with the first, because a processing message is
  never claimable.
\<close>
theorem claims_disjoint:
  assumes "claim_batch now locked rid limit d = (ms, d')" and "claim_batch now' locked' rid' limit' d' = (ms', d'')"
  shows "ob_id ` set ms \<inter> ob_id ` set ms' = {}"
proof -
  have "ob_status r \<noteq> OB_PENDING" if "r \<in> set (db_outbox d')" "ob_id r \<in> ob_id ` set ms" for r
    using that claim_batch_rows(2)[OF assms(1)] by (auto simp: claim_row_def)
  moreover have "\<exists>r \<in> set (db_outbox d'). ob_status r = OB_PENDING \<and> ob_id r = ob_id m" if "m \<in> set ms'" for m
    using that claim_batch_rows(1)[OF assms(2)]
      set_take_sort[of limit' ob_created_at "claimable now' locked'" "db_outbox d'"]
    by (fastforce simp: claim_row_def claimable_def)
  ultimately show ?thesis by (auto simp: disjoint_iff) (metis image_eqI)
qed

definition ex_message :: "string \<Rightarrow> rat \<Rightarrow> outbox_row" where
  "ex_message i t =
     \<lparr>ob_id = lit i, ob_event_type = lit ''execution.requested'', ob_aggregate_id = lit i, ob_payload = [],
      ob_status = OB_PENDING, ob_attempts = 0, ob_available_at = t, ob_locked_at = None, ob_locked_by = None,
      ob_last_error = None, ob_created_at = t, ob_processed_at = None\<rparr>"

definition ex_db :: db where
  "ex_db = \<lparr>db_sessions = [], db_executions = [], db_outbox = [ex_message ''b'' 2, ex_message ''a'' 1],
     db_traces = [], db_ids = (\<lambda>n. lit ''k'' @ dec_nat n), db_next = 0\<rparr>"

lemmas claim_eval = claim_batch_def ex_db_def ex_message_def claimable_def claim_row_def Let_def

theorem claim_batch_oldest_due_witness:
  "\<exists>ms d'. claim_batch 5 {} (lit ''r1'') 1 ex_db = (ms, d') \<and> map ob_id ms = [lit ''a''] \<and> sorted (map ob_created_at ms)"
proof -
  obtain ms d' where c: "claim_batch 5 {} (lit ''r1'') 1 ex_db = (ms, d')" by (cases "claim_batch 5 {} (lit ''r1'') 1 ex_db")
  have "map ob_id ms = [lit ''a'']" using claim_batch_rows(1)[OF c] by (simp add: claim_eval)
  with claim_batch_oldest_due[OF c] c show ?thesis by (intro exI[of _ ms] exI[of _ d']) simp
qed

theorem claims_disjoint_witness:
  "\<exists>ms d' ms' d''. claim_batch 5 {} (lit ''r1'') 1 ex_db = (ms, d') \<and> claim_batch 5 {} (lit ''r2'') 1 d' = (ms', d'')
     \<and> ob_id ` set ms \<inter> ob_id ` set ms' = {}"
proof -
  obtain ms d' where c: "claim_batch 5 {} (lit ''r1'') 1 ex_db = (ms, d')" by (cases "claim_batch 5 {} (lit ''r1'') 1 ex_db")
  obtain ms' d'' where c': "claim_batch 5 {} (lit ''r2'') 1 d' = (ms', d'')" by (cases "claim_batch 5 {} (lit ''r2'') 1 d'")
  from claims_disjoint[OF c c'] c c' show ?thesis by blast
qed

section \<open>Retry delays\<close>

text \<open>
  Retry delays are bounded and never shrink: with a non-negative base and cap, every delay lies
  between 0 and the maximum, the first attempts wait the base delay, and a later attempt never
  waits less than an earlier one.
\<close>
theorem retry_delay_bounds:
  assumes "0 \<le> rp_base_delay_seconds p" and "0 \<le> rp_max_delay_seconds p" and "0 \<le> rp_exponent_cap p"
    and "a \<le> b"
  shows "0 \<le> retry_delay p a \<and> retry_delay p a \<le> retry_delay p b \<and> retry_delay p b \<le> rp_max_delay_seconds p
    \<and> (a \<le> 1 \<longrightarrow> retry_delay p a = min (rp_max_delay_seconds p) (rp_base_delay_seconds p))"
proof -
  let ?e = "\<lambda>x. min (max x 1 - 1) (rp_exponent_cap p)"
  have e: "0 \<le> ?e x" for x using assms(3) by simp
  have r: "retry_delay p x = min (rp_max_delay_seconds p) (rp_base_delay_seconds p * 2 ^ nat (?e x))" for x
    using e[of x] by (simp add: retry_delay_def Let_def)
  have "nat (?e a) \<le> nat (?e b)" using assms(4) by (intro nat_mono) auto
  then have "rp_base_delay_seconds p * 2 ^ nat (?e a) \<le> rp_base_delay_seconds p * 2 ^ nat (?e b)"
    using assms(1) by (intro mult_left_mono) auto
  moreover have "0 \<le> rp_base_delay_seconds p * 2 ^ nat (?e a)" using assms(1) by simp
  moreover have "nat (?e a) = 0" if "a \<le> 1" using that assms(3) by simp
  ultimately show ?thesis using assms(2) by (auto simp: r min_def)
qed

theorem retry_delay_bounds_witness:
  "(let p = \<lparr>rp_base_delay_seconds = 2, rp_max_delay_seconds = 60, rp_exponent_cap = 10\<rparr>
    in retry_delay p 3 \<le> retry_delay p 7 \<and> retry_delay p 7 \<le> 60)"
  using retry_delay_bounds[of "\<lparr>rp_base_delay_seconds = 2, rp_max_delay_seconds = 60, rp_exponent_cap = 10\<rparr>" 3 7]
  by simp

end
