(* ===== verification/Api_Props.thy ===== *)
theory Api_Props
  imports Api Lifecycle
begin

text \<open>
  The durable store under every transaction of the system: the routes of the API and the runner's
  updates, in any order. An accepted question always has its execution and exactly one outbox
  message with it, deleting a conversation leaves nothing behind, and titles stay within bounds.
\<close>

section \<open>Referential integrity\<close>

definition request_of :: "execution_row \<Rightarrow> pystr \<times> pdict" where
  "request_of r = (ex_id r, request_message (ex_id r) (ex_session_id r) (ex_question r))"

definition message_request :: "outbox_row \<Rightarrow> pystr \<times> pdict" where
  "message_request m = (ob_aggregate_id m, ob_payload m)"

text \<open>
  The store is consistent: keys are unique and drawn from the supply, every execution belongs to a
  session, every trace to an execution, and the outbox holds exactly one request per execution,
  in the order they were accepted and with the payload the runner will read.
\<close>

definition drawn :: "db \<Rightarrow> pystr set" where
  "drawn d = db_ids d ` {..<db_next d}"

definition db_ok :: "db \<Rightarrow> bool" where
  "db_ok d \<longleftrightarrow> inj (db_ids d)
     \<and> distinct (map ss_id (db_sessions d)) \<and> ss_id ` set (db_sessions d) \<subseteq> drawn d
     \<and> distinct (map ex_id (db_executions d)) \<and> ex_id ` set (db_executions d) \<subseteq> drawn d
     \<and> distinct (map ob_id (db_outbox d)) \<and> ob_id ` set (db_outbox d) \<subseteq> drawn d
     \<and> ex_session_id ` set (db_executions d) \<subseteq> ss_id ` set (db_sessions d)
     \<and> tr_execution_id ` set (db_traces d) \<subseteq> ex_id ` set (db_executions d)
     \<and> map message_request (db_outbox d) = map request_of (db_executions d)
     \<and> ob_event_type ` set (db_outbox d) \<subseteq> {lit ''execution.requested''}"

text \<open>The columns that integrity depends on: no lifecycle or claim update touches them.\<close>

definition execution_key3 :: "execution_row \<Rightarrow> pystr \<times> pystr \<times> pystr" where
  "execution_key3 r = (ex_id r, ex_session_id r, ex_question r)"

definition message_key :: "outbox_row \<Rightarrow> pystr \<times> pystr \<times> pystr \<times> pdict" where
  "message_key m = (ob_id m, ob_event_type m, ob_aggregate_id m, ob_payload m)"

definition same_shape :: "db \<Rightarrow> db \<Rightarrow> bool" where
  "same_shape d d' \<longleftrightarrow> map ss_id (db_sessions d) = map ss_id (db_sessions d')
     \<and> map execution_key3 (db_executions d) = map execution_key3 (db_executions d')
     \<and> map message_key (db_outbox d) = map message_key (db_outbox d')
     \<and> db_traces d = db_traces d' \<and> db_ids d = db_ids d' \<and> db_next d = db_next d'"

lemma map_via: "map f xs = map f ys \<Longrightarrow> map (\<lambda>x. g (f x)) xs = map (\<lambda>x. g (f x)) ys"
proof -
  assume "map f xs = map f ys"
  then have "map g (map f xs) = map g (map f ys)" by simp
  then show ?thesis by (simp add: o_def)
qed

lemma same_shape_lists:
  assumes "same_shape d d'"
  shows "map ex_id (db_executions d) = map ex_id (db_executions d')"
    and "map ex_session_id (db_executions d) = map ex_session_id (db_executions d')"
    and "map request_of (db_executions d) = map request_of (db_executions d')"
    and "map ob_id (db_outbox d) = map ob_id (db_outbox d')"
    and "map ob_event_type (db_outbox d) = map ob_event_type (db_outbox d')"
    and "map message_request (db_outbox d) = map message_request (db_outbox d')"
proof -
  have e: "map execution_key3 (db_executions d) = map execution_key3 (db_executions d')"
    and m: "map message_key (db_outbox d) = map message_key (db_outbox d')"
    using assms by (simp_all add: same_shape_def)
  show "map ex_id (db_executions d) = map ex_id (db_executions d')"
    using map_via[OF e, of fst] by (simp add: execution_key3_def)
  show "map ex_session_id (db_executions d) = map ex_session_id (db_executions d')"
    using map_via[OF e, of "\<lambda>k. fst (snd k)"] by (simp add: execution_key3_def)
  show "map request_of (db_executions d) = map request_of (db_executions d')"
    using map_via[OF e, of "\<lambda>(i, s, q). (i, request_message i s q)"] by (simp add: execution_key3_def request_of_def[abs_def])
  show "map ob_id (db_outbox d) = map ob_id (db_outbox d')"
    using map_via[OF m, of fst] by (simp add: message_key_def)
  show "map ob_event_type (db_outbox d) = map ob_event_type (db_outbox d')"
    using map_via[OF m, of "\<lambda>k. fst (snd k)"] by (simp add: message_key_def)
  show "map message_request (db_outbox d) = map message_request (db_outbox d')"
    using map_via[OF m, of "\<lambda>(i, t, a, p). (a, p)"] by (simp add: message_key_def message_request_def[abs_def])
qed

lemma same_shape_ok:
  assumes "same_shape d d'"
  shows "db_ok d' = db_ok d"
proof -
  note L = same_shape_lists[OF assms]
  have S: "map ss_id (db_sessions d) = map ss_id (db_sessions d')" "db_traces d = db_traces d'"
    "drawn d = drawn d'" "db_ids d = db_ids d'"
    using assms by (simp_all add: same_shape_def drawn_def)
  note sets = L(1,2,4,5)[THEN arg_cong[where f = set]] S(1)[THEN arg_cong[where f = set]]
  show ?thesis
    using L S sets unfolding db_ok_def list.set_map by simp
qed

lemma shape_on_execution:
  assumes "\<And>r. execution_key3 (f r) = execution_key3 r"
  shows "same_shape d (on_execution i f d)"
  by (simp add: same_shape_def on_execution_def assms)

lemma shape_on_message:
  assumes "\<And>m. message_key (f m) = message_key m"
  shows "same_shape d (on_message i f d)"
  by (simp add: same_shape_def on_message_def assms)

lemma shape_on_session:
  assumes "\<And>s. ss_id (f s) = ss_id s"
  shows "same_shape d (on_session i f d)"
  by (simp add: same_shape_def on_session_def assms)

lemma lifecycle_keys [simp]:
  "execution_key3 (mark_running now r) = execution_key3 r"
  "execution_key3 (snd (request_cancel now r)) = execution_key3 r"
  "execution_key3 (mark_cancelled now a r) = execution_key3 r"
  "execution_key3 (mark_completed now t res r) = execution_key3 r"
  "execution_key3 (mark_failed now e r) = execution_key3 r"
  by (simp_all add: execution_key3_def lifecycle_defs)

lemma message_keys [simp]:
  "message_key (claim_row now rid m) = message_key m"
  "message_key (message_processed now m) = message_key m"
  "message_key (message_failed now e m) = message_key m"
  "message_key (release_with_error now e dl m) = message_key m"
  by (simp_all add: message_key_def claim_row_def message_processed_def message_failed_def release_with_error_def)

lemma shape_claim: "same_shape d (snd (claim_batch now locked rid n d))"
  by (simp add: claim_batch_def Let_def same_shape_def)

section \<open>Every transaction of the system\<close>

inductive system_step :: "db \<Rightarrow> db \<Rightarrow> bool" where
  create_session: "system_step d (snd (create_session rp now metadata d))"
| start_session: "system_step d (snd (start_session now question metadata d))"
| update_session: "system_step d (snd (update_session now i title d))"
| delete_session: "system_step d (snd (delete_session i d))"
| create_execution: "system_step d (snd (create_execution now i question d))"
| cancel_execution: "system_step d (snd (cancel_execution now i d))"
| claim: "system_step d (snd (claim_batch now locked rid n d))"
| exec_running: "system_step d (on_execution i (mark_running now) d)"
| exec_cancelled: "system_step d (on_execution i (mark_cancelled now answer) d)"
| exec_completed: "system_step d (on_execution i (mark_completed now text result) d)"
| exec_failed: "system_step d (on_execution i (mark_failed now message) d)"
| msg_processed: "system_step d (on_message i (message_processed now) d)"
| msg_failed: "system_step d (on_message i (message_failed now message) d)"
| msg_released: "system_step d (on_message i (release_with_error now message delay) d)"
| trace: "execution_get d (ev_execution_id e) \<noteq> None \<Longrightarrow> system_step d (trace_record e sq now d)"

inductive_cases system_stepE: "system_step d d'"

lemma fresh_id: "inj (db_ids d) \<Longrightarrow> X \<subseteq> drawn d \<Longrightarrow> db_next d \<le> n \<Longrightarrow> db_ids d n \<notin> X"
  by (force simp: drawn_def inj_eq)

lemma session_create_ok:
  assumes "db_ok d" and "session_create metadata title now d = (s, d')"
  shows "db_ok d'" and "ss_id s \<in> ss_id ` set (db_sessions d')"
proof -
  have s: "ss_id s = db_ids d (db_next d)" and d': "db_sessions d' = db_sessions d @ [s]"
    "db_executions d' = db_executions d" "db_outbox d' = db_outbox d" "db_traces d' = db_traces d"
    "db_ids d' = db_ids d" "db_next d' = Suc (db_next d)"
    using assms(2) by (auto simp: session_create_def Let_def new_id_def)
  have dr: "drawn d' = insert (ss_id s) (drawn d)" by (simp add: drawn_def d' s lessThan_Suc)
  have "ss_id s \<notin> ss_id ` set (db_sessions d)"
    using assms(1) fresh_id[of d "ss_id ` set (db_sessions d)"] by (simp add: db_ok_def s)
  with assms(1) show "db_ok d'" unfolding db_ok_def dr by (auto simp: d')
  show "ss_id s \<in> ss_id ` set (db_sessions d')" by (simp add: d')
qed

lemma accept_ok:
  assumes "db_ok d" and "sid \<in> ss_id ` set (db_sessions d)"
    and "execution_create sid q now d = (r, d1)"
    and "outbox_enqueue (lit ''execution.requested'') (ex_id r) (request_message (ex_id r) sid q) now d1 = (m, d2)"
  shows "db_ok d2"
proof -
  have r: "ex_id r = db_ids d (db_next d)" "ex_session_id r = sid" "ex_question r = q"
    and d2: "db_sessions d2 = db_sessions d" "db_executions d2 = db_executions d @ [r]"
      "db_traces d2 = db_traces d" "db_ids d2 = db_ids d" "db_next d2 = Suc (Suc (db_next d))"
    and m: "db_outbox d2 = db_outbox d @ [m]" "ob_id m = db_ids d (Suc (db_next d))"
      "ob_event_type m = lit ''execution.requested''" "message_request m = request_of r"
    using assms(3,4)
    by (auto simp: execution_create_def outbox_enqueue_def Let_def new_id_def new_execution_def
        message_request_def request_of_def)
  have dr: "drawn d2 = insert (ob_id m) (insert (ex_id r) (drawn d))"
    by (simp add: drawn_def d2 m r lessThan_Suc)
  have "ex_id r \<notin> ex_id ` set (db_executions d)" "ob_id m \<notin> ob_id ` set (db_outbox d)"
    using assms(1) fresh_id[of d "ex_id ` set (db_executions d)"] fresh_id[of d "ob_id ` set (db_outbox d)"]
    by (simp_all add: db_ok_def r m)
  with assms(1,2) show ?thesis unfolding db_ok_def dr by (auto simp: d2 m r)
qed

lemma delete_ok:
  assumes "db_ok d"
  shows "db_ok (snd (session_delete sid (delete_by_aggregate_ids (execution_ids sid d) d)))"
proof -
  let ?gone = "execution_ids sid d"
  have inj: "inj_on ex_id (set (db_executions d))"
    and rq: "map message_request (db_outbox d) = map request_of (db_executions d)"
    using assms by (simp_all add: db_ok_def distinct_map)
  have gone: "ex_id r \<in> set ?gone \<longleftrightarrow> ex_session_id r = sid" if "r \<in> set (db_executions d)" for r
    using that inj by (auto simp: execution_ids_def dest: inj_onD)
  have d1: "delete_by_aggregate_ids ?gone d
      = d\<lparr>db_outbox := filter (\<lambda>m. ob_aggregate_id m \<notin> set ?gone) (db_outbox d)\<rparr>"
    by (auto simp: delete_by_aggregate_ids_def)
  have "map message_request (filter (\<lambda>m. ob_aggregate_id m \<notin> set ?gone) (db_outbox d))
      = filter (\<lambda>k. fst k \<notin> set ?gone) (map message_request (db_outbox d))"
    by (simp add: filter_map o_def message_request_def)
  also have "\<dots> = map request_of (filter (\<lambda>r. ex_id r \<notin> set ?gone) (db_executions d))"
    by (simp add: rq filter_map o_def request_of_def)
  also have "filter (\<lambda>r. ex_id r \<notin> set ?gone) (db_executions d) = filter (\<lambda>r. ex_session_id r \<noteq> sid) (db_executions d)"
    using gone by (intro filter_cong) auto
  finally have rq': "map message_request (filter (\<lambda>m. ob_aggregate_id m \<notin> set ?gone) (db_outbox d))
      = map request_of (filter (\<lambda>r. ex_session_id r \<noteq> sid) (db_executions d))" .
  have ids: "execution_ids sid (delete_by_aggregate_ids ?gone d) = ?gone"
    by (subst d1) (simp add: execution_ids_def)
  have tr: "tr_execution_id ` set (filter (\<lambda>t. tr_execution_id t \<notin> set ?gone) (db_traces d))
      \<subseteq> ex_id ` set (filter (\<lambda>r. ex_session_id r \<noteq> sid) (db_executions d))"
  proof
    fix x assume "x \<in> tr_execution_id ` set (filter (\<lambda>t. tr_execution_id t \<notin> set ?gone) (db_traces d))"
    then have x: "x \<in> tr_execution_id ` set (db_traces d)" "x \<notin> set ?gone" by auto
    moreover have "tr_execution_id ` set (db_traces d) \<subseteq> ex_id ` set (db_executions d)"
      using assms by (simp add: db_ok_def)
    ultimately obtain r where "r \<in> set (db_executions d)" "x = ex_id r" by blast
    with gone x(2) show "x \<in> ex_id ` set (filter (\<lambda>r. ex_session_id r \<noteq> sid) (db_executions d))" by simp
  qed
  let ?d2 = "snd (session_delete sid (delete_by_aggregate_ids ?gone d))"
  have d2: "db_sessions ?d2 = filter (\<lambda>s. ss_id s \<noteq> sid) (db_sessions d)"
    "db_executions ?d2 = filter (\<lambda>r. ex_session_id r \<noteq> sid) (db_executions d)"
    "db_outbox ?d2 = filter (\<lambda>m. ob_aggregate_id m \<notin> set ?gone) (db_outbox d)"
    "db_traces ?d2 = filter (\<lambda>t. tr_execution_id t \<notin> set ?gone) (db_traces d)"
    "db_ids ?d2 = db_ids d" "drawn ?d2 = drawn d"
    unfolding session_delete_def Let_def ids snd_conv by (simp_all add: d1 drawn_def)
  have "ex_session_id ` set (filter (\<lambda>r. ex_session_id r \<noteq> sid) (db_executions d))
      \<subseteq> ss_id ` set (filter (\<lambda>s. ss_id s \<noteq> sid) (db_sessions d))"
  proof
    fix x assume "x \<in> ex_session_id ` set (filter (\<lambda>r. ex_session_id r \<noteq> sid) (db_executions d))"
    then have "x \<in> ex_session_id ` set (db_executions d)" "x \<noteq> sid" by auto
    moreover have "ex_session_id ` set (db_executions d) \<subseteq> ss_id ` set (db_sessions d)"
      using assms by (simp add: db_ok_def)
    ultimately show "x \<in> ss_id ` set (filter (\<lambda>s. ss_id s \<noteq> sid) (db_sessions d))" by auto
  qed
  note se = this
  have A: "inj (db_ids d)" "distinct (map ss_id (db_sessions d))" "ss_id ` set (db_sessions d) \<subseteq> drawn d"
    "distinct (map ex_id (db_executions d))" "ex_id ` set (db_executions d) \<subseteq> drawn d"
    "distinct (map ob_id (db_outbox d))" "ob_id ` set (db_outbox d) \<subseteq> drawn d"
    "ob_event_type ` set (db_outbox d) \<subseteq> {lit ''execution.requested''}"
    using assms by (simp_all add: db_ok_def)
  have sub: "f ` set (filter P xs) \<subseteq> Y" if "f ` set xs \<subseteq> Y" for f :: "'x \<Rightarrow> 'y" and P xs Y
    using that by auto
  show ?thesis
    unfolding db_ok_def d2
    by (intro conjI A(1) distinct_map_filter A(2) A(4) A(6) sub[OF A(3)] sub[OF A(5)] sub[OF A(7)] sub[OF A(8)]
        se tr rq')
qed

lemma start_session_ok:
  assumes "db_ok d"
  shows "db_ok (snd (start_session now question metadata d))"
proof (cases "rbind (validate_question question) (\<lambda>q.
    rbind (build_session_title q DEFAULT_SESSION_TITLE_MAX_LENGTH) (\<lambda>t. Inr (q, t)))")
  case (Inl e)
  with assms show ?thesis by (simp add: start_session_def)
next
  case (Inr qt)
  obtain q t where qt: "qt = (q, t)" by (cases qt)
  obtain s d1 where s: "session_create metadata (Some t) now d = (s, d1)" by force
  obtain r d2 where r: "execution_create (ss_id s) q now d1 = (r, d2)" by force
  obtain m d3 where m: "outbox_enqueue (lit ''execution.requested'') (ex_id r)
      (request_message (ex_id r) (ss_id s) q) now d2 = (m, d3)" by force
  have "db_ok d3" using accept_ok[OF session_create_ok[OF assms s] r m] .
  then show ?thesis using Inr by (simp add: start_session_def qt s r m)
qed

lemma create_execution_ok:
  assumes "db_ok d"
  shows "db_ok (snd (create_execution now sid question d))"
proof (cases "session_get d sid")
  case None
  with assms show ?thesis by (simp add: create_execution_def)
next
  case (Some s)
  then have sid: "sid \<in> ss_id ` set (db_sessions d)"
    by (auto simp: session_get_def find_Some_iff)
  obtain r d2 where r: "execution_create sid question now d = (r, d2)" by force
  obtain m d3 where m: "outbox_enqueue (lit ''execution.requested'') (ex_id r)
      (request_message (ex_id r) sid question) now d2 = (m, d3)" by force
  have "db_ok d3" using accept_ok[OF assms sid r m] .
  then show ?thesis
    using same_shape_ok[OF shape_on_session[of "touch now" d3 sid]] Some
    by (simp add: create_execution_def r m touch_def)
qed

lemma step_ok:
  assumes "system_step d d'" and "db_ok d"
  shows "db_ok d'"
  using assms(1)
proof (cases rule: system_step.cases)
  case (create_session rp now metadata)
  obtain s d1 where s: "session_create metadata
      (if truthy (dget metadata (lit ''title'')) then Some (py_strip (py_str rp (dget metadata (lit ''title'')))) else None)
      now d = (s, d1)" by force
  with session_create_ok(1)[OF assms(2) s] create_session show ?thesis
    by (simp add: create_session_def Let_def)
next
  case (start_session now question metadata)
  with start_session_ok[OF assms(2)] show ?thesis by simp
next
  case (update_session now i title)
  then show ?thesis
    using assms(2) same_shape_ok[OF shape_on_session[of "update_title now t" d i for t]]
    by (auto simp: update_session_def update_title_def split: sum.splits option.splits)
next
  case (delete_session i)
  with delete_ok[OF assms(2), of i] assms(2) show ?thesis
    by (auto simp: delete_session_def split: option.splits prod.splits)
next
  case (create_execution now i question)
  with create_execution_ok[OF assms(2)] show ?thesis by simp
next
  case (cancel_execution now i)
  then show ?thesis
    using assms(2) same_shape_ok[OF shape_on_execution[of "\<lambda>r. snd (request_cancel now r)" d i]]
    by (auto simp: cancel_execution_def split: option.splits)
next
  case (claim now locked rid n)
  with same_shape_ok[OF shape_claim] assms(2) show ?thesis by simp
next
  case (trace e sq now)
  then have "ev_execution_id e \<in> ex_id ` set (db_executions d)"
    by (auto simp: execution_get_def find_Some_iff) (metis image_eqI nth_mem)
  with assms(2) trace show ?thesis
    by (simp add: db_ok_def drawn_def trace_record_def trace_append_def)
qed (use assms(2) same_shape_ok[OF shape_on_execution] same_shape_ok[OF shape_on_message] in simp_all)

definition empty_db :: "(nat \<Rightarrow> pystr) \<Rightarrow> db" where
  "empty_db ids = \<lparr>db_sessions = [], db_executions = [], db_outbox = [], db_traces = [], db_ids = ids, db_next = 0\<rparr>"

text \<open>
  C5. Acceptance is atomic and lasting. In every state the store can reach through the routes and
  the runner's transactions, in any order, every execution belongs to an existing session and
  the outbox holds exactly one request per execution, in acceptance order, carrying the
  execution's own id, session and question; no trace and no message is left without its
  execution, also after conversations are deleted.
\<close>
theorem store_stays_consistent:
  assumes "system_step\<^sup>*\<^sup>* (empty_db ids) d" and "inj ids"
  shows "db_ok d"
  using assms(1)
proof induction
  case base
  show ?case using assms(2) by (simp add: db_ok_def empty_db_def)
next
  case (step y z)
  then show ?case using step_ok by blast
qed

definition ex_ids :: "nat \<Rightarrow> pystr" where
  "ex_ids n = replicate n 120"

lemma ex_ids_inj: "inj ex_ids"
  by (rule injI) (metis ex_ids_def length_replicate)

theorem store_stays_consistent_witness:
  "db_ok (snd (delete_session (lit ''nobody'') (snd (start_session 1 (lit ''hello'') [] (empty_db ex_ids)))))"
proof (rule store_stays_consistent[OF _ ex_ids_inj])
  show "system_step\<^sup>*\<^sup>* (empty_db ex_ids)
      (snd (delete_session (lit ''nobody'') (snd (start_session 1 (lit ''hello'') [] (empty_db ex_ids)))))"
    by (rule rtranclp.rtrancl_into_rtrancl, rule rtranclp.rtrancl_into_rtrancl, rule rtranclp.rtrancl_refl,
        rule system_step.start_session, rule system_step.delete_session)
qed

section \<open>Deleting a conversation\<close>

text \<open>
  A conversation is deleted whole or not at all. A request for a conversation with a pending,
  running or cancelling execution is refused with 409 and one for an unknown conversation with
  404, both without any change; otherwise nothing of it remains: no session, execution,
  trace or outbox message refers to it, and every other conversation's rows are kept.
\<close>
theorem delete_session_whole:
  assumes "delete_session sid d = (r, d')"
  shows "(r = Inr () \<longrightarrow>
            (\<forall>s \<in> set (db_sessions d'). ss_id s \<noteq> sid)
          \<and> (\<forall>x \<in> set (db_executions d'). ex_session_id x \<noteq> sid)
          \<and> (\<forall>x \<in> set (db_executions d). ex_session_id x = sid \<longrightarrow>
               ex_status x \<in> set TERMINAL_STATUSES
               \<and> (\<forall>m \<in> set (db_outbox d'). ob_aggregate_id m \<noteq> ex_id x)
               \<and> (\<forall>t \<in> set (db_traces d'). tr_execution_id t \<noteq> ex_id x))
          \<and> filter (\<lambda>x. ex_session_id x \<noteq> sid) (db_executions d) = db_executions d')
       \<and> (r \<noteq> Inr () \<longrightarrow> d' = d \<and> (\<exists>code msg. r = Inl (Exn (HTTPStatus code) msg) \<and> code \<in> {404, 409}))"
proof (cases "session_get d sid")
  case None
  with assms show ?thesis by (auto simp: delete_session_def not_found_def)
next
  case (Some s)
  show ?thesis
  proof (cases "has_active_executions sid d")
    case True
    with Some assms show ?thesis by (auto simp: delete_session_def)
  next
    case False
    let ?gone = "execution_ids sid d"
    have del: "db_sessions (delete_by_aggregate_ids ?gone d) = db_sessions d"
      "db_executions (delete_by_aggregate_ids ?gone d) = db_executions d"
      "db_traces (delete_by_aggregate_ids ?gone d) = db_traces d"
      "\<forall>m \<in> set (db_outbox (delete_by_aggregate_ids ?gone d)). ob_aggregate_id m \<notin> set ?gone"
      by (auto simp: delete_by_aggregate_ids_def)
    then have ids: "execution_ids sid (delete_by_aggregate_ids ?gone d) = ?gone"
      by (simp add: execution_ids_def)
    from False have act: "ex_status x \<in> set TERMINAL_STATUSES"
      if "x \<in> set (db_executions d)" "ex_session_id x = sid" for x
      using that by (auto simp: has_active_executions_def)
    have gone: "ex_id x \<in> set ?gone" if "x \<in> set (db_executions d)" "ex_session_id x = sid" for x
      using that by (auto simp: execution_ids_def)
    from Some False assms have "r = Inr ()"
      and d': "d' = snd (session_delete sid (delete_by_aggregate_ids ?gone d))"
      by (auto simp: delete_session_def split: prod.splits)
    moreover have "db_outbox d' = db_outbox (delete_by_aggregate_ids ?gone d)"
      and "db_sessions d' = filter (\<lambda>s. ss_id s \<noteq> sid) (db_sessions d)"
      and "db_executions d' = filter (\<lambda>x. ex_session_id x \<noteq> sid) (db_executions d)"
      and "db_traces d' = filter (\<lambda>t. tr_execution_id t \<notin> set ?gone) (db_traces d)"
      unfolding d' session_delete_def Let_def ids by (simp_all add: del)
    ultimately show ?thesis using act gone del(4) by auto
  qed
qed

theorem delete_session_whole_witness:
  "snd (delete_session (ex_ids 0) (snd (create_session (\<lambda>_. []) 1 [] (empty_db ex_ids))))
     = (snd (create_session (\<lambda>_. []) 1 [] (empty_db ex_ids)))\<lparr>db_sessions := []\<rparr>
   \<and> ex_ids 0 \<notin> ss_id ` set (db_sessions (snd (delete_session (ex_ids 0)
          (snd (create_session (\<lambda>_. []) 1 [] (empty_db ex_ids))))))"
proof -
  obtain r d' where d: "delete_session (ex_ids 0) (snd (create_session (\<lambda>_. []) 1 [] (empty_db ex_ids))) = (r, d')"
    by force
  then have "r = Inr ()" and "d' = (snd (create_session (\<lambda>_. []) 1 [] (empty_db ex_ids)))\<lparr>db_sessions := []\<rparr>"
    by (auto simp: delete_session_def create_session_def session_create_def empty_db_def session_get_def
        has_active_executions_def session_delete_def execution_ids_def delete_by_aggregate_ids_def Let_def
        new_id_def dict_simps)
  with delete_session_whole[OF d] d show ?thesis by auto
qed

section \<open>Titles\<close>

lemma hd_prefix: "prefix p t \<Longrightarrow> p \<noteq> [] \<Longrightarrow> hd p = hd t"
  by (auto simp: prefix_def)

lemma normalize_spaces_alt: "normalize_spaces s = py_join (lit '' '') (py_split s)"
proof -
  have w: "w \<noteq> [] \<and> (\<forall>c \<in> set w. \<not> is_space c)" if "w \<in> set (py_split s)" for w
    using py_split_words[OF that] .
  have "py_join (lit '' '') (py_split s) = [] \<or> (\<not> is_space (hd (py_join (lit '' '') (py_split s)))
      \<and> \<not> is_space (last (py_join (lit '' '') (py_split s))))"
  proof (cases "py_split s = []")
    case False
    then have m: "hd (py_split s) \<in> set (py_split s)" "last (py_split s) \<in> set (py_split s)" by auto
    have "\<not> is_space (hd (hd (py_split s)))" "\<not> is_space (last (last (py_split s)))"
      using w[OF m(1)] w[OF m(2)] by simp_all
    with w m show ?thesis
      using hd_py_join[OF False, of "lit '' ''"] last_py_join[OF False, of "lit '' ''"] by auto
  qed simp
  then show ?thesis unfolding normalize_spaces_def by (rule py_strip_fix)
qed

text \<open>
  The title of a conversation is a faithful, bounded label of its first question: it is never
  empty and never longer than the limit, it starts with a visible character, and it is either
  the words of the question joined by single spaces, or a front part of them followed by an
  ellipsis; only a blank question or a limit under four is refused.
\<close>
theorem session_title_faithful:
  "(case build_session_title q n of
      Inr t \<Rightarrow> t \<noteq> [] \<and> length t \<le> n \<and> \<not> is_space (hd t)
        \<and> (t = py_join (lit '' '') (py_split q)
           \<or> (\<exists>p. t = p @ lit ''...'' \<and> prefix p (py_join (lit '' '') (py_split q)) \<and> p \<noteq> [] \<and> \<not> is_space (last p)))
    | Inl e \<Rightarrow> exn_kind e = ValueError \<and> (n < 4 \<or> py_split q = []))"
proof -
  let ?s = "py_join (lit '' '') (py_split q)"
  have w: "w \<noteq> [] \<and> (\<forall>c \<in> set w. \<not> is_space c)" if "w \<in> set (py_split q)" for w
    using py_split_words[OF that] .
  have ne: "?s = [] \<longleftrightarrow> py_split q = []" by (rule py_join_eq_Nil) (use w in blast)
  have hd: "\<not> is_space (hd ?s)" if "py_split q \<noteq> []"
  proof -
    have h: "hd (py_split q) \<in> set (py_split q)" using that by simp
    with w[OF h] hd_py_join[OF that, of "lit '' ''"] show ?thesis by simp
  qed
  show ?thesis
  proof (cases "n < 4 \<or> ?s = [] \<or> length ?s \<le> n")
    case True
    with ne hd show ?thesis by (auto simp: build_session_title_def Let_def normalize_spaces_alt)
  next
    case False
    let ?p = "py_rstrip (take (n - 3) ?s)"
    have pre: "prefix ?p (take (n - 3) ?s)" by (simp add: py_rstrip_def strip_end_prefix)
    have tk: "take (n - 3) ?s \<noteq> []" "hd (take (n - 3) ?s) = hd ?s" using False by auto
    have "?p \<noteq> []"
    proof
      assume "?p = []"
      then have "dropWhile is_space (rev (take (n - 3) ?s)) = []" by (simp add: py_rstrip_def strip_end_def)
      then have "\<forall>c \<in> set (take (n - 3) ?s). is_space c" by (simp add: dropWhile_eq_Nil_conv)
      moreover have "hd ?s \<in> set (take (n - 3) ?s)" using tk by (metis hd_in_set)
      ultimately show False using hd ne False by blast
    qed
    moreover have "hd ?p = hd ?s" using hd_prefix[OF pre \<open>?p \<noteq> []\<close>] tk by simp
    moreover have "length ?p \<le> n - 3" using pre by (metis length_take min.cobounded2 min.boundedE prefix_length_le)
    moreover have "prefix ?p ?s" using pre by (meson prefix_order.trans take_is_prefix)
    moreover have "\<not> is_space (last ?p)" using \<open>?p \<noteq> []\<close> strip_end_last by (simp add: py_rstrip_def)
    ultimately show ?thesis
      using False hd ne by (auto simp: build_session_title_def Let_def normalize_spaces_alt)
  qed
qed

end
