(* ===== verification/Runner.thy ===== *)
theory Runner
  imports Store
begin

text \<open>
  The runner: claiming outbox messages and driving one execution per message
  (\<open>consumers/execution.py\<close>), the worker loop (\<open>runtime/worker.py\<close>) and the factory that stands in
  when no agent can be composed (\<open>runtime/unavailable.py\<close>). Every database transaction is one atomic
  step of the world; before it, the other processes may have committed anything (\<open>rw_others\<close>), and it
  may find the store down (\<open>rw_fail\<close>). How the agent's run ends is an oracle of the model
  (\<open>run_oracle\<close>): the runtime itself is modelled in its own theories.
\<close>

section \<open>The world of a runner\<close>

record runner_world =
  rw_db :: db
  rw_emitted :: "(pystr \<times> event_type \<times> pdict) list"
  rw_health :: "py_exn list"
  rw_tick :: nat
  rw_now :: "nat \<Rightarrow> rat"
  rw_others :: "nat \<Rightarrow> db \<Rightarrow> db"
  rw_fail :: "nat \<Rightarrow> py_exn option"
  rw_sink_fail :: "nat \<Rightarrow> py_exn option"
  rw_health_fail :: "nat \<Rightarrow> py_exn option"

text \<open>\<open>async with session_factory() as db: ...; await db.commit()\<close> as one atomic step.\<close>

definition transaction :: "(rat \<Rightarrow> db \<Rightarrow> 'a \<times> db) \<Rightarrow> (runner_world, 'a) act" where
  "transaction f w =
     (let t = rw_tick w; d = rw_others w t (rw_db w); w1 = w\<lparr>rw_tick := t + 1, rw_db := d\<rparr>
      in (case rw_fail w t of
            Some e \<Rightarrow> (Inl e, w1)
          | None \<Rightarrow> (case f (rw_now w t) d of (a, d') \<Rightarrow> (Inr a, w1\<lparr>rw_db := d'\<rparr>))))"

record runner_conf =
  rc_runner_id :: pystr
  rc_batch_size :: nat
  rc_max_attempts :: int
  rc_cancellation_poll_seconds :: rat
  rc_retry_policy :: retry_policy
  rc_has_sink :: bool

definition new_consumer ::
  "pystr \<Rightarrow> nat \<Rightarrow> int \<Rightarrow> rat \<Rightarrow> retry_policy \<Rightarrow> bool \<Rightarrow> runner_conf res" where
  "new_consumer runner_id batch_size max_attempts cancellation_poll_seconds policy has_sink =
     (if max_attempts < 1 then Inl (Exn ValueError (lit ''max_attempts must be greater than zero''))
      else if cancellation_poll_seconds \<le> 0
      then Inl (Exn ValueError (lit ''cancellation_poll_seconds must be greater than zero''))
      else Inr \<lparr>rc_runner_id = runner_id, rc_batch_size = batch_size, rc_max_attempts = max_attempts,
                rc_cancellation_poll_seconds = cancellation_poll_seconds, rc_retry_policy = policy,
                rc_has_sink = has_sink\<rparr>)"

text \<open>
  How the run of one execution goes: whether the runtime can be created, how many times the
  cancellation watch polls before the runtime is done, and the outcome when it is left alone and
  when it is cancelled.
\<close>

type_synonym run_result = "pystr \<times> pdict option"

record run_oracle =
  ro_create :: "unit res"
  ro_polls :: nat
  ro_result :: "run_result res"
  ro_on_cancel :: "run_result res"

definition unavailable_runtime :: "pystr \<Rightarrow> unit res" where
  "unavailable_runtime error = Inl (Exn AgentUnavailableError error)"

section \<open>Reporting\<close>

definition class_name :: "exn_class \<Rightarrow> pystr" where
  "class_name c =
     (case c of
        ValueError \<Rightarrow> lit ''ValueError'' | KeyError \<Rightarrow> lit ''KeyError'' | RuntimeError \<Rightarrow> lit ''RuntimeError''
      | TypeError \<Rightarrow> lit ''TypeError'' | FileNotFoundError \<Rightarrow> lit ''FileNotFoundError''
      | TimeoutError \<Rightarrow> lit ''TimeoutError'' | UnsafeQueryError \<Rightarrow> lit ''UnsafeQueryError''
      | QueryTimeoutError \<Rightarrow> lit ''QueryTimeoutError'' | GapError \<Rightarrow> lit ''ExecutionObservationGapError''
      | ProviderError _ \<Rightarrow> lit ''LLMProviderError'' | SQLAlchemyError \<Rightarrow> lit ''SQLAlchemyError''
      | AgentUnavailableError \<Rightarrow> lit ''AgentUnavailableError''
      | GraphRecursionError \<Rightarrow> lit ''GraphRecursionError'' | CancelledError \<Rightarrow> lit ''CancelledError''
      | HTTPStatus _ \<Rightarrow> lit ''HTTPException'' | OtherError n \<Rightarrow> n)"

text \<open>\<open>str(exc) or exc.__class__.__name__\<close>.\<close>

definition error_text :: "repr \<Rightarrow> py_exn \<Rightarrow> pystr" where
  "error_text rp e = (if exn_str rp e \<noteq> [] then exn_str rp e else class_name (exn_kind e))"

definition public_execution_error :: "repr \<Rightarrow> py_exn \<Rightarrow> pystr" where
  "public_execution_error rp e =
     (if exn_kind e = SQLAlchemyError
      then lit ''Falha interna de persist'' @ [234] @ lit ''ncia durante a execu'' @ [231, 227] @ lit ''o.''
      else error_text rp e)"

text \<open>A lifecycle event is published best effort: any exception but a cancellation is logged only.\<close>

definition emit_lifecycle :: "runner_conf \<Rightarrow> pystr \<Rightarrow> event_type \<Rightarrow> pdict \<Rightarrow> (runner_world, unit) act" where
  "emit_lifecycle c execution_id t payload w =
     (if \<not> rc_has_sink c then (Inr (), w)
      else (case rw_sink_fail w (rw_tick w) of
              Some e \<Rightarrow> if exn_kind e = CancelledError then (Inl e, w) else (Inr (), w)
            | None \<Rightarrow> (Inr (), w\<lparr>rw_emitted := rw_emitted w @ [(execution_id, t, payload)]\<rparr>)))"

definition mark_unavailable :: "py_exn \<Rightarrow> (runner_world, unit) act" where
  "mark_unavailable e w =
     (case rw_health_fail w (rw_tick w) of
        Some x \<Rightarrow> (Inl x, w)
      | None \<Rightarrow> (Inr (), w\<lparr>rw_health := rw_health w @ [e]\<rparr>))"

section \<open>The transactions that settle a message\<close>

definition settle_message :: "pystr \<Rightarrow> (outbox_row \<Rightarrow> outbox_row) \<Rightarrow> db \<Rightarrow> db" where
  "settle_message message_id f d =
     (case outbox_get d message_id of None \<Rightarrow> d | Some _ \<Rightarrow> on_message message_id f d)"

definition update_execution :: "pystr \<Rightarrow> (execution_row \<Rightarrow> execution_row) \<Rightarrow> db \<Rightarrow> db" where
  "update_execution execution_id f d =
     (case execution_get d execution_id of None \<Rightarrow> d | Some _ \<Rightarrow> on_execution execution_id f d)"

definition user_cancelled :: pdict where
  "user_cancelled = [(lit ''reason'', PStr (lit ''user_requested''))]"

definition mark_cancelled_tx :: "runner_conf \<Rightarrow> pystr \<Rightarrow> pystr \<Rightarrow> (runner_world, unit) act" where
  "mark_cancelled_tx c execution_id message_id =
     mbind (transaction (\<lambda>now d. ((),
       settle_message message_id (message_processed now)
         (update_execution execution_id (mark_cancelled now None) d)))) (\<lambda>_.
       emit_lifecycle c execution_id EXECUTION_CANCELLED user_cancelled)"

definition mark_terminal_failure ::
  "runner_conf \<Rightarrow> pystr \<Rightarrow> pystr \<Rightarrow> pystr \<Rightarrow> pystr \<Rightarrow> (runner_world, unit) act" where
  "mark_terminal_failure c execution_id message_id error internal_error =
     mbind (transaction (\<lambda>now d. ((),
       settle_message message_id
         (message_failed now (if internal_error \<noteq> [] then internal_error else error))
         (update_execution execution_id (mark_failed now error) d)))) (\<lambda>_.
       emit_lifecycle c execution_id EXECUTION_FAILED [(lit ''error'', PStr error)])"

definition mark_processed_tx :: "pystr \<Rightarrow> (runner_world, unit) act" where
  "mark_processed_tx message_id =
     transaction (\<lambda>now d. ((), settle_message message_id (message_processed now) d))"

definition is_cancel_requested :: "pystr \<Rightarrow> (runner_world, bool) act" where
  "is_cancel_requested execution_id =
     transaction (\<lambda>now d.
       ((case execution_get d execution_id of
           None \<Rightarrow> False
         | Some r \<Rightarrow> ex_status r \<in> {ES_CANCEL_REQUESTED, ES_CANCELLED}), d))"

section \<open>Running one execution\<close>

text \<open>\<open>_wait_for_cancellation\<close>: \<open>None\<close> when the runtime finished before the watch had an answer.\<close>

fun wait_for_cancellation :: "nat \<Rightarrow> pystr \<Rightarrow> (runner_world, bool option) act" where
  "wait_for_cancellation 0 execution_id = mret None"
| "wait_for_cancellation (Suc n) execution_id =
     mbind (transaction (\<lambda>now d. (execution_get d execution_id, d))) (\<lambda>found.
       (case found of
          None \<Rightarrow> mret (Some False)
        | Some r \<Rightarrow>
            if ex_status r \<in> {ES_CANCEL_REQUESTED, ES_CANCELLED} then mret (Some True)
            else if ex_status r \<in> {ES_COMPLETED, ES_FAILED} then mret (Some False)
            else wait_for_cancellation n execution_id))"

text \<open>
  The body of the \<open>try\<close>: \<open>None\<close> when the run was cancelled and the message settled. A cancelled task that
  ends by raising its own cancellation is suppressed.
\<close>

definition run_execution :: "runner_conf \<Rightarrow> run_oracle \<Rightarrow> pystr \<Rightarrow> pystr \<Rightarrow> (runner_world, run_result option) act" where
  "run_execution c ro execution_id message_id =
     mbind (mlift (ro_create ro)) (\<lambda>_.
     mbind (wait_for_cancellation (ro_polls ro) execution_id) (\<lambda>watch.
       if watch = Some True then
         mbind (case ro_on_cancel ro of
                  Inl e \<Rightarrow> if exn_kind e = CancelledError then mret () else mraise e
                | Inr _ \<Rightarrow> mret ()) (\<lambda>_.
         mbind (mark_cancelled_tx c execution_id message_id) (\<lambda>_. mret None))
       else mbind (mlift (ro_result ro)) (\<lambda>result. mret (Some result))))"

definition on_run_error :: "repr \<Rightarrow> runner_conf \<Rightarrow> pystr \<Rightarrow> pystr \<Rightarrow> py_exn \<Rightarrow> (runner_world, run_result option) act" where
  "on_run_error rp c execution_id message_id e =
     (if exn_kind e = CancelledError then
        mbind (mark_cancelled_tx c execution_id message_id) (\<lambda>_. mret None)
      else
        mbind (is_cancel_requested execution_id) (\<lambda>requested.
          if requested then mbind (mark_cancelled_tx c execution_id message_id) (\<lambda>_. mret None)
          else
            mbind (mwhen (exn_kind e = ProviderError False) (mark_unavailable e)) (\<lambda>_.
            mbind (mark_terminal_failure c execution_id message_id (public_execution_error rp e)
                     (error_text rp e)) (\<lambda>_. mret None))))"

definition result_payload :: "run_result \<Rightarrow> pdict" where
  "result_payload r = [(lit ''answer'', PStr (fst r)),
     (lit ''result'', case snd r of None \<Rightarrow> PNone | Some d \<Rightarrow> PDict d)]"

definition finish_run :: "runner_conf \<Rightarrow> pystr \<Rightarrow> pystr \<Rightarrow> run_result \<Rightarrow> (runner_world, unit) act" where
  "finish_run c execution_id message_id r =
     mbind (transaction (\<lambda>now d.
       (case execution_get d execution_id of
          None \<Rightarrow> ((EXECUTION_COMPLETED, result_payload r), settle_message message_id (message_processed now) d)
        | Some x \<Rightarrow>
            if ex_status x = ES_CANCEL_REQUESTED then
              ((EXECUTION_CANCELLED,
                [(lit ''reason'', PStr (lit ''user_requested'')), (lit ''partial_answer'', PStr (fst r))]),
               settle_message message_id (message_processed now)
                 (on_execution execution_id (mark_cancelled now (Some (fst r))) d))
            else
              ((EXECUTION_COMPLETED, result_payload r),
               settle_message message_id (message_processed now)
                 (on_execution execution_id (mark_completed now (fst r) (snd r)) d))))) (\<lambda>(t, payload).
       emit_lifecycle c execution_id t payload)"

text \<open>What the first transaction of a message found.\<close>

datatype start_state = Missing | AlreadyCancelled | Opened

definition open_execution :: "runner_conf \<Rightarrow> outbox_row \<Rightarrow> pystr \<Rightarrow> (runner_world, start_state) act" where
  "open_execution c message execution_id =
     transaction (\<lambda>now d.
       (case execution_get d execution_id of
          None \<Rightarrow>
            (Missing,
             settle_message (ob_id message)
               (if rc_max_attempts c \<le> ob_attempts message
                then message_failed now (lit ''Execution not found'')
                else release_with_error now (lit ''Execution not found'')
                       (retry_delay (rc_retry_policy c) (ob_attempts message))) d)
        | Some x \<Rightarrow>
            if ex_status x = ES_CANCEL_REQUESTED then
              (AlreadyCancelled,
               settle_message (ob_id message) (message_processed now)
                 (on_execution execution_id (mark_cancelled now None) d))
            else (Opened, on_execution execution_id (mark_running now) d)))"

definition require_field :: "pdict \<Rightarrow> string \<Rightarrow> pyval res" where
  "require_field d k = (case map_of d (lit k) of None \<Rightarrow> Inl (Exn KeyError (lit k)) | Some v \<Rightarrow> Inr v)"

definition handle_message :: "repr \<Rightarrow> runner_conf \<Rightarrow> run_oracle \<Rightarrow> outbox_row \<Rightarrow> (runner_world, unit) act" where
  "handle_message rp c ro message =
     (if ob_event_type message \<noteq> lit ''execution.requested'' then mark_processed_tx (ob_id message)
      else
        mbind (mlift (require_field (ob_payload message) ''execution_id'')) (\<lambda>e.
        mbind (mlift (require_field (ob_payload message) ''session_id'')) (\<lambda>s.
        mbind (mlift (require_field (ob_payload message) ''question'')) (\<lambda>q.
        let execution_id = py_str rp e in
        mbind (open_execution c message execution_id) (\<lambda>found.
          (case found of
             Missing \<Rightarrow> mret ()
           | AlreadyCancelled \<Rightarrow> emit_lifecycle c execution_id EXECUTION_CANCELLED user_cancelled
           | Opened \<Rightarrow>
               mbind (emit_lifecycle c execution_id EXECUTION_STARTED
                        [(lit ''session_id'', PStr (py_str rp s))]) (\<lambda>_.
               mbind (mtry (run_execution c ro execution_id (ob_id message))
                        (on_run_error rp c execution_id (ob_id message))) (\<lambda>outcome.
                 (case outcome of
                    None \<Rightarrow> mret ()
                  | Some r \<Rightarrow> finish_run c execution_id (ob_id message) r)))))))))"

definition consume_once ::
  "repr \<Rightarrow> runner_conf \<Rightarrow> (outbox_row \<Rightarrow> run_oracle) \<Rightarrow> (runner_world, nat) act" where
  "consume_once rp c oracle =
     mbind (transaction (\<lambda>now. claim_batch now {} (rc_runner_id c) (rc_batch_size c))) (\<lambda>messages.
     mbind (mfor messages (\<lambda>m. handle_message rp c (oracle m) m)) (\<lambda>_.
       mret (length messages)))"

text \<open>The worker loop; \<open>shutdown n\<close> tells whether a stop was requested before its n-th round.\<close>

fun worker_run ::
  "nat \<Rightarrow> repr \<Rightarrow> runner_conf \<Rightarrow> (outbox_row \<Rightarrow> run_oracle) \<Rightarrow> (nat \<Rightarrow> bool) \<Rightarrow> (runner_world, unit) act" where
  "worker_run 0 rp c oracle shutdown = mret ()"
| "worker_run (Suc n) rp c oracle shutdown =
     (if shutdown 0 then mret ()
      else mbind (consume_once rp c oracle) (\<lambda>_. worker_run n rp c oracle (\<lambda>k. shutdown (Suc k))))"

end
