(* ===== verification/Runner_Props.thy ===== *)
theory Runner_Props
  imports Runner Api_Props
begin

text \<open>
  What a runner guarantees for one claimed message while the API and other runners keep working on
  the store between any two of its transactions: the message is settled, the execution reaches a
  terminal status, and the lifecycle event it announces is the one the store records. One race
  escapes this, and a theorem exhibits it.
\<close>

section \<open>Interference from the API\<close>

text \<open>What other processes do to the store meanwhile: any route, and claims of other messages.\<close>

inductive api_step :: "db \<Rightarrow> db \<Rightarrow> bool" where
  api_create_session: "api_step d (snd (create_session rp now metadata d))"
| api_start_session: "api_step d (snd (start_session now question metadata d))"
| api_update_session: "api_step d (snd (update_session now i title d))"
| api_delete_session: "api_step d (snd (delete_session i d))"
| api_create_execution: "api_step d (snd (create_execution now i question d))"
| api_cancel_execution: "api_step d (snd (cancel_execution now i d))"
| api_claim: "api_step d (snd (claim_batch now locked rid n d))"

lemma api_step_system: "api_step d d' \<Longrightarrow> system_step d d'"
  by (induction rule: api_step.induct) (rule system_step.intros)+

definition open_status :: "execution_status \<Rightarrow> bool" where
  "open_status s \<longleftrightarrow> s \<notin> set TERMINAL_STATUSES"

text \<open>
  An execution whose status satisfies \<open>P\<close>, with its message in the outbox in a status satisfying \<open>Q\<close>;
  \<open>db_live\<close> is the open execution a runner may work on.
\<close>

definition kept ::
  "(execution_status \<Rightarrow> bool) \<Rightarrow> (outbox_status \<Rightarrow> bool) \<Rightarrow> pystr \<Rightarrow> pystr \<Rightarrow> db \<Rightarrow> bool" where
  "kept P Q e m d \<longleftrightarrow> db_ok d
     \<and> (\<exists>x \<in> set (db_executions d). ex_id x = e \<and> P (ex_status x))
     \<and> (\<exists>y \<in> set (db_outbox d). ob_id y = m \<and> ob_aggregate_id y = e \<and> Q (ob_status y))"

definition db_live :: "pystr \<Rightarrow> pystr \<Rightarrow> db \<Rightarrow> bool" where
  "db_live = kept open_status (\<lambda>_. True)"

text \<open>The predicates that neither a cancellation request nor a claim can break.\<close>

definition lasting :: "(execution_status \<Rightarrow> bool) \<Rightarrow> (outbox_status \<Rightarrow> bool) \<Rightarrow> bool" where
  "lasting P Q \<longleftrightarrow> (\<forall>s. P s \<longrightarrow> open_status s) \<and> P ES_CANCEL_REQUESTED \<and> (Q OB_PENDING \<longrightarrow> Q OB_PROCESSING)"

lemma lasting_live: "lasting open_status (\<lambda>_. True)"
  by (simp add: lasting_def open_status_def TERMINAL_STATUSES_def)

lemma kept_mono:
  assumes "kept P Q e m d" and "db_ok d'" and "set (db_executions d) \<subseteq> set (db_executions d')"
    and "set (db_outbox d) \<subseteq> set (db_outbox d')"
  shows "kept P Q e m d'"
  using assms by (auto simp: kept_def)

lemma claimed_pending:
  assumes "db_ok d" and "claim_batch now locked rid n d = (ms, d')" and "y \<in> set (db_outbox d)"
    and "ob_id y \<in> ob_id ` set ms"
  shows "ob_status y = OB_PENDING"
proof -
  from assms(4) obtain r where r: "r \<in> set (db_outbox d)" "ob_status r = OB_PENDING" "ob_id r = ob_id y"
    using claim_batch_rows(1)[OF assms(2)] set_take_sort[of n ob_created_at "claimable now locked" "db_outbox d"]
    by (fastforce simp: claim_row_def claimable_def)
  have "inj_on ob_id (set (db_outbox d))" using assms(1) by (simp add: db_ok_def distinct_map)
  with r assms(3) show ?thesis by (metis inj_onD)
qed

lemma kept_api:
  assumes "api_step d d'" and "kept P Q e m d" and las: "lasting P Q"
  shows "kept P Q e m d'"
proof -
  have ok0: "db_ok d" and ok: "db_ok d'" using assms step_ok api_step_system by (auto simp: kept_def)
  note mono = kept_mono[OF assms(2) ok]
  from assms(2) obtain x y where x: "x \<in> set (db_executions d)" "ex_id x = e" "P (ex_status x)"
    and y: "y \<in> set (db_outbox d)" "ob_id y = m" "ob_aggregate_id y = e" "Q (ob_status y)"
    by (auto simp: kept_def)
  have xo: "open_status (ex_status x)" using x(3) las by (simp add: lasting_def)
  show ?thesis
    using assms(1)
  proof (cases rule: api_step.cases)
    case (api_delete_session i)
    show ?thesis
    proof (cases "session_get d i = None \<or> has_active_executions i d")
      case True
      with api_delete_session assms(2) show ?thesis by (auto simp: delete_session_def split: option.splits)
    next
      case False
      with x xo have s: "ex_session_id x \<noteq> i"
        by (auto simp: has_active_executions_def open_status_def)
      have inj: "inj_on ex_id (set (db_executions d))"
        using ok0 by (simp add: db_ok_def distinct_map)
      have "e \<notin> set (execution_ids i d)"
        using s x inj by (auto simp: execution_ids_def dest: inj_onD)
      with y have "y \<in> set (db_outbox (delete_by_aggregate_ids (execution_ids i d) d))"
        by (simp add: delete_by_aggregate_ids_def)
      moreover have "x \<in> set (db_executions d')" "db_outbox d' = db_outbox (delete_by_aggregate_ids (execution_ids i d) d)"
        using False api_delete_session s x(1)
        by (auto simp: delete_session_def session_delete_def Let_def delete_by_aggregate_ids_def split: option.splits)
      ultimately show ?thesis using ok x y by (auto simp: kept_def)
    qed
  next
    case (api_cancel_execution now i)
    let ?f = "\<lambda>r. snd (request_cancel now r)"
    show ?thesis
    proof (cases "execution_get d i")
      case None
      with api_cancel_execution assms(2) show ?thesis by (simp add: cancel_execution_def)
    next
      case (Some r)
      then have d': "d' = on_execution i ?f d" using api_cancel_execution by (simp add: cancel_execution_def)
      let ?x = "if ex_id x = i then ?f x else x"
      have "?x \<in> set (db_executions d')" using x(1) by (auto simp: d' on_execution_def)
      moreover have "ex_id ?x = e" "P (ex_status ?x)"
        using x las by (auto simp: request_cancel_def lasting_def)
      moreover have "y \<in> set (db_outbox d')" using y by (simp add: d' on_execution_def)
      ultimately show ?thesis using ok y(2-) unfolding kept_def by blast
    qed
  next
    case (api_claim now locked rid n)
    have "db_executions d' = db_executions d"
      using api_claim by (simp add: claim_batch_def Let_def)
    moreover have "\<exists>z \<in> set (db_outbox d'). ob_id z = m \<and> ob_aggregate_id z = e \<and> Q (ob_status z)"
    proof -
      obtain ms where c: "claim_batch now locked rid n d = (ms, d')" using api_claim by (metis prod.collapse)
      from claim_batch_rows(2)[OF c] have d': "db_outbox d'
          = map (\<lambda>m. if ob_id m \<in> ob_id ` set ms then claim_row now rid m else m) (db_outbox d)" .
      let ?z = "if ob_id y \<in> ob_id ` set ms then claim_row now rid y else y"
      have "?z \<in> set (db_outbox d')" unfolding d' using y(1) by auto
      moreover have "ob_id ?z = m" "ob_aggregate_id ?z = e" using y by (auto simp: claim_row_def)
      moreover have "Q (ob_status ?z)"
        using claimed_pending[OF ok0 c y(1)] y(4) las by (auto simp: claim_row_def lasting_def)
      ultimately show ?thesis by blast
    qed
    ultimately show ?thesis using ok x unfolding kept_def by auto
  qed (rule mono; auto simp: create_session_def start_session_def update_session_def create_execution_def
      session_create_def execution_create_def outbox_enqueue_def on_session_def Let_def
      split: sum.splits option.splits prod.splits)+
qed

lemma kept_apis: "api_step\<^sup>*\<^sup>* d d' \<Longrightarrow> kept P Q e m d \<Longrightarrow> lasting P Q \<Longrightarrow> kept P Q e m d'"
  by (induction rule: rtranclp_induct) (auto intro: kept_api)

lemma db_live_def': "db_live e m d \<longleftrightarrow> db_ok d
     \<and> (\<exists>x \<in> set (db_executions d). ex_id x = e \<and> open_status (ex_status x))
     \<and> (\<exists>y \<in> set (db_outbox d). ob_id y = m \<and> ob_aggregate_id y = e)"
  by (simp add: db_live_def kept_def)

lemma db_live_apis: "api_step\<^sup>*\<^sup>* d d' \<Longrightarrow> db_live e m d \<Longrightarrow> db_live e m d'"
  unfolding db_live_def by (rule kept_apis[OF _ _ lasting_live])

section \<open>A runner at work\<close>

text \<open>The store, the sink and the health store answer; the others only use the API and claim.\<close>

definition calm :: "runner_world \<Rightarrow> bool" where
  "calm w \<longleftrightarrow> rw_fail w = (\<lambda>_. None) \<and> rw_sink_fail w = (\<lambda>_. None) \<and> rw_health_fail w = (\<lambda>_. None)
     \<and> (\<forall>t d. api_step\<^sup>*\<^sup>* d (rw_others w t d))"

definition live :: "pystr \<Rightarrow> pystr \<Rightarrow> runner_world \<Rightarrow> bool" where
  "live e m w \<longleftrightarrow> calm w \<and> db_live e m (rw_db w)"

lemma tx_live:
  assumes "live e m w"
  shows "\<exists>d. db_live e m d \<and> transaction f w
           = (Inr (fst (f (rw_now w (rw_tick w)) d)),
              w\<lparr>rw_tick := rw_tick w + 1, rw_db := snd (f (rw_now w (rw_tick w)) d)\<rparr>)"
proof -
  let ?d = "rw_others w (rw_tick w) (rw_db w)"
  have "api_step\<^sup>*\<^sup>* (rw_db w) ?d" "db_live e m (rw_db w)" using assms by (simp_all add: live_def calm_def)
  then have "db_live e m ?d" by (rule db_live_apis)
  moreover have "rw_fail w (rw_tick w) = None" using assms by (simp add: live_def calm_def)
  ultimately show ?thesis by (intro exI[of _ ?d]) (simp add: transaction_def Let_def split: prod.splits)
qed

lemma calm_step: "calm w \<Longrightarrow> calm (w\<lparr>rw_tick := n, rw_db := d\<rparr>)"
  "calm w \<Longrightarrow> calm (w\<lparr>rw_emitted := ev\<rparr>)" "calm w \<Longrightarrow> calm (w\<lparr>rw_health := h\<rparr>)"
  by (simp_all add: calm_def)

text \<open>The only execution row with the key, and what the entity methods make of it.\<close>

definition the_row :: "pystr \<Rightarrow> (execution_row \<Rightarrow> bool) \<Rightarrow> db \<Rightarrow> bool" where
  "the_row e P d \<longleftrightarrow> (\<exists>x. execution_get d e = Some x \<and> P x)"

definition the_message :: "pystr \<Rightarrow> (outbox_row \<Rightarrow> bool) \<Rightarrow> db \<Rightarrow> bool" where
  "the_message m P d \<longleftrightarrow> (\<exists>y. outbox_get d m = Some y \<and> P y)"

lemma find_map_key:
  assumes "\<And>x. k (f x) = k x"
  shows "find (\<lambda>x. k x = i) (map (\<lambda>x. if k x = i then f x else x) xs) = map_option f (find (\<lambda>x. k x = i) xs)"
  using assms by (induction xs) auto

lemma the_row_update:
  assumes "\<And>x. ex_id (f x) = ex_id x"
  shows "the_row e P (on_execution e f d) \<longleftrightarrow> the_row e (\<lambda>x. P (f x)) d"
  using find_map_key[of ex_id f e "db_executions d", OF assms]
  by (auto simp: the_row_def execution_get_def on_execution_def)

lemma the_message_update:
  assumes "\<And>x. ob_id (f x) = ob_id x"
  shows "the_message m P (on_message m f d) \<longleftrightarrow> the_message m (\<lambda>x. P (f x)) d"
  using find_map_key[of ob_id f m "db_outbox d", OF assms]
  by (auto simp: the_message_def outbox_get_def on_message_def)

lemma the_row_message [simp]: "the_row e P (on_message m f d) = the_row e P d"
  and the_message_row [simp]: "the_message m Q (on_execution e g d) = the_message m Q d"
  by (simp_all add: the_row_def the_message_def execution_get_def outbox_get_def on_message_def on_execution_def)

lemma find_key: "x \<in> set xs \<Longrightarrow> distinct (map k xs) \<Longrightarrow> find (\<lambda>y. k y = k x) xs = Some x"
  by (induction xs) (auto simp: image_iff)

lemma live_row: "db_live e m d \<Longrightarrow> the_row e (\<lambda>x. open_status (ex_status x)) d"
  by (auto simp: db_live_def' db_ok_def the_row_def execution_get_def find_key)

lemma live_message: "db_live e m d \<Longrightarrow> the_message m (\<lambda>y. True) d"
  by (auto simp: db_live_def' db_ok_def the_message_def outbox_get_def find_key)

lemma update_execution_live: "the_row e P d \<Longrightarrow> update_execution e f d = on_execution e f d"
  by (auto simp: update_execution_def the_row_def)

lemma settle_message_live: "the_message m P d \<Longrightarrow> settle_message m f d = on_message m f d"
  by (auto simp: settle_message_def the_message_def)

lemma entity_ids [simp]:
  "ex_id (mark_running now r) = ex_id r" "ex_id (mark_cancelled now a r) = ex_id r"
  "ex_id (mark_completed now t res r) = ex_id r" "ex_id (mark_failed now err r) = ex_id r"
  "ob_id (message_processed now m) = ob_id m" "ob_id (message_failed now err m) = ob_id m"
  by (simp_all add: lifecycle_defs message_processed_def message_failed_def)

section \<open>The outcome that is recorded and announced\<close>

text \<open>
  The last event announced for the execution, the execution's row and the message's row agree. The
  last disjunct is the race: a cancellation requested after the failure was looked at and before
  it was recorded.
\<close>

definition reported :: "pystr \<Rightarrow> pystr \<Rightarrow> runner_world \<Rightarrow> bool" where
  "reported e m w \<longleftrightarrow>
     (\<exists>evs t p. rw_emitted w = evs @ [(e, t, p)] \<and>
        (t = EXECUTION_COMPLETED \<and> the_message m (\<lambda>y. ob_status y = OB_PROCESSED) (rw_db w)
           \<and> the_row e (\<lambda>x. ex_status x = ES_COMPLETED \<and> ex_answer x \<noteq> None
                \<and> map_option PStr (ex_answer x) = map_of p (lit ''answer'')) (rw_db w)
         \<or> t = EXECUTION_CANCELLED \<and> the_message m (\<lambda>y. ob_status y = OB_PROCESSED) (rw_db w)
           \<and> the_row e (\<lambda>x. ex_status x = ES_CANCELLED) (rw_db w)
         \<or> t = EXECUTION_FAILED \<and> the_message m (\<lambda>y. ob_status y = OB_FAILED) (rw_db w)
           \<and> the_row e (\<lambda>x. ex_status x = ES_FAILED
                \<and> (\<exists>err. map_of p (lit ''error'') = Some (PStr err) \<and> ex_error x = Some (take 4000 err))
              \<or> ex_status x = ES_CANCEL_REQUESTED) (rw_db w)))"

lemma emit_calm:
  "calm w \<Longrightarrow> rc_has_sink c \<Longrightarrow> emit_lifecycle c e t p w = (Inr (), w\<lparr>rw_emitted := rw_emitted w @ [(e, t, p)]\<rparr>)"
  by (simp add: emit_lifecycle_def calm_def)

lemma the_row_mono: "the_row e P d \<Longrightarrow> (\<And>x. P x \<Longrightarrow> Q x) \<Longrightarrow> the_row e Q d"
  by (auto simp: the_row_def)

lemma the_message_mono: "the_message m P d \<Longrightarrow> (\<And>x. P x \<Longrightarrow> Q x) \<Longrightarrow> the_message m Q d"
  by (auto simp: the_message_def)

lemmas open_status_simps = open_status_def TERMINAL_STATUSES_def

lemma live_settles:
  assumes "db_live e m d" and "\<And>x. ex_id (f x) = ex_id x" and "\<And>x. ob_id (g x) = ob_id x"
    and "\<And>x. open_status (ex_status x) \<Longrightarrow> P (f x)" and "\<And>y. Q (g y)"
  shows "the_row e P (settle_message m g (update_execution e f d))"
    and "the_message m Q (settle_message m g (update_execution e f d))"
proof -
  note row = live_row[OF assms(1)] and msg = live_message[OF assms(1)]
  have eq: "settle_message m g (update_execution e f d) = on_message m g (on_execution e f d)"
    using settle_message_live[of m "\<lambda>_. True" "on_execution e f d" g] msg
    by (simp add: update_execution_live[OF row])
  show "the_row e P (settle_message m g (update_execution e f d))"
    using row by (simp add: eq the_row_update assms(2)) (erule the_row_mono, rule assms(4))
  show "the_message m Q (settle_message m g (update_execution e f d))"
    using msg by (simp add: eq the_message_update assms(3)) (erule the_message_mono, rule assms(5))
qed

lemma mark_cancelled_reports:
  assumes "live e m w" and "rc_has_sink c"
  shows "\<exists>w'. mark_cancelled_tx c e m w = (Inr (), w') \<and> reported e m w'"
proof -
  let ?f = "\<lambda>now d. ((), settle_message m (message_processed now) (update_execution e (mark_cancelled now None) d))"
  obtain d where d: "db_live e m d" and tx: "transaction ?f w = (Inr (),
      w\<lparr>rw_tick := rw_tick w + 1, rw_db := snd (?f (rw_now w (rw_tick w)) d)\<rparr>)"
    using tx_live[OF assms(1), of ?f] by auto
  let ?now = "rw_now w (rw_tick w)"
  note S = live_settles[OF d, of "mark_cancelled ?now None" "message_processed ?now"
      "\<lambda>x. ex_status x = ES_CANCELLED" "\<lambda>y. ob_status y = OB_PROCESSED"]
  have "calm w" using assms(1) by (simp add: live_def)
  then have "calm (w\<lparr>rw_tick := rw_tick w + 1, rw_db := snd (?f ?now d)\<rparr>)" by (rule calm_step)
  from emit_calm[OF this assms(2), of e EXECUTION_CANCELLED user_cancelled] show ?thesis
    using S by (simp add: mark_cancelled_tx_def mbind_def tx reported_def mark_cancelled_def
        open_status_simps message_processed_def)
qed

lemma mark_terminal_failure_reports:
  assumes "live e m w" and "rc_has_sink c"
  shows "\<exists>w'. mark_terminal_failure c e m err ierr w = (Inr (), w') \<and> reported e m w'"
proof -
  let ?f = "\<lambda>now d. ((), settle_message m (message_failed now (if ierr \<noteq> [] then ierr else err))
      (update_execution e (mark_failed now err) d))"
  obtain d where d: "db_live e m d" and tx: "transaction ?f w = (Inr (),
      w\<lparr>rw_tick := rw_tick w + 1, rw_db := snd (?f (rw_now w (rw_tick w)) d)\<rparr>)"
    using tx_live[OF assms(1), of ?f] by auto
  let ?now = "rw_now w (rw_tick w)"
  let ?P = "\<lambda>x. ex_status x = ES_FAILED
      \<and> (\<exists>e'. map_of [(lit ''error'', PStr err)] (lit ''error'') = Some (PStr e') \<and> ex_error x = Some (take 4000 e'))
      \<or> ex_status x = ES_CANCEL_REQUESTED"
  note S = live_settles[OF d, of "mark_failed ?now err" "message_failed ?now (if ierr \<noteq> [] then ierr else err)"
      ?P "\<lambda>y. ob_status y = OB_FAILED"]
  have "calm w" using assms(1) by (simp add: live_def)
  then have "calm (w\<lparr>rw_tick := rw_tick w + 1, rw_db := snd (?f ?now d)\<rparr>)" by (rule calm_step)
  from emit_calm[OF this assms(2), of e EXECUTION_FAILED "[(lit ''error'', PStr err)]"] show ?thesis
    using S by (simp add: mark_terminal_failure_def mbind_def tx reported_def mark_failed_def
        open_status_simps message_failed_def)
qed

lemma finish_run_reports:
  assumes "live e m w" and "rc_has_sink c"
  shows "\<exists>w'. finish_run c e m r w = (Inr (), w') \<and> reported e m w'"
proof -
  let ?f = "\<lambda>now d. (case execution_get d e of
          None \<Rightarrow> ((EXECUTION_COMPLETED, result_payload r), settle_message m (message_processed now) d)
        | Some x \<Rightarrow>
            if ex_status x = ES_CANCEL_REQUESTED then
              ((EXECUTION_CANCELLED,
                [(lit ''reason'', PStr (lit ''user_requested'')), (lit ''partial_answer'', PStr (fst r))]),
               settle_message m (message_processed now) (on_execution e (mark_cancelled now (Some (fst r))) d))
            else
              ((EXECUTION_COMPLETED, result_payload r),
               settle_message m (message_processed now) (on_execution e (mark_completed now (fst r) (snd r)) d)))"
  obtain d where d: "db_live e m d" and tx: "transaction ?f w = (Inr (fst (?f (rw_now w (rw_tick w)) d)),
      w\<lparr>rw_tick := rw_tick w + 1, rw_db := snd (?f (rw_now w (rw_tick w)) d)\<rparr>)"
    using tx_live[OF assms(1), of ?f] by auto
  let ?now = "rw_now w (rw_tick w)"
  have cw: "calm w" using assms(1) by (simp add: live_def)
  from live_row[OF d] obtain x where x: "execution_get d e = Some x" "open_status (ex_status x)"
    by (auto simp: the_row_def)
  have row: "the_row e (\<lambda>y. y = x) d" using x(1) by (simp add: the_row_def)
  note msg = live_message[OF d]
  show ?thesis
  proof (cases "ex_status x = ES_CANCEL_REQUESTED")
    case True
    let ?d' = "on_message m (message_processed ?now) (on_execution e (mark_cancelled ?now (Some (fst r))) d)"
    have "the_row e (\<lambda>x. ex_status x = ES_CANCELLED) ?d'" "the_message m (\<lambda>y. ob_status y = OB_PROCESSED) ?d'"
      using row msg True by (auto simp: the_row_update the_message_update mark_cancelled_def message_processed_def
          elim: the_row_mono the_message_mono)
    with settle_message_live[of m "\<lambda>_. True"] msg show ?thesis
      using tx x True
      by (simp add: finish_run_def mbind_def emit_calm[OF calm_step(1)[OF cw] assms(2)] reported_def)
  next
    case False
    let ?d' = "on_message m (message_processed ?now) (on_execution e (mark_completed ?now (fst r) (snd r)) d)"
    have "ex_status x \<notin> {ES_CANCEL_REQUESTED, ES_CANCELLED, ES_FAILED, ES_COMPLETED}"
      using x(2) False by (auto simp: open_status_simps)
    then have "the_row e (\<lambda>x. ex_status x = ES_COMPLETED \<and> ex_answer x \<noteq> None
                \<and> map_option PStr (ex_answer x) = map_of (result_payload r) (lit ''answer'')) ?d'"
      "the_message m (\<lambda>y. ob_status y = OB_PROCESSED) ?d'"
      using row msg by (auto simp: the_row_update the_message_update mark_completed_def message_processed_def
          result_payload_def elim: the_row_mono the_message_mono)
    with settle_message_live[of m "\<lambda>_. True"] msg show ?thesis
      using tx x False
      by (simp add: finish_run_def mbind_def emit_calm[OF calm_step(1)[OF cw] assms(2)] reported_def)
  qed
qed

lemma wait_live: "live e m w \<Longrightarrow> \<exists>b w'. wait_for_cancellation n e w = (Inr b, w') \<and> live e m w'"
proof (induction n arbitrary: w)
  case (Suc n)
  let ?f = "\<lambda>now d. (execution_get d e, d)"
  obtain d where d: "db_live e m d" and tx: "transaction ?f w = (Inr (execution_get d e),
      w\<lparr>rw_tick := rw_tick w + 1, rw_db := d\<rparr>)"
    using tx_live[OF Suc.prems, of ?f] by auto
  have l: "live e m (w\<lparr>rw_tick := rw_tick w + 1, rw_db := d\<rparr>)"
    using Suc.prems d by (simp add: live_def calm_step)
  from Suc.IH[OF l] l show ?case
    by (auto simp: mbind_def tx split: option.splits)
qed simp

lemma is_cancel_requested_live:
  assumes "live e m w"
  shows "\<exists>b w'. is_cancel_requested e w = (Inr b, w') \<and> live e m w'"
proof -
  let ?f = "\<lambda>now d. ((case execution_get d e of None \<Rightarrow> False
      | Some r \<Rightarrow> ex_status r \<in> {ES_CANCEL_REQUESTED, ES_CANCELLED}), d)"
  obtain d where d: "db_live e m d" and tx: "transaction ?f w = (Inr (fst (?f (rw_now w (rw_tick w)) d)),
      w\<lparr>rw_tick := rw_tick w + 1, rw_db := d\<rparr>)"
    using tx_live[OF assms, of ?f] by auto
  have "live e m (w\<lparr>rw_tick := rw_tick w + 1, rw_db := d\<rparr>)"
    using assms d by (simp add: live_def calm_step)
  with tx show ?thesis unfolding is_cancel_requested_def by blast
qed

lemma run_execution_outcome:
  assumes "live e m w" and "rc_has_sink c"
  shows "\<exists>r w'. run_execution c ro e m w = (r, w')
    \<and> (r = Inr None \<and> reported e m w' \<or> (\<exists>x. r = Inr (Some x)) \<and> live e m w' \<or> (\<exists>x. r = Inl x) \<and> live e m w')"
proof (cases "ro_create ro")
  case (Inl x)
  with assms(1) show ?thesis by (simp add: run_execution_def)
next
  case (Inr u)
  obtain b w1 where wt: "wait_for_cancellation (ro_polls ro) e w = (Inr b, w1)" and l1: "live e m w1"
    using wait_live[OF assms(1)] by blast
  show ?thesis
  proof (cases "b = Some True")
    case True
    from mark_cancelled_reports[OF l1 assms(2)] obtain w2 where
      mc: "mark_cancelled_tx c e m w1 = (Inr (), w2)" "reported e m w2" by blast
    show ?thesis
    proof (cases "\<exists>x. ro_on_cancel ro = Inl x \<and> exn_kind x \<noteq> CancelledError")
      case True
      with \<open>b = Some True\<close> Inr wt l1 show ?thesis by (auto simp: run_execution_def mbind_def)
    next
      case False
      with \<open>b = Some True\<close> Inr wt mc show ?thesis
        by (auto simp: run_execution_def mbind_def split: sum.splits)
    qed
  next
    case False
    with Inr wt l1 show ?thesis by (cases "ro_result ro") (auto simp: run_execution_def mbind_def)
  qed
qed

lemma on_run_error_reports:
  assumes "live e m w" and "rc_has_sink c"
  shows "\<exists>w'. on_run_error rp c e m x w = (Inr None, w') \<and> reported e m w'"
proof (cases "exn_kind x = CancelledError")
  case True
  with mark_cancelled_reports[OF assms] show ?thesis by (auto simp: on_run_error_def mbind_def)
next
  case False
  obtain b w1 where ic: "is_cancel_requested e w = (Inr b, w1)" and l1: "live e m w1"
    using is_cancel_requested_live[OF assms(1)] by blast
  show ?thesis
  proof (cases b)
    case True
    with mark_cancelled_reports[OF l1 assms(2)] ic \<open>exn_kind x \<noteq> CancelledError\<close> show ?thesis
      by (auto simp: on_run_error_def mbind_def)
  next
    case nb: False
    obtain w2 where h: "mwhen (exn_kind x = ProviderError False) (mark_unavailable x) w1 = (Inr (), w2)"
      and l2: "live e m w2"
    proof (cases "exn_kind x = ProviderError False")
      case True
      from l1 have "rw_health_fail w1 (rw_tick w1) = None" by (simp add: live_def calm_def)
      then have "mwhen (exn_kind x = ProviderError False) (mark_unavailable x) w1
          = (Inr (), w1\<lparr>rw_health := rw_health w1 @ [x]\<rparr>)"
        by (simp add: mwhen_def mark_unavailable_def True)
      moreover have "live e m (w1\<lparr>rw_health := rw_health w1 @ [x]\<rparr>)"
        using l1 by (simp add: live_def calm_def)
      ultimately show thesis by (rule that)
    next
      case False
      with l1 show thesis by (intro that[of w1]) (auto simp: mwhen_def mret_def)
    qed
    obtain w3 where w3: "mark_terminal_failure c e m (public_execution_error rp x) (error_text rp x) w2
        = (Inr (), w3)" "reported e m w3"
      using mark_terminal_failure_reports[OF l2 assms(2)] by blast
    have "on_run_error rp c e m x w = (Inr None, w3)"
      using ic nb False h w3(1) by (simp add: on_run_error_def mbind_def mret_def)
    with w3(2) show ?thesis by blast
  qed
qed

lemma open_execution_outcome:
  assumes "live e (ob_id msg) w"
  shows "\<exists>w'. open_execution c msg e w = (Inr Opened, w') \<and> live e (ob_id msg) w'
     \<or> open_execution c msg e w = (Inr AlreadyCancelled, w') \<and> calm w'
        \<and> the_row e (\<lambda>x. ex_status x = ES_CANCELLED) (rw_db w')
        \<and> the_message (ob_id msg) (\<lambda>y. ob_status y = OB_PROCESSED) (rw_db w')"
proof -
  let ?m = "ob_id msg"
  let ?f = "\<lambda>now d. (case execution_get d e of
          None \<Rightarrow>
            (Missing,
             settle_message ?m
               (if rc_max_attempts c \<le> ob_attempts msg
                then message_failed now (lit ''Execution not found'')
                else release_with_error now (lit ''Execution not found'')
                       (retry_delay (rc_retry_policy c) (ob_attempts msg))) d)
        | Some x \<Rightarrow>
            if ex_status x = ES_CANCEL_REQUESTED then
              (AlreadyCancelled,
               settle_message ?m (message_processed now) (on_execution e (mark_cancelled now None) d))
            else (Opened, on_execution e (mark_running now) d))"
  obtain d where d: "db_live e ?m d" and tx: "transaction ?f w = (Inr (fst (?f (rw_now w (rw_tick w)) d)),
      w\<lparr>rw_tick := rw_tick w + 1, rw_db := snd (?f (rw_now w (rw_tick w)) d)\<rparr>)"
    using tx_live[OF assms, of ?f] by auto
  let ?now = "rw_now w (rw_tick w)"
  have cw: "calm w" using assms by (simp add: live_def)
  from live_row[OF d] obtain x where x: "execution_get d e = Some x" "open_status (ex_status x)"
    by (auto simp: the_row_def)
  have row: "the_row e (\<lambda>y. y = x) d" using x(1) by (simp add: the_row_def)
  show ?thesis
  proof (cases "ex_status x = ES_CANCEL_REQUESTED")
    case True
    let ?d' = "on_message ?m (message_processed ?now) (on_execution e (mark_cancelled ?now None) d)"
    have "the_row e (\<lambda>x. ex_status x = ES_CANCELLED) ?d'" "the_message ?m (\<lambda>y. ob_status y = OB_PROCESSED) ?d'"
      using row live_message[OF d] True
      by (auto simp: the_row_update the_message_update mark_cancelled_def message_processed_def
          elim: the_row_mono the_message_mono)
    with settle_message_live[of ?m "\<lambda>_. True"] live_message[OF d] tx x True cw show ?thesis
      by (simp add: open_execution_def calm_step)
  next
    case False
    let ?d' = "on_execution e (mark_running ?now) d"
    have "ex_status x \<notin> {ES_CANCEL_REQUESTED, ES_CANCELLED, ES_FAILED, ES_COMPLETED}"
      using x(2) False by (auto simp: open_status_simps)
    have "system_step d ?d'" by (rule system_step.exec_running)
    then have ok: "db_ok ?d'" using step_ok d by (auto simp: db_live_def')
    have "the_row e (\<lambda>x. open_status (ex_status x)) ?d'"
      using row x(2) by (auto simp: the_row_update mark_running_def open_status_simps elim: the_row_mono)
    then obtain z where z: "find (\<lambda>r. ex_id r = e) (db_executions ?d') = Some z" "open_status (ex_status z)"
      by (auto simp: the_row_def execution_get_def)
    then have "z \<in> set (db_executions ?d')" "ex_id z = e" by (auto simp: find_Some_iff)
    with ok z(2) d have "db_live e ?m ?d'" by (auto simp: db_live_def' on_execution_def)
    with tx x False cw show ?thesis
      by (simp add: open_execution_def live_def calm_step)
  qed
qed



section \<open>One execution by hand\<close>

text \<open>A store with one claimed request, and a world whose others may cancel it before one transaction.\<close>

definition one_row :: execution_row where
  "one_row = new_execution (ex_ids 1) (ex_ids 0) (lit ''hi'') 1"

definition one_message :: outbox_row where
  "one_message =
     \<lparr>ob_id = ex_ids 2, ob_event_type = lit ''execution.requested'', ob_aggregate_id = ex_ids 1,
      ob_payload = request_message (ex_ids 1) (ex_ids 0) (lit ''hi''), ob_status = OB_PROCESSING,
      ob_attempts = 1, ob_available_at = 1, ob_locked_at = Some 2, ob_locked_by = Some (lit ''r''),
      ob_last_error = None, ob_created_at = 1, ob_processed_at = None\<rparr>"

definition one_db :: db where
  "one_db =
     \<lparr>db_sessions = [\<lparr>ss_id = ex_ids 0, ss_title = Some (lit ''hi''), ss_metadata = [], ss_created_at = 1,
                     ss_updated_at = 1\<rparr>],
      db_executions = [one_row], db_outbox = [one_message], db_traces = [], db_ids = ex_ids, db_next = 3\<rparr>"

definition cancels_at :: "nat \<Rightarrow> nat \<Rightarrow> db \<Rightarrow> db" where
  "cancels_at n t d = (if t = n then snd (cancel_execution 7 (ex_ids 1) d) else d)"

definition one_world :: "nat \<Rightarrow> runner_world" where
  "one_world n =
     \<lparr>rw_db = one_db, rw_emitted = [], rw_health = [], rw_tick = 0, rw_now = (\<lambda>t. of_nat t + 3),
      rw_others = cancels_at n, rw_fail = (\<lambda>_. None), rw_sink_fail = (\<lambda>_. None), rw_health_fail = (\<lambda>_. None)\<rparr>"

definition one_conf :: runner_conf where
  "one_conf =
     \<lparr>rc_runner_id = lit ''r'', rc_batch_size = 1, rc_max_attempts = 3, rc_cancellation_poll_seconds = 1,
      rc_retry_policy = \<lparr>rp_base_delay_seconds = 1, rp_max_delay_seconds = 8, rp_exponent_cap = 3\<rparr>, rc_has_sink = True\<rparr>"

definition one_oracle :: "run_result res \<Rightarrow> run_oracle" where
  "one_oracle r = \<lparr>ro_create = Inr (), ro_polls = 0, ro_result = r, ro_on_cancel = r\<rparr>"

lemma ex_ids_eq [simp]: "ex_ids a = ex_ids b \<longleftrightarrow> a = b"
  using ex_ids_inj by (auto dest: injD)

lemma one_db_live: "db_live (ex_ids 1) (ex_ids 2) one_db"
  using ex_ids_inj
  by (auto simp: db_live_def' one_db_def db_ok_def one_row_def one_message_def new_execution_def
      drawn_def open_status_def TERMINAL_STATUSES_def message_request_def request_of_def)

lemma one_world_live: "live (ex_ids 1) (ob_id one_message) (one_world n)"
proof -
  have "api_step\<^sup>*\<^sup>* d (cancels_at n t d)" for t d
    by (auto simp: cancels_at_def intro: api_step.intros)
  with one_db_live show ?thesis by (simp add: live_def calm_def one_world_def one_message_def)
qed



section \<open>The race between a failure and a cancellation\<close>

text \<open>A cancelling execution whose message has failed: nobody will settle it.\<close>

definition stranded :: "pystr \<Rightarrow> pystr \<Rightarrow> db \<Rightarrow> bool" where
  "stranded = kept (\<lambda>s. s = ES_CANCEL_REQUESTED) (\<lambda>s. s = OB_FAILED)"

lemma stranded_apis: "api_step\<^sup>*\<^sup>* d d' \<Longrightarrow> stranded e m d \<Longrightarrow> stranded e m d'"
  unfolding stranded_def
  by (rule kept_apis) (auto simp: lasting_def open_status_simps)

lemma stranded_row: "stranded e m d \<Longrightarrow> the_row e (\<lambda>x. ex_status x = ES_CANCEL_REQUESTED) d"
  by (auto simp: stranded_def kept_def db_ok_def the_row_def execution_get_def find_key)

lemma stranded_unclaimed:
  assumes "stranded e m d"
  shows "m \<notin> ob_id ` set (fst (claim_batch now locked rid n d))"
proof
  obtain ms d' where c: "claim_batch now locked rid n d = (ms, d')" by force
  from assms obtain y where y: "db_ok d" "y \<in> set (db_outbox d)" "ob_id y = m" "ob_status y = OB_FAILED"
    by (auto simp: stranded_def kept_def)
  assume "m \<in> ob_id ` set (fst (claim_batch now locked rid n d))"
  with claimed_pending[OF y(1) c y(2)] y c show False by simp
qed

definition boom :: "run_result res" where
  "boom = Inl (Exn RuntimeError (lit ''boom''))"

text \<open>The store with the one execution and its message in any state.\<close>

definition one_with :: "execution_row \<Rightarrow> outbox_row \<Rightarrow> db" where
  "one_with x y = one_db\<lparr>db_executions := [x], db_outbox := [y]\<rparr>"

lemma one_with_eval:
  "one_db = one_with one_row one_message"
  "ex_id x = ex_ids 1 \<Longrightarrow> execution_get (one_with x y) (ex_ids 1) = Some x"
  "ex_id x = ex_ids 1 \<Longrightarrow> on_execution (ex_ids 1) f (one_with x y) = one_with (f x) y"
  "ob_id y = ex_ids 2 \<Longrightarrow> settle_message (ex_ids 2) g (one_with x y) = one_with x (g y)"
  "ex_id x = ex_ids 1 \<Longrightarrow> update_execution (ex_ids 1) f (one_with x y) = one_with (f x) y"
  by (simp_all add: one_with_def one_db_def execution_get_def outbox_get_def on_execution_def on_message_def
      settle_message_def update_execution_def)

lemma one_ids [simp]: "ex_id one_row = ex_ids 1" "ob_id one_message = ex_ids 2"
  "ex_id (snd (request_cancel now r)) = ex_id r"
  by (simp_all add: one_row_def new_execution_def one_message_def request_cancel_def)

definition race_row :: execution_row where
  "race_row = mark_failed 5 (lit ''boom'') (snd (request_cancel 7 (mark_running 3 one_row)))"

definition race_message :: outbox_row where
  "race_message = message_failed 5 (lit ''boom'') one_message"

lemma race_stranded: "stranded (ex_ids 1) (ex_ids 2) (one_with race_row race_message)"
  by (simp add: stranded_def kept_def db_ok_def ex_ids_inj drawn_def message_request_def request_of_def
      one_with_def one_db_def race_row_def race_message_def one_row_def one_message_def new_execution_def
      lifecycle_defs TERMINAL_STATUSES_def message_failed_def)

lemma race_run:
  "\<exists>w'. handle_message rp one_conf (one_oracle boom) one_message (one_world 2) = (Inr (), w')
     \<and> rw_db w' = one_with race_row race_message
     \<and> map (\<lambda>(e, t, p). t) (rw_emitted w') = [EXECUTION_STARTED, EXECUTION_FAILED]"
proof -
  let ?w = "one_world 2"
  let ?r1 = "mark_running 3 one_row"
  let ?w1 = "?w\<lparr>rw_tick := 1, rw_db := one_with ?r1 one_message\<rparr>"
  have pend: "ex_status one_row = ES_PENDING" "ex_status ?r1 = ES_RUNNING"
    by (simp_all add: one_row_def new_execution_def mark_running_def TERMINAL_STATUSES_def)
  have start: "open_execution one_conf one_message (ex_ids 1) ?w = (Inr Opened, ?w1)"
    by (simp add: open_execution_def transaction_def one_world_def Let_def cancels_at_def
        one_with_eval(1) one_with_eval(2,3)[simplified] pend)
  let ?w2 = "?w1\<lparr>rw_emitted := [(ex_ids 1, EXECUTION_STARTED, [(lit ''session_id'', PStr (ex_ids 0))])]\<rparr>"
  have emitted: "emit_lifecycle one_conf (ex_ids 1) EXECUTION_STARTED [(lit ''session_id'', PStr (ex_ids 0))] ?w1
      = (Inr (), ?w2)"
    by (simp add: emit_lifecycle_def one_conf_def one_world_def)
  have run: "run_execution one_conf (one_oracle boom) (ex_ids 1) (ex_ids 2) ?w2
      = (Inl (Exn RuntimeError (lit ''boom'')), ?w2)"
    by (simp add: run_execution_def one_oracle_def boom_def mbind_def)
  let ?w3 = "?w2\<lparr>rw_tick := 2\<rparr>"
  have check: "is_cancel_requested (ex_ids 1) ?w2 = (Inr False, ?w3)"
    by (simp add: is_cancel_requested_def transaction_def Let_def one_world_def cancels_at_def
        one_with_eval(2,3)[simplified] pend)
  have cancel: "snd (cancel_execution 7 (ex_ids 1) (one_with ?r1 one_message))
      = one_with (snd (request_cancel 7 ?r1)) one_message"
    by (simp add: cancel_execution_def one_with_eval(2,3)[simplified])
  let ?w4 = "?w3\<lparr>rw_tick := 3, rw_db := one_with race_row race_message, rw_emitted := rw_emitted ?w3
      @ [(ex_ids 1, EXECUTION_FAILED, [(lit ''error'', PStr (lit ''boom''))])]\<rparr>"
  have failed: "mark_terminal_failure one_conf (ex_ids 1) (ex_ids 2) (lit ''boom'') (lit ''boom'') ?w3 = (Inr (), ?w4)"
    using cancel
    by (simp add: mark_terminal_failure_def transaction_def Let_def one_world_def cancels_at_def mbind_def
        one_with_eval(4,5)[simplified] race_row_def race_message_def emit_lifecycle_def one_conf_def)
  have texts: "public_execution_error rp (Exn RuntimeError (lit ''boom'')) = lit ''boom''"
    "error_text rp (Exn RuntimeError (lit ''boom'')) = lit ''boom''"
    by (simp_all add: public_execution_error_def error_text_def exn_str_def)
  have handler: "on_run_error rp one_conf (ex_ids 1) (ex_ids 2) (Exn RuntimeError (lit ''boom'')) ?w2 = (Inr None, ?w4)"
    using check failed by (simp add: on_run_error_def mbind_def texts)
  have "ob_event_type one_message = lit ''execution.requested''"
    "require_field (ob_payload one_message) ''execution_id'' = Inr (PStr (ex_ids 1))"
    "require_field (ob_payload one_message) ''session_id'' = Inr (PStr (ex_ids 0))"
    "require_field (ob_payload one_message) ''question'' = Inr (PStr (lit ''hi''))"
    by (simp_all add: one_message_def request_message_def require_field_def)
  with start emitted run handler
  have "handle_message rp one_conf (one_oracle boom) one_message ?w = (Inr (), ?w4)"
    by (simp add: handle_message_def mbind_def mtry_def Let_def)
  then show ?thesis by simp
qed

text \<open>
  C12. A cancellation that arrives between the two transactions of the failure path strands the
  execution: the runner announces EXECUTION_FAILED and fails the message, the row stays in
  cancel_requested, and from then on, whatever the API does and whoever polls the outbox, no claim
  ever returns the message and the execution never leaves cancel_requested.
\<close>
theorem failure_cancel_race:
  shows "\<exists>w'. handle_message rp one_conf (one_oracle boom) one_message (one_world 2) = (Inr (), w')
     \<and> map (\<lambda>(e, t, p). t) (rw_emitted w') = [EXECUTION_STARTED, EXECUTION_FAILED]
     \<and> (\<forall>d'. api_step\<^sup>*\<^sup>* (rw_db w') d' \<longrightarrow>
           the_row (ex_ids 1) (\<lambda>x. ex_status x = ES_CANCEL_REQUESTED) d'
         \<and> ob_id one_message \<notin> ob_id ` set (fst (claim_batch now locked rid n d')))"
proof -
  from race_run[of rp] obtain w' where w': "handle_message rp one_conf (one_oracle boom) one_message (one_world 2) = (Inr (), w')"
    "rw_db w' = one_with race_row race_message"
    "map (\<lambda>(e, t, p). t) (rw_emitted w') = [EXECUTION_STARTED, EXECUTION_FAILED]"
    by (elim exE conjE) (rule that)
  have str: "stranded (ex_ids 1) (ex_ids 2) (rw_db w')" using race_stranded w'(2) by simp
  have "the_row (ex_ids 1) (\<lambda>x. ex_status x = ES_CANCEL_REQUESTED) d'"
    "ob_id one_message \<notin> ob_id ` set (fst (claim_batch now locked rid n d'))"
    if "api_step\<^sup>*\<^sup>* (rw_db w') d'" for d'
  proof -
    have "stranded (ex_ids 1) (ex_ids 2) d'" using that str by (rule stranded_apis)
    then show "the_row (ex_ids 1) (\<lambda>x. ex_status x = ES_CANCEL_REQUESTED) d'"
      and "ob_id one_message \<notin> ob_id ` set (fst (claim_batch now locked rid n d'))"
      by (rule stranded_row, unfold one_ids, rule stranded_unclaimed)
  qed
  then show ?thesis by (intro exI[of _ w'] conjI w'(1) w'(3) allI impI)
qed

theorem failure_cancel_race_witness:
  "\<exists>w'. handle_message (\<lambda>_. []) one_conf (one_oracle boom) one_message (one_world 2) = (Inr (), w')
     \<and> the_row (ex_ids 1) (\<lambda>x. ex_status x = ES_CANCEL_REQUESTED) (rw_db w')
     \<and> ob_id one_message \<notin> ob_id ` set (fst (claim_batch 9 {} (lit ''r'') 5 (rw_db w')))"
proof -
  obtain w' where w': "handle_message (\<lambda>_. []) one_conf (one_oracle boom) one_message (one_world 2) = (Inr (), w')"
    "\<And>d'. api_step\<^sup>*\<^sup>* (rw_db w') d' \<Longrightarrow> the_row (ex_ids 1) (\<lambda>x. ex_status x = ES_CANCEL_REQUESTED) d'
       \<and> ob_id one_message \<notin> ob_id ` set (fst (claim_batch 9 {} (lit ''r'') 5 d'))"
    using failure_cancel_race[of "\<lambda>_. []" 9 "{}" "lit ''r''" 5] by (elim exE conjE) (rule that, assumption, simp)
  from w'(2)[of "rw_db w'"] w'(1) show ?thesis by (intro exI[of _ w']) simp
qed

end
