(* ===== verification/RunnerHealth.thy ===== *)
theory RunnerHealth
  imports EventLog
begin

text \<open>
  The availability of the runners (\<open>cache/runner_health.py\<close>, \<open>runtime/health.py\<close>): each runner keeps
  one expiring key with its last report, and a reader scans the keys. Redis is a parameter; the
  locale \<open>key_scan\<close> states the documented effect of SET, DELETE, GET and of SCAN with a pattern that has
  one star. Expiry is not modelled: the facts hold as long as no key has expired.
\<close>

section \<open>Snapshots\<close>

datatype health_status = READY | UNAVAILABLE

fun health_value :: "health_status \<Rightarrow> pystr" where
  "health_value READY = lit ''ready''"
| "health_value UNAVAILABLE = lit ''unavailable''"

definition health_of_value :: "pystr \<Rightarrow> health_status res" where
  "health_of_value s =
     (if s = lit ''ready'' then Inr READY
      else if s = lit ''unavailable'' then Inr UNAVAILABLE
      else Inl (Exn ValueError s))"

lemma health_of_health_value [simp]: "health_of_value (health_value s) = Inr s"
  by (cases s) (simp_all add: health_of_value_def)

record health_snapshot =
  hs_runner_id :: pystr
  hs_status :: health_status
  hs_provider :: pystr
  hs_model :: "pystr option"
  hs_error :: "pystr option"
  hs_updated_at :: pystr

record 'w health_api =
  ha_set :: "pystr \<Rightarrow> pystr \<Rightarrow> nat \<Rightarrow> ('w, unit) act"
  ha_delete :: "pystr \<Rightarrow> ('w, unit) act"
  ha_scan :: "pystr \<Rightarrow> ('w, pystr list) act"
  ha_get :: "pystr \<Rightarrow> ('w, pystr option) act"

record health_conf =
  hh_key_prefix :: pystr
  hh_ttl_seconds :: nat

definition new_health_store :: "pystr \<Rightarrow> int \<Rightarrow> health_conf res" where
  "new_health_store key_prefix ttl_seconds =
     (let normalized_prefix = strip_colons key_prefix
      in if normalized_prefix = [] then Inl (Exn ValueError (lit ''Redis key prefix cannot be empty''))
         else if ttl_seconds < 1 then Inl (Exn ValueError (lit ''runner health ttl must be greater than zero''))
         else Inr \<lparr>hh_key_prefix = normalized_prefix, hh_ttl_seconds = nat ttl_seconds\<rparr>)"

definition health_key :: "health_conf \<Rightarrow> pystr \<Rightarrow> pystr" where
  "health_key c runner_id = hh_key_prefix c @ lit '':runner:'' @ runner_id @ lit '':health''"

definition health_pattern :: "health_conf \<Rightarrow> pystr" where
  "health_pattern c = hh_key_prefix c @ lit '':runner:*:health''"

definition health_payload :: "health_snapshot \<Rightarrow> pdict" where
  "health_payload s =
     [(lit ''runner_id'', PStr (hs_runner_id s)), (lit ''status'', PStr (health_value (hs_status s))),
      (lit ''provider'', PStr (hs_provider s)), (lit ''model'', opt_str (hs_model s)),
      (lit ''error'', opt_str (hs_error s)), (lit ''updated_at'', PStr (hs_updated_at s))]"

definition new_snapshot ::
  "pystr \<Rightarrow> pystr \<Rightarrow> health_status \<Rightarrow> pystr \<Rightarrow> pystr option \<Rightarrow> pystr option \<Rightarrow> health_snapshot" where
  "new_snapshot now runner_id status provider model error =
     \<lparr>hs_runner_id = runner_id, hs_status = status, hs_provider = provider, hs_model = model,
      hs_error = (case error of None \<Rightarrow> None | Some e \<Rightarrow> if e = [] then None else Some (take 500 e)),
      hs_updated_at = now\<rparr>"

definition health_publish ::
  "py_text \<Rightarrow> 'w health_api \<Rightarrow> health_conf \<Rightarrow> pystr \<Rightarrow> pystr \<Rightarrow> health_status \<Rightarrow> pystr \<Rightarrow> pystr option
    \<Rightarrow> pystr option \<Rightarrow> ('w, health_snapshot) act" where
  "health_publish tx api c now runner_id status provider model error =
     (let snapshot = new_snapshot now runner_id status provider model error
      in mbind (ha_set api (health_key c runner_id) (dumps tx (PDict (health_payload snapshot)))
                 (hh_ttl_seconds c)) (\<lambda>_. mret snapshot))"

definition health_clear :: "'w health_api \<Rightarrow> health_conf \<Rightarrow> pystr \<Rightarrow> ('w, unit) act" where
  "health_clear api c runner_id = ha_delete api (health_key c runner_id)"

text \<open>\<open>str(payload["x"]) if payload.get("x") else None\<close>.\<close>

definition opt_text :: "repr \<Rightarrow> pdict \<Rightarrow> string \<Rightarrow> pystr option" where
  "opt_text rp d k = (if truthy (dget d (lit k)) then Some (py_str rp (dget d (lit k))) else None)"

definition subscript :: "pdict \<Rightarrow> string \<Rightarrow> pyval res" where
  "subscript d k = (case map_of d (lit k) of None \<Rightarrow> Inl (Exn KeyError (lit k)) | Some v \<Rightarrow> Inr v)"

definition decode_snapshot :: "py_text \<Rightarrow> pystr \<Rightarrow> health_snapshot res" where
  "decode_snapshot tx raw =
     (let st = py_str (tx_repr tx)
      in rbind (loads tx raw) (\<lambda>payload.
         (case payload of
            PDict d \<Rightarrow>
              rbind (subscript d ''runner_id'') (\<lambda>rid.
              rbind (subscript d ''status'') (\<lambda>sv.
              rbind (health_of_value (st sv)) (\<lambda>status.
              rbind (subscript d ''provider'') (\<lambda>provider.
              let model = opt_text (tx_repr tx) d ''model''; error = opt_text (tx_repr tx) d ''error''
              in rbind (subscript d ''updated_at'') (\<lambda>updated.
                Inr \<lparr>hs_runner_id = st rid, hs_status = status, hs_provider = st provider, hs_model = model,
                     hs_error = error, hs_updated_at = st updated\<rparr>)))))
          | _ \<Rightarrow> Inl (Exn TypeError []))))"

text \<open>Every error of the decoding is of the classes the loop catches and skips.\<close>

fun list_keys :: "py_text \<Rightarrow> 'w health_api \<Rightarrow> pystr list \<Rightarrow> ('w, health_snapshot list) act" where
  "list_keys tx api [] = mret []"
| "list_keys tx api (k # ks) =
     mbind (ha_get api k) (\<lambda>raw.
     mbind (list_keys tx api ks) (\<lambda>rest.
       mret (case raw of
               None \<Rightarrow> rest
             | Some s \<Rightarrow>
                 if s = [] then rest
                 else (case decode_snapshot tx s of Inl _ \<Rightarrow> rest | Inr snapshot \<Rightarrow> snapshot # rest))))"

definition health_list :: "py_text \<Rightarrow> 'w health_api \<Rightarrow> health_conf \<Rightarrow> ('w, health_snapshot list) act" where
  "health_list tx api c = mbind (ha_scan api (health_pattern c)) (list_keys tx api)"

definition any_ready :: "py_text \<Rightarrow> 'w health_api \<Rightarrow> health_conf \<Rightarrow> ('w, bool) act" where
  "any_ready tx api c =
     mbind (health_list tx api c) (\<lambda>snapshots. mret (\<exists>s \<in> set snapshots. hs_status s = READY))"

section \<open>The reporter of one runner\<close>

record health_reporter =
  hr_runner_id :: pystr
  hr_heartbeat_seconds :: rat
  hr_status :: health_status
  hr_provider :: pystr
  hr_model :: "pystr option"
  hr_error :: "pystr option"

definition new_reporter :: "pystr \<Rightarrow> rat \<Rightarrow> health_reporter res" where
  "new_reporter runner_id heartbeat_seconds =
     (if heartbeat_seconds \<le> 0
      then Inl (Exn ValueError (lit ''runner health heartbeat must be greater than zero''))
      else Inr \<lparr>hr_runner_id = runner_id, hr_heartbeat_seconds = heartbeat_seconds, hr_status = UNAVAILABLE,
                hr_provider = lit ''unknown'', hr_model = None, hr_error = Some (lit ''Runner is starting'')\<rparr>)"

definition reporter_publish ::
  "py_text \<Rightarrow> 'w health_api \<Rightarrow> health_conf \<Rightarrow> pystr \<Rightarrow> health_reporter \<Rightarrow> ('w, health_snapshot) act" where
  "reporter_publish tx api c now r =
     health_publish tx api c now (hr_runner_id r) (hr_status r) (hr_provider r) (hr_model r) (hr_error r)"

definition reporter_ready :: "pystr \<Rightarrow> pystr \<Rightarrow> health_reporter \<Rightarrow> health_reporter" where
  "reporter_ready provider model r =
     r\<lparr>hr_status := READY, hr_provider := provider, hr_model := Some model, hr_error := None\<rparr>"

definition reporter_unavailable :: "pystr \<Rightarrow> pystr option \<Rightarrow> pystr \<Rightarrow> health_reporter \<Rightarrow> health_reporter" where
  "reporter_unavailable provider model error r =
     r\<lparr>hr_status := UNAVAILABLE, hr_provider := provider, hr_model := model, hr_error := Some error\<rparr>"

text \<open>What the runners do to the store: the reports of their reporters and the final clearing.\<close>

datatype health_action = Report pystr health_reporter | Clear pystr

fun health_act :: "py_text \<Rightarrow> 'w health_api \<Rightarrow> health_conf \<Rightarrow> health_action \<Rightarrow> ('w, unit) act" where
  "health_act tx api c (Report now r) = mbind (reporter_publish tx api c now r) (\<lambda>_. mret ())"
| "health_act tx api c (Clear rid) = health_clear api c rid"

text \<open>The specification: the last report of each runner that has not been cleared since.\<close>

fun apply_report :: "health_action \<Rightarrow> (pystr \<Rightarrow> health_snapshot option) \<Rightarrow> pystr \<Rightarrow> health_snapshot option" where
  "apply_report (Report now r) m =
     m(hr_runner_id r \<mapsto> new_snapshot now (hr_runner_id r) (hr_status r) (hr_provider r) (hr_model r) (hr_error r))"
| "apply_report (Clear rid) m = m(rid := None)"

definition reports :: "health_action list \<Rightarrow> pystr \<Rightarrow> health_snapshot option" where
  "reports as = fold apply_report as (\<lambda>_. None)"

text \<open>An empty model name reads back as no name.\<close>

definition readback :: "health_snapshot \<Rightarrow> health_snapshot" where
  "readback s = s\<lparr>hs_model := (if hs_model s = Some [] then None else hs_model s)\<rparr>"

lemma decode_payload:
  assumes "hs_error s \<noteq> Some []"
  shows "decode_snapshot tx (dumps tx (PDict (health_payload s))) = Inr (readback s)"
proof -
  have "json_ok (\<lambda>_. False) (PDict (health_payload s))"
    by (auto simp: health_payload_def opt_str_def split: option.splits)
  from loads_dumps[OF floats_ok_none this] show ?thesis
    using assms by (auto simp: decode_snapshot_def health_payload_def subscript_def opt_text_def opt_str_def
        dict_simps readback_def split: option.splits)
qed

lemma new_snapshot_error: "hs_error (new_snapshot now rid st p m e) \<noteq> Some []"
  by (auto simp: new_snapshot_def split: option.splits)

section \<open>What a reader sees\<close>

definition plain :: "pystr \<Rightarrow> bool" where
  "plain s \<longleftrightarrow> (\<forall>c \<in> set s. c \<notin> {42, 63, 91, 92})"

locale key_scan =
  fixes api :: "'w health_api" and stored :: "'w \<Rightarrow> pystr \<Rightarrow> pystr option"
  assumes set_law: "\<exists>w'. ha_set api k v ttl w = (Inr (), w') \<and> stored w' = (stored w)(k \<mapsto> v)"
    and delete_law: "\<exists>w'. ha_delete api k w = (Inr (), w') \<and> stored w' = (stored w)(k := None)"
    and get_law: "\<exists>w'. ha_get api k w = (Inr (stored w k), w') \<and> stored w' = stored w"
    and scan_law: "plain a \<Longrightarrow> plain b \<Longrightarrow> \<exists>ks w'. ha_scan api (a @ 42 # b) w = (Inr ks, w')
          \<and> stored w' = stored w \<and> set ks = {k. stored w k \<noteq> None \<and> (\<exists>m. k = a @ m @ b)}"
begin

text \<open>The store holds the encoded reports and nothing else under the pattern.\<close>

definition mirrors :: "py_text \<Rightarrow> health_conf \<Rightarrow> (pystr \<Rightarrow> health_snapshot option) \<Rightarrow> 'w \<Rightarrow> bool" where
  "mirrors tx c m w \<longleftrightarrow> (\<forall>rid. stored w (health_key c rid) = map_option (\<lambda>s. dumps tx (PDict (health_payload s))) (m rid))
     \<and> (\<forall>rid s. m rid = Some s \<longrightarrow> hs_error s \<noteq> Some [])"

lemma health_key_inj: "health_key c a = health_key c b \<longleftrightarrow> a = b"
  by (simp add: health_key_def)

lemma act_mirrors:
  assumes "mirrors tx c m w"
  shows "\<exists>w'. health_act tx api c a w = (Inr (), w') \<and> mirrors tx c (apply_report a m) w'"
proof (cases a)
  case (Report now r)
  let ?s = "new_snapshot now (hr_runner_id r) (hr_status r) (hr_provider r) (hr_model r) (hr_error r)"
  from set_law[of "health_key c (hr_runner_id r)" "dumps tx (PDict (health_payload ?s))" "hh_ttl_seconds c" w]
  obtain w' where "ha_set api (health_key c (hr_runner_id r)) (dumps tx (PDict (health_payload ?s))) (hh_ttl_seconds c) w
      = (Inr (), w')"
    and "stored w' = (stored w)(health_key c (hr_runner_id r) \<mapsto> dumps tx (PDict (health_payload ?s)))" by blast
  with assms show ?thesis
    by (simp add: Report reporter_publish_def health_publish_def mbind_def mirrors_def health_key_inj
        new_snapshot_error Let_def)
next
  case (Clear rid)
  from delete_law[of "health_key c rid" w] assms show ?thesis
    by (auto simp: Clear health_clear_def mirrors_def health_key_inj)
qed

lemma acts_mirror:
  assumes "mirrors tx c m w"
  shows "\<exists>w'. mfor as (health_act tx api c) w = (Inr (), w') \<and> mirrors tx c (fold apply_report as m) w'"
  using assms
proof (induction as arbitrary: m w)
  case (Cons a as)
  from act_mirrors[OF Cons.prems, of a] obtain w1 where
    w1: "health_act tx api c a w = (Inr (), w1)" "mirrors tx c (apply_report a m) w1" by blast
  from Cons.IH[OF w1(2)] w1(1) show ?case by (simp add: mbind_def)
qed simp

lemma list_keys_reads:
  "\<exists>w'. stored w' = stored w \<and> list_keys tx api ks w = (Inr (concat (map (\<lambda>k.
      case stored w k of None \<Rightarrow> []
      | Some s \<Rightarrow> if s = [] then [] else (case decode_snapshot tx s of Inl _ \<Rightarrow> [] | Inr x \<Rightarrow> [x])) ks)), w')"
proof (induction ks arbitrary: w)
  case (Cons k ks)
  from get_law[of k w] obtain w1 where w1: "ha_get api k w = (Inr (stored w k), w1)" "stored w1 = stored w" by blast
  from Cons.IH[of w1] w1(2) obtain w2 where "stored w2 = stored w" "list_keys tx api ks w1 = (Inr (concat (map (\<lambda>k.
      case stored w k of None \<Rightarrow> []
      | Some s \<Rightarrow> if s = [] then [] else (case decode_snapshot tx s of Inl _ \<Rightarrow> [] | Inr x \<Rightarrow> [x])) ks)), w2)" by auto
  with w1(1) show ?case by (auto simp: mbind_def split: option.splits sum.splits)
qed simp

lemma health_list_mirrors:
  assumes "mirrors tx c m w" and "plain (hh_key_prefix c)"
  shows "\<exists>ss w'. health_list tx api c w = (Inr ss, w') \<and> stored w' = stored w \<and> set ss = readback ` ran m"
proof -
  let ?a = "hh_key_prefix c @ lit '':runner:''" and ?b = "lit '':health''"
  have "plain ?a" "plain ?b" using assms(2) by (auto simp: plain_def lit_def)
  from scan_law[OF this, of w] obtain ks w1 where ks: "ha_scan api (?a @ 42 # ?b) w = (Inr ks, w1)"
    "stored w1 = stored w" "set ks = {k. stored w k \<noteq> None \<and> (\<exists>m. k = ?a @ m @ ?b)}" by blast
  have pat: "health_pattern c = ?a @ 42 # ?b" by (simp add: health_pattern_def lit_def)
  let ?f = "\<lambda>k. case stored w k of None \<Rightarrow> []
      | Some s \<Rightarrow> if s = [] then [] else (case decode_snapshot tx s of Inl _ \<Rightarrow> [] | Inr x \<Rightarrow> [x])"
  from list_keys_reads[of w1 tx ks] ks(2) obtain w2 where
    w2: "stored w2 = stored w" "list_keys tx api ks w1 = (Inr (concat (map ?f ks)), w2)" by auto
  have keys: "set ks = {health_key c rid |rid. m rid \<noteq> None}"
    using assms(1) by (auto simp: ks(3) mirrors_def health_key_def)
  have f: "set (?f (health_key c rid)) = {readback s}" if "m rid = Some s" for rid s
  proof -
    have "stored w (health_key c rid) = Some (dumps tx (PDict (health_payload s)))" "hs_error s \<noteq> Some []"
      using assms(1) that by (auto simp: mirrors_def)
    moreover have "dumps tx (PDict (health_payload s)) \<noteq> []" by (simp add: dumps_def)
    ultimately show ?thesis by (simp add: decode_payload)
  qed
  define g where "g = ?f"
  have g: "set (g (health_key c rid)) = {readback (the (m rid))}" if "rid \<in> dom m" for rid
    using f[of rid "the (m rid)"] that by (simp add: g_def domIff)
  have "set (concat (map g ks)) = (\<Union>rid \<in> dom m. set (g (health_key c rid)))" by (auto simp: keys)
  also have "\<dots> = (\<Union>rid \<in> dom m. {readback (the (m rid))})" by (rule SUP_cong[OF refl g])
  also have "\<dots> = readback ` ran m" by (auto simp: ran_def)
  finally have "set (concat (map ?f ks)) = readback ` ran m" unfolding g_def .
  moreover have "health_list tx api c w = (Inr (concat (map ?f ks)), w2)"
    by (simp only: health_list_def mbind_def pat ks(1) w2(2) prod.case sum.case)
  ultimately show ?thesis using w2(1) by blast
qed

lemma any_ready_mirrors:
  assumes "mirrors tx c m w" and "plain (hh_key_prefix c)"
  shows "\<exists>w'. any_ready tx api c w = (Inr (\<exists>s \<in> ran m. hs_status s = READY), w')"
  using health_list_mirrors[OF assms] by (auto simp: any_ready_def mbind_def readback_def)

end

section \<open>A store in memory\<close>

fun glob :: "pystr \<Rightarrow> pystr \<Rightarrow> bool" where
  "glob [] s \<longleftrightarrow> s = []"
| "glob (p # ps) [] \<longleftrightarrow> p = 42 \<and> glob ps []"
| "glob (p # ps) (c # cs) \<longleftrightarrow> (if p = 42 then glob ps (c # cs) \<or> glob (p # ps) cs else p = c \<and> glob ps cs)"

lemma glob_plain: "plain b \<Longrightarrow> glob b s \<longleftrightarrow> s = b"
  by (induction b s rule: glob.induct) (auto simp: plain_def)

lemma glob_star: "plain b \<Longrightarrow> glob (42 # b) s \<longleftrightarrow> suffix b s"
proof (induction s)
  case Nil
  then show ?case by (auto simp: glob_plain)
next
  case (Cons c s)
  then show ?case by (auto simp: glob_plain suffix_Cons)
qed

lemma glob_around: "plain a \<Longrightarrow> plain b \<Longrightarrow> glob (a @ 42 # b) s \<longleftrightarrow> (\<exists>m. s = a @ m @ b)"
proof (induction a arbitrary: s)
  case Nil
  then show ?case by (simp add: glob_star suffix_def)
next
  case (Cons x a)
  then have "x \<noteq> 42" "plain a" by (auto simp: plain_def)
  with Cons show ?case by (cases s) auto
qed

type_synonym key_store = "(pystr \<times> pystr) list"

definition store_api :: "key_store health_api" where
  "store_api =
     \<lparr>ha_set = (\<lambda>k v ttl w. (Inr (), AList.update k v w)), ha_delete = (\<lambda>k w. (Inr (), AList.delete k w)),
      ha_scan = (\<lambda>p w. (Inr (filter (glob p) (map fst w)), w)), ha_get = (\<lambda>k w. (Inr (map_of w k), w))\<rparr>"

interpretation health: key_scan store_api map_of
  by unfold_locales
     (auto simp: store_api_def update_conv' delete_conv' fun_eq_iff glob_around map_of_eq_None_iff)

text \<open>
  C13. A reader sees the last word of every runner. After any sequence of reports and clearings by
  any number of runners, the listed snapshots are exactly the last report of each runner that has
  not cleared itself since (errors cut to 500 characters, an empty model name read as none), and
  some runner is ready exactly when one of those last reports says so.
\<close>
theorem health_reflects_reports:
  assumes "plain (hh_key_prefix c)"
  shows "\<exists>w ss w' w''. mfor as (health_act tx store_api c) [] = (Inr (), w)
     \<and> health_list tx store_api c w = (Inr ss, w') \<and> set ss = readback ` ran (reports as)
     \<and> any_ready tx store_api c w = (Inr (\<exists>s \<in> ran (reports as). hs_status s = READY), w'')"
proof -
  have "health.mirrors tx c (\<lambda>_. None) []" by (simp add: health.mirrors_def)
  from health.acts_mirror[OF this, of as] obtain w where
    "mfor as (health_act tx store_api c) [] = (Inr (), w)" "health.mirrors tx c (reports as) w"
    by (auto simp: reports_def)
  with health.health_list_mirrors[OF this(2) assms] health.any_ready_mirrors[OF this(2) assms] show ?thesis
    by blast
qed

definition health_text :: py_text where
  "health_text = \<lparr>tx_repr = (\<lambda>_. []), tx_float = (\<lambda>_. []), tx_read = (\<lambda>_. 0)\<rparr>"

definition ex_reporter :: health_reporter where
  "ex_reporter = \<lparr>hr_runner_id = lit ''r1'', hr_heartbeat_seconds = 5, hr_status = READY,
     hr_provider = lit ''p'', hr_model = Some [], hr_error = None\<rparr>"

theorem health_reflects_reports_witness:
  "\<exists>w w''. mfor [Report (lit ''t'') ex_reporter] (health_act health_text store_api
        \<lparr>hh_key_prefix = lit ''franq'', hh_ttl_seconds = 30\<rparr>) [] = (Inr (), w)
     \<and> any_ready health_text store_api \<lparr>hh_key_prefix = lit ''franq'', hh_ttl_seconds = 30\<rparr> w = (Inr True, w'')"
proof -
  have "plain (hh_key_prefix \<lparr>hh_key_prefix = lit ''franq'', hh_ttl_seconds = 30\<rparr>)"
    by (simp add: plain_def lit_def)
  moreover have "\<exists>s \<in> ran (reports [Report (lit ''t'') ex_reporter]). hs_status s = READY"
    by (auto simp: reports_def ran_def ex_reporter_def new_snapshot_def)
  ultimately show ?thesis
    using health_reflects_reports[of "\<lparr>hh_key_prefix = lit ''franq'', hh_ttl_seconds = 30\<rparr>"
        "[Report (lit ''t'') ex_reporter]" health_text] by auto
qed

end
