(* ===== verification/Sse.thy ===== *)
theory Sse
  imports Observer EventLog
begin

text \<open>
  Server-sent events from the API to the interface: the route that observes an execution
  (\<open>http/routes/events.py\<close>), the client's parser and the client's HTTP calls (\<open>client.py\<close>). The HTTP
  library is a parameter: \<open>http_api\<close> answers requests, and \<open>iter_lines\<close> cuts a body into lines.
\<close>

section \<open>Writing a frame\<close>

definition frame_dump :: "pystr \<Rightarrow> exec_frame \<Rightarrow> pdict" where
  "frame_dump created_at fr =
     [(lit ''execution_id'', PStr (fr_execution_id fr)), (lit ''type'', PStr (fr_type fr)),
      (lit ''sequence'', opt_int (fr_sequence fr)), (lit ''payload'', PDict (fr_payload fr)),
      (lit ''created_at'', PStr created_at)]"

definition format_sse :: "py_text \<Rightarrow> pystr \<Rightarrow> exec_frame \<Rightarrow> pystr" where
  "format_sse tx created_at fr =
     (let data = dumps tx (PDict (frame_dump created_at fr));
          event_id = (case fr_sequence fr of None \<Rightarrow> [] | Some n \<Rightarrow> lit ''id: '' @ dec_int n @ [10])
      in event_id @ lit ''event: '' @ fr_type fr @ [10] @ lit ''data: '' @ data @ [10, 10])"

definition parse_last_sequence :: "pystr option \<Rightarrow> int option res" where
  "parse_last_sequence value =
     (case value of
        None \<Rightarrow> Inr None
      | Some v \<Rightarrow>
          if py_strip v = [] then Inr None
          else (case parse_int v of
                  None \<Rightarrow> Inl (Exn (HTTPStatus 400) (lit ''Last-Event-ID must be a logical sequence''))
                | Some sequence \<Rightarrow>
                    if sequence < 0 then Inl (Exn (HTTPStatus 400) (lit ''Last-Event-ID must be non-negative''))
                    else Inr (Some sequence)))"

text \<open>
  The route: a first look at the state decides on 404, then the observation is streamed; \<open>fuel\<close>
  bounds the observation as in \<open>observe\<close>.
\<close>

definition stream_execution_events ::
  "nat \<Rightarrow> py_text \<Rightarrow> pystr \<Rightarrow> observer_conf \<Rightarrow> 'w observer_deps \<Rightarrow> pystr \<Rightarrow> pystr option
    \<Rightarrow> ('w, pystr list \<times> obs_end) act" where
  "stream_execution_events fuel tx created_at oc od execution_id last_event_id =
     mbind (mlift (parse_last_sequence last_event_id)) (\<lambda>last_sequence.
     mbind (mtry (mbind (current_state oc od execution_id last_sequence) (\<lambda>_. mret ()))
              (\<lambda>e. if exn_kind e = KeyError then mraise (Exn (HTTPStatus 404) (lit ''Execution not found''))
                   else if exn_kind e = GapError then mret ()
                   else mraise e)) (\<lambda>_ w.
       (case observe fuel oc od execution_id last_sequence w of
          (frames, fin, w') \<Rightarrow> (Inr (map (format_sse tx created_at) frames, fin), w'))))"

section \<open>Lines\<close>

text \<open>\<open>str.splitlines\<close>.\<close>

definition line_break :: "pychar \<Rightarrow> bool" where
  "line_break c \<longleftrightarrow> (10 \<le> c \<and> c \<le> 13) \<or> (28 \<le> c \<and> c \<le> 30) \<or> c = 133 \<or> c = 8232 \<or> c = 8233"

fun after_break :: "pystr \<Rightarrow> pystr" where
  "after_break (c # d # cs) = (if c = 13 \<and> d = 10 then cs else d # cs)"
| "after_break (c # cs) = cs"
| "after_break [] = []"

lemma after_break_length: "s \<noteq> [] \<Longrightarrow> length (after_break s) < length s"
  by (induction s rule: after_break.induct) auto

function (sequential) py_splitlines :: "pystr \<Rightarrow> pystr list" where
  "py_splitlines [] = []"
| "py_splitlines (c # cs) =
     takeWhile (\<lambda>x. \<not> line_break x) (c # cs)
       # (case dropWhile (\<lambda>x. \<not> line_break x) (c # cs) of [] \<Rightarrow> [] | b # bs \<Rightarrow> py_splitlines (after_break (b # bs)))"
  by pat_completeness auto
termination
proof (relation "measure length", goal_cases)
  case 1
  show ?case by simp
next
  case (2 c cs b bs)
  have "length (after_break (b # bs)) < length (b # bs)" by (rule after_break_length) simp
  also have "\<dots> \<le> length (c # cs)" using 2 by (metis length_dropWhile_le)
  finally show ?case by simp
qed

declare py_splitlines.simps(2) [simp del]

lemma splitlines_line:
  assumes "\<forall>c \<in> set a. \<not> line_break c"
  shows "py_splitlines (a @ 10 # r) = a # py_splitlines r"
proof -
  have "\<exists>c cs. a @ 10 # r = c # cs" by (cases a) auto
  then obtain c cs where eq: "a @ 10 # r = c # cs" by blast
  have t: "takeWhile (\<lambda>x. \<not> line_break x) (a @ 10 # r) = a"
    and d: "dropWhile (\<lambda>x. \<not> line_break x) (a @ 10 # r) = 10 # r"
    using assms by (simp_all add: takeWhile_append dropWhile_append line_break_def)
  have "after_break (10 # r) = r" by (cases r) auto
  then show ?thesis using t d unfolding eq py_splitlines.simps(2) by simp
qed

section \<open>Reading frames\<close>

record observed_frame =
  of_execution_id :: pystr
  of_type :: pystr
  of_sequence :: "int option"
  of_payload :: pdict

definition decode_frame :: "py_text \<Rightarrow> pystr option \<Rightarrow> pystr option \<Rightarrow> pystr list \<Rightarrow> observed_frame res" where
  "decode_frame tx event_name event_id data_lines =
     (if data_lines = [] then Inl (Exn ValueError (lit ''SSE frame does not contain data''))
      else rbind (loads tx (py_join [10] data_lines)) (\<lambda>v.
        (case v of
           PDict raw \<Rightarrow>
             (case py_or (dget raw (lit ''payload'')) (PDict []) of
                PDict payload \<Rightarrow>
                  rbind (case dget raw (lit ''sequence'') of
                           PInt n \<Rightarrow> Inr (Some n)
                         | _ \<Rightarrow>
                             (case event_id of
                                None \<Rightarrow> Inr None
                              | Some i \<Rightarrow>
                                  if py_strip i = [] then Inr None
                                  else (case parse_int i of
                                          None \<Rightarrow> Inl (Exn ValueError i) | Some n \<Rightarrow> Inr (Some n))))
                    (\<lambda>sequence.
                      Inr \<lparr>of_execution_id =
                             py_str (tx_repr tx) (py_or (dget raw (lit ''execution_id''))
                               (py_or (dget payload (lit ''execution_id'')) (PStr []))),
                           of_type =
                             py_str (tx_repr tx) (py_or (dget raw (lit ''type''))
                               (py_or (opt_str event_name) (PStr (lit ''message'')))),
                           of_sequence = sequence, of_payload = payload\<rparr>)
              | _ \<Rightarrow> Inl (Exn ValueError (lit ''SSE frame payload must be an object'')))
         | _ \<Rightarrow> Inl (Exn ValueError (lit ''SSE frame data must be a JSON object'')))))"

record sse_pending =
  sp_event_name :: "pystr option"
  sp_event_id :: "pystr option"
  sp_data_lines :: "pystr list"

definition no_pending :: sse_pending where
  "no_pending = \<lparr>sp_event_name = None, sp_event_id = None, sp_data_lines = []\<rparr>"

definition pending :: "sse_pending \<Rightarrow> bool" where
  "pending p \<longleftrightarrow> sp_event_name p \<noteq> None \<or> sp_data_lines p \<noteq> []"

text \<open>One line that is neither empty nor a comment.\<close>

definition sse_field :: "pystr \<Rightarrow> sse_pending \<Rightarrow> sse_pending" where
  "sse_field line p =
     (let fld = takeWhile (\<lambda>c. c \<noteq> 58) line; rest = dropWhile (\<lambda>c. c \<noteq> 58) line;
          value0 = drop 1 rest;
          val = (if rest \<noteq> [] \<and> prefix [32] value0 then drop 1 value0 else value0)
      in if fld = lit ''event'' then p\<lparr>sp_event_name := Some val\<rparr>
         else if fld = lit ''id'' then p\<lparr>sp_event_id := Some val\<rparr>
         else if fld = lit ''data'' then p\<lparr>sp_data_lines := sp_data_lines p @ [val]\<rparr>
         else p)"

text \<open>The generator: the frames it yields and the exception that ends it, if any.\<close>

fun parse_sse :: "py_text \<Rightarrow> sse_pending \<Rightarrow> pystr list \<Rightarrow> observed_frame list \<times> py_exn option" where
  "parse_sse tx p [] =
     (if pending p
      then (case decode_frame tx (sp_event_name p) (sp_event_id p) (sp_data_lines p) of
              Inl e \<Rightarrow> ([], Some e) | Inr f \<Rightarrow> ([f], None))
      else ([], None))"
| "parse_sse tx p (raw_line # lines) =
     (let line = strip_end (\<lambda>c. c = 13) raw_line
      in if line = [] then
           (if pending p
            then (case decode_frame tx (sp_event_name p) (sp_event_id p) (sp_data_lines p) of
                    Inl e \<Rightarrow> ([], Some e)
                  | Inr f \<Rightarrow> (case parse_sse tx no_pending lines of (fs, e) \<Rightarrow> (f # fs, e)))
            else parse_sse tx no_pending lines)
         else if prefix [58] line then parse_sse tx p lines
         else parse_sse tx (sse_field line p) lines)"

definition parse_sse_frames :: "py_text \<Rightarrow> pystr list \<Rightarrow> observed_frame list \<times> py_exn option" where
  "parse_sse_frames tx = parse_sse tx no_pending"

section \<open>The client\<close>

record api_client =
  ac_base_url :: pystr
  ac_timeout_seconds :: rat

definition new_api_client :: "pystr \<Rightarrow> rat \<Rightarrow> api_client res" where
  "new_api_client base_url timeout_seconds =
     (let normalized = strip_end (\<lambda>c. c = 47) base_url
      in if normalized = [] then Inl (Exn ValueError (lit ''base_url cannot be empty''))
         else if timeout_seconds \<le> 0 then Inl (Exn ValueError (lit ''timeout_seconds must be greater than zero''))
         else Inr \<lparr>ac_base_url = normalized, ac_timeout_seconds = timeout_seconds\<rparr>)"

text \<open>\<open>hp_json\<close> is \<open>None\<close> when the body is not JSON.\<close>

record http_response =
  hp_status :: int
  hp_content :: pystr
  hp_json :: "pyval option"

record 'w http_api =
  ht_request :: "pystr \<Rightarrow> pystr \<Rightarrow> pdict option \<Rightarrow> ('w, http_response) act"
  ht_stream :: "pystr \<Rightarrow> (pystr \<times> pystr) list \<Rightarrow> ('w, pystr) act"
  ht_lines :: "pystr \<Rightarrow> pystr list"

definition response_detail :: "repr \<Rightarrow> http_response \<Rightarrow> pystr option" where
  "response_detail rp r =
     (case hp_json r of
        Some (PDict payload) \<Rightarrow>
          (let detail = dget payload (lit ''detail'')
           in if truthy detail then Some (py_str rp detail) else None)
      | _ \<Rightarrow> None)"

text \<open>\<open>FranqApiError\<close> carries the status of the response.\<close>

definition request_json ::
  "repr \<Rightarrow> 'w http_api \<Rightarrow> api_client \<Rightarrow> string \<Rightarrow> pystr \<Rightarrow> pdict option \<Rightarrow> ('w, pyval) act" where
  "request_json rp ht c meth path json_body =
     mbind (ht_request ht (lit meth) (ac_base_url c @ path) json_body) (\<lambda>r.
       if 400 \<le> hp_status r \<and> hp_status r \<le> 599 then
         mraise (Exn (HTTPStatus (hp_status r))
           (case response_detail rp r of
              None \<Rightarrow> lit ''HTTP '' @ dec_int (hp_status r)
            | Some d \<Rightarrow> if d = [] then lit ''HTTP '' @ dec_int (hp_status r) else d))
       else if hp_status r = 204 \<or> hp_content r = [] then mret PNone
       else (case hp_json r of None \<Rightarrow> mraise (Exn ValueError (lit ''JSONDecodeError'')) | Some v \<Rightarrow> mret v))"

definition streamlit_metadata :: "pystr \<times> pyval" where
  "streamlit_metadata = (lit ''metadata'', PDict [(lit ''client'', PStr (lit ''streamlit''))])"

definition client_create_session :: "repr \<Rightarrow> 'w http_api \<Rightarrow> api_client \<Rightarrow> ('w, pyval) act" where
  "client_create_session rp ht c = request_json rp ht c ''POST'' (lit ''/sessions'') (Some [streamlit_metadata])"

definition client_start_session :: "repr \<Rightarrow> 'w http_api \<Rightarrow> api_client \<Rightarrow> pystr \<Rightarrow> ('w, pyval) act" where
  "client_start_session rp ht c question =
     request_json rp ht c ''POST'' (lit ''/sessions/start'')
       (Some [(lit ''question'', PStr question), streamlit_metadata])"

definition expect_list :: "string \<Rightarrow> pyval \<Rightarrow> ('w, pyval list) act" where
  "expect_list msg v = (case v of PList xs \<Rightarrow> mret xs | _ \<Rightarrow> mraise (Exn ValueError (lit msg)))"

definition client_list_sessions :: "repr \<Rightarrow> 'w http_api \<Rightarrow> api_client \<Rightarrow> int \<Rightarrow> int \<Rightarrow> ('w, pyval list) act" where
  "client_list_sessions rp ht c limit offset =
     (if limit < 1 then mraise (Exn ValueError (lit ''limit must be greater than zero''))
      else if offset < 0 then mraise (Exn ValueError (lit ''offset cannot be negative''))
      else mbind (request_json rp ht c ''GET''
                    (lit ''/sessions?limit='' @ dec_int limit @ lit ''&offset='' @ dec_int offset) None)
             (expect_list ''Expected the sessions endpoint to return a list''))"

definition client_get_session :: "repr \<Rightarrow> 'w http_api \<Rightarrow> api_client \<Rightarrow> pystr \<Rightarrow> ('w, pyval) act" where
  "client_get_session rp ht c session_id = request_json rp ht c ''GET'' (lit ''/sessions/'' @ session_id) None"

definition client_update_session_title ::
  "repr \<Rightarrow> 'w http_api \<Rightarrow> api_client \<Rightarrow> pystr \<Rightarrow> pystr \<Rightarrow> ('w, pyval) act" where
  "client_update_session_title rp ht c session_id title =
     request_json rp ht c ''PATCH'' (lit ''/sessions/'' @ session_id) (Some [(lit ''title'', PStr title)])"

definition client_delete_session :: "repr \<Rightarrow> 'w http_api \<Rightarrow> api_client \<Rightarrow> pystr \<Rightarrow> ('w, unit) act" where
  "client_delete_session rp ht c session_id =
     mbind (request_json rp ht c ''DELETE'' (lit ''/sessions/'' @ session_id) None) (\<lambda>_. mret ())"

definition client_list_executions :: "repr \<Rightarrow> 'w http_api \<Rightarrow> api_client \<Rightarrow> pystr \<Rightarrow> ('w, pyval list) act" where
  "client_list_executions rp ht c session_id =
     mbind (request_json rp ht c ''GET'' (lit ''/sessions/'' @ session_id @ lit ''/executions'') None)
       (expect_list ''Expected the executions endpoint to return a list'')"

definition client_create_execution :: "repr \<Rightarrow> 'w http_api \<Rightarrow> api_client \<Rightarrow> pystr \<Rightarrow> pystr \<Rightarrow> ('w, pyval) act" where
  "client_create_execution rp ht c session_id question =
     request_json rp ht c ''POST'' (lit ''/sessions/'' @ session_id @ lit ''/executions'')
       (Some [(lit ''question'', PStr question)])"

definition client_stop_execution :: "repr \<Rightarrow> 'w http_api \<Rightarrow> api_client \<Rightarrow> pystr \<Rightarrow> ('w, pyval) act" where
  "client_stop_execution rp ht c execution_id =
     request_json rp ht c ''POST'' (lit ''/executions/'' @ execution_id @ lit ''/cancel'') None"

definition client_get_execution :: "repr \<Rightarrow> 'w http_api \<Rightarrow> api_client \<Rightarrow> pystr \<Rightarrow> ('w, pyval) act" where
  "client_get_execution rp ht c execution_id =
     request_json rp ht c ''GET'' (lit ''/executions/'' @ execution_id) None"

definition client_get_trace :: "repr \<Rightarrow> 'w http_api \<Rightarrow> api_client \<Rightarrow> pystr \<Rightarrow> ('w, pyval list) act" where
  "client_get_trace rp ht c execution_id =
     mbind (request_json rp ht c ''GET'' (lit ''/executions/'' @ execution_id @ lit ''/trace'') None)
       (expect_list ''Expected the trace endpoint to return a list'')"

definition client_observe ::
  "py_text \<Rightarrow> 'w http_api \<Rightarrow> api_client \<Rightarrow> pystr \<Rightarrow> int option \<Rightarrow> ('w, observed_frame list \<times> py_exn option) act" where
  "client_observe tx ht c execution_id last_sequence =
     mbind (ht_stream ht (ac_base_url c @ lit ''/executions/'' @ execution_id @ lit ''/events'')
              ((lit ''Accept'', lit ''text/event-stream'')
               # (case last_sequence of None \<Rightarrow> [] | Some n \<Rightarrow> [(lit ''Last-Event-ID'', dec_int n)])))
       (\<lambda>body. mret (parse_sse_frames tx (ht_lines ht body)))"

end
