(* ===== verification/Sse_Props.thy ===== *)
theory Sse_Props
  imports Sse
begin

text \<open>
  The feed from the API to the interface: what the API writes, the client reads back frame by
  frame, as long as no text holds one of the three line separators that \<open>json.dumps\<close> leaves as
  they are and a line splitter takes for a line end. With one of them the feed breaks, which a
  theorem exhibits.
\<close>

section \<open>A dumped value is one line\<close>

definition separator :: "pychar \<Rightarrow> bool" where
  "separator c \<longleftrightarrow> c = 133 \<or> c = 8232 \<or> c = 8233"

fun one_line :: "(rat \<Rightarrow> pystr) \<Rightarrow> pyval \<Rightarrow> bool" where
  "one_line ft (PStr s) = (\<forall>c \<in> set s. \<not> separator c)"
| "one_line ft (PFloat r) = (\<forall>c \<in> set (ft r). \<not> line_break c)"
| "one_line ft (PList xs) = (\<forall>x \<in> set xs. one_line ft x)"
| "one_line ft (PTuple xs) = (\<forall>x \<in> set xs. one_line ft x)"
| "one_line ft (PDict d) = (\<forall>m \<in> set d. (\<forall>c \<in> set (fst m). \<not> separator c) \<and> one_line ft (snd m))"
| "one_line ft v = True"

lemma esc_char_line: "\<not> separator c \<Longrightarrow> x \<in> set (esc_char c) \<Longrightarrow> \<not> line_break x"
proof -
  assume s: "\<not> separator c" and x: "x \<in> set (esc_char c)"
  have "c mod 16 < 16" by simp
  moreover have "c < 32 \<Longrightarrow> c div 16 < 2" by (simp add: less_mult_imp_div_less)
  ultimately show ?thesis
    using s x by (auto simp: esc_char_def hex_digit_def line_break_def separator_def split: if_splits)
qed

lemma ascii_lines [simp]:
  "\<not> line_break 34" "\<not> line_break 44" "\<not> line_break 58" "\<not> line_break 32" "\<not> line_break 91"
  "\<not> line_break 93" "\<not> line_break 123" "\<not> line_break 125"
  "c \<in> set (lit ''null'') \<Longrightarrow> \<not> line_break c" "c \<in> set (lit ''true'') \<Longrightarrow> \<not> line_break c"
  "c \<in> set (lit ''false'') \<Longrightarrow> \<not> line_break c" "c \<in> set (lit '', '') \<Longrightarrow> \<not> line_break c"
  "c \<in> set (lit '': '') \<Longrightarrow> \<not> line_break c"
  by (auto simp: line_break_def lit_def)

lemma json_quote_line: "\<forall>c \<in> set s. \<not> separator c \<Longrightarrow> x \<in> set (json_quote s) \<Longrightarrow> \<not> line_break x"
  using esc_char_line by (auto simp: json_quote_def)

lemma dec_int_line: "x \<in> set (dec_int i) \<Longrightarrow> \<not> line_break x"
  by (auto dest!: dec_int_chars simp: line_break_def)

lemma style_simps [simp]: "item_sep (default_style ft) = lit '', ''" "key_sep (default_style ft) = lit '': ''"
  "ftext (default_style ft) = ft"
  by (simp_all add: default_style_def)

lemma dumps_line:
  shows "st = default_style ft \<Longrightarrow> one_line ft v \<Longrightarrow> x \<in> set (json_dumps st v) \<Longrightarrow> \<not> line_break x"
    and "st = default_style ft \<Longrightarrow> \<forall>v \<in> set xs. one_line ft v \<Longrightarrow> x \<in> set (json_items st xs) \<Longrightarrow> \<not> line_break x"
    and "st = default_style ft \<Longrightarrow> \<forall>m \<in> set ms. (\<forall>c \<in> set (fst m). \<not> separator c) \<and> one_line ft (snd m)
           \<Longrightarrow> x \<in> set (json_members st ms) \<Longrightarrow> \<not> line_break x"
proof (induction st v and st xs and st ms rule: json_dumps_json_items_json_members.induct)
  case (13 st k v)
  then show ?case using json_quote_line[of k x] by auto
next
  case (14 st k v m ms)
  then show ?case using json_quote_line[of k x] by auto
qed (auto split: if_splits dest: json_quote_line dec_int_line)

lemma key_lines:
  "\<forall>c \<in> set (lit ''execution_id''). \<not> separator c" "\<forall>c \<in> set (lit ''type''). \<not> separator c"
  "\<forall>c \<in> set (lit ''sequence''). \<not> separator c" "\<forall>c \<in> set (lit ''payload''). \<not> separator c"
  "\<forall>c \<in> set (lit ''created_at''). \<not> separator c"
  by (simp_all add: lit_def separator_def)

lemma line_break_separator: "\<not> line_break c \<Longrightarrow> \<not> separator c"
  by (auto simp: line_break_def separator_def)

section \<open>One frame\<close>

lemma strip_cr: "\<forall>c \<in> set s. \<not> line_break c \<Longrightarrow> strip_end (\<lambda>c. c = 13) s = s"
proof -
  assume "\<forall>c \<in> set s. \<not> line_break c"
  moreover have "line_break 13" by (simp add: line_break_def)
  ultimately have "13 \<notin> set s" by blast
  then have "dropWhile (\<lambda>c. c = 13) (rev s) = rev s" by (intro dropWhile_not_hd) (metis hd_in_set set_rev)
  then show ?thesis by (simp add: strip_end_def)
qed

lemma field_line:
  assumes "58 \<notin> set k"
  shows "sse_field (k @ 58 # 32 # v) p =
     (if k = lit ''event'' then p\<lparr>sp_event_name := Some v\<rparr>
      else if k = lit ''id'' then p\<lparr>sp_event_id := Some v\<rparr>
      else if k = lit ''data'' then p\<lparr>sp_data_lines := sp_data_lines p @ [v]\<rparr> else p)"
proof -
  have "takeWhile (\<lambda>c. c \<noteq> 58) (k @ 58 # 32 # v) = k" "dropWhile (\<lambda>c. c \<noteq> 58) (k @ 58 # 32 # v) = 58 # 32 # v"
    using assms by (simp_all add: takeWhile_append dropWhile_append)
  then show ?thesis by (simp add: sse_field_def)
qed

lemma parse_field_line:
  assumes "58 \<notin> set k" and "k \<noteq> []" and "\<forall>c \<in> set (k @ v). \<not> line_break c"
  shows "parse_sse tx p ((k @ 58 # 32 # v) # lines) = parse_sse tx (sse_field (k @ 58 # 32 # v) p) lines"
proof -
  have "strip_end (\<lambda>c. c = 13) (k @ 58 # 32 # v) = k @ 58 # 32 # v"
    using assms(3) by (intro strip_cr) (auto simp: line_break_def)
  moreover have "\<not> prefix [58] (k @ 58 # 32 # v)" using assms(1,2) by (cases k) auto
  ultimately show ?thesis by simp
qed

definition observed :: "exec_frame \<Rightarrow> observed_frame" where
  "observed fr = \<lparr>of_execution_id = fr_execution_id fr, of_type = fr_type fr,
     of_sequence = fr_sequence fr, of_payload = fr_payload fr\<rparr>"

text \<open>The frames of the observer: named, of a one-line type, with a payload JSON can carry.\<close>

definition frame_ok :: "(rat \<Rightarrow> pystr) \<Rightarrow> (rat \<Rightarrow> bool) \<Rightarrow> exec_frame \<Rightarrow> bool" where
  "frame_ok ft fok fr \<longleftrightarrow> fr_execution_id fr \<noteq> [] \<and> fr_type fr \<noteq> []
     \<and> (\<forall>c \<in> set (fr_type fr). \<not> line_break c) \<and> (\<forall>c \<in> set (fr_execution_id fr). \<not> separator c)
     \<and> json_ok fok (PDict (fr_payload fr)) \<and> one_line ft (PDict (fr_payload fr))"

lemma frame_dump_gets [simp]:
  "dget (frame_dump t fr) (lit ''payload'') = PDict (fr_payload fr)"
  "dget (frame_dump t fr) (lit ''sequence'') = opt_int (fr_sequence fr)"
  "dget (frame_dump t fr) (lit ''type'') = PStr (fr_type fr)"
  "dget (frame_dump t fr) (lit ''execution_id'') = PStr (fr_execution_id fr)"
  by (simp_all add: frame_dump_def dict_simps)

lemma py_or_dict [simp]: "py_or (PDict d) (PDict []) = PDict d"
  by (simp add: py_or_def)

lemma decode_dumped:
  assumes "floats_ok (default_style (tx_float tx)) (tx_read tx) fok" and "frame_ok (tx_float tx) fok fr"
    and i: "fr_sequence fr = None \<longrightarrow> i = None"
  shows "decode_frame tx (Some (fr_type fr)) i [dumps tx (PDict (frame_dump created_at fr))] = Inr (observed fr)"
proof -
  have "json_ok fok (PDict (frame_dump created_at fr))"
    using assms(2) by (auto simp: frame_dump_def frame_ok_def opt_int_def split: option.splits)
  note ld = loads_dumps[OF assms(1) this]
  have ne: "fr_type fr \<noteq> []" "fr_execution_id fr \<noteq> []" using assms(2) by (auto simp: frame_ok_def)
  show ?thesis
    using i ne by (cases "fr_sequence fr") (simp_all add: decode_frame_def ld opt_int_def observed_def)
qed

lemma frame_dump_line:
  assumes "frame_ok ft fok fr" and "\<forall>c \<in> set created_at. \<not> separator c"
  shows "one_line ft (PDict (frame_dump created_at fr))"
  using assms key_lines line_break_separator
  by (simp add: frame_dump_def frame_ok_def opt_int_def split: option.split)

lemma parse_formatted:
  assumes fl: "floats_ok (default_style (tx_float tx)) (tx_read tx) fok" and ok: "frame_ok (tx_float tx) fok fr"
    and cr: "\<forall>c \<in> set created_at. \<not> separator c"
  shows "parse_sse_frames tx (py_splitlines (format_sse tx created_at fr @ rest)) =
     (case parse_sse_frames tx (py_splitlines rest) of (fs, e) \<Rightarrow> (observed fr # fs, e))"
proof -
  let ?data = "dumps tx (PDict (frame_dump created_at fr))"
  have data: "\<forall>c \<in> set ?data. \<not> line_break c"
    unfolding dumps_def using dumps_line(1)[OF refl frame_dump_line[OF ok cr]] by blast
  have ty: "\<forall>c \<in> set (fr_type fr). \<not> line_break c" using ok by (simp add: frame_ok_def)
  have ev: "\<forall>c \<in> set (lit ''event'' @ 58 # 32 # fr_type fr). \<not> line_break c"
    and da: "\<forall>c \<in> set (lit ''data'' @ 58 # 32 # ?data). \<not> line_break c"
    using ty data by (auto simp: lit_def line_break_def)
  have heads: "lit ''event: '' = lit ''event'' @ [58, 32]" "lit ''data: '' = lit ''data'' @ [58, 32]"
    "lit ''id: '' = lit ''id'' @ [58, 32]" by (simp_all add: lit_def)
  have names: "58 \<notin> set (lit ''event'')" "58 \<notin> set (lit ''data'')" "58 \<notin> set (lit ''id'')"
    "\<forall>c \<in> set (lit ''event'' @ fr_type fr). \<not> line_break c" "\<forall>c \<in> set (lit ''data'' @ ?data). \<not> line_break c"
    using ty data by (auto simp: lit_def line_break_def)
  let ?tail = "(lit ''event'' @ 58 # 32 # fr_type fr) @ 10 # (lit ''data'' @ 58 # 32 # ?data) @ 10 # 10 # rest"
  have nl: "py_splitlines (10 # rest) = [] # py_splitlines rest" using splitlines_line[of "[]" rest] by simp
  have lines: "py_splitlines ?tail
      = (lit ''event'' @ 58 # 32 # fr_type fr) # (lit ''data'' @ 58 # 32 # ?data) # [] # py_splitlines rest"
    by (simp only: splitlines_line[OF ev] splitlines_line[OF da] nl)
  have core: "parse_sse tx \<lparr>sp_event_name = None, sp_event_id = i, sp_data_lines = []\<rparr> (py_splitlines ?tail)
      = (case parse_sse_frames tx (py_splitlines rest) of (fs, e) \<Rightarrow> (observed fr # fs, e))"
    if "fr_sequence fr = None \<longrightarrow> i = None" for i
  proof -
    let ?p = "\<lparr>sp_event_name = Some (fr_type fr), sp_event_id = i, sp_data_lines = [?data]\<rparr>"
    have "parse_sse tx \<lparr>sp_event_name = None, sp_event_id = i, sp_data_lines = []\<rparr> (py_splitlines ?tail)
        = parse_sse tx ?p ([] # py_splitlines rest)"
      unfolding lines
      by (subst parse_field_line[OF names(1) _ names(4)], simp, subst parse_field_line[OF names(2) _ names(5)], simp)
         (simp add: field_line[OF names(1)] field_line[OF names(2)] del: parse_sse.simps(2))
    also have "\<dots> = (case parse_sse_frames tx (py_splitlines rest) of (fs, e) \<Rightarrow> (observed fr # fs, e))"
      using decode_dumped[OF fl ok that, of created_at] by (simp add: strip_end_def pending_def parse_sse_frames_def)
    finally show ?thesis .
  qed
  show ?thesis
  proof (cases "fr_sequence fr")
    case None
    then have "format_sse tx created_at fr @ rest = ?tail" by (simp add: format_sse_def heads Let_def)
    with core[of None] None show ?thesis by (simp add: parse_sse_frames_def no_pending_def)
  next
    case (Some n)
    then have f: "format_sse tx created_at fr @ rest = (lit ''id'' @ 58 # 32 # dec_int n) @ 10 # ?tail"
      by (simp add: format_sse_def heads Let_def)
    have il: "\<forall>c \<in> set (lit ''id'' @ 58 # 32 # dec_int n). \<not> line_break c"
      and idn: "\<forall>c \<in> set (lit ''id'' @ dec_int n). \<not> line_break c"
      by (auto simp: lit_def line_break_def dest: dec_int_chars)
    show ?thesis
      unfolding f splitlines_line[OF il] parse_sse_frames_def no_pending_def
      by (subst parse_field_line[OF names(3) _ idn], simp)
         (use core[of "Some (dec_int n)"] Some in \<open>simp add: field_line[OF names(3)] no_pending_def
            parse_sse_frames_def del: parse_sse.simps(2) append_assoc append_Cons\<close>)
  qed
qed

section \<open>The feed\<close>

text \<open>
  C14. What the API streams the client reads back, frame by frame: for every sequence of frames whose
  texts hold no U+0085, U+2028 or U+2029, the parser applied to the lines of the streamed body
  yields the same executions, types, sequences and payloads in the same order and raises nothing. The
  HTTP library is assumed to cut the body like \<open>str.splitlines\<close>, as it documents.
\<close>
theorem sse_round_trip:
  assumes "\<And>s. ht_lines ht s = py_splitlines s"
    and "floats_ok (default_style (tx_float tx)) (tx_read tx) fok"
    and "\<forall>fr \<in> set frames. frame_ok (tx_float tx) fok fr" and "\<forall>c \<in> set created_at. \<not> separator c"
  shows "parse_sse_frames tx (ht_lines ht (concat (map (format_sse tx created_at) frames))) = (map observed frames, None)"
proof -
  have "parse_sse_frames tx (py_splitlines (concat (map (format_sse tx created_at) frames))) = (map observed frames, None)"
    using assms(3)
  proof (induction frames)
    case Nil
    show ?case by (simp add: parse_sse_frames_def no_pending_def pending_def)
  next
    case (Cons fr frames)
    with parse_formatted[OF assms(2) _ assms(4), of fr "concat (map (format_sse tx created_at) frames)"]
    show ?case by simp
  qed
  with assms(1) show ?thesis by simp
qed

definition ex_feed :: "exec_frame list" where
  "ex_feed =
     [\<lparr>fr_execution_id = lit ''e1'', fr_type = EXECUTION_STATE_FRAME, fr_sequence = None,
       fr_payload = [(lit ''phase'', PStr (lit ''accepted''))]\<rparr>,
      \<lparr>fr_execution_id = lit ''e1'', fr_type = lit ''answer.delta'', fr_sequence = Some 7,
       fr_payload = [(lit ''text'', PStr (10 # lit ''a: b''))]\<rparr>]"

definition ex_http :: "unit http_api" where
  "ex_http = \<lparr>ht_request = (\<lambda>_ _ _. mraise (Exn RuntimeError [])), ht_stream = (\<lambda>_ _. mraise (Exn RuntimeError [])),
     ht_lines = py_splitlines\<rparr>"

definition ex_tx :: py_text where
  "ex_tx = \<lparr>tx_repr = (\<lambda>_. []), tx_float = (\<lambda>_. []), tx_read = (\<lambda>_. 0)\<rparr>"

theorem sse_round_trip_witness:
  "parse_sse_frames ex_tx (ht_lines ex_http (concat (map (format_sse ex_tx (lit ''t'')) ex_feed))) = (map observed ex_feed, None)"
proof (rule sse_round_trip[where fok = "\<lambda>_. False"])
  show "\<forall>fr \<in> set ex_feed. frame_ok (tx_float ex_tx) (\<lambda>_. False) fr"
    by (simp add: ex_feed_def frame_ok_def EXECUTION_STATE_FRAME_def lit_def line_break_def separator_def)
qed (simp_all add: ex_http_def lit_def separator_def)

definition separator_feed :: "exec_frame list" where
  "separator_feed =
     [\<lparr>fr_execution_id = lit ''e1'', fr_type = lit ''answer.delta'', fr_sequence = Some 1,
       fr_payload = [(lit ''text'', PStr [8232])]\<rparr>]"

lemma splitlines_cut:
  assumes "\<forall>c \<in> set a. \<not> line_break c"
  shows "py_splitlines (a @ 8232 # d # r) = a # py_splitlines (d # r)"
proof -
  have "\<exists>c cs. a @ 8232 # d # r = c # cs" by (cases a) auto
  then obtain c cs where eq: "a @ 8232 # d # r = c # cs" by blast
  have t: "takeWhile (\<lambda>x. \<not> line_break x) (a @ 8232 # d # r) = a"
    and d: "dropWhile (\<lambda>x. \<not> line_break x) (a @ 8232 # d # r) = 8232 # d # r"
    using assms by (simp_all add: takeWhile_append dropWhile_append line_break_def)
  show ?thesis by (subst eq, subst py_splitlines.simps(2), fold eq) (simp add: t d)
qed

definition cut_before :: pystr where
  "cut_before = lit ''{'' @ json_quote (lit ''execution_id'') @ lit '': '' @ json_quote (lit ''e1'') @ lit '', ''
     @ json_quote (lit ''type'') @ lit '': '' @ json_quote (lit ''answer.delta'') @ lit '', ''
     @ json_quote (lit ''sequence'') @ lit '': '' @ dec_int 1 @ lit '', '' @ json_quote (lit ''payload'') @ lit '': {''
     @ json_quote (lit ''text'') @ lit '': '' @ [34]"

definition cut_after :: pystr where
  "cut_after = 34 # lit ''}, '' @ json_quote (lit ''created_at'') @ lit '': '' @ json_quote (lit ''t'') @ lit ''}''"

lemma separator_text:
  "format_sse tx (lit ''t'') (hd separator_feed)
     = lit ''id: 1'' @ 10 # lit ''event: answer.delta'' @ 10 # (lit ''data: '' @ cut_before) @ 8232 # cut_after @ [10, 10]"
  by (simp add: separator_feed_def format_sse_def frame_dump_def dumps_def cut_before_def cut_after_def opt_int_def
      lit_def json_quote_def esc_char_def dec_int_def dec_nat.simps)

lemma cut_lines: "\<forall>c \<in> set cut_before. \<not> line_break c" "\<forall>c \<in> set cut_after. \<not> line_break c"
  by (simp_all add: cut_before_def cut_after_def json_quote_def esc_char_def lit_def line_break_def dec_int_def
      dec_nat.simps)

lemma cut_unreadable: "json_loads fv cut_before = None"
  by code_simp

text \<open>
  C15. A line separator inside a text breaks the feed: a delta that consists of U+2028, which
  \<open>json.dumps\<close> leaves unescaped, is cut in two by the client's line splitter, the frame is lost
  and the client's parser raises \<open>ValueError\<close>.
\<close>
theorem sse_separator_breaks:
  assumes "\<And>s. ht_lines ht s = py_splitlines s"
  shows "\<exists>msg. parse_sse_frames tx (ht_lines ht (concat (map (format_sse tx (lit ''t'')) separator_feed)))
           = ([], Some (Exn ValueError msg))"
proof -
  let ?id = "lit ''id: 1''" and ?event = "lit ''event: answer.delta''" and ?data = "lit ''data: '' @ cut_before"
  have body: "concat (map (format_sse tx (lit ''t'')) separator_feed)
      = ?id @ 10 # ?event @ 10 # ?data @ 8232 # cut_after @ 10 # [10]"
    using separator_text[of tx] by (simp add: separator_feed_def)
  have ln: "\<forall>c \<in> set ?id. \<not> line_break c" "\<forall>c \<in> set ?event. \<not> line_break c" "\<forall>c \<in> set ?data. \<not> line_break c"
    using cut_lines by (simp_all add: lit_def line_break_def)
  obtain d r where dr: "cut_after = d # r" by (simp add: cut_after_def)
  have nl: "py_splitlines [10] = [[]]" using splitlines_line[of "[]" "[]"] by simp
  have rest: "py_splitlines (cut_after @ 10 # [10]) = [cut_after, []]"
    by (simp only: splitlines_line[OF cut_lines(2)] nl)
  have cut: "py_splitlines (?data @ 8232 # cut_after @ 10 # [10]) = [?data, cut_after, []]"
    using splitlines_cut[OF ln(3), of d "r @ 10 # [10]"] rest by (simp add: dr)
  have lines: "py_splitlines (concat (map (format_sse tx (lit ''t'')) separator_feed)) = [?id, ?event, ?data, cut_after, []]"
    unfolding body splitlines_line[OF ln(1)] splitlines_line[OF ln(2)] cut by (rule refl)
  let ?p = "\<lparr>sp_event_name = Some (lit ''answer.delta''), sp_event_id = Some (lit ''1''), sp_data_lines = [cut_before]\<rparr>"
  have "parse_sse tx no_pending [?id, ?event, ?data, cut_after, []] = parse_sse tx ?p [cut_after, []]"
    using parse_field_line[of "lit ''id''" "lit ''1''" tx] parse_field_line[of "lit ''event''" "lit ''answer.delta''" tx]
      parse_field_line[of "lit ''data''" cut_before tx] cut_lines(1)
      field_line[of "lit ''id''" "lit ''1''"] field_line[of "lit ''event''" "lit ''answer.delta''"]
      field_line[of "lit ''data''" cut_before]
    by (simp add: lit_def line_break_def no_pending_def del: parse_sse.simps(2))
  also have "\<dots> = parse_sse tx ?p [[]]"
    by (simp add: cut_after_def json_quote_def esc_char_def lit_def strip_end_def sse_field_def)
  also have "\<dots> = ([], Some (Exn ValueError (lit ''JSONDecodeError'')))"
    by (simp add: strip_end_def pending_def decode_frame_def loads_def cut_unreadable)
  finally show ?thesis unfolding assms lines parse_sse_frames_def by blast
qed

theorem sse_separator_breaks_witness:
  "\<exists>msg. parse_sse_frames ex_tx (ht_lines ex_http (concat (map (format_sse ex_tx (lit ''t'')) separator_feed)))
     = ([], Some (Exn ValueError msg))"
  by (rule sse_separator_breaks) (simp add: ex_http_def)

end
