(* ===== verification/Unicode.thy ===== *)
theory Unicode
  imports PyValue
begin

text \<open>
  The parts of Python's Unicode tables the program uses: upper case and case folding, which map a
  code point to a text, the characters \<open>\w\<close> matches and the folding \<open>re.IGNORECASE\<close> compares with. The
  tables are a parameter; \<open>ascii_tables\<close> says what they are on ASCII.
\<close>

record unicode =
  un_upper :: "pychar \<Rightarrow> pystr"
  un_casefold :: "pychar \<Rightarrow> pystr"
  un_word :: "pychar \<Rightarrow> bool"
  un_same :: "pychar \<Rightarrow> pychar"

definition to_upper :: "unicode \<Rightarrow> pystr \<Rightarrow> pystr" where
  "to_upper u s = concat (map (un_upper u) s)"

definition casefold :: "unicode \<Rightarrow> pystr \<Rightarrow> pystr" where
  "casefold u s = concat (map (un_casefold u) s)"

definition ascii_up :: "pychar \<Rightarrow> pychar" where
  "ascii_up c = (if 97 \<le> c \<and> c \<le> 122 then c - 32 else c)"

definition ascii_down :: "pychar \<Rightarrow> pychar" where
  "ascii_down c = (if 65 \<le> c \<and> c \<le> 90 then c + 32 else c)"

definition ascii_word :: "pychar \<Rightarrow> bool" where
  "ascii_word c \<longleftrightarrow> (48 \<le> c \<and> c \<le> 57) \<or> (65 \<le> c \<and> c \<le> 90) \<or> c = 95 \<or> (97 \<le> c \<and> c \<le> 122)"

definition ascii_tables :: "unicode \<Rightarrow> bool" where
  "ascii_tables u \<longleftrightarrow>
     (\<forall>c < 128. un_upper u c = [ascii_up c] \<and> un_casefold u c = [ascii_down c]
        \<and> (un_word u c \<longleftrightarrow> ascii_word c) \<and> un_same u c = ascii_down c)"

text \<open>The tables of a program that only meets ASCII.\<close>

definition ascii_unicode :: unicode where
  "ascii_unicode = \<lparr>un_upper = (\<lambda>c. [ascii_up c]), un_casefold = (\<lambda>c. [ascii_down c]),
     un_word = ascii_word, un_same = ascii_down\<rparr>"

lemma ascii_unicode_tables [simp]: "ascii_tables ascii_unicode"
  by (simp add: ascii_tables_def ascii_unicode_def)

lemma casefold_append: "casefold u (a @ b) = casefold u a @ casefold u b"
  and to_upper_append: "to_upper u (a @ b) = to_upper u a @ to_upper u b"
  by (simp_all add: casefold_def to_upper_def)

lemma casefold_Nil [simp]: "casefold u [] = []" and to_upper_Nil [simp]: "to_upper u [] = []"
  by (simp_all add: casefold_def to_upper_def)

end
