(* ===== verification/Tools.thy ===== *)
theory Tools
  imports Effects Unicode
begin

text \<open>
  The tools an agent may call: the registry (\<open>tools/registry.py\<close>) and the database tool
  (\<open>tools/database\<close>), with the gate that lets only read-only statements through. SQLite and the clock
  are parameters (\<open>sqlite_api\<close>), as is the thread the blocking calls run on.
\<close>

section \<open>The registry\<close>

record 'w tool =
  tl_name :: pystr
  tl_description :: pystr
  tl_input_schema :: pdict
  tl_invoke :: "pdict \<Rightarrow> ('w, pyval) act"

type_synonym 'w tool_registry = "(pystr \<times> 'w tool) list"

definition new_tool_registry :: "'w tool list \<Rightarrow> 'w tool_registry" where
  "new_tool_registry tools = fold (\<lambda>t r. AList.update (tl_name t) t r) tools []"

definition tool_register :: "'w tool \<Rightarrow> 'w tool_registry \<Rightarrow> 'w tool_registry res" where
  "tool_register t r =
     (if map_of r (tl_name t) \<noteq> None then Inl (Exn ValueError (lit ''Tool already registered: '' @ tl_name t))
      else Inr (r @ [(tl_name t, t)]))"

definition tool_get :: "'w tool_registry \<Rightarrow> pystr \<Rightarrow> 'w tool res" where
  "tool_get r name =
     (case map_of r name of None \<Rightarrow> Inl (Exn KeyError (lit ''Unknown tool: '' @ name)) | Some t \<Rightarrow> Inr t)"

definition tool_all :: "'w tool_registry \<Rightarrow> 'w tool list" where
  "tool_all r = map snd r"

section \<open>Read-only SQL\<close>

definition FORBIDDEN :: "pystr list" where
  "FORBIDDEN = [lit ''INSERT'', lit ''UPDATE'', lit ''DELETE'', lit ''DROP'', lit ''ALTER'', lit ''CREATE'',
     lit ''REPLACE'', lit ''TRUNCATE'', lit ''ATTACH'', lit ''DETACH'', lit ''VACUUM'', lit ''REINDEX'']"

text \<open>\<open>\b\<close> between two neighbours, either of which may be missing.\<close>

definition word_boundary :: "unicode \<Rightarrow> pychar option \<Rightarrow> pychar option \<Rightarrow> bool" where
  "word_boundary u a b \<longleftrightarrow>
     (case a of None \<Rightarrow> False | Some c \<Rightarrow> un_word u c) \<noteq> (case b of None \<Rightarrow> False | Some c \<Rightarrow> un_word u c)"

definition head_of :: "pystr \<Rightarrow> pychar option" where
  "head_of s = (case s of [] \<Rightarrow> None | c # _ \<Rightarrow> Some c)"

definition last_of :: "pystr \<Rightarrow> pychar option" where
  "last_of s = head_of (rev s)"

definition keyword_at :: "unicode \<Rightarrow> pychar option \<Rightarrow> pystr \<Rightarrow> pystr \<Rightarrow> bool" where
  "keyword_at u prev s kw \<longleftrightarrow>
     (let hit = take (length kw) s
      in map (un_same u) hit = map (un_same u) kw \<and> word_boundary u prev (head_of s)
         \<and> word_boundary u (last_of hit) (head_of (drop (length kw) s)))"

fun forbidden_from :: "unicode \<Rightarrow> pychar option \<Rightarrow> pystr \<Rightarrow> bool" where
  "forbidden_from u prev [] \<longleftrightarrow> False"
| "forbidden_from u prev (c # cs) \<longleftrightarrow>
     (\<exists>kw \<in> set FORBIDDEN. keyword_at u prev (c # cs) kw) \<or> forbidden_from u (Some c) cs"

definition validate_read_only_sql :: "unicode \<Rightarrow> pystr \<Rightarrow> pystr res" where
  "validate_read_only_sql u sql =
     (let candidate = py_strip sql
      in if candidate = [] then Inl (Exn UnsafeQueryError (lit ''SQL cannot be empty''))
         else (let statement = (if last candidate = 59 then py_rstrip (butlast candidate) else candidate)
               in if 59 \<in> set statement
                  then Inl (Exn UnsafeQueryError (lit ''Only one SQL statement is allowed''))
                  else if forbidden_from u None statement
                  then Inl (Exn UnsafeQueryError (lit ''Only read-only SQL is allowed''))
                  else (let normalized = to_upper u (py_lstrip statement)
                        in if prefix (lit ''SELECT'') normalized \<or> prefix (lit ''WITH'') normalized
                           then Inr statement
                           else Inl (Exn UnsafeQueryError (lit ''Query must start with SELECT or WITH'')))))"

section \<open>SQLite\<close>

text \<open>
  A read-only connection. \<open>sq_query sql n\<close> executes a statement and fetches at most \<open>n\<close> rows, each row
  as the dictionary of its columns, with the column names of the cursor's description.
\<close>

record 'w sqlite_api =
  sq_monotonic :: "('w, rat) act"
  sq_open :: "('w, unit) act"
  sq_close :: "('w, unit) act"
  sq_set_handler :: "nat option \<Rightarrow> ('w, unit) act"
  sq_query :: "pystr \<Rightarrow> nat \<Rightarrow> ('w, pdict list \<times> pystr list) act"
  sq_fetch_all :: "pystr \<Rightarrow> ('w, pdict list) act"

record user_database_config =
  ud_query_timeout_seconds :: rat
  ud_max_rows :: nat
  ud_progress_handler_steps :: nat

record query_result =
  qr_columns :: "pystr list"
  qr_rows :: "pdict list"
  qr_truncated :: bool

definition open_read_only_connection :: "'w sqlite_api \<Rightarrow> ('w, 'a) act \<Rightarrow> ('w, 'a) act" where
  "open_read_only_connection sq body = mbind (sq_open sq) (\<lambda>_. mfinally body (sq_close sq))"

definition query_execute ::
  "unicode \<Rightarrow> user_database_config \<Rightarrow> 'w sqlite_api \<Rightarrow> pystr \<Rightarrow> ('w, query_result) act" where
  "query_execute u cfg sq sql =
     mbind (mlift (validate_read_only_sql u sql)) (\<lambda>safe_sql.
     mbind (sq_monotonic sq) (\<lambda>start.
     let deadline = start + ud_query_timeout_seconds cfg
     in open_read_only_connection sq
          (mbind (sq_set_handler sq (Some (ud_progress_handler_steps cfg))) (\<lambda>_.
           mbind (mfinally
                    (mexcept (sq_query sq safe_sql (ud_max_rows cfg + 1))
                       (\<lambda>e. mbind (sq_monotonic sq) (\<lambda>now.
                          if deadline \<le> now
                          then mraise (Exn QueryTimeoutError (lit ''SQLite query exceeded the configured timeout''))
                          else mraise e)))
                    (sq_set_handler sq None)) (\<lambda>(raw_rows, columns).
             mret \<lparr>qr_columns = columns, qr_rows = take (ud_max_rows cfg) raw_rows,
                   qr_truncated = (ud_max_rows cfg < length raw_rows)\<rparr>)))))"

record column_schema =
  cs_name :: pystr
  cs_data_type :: pystr
  cs_nullable :: bool
  cs_primary_key :: bool

record table_schema =
  ts_name :: pystr
  ts_columns :: "column_schema list"

text \<open>The catalogue query, up to its layout.\<close>

definition table_names_sql :: pystr where
  "table_names_sql = lit ''SELECT name FROM sqlite_master WHERE type = '' @ [39] @ lit ''table'' @ [39]
     @ lit '' AND name NOT LIKE '' @ [39] @ lit ''sqlite_%'' @ [39] @ lit '' ORDER BY name''"

text \<open>\<open>name.replace("'", "''")\<close> between two quotes.\<close>

definition escape_quotes :: "pystr \<Rightarrow> pystr" where
  "escape_quotes s = concat (map (\<lambda>c. if c = 39 then [39, 39] else [c]) s)"

definition table_info_sql :: "pystr \<Rightarrow> pystr" where
  "table_info_sql name = lit ''PRAGMA table_info('' @ [39] @ escape_quotes name @ [39] @ lit '')''"

definition row_get :: "pdict \<Rightarrow> string \<Rightarrow> pyval res" where
  "row_get row k = (case map_of row (lit k) of None \<Rightarrow> Inl (Exn (OtherError (lit ''IndexError'')) []) | Some v \<Rightarrow> Inr v)"

definition read_column :: "repr \<Rightarrow> pdict \<Rightarrow> column_schema res" where
  "read_column rp column =
     rbind (row_get column ''name'') (\<lambda>n. rbind (row_get column ''type'') (\<lambda>t.
     rbind (row_get column ''notnull'') (\<lambda>nn. rbind (row_get column ''pk'') (\<lambda>pk.
       Inr \<lparr>cs_name = py_str rp n, cs_data_type = py_str rp t, cs_nullable = (\<not> truthy nn),
            cs_primary_key = truthy pk\<rparr>))))"

definition inspect_table :: "repr \<Rightarrow> 'w sqlite_api \<Rightarrow> pdict \<Rightarrow> ('w, table_schema) act" where
  "inspect_table rp sq table_row =
     mbind (mlift (row_get table_row ''name'')) (\<lambda>n.
     let table_name = py_str rp n
     in mbind (sq_fetch_all sq (table_info_sql table_name)) (\<lambda>columns.
        mbind (mlift (mapM_res (read_column rp) columns)) (\<lambda>cs.
          mret \<lparr>ts_name = table_name, ts_columns = cs\<rparr>)))"

definition schema_inspect :: "repr \<Rightarrow> 'w sqlite_api \<Rightarrow> ('w, table_schema list) act" where
  "schema_inspect rp sq =
     open_read_only_connection sq
       (mbind (sq_fetch_all sq table_names_sql) (\<lambda>table_rows. mmap (inspect_table rp sq) table_rows))"

section \<open>The database tool\<close>

text \<open>\<open>asdict\<close> keeps tuples as tuples.\<close>

definition column_dict :: "column_schema \<Rightarrow> pyval" where
  "column_dict c = PDict [(lit ''name'', PStr (cs_name c)), (lit ''data_type'', PStr (cs_data_type c)),
     (lit ''nullable'', PBool (cs_nullable c)), (lit ''primary_key'', PBool (cs_primary_key c))]"

definition table_dict :: "table_schema \<Rightarrow> pyval" where
  "table_dict t = PDict [(lit ''name'', PStr (ts_name t)), (lit ''columns'', PTuple (map column_dict (ts_columns t)))]"

definition result_dict :: "query_result \<Rightarrow> pyval" where
  "result_dict r = PDict [(lit ''columns'', PTuple (map PStr (qr_columns r))),
     (lit ''rows'', PTuple (map PDict (qr_rows r))), (lit ''truncated'', PBool (qr_truncated r))]"

definition database_invoke ::
  "unicode \<Rightarrow> repr \<Rightarrow> user_database_config \<Rightarrow> 'w sqlite_api \<Rightarrow> pdict \<Rightarrow> ('w, pyval) act" where
  "database_invoke u rp cfg sq arguments =
     (let action = dget arguments (lit ''action'')
      in if action = PStr (lit ''inspect_schema'')
         then mbind (schema_inspect rp sq) (\<lambda>schema. mret (PList (map table_dict schema)))
         else if action = PStr (lit ''query'')
         then mbind (query_execute u cfg sq (py_str rp (dget_or arguments (lit ''sql'') (PStr [])))) (\<lambda>r.
                mret (result_dict r))
         else mraise (Exn ValueError (lit ''Unsupported database action: '' @ rp action)))"

definition database_schema :: pdict where
  "database_schema =
     [(lit ''type'', PStr (lit ''object'')),
      (lit ''properties'', PDict
        [(lit ''action'', PDict
           [(lit ''type'', PStr (lit ''string'')),
            (lit ''enum'', PList [PStr (lit ''inspect_schema''), PStr (lit ''query'')]),
            (lit ''description'', PStr (lit ''Inspect the schema or execute a read-only analytical query.''))]),
         (lit ''sql'', PDict
           [(lit ''type'', PStr (lit ''string'')),
            (lit ''description'', PStr (lit ''SQL query. Required when action is query.''))])]),
      (lit ''required'', PList [PStr (lit ''action'')]),
      (lit ''additionalProperties'', PBool False)]"

definition database_tool :: "unicode \<Rightarrow> repr \<Rightarrow> user_database_config \<Rightarrow> 'w sqlite_api \<Rightarrow> 'w tool" where
  "database_tool u rp cfg sq =
     \<lparr>tl_name = lit ''database'',
      tl_description = lit ''Inspect the user database schema and execute read-only analytical SQL queries.'',
      tl_input_schema = database_schema, tl_invoke = database_invoke u rp cfg sq\<rparr>"

end
