(* ===== verification/Tools_Props.thy ===== *)
theory Tools_Props
  imports Tools
begin

text \<open>
  The database tool cannot write: the gate accepts exactly what its regular expression means, what it
  accepts it leaves unchanged, only accepted statements reach SQLite whatever the model asks for,
  results are cut to the configured size, and a table name cannot escape from its quotes.
\<close>

section \<open>The gate\<close>

text \<open>A whole word of the forbidden list anywhere in the text.\<close>

definition forbidden_word :: "unicode \<Rightarrow> pystr \<Rightarrow> bool" where
  "forbidden_word u s \<longleftrightarrow>
     (\<exists>a w b kw. s = a @ w @ b \<and> kw \<in> set FORBIDDEN \<and> length w = length kw
        \<and> map (un_same u) w = map (un_same u) kw
        \<and> word_boundary u (last_of a) (head_of (w @ b)) \<and> word_boundary u (last_of w) (head_of b))"

lemma keyword_at_iff:
  "kw \<in> set FORBIDDEN \<Longrightarrow> keyword_at u prev s kw \<longleftrightarrow>
     (\<exists>w b. s = w @ b \<and> length w = length kw \<and> map (un_same u) w = map (un_same u) kw
        \<and> word_boundary u prev (head_of (w @ b)) \<and> word_boundary u (last_of w) (head_of b))"
proof
  assume "keyword_at u prev s kw"
  then have k: "map (un_same u) (take (length kw) s) = map (un_same u) kw" "word_boundary u prev (head_of s)"
    "word_boundary u (last_of (take (length kw) s)) (head_of (drop (length kw) s))"
    by (auto simp: keyword_at_def Let_def)
  then have "length (take (length kw) s) = length kw" by (metis length_map)
  with k show "\<exists>w b. s = w @ b \<and> length w = length kw \<and> map (un_same u) w = map (un_same u) kw
        \<and> word_boundary u prev (head_of (w @ b)) \<and> word_boundary u (last_of w) (head_of b)"
    by (metis append_take_drop_id)
qed (auto simp: keyword_at_def Let_def)

lemma forbidden_words_nonempty: "kw \<in> set FORBIDDEN \<Longrightarrow> kw \<noteq> []"
  by (auto simp: FORBIDDEN_def)

lemma last_of_snoc [simp]: "last_of (a @ [c]) = Some c" and last_of_Nil [simp]: "last_of [] = None"
  by (simp_all add: last_of_def head_of_def)

lemma forbidden_from_iff:
  "forbidden_from u (last_of a) s \<longleftrightarrow>
     (\<exists>m w b kw. s = m @ w @ b \<and> kw \<in> set FORBIDDEN \<and> length w = length kw
        \<and> map (un_same u) w = map (un_same u) kw
        \<and> word_boundary u (last_of (a @ m)) (head_of (w @ b)) \<and> word_boundary u (last_of w) (head_of b))"
  (is "_ \<longleftrightarrow> ?R a s")
proof (induction s arbitrary: a)
  case Nil
  show ?case using forbidden_words_nonempty by auto
next
  case (Cons c s)
  have "?R a (c # s) \<longleftrightarrow> (\<exists>kw \<in> set FORBIDDEN. keyword_at u (last_of a) (c # s) kw) \<or> ?R (a @ [c]) s"
  proof
    assume "?R a (c # s)"
    then obtain m w b kw where h: "c # s = m @ w @ b" "kw \<in> set FORBIDDEN" "length w = length kw"
      "map (un_same u) w = map (un_same u) kw" "word_boundary u (last_of (a @ m)) (head_of (w @ b))"
      "word_boundary u (last_of w) (head_of b)" by blast
    show "(\<exists>kw \<in> set FORBIDDEN. keyword_at u (last_of a) (c # s) kw) \<or> ?R (a @ [c]) s"
    proof (cases m)
      case Nil
      with h show ?thesis by (auto simp: keyword_at_iff)
    next
      case (Cons d m')
      with h have "s = m' @ w @ b" "last_of ((a @ [c]) @ m') = last_of (a @ m)" by auto
      with h show ?thesis by metis
    qed
  next
    assume "(\<exists>kw \<in> set FORBIDDEN. keyword_at u (last_of a) (c # s) kw) \<or> ?R (a @ [c]) s"
    then show "?R a (c # s)"
    proof
      assume "\<exists>kw \<in> set FORBIDDEN. keyword_at u (last_of a) (c # s) kw"
      then show ?thesis by (auto simp: keyword_at_iff) (metis append_Nil append_Nil2)
    next
      assume "?R (a @ [c]) s"
      then obtain m w b kw where "s = m @ w @ b" "kw \<in> set FORBIDDEN" "length w = length kw"
        "map (un_same u) w = map (un_same u) kw" "word_boundary u (last_of ((a @ [c]) @ m)) (head_of (w @ b))"
        "word_boundary u (last_of w) (head_of b)" by blast
      then show ?thesis by (intro exI[of _ "c # m"] exI[of _ w] exI[of _ b] exI[of _ kw]) simp
    qed
  qed
  with Cons.IH[of "a @ [c]"] show ?case by simp
qed

lemma forbidden_from_word: "forbidden_from u None s \<longleftrightarrow> forbidden_word u s"
  using forbidden_from_iff[of u "[]" s] by (simp add: forbidden_word_def)

lemma rstrip_split: "\<exists>ws. s = py_rstrip s @ ws \<and> set ws \<subseteq> Collect is_space"
proof -
  have "s = rev (takeWhile is_space (rev s) @ dropWhile is_space (rev s))" by simp
  then have "s = py_rstrip s @ rev (takeWhile is_space (rev s))"
    by (simp only: rev_append py_rstrip_def strip_end_def)
  moreover have "set (rev (takeWhile is_space (rev s))) \<subseteq> Collect is_space" by (auto dest: set_takeWhileD)
  ultimately show ?thesis by blast
qed

text \<open>What a read-only statement is.\<close>

definition read_only :: "unicode \<Rightarrow> pystr \<Rightarrow> bool" where
  "read_only u s \<longleftrightarrow> s \<noteq> [] \<and> py_strip s = s \<and> 59 \<notin> set s \<and> \<not> forbidden_word u s
     \<and> (prefix (lit ''SELECT'') (to_upper u s) \<or> prefix (lit ''WITH'') (to_upper u s))"

lemma py_strip_prefix_fix:
  assumes "py_strip s = s" and "prefix t s" and "t = [] \<or> \<not> is_space (last t)"
  shows "py_strip t = t"
proof (cases "t = []")
  case False
  with assms(2) have "s \<noteq> []" "hd t = hd s" by (auto simp: prefix_def)
  with assms(1) py_strip_edges(1)[of s] have "\<not> is_space (hd t)" by simp
  with assms(3) False show ?thesis by (intro py_strip_fix) auto
qed simp

lemma validate_accepts: "validate_read_only_sql u s = Inr t \<Longrightarrow> read_only u t"
proof -
  assume v: "validate_read_only_sql u s = Inr t"
  let ?c = "py_strip s"
  have ne: "?c \<noteq> []" using v by (auto simp: validate_read_only_sql_def Let_def)
  define st where "st = (if last ?c = 59 then py_rstrip (butlast ?c) else ?c)"
  have t: "t = st" "59 \<notin> set st" "\<not> forbidden_from u None st"
    "prefix (lit ''SELECT'') (to_upper u (py_lstrip st)) \<or> prefix (lit ''WITH'') (to_upper u (py_lstrip st))"
    using v ne by (auto simp: validate_read_only_sql_def Let_def st_def[symmetric] split: if_splits)
  have "prefix (butlast ?c) ?c" using ne by (metis append_butlast_last_id prefixI)
  then have "prefix st ?c"
    using prefix_order.trans[OF strip_end_prefix[of is_space "butlast ?c"]] by (simp add: st_def py_rstrip_def)
  moreover have "st = [] \<or> \<not> is_space (last st)"
  proof (cases "last ?c = 59")
    case True
    then have "st = strip_end is_space (butlast ?c)" by (simp add: st_def py_rstrip_def)
    then show ?thesis using strip_end_last[of is_space "butlast ?c"] by metis
  next
    case False
    then have "st = ?c" by (simp add: st_def)
    then show ?thesis using py_strip_edges(2)[OF ne] by metis
  qed
  ultimately have trimmed: "py_strip st = st" by (rule py_strip_prefix_fix[OF py_strip_idem])
  have stne: "st \<noteq> []" using t(4) by (auto simp: py_lstrip_def)
  have "py_lstrip st = st"
    using py_strip_edges(1)[of st] trimmed stne unfolding py_lstrip_def by (intro dropWhile_not_hd) simp
  with t trimmed stne show ?thesis by (simp add: read_only_def forbidden_from_word)
qed

lemma validate_read_only: "read_only u t \<Longrightarrow> validate_read_only_sql u t = Inr t"
proof -
  assume r: "read_only u t"
  then have ne: "t \<noteq> []" "py_strip t = t" and "last t \<noteq> 59" by (auto simp: read_only_def dest: last_in_set)
  moreover have "py_lstrip t = t"
    using py_strip_edges(1)[of t] ne unfolding py_lstrip_def by (intro dropWhile_not_hd) simp
  ultimately show ?thesis using r by (auto simp: validate_read_only_sql_def read_only_def forbidden_from_word Let_def)
qed

text \<open>
  C16. The SQL gate accepts exactly the read-only statements, up to surrounding blanks and one trailing
  semicolon: it returns a statement iff the text is one without blanks around it, without a semicolon,
  without a forbidden keyword as a whole word and beginning with SELECT or WITH, possibly
  followed by a semicolon and surrounded by blanks.
\<close>
theorem sql_gate_exact:
  "validate_read_only_sql u sql = Inr t \<longleftrightarrow>
     read_only u t \<and> (py_strip sql = t \<or> (\<exists>ws. set ws \<subseteq> Collect is_space \<and> py_strip sql = t @ ws @ [59]))"
proof
  assume v: "validate_read_only_sql u sql = Inr t"
  let ?c = "py_strip sql"
  have ne: "?c \<noteq> []" using v by (auto simp: validate_read_only_sql_def Let_def)
  from v ne have t: "t = (if last ?c = 59 then py_rstrip (butlast ?c) else ?c)"
    by (auto simp: validate_read_only_sql_def Let_def split: if_splits)
  have "?c = t \<or> (\<exists>ws. set ws \<subseteq> Collect is_space \<and> ?c = t @ ws @ [59])"
  proof (cases "last ?c = 59")
    case True
    let ?b = "butlast ?c"
    obtain ws where ws: "?b = py_rstrip ?b @ ws" "set ws \<subseteq> Collect is_space" using rstrip_split by blast
    have "?b = t @ ws" using ws(1) True by (simp add: t)
    moreover have "?c = ?b @ [59]" using True ne by (metis append_butlast_last_id)
    ultimately have "?c = t @ ws @ [59]" by simp
    with ws(2) show ?thesis by blast
  qed (simp add: t)
  with validate_accepts[OF v] show "read_only u t \<and> (?c = t \<or> (\<exists>ws. set ws \<subseteq> Collect is_space \<and> ?c = t @ ws @ [59]))"
    by simp
next
  assume h: "read_only u t \<and> (py_strip sql = t \<or> (\<exists>ws. set ws \<subseteq> Collect is_space \<and> py_strip sql = t @ ws @ [59]))"
  have same: "validate_read_only_sql u sql = validate_read_only_sql u t"
    if "py_strip sql = t"
  proof -
    have "py_strip t = py_strip sql" using that by auto
    then show ?thesis by (simp only: validate_read_only_sql_def)
  qed
  from h show "validate_read_only_sql u sql = Inr t"
  proof (elim conjE disjE exE)
    assume "read_only u t" "py_strip sql = t"
    with same validate_read_only show ?thesis by simp
  next
    fix ws
    assume r: "read_only u t" and ws: "set ws \<subseteq> Collect is_space" and c: "py_strip sql = t @ ws @ [59]"
    have tn: "t \<noteq> []" "\<not> is_space (last t)" using r py_strip_edges(2)[of t] by (auto simp: read_only_def)
    have "dropWhile is_space (rev ws @ rev t) = rev t"
      using ws tn by (subst dropWhile_append2) (auto simp: dropWhile_not_hd hd_rev)
    then have "py_rstrip (t @ ws) = t" by (simp add: py_rstrip_def strip_end_def)
    moreover have "last (py_strip sql) = 59" "butlast (py_strip sql) = t @ ws" "py_strip sql \<noteq> []"
      by (simp_all add: c butlast_append)
    moreover have "py_lstrip t = t"
      using r py_strip_edges(1)[of t] unfolding py_lstrip_def read_only_def by (intro dropWhile_not_hd) simp
    ultimately show ?thesis
      using r by (auto simp: validate_read_only_sql_def read_only_def forbidden_from_word Let_def)
  qed
qed

section \<open>What reaches SQLite\<close>

text \<open>Two connections that agree on everything but the statements the gate refuses.\<close>

definition agree_on_safe :: "unicode \<Rightarrow> 'w sqlite_api \<Rightarrow> 'w sqlite_api \<Rightarrow> bool" where
  "agree_on_safe u a b \<longleftrightarrow>
     sq_monotonic a = sq_monotonic b \<and> sq_open a = sq_open b \<and> sq_close a = sq_close b
     \<and> sq_set_handler a = sq_set_handler b \<and> (\<forall>s n. read_only u s \<longrightarrow> sq_query a s n = sq_query b s n)
     \<and> (\<forall>s. (s = table_names_sql \<or> s \<in> range table_info_sql) \<longrightarrow> sq_fetch_all a s = sq_fetch_all b s)"

lemma mbind_cong2: "m = m' \<Longrightarrow> (\<And>a. f a = f' a) \<Longrightarrow> mbind m f = mbind m' f'"
  by (rule ext) (simp add: mbind_def split: prod.splits sum.splits)

lemma mmap_cong2: "(\<And>x. x \<in> set xs \<Longrightarrow> f x = g x) \<Longrightarrow> mmap f xs = mmap g xs"
  by (induction xs) (auto intro!: mbind_cong2)

lemma query_execute_safe:
  assumes "agree_on_safe u a b"
  shows "query_execute u cfg a sql = query_execute u cfg b sql"
proof (cases "validate_read_only_sql u sql")
  case (Inl e)
  then show ?thesis by (auto simp: query_execute_def)
next
  case (Inr t)
  then have "read_only u t" by (rule validate_accepts)
  with assms have eq: "sq_query a t n = sq_query b t n" "sq_monotonic a = sq_monotonic b" "sq_open a = sq_open b"
    "sq_close a = sq_close b" "sq_set_handler a = sq_set_handler b" for n
    by (auto simp: agree_on_safe_def)
  show ?thesis
    by (rule ext) (simp add: query_execute_def Inr eq open_read_only_connection_def)
qed

lemma schema_inspect_safe:
  assumes "agree_on_safe u a b"
  shows "schema_inspect rp a = schema_inspect rp b"
proof -
  have eq: "sq_open a = sq_open b" "sq_close a = sq_close b" "sq_fetch_all a table_names_sql = sq_fetch_all b table_names_sql"
    "\<And>n. sq_fetch_all a (table_info_sql n) = sq_fetch_all b (table_info_sql n)"
    using assms by (auto simp: agree_on_safe_def)
  have "inspect_table rp a = inspect_table rp b"
    by (intro ext) (simp add: inspect_table_def eq)
  then show ?thesis by (simp add: schema_inspect_def open_read_only_connection_def eq)
qed

text \<open>
  C17. Whatever arguments the model passes to the database tool, no text but read-only statements and the
  schema inspector's own queries ever has an effect: on two connections that differ arbitrarily
  on every other statement, the tool behaves identically, in result and in effects.
\<close>
theorem database_tool_read_only:
  assumes "agree_on_safe u a b"
  shows "tl_invoke (database_tool u rp cfg a) arguments w = tl_invoke (database_tool u rp cfg b) arguments w"
  by (simp add: database_tool_def database_invoke_def Let_def query_execute_safe[OF assms]
      schema_inspect_safe[OF assms])

text \<open>A connection over a list of rows, which records the statements it runs.\<close>

definition list_sqlite :: "pdict list \<Rightarrow> (pystr list) sqlite_api" where
  "list_sqlite rows =
     \<lparr>sq_monotonic = mret 0, sq_open = mret (), sq_close = mret (), sq_set_handler = (\<lambda>_. mret ()),
      sq_query = (\<lambda>s n w. (Inr (take n rows, map fst (concat (take 1 rows))), w @ [s])),
      sq_fetch_all = (\<lambda>s w. (Inr [], w @ [s]))\<rparr>"

definition strict_sqlite :: "unicode \<Rightarrow> pdict list \<Rightarrow> (pystr list) sqlite_api" where
  "strict_sqlite u rows =
     (list_sqlite rows)\<lparr>sq_query := (\<lambda>s n w. if forbidden_from u None s then (Inl (Exn RuntimeError []), [])
        else (Inr (take n rows, map fst (concat (take 1 rows))), w @ [s]))\<rparr>"

definition small_config :: user_database_config where
  "small_config = \<lparr>ud_query_timeout_seconds = 1, ud_max_rows = 1, ud_progress_handler_steps = 1\<rparr>"

theorem database_tool_read_only_witness:
  "tl_invoke (database_tool ascii_unicode (\<lambda>_. []) small_config (strict_sqlite ascii_unicode []))
     [(lit ''action'', PStr (lit ''query'')), (lit ''sql'', PStr (lit ''drop table t''))] []
   = tl_invoke (database_tool ascii_unicode (\<lambda>_. []) small_config (list_sqlite []))
     [(lit ''action'', PStr (lit ''query'')), (lit ''sql'', PStr (lit ''drop table t''))] []"
  by (rule database_tool_read_only)
     (auto simp: agree_on_safe_def strict_sqlite_def list_sqlite_def read_only_def forbidden_from_word)

section \<open>Results\<close>

text \<open>
  A query's result never exceeds the configured rows and says so when it was cut: over a connection
  that fetches at most the rows asked for, the executor returns the first rows of the answer up to
  \<open>max_rows\<close>, in order, and the truncation flag is set exactly when the answer has more.
\<close>
theorem query_result_bounded:
  assumes "\<And>s n w. \<exists>w'. sq_query sq s n w = (Inr (take n (answer s), columns s), w')"
    and "query_execute u cfg sq sql w = (Inr r, w')"
  shows "\<exists>s. validate_read_only_sql u sql = Inr s \<and> qr_rows r = take (ud_max_rows cfg) (answer s)
     \<and> length (qr_rows r) \<le> ud_max_rows cfg \<and> qr_truncated r = (ud_max_rows cfg < length (answer s))"
proof -
  obtain s where v: "validate_read_only_sql u sql = Inr s"
    using assms(2) by (cases "validate_read_only_sql u sql") (auto simp: query_execute_def)
  have fetched: "rows = take (ud_max_rows cfg + 1) (answer s)"
    if "mexcept (sq_query sq s (Suc (ud_max_rows cfg))) h w1 = (Inr (rows, cs), w2)" for h rows cs w1 w2
    using that assms(1)[of s "Suc (ud_max_rows cfg)" w1] by (auto simp: mexcept_def mtry_def)
  have "\<exists>cs. r = \<lparr>qr_columns = cs, qr_rows = take (ud_max_rows cfg) (take (ud_max_rows cfg + 1) (answer s)),
      qr_truncated = (ud_max_rows cfg < length (take (ud_max_rows cfg + 1) (answer s)))\<rparr>"
    using assms(2) unfolding query_execute_def v open_read_only_connection_def Let_def
    by (auto elim!: mbind_InrD simp: mfinally_def split: prod.splits sum.splits dest!: fetched)
  then show ?thesis using v by (auto simp: min_def split: if_splits)
qed

theorem query_result_bounded_witness:
  "\<exists>r. query_execute ascii_unicode small_config (list_sqlite [[(lit ''n'', PInt 1)], [(lit ''n'', PInt 2)]])
        (lit ''select n from t'') [] = (Inr r, [lit ''select n from t'']) \<and> length (qr_rows r) \<le> 1 \<and> qr_truncated r"
proof -
  have acc: "validate_read_only_sql ascii_unicode (lit ''select n from t'') = Inr (lit ''select n from t'')"
    by (simp add: validate_read_only_sql_def Let_def py_strip_def py_lstrip_def py_rstrip_def strip_end_def
        is_space_def lit_def FORBIDDEN_def keyword_at_def ascii_unicode_def ascii_down_def ascii_up_def
        word_boundary_def head_of_def to_upper_def)
  let ?sq = "list_sqlite [[(lit ''n'', PInt 1)], [(lit ''n'', PInt 2)]]"
  let ?r = "\<lparr>qr_columns = [lit ''n''], qr_rows = [[(lit ''n'', PInt 1)]], qr_truncated = True\<rparr>"
  have run: "query_execute ascii_unicode small_config ?sq (lit ''select n from t'') [] = (Inr ?r, [lit ''select n from t''])"
    by (simp add: query_execute_def acc small_config_def open_read_only_connection_def list_sqlite_def mfinally_def
        mexcept_def mtry_def mbind_def Let_def)
  have fetch: "\<exists>w'. sq_query ?sq s n w = (Inr (take n [[(lit ''n'', PInt 1)], [(lit ''n'', PInt 2)]], [lit ''n'']), w')" for s n w
    by (simp add: list_sqlite_def)
  from query_result_bounded[of ?sq "\<lambda>_. [[(lit ''n'', PInt 1)], [(lit ''n'', PInt 2)]]" "\<lambda>_. [lit ''n'']", OF fetch run]
  show ?thesis using run by (intro exI[of _ ?r]) (simp add: small_config_def)
qed

section \<open>Quoting\<close>

text \<open>How SQLite reads a quoted text: up to the first quote that is not doubled.\<close>

fun sql_string :: "pystr \<Rightarrow> (pystr \<times> pystr) option" where
  "sql_string [] = None"
| "sql_string (c # cs) =
     (if c = 39 then
        (case cs of
           [] \<Rightarrow> Some ([], [])
         | d # ds \<Rightarrow> if d = 39 then map_option (\<lambda>(t, r). (39 # t, r)) (sql_string ds) else Some ([], cs))
      else map_option (\<lambda>(t, r). (c # t, r)) (sql_string cs))"

text \<open>
  A table name cannot escape from the inspector's PRAGMA: whatever characters it has, the text between the
  quotes of the statement reads back as exactly the name, followed by the closing parenthesis.
\<close>
theorem table_info_quotes:
  "\<exists>rest. table_info_sql name = lit ''PRAGMA table_info('' @ 39 # rest \<and> sql_string rest = Some (name, lit '')'')"
proof -
  have "sql_string (escape_quotes name @ 39 # lit '')'') = Some (name, lit '')'')"
    by (induction name) (simp_all add: escape_quotes_def lit_def)
  then show ?thesis by (simp add: table_info_sql_def)
qed

end
