(* ===== verification/Skills.thy ===== *)
theory Skills
  imports Effects Unicode
begin

text \<open>
  Skills: the registry (\<open>skills/registry.py\<close>) and the reader of skill files (\<open>skills/reader.py\<close>). The file
  system is a parameter that gives the text of a path, with universal newlines, and the names of
  the skill directories; a file is the list of its lines.
\<close>

section \<open>The registry\<close>

record 'w skill =
  sk_name :: pystr
  sk_description :: pystr
  sk_load :: "('w, pystr) act"

type_synonym 'w skill_registry = "'w skill list"

definition skill_register :: "'w skill_registry \<Rightarrow> 'w skill \<Rightarrow> 'w skill_registry res" where
  "skill_register r s =
     (if sk_name s \<in> sk_name ` set r then Inl (Exn ValueError (lit ''Skill already registered: '' @ sk_name s))
      else Inr (r @ [s]))"

fun register_all :: "'w skill_registry \<Rightarrow> 'w skill list \<Rightarrow> 'w skill_registry res" where
  "register_all r [] = Inr r"
| "register_all r (s # ss) = rbind (skill_register r s) (\<lambda>r'. register_all r' ss)"

definition new_skill_registry :: "'w skill list \<Rightarrow> 'w skill_registry res" where
  "new_skill_registry ss = register_all [] ss"

definition skill_get :: "'w skill_registry \<Rightarrow> pystr \<Rightarrow> 'w skill res" where
  "skill_get r name =
     (case find (\<lambda>s. sk_name s = name) r of
        None \<Rightarrow> Inl (Exn KeyError (lit ''Unknown skill: '' @ name)) | Some s \<Rightarrow> Inr s)"

section \<open>Skill files\<close>

definition SKILL_SEPARATOR :: pystr where
  "SKILL_SEPARATOR = replicate 53 45"

definition SKILL_FILENAME :: pystr where
  "SKILL_FILENAME = lit ''SKILL.md''"

text \<open>The lines of a file; the text after the last newline is a line unless it is empty.\<close>

fun lines_onto :: "pystr \<Rightarrow> pystr \<Rightarrow> pystr list" where
  "lines_onto acc [] = (if acc = [] then [] else [rev acc])"
| "lines_onto acc (c # cs) = (if c = 10 then rev acc # lines_onto [] cs else lines_onto (c # acc) cs)"

definition file_lines :: "pystr \<Rightarrow> pystr list" where
  "file_lines s = lines_onto [] s"

record file_skill =
  fs_name :: pystr
  fs_description :: pystr
  fs_path :: pystr

definition header_error :: "repr \<Rightarrow> pystr \<Rightarrow> py_exn" where
  "header_error rp path =
     Exn ValueError (lit ''Skill file must start with '' @ rp (PStr SKILL_SEPARATOR) @ lit '': '' @ path)"

definition unclosed_error :: "pystr \<Rightarrow> py_exn" where
  "unclosed_error path = Exn ValueError (lit ''Skill metadata closing separator not found: '' @ path)"

text \<open>The loop over the metadata lines, up to the closing separator.\<close>

fun metadata_lines :: "repr \<Rightarrow> unicode \<Rightarrow> pystr \<Rightarrow> pdict \<Rightarrow> pystr list \<Rightarrow> pdict res" where
  "metadata_lines rp u path d [] = Inl (unclosed_error path)"
| "metadata_lines rp u path d (raw_line # rest) =
     (let line = py_strip raw_line
      in if line = SKILL_SEPARATOR then Inr d
         else if line = [] then metadata_lines rp u path d rest
         else (let key = takeWhile (\<lambda>c. c \<noteq> 58) line; tail = dropWhile (\<lambda>c. c \<noteq> 58) line
               in if tail = []
                  then Inl (Exn ValueError (lit ''Invalid skill metadata line '' @ rp (PStr line) @ lit '' in '' @ path
                         @ lit ''; expected '' @ [39] @ lit ''key: value'' @ [39]))
                  else (let normalized_key = casefold u (py_strip key)
                        in if normalized_key \<notin> {lit ''name'', lit ''description''}
                           then Inl (Exn ValueError (lit ''Unsupported skill metadata field ''
                                  @ rp (PStr (py_strip key)) @ lit '' in '' @ path))
                           else (let normalized_value = py_strip (tl tail)
                                 in if normalized_value = []
                                    then Inl (Exn ValueError (lit ''Skill metadata field ''
                                           @ rp (PStr normalized_key) @ lit '' cannot be empty in '' @ path))
                                    else metadata_lines rp u path (dput normalized_key (PStr normalized_value) d) rest))))"

definition read_metadata :: "repr \<Rightarrow> unicode \<Rightarrow> pystr \<Rightarrow> pystr \<Rightarrow> pdict res" where
  "read_metadata rp u path content =
     (case file_lines content of
        [] \<Rightarrow> Inl (header_error rp path)
      | first # rest \<Rightarrow>
          if py_strip first \<noteq> SKILL_SEPARATOR then Inl (header_error rp path)
          else rbind (metadata_lines rp u path [] rest) (\<lambda>d.
            (let missing = filter (\<lambda>k. \<not> dhas d k) [lit ''description'', lit ''name'']
             in if missing \<noteq> []
                then Inl (Exn ValueError (lit ''Skill metadata missing required fields ''
                       @ rp (PList (map PStr missing)) @ lit '' in '' @ path))
                else Inr d)))"

definition skill_read :: "repr \<Rightarrow> unicode \<Rightarrow> (pystr \<Rightarrow> pystr res) \<Rightarrow> pystr \<Rightarrow> file_skill res" where
  "skill_read rp u fs path =
     rbind (fs path) (\<lambda>content. rbind (read_metadata rp u path content) (\<lambda>d.
       Inr \<lparr>fs_name = py_str rp (dget d (lit ''name'')), fs_description = py_str rp (dget d (lit ''description'')),
            fs_path = path\<rparr>))"

definition read_body :: "pystr \<Rightarrow> pystr \<Rightarrow> pystr res" where
  "read_body path content =
     (case file_lines content of
        [] \<Rightarrow> Inl (Exn ValueError (lit ''Invalid skill header: '' @ path))
      | first # rest \<Rightarrow>
          if py_strip first \<noteq> SKILL_SEPARATOR then Inl (Exn ValueError (lit ''Invalid skill header: '' @ path))
          else (case dropWhile (\<lambda>l. py_strip l \<noteq> SKILL_SEPARATOR) rest of
                  [] \<Rightarrow> Inl (unclosed_error path)
                | _ # remaining \<Rightarrow>
                    (let body = py_strip (py_join [10] remaining)
                     in if body = [] then Inl (Exn ValueError (lit ''Skill body cannot be empty: '' @ path))
                        else Inr body)))"

definition load_body :: "(pystr \<Rightarrow> pystr res) \<Rightarrow> pystr \<Rightarrow> pystr res" where
  "load_body fs path = rbind (fs path) (read_body path)"

text \<open>\<open>root.glob("*/SKILL.md")\<close> in path order: the directories that hold a skill file, sorted by name.\<close>

definition skill_discover ::
  "repr \<Rightarrow> unicode \<Rightarrow> (pystr \<Rightarrow> pystr res) \<Rightarrow> pystr \<Rightarrow> bool \<Rightarrow> pystr list \<Rightarrow> file_skill list res" where
  "skill_discover rp u fs base base_exists dirs =
     (if \<not> base_exists
      then Inl (Exn FileNotFoundError (lit ''Skill directory does not exist: '' @ base))
      else mapM_res (\<lambda>dir. skill_read rp u fs (base @ [47] @ dir @ [47] @ SKILL_FILENAME)) (sort dirs))"

definition to_skill :: "(pystr \<Rightarrow> pystr res) \<Rightarrow> file_skill \<Rightarrow> 'w skill" where
  "to_skill fs f =
     \<lparr>sk_name = fs_name f, sk_description = fs_description f, sk_load = mlift (load_body fs (fs_path f))\<rparr>"

section \<open>Reading back what was written\<close>

definition line_text :: "pystr \<Rightarrow> bool" where
  "line_text s \<longleftrightarrow> s \<noteq> [] \<and> py_strip s = s \<and> 10 \<notin> set s"

text \<open>A well-formed skill file.\<close>

definition skill_file :: "pystr \<Rightarrow> pystr \<Rightarrow> pystr \<Rightarrow> pystr" where
  "skill_file name description body =
     SKILL_SEPARATOR @ [10] @ lit ''name: '' @ name @ [10] @ lit ''description: '' @ description @ [10]
       @ SKILL_SEPARATOR @ [10] @ body"

lemma lines_onto_line: "10 \<notin> set a \<Longrightarrow> lines_onto acc (a @ 10 # r) = (rev acc @ a) # lines_onto [] r"
  by (induction a arbitrary: acc) auto

lemma lines_onto_nonempty: "acc @ s \<noteq> [] \<Longrightarrow> lines_onto acc s \<noteq> []"
  by (induction acc s rule: lines_onto.induct) auto

lemma lines_onto_join: "s = [] \<or> last s \<noteq> 10 \<Longrightarrow> py_join [10] (lines_onto acc s) = rev acc @ s"
proof (induction acc s rule: lines_onto.induct)
  case (2 acc c cs)
  show ?case
  proof (cases "c = 10")
    case True
    with "2.prems" have "cs \<noteq> []" "last cs \<noteq> 10" by (auto split: if_splits)
    with 2 True lines_onto_nonempty[of "[]" cs] show ?thesis by (simp add: py_join_Cons)
  next
    case False
    with 2 show ?thesis by (cases "cs = []") auto
  qed
qed simp

lemma separator_line [simp]: "10 \<notin> set SKILL_SEPARATOR" "py_strip SKILL_SEPARATOR = SKILL_SEPARATOR"
  by (auto simp: SKILL_SEPARATOR_def is_space_def intro!: py_strip_fix)

lemma py_strip_hd: "s \<noteq> [] \<Longrightarrow> \<not> is_space (hd s) \<Longrightarrow> hd (py_strip s) = hd s"
proof -
  assume s: "s \<noteq> []" "\<not> is_space (hd s)"
  then have l: "py_lstrip s = s" unfolding py_lstrip_def by (intro dropWhile_not_hd) simp
  have "dropWhile is_space (rev s) \<noteq> []" using s by (cases s) (auto simp: dropWhile_append)
  then have "py_strip s \<noteq> []" by (simp add: py_strip_def l py_rstrip_def strip_end_def)
  moreover have "prefix (py_strip s) s" by (simp add: py_strip_def l py_rstrip_def strip_end_prefix)
  ultimately show ?thesis by (metis hd_append2 prefixE)
qed

lemma metadata_field:
  assumes "k \<noteq> []" and "\<forall>c \<in> set k. c \<noteq> 58 \<and> \<not> is_space c" and "casefold u k = k"
    and "k \<in> {lit ''name'', lit ''description''}" and "line_text v" and "k @ 58 # 32 # v \<noteq> SKILL_SEPARATOR"
  shows "metadata_lines rp u path d ((k @ 58 # 32 # v) # rest) = metadata_lines rp u path (dput k (PStr v) d) rest"
proof -
  have v: "v \<noteq> []" "py_strip v = v" "\<not> is_space (last v)"
    using assms(5) py_strip_edges(2)[of v] by (auto simp: line_text_def)
  have st: "py_strip (k @ 58 # 32 # v) = k @ 58 # 32 # v"
    by (rule py_strip_fix) (use assms(1,2) v in \<open>auto simp: hd_append\<close>)
  have tk: "takeWhile (\<lambda>c. c \<noteq> 58) (k @ 58 # 32 # v) = k" "dropWhile (\<lambda>c. c \<noteq> 58) (k @ 58 # 32 # v) = 58 # 32 # v"
    using assms(2) by (simp_all add: takeWhile_append dropWhile_append)
  have "py_strip (32 # v) = v"
  proof -
    have "py_lstrip (32 # v) = py_lstrip v" by (simp add: py_lstrip_def is_space_def)
    then have "py_strip (32 # v) = py_strip v" by (simp add: py_strip_def)
    then show ?thesis using v(2) by simp
  qed
  moreover have "py_strip k = k"
    by (rule py_strip_fix) (use assms(1,2) in auto)
  ultimately show ?thesis using assms(3,4,6) v(1) st tk by (auto simp: Let_def)
qed

lemma skill_file_lines:
  assumes "10 \<notin> set name" and "10 \<notin> set description"
  shows "file_lines (skill_file name description body) = SKILL_SEPARATOR # (lit ''name'' @ 58 # 32 # name)
     # (lit ''description'' @ 58 # 32 # description) # SKILL_SEPARATOR # file_lines body"
proof -
  have heads: "lit ''name: '' = lit ''name'' @ [58, 32]" "lit ''description: '' = lit ''description'' @ [58, 32]"
    by (simp_all add: lit_def)
  have no: "10 \<notin> set (lit ''name'' @ 58 # 32 # name)" "10 \<notin> set (lit ''description'' @ 58 # 32 # description)"
    using assms by (simp_all add: lit_def)
  show ?thesis
    using lines_onto_line[OF separator_line(1), of "[]"] lines_onto_line[OF no(1), of "[]"] lines_onto_line[OF no(2), of "[]"]
    by (simp add: file_lines_def skill_file_def heads)
qed

lemma keys_not_separator: "lit ''name'' @ x \<noteq> SKILL_SEPARATOR" "lit ''description'' @ x \<noteq> SKILL_SEPARATOR"
  by (simp_all add: lit_def SKILL_SEPARATOR_def eval_nat_numeral)

lemma read_written:
  assumes u: "ascii_tables u" and n: "line_text name" and d: "line_text description"
    and b: "body \<noteq> []" "py_strip body = body"
  shows "read_metadata rp u path (skill_file name description body)
      = Inr [(lit ''name'', PStr name), (lit ''description'', PStr description)]"
    and "read_body path (skill_file name description body) = Inr body"
proof -
  have ls: "file_lines (skill_file name description body) = SKILL_SEPARATOR # (lit ''name'' @ 58 # 32 # name)
     # (lit ''description'' @ 58 # 32 # description) # SKILL_SEPARATOR # file_lines body"
    using n d by (intro skill_file_lines) (auto simp: line_text_def)
  have cf: "casefold u (lit ''name'') = lit ''name''" "casefold u (lit ''description'') = lit ''description''"
    using u by (simp_all add: casefold_def ascii_tables_def lit_def ascii_down_def)
  have ks: "\<forall>c \<in> set (lit ''name''). c \<noteq> 58 \<and> \<not> is_space c" "\<forall>c \<in> set (lit ''description''). c \<noteq> 58 \<and> \<not> is_space c"
    by (simp_all add: lit_def is_space_def)
  show "read_metadata rp u path (skill_file name description body)
      = Inr [(lit ''name'', PStr name), (lit ''description'', PStr description)]"
  proof -
    have "metadata_lines rp u path [] ((lit ''name'' @ 58 # 32 # name) # (lit ''description'' @ 58 # 32 # description)
        # SKILL_SEPARATOR # file_lines body) = Inr [(lit ''name'', PStr name), (lit ''description'', PStr description)]"
      by (simp add: metadata_field[OF _ ks(1) cf(1) _ n keys_not_separator(1)]
          metadata_field[OF _ ks(2) cf(2) _ d keys_not_separator(2)] dput_def del: metadata_lines.simps(2))
         (simp add: metadata_lines.simps(2))
    then show ?thesis by (simp add: read_metadata_def ls dhas_def)
  qed
  have notsep: "py_strip (lit ''name'' @ x) \<noteq> SKILL_SEPARATOR" "py_strip (lit ''description'' @ x) \<noteq> SKILL_SEPARATOR" for x
  proof -
    have "hd (py_strip (lit ''name'' @ x)) = 110" "hd (py_strip (lit ''description'' @ x)) = 100"
      by (subst py_strip_hd; simp add: lit_def is_space_def)+
    then show "py_strip (lit ''name'' @ x) \<noteq> SKILL_SEPARATOR" "py_strip (lit ''description'' @ x) \<noteq> SKILL_SEPARATOR"
      by (auto simp: SKILL_SEPARATOR_def)
  qed
  have "last body \<noteq> 10" using py_strip_edges(2)[of body] b by (auto simp: is_space_def)
  then have "py_join [10] (file_lines body) = body" using lines_onto_join[of body "[]"] by (simp add: file_lines_def)
  then show "read_body path (skill_file name description body) = Inr body"
    using b notsep by (simp add: read_body_def ls)
qed

text \<open>
  A skill file reads back as it was written: for a name and a description of one trimmed line each and a
  trimmed body, the reader finds the name and the description of the header, and loading it
  gives exactly the body.
\<close>
theorem skill_file_round_trip:
  assumes "ascii_tables u" and "line_text name" and "line_text description" and "body \<noteq> []" and "py_strip body = body"
    and "fs path = Inr (skill_file name description body)"
  shows "skill_read rp u fs path = Inr \<lparr>fs_name = name, fs_description = description, fs_path = path\<rparr>
     \<and> load_body fs path = Inr body"
  using read_written[OF assms(1-5)] by (simp add: skill_read_def load_body_def assms(6) dict_simps)

theorem skill_file_round_trip_witness:
  "load_body (\<lambda>_. Inr (skill_file (lit ''sql'') (lit ''writes: SQL'') (lit ''Use joins.''))) (lit ''p'') = Inr (lit ''Use joins.'')"
proof -
  have "line_text (lit ''sql'')" "line_text (lit ''writes: SQL'')" "py_strip (lit ''Use joins.'') = lit ''Use joins.''"
    by (simp_all add: line_text_def lit_def py_strip_fix is_space_def)
  from skill_file_round_trip[OF ascii_unicode_tables this(1,2) _ this(3), of "\<lambda>_. Inr (skill_file (lit ''sql'')
      (lit ''writes: SQL'') (lit ''Use joins.''))" "lit ''p''" "\<lambda>_. []"] show ?thesis by simp
qed

end
