(* ===== verification/Llm.thy ===== *)
theory Llm
  imports Effects Json
begin

text \<open>
  The model-facing types (\<open>llm/models.py\<close>), the classification of provider failures
  (\<open>llm/errors.py\<close>) and the adapter over a LangChain chat model (\<open>llm/providers\<close>). The chat model
  and the tokenizers are services and stay parameters (\<open>chat_api\<close>); the classification walks a
  heap of exception objects, because the chain of causes may be cyclic.
\<close>

section \<open>Models\<close>

datatype message_role = DEVELOPER | SYSTEM | USER | ASSISTANT | ROLE_TOOL

fun role_value :: "message_role \<Rightarrow> pystr" where
  "role_value DEVELOPER = lit ''developer''"
| "role_value SYSTEM = lit ''system''"
| "role_value USER = lit ''user''"
| "role_value ASSISTANT = lit ''assistant''"
| "role_value ROLE_TOOL = lit ''tool''"

definition role_of_value :: "pystr \<Rightarrow> message_role option" where
  "role_of_value s = find (\<lambda>r. role_value r = s) [DEVELOPER, SYSTEM, USER, ASSISTANT, ROLE_TOOL]"

lemma role_of_role_value [simp]: "role_of_value (role_value r) = Some r"
  by (cases r) (simp_all add: role_of_value_def)

record llm_tool_call =
  tc_id :: pystr
  tc_name :: pystr
  tc_arguments :: pdict

record llm_tool_definition =
  td_name :: pystr
  td_description :: pystr
  td_input_schema :: pdict

record llm_message =
  lm_role :: message_role
  lm_content :: pystr
  lm_tool_call_id :: "pystr option"
  lm_tool_calls :: "llm_tool_call list"

definition message :: "message_role \<Rightarrow> pystr \<Rightarrow> llm_message" where
  "message r c = \<lparr>lm_role = r, lm_content = c, lm_tool_call_id = None, lm_tool_calls = []\<rparr>"

record llm_response =
  lr_content :: pystr
  lr_tool_calls :: "llm_tool_call list"

record llm_profile =
  lp_provider :: pystr
  lp_model :: pystr
  lp_context_window_tokens :: int

text \<open>\<open>model_dump(mode="json")\<close>.\<close>

definition call_dump :: "llm_tool_call \<Rightarrow> pyval" where
  "call_dump c = PDict [(lit ''id'', PStr (tc_id c)), (lit ''name'', PStr (tc_name c)),
     (lit ''arguments'', PDict (tc_arguments c))]"

definition tool_dump :: "llm_tool_definition \<Rightarrow> pyval" where
  "tool_dump t = PDict [(lit ''name'', PStr (td_name t)), (lit ''description'', PStr (td_description t)),
     (lit ''input_schema'', PDict (td_input_schema t))]"

section \<open>Provider failures\<close>

text \<open>An exception object: its \<open>status_code\<close>, its response's, and the object it was raised from.\<close>

record exn_object =
  xo_status_code :: pyval
  xo_response_status :: pyval
  xo_next :: "nat option"

record provider_failure =
  pf_status_code :: "int option"
  pf_retryable :: bool

fun int_status :: "pyval \<Rightarrow> int option" where
  "int_status (PInt i) = Some i"
| "int_status _ = None"

definition object_status :: "exn_object \<Rightarrow> int option" where
  "object_status x = (case int_status (xo_status_code x) of Some i \<Rightarrow> Some i | None \<Rightarrow> int_status (xo_response_status x))"

function status_walk :: "exn_object list \<Rightarrow> nat set \<Rightarrow> nat option \<Rightarrow> int option" where
  "status_walk heap visited cur =
     (case cur of
        None \<Rightarrow> None
      | Some i \<Rightarrow>
          if i \<in> visited \<or> length heap \<le> i then None
          else (case object_status (heap ! i) of
                  Some s \<Rightarrow> Some s
                | None \<Rightarrow> status_walk heap (insert i visited) (xo_next (heap ! i))))"
  by pat_completeness auto
termination
proof (relation "measure (\<lambda>(heap, visited, _). card ({..<length heap} - visited))", goal_cases)
  case 1
  show ?case by simp
next
  case (2 heap visited cur i)
  have "i \<notin> visited" "i < length heap" using 2(2) by auto
  then have "{..<length heap} - insert i visited \<subset> {..<length heap} - visited" by blast
  then show ?case by (simp add: psubset_card_mono)
qed

declare status_walk.simps [simp del]

definition extract_status_code :: "exn_object list \<Rightarrow> nat \<Rightarrow> int option" where
  "extract_status_code heap exc = status_walk heap {} (Some exc)"

definition classify_provider_exception :: "exn_object list \<Rightarrow> nat \<Rightarrow> provider_failure" where
  "classify_provider_exception heap exc =
     (case extract_status_code heap exc of
        None \<Rightarrow> \<lparr>pf_status_code = None, pf_retryable = True\<rparr>
      | Some s \<Rightarrow>
          if s \<in> {400, 401, 403, 404, 422} then \<lparr>pf_status_code = Some s, pf_retryable = False\<rparr>
          else if s \<in> {408, 409, 425, 429} \<or> 500 \<le> s then \<lparr>pf_status_code = Some s, pf_retryable = True\<rparr>
          else \<lparr>pf_status_code = Some s, pf_retryable = False\<rparr>)"

section \<open>The LangChain adapter\<close>

datatype chat_message =
    SystemMessage pystr
  | HumanMessage pystr
  | AIMessage pystr "pdict list"
  | ToolMessage pystr pystr

definition require_tool_call_id :: "llm_message \<Rightarrow> pystr res" where
  "require_tool_call_id m =
     (case lm_tool_call_id m of
        Some i \<Rightarrow> if i = [] then Inl (Exn ValueError (lit ''Tool messages require tool_call_id'')) else Inr i
      | None \<Rightarrow> Inl (Exn ValueError (lit ''Tool messages require tool_call_id'')))"

definition chat_tool_call :: "llm_tool_call \<Rightarrow> pdict" where
  "chat_tool_call c =
     [(lit ''id'', PStr (tc_id c)), (lit ''name'', PStr (tc_name c)), (lit ''args'', PDict (tc_arguments c)),
      (lit ''type'', PStr (lit ''tool_call''))]"

definition to_langchain_message :: "llm_message \<Rightarrow> chat_message res" where
  "to_langchain_message m =
     (case lm_role m of
        SYSTEM \<Rightarrow> Inr (SystemMessage (lm_content m))
      | DEVELOPER \<Rightarrow> Inr (SystemMessage (lm_content m))
      | USER \<Rightarrow> Inr (HumanMessage (lm_content m))
      | ASSISTANT \<Rightarrow> Inr (AIMessage (lm_content m) (map chat_tool_call (lm_tool_calls m)))
      | ROLE_TOOL \<Rightarrow> rbind (require_tool_call_id m) (\<lambda>i. Inr (ToolMessage (lm_content m) i)))"

definition to_langchain_messages :: "llm_message list \<Rightarrow> chat_message list res" where
  "to_langchain_messages = mapM_res to_langchain_message"

definition to_langchain_tool :: "llm_tool_definition \<Rightarrow> pdict" where
  "to_langchain_tool t =
     [(lit ''type'', PStr (lit ''function'')),
      (lit ''function'', PDict [(lit ''name'', PStr (td_name t)), (lit ''description'', PStr (td_description t)),
         (lit ''parameters'', PDict (td_input_schema t))])]"

text \<open>\<open>json.loads\<close> over the text of string arguments; \<open>jl\<close> is \<open>None\<close> on malformed JSON.\<close>

definition to_llm_tool_call :: "repr \<Rightarrow> (pystr \<Rightarrow> pyval option) \<Rightarrow> pdict \<Rightarrow> llm_tool_call res" where
  "to_llm_tool_call rp jl call =
     rbind (case dget_or call (lit ''args'') (PDict []) of
              PStr s \<Rightarrow> (case jl s of None \<Rightarrow> Inl (Exn ValueError (lit ''JSONDecodeError'')) | Some v \<Rightarrow> Inr v)
            | v \<Rightarrow> Inr v) (\<lambda>arguments.
     (case arguments of
        PDict d \<Rightarrow>
          (let call_id = py_str rp (py_or (dget call (lit ''id'')) (PStr []));
               name = py_str rp (py_or (dget call (lit ''name'')) (PStr []))
           in if call_id = [] \<or> name = []
              then Inl (Exn ValueError (lit ''LLM tool calls require both id and name''))
              else Inr \<lparr>tc_id = call_id, tc_name = name, tc_arguments = d\<rparr>)
      | _ \<Rightarrow> Inl (Exn ValueError (lit ''LLM tool call arguments must be an object''))))"

fun text_item :: "pyval \<Rightarrow> pystr" where
  "text_item (PStr s) = s"
| "text_item (PDict d) =
     (if dget d (lit ''type'') \<in> {PStr (lit ''text''), PStr (lit ''output_text'')}
      then (case dget d (lit ''text'') of PStr s \<Rightarrow> s | _ \<Rightarrow> [])
      else [])"
| "text_item _ = []"

fun extract_text :: "pyval \<Rightarrow> pystr" where
  "extract_text (PStr s) = s"
| "extract_text (PList items) = concat (map text_item items)"
| "extract_text _ = []"

text \<open>
  The chat model: one call, one stream, its profile and its token counters. A stream is the contents of its
  chunks and the exception that ends it, if any; a raised exception is an object of the heap.
\<close>

record raised =
  ra_exn :: py_exn
  ra_heap :: "exn_object list"
  ra_object :: nat

record 'w chat_api =
  ch_invoke :: "chat_message list \<Rightarrow> pdict list \<Rightarrow> 'w \<Rightarrow> (raised + pyval \<times> pdict list) \<times> 'w"
  ch_stream :: "chat_message list \<Rightarrow> 'w \<Rightarrow> (pyval list \<times> raised option) \<times> 'w"
  ch_profile :: "pyval"
  ch_num_tokens :: "pystr \<Rightarrow> int"
  ch_num_message_tokens :: "chat_message list \<Rightarrow> int res"

record chat_client =
  cc_provider :: pystr
  cc_model_name :: pystr

text \<open>The provider's error keeps only what the program looks at: its text and whether to retry.\<close>

definition provider_error :: "repr \<Rightarrow> (exn_class \<Rightarrow> pystr) \<Rightarrow> raised \<Rightarrow> py_exn" where
  "provider_error rp cn r =
     (let failure = classify_provider_exception (ra_heap r) (ra_object r);
          txt = exn_str rp (ra_exn r)
      in Exn (ProviderError (pf_retryable failure)) (if txt = [] then cn (exn_kind (ra_exn r)) else txt))"

definition reraise :: "repr \<Rightarrow> (exn_class \<Rightarrow> pystr) \<Rightarrow> raised \<Rightarrow> py_exn" where
  "reraise rp cn r =
     (case exn_kind (ra_exn r) of
        ProviderError _ \<Rightarrow> ra_exn r
      | CancelledError \<Rightarrow> ra_exn r
      | _ \<Rightarrow> provider_error rp cn r)"

definition normalize_messages :: "llm_message list \<Rightarrow> llm_message list res" where
  "normalize_messages ms =
     (if ms = [] then Inl (Exn ValueError (lit ''At least one LLM message is required'')) else Inr ms)"

definition chat_profile :: "repr \<Rightarrow> 'w chat_api \<Rightarrow> chat_client \<Rightarrow> llm_profile res" where
  "chat_profile rp ch c =
     (case (case ch_profile ch of PDict p \<Rightarrow> dget p (lit ''max_input_tokens'') | _ \<Rightarrow> PNone) of
        PInt n \<Rightarrow>
          if n \<le> 0
          then Inl (Exn RuntimeError (lit ''Model '' @ rp (PStr (cc_model_name c))
                 @ lit '' exposes an invalid context window: '' @ dec_int n))
          else Inr \<lparr>lp_provider = cc_provider c, lp_model = cc_model_name c, lp_context_window_tokens = n\<rparr>
      | _ \<Rightarrow> Inl (Exn RuntimeError (lit ''Model '' @ rp (PStr (cc_model_name c)) @ lit '' from provider ''
               @ rp (PStr (cc_provider c)) @ lit '' does not expose a valid max_input_tokens model profile'')))"

definition llm_invoke ::
  "repr \<Rightarrow> (exn_class \<Rightarrow> pystr) \<Rightarrow> (pystr \<Rightarrow> pyval option) \<Rightarrow> 'w chat_api \<Rightarrow> llm_message list
    \<Rightarrow> llm_tool_definition list \<Rightarrow> ('w, llm_response) act" where
  "llm_invoke rp cn jl ch messages tools =
     mbind (mlift (normalize_messages messages)) (\<lambda>ms.
     mbind (\<lambda>w. case to_langchain_messages ms of
                 Inl e \<Rightarrow> (Inl (reraise rp cn \<lparr>ra_exn = e, ra_heap = [\<lparr>xo_status_code = PNone,
                            xo_response_status = PNone, xo_next = None\<rparr>], ra_object = 0\<rparr>), w)
               | Inr lcs \<Rightarrow>
                   (case ch_invoke ch lcs (map to_langchain_tool tools) w of
                      (Inl r, w') \<Rightarrow> (Inl (reraise rp cn r), w')
                    | (Inr a, w') \<Rightarrow> (Inr a, w'))) (\<lambda>(content, calls).
     mbind (mlift (mapM_res (to_llm_tool_call rp jl) calls)) (\<lambda>tool_calls.
       mret \<lparr>lr_content = extract_text content, lr_tool_calls = tool_calls\<rparr>)))"

text \<open>The stream yields the texts that are not empty.\<close>

definition llm_stream ::
  "repr \<Rightarrow> (exn_class \<Rightarrow> pystr) \<Rightarrow> 'w chat_api \<Rightarrow> llm_message list \<Rightarrow> 'w \<Rightarrow> (pystr list \<times> py_exn option) \<times> 'w" where
  "llm_stream rp cn ch messages w =
     (case rbind (normalize_messages messages) to_langchain_messages of
        Inl e \<Rightarrow> (([], Some e), w)
      | Inr lcs \<Rightarrow>
          (case ch_stream ch lcs w of
             ((chunks, fin), w') \<Rightarrow>
               ((filter (\<lambda>t. t \<noteq> []) (map extract_text chunks), map_option (reraise rp cn) fin), w')))"

section \<open>Counting tokens\<close>

text \<open>Sorted keys and compact separators, as \<open>json.dumps(..., sort_keys=True)\<close> writes them.\<close>

fun sort_keys :: "pyval \<Rightarrow> pyval" where
  "sort_keys (PList xs) = PList (map sort_keys xs)"
| "sort_keys (PTuple xs) = PTuple (map sort_keys xs)"
| "sort_keys (PDict d) = PDict (sort_key fst (map (\<lambda>(k, v). (k, sort_keys v)) d))"
| "sort_keys v = v"

definition compact_dumps :: "(rat \<Rightarrow> pystr) \<Rightarrow> pyval \<Rightarrow> pystr" where
  "compact_dumps ft v = json_dumps (compact_style ft) (sort_keys v)"

definition message_dump :: "llm_message \<Rightarrow> pyval" where
  "message_dump m =
     PDict [(lit ''role'', PStr (role_value (lm_role m))), (lit ''content'', PStr (lm_content m)),
       (lit ''tool_call_id'', opt_str (lm_tool_call_id m)),
       (lit ''tool_calls'', PList (map call_dump (lm_tool_calls m)))]"

definition serialize_messages :: "(rat \<Rightarrow> pystr) \<Rightarrow> llm_message list \<Rightarrow> pystr" where
  "serialize_messages ft ms = compact_dumps ft (PList (map message_dump ms))"

definition lower_ascii :: "pystr \<Rightarrow> pystr" where
  "lower_ascii s = map (\<lambda>c. if 65 \<le> c \<and> c \<le> 90 then c + 32 else c) s"

definition is_unsupported_message_counter :: "py_exn \<Rightarrow> bool" where
  "is_unsupported_message_counter e =
     (if exn_kind e = OtherError (lit ''NotImplementedError'') then True
      else (let m = lower_ascii (exn_msg e)
            in str_in (lit ''get_num_tokens_from_messages'') m
               \<and> (str_in (lit ''not presently implemented'') m \<or> str_in (lit ''not implemented'') m)))"

definition count_text_tokens :: "'w chat_api \<Rightarrow> pystr \<Rightarrow> int" where
  "count_text_tokens ch s = (if s = [] then 0 else ch_num_tokens ch s)"

definition count_tokens ::
  "(rat \<Rightarrow> pystr) \<Rightarrow> 'w chat_api \<Rightarrow> llm_message list \<Rightarrow> llm_tool_definition list \<Rightarrow> int res" where
  "count_tokens ft ch messages tools =
     rbind (if messages = [] then Inr 0
            else rbind (to_langchain_messages messages) (\<lambda>lcs.
              (case ch_num_message_tokens ch lcs of
                 Inr n \<Rightarrow> Inr n
               | Inl e \<Rightarrow>
                   if exn_kind e \<notin> {ValueError, OtherError (lit ''NotImplementedError'')} then Inl e
                   else if \<not> is_unsupported_message_counter e then Inl e
                   else Inr (count_text_tokens ch (serialize_messages ft messages))))) (\<lambda>total.
     Inr (if tools = [] then total
          else total + count_text_tokens ch
                 (compact_dumps ft (PList (map (\<lambda>t. PDict (to_langchain_tool t)) tools)))))"

text \<open>DeepSeek counts the whole request with its own tokenizer, and knows some context windows.\<close>

definition DEEPSEEK_CONTEXT_WINDOWS :: "(pystr \<times> int) list" where
  "DEEPSEEK_CONTEXT_WINDOWS =
     [(lit ''deepseek-flash'', 1000000), (lit ''deepseek-v4-flash'', 1000000), (lit ''deepseek-v4-pro'', 1000000)]"

definition deepseek_profile :: "repr \<Rightarrow> 'w chat_api \<Rightarrow> chat_client \<Rightarrow> llm_profile res" where
  "deepseek_profile rp ch c =
     (case chat_profile rp ch c of
        Inr p \<Rightarrow> Inr p
      | Inl e \<Rightarrow>
          (case map_of DEEPSEEK_CONTEXT_WINDOWS (cc_model_name c) of
             None \<Rightarrow> Inl e
           | Some n \<Rightarrow> Inr \<lparr>lp_provider = cc_provider c, lp_model = cc_model_name c,
                            lp_context_window_tokens = n\<rparr>))"

text \<open>The tokenizer gives the number of tokens it encodes a text into, or raises.\<close>

definition deepseek_text_tokens ::
  "repr \<Rightarrow> (exn_class \<Rightarrow> pystr) \<Rightarrow> pystr \<Rightarrow> (pystr \<Rightarrow> nat res) \<Rightarrow> pystr \<Rightarrow> int res" where
  "deepseek_text_tokens rp cn model tok s =
     (if s = [] then Inr 0
      else (case tok s of
              Inr n \<Rightarrow> Inr (int n)
            | Inl e \<Rightarrow>
                Inl (Exn RuntimeError (lit ''DeepSeek tokenizer failed for model '' @ rp (PStr model) @ lit '': ''
                  @ (if exn_str rp e = [] then cn (exn_kind e) else exn_str rp e)))))"

definition deepseek_tokens ::
  "repr \<Rightarrow> (exn_class \<Rightarrow> pystr) \<Rightarrow> (rat \<Rightarrow> pystr) \<Rightarrow> pystr \<Rightarrow> (pystr \<Rightarrow> nat res) \<Rightarrow> llm_message list
    \<Rightarrow> llm_tool_definition list \<Rightarrow> int res" where
  "deepseek_tokens rp cn ft model tok messages tools =
     (if messages = [] \<and> tools = [] then Inr 0
      else deepseek_text_tokens rp cn model tok
             (compact_dumps ft (PDict [(lit ''messages'', PList (map message_dump messages)),
                (lit ''tools'', PList (map tool_dump tools))])))"

end
