(* ===== verification/Context.thy ===== *)
theory Context
  imports EventLog Llm Unicode "HOL-Library.Product_Lexorder"
begin

text \<open>
  The memory of a session: snapshots and global context entries (\<open>context/models.py\<close>), the lexical search over
  the entries (\<open>context/retrieval.py\<close>), the two stores that keep them, one in memory
  (\<open>context/memory.py\<close>) and one in the database (\<open>database/repositories/context.py\<close>), and the summarizers that
  write the snapshots (\<open>context/summary.py\<close>). Times are their ISO texts.
\<close>

section \<open>Models\<close>

datatype snapshot_reason = EXECUTION_DONE | BUDGET_COMPACTION

fun reason_value :: "snapshot_reason \<Rightarrow> pystr" where
  "reason_value EXECUTION_DONE = lit ''execution_completed''"
| "reason_value BUDGET_COMPACTION = lit ''budget_compaction''"

definition reason_of_value :: "pystr \<Rightarrow> snapshot_reason res" where
  "reason_of_value s =
     (case find (\<lambda>r. reason_value r = s) [EXECUTION_DONE, BUDGET_COMPACTION] of
        None \<Rightarrow> Inl (Exn ValueError s) | Some r \<Rightarrow> Inr r)"

datatype context_kind = USER_MESSAGE | ASSISTANT_MESSAGE | TOOL_RESULT | TOOL_ERROR

fun kind_value :: "context_kind \<Rightarrow> pystr" where
  "kind_value USER_MESSAGE = lit ''user_message''"
| "kind_value ASSISTANT_MESSAGE = lit ''assistant_message''"
| "kind_value TOOL_RESULT = lit ''tool_result''"
| "kind_value TOOL_ERROR = lit ''tool_error''"

definition kind_of_value :: "pystr \<Rightarrow> context_kind res" where
  "kind_of_value s =
     (case find (\<lambda>k. kind_value k = s) [USER_MESSAGE, ASSISTANT_MESSAGE, TOOL_RESULT, TOOL_ERROR] of
        None \<Rightarrow> Inl (Exn ValueError s) | Some k \<Rightarrow> Inr k)"

lemma reason_of_reason_value [simp]: "reason_of_value (reason_value r) = Inr r"
  by (cases r) (simp_all add: reason_of_value_def)

lemma kind_of_kind_value [simp]: "kind_of_value (kind_value k) = Inr k"
  by (cases k) (simp_all add: kind_of_value_def)

record context_summary =
  su_current_request :: pystr
  su_objective :: "pystr option"
  su_established_facts :: "pystr list"
  su_constraints :: "pystr list"
  su_decisions :: "pystr list"
  su_open_questions :: "pystr list"
  su_relevant_references :: "pystr list"
  su_continuity_notes :: "pystr list"

record context_snapshot =
  sn_id :: "pystr option"
  sn_session_id :: pystr
  sn_execution_id :: pystr
  sn_sequence :: int
  sn_reason :: snapshot_reason
  sn_summary :: context_summary
  sn_estimated_tokens :: int
  sn_created_at :: "pystr option"

record context_entry =
  ge_id :: "pystr option"
  ge_session_id :: pystr
  ge_execution_id :: pystr
  ge_sequence :: int
  ge_kind :: context_kind
  ge_content :: pystr
  ge_metadata :: pdict
  ge_created_at :: "pystr option"

record context_match =
  cm_entry :: context_entry
  cm_score :: rat

text \<open>\<open>model_dump(mode="json")\<close> of a summary, and the validation of a dictionary as one.\<close>

definition strings :: "pystr list \<Rightarrow> pyval" where
  "strings xs = PList (map PStr xs)"

definition summary_dump :: "context_summary \<Rightarrow> pdict" where
  "summary_dump s =
     [(lit ''current_request'', PStr (su_current_request s)), (lit ''objective'', opt_str (su_objective s)),
      (lit ''established_facts'', strings (su_established_facts s)), (lit ''constraints'', strings (su_constraints s)),
      (lit ''decisions'', strings (su_decisions s)), (lit ''open_questions'', strings (su_open_questions s)),
      (lit ''relevant_references'', strings (su_relevant_references s)),
      (lit ''continuity_notes'', strings (su_continuity_notes s))]"

definition invalid :: "py_exn" where
  "invalid = Exn ValueError (lit ''ValidationError'')"

fun as_str :: "pyval \<Rightarrow> pystr res" where
  "as_str (PStr s) = Inr s"
| "as_str _ = Inl invalid"

definition as_strings :: "pyval \<Rightarrow> pystr list res" where
  "as_strings v = (case v of PList xs \<Rightarrow> mapM_res as_str xs | PTuple xs \<Rightarrow> mapM_res as_str xs | _ \<Rightarrow> Inl invalid)"

definition field_strings :: "pdict \<Rightarrow> string \<Rightarrow> pystr list res" where
  "field_strings d k = (case map_of d (lit k) of None \<Rightarrow> Inr [] | Some v \<Rightarrow> as_strings v)"

definition summary_validate :: "pdict \<Rightarrow> context_summary res" where
  "summary_validate d =
     rbind (case map_of d (lit ''current_request'') of None \<Rightarrow> Inl invalid | Some v \<Rightarrow> as_str v) (\<lambda>req.
     rbind (case map_of d (lit ''objective'') of
              None \<Rightarrow> Inr None | Some PNone \<Rightarrow> Inr None | Some v \<Rightarrow> rbind (as_str v) (\<lambda>s. Inr (Some s))) (\<lambda>obj.
     rbind (field_strings d ''established_facts'') (\<lambda>facts. rbind (field_strings d ''constraints'') (\<lambda>cons.
     rbind (field_strings d ''decisions'') (\<lambda>decs. rbind (field_strings d ''open_questions'') (\<lambda>ques.
     rbind (field_strings d ''relevant_references'') (\<lambda>refs. rbind (field_strings d ''continuity_notes'') (\<lambda>notes.
       Inr \<lparr>su_current_request = req, su_objective = obj, su_established_facts = facts, su_constraints = cons,
            su_decisions = decs, su_open_questions = ques, su_relevant_references = refs,
            su_continuity_notes = notes\<rparr>))))))))"

lemma mapM_as_str [simp]: "mapM_res as_str (map PStr xs) = Inr xs"
  by (induction xs) auto

lemma summary_validate_dump [simp]: "summary_validate (summary_dump s) = Inr s"
  by (cases "su_objective s")
     (simp_all add: summary_validate_def summary_dump_def field_strings_def as_strings_def strings_def opt_str_def)

section \<open>Lexical search\<close>

definition term_char :: "unicode \<Rightarrow> pychar \<Rightarrow> bool" where
  "term_char u c \<longleftrightarrow> un_word u c \<or> (192 \<le> c \<and> c \<le> 214) \<or> (216 \<le> c \<and> c \<le> 246) \<or> (248 \<le> c \<and> c \<le> 255)"

text \<open>The maximal runs of characters with a property: \<open>findall\<close> of a character class with \<open>+\<close>.\<close>

function (sequential) runs :: "(pychar \<Rightarrow> bool) \<Rightarrow> pystr \<Rightarrow> pystr list" where
  "runs p [] = []"
| "runs p (c # cs) =
     (if p c then (c # takeWhile p cs) # runs p (dropWhile p cs) else runs p cs)"
  by pat_completeness auto
termination
  by (relation "measure (\<lambda>(p, s). length s)") (auto simp: le_imp_less_Suc length_dropWhile_le)

definition lexical_terms :: "unicode \<Rightarrow> pystr \<Rightarrow> pystr list" where
  "lexical_terms u value = uniq_onto [] (runs (term_char u) (casefold u value))"

text \<open>\<open>s.count(t)\<close> for a non-empty \<open>t\<close>: occurrences that do not overlap, from the left.\<close>

function (sequential) py_count :: "pystr \<Rightarrow> pystr \<Rightarrow> nat" where
  "py_count t [] = 0"
| "py_count t (c # cs) =
     (if t \<noteq> [] \<and> prefix t (c # cs) then Suc (py_count t (drop (length t) (c # cs))) else py_count t cs)"
  by pat_completeness auto
termination
  by (relation "measure (\<lambda>(t, s). length s)") auto

definition lexical_score :: "unicode \<Rightarrow> pystr \<Rightarrow> pystr \<Rightarrow> rat" where
  "lexical_score u query content =
     (let terms = lexical_terms u query
      in if terms = [] then 0
         else (let normalized = casefold u content;
                   score = of_nat (sum_list (map (\<lambda>t. py_count t normalized) terms));
                   exact = casefold u (py_strip query)
               in if exact \<noteq> [] \<and> str_in exact normalized then score + of_nat (length terms + 1) else score))"

text \<open>\<open>xs.sort(key=..., reverse=True)\<close> keeps the order of equal elements; \<open>xs[:n]\<close> for any integer.\<close>

definition sort_desc :: "('a \<Rightarrow> 'b::linorder) \<Rightarrow> 'a list \<Rightarrow> 'a list" where
  "sort_desc k xs = rev (sort_key k (rev xs))"

definition slice_to :: "int \<Rightarrow> 'a list \<Rightarrow> 'a list" where
  "slice_to n xs = (if 0 \<le> n then take (nat n) xs else take (length xs - nat (- n)) xs)"

definition score_entries :: "unicode \<Rightarrow> pystr \<Rightarrow> context_entry list \<Rightarrow> context_match list" where
  "score_entries u query es =
     filter (\<lambda>m. 0 < cm_score m)
       (map (\<lambda>e. \<lparr>cm_entry = e, cm_score = lexical_score u query (ge_content e)\<rparr>) es)"

definition match_key :: "context_match \<Rightarrow> rat \<times> int" where
  "match_key m = (cm_score m, ge_sequence (cm_entry m))"

section \<open>The stores in memory\<close>

text \<open>\<open>mm_ids\<close> supplies \<open>uuid4\<close>, \<open>mm_now\<close> the clock's ISO texts.\<close>

record context_memory =
  mm_snapshots :: "context_snapshot list"
  mm_entries :: "context_entry list"
  mm_ids :: "nat \<Rightarrow> pystr"
  mm_now :: "nat \<Rightarrow> pystr"
  mm_tick :: nat

text \<open>\<open>max(xs, key=...)\<close>: the first element with the greatest key.\<close>

fun max_by :: "('a \<Rightarrow> int) \<Rightarrow> 'a list \<Rightarrow> 'a option" where
  "max_by k [] = None"
| "max_by k (x # xs) = (case max_by k xs of None \<Rightarrow> Some x | Some y \<Rightarrow> if k x < k y then Some y else Some x)"

definition mem_latest :: "pystr \<Rightarrow> (context_memory, context_snapshot option) act" where
  "mem_latest session_id w =
     (Inr (max_by sn_sequence (filter (\<lambda>s. sn_session_id s = session_id) (mm_snapshots w))), w)"

definition mem_create ::
  "pystr \<Rightarrow> pystr \<Rightarrow> snapshot_reason \<Rightarrow> context_summary \<Rightarrow> int \<Rightarrow> (context_memory, context_snapshot) act" where
  "mem_create session_id execution_id reason summary estimated_tokens =
     mbind (mem_latest session_id) (\<lambda>previous w.
       (let snapshot = \<lparr>sn_id = Some (mm_ids w (mm_tick w)), sn_session_id = session_id,
              sn_execution_id = execution_id,
              sn_sequence = (case previous of None \<Rightarrow> 1 | Some p \<Rightarrow> sn_sequence p + 1), sn_reason = reason,
              sn_summary = summary, sn_estimated_tokens = estimated_tokens,
              sn_created_at = Some (mm_now w (mm_tick w))\<rparr>
        in (Inr snapshot, w\<lparr>mm_snapshots := mm_snapshots w @ [snapshot], mm_tick := mm_tick w + 1\<rparr>)))"

definition mem_append ::
  "pystr \<Rightarrow> pystr \<Rightarrow> context_kind \<Rightarrow> pystr \<Rightarrow> pdict \<Rightarrow> (context_memory, context_entry) act" where
  "mem_append session_id execution_id kind content metadata w =
     (let sequence = 1 + fold max (map ge_sequence (filter (\<lambda>e. ge_session_id e = session_id) (mm_entries w))) 0;
          entry = \<lparr>ge_id = Some (mm_ids w (mm_tick w)), ge_session_id = session_id, ge_execution_id = execution_id,
            ge_sequence = sequence, ge_kind = kind, ge_content = content, ge_metadata = metadata,
            ge_created_at = Some (mm_now w (mm_tick w))\<rparr>
      in (Inr entry, w\<lparr>mm_entries := mm_entries w @ [entry], mm_tick := mm_tick w + 1\<rparr>))"

definition mem_search :: "unicode \<Rightarrow> pystr \<Rightarrow> pystr \<Rightarrow> int \<Rightarrow> (context_memory, context_match list) act" where
  "mem_search u session_id query limit w =
     (Inr (slice_to limit (sort_desc match_key
        (score_entries u query (filter (\<lambda>e. ge_session_id e = session_id) (mm_entries w))))), w)"

end
