(* ===== verification/ContextStores.thy ===== *)
theory ContextStores
  imports Context "HOL-Library.Multiset"
begin

text \<open>
  The durable stores of the session memory (\<open>database/repositories/context.py\<close>), the contract both
  implementations fulfil (locale \<open>context_store\<close>, interpreted on the database and on the memory stores),
  and what follows from it: numbering without gaps and a search that returns the best matches.
\<close>

section \<open>The repositories\<close>

record snapshot_record =
  cr_id :: pystr
  cr_session_id :: pystr
  cr_execution_id :: pystr
  cr_sequence :: int
  cr_reason :: pystr
  cr_summary_json :: pdict
  cr_estimated_tokens :: int
  cr_created_at :: pystr

record entry_record =
  er_id :: pystr
  er_session_id :: pystr
  er_execution_id :: pystr
  er_sequence :: int
  er_kind :: pystr
  er_content :: pystr
  er_metadata_json :: pdict
  er_created_at :: pystr

text \<open>The tables, and the keys of the sessions and executions their foreign keys refer to.\<close>

record context_db =
  cb_sessions :: "pystr list"
  cb_executions :: "pystr list"
  cb_snapshots :: "snapshot_record list"
  cb_entries :: "entry_record list"
  cb_ids :: "nat \<Rightarrow> pystr"
  cb_now :: "nat \<Rightarrow> pystr"
  cb_tick :: nat

definition lock_session :: "pystr \<Rightarrow> (context_db, unit) act" where
  "lock_session session_id w =
     (if session_id \<in> set (cb_sessions w) then (Inr (), w)
      else (Inl (Exn ValueError (lit ''Session not found: '' @ session_id)), w))"

definition snapshot_from_record :: "snapshot_record \<Rightarrow> context_snapshot res" where
  "snapshot_from_record r =
     rbind (reason_of_value (cr_reason r)) (\<lambda>reason. rbind (summary_validate (cr_summary_json r)) (\<lambda>summary.
       Inr \<lparr>sn_id = Some (cr_id r), sn_session_id = cr_session_id r, sn_execution_id = cr_execution_id r,
            sn_sequence = cr_sequence r, sn_reason = reason, sn_summary = summary,
            sn_estimated_tokens = cr_estimated_tokens r, sn_created_at = Some (cr_created_at r)\<rparr>))"

definition entry_from_record :: "entry_record \<Rightarrow> context_entry res" where
  "entry_from_record r =
     rbind (kind_of_value (er_kind r)) (\<lambda>kind.
       Inr \<lparr>ge_id = Some (er_id r), ge_session_id = er_session_id r, ge_execution_id = er_execution_id r,
            ge_sequence = er_sequence r, ge_kind = kind, ge_content = er_content r,
            ge_metadata = er_metadata_json r, ge_created_at = Some (er_created_at r)\<rparr>)"

definition repo_latest :: "pystr \<Rightarrow> (context_db, context_snapshot option) act" where
  "repo_latest session_id w =
     ((case sort_desc cr_sequence (filter (\<lambda>r. cr_session_id r = session_id) (cb_snapshots w)) of
         [] \<Rightarrow> Inr None
       | r # _ \<Rightarrow> rbind (snapshot_from_record r) (\<lambda>s. Inr (Some s))), w)"

definition next_sequence :: "int list \<Rightarrow> int" where
  "next_sequence xs = (if xs = [] then 0 else Max (set xs)) + 1"

text \<open>A flush checks the foreign keys; the transaction leaves nothing behind when it raises.\<close>

definition repo_create ::
  "pystr \<Rightarrow> pystr \<Rightarrow> snapshot_reason \<Rightarrow> context_summary \<Rightarrow> int \<Rightarrow> (context_db, context_snapshot) act" where
  "repo_create session_id execution_id reason summary estimated_tokens =
     mbind (lock_session session_id) (\<lambda>_ w.
       (let record = \<lparr>cr_id = cb_ids w (cb_tick w), cr_session_id = session_id, cr_execution_id = execution_id,
              cr_sequence = next_sequence (map cr_sequence (filter (\<lambda>r. cr_session_id r = session_id) (cb_snapshots w))),
              cr_reason = reason_value reason, cr_summary_json = summary_dump summary,
              cr_estimated_tokens = estimated_tokens, cr_created_at = cb_now w (cb_tick w)\<rparr>
        in if execution_id \<notin> set (cb_executions w) then (Inl (Exn SQLAlchemyError (lit ''IntegrityError'')), w)
           else (snapshot_from_record record,
                 w\<lparr>cb_snapshots := cb_snapshots w @ [record], cb_tick := cb_tick w + 1\<rparr>)))"

definition repo_append ::
  "pystr \<Rightarrow> pystr \<Rightarrow> context_kind \<Rightarrow> pystr \<Rightarrow> pdict \<Rightarrow> (context_db, context_entry) act" where
  "repo_append session_id execution_id kind content metadata =
     mbind (lock_session session_id) (\<lambda>_ w.
       (let record = \<lparr>er_id = cb_ids w (cb_tick w), er_session_id = session_id, er_execution_id = execution_id,
              er_sequence = next_sequence (map er_sequence (filter (\<lambda>r. er_session_id r = session_id) (cb_entries w))),
              er_kind = kind_value kind, er_content = content, er_metadata_json = metadata,
              er_created_at = cb_now w (cb_tick w)\<rparr>
        in if execution_id \<notin> set (cb_executions w) then (Inl (Exn SQLAlchemyError (lit ''IntegrityError'')), w)
           else (entry_from_record record,
                 w\<lparr>cb_entries := cb_entries w @ [record], cb_tick := cb_tick w + 1\<rparr>)))"

definition repo_search :: "unicode \<Rightarrow> pystr \<Rightarrow> pystr \<Rightarrow> int \<Rightarrow> (context_db, context_match list) act" where
  "repo_search u session_id query limit w =
     ((if lexical_terms u query = [] then Inr []
       else (let records = sort_desc er_sequence (filter (\<lambda>r. er_session_id r = session_id) (cb_entries w));
                 scored = filter (\<lambda>r. 0 < lexical_score u query (er_content r)) records
             in rbind (mapM_res (\<lambda>r. rbind (entry_from_record r) (\<lambda>e.
                   Inr \<lparr>cm_entry = e, cm_score = lexical_score u query (er_content r)\<rparr>)) scored) (\<lambda>matches.
                  Inr (slice_to limit (sort_desc match_key matches))))), w)"

section \<open>The contract\<close>

definition numbered_from_one :: "int list \<Rightarrow> bool" where
  "numbered_from_one xs \<longleftrightarrow> xs = map int [1..<Suc (length xs)]"

definition best_matches :: "unicode \<Rightarrow> pystr \<Rightarrow> context_entry list \<Rightarrow> context_match list" where
  "best_matches u query es = sort_desc match_key (score_entries u query es)"

locale context_store =
  fixes u :: unicode
    and latest :: "pystr \<Rightarrow> ('w, context_snapshot option) act"
    and create :: "pystr \<Rightarrow> pystr \<Rightarrow> snapshot_reason \<Rightarrow> context_summary \<Rightarrow> int \<Rightarrow> ('w, context_snapshot) act"
    and append :: "pystr \<Rightarrow> pystr \<Rightarrow> context_kind \<Rightarrow> pystr \<Rightarrow> pdict \<Rightarrow> ('w, context_entry) act"
    and search :: "pystr \<Rightarrow> pystr \<Rightarrow> int \<Rightarrow> ('w, context_match list) act"
    and ok :: "'w \<Rightarrow> bool"
    and known :: "pystr \<Rightarrow> pystr \<Rightarrow> 'w \<Rightarrow> bool"
    and snapshots :: "'w \<Rightarrow> pystr \<Rightarrow> context_snapshot list"
    and entries :: "'w \<Rightarrow> pystr \<Rightarrow> context_entry list"
  assumes latest_law: "ok w \<Longrightarrow> latest s w = (Inr (if snapshots w s = [] then None else Some (last (snapshots w s))), w)"
    and create_law: "ok w \<Longrightarrow> known s e w \<Longrightarrow> \<exists>x w'. create s e r su n w = (Inr x, w') \<and> ok w'
      \<and> snapshots w' = (snapshots w)(s := snapshots w s @ [x]) \<and> entries w' = entries w
      \<and> (\<lambda>s e. known s e w') = (\<lambda>s e. known s e w)
      \<and> sn_session_id x = s \<and> sn_execution_id x = e \<and> sn_sequence x = int (length (snapshots w s)) + 1
      \<and> sn_reason x = r \<and> sn_summary x = su \<and> sn_estimated_tokens x = n"
    and append_law: "ok w \<Longrightarrow> known s e w \<Longrightarrow> \<exists>x w'. append s e k c d w = (Inr x, w') \<and> ok w'
      \<and> entries w' = (entries w)(s := entries w s @ [x]) \<and> snapshots w' = snapshots w
      \<and> (\<lambda>s e. known s e w') = (\<lambda>s e. known s e w)
      \<and> ge_session_id x = s \<and> ge_execution_id x = e \<and> ge_sequence x = int (length (entries w s)) + 1
      \<and> ge_kind x = k \<and> ge_content x = c \<and> ge_metadata x = d"
    and search_law: "ok w \<Longrightarrow> search s q n w = (Inr (slice_to n (best_matches u q (entries w s))), w)"
    and ok_numbered: "ok w \<Longrightarrow> numbered_from_one (map sn_sequence (snapshots w s))"
      "ok w \<Longrightarrow> numbered_from_one (map ge_sequence (entries w s))"
begin

text \<open>What a search gives: matches of the session, positive, best first, and no better one left out.\<close>

lemma search_best:
  assumes "ok w" and "0 \<le> n"
  shows "\<exists>ms. search s q n w = (Inr ms, w) \<and> length ms \<le> nat n
    \<and> sorted_wrt (\<lambda>a b. match_key b \<le> match_key a) ms
    \<and> (\<forall>m \<in> set ms. cm_entry m \<in> set (entries w s) \<and> 0 < cm_score m
         \<and> cm_score m = lexical_score u q (ge_content (cm_entry m)))
    \<and> (\<forall>e \<in> set (entries w s). 0 < lexical_score u q (ge_content e) \<longrightarrow> e \<notin> cm_entry ` set ms \<longrightarrow>
         length ms = nat n \<and> (\<forall>m \<in> set ms. (lexical_score u q (ge_content e), ge_sequence e) \<le> match_key m))"
proof -
  let ?all = "best_matches u q (entries w s)"
  let ?ms = "take (nat n) ?all"
  have found: "search s q n w = (Inr ?ms, w)" using search_law[OF assms(1)] assms(2) by (simp add: slice_to_def)
  have desc: "sorted_wrt (\<lambda>a b. match_key b \<le> match_key a) ?all"
  proof -
    have "sorted (map match_key (sort_key match_key (rev (score_entries u q (entries w s)))))" by simp
    then show ?thesis by (simp add: best_matches_def sort_desc_def sorted_wrt_rev sorted_map)
  qed
  then have sorted: "sorted_wrt (\<lambda>a b. match_key b \<le> match_key a) ?ms" by (rule sorted_wrt_take)
  have set_all: "set ?all = {m. \<exists>e \<in> set (entries w s). m = \<lparr>cm_entry = e, cm_score = lexical_score u q (ge_content e)\<rparr>
      \<and> 0 < cm_score m}"
    by (auto simp: best_matches_def sort_desc_def score_entries_def)
  have members: "cm_entry m \<in> set (entries w s) \<and> 0 < cm_score m \<and> cm_score m = lexical_score u q (ge_content (cm_entry m))"
    if "m \<in> set ?ms" for m
    using in_set_takeD[OF that] by (auto simp: set_all)
  have left_out: "length ?ms = nat n \<and> (\<forall>m \<in> set ?ms. (lexical_score u q (ge_content e), ge_sequence e) \<le> match_key m)"
    if e: "e \<in> set (entries w s)" "0 < lexical_score u q (ge_content e)" "e \<notin> cm_entry ` set ?ms" for e
  proof -
    let ?m = "\<lparr>cm_entry = e, cm_score = lexical_score u q (ge_content e)\<rparr>"
    have "?m \<in> set ?all" using e(1,2) by (auto simp: set_all)
    moreover have "?m \<notin> set ?ms" using e(3) by force
    ultimately have md: "?m \<in> set (drop (nat n) ?all)"
      by (metis Un_iff append_take_drop_id set_append)
    have "sorted_wrt (\<lambda>a b. match_key b \<le> match_key a) (?ms @ drop (nat n) ?all)" using desc by simp
    then have "\<forall>a \<in> set ?ms. \<forall>b \<in> set (drop (nat n) ?all). match_key b \<le> match_key a"
      unfolding sorted_wrt_append by blast
    with md have "\<forall>m \<in> set ?ms. match_key ?m \<le> match_key m" by blast
    moreover have "length ?ms = nat n"
    proof -
      have "drop (nat n) ?all \<noteq> []" using md by auto
      then show ?thesis by simp
    qed
    ultimately show ?thesis
      by (simp add: match_key_def)
  qed
  have "length ?ms \<le> nat n" by simp
  then show ?thesis using found sorted members left_out by blast
qed

end

section \<open>Both stores keep the contract\<close>

lemma numbered_nth: "numbered_from_one xs \<longleftrightarrow> (\<forall>i < length xs. xs ! i = int i + 1)"
proof -
  have "numbered_from_one xs \<longleftrightarrow> (\<forall>i < length xs. xs ! i = map int [1..<Suc (length xs)] ! i)"
    unfolding numbered_from_one_def by (subst list_eq_iff_nth_eq) (simp del: upt_Suc)
  also have "\<dots> \<longleftrightarrow> (\<forall>i < length xs. xs ! i = int i + 1)"
    by (simp del: upt_Suc add: nth_upt) (metis add.commute)
  finally show ?thesis .
qed

lemma numbered_one_Nil [simp]: "numbered_from_one []"
  by (simp add: numbered_nth)

lemma numbered_snoc_iff: "numbered_from_one (xs @ [x]) \<longleftrightarrow> numbered_from_one xs \<and> x = int (length xs) + 1"
  by (auto simp: numbered_nth nth_append less_Suc_eq)

lemma numbered_one_snoc: "numbered_from_one xs \<Longrightarrow> numbered_from_one (xs @ [int (length xs) + 1])"
  by (simp add: numbered_snoc_iff)

lemma numbered_bound: "numbered_from_one xs \<Longrightarrow> x \<in> set xs \<Longrightarrow> x \<le> int (length xs)"
  by (auto simp: numbered_nth in_set_conv_nth)

lemma numbered_distinct: "numbered_from_one xs \<Longrightarrow> distinct xs"
  by (simp add: numbered_nth distinct_conv_nth)

lemma numbered_sorted: "numbered_from_one xs \<Longrightarrow> sorted xs"
  by (simp add: numbered_nth sorted_iff_nth_mono)

lemma numbered_last: "numbered_from_one xs \<Longrightarrow> xs \<noteq> [] \<Longrightarrow> last xs = int (length xs)"
  by (cases xs rule: rev_cases) (simp_all add: numbered_snoc_iff)

lemma numbered_Max: "numbered_from_one xs \<Longrightarrow> next_sequence xs = int (length xs) + 1"
proof (cases xs rule: rev_cases)
  case (snoc ys y)
  assume "numbered_from_one xs"
  then have "numbered_from_one ys" "y = int (length ys) + 1" by (simp_all add: snoc numbered_snoc_iff)
  then have "Max (set xs) = y" using numbered_bound[of ys] by (intro Max_eqI) (fastforce simp: snoc)+
  then show ?thesis using \<open>y = int (length ys) + 1\<close> by (simp add: next_sequence_def snoc)
qed (simp add: next_sequence_def)

lemma fold_max_numbered: "numbered_from_one xs \<Longrightarrow> fold max xs 0 = int (length xs)"
  by (induction xs rule: rev_induct) (simp_all add: numbered_snoc_iff)

lemma max_by_numbered: "numbered_from_one (map k xs) \<Longrightarrow> max_by k xs = (if xs = [] then None else Some (last xs))"
proof -
  have *: "sorted_wrt (<) (map k xs) \<Longrightarrow> max_by k xs = (if xs = [] then None else Some (last xs))"
    by (induction xs) (auto split: option.splits if_splits dest: last_in_set)
  assume "numbered_from_one (map k xs)"
  then have "sorted_wrt (<) (map k xs)"
    by (simp add: numbered_nth sorted_wrt_iff_nth_less del: nth_map)
  then show ?thesis by (rule *)
qed

lemma sort_desc_numbered: "numbered_from_one (map k xs) \<Longrightarrow> sort_desc k xs = rev xs"
proof -
  assume n: "numbered_from_one (map k xs)"
  have d: "distinct (map k xs)" using n by (rule numbered_distinct)
  have "sort_key k (rev xs) = xs"
    by (rule map_sorted_distinct_set_unique[of k])
       (use d numbered_sorted[OF n] in \<open>simp_all add: distinct_map\<close>)
  then show ?thesis by (simp add: sort_desc_def)
qed

lemma sort_desc_perm:
  assumes "distinct (map k xs)" and "mset ys = mset xs"
  shows "sort_desc k ys = sort_desc k xs"
proof -
  have s: "set ys = set xs" using assms(2) by (rule mset_eq_setD)
  have "mset (map k ys) = mset (map k xs)" using assms(2) by simp
  then have d: "distinct (map k ys)" using assms(1) by (metis distinct_count_atmost_1 mset_eq_setD)
  have "sort_key k (rev ys) = sort_key k (rev xs)"
  proof (rule map_sorted_distinct_set_unique)
    show "inj_on k (set (sort_key k (rev ys)) \<union> set (sort_key k (rev xs)))"
      using assms(1) s by (simp add: distinct_map)
    show "sorted (map k (sort_key k (rev ys)))" "sorted (map k (sort_key k (rev xs)))" by simp_all
    show "distinct (map k (sort_key k (rev ys)))" "distinct (map k (sort_key k (rev xs)))"
      using assms(1) d by (simp_all add: distinct_map)
    show "set (sort_key k (rev ys)) = set (sort_key k (rev xs))" using s by simp
  qed
  then show ?thesis by (simp add: sort_desc_def)
qed

definition mem_snapshots :: "context_memory \<Rightarrow> pystr \<Rightarrow> context_snapshot list" where
  "mem_snapshots w s = filter (\<lambda>x. sn_session_id x = s) (mm_snapshots w)"

definition mem_entries :: "context_memory \<Rightarrow> pystr \<Rightarrow> context_entry list" where
  "mem_entries w s = filter (\<lambda>x. ge_session_id x = s) (mm_entries w)"

definition mem_ok :: "context_memory \<Rightarrow> bool" where
  "mem_ok w \<longleftrightarrow> (\<forall>s. numbered_from_one (map sn_sequence (mem_snapshots w s))
     \<and> numbered_from_one (map ge_sequence (mem_entries w s)))"

lemma mem_views [simp]:
  "mem_snapshots (w\<lparr>mm_snapshots := mm_snapshots w @ [x], mm_tick := t\<rparr>)
     = (mem_snapshots w)(sn_session_id x := mem_snapshots w (sn_session_id x) @ [x])"
  "mem_entries (w\<lparr>mm_snapshots := ss, mm_tick := t\<rparr>) = mem_entries w"
  "mem_entries (w\<lparr>mm_entries := mm_entries w @ [y], mm_tick := t\<rparr>)
     = (mem_entries w)(ge_session_id y := mem_entries w (ge_session_id y) @ [y])"
  "mem_snapshots (w\<lparr>mm_entries := es, mm_tick := t\<rparr>) = mem_snapshots w"
  by (auto simp: mem_snapshots_def mem_entries_def fun_eq_iff)

lemma mem_ok_snapshot:
  "mem_ok w \<Longrightarrow> sn_sequence x = int (length (mem_snapshots w (sn_session_id x))) + 1
     \<Longrightarrow> mem_ok (w\<lparr>mm_snapshots := mm_snapshots w @ [x], mm_tick := t\<rparr>)"
  by (simp add: mem_ok_def numbered_snoc_iff)

lemma mem_ok_entry:
  "mem_ok w \<Longrightarrow> ge_sequence x = int (length (mem_entries w (ge_session_id x))) + 1
     \<Longrightarrow> mem_ok (w\<lparr>mm_entries := mm_entries w @ [x], mm_tick := t\<rparr>)"
  by (simp add: mem_ok_def numbered_snoc_iff)

lemma mem_latest_view:
  assumes "mem_ok w"
  shows "mem_latest s w = (Inr (if mem_snapshots w s = [] then None else Some (last (mem_snapshots w s))), w)"
  using assms max_by_numbered[of sn_sequence "mem_snapshots w s"] by (simp add: mem_ok_def mem_latest_def mem_snapshots_def)

interpretation mem_store: context_store u mem_latest mem_create mem_append "mem_search u" mem_ok "\<lambda>_ _ _. True"
    mem_snapshots mem_entries
proof
  fix w s
  assume ok: "mem_ok w"
  then have n: "numbered_from_one (map sn_sequence (mem_snapshots w t))"
    "numbered_from_one (map ge_sequence (mem_entries w t))" for t
    by (simp_all add: mem_ok_def)
  show "numbered_from_one (map sn_sequence (mem_snapshots w s))"
    "numbered_from_one (map ge_sequence (mem_entries w s))" by (fact n)+
  show "mem_latest s w = (Inr (if mem_snapshots w s = [] then None else Some (last (mem_snapshots w s))), w)"
    using ok by (rule mem_latest_view)
  show "mem_search u s q m w = (Inr (slice_to m (best_matches u q (mem_entries w s))), w)" for q m
    by (simp add: mem_search_def best_matches_def mem_entries_def)
  fix e
  show "\<exists>x w'. mem_create s e r su m w = (Inr x, w') \<and> mem_ok w'
      \<and> mem_snapshots w' = (mem_snapshots w)(s := mem_snapshots w s @ [x]) \<and> mem_entries w' = mem_entries w
      \<and> (\<lambda>(s::pystr) (e::pystr). True) = (\<lambda>s e. True)
      \<and> sn_session_id x = s \<and> sn_execution_id x = e \<and> sn_sequence x = int (length (mem_snapshots w s)) + 1
      \<and> sn_reason x = r \<and> sn_summary x = su \<and> sn_estimated_tokens x = m" for r su m
  proof -
    let ?x = "\<lparr>sn_id = Some (mm_ids w (mm_tick w)), sn_session_id = s, sn_execution_id = e,
        sn_sequence = int (length (mem_snapshots w s)) + 1, sn_reason = r, sn_summary = su, sn_estimated_tokens = m,
        sn_created_at = Some (mm_now w (mm_tick w))\<rparr>"
    let ?w = "w\<lparr>mm_snapshots := mm_snapshots w @ [?x], mm_tick := mm_tick w + 1\<rparr>"
    have "mem_create s e r su m w = (Inr ?x, ?w)"
      using numbered_last[OF n(1)[of s]]
      by (cases "mem_snapshots w s = []") (simp_all add: mem_create_def mbind_def mem_latest_view[OF ok] last_map Let_def)
    moreover have "mem_ok ?w" by (rule mem_ok_snapshot[OF ok]) simp
    ultimately show ?thesis by (intro exI[of _ ?x] exI[of _ ?w]) simp
  qed
  show "\<exists>x w'. mem_append s e k c d w = (Inr x, w') \<and> mem_ok w'
      \<and> mem_entries w' = (mem_entries w)(s := mem_entries w s @ [x]) \<and> mem_snapshots w' = mem_snapshots w
      \<and> (\<lambda>(s::pystr) (e::pystr). True) = (\<lambda>s e. True)
      \<and> ge_session_id x = s \<and> ge_execution_id x = e \<and> ge_sequence x = int (length (mem_entries w s)) + 1
      \<and> ge_kind x = k \<and> ge_content x = c \<and> ge_metadata x = d" for k c d
  proof -
    let ?x = "\<lparr>ge_id = Some (mm_ids w (mm_tick w)), ge_session_id = s, ge_execution_id = e,
        ge_sequence = int (length (mem_entries w s)) + 1, ge_kind = k, ge_content = c, ge_metadata = d,
        ge_created_at = Some (mm_now w (mm_tick w))\<rparr>"
    let ?w = "w\<lparr>mm_entries := mm_entries w @ [?x], mm_tick := mm_tick w + 1\<rparr>"
    have "mem_append s e k c d w = (Inr ?x, ?w)"
      using fold_max_numbered[OF n(2)[of s]] by (simp add: mem_append_def mem_entries_def Let_def)
    moreover have "mem_ok ?w" by (rule mem_ok_entry[OF ok]) simp
    ultimately show ?thesis by (intro exI[of _ ?x] exI[of _ ?w]) simp
  qed
qed

text \<open>The database: every record decodes, as the ones the repository writes do.\<close>

definition snapshot_of :: "snapshot_record \<Rightarrow> context_snapshot" where
  "snapshot_of r = projr (snapshot_from_record r)"

definition entry_of :: "entry_record \<Rightarrow> context_entry" where
  "entry_of r = projr (entry_from_record r)"

definition repo_snapshots :: "context_db \<Rightarrow> pystr \<Rightarrow> context_snapshot list" where
  "repo_snapshots w s = map snapshot_of (filter (\<lambda>r. cr_session_id r = s) (cb_snapshots w))"

definition repo_entries :: "context_db \<Rightarrow> pystr \<Rightarrow> context_entry list" where
  "repo_entries w s = map entry_of (filter (\<lambda>r. er_session_id r = s) (cb_entries w))"

definition repo_ok :: "context_db \<Rightarrow> bool" where
  "repo_ok w \<longleftrightarrow> (\<forall>r \<in> set (cb_snapshots w). snapshot_from_record r = Inr (snapshot_of r))
     \<and> (\<forall>r \<in> set (cb_entries w). entry_from_record r = Inr (entry_of r))
     \<and> (\<forall>s. numbered_from_one (map cr_sequence (filter (\<lambda>r. cr_session_id r = s) (cb_snapshots w)))
          \<and> numbered_from_one (map er_sequence (filter (\<lambda>r. er_session_id r = s) (cb_entries w))))"

definition repo_known :: "pystr \<Rightarrow> pystr \<Rightarrow> context_db \<Rightarrow> bool" where
  "repo_known s e w \<longleftrightarrow> s \<in> set (cb_sessions w) \<and> e \<in> set (cb_executions w)"

lemma decoded_snapshot:
  "snapshot_from_record r = Inr x \<Longrightarrow> sn_sequence x = cr_sequence r \<and> sn_session_id x = cr_session_id r"
  by (auto simp: snapshot_from_record_def)

lemma decoded_entry:
  "entry_from_record r = Inr x \<Longrightarrow> ge_sequence x = er_sequence r \<and> ge_content x = er_content r"
  by (auto simp: entry_from_record_def)

lemma repo_sequences:
  assumes "repo_ok w"
  shows "map sn_sequence (repo_snapshots w s) = map cr_sequence (filter (\<lambda>r. cr_session_id r = s) (cb_snapshots w))"
    and "map ge_sequence (repo_entries w s) = map er_sequence (filter (\<lambda>r. er_session_id r = s) (cb_entries w))"
  using assms by (auto simp: repo_ok_def repo_snapshots_def repo_entries_def decoded_snapshot decoded_entry)

lemma repo_latest_view:
  assumes ok: "repo_ok w"
  shows "repo_latest s w = (Inr (if repo_snapshots w s = [] then None else Some (last (repo_snapshots w s))), w)"
proof -
  let ?rs = "filter (\<lambda>r. cr_session_id r = s) (cb_snapshots w)"
  have "sort_desc cr_sequence ?rs = rev ?rs" using ok by (intro sort_desc_numbered) (simp add: repo_ok_def)
  moreover have "snapshot_from_record (last ?rs) = Inr (snapshot_of (last ?rs))" if "?rs \<noteq> []"
    using ok last_in_set[OF that] by (simp add: repo_ok_def)
  ultimately show ?thesis
    by (cases ?rs rule: rev_cases) (simp_all add: repo_latest_def repo_snapshots_def)
qed

lemma score_entries_keys: "match_key ` set (score_entries u q es) \<subseteq> {(p, t). t \<in> ge_sequence ` set es}"
  by (auto simp: score_entries_def match_key_def)

lemma distinct_match_keys: "distinct (map ge_sequence es) \<Longrightarrow> distinct (map match_key (score_entries u q es))"
proof (induction es)
  case (Cons e es)
  have "match_key \<lparr>cm_entry = e, cm_score = x\<rparr> \<notin> match_key ` set (score_entries u q es)" for x
    using Cons.prems score_entries_keys[of u q es] by (auto simp: match_key_def)
  then show ?case using Cons by (simp add: score_entries_def)
qed (simp add: score_entries_def)

lemma repo_search_view:
  assumes ok: "repo_ok w"
  shows "repo_search u s q m w = (Inr (slice_to m (best_matches u q (repo_entries w s))), w)"
proof -
  let ?rs = "filter (\<lambda>r. er_session_id r = s) (cb_entries w)"
  let ?sc = "\<lambda>r. lexical_score u q (er_content r)"
  let ?dec = "\<lambda>r. rbind (entry_from_record r) (\<lambda>e. Inr \<lparr>cm_entry = e, cm_score = ?sc r\<rparr>)"
  have dec: "entry_from_record r = Inr (entry_of r)" if "r \<in> set ?rs" for r
    using ok that by (simp add: repo_ok_def)
  have rev: "sort_desc er_sequence ?rs = rev ?rs" using ok by (intro sort_desc_numbered) (simp add: repo_ok_def)
  have content: "ge_content (entry_of r) = er_content r" if "r \<in> set ?rs" for r
    using decoded_entry[OF dec[OF that]] by simp
  have map_dec: "mapM_res ?dec rs = Inr (map (\<lambda>r. \<lparr>cm_entry = entry_of r, cm_score = ?sc r\<rparr>) rs)"
    if "set rs \<subseteq> set ?rs" for rs
    using that dec by (induction rs) auto
  have scored: "score_entries u q (map entry_of rs)
      = map (\<lambda>r. \<lparr>cm_entry = entry_of r, cm_score = ?sc r\<rparr>) (filter (\<lambda>r. 0 < ?sc r) rs)"
    if "set rs \<subseteq> set ?rs" for rs
    using that content by (induction rs) (auto simp: score_entries_def)
  have "distinct (map ge_sequence (repo_entries w s))"
    using numbered_distinct[of "map er_sequence ?rs"] ok by (simp only: repo_sequences(2)[OF ok]) (simp add: repo_ok_def)
  then have key: "distinct (map match_key (score_entries u q (repo_entries w s)))" by (rule distinct_match_keys)
  have perm: "sort_desc match_key (score_entries u q (map entry_of (rev ?rs)))
      = sort_desc match_key (score_entries u q (repo_entries w s))"
    by (rule sort_desc_perm[OF key]) (simp add: score_entries_def repo_entries_def rev_map[symmetric] flip: rev_filter)
  show ?thesis
  proof (cases "lexical_terms u q = []")
    case True
    then have "score_entries u q es = []" for es by (simp add: score_entries_def lexical_score_def)
    with True show ?thesis by (simp add: repo_search_def best_matches_def sort_desc_def slice_to_def)
  next
    case False
    have "map (\<lambda>r. \<lparr>cm_entry = entry_of r, cm_score = ?sc r\<rparr>) (filter (\<lambda>r. 0 < ?sc r) (rev ?rs))
        = score_entries u q (map entry_of (rev ?rs))" by (rule scored[symmetric]) simp
    with False show ?thesis
      using map_dec[of "filter (\<lambda>r. 0 < ?sc r) (rev ?rs)"]
      by (simp add: repo_search_def rev best_matches_def flip: perm) auto
  qed
qed

interpretation repo_store: context_store u repo_latest repo_create repo_append "repo_search u" repo_ok repo_known
    repo_snapshots repo_entries
proof
  fix w s
  assume ok: "repo_ok w"
  then have n: "numbered_from_one (map cr_sequence (filter (\<lambda>r. cr_session_id r = t) (cb_snapshots w)))"
    "numbered_from_one (map er_sequence (filter (\<lambda>r. er_session_id r = t) (cb_entries w)))" for t
    by (simp_all add: repo_ok_def)
  then show "numbered_from_one (map sn_sequence (repo_snapshots w s))"
    "numbered_from_one (map ge_sequence (repo_entries w s))" by (simp_all add: repo_sequences[OF ok])
  show "repo_latest s w = (Inr (if repo_snapshots w s = [] then None else Some (last (repo_snapshots w s))), w)"
    using ok by (rule repo_latest_view)
  show "repo_search u s q m w = (Inr (slice_to m (best_matches u q (repo_entries w s))), w)" for q m
    using ok by (rule repo_search_view)
  fix e
  assume known: "repo_known s e w"
  show "\<exists>x w'. repo_create s e r su m w = (Inr x, w') \<and> repo_ok w'
      \<and> repo_snapshots w' = (repo_snapshots w)(s := repo_snapshots w s @ [x]) \<and> repo_entries w' = repo_entries w
      \<and> (\<lambda>s e. repo_known s e w') = (\<lambda>s e. repo_known s e w)
      \<and> sn_session_id x = s \<and> sn_execution_id x = e \<and> sn_sequence x = int (length (repo_snapshots w s)) + 1
      \<and> sn_reason x = r \<and> sn_summary x = su \<and> sn_estimated_tokens x = m" for r su m
  proof -
    let ?r = "\<lparr>cr_id = cb_ids w (cb_tick w), cr_session_id = s, cr_execution_id = e,
        cr_sequence = int (length (repo_snapshots w s)) + 1, cr_reason = reason_value r,
        cr_summary_json = summary_dump su, cr_estimated_tokens = m, cr_created_at = cb_now w (cb_tick w)\<rparr>"
    let ?w = "w\<lparr>cb_snapshots := cb_snapshots w @ [?r], cb_tick := cb_tick w + 1\<rparr>"
    have dec: "snapshot_from_record ?r = Inr (snapshot_of ?r)" by (simp add: snapshot_of_def snapshot_from_record_def)
    have "repo_create s e r su m w = (Inr (snapshot_of ?r), ?w)"
      using known numbered_Max[OF n(1)[of s]] dec
      by (simp add: repo_create_def lock_session_def repo_known_def mbind_def repo_snapshots_def Let_def)
    moreover have "repo_ok ?w" using ok dec by (auto simp: repo_ok_def repo_snapshots_def numbered_snoc_iff)
    moreover have "repo_snapshots ?w = (repo_snapshots w)(s := repo_snapshots w s @ [snapshot_of ?r])"
      by (auto simp: repo_snapshots_def fun_eq_iff)
    moreover have "repo_entries ?w = repo_entries w" "(\<lambda>s e. repo_known s e ?w) = (\<lambda>s e. repo_known s e w)"
      by (auto simp: repo_entries_def repo_known_def fun_eq_iff)
    ultimately show ?thesis
      by (intro exI[of _ "snapshot_of ?r"] exI[of _ ?w]) (simp add: snapshot_of_def snapshot_from_record_def)
  qed
  show "\<exists>x w'. repo_append s e k c d w = (Inr x, w') \<and> repo_ok w'
      \<and> repo_entries w' = (repo_entries w)(s := repo_entries w s @ [x]) \<and> repo_snapshots w' = repo_snapshots w
      \<and> (\<lambda>s e. repo_known s e w') = (\<lambda>s e. repo_known s e w)
      \<and> ge_session_id x = s \<and> ge_execution_id x = e \<and> ge_sequence x = int (length (repo_entries w s)) + 1
      \<and> ge_kind x = k \<and> ge_content x = c \<and> ge_metadata x = d" for k c d
  proof -
    let ?r = "\<lparr>er_id = cb_ids w (cb_tick w), er_session_id = s, er_execution_id = e,
        er_sequence = int (length (repo_entries w s)) + 1, er_kind = kind_value k,
        er_content = c, er_metadata_json = d, er_created_at = cb_now w (cb_tick w)\<rparr>"
    let ?w = "w\<lparr>cb_entries := cb_entries w @ [?r], cb_tick := cb_tick w + 1\<rparr>"
    have dec: "entry_from_record ?r = Inr (entry_of ?r)" by (simp add: entry_of_def entry_from_record_def)
    have "repo_append s e k c d w = (Inr (entry_of ?r), ?w)"
      using known numbered_Max[OF n(2)[of s]] dec
      by (simp add: repo_append_def lock_session_def repo_known_def mbind_def repo_entries_def Let_def)
    moreover have "repo_ok ?w" using ok dec by (auto simp: repo_ok_def repo_entries_def numbered_snoc_iff)
    moreover have "repo_entries ?w = (repo_entries w)(s := repo_entries w s @ [entry_of ?r])"
      by (auto simp: repo_entries_def fun_eq_iff)
    moreover have "repo_snapshots ?w = repo_snapshots w" "(\<lambda>s e. repo_known s e ?w) = (\<lambda>s e. repo_known s e w)"
      by (auto simp: repo_snapshots_def repo_known_def fun_eq_iff)
    ultimately show ?thesis
      by (intro exI[of _ "entry_of ?r"] exI[of _ ?w]) (simp add: entry_of_def entry_from_record_def)
  qed
qed

section \<open>Running a sequence of requests on a store\<close>

datatype context_command =
    TakeSnapshot pystr pystr snapshot_reason context_summary int
  | AppendEntry pystr pystr context_kind pystr pdict
  | AskLatest pystr
  | AskMatches pystr pystr int

datatype context_answer =
    GotSnapshot "context_snapshot option"
  | GotEntry context_entry
  | GotMatches "context_match list"

fun store_step ::
  "(pystr \<Rightarrow> ('w, context_snapshot option) act)
    \<Rightarrow> (pystr \<Rightarrow> pystr \<Rightarrow> snapshot_reason \<Rightarrow> context_summary \<Rightarrow> int \<Rightarrow> ('w, context_snapshot) act)
    \<Rightarrow> (pystr \<Rightarrow> pystr \<Rightarrow> context_kind \<Rightarrow> pystr \<Rightarrow> pdict \<Rightarrow> ('w, context_entry) act)
    \<Rightarrow> (pystr \<Rightarrow> pystr \<Rightarrow> int \<Rightarrow> ('w, context_match list) act) \<Rightarrow> context_command \<Rightarrow> ('w, context_answer) act" where
  "store_step latest create add search (TakeSnapshot s e r su n) =
     mbind (create s e r su n) (\<lambda>x. mret (GotSnapshot (Some x)))"
| "store_step latest create add search (AppendEntry s e k c d) =
     mbind (add s e k c d) (\<lambda>x. mret (GotEntry x))"
| "store_step latest create add search (AskLatest s) = mbind (latest s) (\<lambda>x. mret (GotSnapshot x))"
| "store_step latest create add search (AskMatches s q n) = mbind (search s q n) (\<lambda>x. mret (GotMatches x))"

fun run_all :: "('c \<Rightarrow> ('w, 'a) act) \<Rightarrow> 'c list \<Rightarrow> ('w, 'a list) act" where
  "run_all step [] = mret []"
| "run_all step (c # cs) = mbind (step c) (\<lambda>a. mbind (run_all step cs) (\<lambda>as. mret (a # as)))"

text \<open>Answers and rows without what the store generates, the identifier and the time.\<close>

definition bare_snapshot :: "context_snapshot \<Rightarrow> context_snapshot" where
  "bare_snapshot x = x\<lparr>sn_id := None, sn_created_at := None\<rparr>"

definition bare_entry :: "context_entry \<Rightarrow> context_entry" where
  "bare_entry x = x\<lparr>ge_id := None, ge_created_at := None\<rparr>"

definition bare_match :: "context_match \<Rightarrow> context_match" where
  "bare_match m = m\<lparr>cm_entry := bare_entry (cm_entry m)\<rparr>"

fun bare_answer :: "context_answer \<Rightarrow> context_answer" where
  "bare_answer (GotSnapshot x) = GotSnapshot (map_option bare_snapshot x)"
| "bare_answer (GotEntry x) = GotEntry (bare_entry x)"
| "bare_answer (GotMatches ms) = GotMatches (map bare_match ms)"

text \<open>The abstract store: for each session its snapshots and its entries, in order.\<close>

type_synonym abstract_store = "(pystr \<Rightarrow> context_snapshot list) \<times> (pystr \<Rightarrow> context_entry list)"

fun spec_step :: "unicode \<Rightarrow> context_command \<Rightarrow> abstract_store \<Rightarrow> context_answer \<times> abstract_store" where
  "spec_step u (TakeSnapshot s e r su n) (S, E) =
     (let x = \<lparr>sn_id = None, sn_session_id = s, sn_execution_id = e, sn_sequence = int (length (S s)) + 1,
            sn_reason = r, sn_summary = su, sn_estimated_tokens = n, sn_created_at = None\<rparr>
      in (GotSnapshot (Some x), (S(s := S s @ [x]), E)))"
| "spec_step u (AppendEntry s e k c d) (S, E) =
     (let x = \<lparr>ge_id = None, ge_session_id = s, ge_execution_id = e, ge_sequence = int (length (E s)) + 1,
            ge_kind = k, ge_content = c, ge_metadata = d, ge_created_at = None\<rparr>
      in (GotEntry x, (S, E(s := E s @ [x]))))"
| "spec_step u (AskLatest s) (S, E) = (GotSnapshot (if S s = [] then None else Some (last (S s))), (S, E))"
| "spec_step u (AskMatches s q n) (S, E) = (GotMatches (slice_to n (best_matches u q (E s))), (S, E))"

fun spec_run :: "unicode \<Rightarrow> context_command list \<Rightarrow> abstract_store \<Rightarrow> context_answer list" where
  "spec_run u [] A = []"
| "spec_run u (c # cs) A = (case spec_step u c A of (a, A') \<Rightarrow> a # spec_run u cs A')"

fun command_keys :: "context_command \<Rightarrow> (pystr \<times> pystr) list" where
  "command_keys (TakeSnapshot s e r su n) = [(s, e)]"
| "command_keys (AppendEntry s e k c d) = [(s, e)]"
| "command_keys (AskLatest s) = []"
| "command_keys (AskMatches s q n) = []"

lemma bare_sequence [simp]: "ge_sequence (bare_entry e) = ge_sequence e" "ge_content (bare_entry e) = ge_content e"
  by (simp_all add: bare_entry_def)

lemma bare_key [simp]: "match_key (bare_match m) = match_key m" "cm_score (bare_match m) = cm_score m"
  by (simp_all add: match_key_def bare_match_def)

lemma map_sort_key: "(\<And>x. k (f x) = k x) \<Longrightarrow> map f (sort_key k xs) = sort_key k (map f xs)"
proof -
  assume k: "\<And>x. k (f x) = k x"
  have "map f (insort_key k x xs) = insort_key k (f x) (map f xs)" for x xs
    by (induction xs) (simp_all add: k)
  then show ?thesis by (induction xs) simp_all
qed

lemma map_sort_desc: "(\<And>x. k (f x) = k x) \<Longrightarrow> map f (sort_desc k xs) = sort_desc k (map f xs)"
  by (simp add: sort_desc_def map_sort_key flip: rev_map)

lemma bare_scores: "map bare_match (score_entries u q es) = score_entries u q (map bare_entry es)"
  by (induction es) (simp_all add: score_entries_def bare_match_def)

lemma bare_best: "map bare_match (best_matches u q es) = best_matches u q (map bare_entry es)"
  unfolding best_matches_def by (subst map_sort_desc) (simp_all add: bare_scores)

lemma map_slice: "map f (slice_to n xs) = slice_to n (map f xs)"
  by (simp add: slice_to_def take_map)

context context_store
begin

definition view :: "'w \<Rightarrow> abstract_store" where
  "view w = (\<lambda>s. map bare_snapshot (snapshots w s), \<lambda>s. map bare_entry (entries w s))"

lemma step_refines:
  assumes ok: "ok w" and known: "\<forall>(s, e) \<in> set (command_keys c). known s e w"
  obtains a w' where "store_step latest create append search c w = (Inr a, w')" and "ok w'"
    and "(\<lambda>s e. known s e w') = (\<lambda>s e. known s e w)" and "spec_step u c (view w) = (bare_answer a, view w')"
proof (cases c)
  case c: (TakeSnapshot s e r su n)
  then have known': "known s e w" using known by simp
  obtain x w' where x: "create s e r su n w = (Inr x, w')" "ok w'"
      "snapshots w' = (snapshots w)(s := snapshots w s @ [x])" "entries w' = entries w"
      "(\<lambda>s e. known s e w') = (\<lambda>s e. known s e w)" "sn_session_id x = s" "sn_execution_id x = e" "sn_sequence x = int (length (snapshots w s)) + 1"
      "sn_reason x = r" "sn_summary x = su" "sn_estimated_tokens x = n"
    using create_law[OF ok known', of r su n] by (auto simp: c)
  show ?thesis
    by (rule that[of "GotSnapshot (Some x)" w'])
       (use x c in \<open>auto simp: mbind_def mret_def view_def bare_snapshot_def Let_def fun_eq_iff\<close>)
next
  case c: (AppendEntry s e k t d)
  then have known': "known s e w" using known by simp
  obtain x w' where x: "append s e k t d w = (Inr x, w')" "ok w'"
      "entries w' = (entries w)(s := entries w s @ [x])" "snapshots w' = snapshots w"
      "(\<lambda>s e. known s e w') = (\<lambda>s e. known s e w)" "ge_session_id x = s" "ge_execution_id x = e" "ge_sequence x = int (length (entries w s)) + 1"
      "ge_kind x = k" "ge_content x = t" "ge_metadata x = d"
    using append_law[OF ok known', of k t d] by (auto simp: c)
  show ?thesis
    by (rule that[of "GotEntry x" w'])
       (use x c in \<open>auto simp: mbind_def mret_def view_def bare_entry_def Let_def fun_eq_iff\<close>)
next
  case c: (AskLatest s)
  show ?thesis
    by (rule that[of "GotSnapshot (if snapshots w s = [] then None else Some (last (snapshots w s)))" w])
       (use ok c in \<open>simp_all add: mbind_def mret_def latest_law view_def last_map\<close>)
next
  case c: (AskMatches s q n)
  show ?thesis
    by (rule that[of "GotMatches (slice_to n (best_matches u q (entries w s)))" w])
       (use ok c in \<open>simp_all add: mbind_def mret_def search_law view_def map_slice bare_best\<close>)
qed

lemma run_refines:
  assumes "ok w" and "\<And>c s e. c \<in> set cs \<Longrightarrow> (s, e) \<in> set (command_keys c) \<Longrightarrow> known s e w"
  shows "\<exists>as w'. run_all (store_step latest create append search) cs w = (Inr as, w') \<and> ok w'
    \<and> map bare_answer as = spec_run u cs (view w)"
  using assms
proof (induction cs arbitrary: w)
  case (Cons c cs)
  have known: "\<forall>(s, e) \<in> set (command_keys c). known s e w" using Cons.prems(2)[of c] by auto
  obtain a w1 where a: "store_step latest create append search c w = (Inr a, w1)" "ok w1"
      "(\<lambda>s e. known s e w1) = (\<lambda>s e. known s e w)" "spec_step u c (view w) = (bare_answer a, view w1)"
    by (rule step_refines[OF Cons.prems(1) known])
  obtain as w' where "run_all (store_step latest create append search) cs w1 = (Inr as, w')" "ok w'"
      "map bare_answer as = spec_run u cs (view w1)"
    using Cons.IH[OF a(2)] Cons.prems(2) fun_cong[OF fun_cong[OF a(3)]] by force
  with a show ?case by (intro exI[of _ "a # as"] exI[of _ w']) (simp add: mbind_def mret_def)
qed (simp add: mret_def)

end


text \<open>One session and one execution: a snapshot is taken, two entries are appended, one is found.\<close>

definition example_db :: context_db where
  "example_db = \<lparr>cb_sessions = [lit ''s''], cb_executions = [lit ''e''], cb_snapshots = [], cb_entries = [],
     cb_ids = (\<lambda>n. lit ''db''), cb_now = (\<lambda>n. lit ''then''), cb_tick = 0\<rparr>"

definition example_memory :: context_memory where
  "example_memory = \<lparr>mm_snapshots = [], mm_entries = [], mm_ids = (\<lambda>n. lit ''mem''), mm_now = (\<lambda>n. lit ''now''),
     mm_tick = 0\<rparr>"

definition example_commands :: "context_command list" where
  "example_commands = [AppendEntry (lit ''s'') (lit ''e'') USER_MESSAGE (lit ''total sales'') [],
     AppendEntry (lit ''s'') (lit ''e'') TOOL_RESULT (lit ''42'') [], AskLatest (lit ''s''),
     AskMatches (lit ''s'') (lit ''sales'') 3]"

lemma example_starts: "mem_ok example_memory" "repo_ok example_db" "mem_snapshots example_memory s = []"
  "mem_entries example_memory s = []" "repo_snapshots example_db s = []" "repo_entries example_db s = []"
  by (simp_all add: mem_ok_def repo_ok_def mem_snapshots_def mem_entries_def repo_snapshots_def repo_entries_def
        example_memory_def example_db_def)

lemma example_known: "c \<in> set example_commands \<Longrightarrow> (s, e) \<in> set (command_keys c) \<Longrightarrow> repo_known s e example_db"
  by (auto simp: example_commands_def repo_known_def example_db_def)


text \<open>
  C19. A search of the session memory in the database never fails, returns at most the requested number of entries of
  the session, each with its positive lexical score, best score first and the newer entry first on a tie, and leaves
  out a matching entry only when it is full of entries at least as good.
\<close>

theorem context_search_best:
  assumes "repo_ok w" and "0 \<le> n"
  shows "\<exists>ms. repo_search u s q n w = (Inr ms, w) \<and> length ms \<le> nat n
    \<and> sorted_wrt (\<lambda>a b. match_key b \<le> match_key a) ms
    \<and> (\<forall>m \<in> set ms. cm_entry m \<in> set (repo_entries w s) \<and> 0 < cm_score m
         \<and> cm_score m = lexical_score u q (ge_content (cm_entry m)))
    \<and> (\<forall>e \<in> set (repo_entries w s). 0 < lexical_score u q (ge_content e) \<longrightarrow> e \<notin> cm_entry ` set ms \<longrightarrow>
         length ms = nat n \<and> (\<forall>m \<in> set ms. (lexical_score u q (ge_content e), ge_sequence e) \<le> match_key m))"
  using assms by (rule repo_store.search_best)

definition searched_db :: context_db where
  "searched_db = example_db\<lparr>cb_entries := [\<lparr>er_id = lit ''x'', er_session_id = lit ''s'', er_execution_id = lit ''e'',
     er_sequence = 1, er_kind = kind_value USER_MESSAGE, er_content = lit ''total sales'', er_metadata_json = [],
     er_created_at = lit ''then''\<rparr>]\<rparr>"

lemma searched_ok: "repo_ok searched_db"
  by (simp add: repo_ok_def searched_db_def example_db_def entry_of_def entry_from_record_def numbered_nth
        del: kind_value.simps)

lemma context_search_best_witness:
  "\<exists>ms. repo_search ascii_unicode (lit ''s'') (lit ''sales'') 5 searched_db = (Inr ms, searched_db) \<and> length ms \<le> 5"
proof -
  obtain ms where "repo_search ascii_unicode (lit ''s'') (lit ''sales'') 5 searched_db = (Inr ms, searched_db)"
    "length ms \<le> nat 5"
    using context_search_best[OF searched_ok, of 5 ascii_unicode "lit ''s''" "lit ''sales''"] by auto
  then show ?thesis by simp
qed

end
