(* ===== verification/Budget.thy ===== *)
theory Budget
  imports Context
begin

text \<open>
  The model as the agent sees it (\<open>llm/contracts.py\<close>), the two token estimators and the context budget
  (\<open>context/budget.py\<close>). Percentages are exact rationals.
\<close>

section \<open>The model client\<close>

text \<open>A stream is the texts of its chunks and the exception that ends it, if any.\<close>

record 'w llm_client =
  li_invoke :: "llm_message list \<Rightarrow> llm_tool_definition list \<Rightarrow> ('w, llm_response) act"
  li_stream :: "llm_message list \<Rightarrow> 'w \<Rightarrow> (pystr list \<times> py_exn option) \<times> 'w"
  li_count_text :: "pystr \<Rightarrow> int res"
  li_count :: "llm_message list \<Rightarrow> llm_tool_definition list \<Rightarrow> int res"

definition langchain_client :: "py_text \<Rightarrow> (exn_class \<Rightarrow> pystr) \<Rightarrow> 'w chat_api \<Rightarrow> 'w llm_client" where
  "langchain_client tx cn ch =
     \<lparr>li_invoke = llm_invoke (tx_repr tx) cn (json_loads (tx_read tx)) ch, li_stream = llm_stream (tx_repr tx) cn ch,
      li_count_text = (\<lambda>s. Inr (count_text_tokens ch s)), li_count = count_tokens (tx_float tx) ch\<rparr>"

section \<open>Estimators\<close>

record token_estimator =
  te_text :: "pystr \<Rightarrow> int res"
  te_messages :: "llm_message list \<Rightarrow> int res"
  te_tools :: "llm_tool_definition list \<Rightarrow> int res"

definition model_estimator :: "'w llm_client \<Rightarrow> token_estimator" where
  "model_estimator llm =
     \<lparr>te_text = li_count_text llm, te_messages = (\<lambda>ms. li_count llm ms []), te_tools = li_count llm []\<rparr>"

text \<open>\<open>json.dumps(..., ensure_ascii=False)\<close> of the messages and tools, measured in characters.\<close>

definition approximate_text :: "rat \<Rightarrow> pystr \<Rightarrow> int" where
  "approximate_text chars_per_token s = (if s = [] then 0 else max 1 \<lceil>of_nat (length s) / chars_per_token\<rceil>)"

definition message_payload :: "llm_message \<Rightarrow> pyval" where
  "message_payload m =
     PDict [(lit ''role'', PStr (role_value (lm_role m))), (lit ''content'', PStr (lm_content m)),
       (lit ''tool_call_id'', opt_str (lm_tool_call_id m)), (lit ''tool_calls'', PList (map call_dump (lm_tool_calls m)))]"

definition approximate_estimator :: "py_text \<Rightarrow> rat \<Rightarrow> token_estimator" where
  "approximate_estimator tx cpt =
     \<lparr>te_text = (\<lambda>s. Inr (approximate_text cpt s)),
      te_messages = (\<lambda>ms. Inr (sum_list (map (\<lambda>m. approximate_text cpt (dumps tx (message_payload m))) ms))),
      te_tools = (\<lambda>ts. Inr (if ts = [] then 0 else approximate_text cpt (dumps tx (PList (map tool_dump ts)))))\<rparr>"

definition new_approximate_estimator :: "py_text \<Rightarrow> rat \<Rightarrow> token_estimator res" where
  "new_approximate_estimator tx cpt =
     (if cpt \<le> 0 then Inl (Exn ValueError (lit ''chars_per_token must be greater than zero''))
      else Inr (approximate_estimator tx cpt))"

section \<open>The budget\<close>

record budget_policy =
  bp_model_context_window_tokens :: int
  bp_dynamic_context_percentage :: rat

definition new_budget_policy :: "int \<Rightarrow> rat \<Rightarrow> budget_policy res" where
  "new_budget_policy window percentage =
     (if window < 1 then Inl (Exn ValueError (lit ''model_context_window_tokens must be greater than zero''))
      else if \<not> (0 < percentage \<and> percentage \<le> 100)
      then Inl (Exn ValueError (lit ''dynamic_context_percentage must be between 0 and 100''))
      else Inr \<lparr>bp_model_context_window_tokens = window, bp_dynamic_context_percentage = percentage\<rparr>)"

definition dynamic_budget_tokens :: "budget_policy \<Rightarrow> int" where
  "dynamic_budget_tokens p =
     max 1 \<lfloor>of_int (bp_model_context_window_tokens p) * bp_dynamic_context_percentage p / 100\<rfloor>"

record budget_report =
  br_model_context_window_tokens :: int
  br_dynamic_budget_tokens :: int
  br_mandatory_tokens :: int
  br_dynamic_tokens :: int
  br_total_estimated_tokens :: int
  br_dynamic_usage_percentage :: rat
  br_over_budget :: bool

text \<open>\<open>round(x, 2)\<close>, half to even.\<close>

definition round_half_even :: "rat \<Rightarrow> int" where
  "round_half_even x =
     (let f = \<lfloor>x\<rfloor>; d = x - of_int f
      in if d < 1 / 2 then f else if 1 / 2 < d then f + 1 else if even f then f else f + 1)"

definition round2 :: "rat \<Rightarrow> rat" where
  "round2 x = of_int (round_half_even (x * 100)) / 100"

definition budget_measure ::
  "token_estimator \<Rightarrow> budget_policy \<Rightarrow> llm_message list \<Rightarrow> llm_message list \<Rightarrow> llm_tool_definition list
    \<Rightarrow> budget_report res" where
  "budget_measure te p mandatory_messages dynamic_messages tool_definitions =
     rbind (te_messages te mandatory_messages) (\<lambda>m. rbind (te_tools te tool_definitions) (\<lambda>t.
     rbind (te_messages te dynamic_messages) (\<lambda>dynamic.
       (let mandatory = m + t; budget = dynamic_budget_tokens p;
            usage = (if budget \<noteq> 0 then of_int dynamic / of_int budget * 100 else 0)
        in Inr \<lparr>br_model_context_window_tokens = bp_model_context_window_tokens p,
              br_dynamic_budget_tokens = budget, br_mandatory_tokens = mandatory, br_dynamic_tokens = dynamic,
              br_total_estimated_tokens = mandatory + dynamic, br_dynamic_usage_percentage = round2 usage,
              br_over_budget = (budget < dynamic)\<rparr>))))"

lemma dynamic_budget_positive [simp]: "0 < dynamic_budget_tokens p"
  by (simp add: dynamic_budget_tokens_def)

lemma dynamic_budget_within_window:
  assumes "new_budget_policy window percentage = Inr p"
  shows "dynamic_budget_tokens p \<le> window"
proof -
  have w: "1 \<le> window" and c: "0 < percentage" "percentage \<le> 100"
    and p: "p = \<lparr>bp_model_context_window_tokens = window, bp_dynamic_context_percentage = percentage\<rparr>"
    using assms by (auto simp: new_budget_policy_def split: if_splits)
  have "of_int window * percentage \<le> of_int window * 100" using w c by (intro mult_left_mono) simp_all
  then have "of_int window * percentage / 100 \<le> of_int window" by simp
  then have "\<lfloor>of_int window * percentage / 100\<rfloor> \<le> window" by (simp add: floor_le_iff)
  then show ?thesis using w by (simp add: dynamic_budget_tokens_def p)
qed

lemma budget_measure_over:
  "budget_measure te p ms ds ts = Inr r \<Longrightarrow> br_over_budget r \<longleftrightarrow> br_dynamic_budget_tokens r < br_dynamic_tokens r"
  by (auto simp: budget_measure_def Let_def)

lemma budget_measure_parts:
  "budget_measure te p ms ds ts = Inr r \<Longrightarrow>
     te_messages te ds = Inr (br_dynamic_tokens r) \<and> br_dynamic_budget_tokens r = dynamic_budget_tokens p"
  by (auto simp: budget_measure_def Let_def)

end
