(* ===== verification/Summary.thy ===== *)
theory Summary
  imports Budget
begin

text \<open>
  The summarizers that write the session snapshots (\<open>context/summary.py\<close>) and the retriever the agent searches
  the session memory with (\<open>context/retrieval.py\<close>).
\<close>

section \<open>The fallback\<close>

record fallback_conf =
  fc_max_messages :: nat
  fc_max_chars_per_message :: nat

definition new_fallback_summarizer :: "int \<Rightarrow> int \<Rightarrow> fallback_conf res" where
  "new_fallback_summarizer max_messages max_chars =
     (if max_messages < 1 then Inl (Exn ValueError (lit ''max_messages must be greater than zero''))
      else if max_chars < 1 then Inl (Exn ValueError (lit ''max_chars_per_message must be greater than zero''))
      else Inr \<lparr>fc_max_messages = nat max_messages, fc_max_chars_per_message = nat max_chars\<rparr>)"

text \<open>The note of one message; 8230 is the ellipsis.\<close>

definition message_note :: "fallback_conf \<Rightarrow> llm_message \<Rightarrow> pystr list" where
  "message_note c m =
     (let text = py_strip (lm_content m)
      in if text = [] then []
         else (let text' = (if fc_max_chars_per_message c < length text
                            then py_rstrip (take (fc_max_chars_per_message c) text) @ [8230] else text)
               in [[91] @ role_value (lm_role m) @ [93, 32] @ text']))"

definition fallback_summarize ::
  "fallback_conf \<Rightarrow> context_snapshot option \<Rightarrow> llm_message list \<Rightarrow> pystr \<Rightarrow> context_summary" where
  "fallback_summarize c previous_snapshot messages question =
     (let start = (case previous_snapshot of
            None \<Rightarrow> \<lparr>su_current_request = question, su_objective = None, su_established_facts = [],
              su_constraints = [], su_decisions = [], su_open_questions = [], su_relevant_references = [],
              su_continuity_notes = []\<rparr>
          | Some s \<Rightarrow> (sn_summary s)\<lparr>su_current_request := question,
              su_continuity_notes := last_n (fc_max_messages c) (su_continuity_notes (sn_summary s))\<rparr>);
          notes = su_continuity_notes start @ concat (map (message_note c) (last_n (fc_max_messages c) messages))
      in start\<lparr>su_continuity_notes := last_n (fc_max_messages c) notes\<rparr>)"

section \<open>The object in a model's answer\<close>

text \<open>\<open>str.splitlines\<close>; \<open>cr\<close> says that a carriage return has just ended a line.\<close>

fun splitlines_onto :: "bool \<Rightarrow> pystr \<Rightarrow> pystr \<Rightarrow> pystr list" where
  "splitlines_onto cr acc [] = (if acc = [] then [] else [rev acc])"
| "splitlines_onto cr acc (c # cs) =
     (if cr \<and> c = 10 then splitlines_onto False [] cs
      else if c = 13 then rev acc # splitlines_onto True [] cs
      else if c \<in> {10, 11, 12, 28, 29, 30, 133, 8232, 8233} then rev acc # splitlines_onto False [] cs
      else splitlines_onto False (c # acc) cs)"

definition splitlines :: "pystr \<Rightarrow> pystr list" where
  "splitlines s = splitlines_onto False [] s"

definition unfence :: "pystr \<Rightarrow> pystr" where
  "unfence value =
     (if prefix (lit ''```'') value
      then (let lines = tl (splitlines value);
                lines' = (if lines \<noteq> [] \<and> py_strip (last lines) = lit ''```'' then butlast lines else lines);
                value' = py_strip (py_join [10] lines')
            in if prefix (lit ''json'') (lower_ascii value') then py_lstrip (drop 4 value') else value')
      else value)"

text \<open>From the first opening brace to the last closing one.\<close>

definition braces :: "pystr \<Rightarrow> pystr" where
  "braces value = rev (dropWhile (\<lambda>c. c \<noteq> 125) (rev (dropWhile (\<lambda>c. c \<noteq> 123) value)))"

definition parse_json_object :: "py_text \<Rightarrow> pystr \<Rightarrow> pdict res" where
  "parse_json_object tx content =
     (let object = braces (unfence (py_strip content))
      in if object = [] then Inl (Exn ValueError (lit ''Summary response does not contain a JSON object''))
         else rbind (loads tx object) (\<lambda>parsed.
           (case parsed of
              PDict d \<Rightarrow> Inr d
            | _ \<Rightarrow> Inl (Exn ValueError (lit ''Summary response must be a JSON object'')))))"

section \<open>The model's summary\<close>

definition summary_payload :: "context_snapshot option \<Rightarrow> llm_message list \<Rightarrow> pystr \<Rightarrow> pyval" where
  "summary_payload previous_snapshot messages question =
     PDict [(lit ''current_request'', PStr question),
       (lit ''previous_snapshot'',
          (case previous_snapshot of None \<Rightarrow> PNone | Some s \<Rightarrow> PDict (summary_dump (sn_summary s)))),
       (lit ''working_context'', PList (map (\<lambda>m. PDict
          [(lit ''role'', PStr (role_value (lm_role m))), (lit ''content'', PStr (lm_content m)),
           (lit ''tool_calls'', PList (map call_dump (lm_tool_calls m))),
           (lit ''tool_call_id'', opt_str (lm_tool_call_id m))])
          (filter (\<lambda>m. lm_role m \<noteq> SYSTEM) messages)))]"

definition summary_prompt :: pystr where
  "summary_prompt =
     lit ''Create a compact session-continuity snapshot. Preserve only information that may ''
     @ lit ''matter to future reasoning: the current request, objective, established facts, ''
     @ lit ''constraints, decisions, unresolved questions, identifiers/references and concise ''
     @ lit ''continuity notes. Do not include tool catalogs, skill catalogs, skill instructions, ''
     @ lit ''system instructions or hidden chain-of-thought. Return ONLY valid JSON with exactly ''
     @ lit ''these keys: current_request, objective, established_facts, constraints, decisions, ''
     @ lit ''open_questions, relevant_references, continuity_notes. All collection fields must be ''
     @ lit ''JSON arrays of strings. objective may be null.'' @ [10, 10] @ lit ''INPUT:'' @ [10]"

definition summary_system :: pystr where
  "summary_system = lit ''You are the context compaction component of an agent runtime. ''
     @ lit ''Summarize observable context only.''"

definition llm_summarize ::
  "py_text \<Rightarrow> 'w llm_client \<Rightarrow> fallback_conf \<Rightarrow> context_snapshot option \<Rightarrow> llm_message list \<Rightarrow> pystr
    \<Rightarrow> ('w, context_summary) act" where
  "llm_summarize tx llm fallback previous_snapshot messages question =
     (let prompt = summary_prompt @ dumps tx (summary_payload previous_snapshot messages question)
      in mexcept
           (mbind (li_invoke llm [message SYSTEM summary_system, message USER prompt] []) (\<lambda>response.
            mbind (mlift (parse_json_object tx (lr_content response))) (\<lambda>parsed.
            mbind (mlift (summary_validate parsed)) (\<lambda>summary.
              mret (if py_strip (su_current_request summary) = []
                    then summary\<lparr>su_current_request := question\<rparr> else summary)))))
           (\<lambda>_. mret (fallback_summarize fallback previous_snapshot messages question)))"

section \<open>Searching the session memory\<close>

definition GLOBAL_CONTEXT_SEARCH_TOOL_NAME :: pystr where
  "GLOBAL_CONTEXT_SEARCH_TOOL_NAME = lit ''global_context_search''"

record 'w retriever =
  rt_search :: "pystr \<Rightarrow> pystr \<Rightarrow> int \<Rightarrow> ('w, context_match list) act"
  rt_default_limit :: int
  rt_max_limit :: int

definition new_retriever ::
  "(pystr \<Rightarrow> pystr \<Rightarrow> int \<Rightarrow> ('w, context_match list) act) \<Rightarrow> int \<Rightarrow> int \<Rightarrow> 'w retriever res" where
  "new_retriever search default_limit max_limit =
     (if default_limit < 1 then Inl (Exn ValueError (lit ''default_limit must be greater than zero''))
      else if max_limit < default_limit
      then Inl (Exn ValueError (lit ''max_limit must be greater than or equal to default_limit''))
      else Inr \<lparr>rt_search = search, rt_default_limit = default_limit, rt_max_limit = max_limit\<rparr>)"

definition retriever_definition :: "'w retriever \<Rightarrow> llm_tool_definition" where
  "retriever_definition r =
     \<lparr>td_name = GLOBAL_CONTEXT_SEARCH_TOOL_NAME,
      td_description = lit ''Search the complete durable context of the current session using lexical terms. ''
        @ lit ''Use it when relevant information may have been compacted out of the current ''
        @ lit ''snapshot or when the user refers to an older detail that is not currently visible.'',
      td_input_schema =
        [(lit ''type'', PStr (lit ''object'')),
         (lit ''properties'', PDict
           [(lit ''query'', PDict [(lit ''type'', PStr (lit ''string'')), (lit ''minLength'', PInt 1),
               (lit ''description'', PStr (lit ''Lexical search query for prior session information.''))]),
            (lit ''limit'', PDict [(lit ''type'', PStr (lit ''integer'')), (lit ''minimum'', PInt 1),
               (lit ''maximum'', PInt (rt_max_limit r))])]),
         (lit ''required'', PList [PStr (lit ''query'')]),
         (lit ''additionalProperties'', PBool False)]\<rparr>"

definition retriever_is_call :: "llm_tool_call \<Rightarrow> bool" where
  "retriever_is_call call \<longleftrightarrow> tc_name call = GLOBAL_CONTEXT_SEARCH_TOOL_NAME"

definition match_dict :: "context_match \<Rightarrow> pyval" where
  "match_dict m =
     (let e = cm_entry m
      in PDict [(lit ''score'', PFloat (cm_score m)), (lit ''sequence'', PInt (ge_sequence e)),
           (lit ''execution_id'', PStr (ge_execution_id e)), (lit ''kind'', PStr (kind_value (ge_kind e))),
           (lit ''content'', PStr (ge_content e)), (lit ''metadata'', PDict (ge_metadata e)),
           (lit ''created_at'', opt_str (ge_created_at e))])"

text \<open>The limit of a call, a boolean not being an integer here.\<close>

definition retriever_limit :: "'w retriever \<Rightarrow> pdict \<Rightarrow> int res" where
  "retriever_limit r arguments =
     (case dget_or arguments (lit ''limit'') (PInt (rt_default_limit r)) of
        PInt n \<Rightarrow>
          if n < 1 \<or> rt_max_limit r < n
          then Inl (Exn ValueError (lit ''Global context search '' @ [39] @ lit ''limit'' @ [39]
                 @ lit '' must be between 1 and '' @ dec_int (rt_max_limit r)))
          else Inr n
      | _ \<Rightarrow> Inl (Exn ValueError (lit ''Global context search '' @ [39] @ lit ''limit'' @ [39]
                 @ lit '' must be an integer'')))"

definition retriever_query :: "pdict \<Rightarrow> pystr res" where
  "retriever_query arguments =
     (case dget arguments (lit ''query'') of
        PStr q \<Rightarrow> if py_strip q = []
                  then Inl (Exn ValueError (lit ''Global context search requires a non-empty '' @ [39]
                         @ lit ''query'' @ [39]))
                  else Inr (py_strip q)
      | _ \<Rightarrow> Inl (Exn ValueError (lit ''Global context search requires a non-empty '' @ [39]
               @ lit ''query'' @ [39])))"

definition retriever_invoke :: "'w retriever \<Rightarrow> pystr \<Rightarrow> pdict \<Rightarrow> ('w, pdict) act" where
  "retriever_invoke r session_id arguments =
     mbind (mlift (retriever_query arguments)) (\<lambda>query.
     mbind (mlift (retriever_limit r arguments)) (\<lambda>n.
     mbind (rt_search r session_id query n) (\<lambda>matches.
       mret [(lit ''query'', PStr query), (lit ''matches'', PList (map match_dict matches))])))"

section \<open>The summary always comes\<close>

lemma fallback_notes_bounded: "length (su_continuity_notes (fallback_summarize c prev ms q)) \<le> fc_max_messages c"
  by (simp add: fallback_summarize_def Let_def)

lemma set_message_note: "n \<in> set (message_note c m) \<Longrightarrow> length n \<le> fc_max_chars_per_message c + 13"
proof -
  assume n: "n \<in> set (message_note c m)"
  have r: "length (role_value r) \<le> 9" for r by (cases r) (simp_all add: lit_def)
  let ?k = "fc_max_chars_per_message c" and ?t = "py_strip (lm_content m)"
  have cut: "length (py_rstrip (take ?k ?t)) \<le> ?k"
    using length_strip_end[of is_space "take ?k ?t"] unfolding py_rstrip_def by simp
  have "n = [91] @ role_value (lm_role m) @ [93, 32] @ (if ?k < length ?t then py_rstrip (take ?k ?t) @ [8230] else ?t)"
    using n by (simp add: message_note_def Let_def split: if_splits)
  then show ?thesis using r[of "lm_role m"] cut by (simp split: if_splits)
qed

lemma fallback_note_origin:
  assumes "n \<in> set (su_continuity_notes (fallback_summarize c prev ms q))"
  shows "(\<exists>s. prev = Some s \<and> n \<in> set (su_continuity_notes (sn_summary s)))
    \<or> (\<exists>m \<in> set ms. n \<in> set (message_note c m))"
proof -
  have "n \<in> set (case prev of None \<Rightarrow> [] | Some s \<Rightarrow> su_continuity_notes (sn_summary s))
      \<or> n \<in> set (concat (map (message_note c) (last_n (fc_max_messages c) ms)))"
    using assms by (cases prev) (auto simp: fallback_summarize_def Let_def dest!: subsetD[OF set_last_n])
  then show ?thesis by (auto split: option.splits dest!: subsetD[OF set_last_n])
qed

lemma fallback_request [simp]: "su_current_request (fallback_summarize c prev ms q) = q"
  by (simp add: fallback_summarize_def Let_def split: option.splits)

end
