(* ===== verification/Async.thy ===== *)
theory Async
  imports Effects
begin

text \<open>
  Concurrent coroutines. A coroutine that \<open>asyncio.gather\<close> runs next to others is a \<open>task\<close>: what it does
  between two suspensions is one \<open>Step\<close>, and it may acquire and release named semaphores. A scheduler
  picks which task advances; \<open>gather\<close> returns the results in order, or the first exception.
\<close>

section \<open>Tasks\<close>

datatype ('w, 'a) task =
    Done "'a res"
  | Step "'w \<Rightarrow> ('w, 'a) task \<times> 'w"
  | Acquire pystr "('w, 'a) task"
  | Release pystr "('w, 'a) task"

primrec tbind :: "('w, 'a) task \<Rightarrow> ('a \<Rightarrow> ('w, 'b) task) \<Rightarrow> ('w, 'b) task" where
  "tbind (Done r) k = (case r of Inl e \<Rightarrow> Done (Inl e) | Inr a \<Rightarrow> k a)"
| "tbind (Step f) k = Step (\<lambda>w. map_prod (\<lambda>t. tbind t k) id (f w))"
| "tbind (Acquire s t) k = Acquire s (tbind t k)"
| "tbind (Release s t) k = Release s (tbind t k)"

definition tret :: "'a \<Rightarrow> ('w, 'a) task" where
  "tret a = Done (Inr a)"

definition atomic :: "('w, 'a) act \<Rightarrow> ('w, 'a) task" where
  "atomic m = Step (\<lambda>w. case m w of (r, w') \<Rightarrow> (Done r, w'))"

text \<open>\<open>except Exception\<close>: a cancellation passes.\<close>

primrec texcept :: "('w, 'a) task \<Rightarrow> (py_exn \<Rightarrow> ('w, 'a) task) \<Rightarrow> ('w, 'a) task" where
  "texcept (Done r) h =
     (case r of Inl e \<Rightarrow> if exn_kind e = CancelledError then Done (Inl e) else h e | Inr a \<Rightarrow> Done (Inr a))"
| "texcept (Step f) h = Step (\<lambda>w. map_prod (\<lambda>t. texcept t h) id (f w))"
| "texcept (Acquire s t) h = Acquire s (texcept t h)"
| "texcept (Release s t) h = Release s (texcept t h)"

text \<open>\<open>async with semaphore\<close>: the permit comes back on every outcome.\<close>

primrec release_after :: "pystr \<Rightarrow> ('w, 'a) task \<Rightarrow> ('w, 'a) task" where
  "release_after s (Done r) = Release s (Done r)"
| "release_after s (Step f) = Step (\<lambda>w. map_prod (release_after s) id (f w))"
| "release_after s (Acquire s' t) = Acquire s' (release_after s t)"
| "release_after s (Release s' t) = Release s' (release_after s t)"

definition with_semaphore :: "pystr \<Rightarrow> ('w, 'a) task \<Rightarrow> ('w, 'a) task" where
  "with_semaphore s t = Acquire s (release_after s t)"

section \<open>Scheduling\<close>

fun runnable :: "nat \<Rightarrow> (pystr \<Rightarrow> nat) \<Rightarrow> ('w, 'a) task \<Rightarrow> bool" where
  "runnable cap held (Done r) \<longleftrightarrow> False"
| "runnable cap held (Step f) \<longleftrightarrow> True"
| "runnable cap held (Acquire s t) \<longleftrightarrow> held s < cap"
| "runnable cap held (Release s t) \<longleftrightarrow> True"

fun advance :: "('w, 'a) task \<Rightarrow> (pystr \<Rightarrow> nat) \<Rightarrow> 'w \<Rightarrow> ('w, 'a) task \<times> (pystr \<Rightarrow> nat) \<times> 'w" where
  "advance (Done r) held w = (Done r, held, w)"
| "advance (Step f) held w = (case f w of (t, w') \<Rightarrow> (t, held, w'))"
| "advance (Acquire s t) held w = (t, held(s := held s + 1), w)"
| "advance (Release s t) held w = (t, held(s := held s - 1), w)"

fun first_error :: "('w, 'a) task list \<Rightarrow> py_exn option" where
  "first_error [] = None"
| "first_error (Done (Inl e) # ts) = Some e"
| "first_error (t # ts) = first_error ts"

fun results :: "('w, 'a) task list \<Rightarrow> 'a list option" where
  "results [] = Some []"
| "results (Done (Inr a) # ts) = map_option ((#) a) (results ts)"
| "results (t # ts) = None"

text \<open>
  The event loop: at each tick one of the tasks that can advance does, whichever \<open>pick\<close> says. \<open>None\<close> is a
  loop that is not over after the given number of ticks, or a deadlock.
\<close>

fun gather_loop ::
  "nat \<Rightarrow> nat \<Rightarrow> (nat \<Rightarrow> nat) \<Rightarrow> ('w, 'a) task list \<Rightarrow> (pystr \<Rightarrow> nat) \<Rightarrow> 'w \<Rightarrow> ('a list res \<times> 'w) option" where
  "gather_loop 0 cap pick ts held w = None"
| "gather_loop (Suc n) cap pick ts held w =
     (case first_error ts of
        Some e \<Rightarrow> Some (Inl e, w)
      | None \<Rightarrow>
          (case results ts of
             Some as \<Rightarrow> Some (Inr as, w)
           | None \<Rightarrow>
               (let ready = filter (\<lambda>i. runnable cap held (ts ! i)) [0..<length ts]
                in if ready = [] then None
                   else (let i = ready ! (pick n mod length ready)
                         in case advance (ts ! i) held w of (t, held', w') \<Rightarrow>
                              gather_loop n cap pick (ts[i := t]) held' w'))))"

text \<open>\<open>gather\<close> of tasks of at most \<open>steps\<close> steps each.\<close>

definition gather :: "nat \<Rightarrow> nat \<Rightarrow> ('w \<Rightarrow> nat \<Rightarrow> nat) \<Rightarrow> ('w, 'a) task list \<Rightarrow> ('w, 'a list) act" where
  "gather steps cap pick ts w =
     (case gather_loop (Suc (steps * length ts)) cap (pick w) ts (\<lambda>_. 0) w of
        None \<Rightarrow> (Inl (Exn (OtherError (lit ''stuck'')) []), w) | Some r \<Rightarrow> r)"

text \<open>The same machine as a relation, with every choice of the scheduler.\<close>

type_synonym ('w, 'a) pool = "('w, 'a) task list \<times> (pystr \<Rightarrow> nat) \<times> 'w"

inductive pool_step :: "nat \<Rightarrow> ('w, 'a) pool \<Rightarrow> ('w, 'a) pool \<Rightarrow> bool" for cap where
  step: "i < length ts \<Longrightarrow> runnable cap held (ts ! i) \<Longrightarrow> advance (ts ! i) held w = (t, held', w')
    \<Longrightarrow> pool_step cap (ts, held, w) (ts[i := t], held', w')"

inductive pool_reach :: "nat \<Rightarrow> ('w, 'a) pool \<Rightarrow> ('w, 'a) pool \<Rightarrow> bool" for cap p where
  start: "pool_reach cap p p"
| more: "pool_reach cap p q \<Longrightarrow> pool_step cap q r \<Longrightarrow> pool_reach cap p r"

inductive_cases pool_stepE: "pool_step cap p q"

section \<open>Semaphores\<close>

primrec no_locks :: "('w, 'a) task \<Rightarrow> bool" where
  "no_locks (Done r) \<longleftrightarrow> True"
| "no_locks (Step f) \<longleftrightarrow> (\<forall>w. pred_prod no_locks (\<lambda>_. True) (f w))"
| "no_locks (Acquire s t) \<longleftrightarrow> False"
| "no_locks (Release s t) \<longleftrightarrow> False"

text \<open>The life of a task under a semaphore: waiting for it, inside, over.\<close>

definition waiting :: "pystr \<Rightarrow> ('w, 'a) task \<Rightarrow> bool" where
  "waiting s t \<longleftrightarrow> (\<exists>t0. no_locks t0 \<and> t = with_semaphore s t0)"

definition inside :: "pystr \<Rightarrow> ('w, 'a) task \<Rightarrow> bool" where
  "inside s t \<longleftrightarrow> (\<exists>t0. no_locks t0 \<and> t = release_after s t0)"

definition over :: "('w, 'a) task \<Rightarrow> bool" where
  "over t \<longleftrightarrow> (\<exists>r. t = Done r)"

lemma no_locks_Step: "no_locks (Step f) \<Longrightarrow> f w = (t, w') \<Longrightarrow> no_locks t"
  by (metis fst_conv no_locks.simps(2) pred_prod_beta)

lemma release_after_pending:
  "release_after s t \<noteq> Done r" "no_locks t \<Longrightarrow> release_after s t \<noteq> Acquire s' t'"
  by (cases t; simp)+

lemma inside_advance:
  assumes "inside s t" and "advance t held w = (t', held', w')"
  shows "(inside s t' \<and> held' = held) \<or> (over t' \<and> held' = held(s := held s - 1))"
proof -
  from assms(1) obtain t0 where t0: "no_locks t0" "t = release_after s t0" by (auto simp: inside_def)
  show ?thesis
  proof (cases t0)
    case (Done r)
    then show ?thesis using t0 assms(2) by (auto simp: over_def)
  next
    case (Step f)
    obtain u w'' where u: "f w = (u, w'')" by (cases "f w")
    with t0 Step have "no_locks u" by (auto intro: no_locks_Step)
    then show ?thesis using t0 assms(2) Step u by (auto simp: inside_def)
  qed (use t0 in auto)
qed

lemma waiting_advance:
  "waiting s t \<Longrightarrow> advance t held w = (t', held', w') \<Longrightarrow> inside s t' \<and> held' = held(s := held s + 1)"
  by (auto simp: waiting_def inside_def with_semaphore_def)

lemma waiting_not_inside: "waiting s t \<Longrightarrow> \<not> inside s t"
  unfolding waiting_def inside_def with_semaphore_def by (metis release_after_pending(2))

lemma over_not_inside: "over t \<Longrightarrow> \<not> inside s t"
  unfolding over_def inside_def by (metis release_after_pending(1))

lemma no_locks_advance:
  "no_locks t \<Longrightarrow> advance t held w = (t', held', w') \<Longrightarrow> no_locks t' \<and> held' = held"
  by (cases t) (auto intro: no_locks_Step split: prod.splits)

text \<open>A pool whose tasks each run under the semaphore of their name, or under none.\<close>

definition task_ok :: "pystr option \<Rightarrow> ('w, 'a) task \<Rightarrow> bool" where
  "task_ok name t \<longleftrightarrow> (case name of None \<Rightarrow> no_locks t | Some s \<Rightarrow> waiting s t \<or> inside s t \<or> over t)"

definition insiders :: "pystr option list \<Rightarrow> ('w, 'a) task list \<Rightarrow> pystr \<Rightarrow> nat set" where
  "insiders names ts s = {i. i < length ts \<and> names ! i = Some s \<and> inside s (ts ! i)}"

definition pool_ok :: "nat \<Rightarrow> pystr option list \<Rightarrow> ('w, 'a) pool \<Rightarrow> bool" where
  "pool_ok cap names p \<longleftrightarrow>
     (case p of (ts, held, w) \<Rightarrow>
        list_all2 task_ok names ts \<and> (\<forall>s. held s = card (insiders names ts s) \<and> held s \<le> cap))"

lemma finite_insiders [simp]: "finite (insiders names ts s)"
  by (rule finite_subset[of _ "{..<length ts}"]) (auto simp: insiders_def)

lemma insiders_update:
  "i < length ts \<Longrightarrow> insiders names (ts[i := t]) s =
     (if names ! i = Some s \<and> inside s t then insert i (insiders names ts s) else insiders names ts s - {i})"
  by (auto simp: insiders_def nth_list_update)

lemma pool_ok_step:
  assumes ok: "pool_ok cap names p" and st: "pool_step cap p q"
  shows "pool_ok cap names q"
proof -
  from st obtain ts held w i t held' w' where p: "p = (ts, held, w)" and q: "q = (ts[i := t], held', w')"
    and i: "i < length ts" and run: "runnable cap held (ts ! i)" and adv: "advance (ts ! i) held w = (t, held', w')"
    by (auto elim!: pool_stepE)
  have all: "list_all2 task_ok names ts" and h: "\<And>s. held s = card (insiders names ts s)" "\<And>s. held s \<le> cap"
    using ok unfolding pool_ok_def p prod.case by blast+
  have ti: "task_ok (names ! i) (ts ! i)" using all i by (simp add: list_all2_conv_all_nth)
  have keep: "list_all2 task_ok names (ts[i := t])" if "task_ok (names ! i) t"
    using all i that by (simp add: list_all2_conv_all_nth nth_list_update)
  show ?thesis
  proof (cases "names ! i")
    case None
    then have "no_locks (ts ! i)" using ti by (simp add: task_ok_def)
    then have t: "no_locks t" "held' = held" using no_locks_advance[OF _ adv] by auto
    have "insiders names (ts[i := t]) s = insiders names ts s" for s
      using None i by (auto simp: insiders_update) (simp add: insiders_def)
    then show ?thesis using t None keep h by (simp add: pool_ok_def q task_ok_def)
  next
    case (Some s)
    consider (wait) "waiting s (ts ! i)" | (hold) "inside s (ts ! i)" | (over) "over (ts ! i)"
      using ti Some by (auto simp: task_ok_def)
    then show ?thesis
    proof cases
      case wait
      have t: "inside s t" "held' = held(s := held s + 1)" using waiting_advance[OF wait adv] by auto
      have "i \<notin> insiders names ts s" using waiting_not_inside[OF wait] by (simp add: insiders_def)
      moreover have "held s < cap" using wait run by (auto simp: waiting_def with_semaphore_def)
      moreover have "insiders names (ts[i := t]) s' = (if s' = s then insert i (insiders names ts s) else insiders names ts s')"
        for s' using Some t i by (auto simp: insiders_update) (simp add: insiders_def)
      ultimately show ?thesis using keep t Some h by (auto simp: pool_ok_def q task_ok_def)
    next
      case hold
      then have "i \<in> insiders names ts s" using Some i by (simp add: insiders_def)
      consider (on) "inside s t" "held' = held" | (off) "over t" "held' = held(s := held s - 1)"
        using inside_advance[OF hold adv] by auto
      then show ?thesis
      proof cases
        case on
        have "insiders names (ts[i := t]) s' = insiders names ts s'" for s'
          using on Some i hold by (auto simp: insiders_def nth_list_update)
        then show ?thesis using keep on Some h by (simp add: pool_ok_def q task_ok_def)
      next
        case off
        have "insiders names (ts[i := t]) s' = (if s' = s then insiders names ts s - {i} else insiders names ts s')"
          for s' using off over_not_inside Some i by (auto simp: insiders_update) (simp add: insiders_def)
        then show ?thesis using keep off Some h \<open>i \<in> insiders names ts s\<close>
          by (auto simp: pool_ok_def q task_ok_def intro: le_trans[OF diff_le_self])
      qed
    next
      case over
      then show ?thesis using run by (auto simp: over_def)
    qed
  qed
qed

lemma pool_ok_reach: "pool_reach cap p q \<Longrightarrow> pool_ok cap names p \<Longrightarrow> pool_ok cap names q"
  by (induction rule: pool_reach.induct) (auto dest: pool_ok_step)

lemma pool_ok_start:
  "list_all2 task_ok names ts \<Longrightarrow> (\<And>s i. i < length ts \<Longrightarrow> names ! i = Some s \<Longrightarrow> waiting s (ts ! i))
     \<Longrightarrow> pool_ok cap names (ts, \<lambda>_. 0, w)"
  by (auto simp: pool_ok_def insiders_def dest: waiting_not_inside)

lemma pool_ok_bound:
  "pool_ok cap names (ts, held, w) \<Longrightarrow> card (insiders names ts s) \<le> cap"
  unfolding pool_ok_def prod.case by metis

section \<open>Completion\<close>

inductive ends_in :: "nat \<Rightarrow> ('w, 'a) task \<Rightarrow> bool" where
  finished: "ends_in n (Done r)"
| step: "(\<And>w. ends_in n (fst (f w))) \<Longrightarrow> ends_in (Suc n) (Step f)"
| acquire: "ends_in n t \<Longrightarrow> ends_in (Suc n) (Acquire s t)"
| release: "ends_in n t \<Longrightarrow> ends_in (Suc n) (Release s t)"

inductive_simps ends_in_Step: "ends_in n (Step f)"
inductive_simps ends_in_Acquire: "ends_in n (Acquire s t)"
inductive_simps ends_in_Release: "ends_in n (Release s t)"

lemma ends_in_mono: "ends_in n t \<Longrightarrow> n \<le> m \<Longrightarrow> ends_in m t"
proof (induction arbitrary: m rule: ends_in.induct)
  case (step n f)
  then obtain k where "m = Suc k" "n \<le> k" by (cases m) auto
  with step.IH show ?case by (auto intro: ends_in.step)
next
  case (acquire n t s)
  then show ?case by (cases m) (auto intro: ends_in.acquire)
next
  case (release n t s)
  then show ?case by (cases m) (auto intro: ends_in.release)
qed (rule ends_in.finished)

lemma ends_in_atomic: "ends_in (Suc n) (atomic m)"
  unfolding atomic_def by (rule ends_in.step) (auto simp: split_def intro: ends_in.finished)

lemma ends_in_tbind: "ends_in n t \<Longrightarrow> (\<And>a. ends_in m (k a)) \<Longrightarrow> ends_in (n + m) (tbind t k)"
proof (induction rule: ends_in.induct)
  case (finished n r)
  then show ?case by (cases r) (auto intro: ends_in.finished ends_in_mono[of m])
next
  case (step n f)
  then have "ends_in (n + m) (fst (map_prod (\<lambda>t. tbind t k) id (f w)))" for w by simp
  then show ?case by (simp add: ends_in.step)
qed (simp_all add: ends_in.acquire ends_in.release)

lemma ends_in_texcept: "ends_in n t \<Longrightarrow> (\<And>e. ends_in m (h e)) \<Longrightarrow> ends_in (n + m) (texcept t h)"
proof (induction rule: ends_in.induct)
  case (finished n r)
  then show ?case by (cases r) (auto intro: ends_in.finished ends_in_mono[of m])
next
  case (step n f)
  then have "ends_in (n + m) (fst (map_prod (\<lambda>t. texcept t h) id (f w)))" for w by simp
  then show ?case by (simp add: ends_in.step)
qed (simp_all add: ends_in.acquire ends_in.release)

lemma ends_in_release_after: "ends_in n t \<Longrightarrow> ends_in (Suc n) (release_after s t)"
proof (induction rule: ends_in.induct)
  case (step n f)
  then have "ends_in (Suc n) (fst (map_prod (release_after s) id (f w)))" for w by simp
  then show ?case by (simp add: ends_in.step)
qed (auto intro: ends_in.intros)

lemma ends_in_with_semaphore: "ends_in n t \<Longrightarrow> ends_in (Suc (Suc n)) (with_semaphore s t)"
  by (simp add: with_semaphore_def ends_in.acquire ends_in_release_after)

lemma ends_in_advance:
  assumes "ends_in n t" and "advance t held w = (t', held', w')" and "runnable cap held t"
  shows "0 < n \<and> ends_in (n - 1) t'"
  using assms(1)
proof cases
  case (step m f)
  obtain u w'' where u: "f w = (u, w'')" by (cases "f w")
  have "ends_in m (fst (f w))" by (rule step(3))
  then have "ends_in m u" by (simp add: u)
  moreover have "t' = u" using assms(2) by (simp add: step(2) u)
  ultimately show ?thesis by (simp add: step(1))
qed (use assms in auto)

lemma over_or_ready:
  fixes ts :: "('w, 'a) task list"
  assumes ok: "pool_ok cap names (ts, held, w)" and cap: "0 < cap"
    and stop: "\<And>i. i < length ts \<Longrightarrow> \<not> runnable cap held (ts ! i)" and i: "i < length ts"
  shows "over (ts ! i)"
proof -
  have all: "list_all2 task_ok names ts" and h: "\<And>s. held s = card (insiders names ts s)"
    using ok unfolding pool_ok_def prod.case by blast+
  have run: "runnable cap held t" if "no_locks t" "\<not> over t" for t :: "('w, 'a) task"
    using that unfolding over_def by (cases t) simp_all
  have run': "runnable cap held t" if "inside s t" for s and t :: "('w, 'a) task"
  proof -
    from that obtain t0 where "no_locks t0" "t = release_after s t0" unfolding inside_def by blast
    then show ?thesis by (cases t0) simp_all
  qed
  have "insiders names ts s = {}" for s unfolding insiders_def using stop run'[of s] by blast
  then have "held s = 0" for s using h by simp
  then have run'': "runnable cap held t" if "waiting s t" for s and t :: "('w, 'a) task"
    using that cap unfolding waiting_def with_semaphore_def by (elim exE conjE) simp
  have ti: "task_ok (names ! i) (ts ! i)" using all i by (simp add: list_all2_conv_all_nth)
  show ?thesis
  proof (cases "names ! i")
    case None
    then have "no_locks (ts ! i)" using ti by (simp add: task_ok_def)
    then show ?thesis using run stop[OF i] by blast
  next
    case (Some s)
    then have "waiting s (ts ! i) \<or> inside s (ts ! i) \<or> over (ts ! i)" using ti by (simp add: task_ok_def)
    then show ?thesis using run'[of s "ts ! i"] run''[of s "ts ! i"] stop[OF i] by blast
  qed
qed

lemma all_over: "(\<And>t. t \<in> set ts \<Longrightarrow> over t) \<Longrightarrow> first_error ts \<noteq> None \<or> results ts \<noteq> None"
proof (induction ts)
  case (Cons t ts)
  then obtain r where "t = Done r" by (auto simp: over_def)
  with Cons show ?case by (cases r) auto
qed simp

lemma sum_list_decrease: "i < length ns \<Longrightarrow> 0 < ns ! i \<Longrightarrow> Suc (sum_list (ns[i := ns ! i - 1])) = sum_list ns" for ns :: "nat list"
  by (induction ns arbitrary: i) (auto split: nat.splits simp: nth_Cons)

lemma gather_loop_completes:
  assumes "pool_ok cap names (ts, held, w)" and "0 < cap" and "list_all2 ends_in ns ts" and "sum_list ns < n"
  shows "gather_loop n cap pick ts held w \<noteq> None"
  using assms
proof (induction n arbitrary: ts held w ns)
  case (Suc n)
  let ?ready = "filter (\<lambda>i. runnable cap held (ts ! i)) [0..<length ts]"
  show ?case
  proof (cases "first_error ts = None \<and> results ts = None")
    case True
    have ready: "?ready \<noteq> []"
    proof
      assume "?ready = []"
      then have "over t" if "t \<in> set ts" for t
        using that over_or_ready[OF Suc.prems(1,2)] by (auto simp: filter_empty_conv in_set_conv_nth)
      with all_over True show False by blast
    qed
    let ?i = "?ready ! (pick n mod length ?ready)"
    have "?i \<in> set ?ready" using ready by (intro nth_mem) simp
    then have i: "?i < length ts" "runnable cap held (ts ! ?i)" by simp_all
    obtain t held' w' where adv: "advance (ts ! ?i) held w = (t, held', w')" by (metis prod_cases3)
    have ok: "pool_ok cap names (ts[?i := t], held', w')"
      by (rule pool_ok_step[OF Suc.prems(1) pool_step.step[OF i adv]])
    have len: "length ns = length ts" using Suc.prems(3) by (rule list_all2_lengthD)
    have "ends_in (ns ! ?i) (ts ! ?i)" using Suc.prems(3) i by (simp add: list_all2_conv_all_nth)
    from ends_in_advance[OF this adv i(2)] have d: "0 < ns ! ?i" "ends_in (ns ! ?i - 1) t" by auto
    have all: "list_all2 ends_in (ns[?i := ns ! ?i - 1]) (ts[?i := t])"
      using Suc.prems(3) d(2) by (rule list_all2_update_cong)
    have "sum_list (ns[?i := ns ! ?i - 1]) < n"
      using Suc.prems(4) sum_list_decrease[of ?i ns] i len d(1) by simp
    from Suc.IH[OF ok Suc.prems(2) all this] True ready adv show ?thesis
      by (simp add: Let_def)
  qed (auto split: option.splits)
qed simp

lemma gather_completes:
  assumes "pool_ok cap names (ts, \<lambda>_. 0, w)" and "0 < cap" and "\<And>t. t \<in> set ts \<Longrightarrow> ends_in steps t"
  obtains n r w' where "gather_loop n cap (pick w) ts (\<lambda>_. 0) w = Some (r, w')" and "gather steps cap pick ts w = (r, w')"
proof -
  have "list_all2 ends_in (replicate (length ts) steps) ts" using assms(3) by (simp add: list_all2_conv_all_nth)
  from gather_loop_completes[OF assms(1,2) this, of "Suc (steps * length ts)" "pick w"]
  have "gather_loop (Suc (steps * length ts)) cap (pick w) ts (\<lambda>_. 0) w \<noteq> None"
    by (simp add: sum_list_replicate del: gather_loop.simps)
  then obtain p where p: "gather_loop (Suc (steps * length ts)) cap (pick w) ts (\<lambda>_. 0) w = Some p" by blast
  then show ?thesis
    using that[of "Suc (steps * length ts)" "fst p" "snd p"] by (simp add: gather_def del: gather_loop.simps)
qed

section \<open>What tasks end with and keep\<close>

inductive ends :: "('a res \<Rightarrow> bool) \<Rightarrow> ('w, 'a) task \<Rightarrow> bool" for Q where
  finished: "Q r \<Longrightarrow> ends Q (Done r)"
| step: "(\<And>w. ends Q (fst (f w))) \<Longrightarrow> ends Q (Step f)"
| acquire: "ends Q t \<Longrightarrow> ends Q (Acquire s t)"
| release: "ends Q t \<Longrightarrow> ends Q (Release s t)"

inductive_cases ends_DoneE: "ends Q (Done r)"
inductive_cases ends_StepE: "ends Q (Step f)"
inductive_cases ends_AcquireE: "ends Q (Acquire s t)"
inductive_cases ends_ReleaseE: "ends Q (Release s t)"

lemma ends_advance: "ends Q t \<Longrightarrow> advance t held w = (t', held', w') \<Longrightarrow> ends Q t'"
proof (cases t)
  case (Step f)
  assume "ends Q t" "advance t held w = (t', held', w')"
  then have all: "\<And>v. ends Q (fst (f v))" and "t' = fst (f w)" using Step by (auto elim!: ends_StepE split: prod.splits)
  then show ?thesis using all[of w] by simp
qed (auto elim!: ends_AcquireE ends_ReleaseE)

inductive keeps_task :: "('w \<Rightarrow> bool) \<Rightarrow> ('w, 'a) task \<Rightarrow> bool" for I where
  finished: "keeps_task I (Done r)"
| step: "(\<And>w. I w \<Longrightarrow> I (snd (f w))) \<Longrightarrow> (\<And>w. keeps_task I (fst (f w))) \<Longrightarrow> keeps_task I (Step f)"
| acquire: "keeps_task I t \<Longrightarrow> keeps_task I (Acquire s t)"
| release: "keeps_task I t \<Longrightarrow> keeps_task I (Release s t)"

inductive_cases keeps_StepE: "keeps_task I (Step f)"
inductive_cases keeps_AcquireE: "keeps_task I (Acquire s t)"
inductive_cases keeps_ReleaseE: "keeps_task I (Release s t)"

lemma keeps_advance:
  "keeps_task I t \<Longrightarrow> I w \<Longrightarrow> advance t held w = (t', held', w') \<Longrightarrow> keeps_task I t' \<and> I w'"
proof (cases t)
  case (Step f)
  assume "keeps_task I t" "I w" "advance t held w = (t', held', w')"
  then have all: "\<And>v. keeps_task I (fst (f v))" "\<And>v. I v \<Longrightarrow> I (snd (f v))" and "I w" and "t' = fst (f w)" "w' = snd (f w)"
    using Step by (auto elim!: keeps_StepE split: prod.splits)
  then show ?thesis using all(1)[of w] all(2)[of w] by simp
qed (auto elim!: keeps_AcquireE keeps_ReleaseE)

lemma ends_tbind: "ends P t \<Longrightarrow> (\<And>e. P (Inl e) \<Longrightarrow> Q (Inl e)) \<Longrightarrow> (\<And>a. P (Inr a) \<Longrightarrow> ends Q (k a)) \<Longrightarrow> ends Q (tbind t k)"
proof (induction rule: ends.induct)
  case (finished r)
  then show ?case by (cases r) (auto intro: ends.finished)
next
  case (step f)
  then have "ends Q (fst (map_prod (\<lambda>t. tbind t k) id (f w)))" for w by simp
  then show ?case by (simp add: ends.step)
qed (simp_all add: ends.acquire ends.release)

lemma ends_texcept:
  "ends P t \<Longrightarrow> (\<And>a. P (Inr a) \<Longrightarrow> Q (Inr a)) \<Longrightarrow> (\<And>e. P (Inl e) \<Longrightarrow> exn_kind e = CancelledError \<Longrightarrow> Q (Inl e))
     \<Longrightarrow> (\<And>e. P (Inl e) \<Longrightarrow> ends Q (h e)) \<Longrightarrow> ends Q (texcept t h)"
proof (induction rule: ends.induct)
  case (finished r)
  then show ?case by (cases r) (auto intro: ends.finished)
next
  case (step f)
  then have "ends Q (fst (map_prod (\<lambda>t. texcept t h) id (f w)))" for w by simp
  then show ?case by (simp add: ends.step)
qed (simp_all add: ends.acquire ends.release)

lemma ends_atomic: "(\<And>w. Q (fst (m w))) \<Longrightarrow> ends Q (atomic m)"
  unfolding atomic_def by (rule ends.step) (auto simp: split_def intro: ends.finished)

lemma ends_release_after: "ends Q t \<Longrightarrow> ends Q (release_after s t)"
proof (induction rule: ends.induct)
  case (step f)
  then have "ends Q (fst (map_prod (release_after s) id (f w)))" for w by simp
  then show ?case by (simp add: ends.step)
qed (auto intro: ends.intros)

lemma ends_with_semaphore: "ends Q t \<Longrightarrow> ends Q (with_semaphore s t)"
  by (simp add: with_semaphore_def ends.acquire ends_release_after)

lemma no_locks_tbind: "no_locks t \<Longrightarrow> (\<And>a. no_locks (k a)) \<Longrightarrow> no_locks (tbind t k)"
proof (induction t)
  case (Step f)
  then show ?case by (auto simp: pred_prod_beta fsts.simps split_beta)
qed (auto split: sum.splits)

lemma no_locks_texcept: "no_locks t \<Longrightarrow> (\<And>e. no_locks (h e)) \<Longrightarrow> no_locks (texcept t h)"
proof (induction t)
  case (Step f)
  then show ?case by (auto simp: pred_prod_beta fsts.simps split_beta)
qed (auto split: sum.splits)

lemma no_locks_atomic [simp]: "no_locks (atomic m)"
  by (simp add: atomic_def pred_prod_beta split_def)

text \<open>The results of a pool, in order.\<close>

lemma results_nth: "results ts = Some as \<Longrightarrow> list_all2 (\<lambda>t a. t = Done (Inr a)) ts as"
  by (induction ts arbitrary: as rule: results.induct) auto

lemma first_error_in: "first_error ts = Some e \<Longrightarrow> Done (Inl e) \<in> set ts"
  by (induction ts rule: first_error.induct) auto

lemma gather_loop_ends:
  assumes "list_all2 ends Qs ts" and "gather_loop n cap pick ts held w = Some (r, w')"
  shows "(\<exists>as. r = Inr as \<and> list_all2 (\<lambda>Q a. Q (Inr a)) Qs as) \<or> (\<exists>e. r = Inl e \<and> (\<exists>Q \<in> set Qs. Q (Inl e)))"
  using assms
proof (induction n arbitrary: ts held w)
  case (Suc n)
  show ?case
  proof (cases "first_error ts")
    case (Some e)
    from first_error_in[OF this] obtain i where i: "i < length ts" "ts ! i = Done (Inl e)" by (metis in_set_conv_nth)
    have "ends (Qs ! i) (ts ! i)" "length Qs = length ts"
      using Suc.prems(1) i(1) by (simp_all add: list_all2_conv_all_nth)
    then have "(Qs ! i) (Inl e)" "Qs ! i \<in> set Qs" using i by (auto elim!: ends_DoneE)
    then show ?thesis using Suc.prems(2) Some by auto
  next
    case None
    show ?thesis
    proof (cases "results ts")
      case (Some as)
      have "list_all2 (\<lambda>Q a. Q (Inr a)) Qs as"
        using Suc.prems(1) results_nth[OF Some] by (fastforce simp: list_all2_conv_all_nth elim!: ends_DoneE)
      then show ?thesis using Suc.prems(2) Some None by auto
    next
      case none: None
      let ?ready = "filter (\<lambda>i. runnable cap held (ts ! i)) [0..<length ts]"
      let ?i = "?ready ! (pick n mod length ?ready)"
      have ready: "?ready \<noteq> []" using Suc.prems(2) None none by (auto split: if_splits)
      then have "?i \<in> set ?ready" by (intro nth_mem) simp
      then have i: "?i < length ts" by simp
      obtain t held' w1 where adv: "advance (ts ! ?i) held w = (t, held', w1)" by (metis prod_cases3)
      have "ends (Qs ! ?i) t"
        using Suc.prems(1) i adv by (auto simp: list_all2_conv_all_nth intro: ends_advance)
      then have "list_all2 ends (Qs[?i := Qs ! ?i]) (ts[?i := t])" using Suc.prems(1) by (intro list_all2_update_cong)
      then have "list_all2 ends Qs (ts[?i := t])" by simp
      moreover have "gather_loop n cap pick (ts[?i := t]) held' w1 = Some (r, w')"
        using Suc.prems(2) None none ready adv by (simp add: Let_def)
      ultimately show ?thesis by (rule Suc.IH)
    qed
  qed
qed simp

lemma gather_loop_keeps:
  assumes "\<And>t. t \<in> set ts \<Longrightarrow> keeps_task I t" and "I w" and "gather_loop n cap pick ts held w = Some (r, w')"
  shows "I w'"
  using assms
proof (induction n arbitrary: ts held w)
  case (Suc n)
  show ?case
  proof (cases "first_error ts = None \<and> results ts = None")
    case True
    let ?ready = "filter (\<lambda>i. runnable cap held (ts ! i)) [0..<length ts]"
    let ?i = "?ready ! (pick n mod length ?ready)"
    have ready: "?ready \<noteq> []" using Suc.prems(3) True by (auto split: if_splits)
    then have "?i \<in> set ?ready" by (intro nth_mem) simp
    then have i: "?i < length ts" by simp
    obtain t held' w1 where adv: "advance (ts ! ?i) held w = (t, held', w1)" by (metis prod_cases3)
    have t: "keeps_task I t" "I w1" using keeps_advance[OF Suc.prems(1)[OF nth_mem[OF i]] Suc.prems(2) adv] by auto
    have "keeps_task I u" if "u \<in> set (ts[?i := t])" for u
      using that Suc.prems(1) t set_update_subset_insert by (metis insertE subsetD)
    moreover have "gather_loop n cap pick (ts[?i := t]) held' w1 = Some (r, w')"
      using Suc.prems(3) True ready adv by (simp add: Let_def)
    ultimately show ?thesis using Suc.IH t(2) by blast
  qed (use Suc.prems in \<open>auto split: option.splits\<close>)
qed simp

lemma keeps_gather:
  assumes "\<And>t. t \<in> set ts \<Longrightarrow> keeps_task I t"
  shows "keeps I (gather steps cap pick ts)"
proof (rule keepsI)
  fix w r w'
  assume "I w" "gather steps cap pick ts w = (r, w')"
  then show "I w'"
    unfolding gather_def by (cases "gather_loop (Suc (steps * length ts)) cap (pick w) ts (\<lambda>_. 0) w")
      (auto simp del: gather_loop.simps intro: gather_loop_keeps[where ts = ts, OF assms])
qed

named_theorems keeps_task_intros \<open>rules for invariants of tasks\<close>

lemma keeps_task_tret [keeps_task_intros]: "keeps_task I (tret a)"
  by (simp add: tret_def keeps_task.finished)

lemma keeps_task_atomic [keeps_task_intros]: "keeps I m \<Longrightarrow> keeps_task I (atomic m)"
  unfolding atomic_def
  by (rule keeps_task.step) (auto simp: split_def intro: keeps_task.finished dest: keepsD[of I m _ "fst (m w)" "snd (m w)" for w])

lemma keeps_task_tbind [keeps_task_intros]:
  "keeps_task I t \<Longrightarrow> (\<And>a. keeps_task I (k a)) \<Longrightarrow> keeps_task I (tbind t k)"
proof (induction rule: keeps_task.induct)
  case (finished r)
  then show ?case by (cases r) (auto intro: keeps_task.finished)
next
  case (step f)
  then have "keeps_task I (fst (map_prod (\<lambda>t. tbind t k) id (f w)))" for w by simp
  then show ?case using step(1) by (simp add: keeps_task.step)
qed (simp_all add: keeps_task.acquire keeps_task.release)

lemma keeps_task_texcept [keeps_task_intros]:
  "keeps_task I t \<Longrightarrow> (\<And>e. keeps_task I (h e)) \<Longrightarrow> keeps_task I (texcept t h)"
proof (induction rule: keeps_task.induct)
  case (finished r)
  then show ?case by (cases r) (auto intro: keeps_task.finished)
next
  case (step f)
  then have "keeps_task I (fst (map_prod (\<lambda>t. texcept t h) id (f w)))" for w by simp
  then show ?case using step(1) by (simp add: keeps_task.step)
qed (simp_all add: keeps_task.acquire keeps_task.release)

lemma keeps_task_release_after: "keeps_task I t \<Longrightarrow> keeps_task I (release_after s t)"
proof (induction rule: keeps_task.induct)
  case (step f)
  then have "keeps_task I (fst (map_prod (release_after s) id (f w)))" for w by simp
  then show ?case using step(1) by (simp add: keeps_task.step)
qed (auto intro: keeps_task.intros)

lemma keeps_task_with_semaphore [keeps_task_intros]: "keeps_task I t \<Longrightarrow> keeps_task I (with_semaphore s t)"
  by (simp add: with_semaphore_def keeps_task.acquire keeps_task_release_after)

end
