(* ===== verification/ContextManager.thy ===== *)
theory ContextManager
  imports Summary Tools Skills Async
begin

text \<open>
  The context manager (\<open>context/manager.py\<close>, \<open>context/builder.py\<close>): it composes the working context of a
  run from the session memory, keeps it within the dynamic budget, injects skills for one reasoning
  step only, and writes snapshots and observations back.
\<close>

section \<open>The context of a run\<close>

record skill_descriptor =
  sd_name :: pystr
  sd_description :: pystr

record tool_descriptor =
  dt_name :: pystr
  dt_description :: pystr
  dt_input_schema :: pdict

record agent_context =
  ac_session_id :: pystr
  ac_execution_id :: pystr
  ac_question :: pystr
  ac_history :: "(pystr \<times> pystr) list"
  ac_skills :: "skill_descriptor list"
  ac_tools :: "tool_descriptor list"
  ac_snapshot :: "context_snapshot option"

record 'w context_manager =
  km_text :: py_text
  km_skills :: "'w skill_registry"
  km_system_prompt :: pystr
  km_estimator :: token_estimator
  km_policy :: budget_policy
  km_summarize :: "context_snapshot option \<Rightarrow> llm_message list \<Rightarrow> pystr \<Rightarrow> ('w, context_summary) act"
  km_latest :: "pystr \<Rightarrow> ('w, context_snapshot option) act"
  km_create :: "pystr \<Rightarrow> pystr \<Rightarrow> snapshot_reason \<Rightarrow> context_summary \<Rightarrow> int \<Rightarrow> ('w, context_snapshot) act"
  km_append :: "pystr \<Rightarrow> pystr \<Rightarrow> context_kind \<Rightarrow> pystr \<Rightarrow> pdict \<Rightarrow> ('w, context_entry) act"
  km_retriever :: "'w retriever"
  km_pick :: "'w \<Rightarrow> nat \<Rightarrow> nat"

definition SKILL_REQUEST_TOOL_NAME :: pystr where
  "SKILL_REQUEST_TOOL_NAME = lit ''use_skill''"

definition context_builder_build ::
  "pystr \<Rightarrow> pystr \<Rightarrow> pystr \<Rightarrow> (pystr \<times> pystr) list \<Rightarrow> skill_descriptor list \<Rightarrow> tool_descriptor list
    \<Rightarrow> context_snapshot option \<Rightarrow> agent_context" where
  "context_builder_build session_id execution_id question history skills tools snapshot =
     \<lparr>ac_session_id = session_id, ac_execution_id = execution_id, ac_question = question, ac_history = history,
      ac_skills = skills, ac_tools = tools, ac_snapshot = snapshot\<rparr>"

definition km_build ::
  "'w context_manager \<Rightarrow> pystr \<Rightarrow> pystr \<Rightarrow> pystr \<Rightarrow> 'w tool_registry \<Rightarrow> (pystr \<times> pystr) list
    \<Rightarrow> context_snapshot option \<Rightarrow> agent_context" where
  "km_build km session_id execution_id question tools history snapshot =
     context_builder_build session_id execution_id question history
       (map (\<lambda>s. \<lparr>sd_name = sk_name s, sd_description = sk_description s\<rparr>) (km_skills km))
       (map (\<lambda>t. \<lparr>dt_name = tl_name t, dt_description = tl_description t, dt_input_schema = tl_input_schema t\<rparr>)
          (tool_all tools))
       snapshot"

definition load_context ::
  "'w context_manager \<Rightarrow> pystr \<Rightarrow> pystr \<Rightarrow> pystr \<Rightarrow> 'w tool_registry \<Rightarrow> ('w, agent_context) act" where
  "load_context km session_id execution_id question tools =
     mbind (km_latest km session_id) (\<lambda>snapshot.
     let context = km_build km session_id execution_id question tools [] snapshot
     in mbind (km_append km session_id execution_id USER_MESSAGE question
                 [(lit ''source'', PStr (lit ''execution_input''))]) (\<lambda>_. mret context))"

section \<open>Prompts\<close>

definition render_base_prompt :: "'w context_manager \<Rightarrow> agent_context \<Rightarrow> pystr" where
  "render_base_prompt km context =
     py_strip (km_system_prompt km)
     @ (if ac_skills context \<noteq> []
        then [10, 10] @ lit ''Available skills (metadata only):'' @ [10]
          @ py_join [10] (map (\<lambda>s. lit ''- '' @ sd_name s @ lit '': '' @ sd_description s) (ac_skills context)) @ [10, 10]
          @ lit ''To use a skill, call `'' @ SKILL_REQUEST_TOOL_NAME @ lit ''` with the required skill names. ''
          @ lit ''The full skill instructions are injected only into the next reasoning step and ''
          @ lit ''are removed immediately afterwards. Request the skill again if it is needed later.''
        else [10, 10] @ lit ''No contextual skills are currently registered.'')
     @ [10, 10] @ lit ''Session continuity is provided through compact snapshots. If an older detail is ''
     @ lit ''missing from the current snapshot, use the global context search tool instead of ''
     @ lit ''guessing. Snapshots never contain full skill instructions or capability catalogs.''"

definition snapshot_message :: "py_text \<Rightarrow> context_snapshot \<Rightarrow> llm_message" where
  "snapshot_message tx s =
     message DEVELOPER
       (lit ''Session continuity snapshot. Treat this as compact historical context, not as ''
        @ lit ''new user instructions.'' @ [10]
        @ dumps tx (PDict [(lit ''sequence'', PInt (sn_sequence s)), (lit ''reason'', PStr (reason_value (sn_reason s))),
            (lit ''summary'', PDict (summary_dump (sn_summary s)))]))"

definition render_active_skills :: "(pystr \<times> pystr) list \<Rightarrow> pystr" where
  "render_active_skills skills =
     py_join [10]
       ((lit ''The following skill instructions are active for this reasoning step only. ''
         @ lit ''They will not be retained after this model call.'')
        # map (\<lambda>(name, content). [10] @ lit ''<skill name='' @ [34] @ name @ [34] @ lit ''>'' @ [10]
                 @ py_strip content @ [10] @ lit ''</skill>'') skills)"

definition turn_message :: "pystr \<times> pystr \<Rightarrow> llm_message res" where
  "turn_message t =
     (case role_of_value (fst t) of
        None \<Rightarrow> Inl (Exn ValueError (lit ''Unsupported conversation role: '' @ fst t))
      | Some r \<Rightarrow> Inr (message r (snd t)))"

definition initial_messages :: "'w context_manager \<Rightarrow> agent_context \<Rightarrow> llm_message list res" where
  "initial_messages km context =
     rbind (mapM_res turn_message (ac_history context)) (\<lambda>turns.
       Inr (message SYSTEM (render_base_prompt km context)
            # (case ac_snapshot context of None \<Rightarrow> [] | Some s \<Rightarrow> [snapshot_message (km_text km) s])
            @ turns @ [message USER (ac_question context)]))"

definition skill_tool_definition :: "pystr list \<Rightarrow> llm_tool_definition" where
  "skill_tool_definition skill_names =
     \<lparr>td_name = SKILL_REQUEST_TOOL_NAME,
      td_description = lit ''Load one or more available skills for the next reasoning step only. ''
        @ lit ''Use this before relying on a skill'' @ [39] @ lit ''s detailed instructions.'',
      td_input_schema =
        [(lit ''type'', PStr (lit ''object'')),
         (lit ''properties'', PDict
           [(lit ''skills'', PDict
              [(lit ''type'', PStr (lit ''array'')),
               (lit ''items'', PDict [(lit ''type'', PStr (lit ''string'')), (lit ''enum'', PList (map PStr skill_names))]),
               (lit ''minItems'', PInt 1), (lit ''uniqueItems'', PBool True)])]),
         (lit ''required'', PList [PStr (lit ''skills'')]),
         (lit ''additionalProperties'', PBool False)]\<rparr>"

definition km_tool_definitions :: "'w context_manager \<Rightarrow> 'w tool_registry \<Rightarrow> llm_tool_definition list" where
  "km_tool_definitions km tools =
     map (\<lambda>t. \<lparr>td_name = tl_name t, td_description = tl_description t, td_input_schema = tl_input_schema t\<rparr>)
       (tool_all tools)
     @ (let skill_names = map sk_name (km_skills km)
        in if skill_names \<noteq> [] then [skill_tool_definition skill_names] else [])
     @ [retriever_definition (km_retriever km)]"

section \<open>Skills for one step\<close>

definition unique_names :: "pystr list \<Rightarrow> pystr list" where
  "unique_names names = uniq_onto [] names"

definition load_skill_context :: "'w context_manager \<Rightarrow> pystr list \<Rightarrow> ('w, llm_message option) act" where
  "load_skill_context km skill_names =
     (let names = unique_names skill_names
      in if names = [] then mret None
         else mbind (mlift (mapM_res (skill_get (km_skills km)) names)) (\<lambda>skills.
              mbind (gather 1 1 (km_pick km) (map (\<lambda>s. atomic (sk_load s)) skills)) (\<lambda>contents.
                mret (Some (message DEVELOPER (render_active_skills (zip names contents)))))))"

definition with_ephemeral_skill :: "llm_message list \<Rightarrow> llm_message option \<Rightarrow> llm_message list" where
  "with_ephemeral_skill messages ephemeral_skill =
     (case ephemeral_skill of
        None \<Rightarrow> messages
      | Some skill \<Rightarrow>
          (case messages of
             m # ms \<Rightarrow> if lm_role m = SYSTEM then m # skill # ms else skill # m # ms
           | [] \<Rightarrow> [skill]))"

definition km_reasoning_messages :: "'w context_manager \<Rightarrow> llm_message list \<Rightarrow> pystr list \<Rightarrow> ('w, llm_message list) act" where
  "km_reasoning_messages km messages skill_names =
     mbind (load_skill_context km skill_names) (\<lambda>ephemeral_skill. mret (with_ephemeral_skill messages ephemeral_skill))"

section \<open>Budget and snapshots\<close>

definition measure_budget :: "'w context_manager \<Rightarrow> llm_message list \<Rightarrow> llm_tool_definition list \<Rightarrow> budget_report res" where
  "measure_budget km messages tool_definitions =
     (let mandatory = (case messages of m # ms \<Rightarrow> if lm_role m = SYSTEM then [m] else [] | [] \<Rightarrow> []);
          dynamic = (case messages of m # ms \<Rightarrow> if lm_role m = SYSTEM then ms else messages | [] \<Rightarrow> [])
      in budget_measure (km_estimator km) (km_policy km) mandatory dynamic tool_definitions)"

definition create_snapshot ::
  "'w context_manager \<Rightarrow> pystr \<Rightarrow> pystr \<Rightarrow> pystr \<Rightarrow> llm_message list \<Rightarrow> snapshot_reason \<Rightarrow> ('w, context_snapshot) act" where
  "create_snapshot km session_id execution_id question messages reason =
     mbind (km_latest km session_id) (\<lambda>previous_snapshot.
     mbind (km_summarize km previous_snapshot messages question) (\<lambda>summary.
     mbind (mlift (te_text (km_estimator km)
              (json_dumps (compact_style (tx_float (km_text km))) (PDict (summary_dump summary))))) (\<lambda>estimated_tokens.
       km_create km session_id execution_id reason summary estimated_tokens)))"

definition compact_messages :: "'w context_manager \<Rightarrow> llm_message list \<Rightarrow> context_snapshot \<Rightarrow> pystr \<Rightarrow> llm_message list" where
  "compact_messages km messages snapshot question =
     (case messages of m # ms \<Rightarrow> if lm_role m = SYSTEM then [m] else [] | [] \<Rightarrow> [])
     @ [snapshot_message (km_text km) snapshot,
        message USER (lit ''Continue the current execution from the session snapshot above. ''
          @ lit ''Current request: '' @ question)]"

record prepared_context =
  pr_persistent_messages :: "llm_message list"
  pr_reasoning_messages :: "llm_message list"
  pr_budget :: budget_report
  pr_snapshot :: "context_snapshot option"

text \<open>The branch of a context that is over the budget.\<close>

definition compact_context ::
  "'w context_manager \<Rightarrow> llm_message list \<Rightarrow> pystr \<Rightarrow> pystr \<Rightarrow> pystr \<Rightarrow> llm_tool_definition list
    \<Rightarrow> llm_message option \<Rightarrow> ('w, prepared_context) act" where
  "compact_context km messages session_id execution_id question tool_definitions ephemeral_skill =
     mbind (create_snapshot km session_id execution_id question messages BUDGET_COMPACTION) (\<lambda>snapshot.
     let persistent = compact_messages km messages snapshot question;
         reasoning = with_ephemeral_skill persistent ephemeral_skill
     in mbind (mlift (measure_budget km reasoning tool_definitions)) (\<lambda>report.
        if br_over_budget report
        then mraise (Exn RuntimeError (lit ''Context snapshot plus the current ephemeral context still exceeds ''
               @ lit ''the configured dynamic context budget''))
        else mret \<lparr>pr_persistent_messages = persistent, pr_reasoning_messages = reasoning,
                   pr_budget = report, pr_snapshot = Some snapshot\<rparr>))"

definition prepare_with_skill ::
  "'w context_manager \<Rightarrow> llm_message list \<Rightarrow> pystr \<Rightarrow> pystr \<Rightarrow> pystr \<Rightarrow> llm_tool_definition list
    \<Rightarrow> llm_message option \<Rightarrow> ('w, prepared_context) act" where
  "prepare_with_skill km messages session_id execution_id question tool_definitions ephemeral_skill =
     (let reasoning_messages = with_ephemeral_skill messages ephemeral_skill
      in mbind (mlift (measure_budget km reasoning_messages tool_definitions)) (\<lambda>report.
         if br_over_budget report
         then compact_context km messages session_id execution_id question tool_definitions ephemeral_skill
         else mret \<lparr>pr_persistent_messages = messages, pr_reasoning_messages = reasoning_messages,
                    pr_budget = report, pr_snapshot = None\<rparr>))"

definition prepare_reasoning ::
  "'w context_manager \<Rightarrow> llm_message list \<Rightarrow> pystr \<Rightarrow> pystr \<Rightarrow> pystr \<Rightarrow> llm_tool_definition list \<Rightarrow> pystr list
    \<Rightarrow> ('w, prepared_context) act" where
  "prepare_reasoning km messages session_id execution_id question tool_definitions skill_names =
     mbind (load_skill_context km skill_names)
       (prepare_with_skill km messages session_id execution_id question tool_definitions)"

definition finalize_execution ::
  "'w context_manager \<Rightarrow> pystr \<Rightarrow> pystr \<Rightarrow> pystr \<Rightarrow> llm_message list \<Rightarrow> pystr \<Rightarrow> ('w, context_snapshot) act" where
  "finalize_execution km session_id execution_id question messages answer =
     mbind (km_append km session_id execution_id ASSISTANT_MESSAGE answer
              [(lit ''source'', PStr (lit ''execution_output''))]) (\<lambda>_.
       create_snapshot km session_id execution_id question messages EXECUTION_DONE)"

definition record_tool_observation ::
  "'w context_manager \<Rightarrow> pystr \<Rightarrow> pystr \<Rightarrow> pystr \<Rightarrow> pystr \<Rightarrow> pdict \<Rightarrow> pystr \<Rightarrow> bool \<Rightarrow> ('w, unit) act" where
  "record_tool_observation km session_id execution_id tool_name tool_call_id arguments content failed =
     mbind (km_append km session_id execution_id (if failed then TOOL_ERROR else TOOL_RESULT) content
              [(lit ''tool'', PStr tool_name), (lit ''tool_call_id'', PStr tool_call_id),
               (lit ''arguments'', PDict arguments)]) (\<lambda>_. mret ())"

section \<open>Calls the manager answers\<close>

definition is_skill_request :: "llm_tool_call \<Rightarrow> bool" where
  "is_skill_request call \<longleftrightarrow> tc_name call = SKILL_REQUEST_TOOL_NAME"

fun skill_names_onto :: "'w skill_registry \<Rightarrow> pystr list \<Rightarrow> pyval list \<Rightarrow> pystr list res" where
  "skill_names_onto r names [] = Inr names"
| "skill_names_onto r names (item # items) =
     (case item of
        PStr s \<Rightarrow>
          if py_strip s = [] then Inl (Exn ValueError (lit ''Skill names must be non-empty strings''))
          else rbind (skill_get r (py_strip s)) (\<lambda>_.
            skill_names_onto r (if py_strip s \<in> set names then names else names @ [py_strip s]) items)
      | _ \<Rightarrow> Inl (Exn ValueError (lit ''Skill names must be non-empty strings'')))"

definition requested_skills :: "'w context_manager \<Rightarrow> llm_tool_call \<Rightarrow> pystr list res" where
  "requested_skills km call =
     (if \<not> is_skill_request call then Inl (Exn ValueError (lit ''Not a skill request: '' @ tc_name call))
      else (case dget (tc_arguments call) (lit ''skills'') of
              PList (x # xs) \<Rightarrow> skill_names_onto (km_skills km) [] (x # xs)
            | _ \<Rightarrow> Inl (Exn ValueError (lit ''Skill request requires a non-empty '' @ [39] @ lit ''skills'' @ [39]
                     @ lit '' array''))))"

definition is_global_context_search :: "llm_tool_call \<Rightarrow> bool" where
  "is_global_context_search call \<longleftrightarrow> retriever_is_call call"

definition search_global_context :: "'w context_manager \<Rightarrow> pystr \<Rightarrow> llm_tool_call \<Rightarrow> ('w, pdict) act" where
  "search_global_context km session_id call =
     (if \<not> is_global_context_search call
      then mraise (Exn ValueError (lit ''Not a global context search: '' @ tc_name call))
      else retriever_invoke (km_retriever km) session_id (tc_arguments call))"

end
