(* ===== verification/ContextManager_Props.thy ===== *)
theory ContextManager_Props
  imports ContextManager
begin

text \<open>
  What the context manager guarantees: a prepared reasoning context is within the dynamic budget and keeps the
  skills out of what persists, a summary always comes, and the object in a model's answer is found.
\<close>

section \<open>Within the budget\<close>

definition dynamic_part :: "llm_message list \<Rightarrow> llm_message list" where
  "dynamic_part messages = (case messages of m # ms \<Rightarrow> if lm_role m = SYSTEM then ms else messages | [] \<Rightarrow> [])"

lemma measure_budget_sound:
  assumes "measure_budget km ms tools = Inr r"
  shows "te_messages (km_estimator km) (dynamic_part ms) = Inr (br_dynamic_tokens r)"
    and "br_over_budget r \<longleftrightarrow> dynamic_budget_tokens (km_policy km) < br_dynamic_tokens r"
proof -
  from assms have m: "\<exists>mandatory. budget_measure (km_estimator km) (km_policy km) mandatory (dynamic_part ms) tools = Inr r"
    unfolding measure_budget_def Let_def dynamic_part_def by blast
  then show "te_messages (km_estimator km) (dynamic_part ms) = Inr (br_dynamic_tokens r)"
    using budget_measure_parts by blast
  from m show "br_over_budget r \<longleftrightarrow> dynamic_budget_tokens (km_policy km) < br_dynamic_tokens r"
    using budget_measure_parts budget_measure_over by metis
qed

lemma load_skill_context_role:
  assumes "load_skill_context km names w = (Inr skill, w')"
  shows "names = [] \<longrightarrow> skill = None"
    and "skill = Some m \<Longrightarrow> lm_role m = DEVELOPER \<and> lm_tool_calls m = []"
proof -
  show "names = [] \<longrightarrow> skill = None" using assms by (auto simp: load_skill_context_def unique_names_def)
  show "skill = Some m \<Longrightarrow> lm_role m = DEVELOPER \<and> lm_tool_calls m = []"
    using assms by (auto simp: load_skill_context_def Let_def message_def elim!: mbind_InrD split: if_splits)
qed

text \<open>How a prepared context relates to the messages and the skill message it was made from.\<close>

definition prepared_from ::
  "'w context_manager \<Rightarrow> llm_message list \<Rightarrow> pystr \<Rightarrow> llm_tool_definition list \<Rightarrow> llm_message option
    \<Rightarrow> prepared_context \<Rightarrow> bool" where
  "prepared_from km messages q tools skill p \<longleftrightarrow>
     pr_reasoning_messages p = with_ephemeral_skill (pr_persistent_messages p) skill
     \<and> measure_budget km (pr_reasoning_messages p) tools = Inr (pr_budget p) \<and> \<not> br_over_budget (pr_budget p)
     \<and> (case pr_snapshot p of None \<Rightarrow> pr_persistent_messages p = messages
          | Some s \<Rightarrow> pr_persistent_messages p = compact_messages km messages s q)"

lemma compact_context_from:
  assumes "compact_context km messages sid eid q tools skill w = (Inr p, w')"
  shows "prepared_from km messages q tools skill p"
proof -
  from mbind_InrD[OF assms[unfolded compact_context_def]] obtain s w1 where
    "(let persistent = compact_messages km messages s q; reasoning = with_ephemeral_skill persistent skill
      in mbind (mlift (measure_budget km reasoning tools)) (\<lambda>report.
        if br_over_budget report
        then mraise (Exn RuntimeError (lit ''Context snapshot plus the current ephemeral context still exceeds ''
               @ lit ''the configured dynamic context budget''))
        else mret \<lparr>pr_persistent_messages = persistent, pr_reasoning_messages = reasoning,
                   pr_budget = report, pr_snapshot = Some s\<rparr>)) w1 = (Inr p, w')" by blast
  then show ?thesis
    unfolding Let_def by (elim mbind_InrD) (auto simp: prepared_from_def split: if_splits)
qed

lemma prepared_plain:
  assumes "measure_budget km (with_ephemeral_skill messages skill) tools = Inr r" and "\<not> br_over_budget r"
  shows "prepared_from km messages q tools skill
    \<lparr>pr_persistent_messages = messages, pr_reasoning_messages = with_ephemeral_skill messages skill,
     pr_budget = r, pr_snapshot = None\<rparr>"
  using assms by (simp add: prepared_from_def)

lemma prepare_reasoning_from:
  assumes "prepare_reasoning km messages sid eid q tools names w = (Inr p, w')"
  obtains skill w1 where "load_skill_context km names w = (Inr skill, w1)" and "prepared_from km messages q tools skill p"
proof -
  from mbind_InrD[OF assms[unfolded prepare_reasoning_def]] obtain skill w1 where
    sk: "load_skill_context km names w = (Inr skill, w1)"
    and "prepare_with_skill km messages sid eid q tools skill w1 = (Inr p, w')" by blast
  then have "prepared_from km messages q tools skill p"
    unfolding prepare_with_skill_def Let_def
    by (elim mbind_InrD) (auto split: if_splits intro: compact_context_from simp: prepared_plain)
  with sk show ?thesis by (rule that)
qed

text \<open>
  C20. A prepared reasoning context is within the dynamic budget: the tokens of everything behind the system message
  are counted and do not exceed the policy's share of the model's window. What persists is the given messages, or
  their compaction onto the snapshot just taken; the skills asked for are only in the messages of this one step.
\<close>

theorem prepared_within_budget:
  assumes "prepare_reasoning km messages sid eid q tools names w = (Inr p, w')"
  shows "te_messages (km_estimator km) (dynamic_part (pr_reasoning_messages p)) = Inr (br_dynamic_tokens (pr_budget p))
    \<and> br_dynamic_tokens (pr_budget p) \<le> dynamic_budget_tokens (km_policy km)
    \<and> (case pr_snapshot p of None \<Rightarrow> pr_persistent_messages p = messages
         | Some s \<Rightarrow> pr_persistent_messages p = compact_messages km messages s q)
    \<and> (\<exists>skill. pr_reasoning_messages p = with_ephemeral_skill (pr_persistent_messages p) skill
         \<and> (names = [] \<longrightarrow> skill = None) \<and> (\<forall>m. skill = Some m \<longrightarrow> lm_role m = DEVELOPER))"
proof -
  obtain skill w1 where sk: "load_skill_context km names w = (Inr skill, w1)"
    and p: "prepared_from km messages q tools skill p" using prepare_reasoning_from[OF assms] .
  have m: "measure_budget km (pr_reasoning_messages p) tools = Inr (pr_budget p)" "\<not> br_over_budget (pr_budget p)"
    using p unfolding prepared_from_def by blast+
  show ?thesis
    using measure_budget_sound[OF m(1)] m(2) load_skill_context_role[OF sk] p
    by (auto simp: prepared_from_def not_less)
qed

definition example_manager :: "unit context_manager" where
  "example_manager =
     \<lparr>km_text = \<lparr>tx_repr = (\<lambda>_. []), tx_float = (\<lambda>_. []), tx_read = (\<lambda>_. 0)\<rparr>, km_skills = [], km_system_prompt = lit ''p'',
      km_estimator = \<lparr>te_text = (\<lambda>s. Inr (int (length s))), te_messages = (\<lambda>ms. Inr (int (length ms))),
        te_tools = (\<lambda>ts. Inr (int (length ts)))\<rparr>,
      km_policy = \<lparr>bp_model_context_window_tokens = 100, bp_dynamic_context_percentage = 50\<rparr>,
      km_summarize = (\<lambda>_ _ _. mraise (Exn RuntimeError [])), km_latest = (\<lambda>_. mret None),
      km_create = (\<lambda>_ _ _ _ _. mraise (Exn RuntimeError [])), km_append = (\<lambda>_ _ _ _ _. mraise (Exn RuntimeError [])),
      km_retriever = \<lparr>rt_search = (\<lambda>_ _ _. mret []), rt_default_limit = 1, rt_max_limit = 1\<rparr>,
      km_pick = (\<lambda>_ _. 0)\<rparr>"

theorem prepared_within_budget_witness:
  "\<exists>p w'. prepare_reasoning example_manager [message SYSTEM [], message USER (lit ''q'')] [] [] [] [] [] () = (Inr p, w')
    \<and> br_dynamic_tokens (pr_budget p) \<le> 50"
proof -
  have budget: "dynamic_budget_tokens (km_policy example_manager) = 50"
    by (simp add: dynamic_budget_tokens_def example_manager_def)
  have "\<exists>p w'. prepare_reasoning example_manager [message SYSTEM [], message USER (lit ''q'')] [] [] [] [] [] () = (Inr p, w')"
    by (simp add: prepare_reasoning_def prepare_with_skill_def load_skill_context_def unique_names_def measure_budget_def budget_measure_def
        with_ephemeral_skill_def message_def Let_def budget) (simp add: example_manager_def)
  then obtain p w' where p: "prepare_reasoning example_manager [message SYSTEM [], message USER (lit ''q'')] [] [] [] [] [] ()
      = (Inr p, w')" by blast
  from prepared_within_budget[OF p] show ?thesis by (intro exI[of _ p] exI[of _ w']) (simp add: p budget)
qed

section \<open>A summary always comes\<close>

definition summary_request :: "py_text \<Rightarrow> context_snapshot option \<Rightarrow> llm_message list \<Rightarrow> pystr \<Rightarrow> llm_message list" where
  "summary_request tx prev messages question =
     [message SYSTEM summary_system, message USER (summary_prompt @ dumps tx (summary_payload prev messages question))]"

text \<open>
  A summary always comes: whatever the model does, short of a cancellation, summarizing returns. The summary is
  the model's own valid JSON object, or else the fallback's, which has at most the configured number of notes, each
  carried over from the previous snapshot or of bounded length; a blank current request is replaced by the question.
\<close>

theorem summary_always_comes:
  "(case fst (llm_summarize tx llm c prev messages question w) of
      Inl e \<Rightarrow> exn_kind e = CancelledError
    | Inr s \<Rightarrow>
        su_current_request s = (if py_strip (su_current_request s) = [] then question else su_current_request s)
        \<and> (s = fallback_summarize c prev messages question
           \<or> (\<exists>r w1 d v. li_invoke llm (summary_request tx prev messages question) [] w = (Inr r, w1)
                \<and> parse_json_object tx (lr_content r) = Inr d \<and> summary_validate d = Inr v
                \<and> s = v\<lparr>su_current_request := su_current_request s\<rparr>)))
   \<and> length (su_continuity_notes (fallback_summarize c prev messages question)) \<le> fc_max_messages c
   \<and> set (su_continuity_notes (fallback_summarize c prev messages question))
       \<subseteq> (case prev of None \<Rightarrow> {} | Some p \<Rightarrow> set (su_continuity_notes (sn_summary p)))
          \<union> {n. length n \<le> fc_max_chars_per_message c + 13}"
proof (intro conjI fallback_notes_bounded)
  let ?fb = "fallback_summarize c prev messages question"
  show "set (su_continuity_notes ?fb) \<subseteq> (case prev of None \<Rightarrow> {} | Some p \<Rightarrow> set (su_continuity_notes (sn_summary p)))
              \<union> {n. length n \<le> fc_max_chars_per_message c + 13}"
    using fallback_note_origin[of _ c prev messages question] set_message_note[of _ c] by fastforce
  obtain ri w1 where inv: "li_invoke llm (summary_request tx prev messages question) [] w = (ri, w1)" by force
  note run = llm_summarize_def summary_request_def[symmetric] Let_def mexcept_def mtry_def mbind_def inv
  show "case fst (llm_summarize tx llm c prev messages question w) of
      Inl e \<Rightarrow> exn_kind e = CancelledError
    | Inr s \<Rightarrow>
        su_current_request s = (if py_strip (su_current_request s) = [] then question else su_current_request s)
        \<and> (s = ?fb \<or> (\<exists>r w1 d v. li_invoke llm (summary_request tx prev messages question) [] w = (Inr r, w1)
                \<and> parse_json_object tx (lr_content r) = Inr d \<and> summary_validate d = Inr v
                \<and> s = v\<lparr>su_current_request := su_current_request s\<rparr>))"
  proof (cases ri)
    case (Inl e)
    then show ?thesis by (simp add: run)
  next
    case (Inr r)
    show ?thesis
    proof (cases "rbind (parse_json_object tx (lr_content r)) summary_validate")
      case (Inl e)
      then show ?thesis
        by (auto simp: run \<open>ri = Inr r\<close> rbind_eq_Inl split: sum.splits)
    next
      case (Inr v)
      then show ?thesis by (auto simp: run \<open>ri = Inr r\<close>)
    qed
  qed
qed

section \<open>The object in an answer\<close>

lemma dropWhile_until: "xs \<noteq> [] \<Longrightarrow> \<not> P (hd xs) \<Longrightarrow> dropWhile P (a @ xs) = dropWhile P a @ xs"
  by (induction a) (auto simp: dropWhile_not_hd)

lemma not_spaces: "\<not> is_space 123" "\<not> is_space 125" "\<not> is_space 96"
  by (simp_all add: is_space_def)

lemma dropWhile_no_append: "x \<notin> set xs \<Longrightarrow> dropWhile (\<lambda>c. c \<noteq> x) (xs @ ys) = dropWhile (\<lambda>c. c \<noteq> x) ys"
  by (induction xs) auto

lemma drop_to_hd: "xs \<noteq> [] \<Longrightarrow> hd xs = x \<Longrightarrow> dropWhile (\<lambda>c. c \<noteq> x) (xs @ ys) = xs @ ys"
  by (cases xs) auto

text \<open>An object written between other text, no brace before it and none after.\<close>

lemma braces_around:
  assumes "hd t = 123" and "last t = 125" and "t \<noteq> []" and "123 \<notin> set a" and "125 \<notin> set b"
  shows "braces (a @ t @ b) = t"
proof -
  have "dropWhile (\<lambda>c. c \<noteq> 123) (a @ t @ b) = t @ b"
    using assms by (simp add: dropWhile_no_append drop_to_hd)
  moreover have "dropWhile (\<lambda>c. c \<noteq> 125) (rev b @ rev t) = rev t"
    using assms dropWhile_no_append[of 125 "rev b" "rev t"] drop_to_hd[of "rev t" 125 "[]"] by (simp add: hd_rev)
  ultimately show ?thesis by (simp add: braces_def)
qed

definition one_line :: "pystr \<Rightarrow> bool" where
  "one_line t \<longleftrightarrow> set t \<inter> {10, 11, 12, 13, 28, 29, 30, 133, 8232, 8233} = {}"

lemma splitlines_onto_line:
  "one_line t \<Longrightarrow> splitlines_onto False acc (t @ 10 # s) = (rev acc @ t) # splitlines_onto False [] s"
  by (induction t arbitrary: acc) (auto simp: one_line_def)

lemma splitlines_onto_end: "one_line t \<Longrightarrow> acc @ t \<noteq> [] \<Longrightarrow> splitlines_onto False acc t = [rev acc @ t]"
  by (induction t arbitrary: acc) (auto simp: one_line_def)

definition fenced :: "pystr \<Rightarrow> pystr" where
  "fenced t = lit ''```json'' @ [10] @ t @ [10] @ lit ''```''"

lemma splitlines_fenced: "one_line t \<Longrightarrow> splitlines (fenced t) = [lit ''```json'', t, lit ''```'']"
proof -
  assume t: "one_line t"
  have l: "one_line (lit ''```json'')" "one_line (lit ''```'')" by (simp_all add: one_line_def lit_def)
  have "splitlines (fenced t) = lit ''```json'' # splitlines_onto False [] (t @ 10 # lit ''```'')"
    using splitlines_onto_line[OF l(1), of "[]"] by (simp add: splitlines_def fenced_def)
  also have "\<dots> = [lit ''```json'', t, lit ''```'']"
    using splitlines_onto_line[OF t, of "[]"] splitlines_onto_end[OF l(2), of "[]"] by simp
  finally show ?thesis .
qed

lemma object_stripped: "t \<noteq> [] \<Longrightarrow> hd t = 123 \<Longrightarrow> last t = 125 \<Longrightarrow> py_strip t = t"
  by (rule py_strip_fix) (simp_all add: not_spaces)

text \<open>
  The object in a model's answer is found. A JSON object on one line is read back whether the model sends it
  bare, in a Markdown fence, or between other text that has no opening brace before it, no closing brace after it and
  does not begin with a fence.
\<close>

theorem object_found_in_answer:
  assumes "loads tx t = Inr (PDict d)" and "t \<noteq> []" and "hd t = 123" and "last t = 125" and "one_line t"
    and "123 \<notin> set a" and "125 \<notin> set b" and "\<not> prefix (lit ''```'') (py_strip (a @ t @ b))"
  shows "parse_json_object tx t = Inr d \<and> parse_json_object tx (fenced t) = Inr d
    \<and> parse_json_object tx (a @ t @ b) = Inr d"
proof (intro conjI)
  have bare: "braces t = t" using braces_around[of t "[]" "[]"] assms(2-4) by simp
  have no_fence: "\<not> prefix (lit ''```'') t" using assms(2,3) by (cases t) (auto simp: lit_def)
  show "parse_json_object tx t = Inr d"
    using assms(1,2) bare no_fence object_stripped[OF assms(2-4)] by (simp add: parse_json_object_def unfence_def)
  have "py_strip (fenced t) = fenced t"
    by (rule py_strip_fix) (simp_all add: fenced_def lit_def is_space_def)
  moreover have "unfence (fenced t) = t"
  proof -
    have "prefix (lit ''```'') (fenced t)" by (simp add: fenced_def lit_def)
    moreover have "py_strip (lit ''```'') = lit ''```''" by (rule py_strip_fix) (simp_all add: lit_def is_space_def)
    moreover have "\<not> prefix (lit ''json'') (lower_ascii t)" using assms(2,3) by (cases t) (auto simp: lit_def lower_ascii_def)
    ultimately show ?thesis
      using splitlines_fenced[OF assms(5)] object_stripped[OF assms(2-4)] by (simp add: unfence_def Let_def)
  qed
  ultimately show "parse_json_object tx (fenced t) = Inr d" using assms(1,2) bare by (simp add: parse_json_object_def)
  have "py_strip (a @ t @ b) = py_lstrip a @ t @ py_rstrip b"
  proof -
    have "py_lstrip (a @ t @ b) = py_lstrip a @ t @ b"
      unfolding py_lstrip_def using assms(2,3) by (intro dropWhile_until) (auto simp: not_spaces)
    moreover have "py_rstrip (py_lstrip a @ t @ b) = py_lstrip a @ t @ py_rstrip b"
      unfolding py_rstrip_def strip_end_def using assms(2,4) dropWhile_until[of "rev t @ rev (py_lstrip a)" is_space "rev b"]
      by (simp add: not_spaces hd_append hd_rev)
    ultimately show ?thesis by (simp add: py_strip_def)
  qed
  moreover have "123 \<notin> set (py_lstrip a)" "125 \<notin> set (py_rstrip b)"
    using assms(6,7) set_dropWhileD[of 123 is_space a] set_dropWhileD[of 125 is_space "rev b"]
    by (auto simp: py_lstrip_def py_rstrip_def strip_end_def)
  ultimately have "braces (py_strip (a @ t @ b)) = t" using braces_around[OF assms(3,4,2)] by simp
  then show "parse_json_object tx (a @ t @ b) = Inr d"
    using assms(1,2,8) by (simp add: parse_json_object_def unfence_def)
qed

definition summary_text :: py_text where
  "summary_text = \<lparr>tx_repr = (\<lambda>_. []), tx_float = (\<lambda>_. []), tx_read = (\<lambda>_. 0)\<rparr>"

theorem object_found_in_answer_witness:
  "parse_json_object summary_text (fenced (lit ''{}'')) = Inr []
    \<and> parse_json_object summary_text (lit ''Sure: '' @ lit ''{}'' @ lit '' done'') = Inr []"
proof -
  have loads: "loads summary_text (lit ''{}'') = Inr (PDict [])"
    by (simp add: loads_def json_loads_def lit_def skip_ws_def json_ws_def)
  have strip: "py_strip (lit ''Sure: '' @ lit ''{}'' @ lit '' done'') = lit ''Sure: '' @ lit ''{}'' @ lit '' done''"
    by (rule py_strip_fix) (simp add: lit_def is_space_def)
  have fence: "\<not> prefix (lit ''```'') (py_strip (lit ''Sure: '' @ lit ''{}'' @ lit '' done''))"
    unfolding strip by (simp add: lit_def)
  show ?thesis
    using object_found_in_answer[OF loads _ _ _ _ _ _ fence] by (simp add: lit_def one_line_def)
qed

end
