(* ===== verification/Runtime.thy ===== *)
theory Runtime
  imports ContextManager
begin

text \<open>
  The agent program (\<open>runtime/program.py\<close>): the four nodes of its graph, the routing between them, and the
  execution around the graph; with the policy (\<open>runtime/policies.py\<close>), the runtime
  (\<open>runtime/execution.py\<close>) and the streaming sink (\<open>runtime/streaming.py\<close>). Tool calls of one step run
  concurrently as tasks under a semaphore per tool. LangGraph drives the graph and is a parameter.
\<close>

section \<open>Policy and state\<close>

record runtime_policy =
  rp_max_iterations :: int
  rp_max_sql_retries :: int
  rp_max_parallel_tool_calls_per_tool :: int

definition create_runtime_policy :: "int \<Rightarrow> int \<Rightarrow> int \<Rightarrow> runtime_policy res" where
  "create_runtime_policy max_iterations max_sql_retries max_parallel =
     (if max_iterations < 1 then Inl (Exn ValueError (lit ''max_iterations must be greater than zero''))
      else if max_sql_retries < 0 then Inl (Exn ValueError (lit ''max_sql_retries cannot be negative''))
      else if max_parallel < 1
      then Inl (Exn ValueError (lit ''max_parallel_tool_calls_per_tool must be greater than zero''))
      else Inr \<lparr>rp_max_iterations = max_iterations, rp_max_sql_retries = max_sql_retries,
                rp_max_parallel_tool_calls_per_tool = max_parallel\<rparr>)"

record agent_state =
  as_execution_id :: pystr
  as_session_id :: pystr
  as_question :: pystr
  as_messages :: "llm_message list"
  as_iteration :: int
  as_max_iterations :: int
  as_pending_tool_calls :: "llm_tool_call list"
  as_active_skill_names :: "pystr list"
  as_tool_call_count :: int
  as_skill_use_count :: int
  as_max_parallel_tool_calls_per_tool :: int
  as_answer :: pystr
  as_stop_reason :: "pystr option"
  as_metadata :: pdict

record 'w agent_program =
  pg_llm :: "'w llm_client"
  pg_tools :: "'w tool_registry"
  pg_manager :: "'w context_manager"
  pg_tool_definitions :: "llm_tool_definition list"
  pg_emit :: "exec_event \<Rightarrow> ('w, unit) act"
  pg_now :: "'w \<Rightarrow> pystr"
  pg_pick :: "'w \<Rightarrow> nat \<Rightarrow> nat"

definition new_agent_program ::
  "'w llm_client \<Rightarrow> 'w tool_registry \<Rightarrow> 'w context_manager \<Rightarrow> (exec_event \<Rightarrow> ('w, unit) act) \<Rightarrow> ('w \<Rightarrow> pystr)
    \<Rightarrow> ('w \<Rightarrow> nat \<Rightarrow> nat) \<Rightarrow> 'w agent_program" where
  "new_agent_program llm tools km emit now pick =
     \<lparr>pg_llm = llm, pg_tools = tools, pg_manager = km, pg_tool_definitions = km_tool_definitions km tools,
      pg_emit = emit, pg_now = now, pg_pick = pick\<rparr>"

definition emit_event :: "'w agent_program \<Rightarrow> pystr \<Rightarrow> event_type \<Rightarrow> pdict \<Rightarrow> ('w, unit) act" where
  "emit_event pg execution_id type payload =
     mbind (mget (pg_now pg)) (\<lambda>now.
       pg_emit pg \<lparr>ev_execution_id = execution_id, ev_type = type, ev_payload = payload, ev_created_at = now\<rparr>)"

definition emit_phase :: "'w agent_program \<Rightarrow> pystr \<Rightarrow> phase \<Rightarrow> ('w, unit) act" where
  "emit_phase pg execution_id p =
     emit_event pg execution_id EXECUTION_PHASE_CHANGED [(lit ''phase'', PStr (phase_value p))]"

definition pg_text :: "'w agent_program \<Rightarrow> py_text" where
  "pg_text pg = km_text (pg_manager pg)"

section \<open>Tool messages\<close>

definition serialize_ok :: "py_text \<Rightarrow> pyval \<Rightarrow> pystr" where
  "serialize_ok tx result = dumps tx (PDict [(lit ''ok'', PBool True), (lit ''result'', result)])"

definition serialize_error :: "py_text \<Rightarrow> pystr \<Rightarrow> pystr" where
  "serialize_error tx error = dumps tx (PDict [(lit ''ok'', PBool False), (lit ''error'', PStr error)])"

fun type_name :: "pyval \<Rightarrow> pystr" where
  "type_name PNone = lit ''NoneType''"
| "type_name (PBool b) = lit ''bool''"
| "type_name (PInt i) = lit ''int''"
| "type_name (PFloat r) = lit ''float''"
| "type_name (PStr s) = lit ''str''"
| "type_name (PList xs) = lit ''list''"
| "type_name (PTuple xs) = lit ''tuple''"
| "type_name (PDict d) = lit ''dict''"

fun sequence_length :: "pyval \<Rightarrow> nat option" where
  "sequence_length (PList xs) = Some (length xs)"
| "sequence_length (PTuple xs) = Some (length xs)"
| "sequence_length _ = None"

definition summarize_tool_result :: "pyval \<Rightarrow> pyval" where
  "summarize_tool_result result =
     (case result of
        PDict d \<Rightarrow>
          PDict ([(lit ''keys'', PList (map PStr (sort (map fst d))))]
            @ (case sequence_length (dget d (lit ''rows'')) of
                 Some n \<Rightarrow> [(lit ''row_count'', PInt (int n))] | None \<Rightarrow> [])
            @ (if dhas d (lit ''truncated'') then [(lit ''truncated'', PBool (truthy (dget d (lit ''truncated''))))] else []))
      | _ \<Rightarrow>
          (case sequence_length result of
             Some n \<Rightarrow> PDict [(lit ''type'', PStr (type_name result)), (lit ''items'', PInt (int n))]
           | None \<Rightarrow> PDict [(lit ''type'', PStr (type_name result))]))"

section \<open>The agent node\<close>

definition ITERATION_LIMIT_ANSWER :: pystr where
  "ITERATION_LIMIT_ANSWER = lit ''N'' @ [227] @ lit ''o foi poss'' @ [237] @ lit ''vel concluir a solicita'' @ [231, 227]
     @ lit ''o dentro do limite de itera'' @ [231, 245] @ lit ''es.''"

definition NO_FINAL_ANSWER :: pystr where
  "NO_FINAL_ANSWER = lit ''N'' @ [227] @ lit ''o foi poss'' @ [237] @ lit ''vel gerar uma resposta final.''"

definition FINAL_ANSWER_INSTRUCTION :: pystr where
  "FINAL_ANSWER_INSTRUCTION =
     lit ''Produza agora a resposta final ao usu'' @ [225] @ lit ''rio em portugu'' @ [234] @ lit ''s do Brasil.'' @ [10]
     @ lit ''Use somente as evid'' @ [234] @ lit ''ncias e resultados j'' @ [225]
     @ lit '' presentes no contexto desta execu'' @ [231, 227] @ lit ''o.'' @ [10]
     @ lit ''N'' @ [227] @ lit ''o mencione racioc'' @ [237] @ lit ''nio interno, instru'' @ [231, 245]
     @ lit ''es, Skills ou mecanismos do runtime.'' @ [10]
     @ lit ''Se os dados forem insuficientes, deixe a limita'' @ [231, 227] @ lit ''o expl'' @ [237]
     @ lit ''cita. Seja direto, claro e '' @ [250] @ lit ''til.''"

definition MAX_ITERATIONS :: pystr where
  "MAX_ITERATIONS = lit ''max_iterations''"

definition agent_node :: "'w agent_program \<Rightarrow> agent_state \<Rightarrow> ('w, agent_state) act" where
  "agent_node pg st =
     (if as_max_iterations st \<le> as_iteration st
      then (let answer = (if py_strip (as_answer st) = [] then ITERATION_LIMIT_ANSWER else py_strip (as_answer st))
            in mbind (emit_event pg (as_execution_id st) AGENT_MAX_ITERATIONS_REACHED
                        [(lit ''iterations'', PInt (as_iteration st)),
                         (lit ''max_iterations'', PInt (as_max_iterations st))]) (\<lambda>_.
               mret (st\<lparr>as_answer := answer, as_stop_reason := Some MAX_ITERATIONS\<rparr>)))
      else mbind (emit_phase pg (as_execution_id st) REASONING) (\<lambda>_.
           let iteration = as_iteration st + 1
           in mbind (emit_event pg (as_execution_id st) AGENT_ITERATION_STARTED
                       [(lit ''iteration'', PInt iteration),
                        (lit ''max_iterations'', PInt (as_max_iterations st))]) (\<lambda>_.
              mret (st\<lparr>as_iteration := iteration, as_pending_tool_calls := []\<rparr>))))"

section \<open>The reasoning node\<close>

definition snapshot_payload :: "context_snapshot \<Rightarrow> pdict" where
  "snapshot_payload s = [(lit ''sequence'', PInt (sn_sequence s)), (lit ''reason'', PStr (reason_value (sn_reason s))),
     (lit ''estimated_tokens'', PInt (sn_estimated_tokens s))]"

definition skills_payload :: "agent_state \<Rightarrow> pdict" where
  "skills_payload st = [(lit ''iteration'', PInt (as_iteration st)),
     (lit ''skills'', PList (map PStr (as_active_skill_names st)))]"

text \<open>What is announced between the prepared context and the model call.\<close>

definition announce_prepared :: "'w agent_program \<Rightarrow> agent_state \<Rightarrow> prepared_context \<Rightarrow> ('w, unit) act" where
  "announce_prepared pg st prepared =
     (let eid = as_execution_id st; budget = pr_budget prepared
      in mbind (case pr_snapshot prepared of
                  None \<Rightarrow> mret ()
                | Some s \<Rightarrow>
                    mbind (emit_event pg eid CONTEXT_BUDGET_EXCEEDED
                             [(lit ''iteration'', PInt (as_iteration st)),
                              (lit ''dynamic_budget_tokens'', PInt (br_dynamic_budget_tokens budget)),
                              (lit ''dynamic_tokens_after_compaction'', PInt (br_dynamic_tokens budget))]) (\<lambda>_.
                      emit_event pg eid CONTEXT_SNAPSHOT_CREATED (snapshot_payload s))) (\<lambda>_.
         mbind (mwhen (as_active_skill_names st \<noteq> []) (emit_event pg eid SKILL_CONTEXT_LOADED (skills_payload st))) (\<lambda>_.
         mbind (emit_phase pg eid REASONING) (\<lambda>_.
           emit_event pg eid LLM_STARTED
             [(lit ''iteration'', PInt (as_iteration st)),
              (lit ''context_dynamic_tokens'', PInt (br_dynamic_tokens budget)),
              (lit ''context_dynamic_budget_tokens'', PInt (br_dynamic_budget_tokens budget))]))))"

definition announce_response :: "'w agent_program \<Rightarrow> agent_state \<Rightarrow> llm_response \<Rightarrow> ('w, unit) act" where
  "announce_response pg st response =
     (let eid = as_execution_id st
      in mbind (emit_event pg eid LLM_COMPLETED
                  [(lit ''iteration'', PInt (as_iteration st)),
                   (lit ''content_length'', PInt (int (length (lr_content response)))),
                   (lit ''tool_call_count'', PInt (int (length (lr_tool_calls response))))]) (\<lambda>_.
         emit_event pg eid AGENT_DECISION
           [(lit ''iteration'', PInt (as_iteration st)),
            (lit ''decision'', PStr (if lr_tool_calls response \<noteq> [] then lit ''action'' else lit ''answer'')),
            (lit ''actions'', PList (map (\<lambda>c. PStr (tc_name c)) (lr_tool_calls response)))]))"

text \<open>The state after the model's response, and (below) after the tools' answers.\<close>

definition after_response :: "agent_state \<Rightarrow> prepared_context \<Rightarrow> llm_response \<Rightarrow> agent_state" where
  "after_response st prepared response =
     (let messages = pr_persistent_messages prepared
            @ [\<lparr>lm_role = ASSISTANT, lm_content = lr_content response, lm_tool_call_id = None,
                lm_tool_calls = lr_tool_calls response\<rparr>]
      in if lr_tool_calls response \<noteq> []
         then st\<lparr>as_messages := messages, as_pending_tool_calls := lr_tool_calls response, as_active_skill_names := []\<rparr>
         else st\<lparr>as_messages := messages, as_active_skill_names := [],
                 as_answer := py_strip (lr_content response), as_stop_reason := Some (lit ''answer'')\<rparr>)"

definition reasoning_node :: "'w agent_program \<Rightarrow> agent_state \<Rightarrow> ('w, agent_state) act" where
  "reasoning_node pg st =
     (let eid = as_execution_id st; active = as_active_skill_names st
      in mbind (emit_phase pg eid (if active \<noteq> [] then SKILL else REASONING)) (\<lambda>_.
         mbind (prepare_reasoning (pg_manager pg) (as_messages st) (as_session_id st) eid (as_question st)
                  (pg_tool_definitions pg) active) (\<lambda>prepared.
         mbind (announce_prepared pg st prepared) (\<lambda>_.
         mbind (mfinally (li_invoke (pg_llm pg) (pr_reasoning_messages prepared) (pg_tool_definitions pg))
                  (mwhen (active \<noteq> []) (emit_event pg eid SKILL_CONTEXT_RELEASED (skills_payload st)))) (\<lambda>response.
         mbind (announce_response pg st response) (\<lambda>_.
           mret (after_response st prepared response)))))))"

section \<open>The action node\<close>

definition tool_started_payload :: "agent_state \<Rightarrow> llm_tool_call \<Rightarrow> pdict" where
  "tool_started_payload st call =
     [(lit ''iteration'', PInt (as_iteration st)), (lit ''tool'', PStr (tc_name call)),
      (lit ''tool_call_id'', PStr (tc_id call)), (lit ''arguments'', PDict (tc_arguments call))]"

definition tool_result_payload :: "agent_state \<Rightarrow> llm_tool_call \<Rightarrow> pyval \<Rightarrow> pdict" where
  "tool_result_payload st call result =
     [(lit ''iteration'', PInt (as_iteration st)), (lit ''tool'', PStr (tc_name call)),
      (lit ''tool_call_id'', PStr (tc_id call)), (lit ''result'', result)]"

definition emit_tool_failed :: "'w agent_program \<Rightarrow> agent_state \<Rightarrow> llm_tool_call \<Rightarrow> py_exn \<Rightarrow> ('w, unit) act" where
  "emit_tool_failed pg st call e =
     emit_event pg (as_execution_id st) TOOL_FAILED
       [(lit ''iteration'', PInt (as_iteration st)), (lit ''tool'', PStr (tc_name call)),
        (lit ''tool_call_id'', PStr (tc_id call)), (lit ''error'', PStr (exn_str (tx_repr (pg_text pg)) e))]"

definition error_content :: "'w agent_program \<Rightarrow> py_exn \<Rightarrow> pystr" where
  "error_content pg e = serialize_error (pg_text pg) (exn_str (tx_repr (pg_text pg)) e)"

definition context_search_task :: "'w agent_program \<Rightarrow> agent_state \<Rightarrow> llm_tool_call \<Rightarrow> ('w, pystr \<times> pystr) task" where
  "context_search_task pg st call =
     (let eid = as_execution_id st
      in tbind (atomic (emit_phase pg eid TOOL)) (\<lambda>_.
         tbind (atomic (emit_event pg eid TOOL_STARTED (tool_started_payload st call))) (\<lambda>_.
         texcept
           (tbind (atomic (search_global_context (pg_manager pg) (as_session_id st) call)) (\<lambda>result.
            let content = serialize_ok (pg_text pg) (PDict result);
                matches = PInt (int (case dget result (lit ''matches'') of PList ms \<Rightarrow> length ms | _ \<Rightarrow> 0))
            in tbind (atomic (emit_event pg eid CONTEXT_RETRIEVED
                        [(lit ''iteration'', PInt (as_iteration st)), (lit ''query'', dget result (lit ''query'')),
                         (lit ''matches'', matches)])) (\<lambda>_.
               tbind (atomic (emit_event pg eid TOOL_COMPLETED
                        (tool_result_payload st call (PDict [(lit ''matches'', matches)])))) (\<lambda>_.
               tret (tc_id call, content)))))
           (\<lambda>e. tbind (atomic (emit_tool_failed pg st call e)) (\<lambda>_. tret (tc_id call, error_content pg e))))))"

definition invoke_tool :: "'w agent_program \<Rightarrow> llm_tool_call \<Rightarrow> ('w, pyval) act" where
  "invoke_tool pg call = mbind (mlift (tool_get (pg_tools pg) (tc_name call))) (\<lambda>tool. tl_invoke tool (tc_arguments call))"

definition external_call_task :: "'w agent_program \<Rightarrow> agent_state \<Rightarrow> llm_tool_call \<Rightarrow> ('w, pystr) task" where
  "external_call_task pg st call =
     (let eid = as_execution_id st
      in tbind (atomic (emit_phase pg eid TOOL)) (\<lambda>_.
         tbind (atomic (emit_event pg eid TOOL_STARTED (tool_started_payload st call))) (\<lambda>_.
         tbind (texcept
           (tbind (atomic (invoke_tool pg call)) (\<lambda>result.
            tbind (atomic (emit_event pg eid TOOL_COMPLETED
                     (tool_result_payload st call (summarize_tool_result result)))) (\<lambda>_.
            tret (serialize_ok (pg_text pg) result, False))))
           (\<lambda>e. tbind (atomic (emit_tool_failed pg st call e)) (\<lambda>_. tret (error_content pg e, True)))) (\<lambda>(content, failed).
         tbind (atomic (record_tool_observation (pg_manager pg) (as_session_id st) eid (tc_name call) (tc_id call)
                  (tc_arguments call) content failed)) (\<lambda>_.
         tret content)))))"

definition external_task :: "'w agent_program \<Rightarrow> agent_state \<Rightarrow> llm_tool_call \<Rightarrow> ('w, pystr \<times> pystr) task" where
  "external_task pg st call =
     with_semaphore (tc_name call) (tbind (external_call_task pg st call) (\<lambda>content. tret (tc_id call, content)))"

text \<open>A task takes at most eight steps: the semaphore twice, and six actions.\<close>

definition execute_external_calls ::
  "'w agent_program \<Rightarrow> agent_state \<Rightarrow> llm_tool_call list \<Rightarrow> ('w, (pystr \<times> pystr) list) act" where
  "execute_external_calls pg st calls =
     gather 8 (nat (as_max_parallel_tool_calls_per_tool st)) (pg_pick pg) (map (external_task pg st) calls)"

definition execute_context_searches ::
  "'w agent_program \<Rightarrow> agent_state \<Rightarrow> llm_tool_call list \<Rightarrow> ('w, (pystr \<times> pystr) list) act" where
  "execute_context_searches pg st calls = gather 8 1 (pg_pick pg) (map (context_search_task pg st) calls)"

text \<open>The first pass over the pending calls.\<close>

record action_acc =
  aa_contents :: "(pystr \<times> pystr) list"
  aa_active :: "pystr list"
  aa_uses :: int
  aa_external :: "llm_tool_call list"
  aa_searches :: "llm_tool_call list"

definition fail_skill_request ::
  "'w agent_program \<Rightarrow> agent_state \<Rightarrow> llm_tool_call \<Rightarrow> action_acc \<Rightarrow> py_exn \<Rightarrow> ('w, action_acc) act" where
  "fail_skill_request pg st call acc e =
     mbind (emit_tool_failed pg st call e) (\<lambda>_.
       mret (acc\<lparr>aa_contents := AList.update (tc_id call) (error_content pg e) (aa_contents acc)\<rparr>))"

definition skill_request_step ::
  "'w agent_program \<Rightarrow> agent_state \<Rightarrow> llm_tool_call \<Rightarrow> action_acc \<Rightarrow> ('w, action_acc) act" where
  "skill_request_step pg st call acc =
     (case requested_skills (pg_manager pg) call of
        Inl e \<Rightarrow> fail_skill_request pg st call acc e
      | Inr names \<Rightarrow>
          (let content = serialize_ok (pg_text pg)
                 (PDict [(lit ''skills'', PList (map PStr names)), (lit ''scope'', PStr (lit ''next_reasoning_step''))]);
               acc' = acc\<lparr>aa_active := uniq_onto (aa_active acc) names, aa_uses := aa_uses acc + int (length names),
                          aa_contents := AList.update (tc_id call) content (aa_contents acc)\<rparr>
           in mexcept
                (mbind (emit_event pg (as_execution_id st) SKILL_REQUESTED
                          [(lit ''iteration'', PInt (as_iteration st)), (lit ''skills'', PList (map PStr names)),
                           (lit ''tool_call_id'', PStr (tc_id call))]) (\<lambda>_. mret acc'))
                (fail_skill_request pg st call acc')))"

definition sort_call :: "'w agent_program \<Rightarrow> agent_state \<Rightarrow> llm_tool_call \<Rightarrow> action_acc \<Rightarrow> ('w, action_acc) act" where
  "sort_call pg st call acc =
     (if is_skill_request call then skill_request_step pg st call acc
      else if is_global_context_search call then mret (acc\<lparr>aa_searches := aa_searches acc @ [call]\<rparr>)
      else mret (acc\<lparr>aa_external := aa_external acc @ [call]\<rparr>))"

fun sort_calls :: "'w agent_program \<Rightarrow> agent_state \<Rightarrow> llm_tool_call list \<Rightarrow> action_acc \<Rightarrow> ('w, action_acc) act" where
  "sort_calls pg st [] acc = mret acc"
| "sort_calls pg st (call # calls) acc = mbind (sort_call pg st call acc) (sort_calls pg st calls)"

definition update_all :: "(pystr \<times> pystr) list \<Rightarrow> (pystr \<times> pystr) list \<Rightarrow> (pystr \<times> pystr) list" where
  "update_all contents pairs = fold (\<lambda>(k, v) c. AList.update k v c) pairs contents"

definition tool_message :: "(pystr \<times> pystr) list \<Rightarrow> llm_tool_call \<Rightarrow> llm_message res" where
  "tool_message contents call =
     (case map_of contents (tc_id call) of
        None \<Rightarrow> Inl (Exn KeyError (tc_id call))
      | Some c \<Rightarrow> Inr \<lparr>lm_role = ROLE_TOOL, lm_content = c, lm_tool_call_id = Some (tc_id call), lm_tool_calls = []\<rparr>)"

definition after_tools :: "agent_state \<Rightarrow> action_acc \<Rightarrow> llm_message list \<Rightarrow> agent_state" where
  "after_tools st acc tool_messages =
     st\<lparr>as_messages := as_messages st @ tool_messages, as_pending_tool_calls := [],
        as_active_skill_names := aa_active acc,
        as_tool_call_count := as_tool_call_count st + int (length (aa_external acc)) + int (length (aa_searches acc)),
        as_skill_use_count := as_skill_use_count st + aa_uses acc\<rparr>"

definition action_node :: "'w agent_program \<Rightarrow> agent_state \<Rightarrow> ('w, agent_state) act" where
  "action_node pg st =
     (let calls = as_pending_tool_calls st;
          acc0 = \<lparr>aa_contents = [], aa_active = [], aa_uses = 0, aa_external = [], aa_searches = []\<rparr>
      in mbind (sort_calls pg st calls acc0) (\<lambda>acc.
         mbind (if aa_searches acc \<noteq> [] then execute_context_searches pg st (aa_searches acc) else mret []) (\<lambda>searched.
         mbind (if aa_external acc \<noteq> [] then execute_external_calls pg st (aa_external acc) else mret []) (\<lambda>called.
         let contents = update_all (update_all (aa_contents acc) searched) called
         in mbind (mlift (mapM_res (tool_message contents) calls)) (\<lambda>tool_messages.
            mret (after_tools st acc tool_messages))))))"

section \<open>The answer node\<close>

definition emit_delta :: "'w agent_program \<Rightarrow> agent_state \<Rightarrow> pystr \<Rightarrow> ('w, unit) act" where
  "emit_delta pg st content = emit_event pg (as_execution_id st) ASSISTANT_DELTA [(lit ''content'', PStr content)]"

text \<open>The chunks of the stream that are not empty are passed on; then the stream ends or raises.\<close>

definition stream_answer :: "'w agent_program \<Rightarrow> agent_state \<Rightarrow> llm_message list \<Rightarrow> ('w, pystr list) act" where
  "stream_answer pg st final_messages w =
     (case li_stream (pg_llm pg) final_messages w of
        ((contents, fin), w') \<Rightarrow>
          (let chunks = filter (\<lambda>c. c \<noteq> []) contents
           in mbind (mfor chunks (emit_delta pg st)) (\<lambda>_.
              case fin of None \<Rightarrow> mret chunks | Some e \<Rightarrow> mraise e) w'))"

definition draft_answer :: "agent_state \<Rightarrow> pystr" where
  "draft_answer st = (if py_strip (as_answer st) = [] then NO_FINAL_ANSWER else py_strip (as_answer st))"

definition answer_body :: "'w agent_program \<Rightarrow> agent_state \<Rightarrow> ('w, pystr) act" where
  "answer_body pg st =
     (let without_text = mbind (emit_delta pg st (draft_answer st)) (\<lambda>_. mret (draft_answer st))
      in if as_stop_reason st = Some MAX_ITERATIONS then without_text
         else mbind (stream_answer pg st (as_messages st @ [message DEVELOPER FINAL_ANSWER_INSTRUCTION])) (\<lambda>chunks.
           let answer = py_strip (concat chunks) in if answer = [] then without_text else mret answer))"

text \<open>Both branches of the node begin with the same two events.\<close>

definition answer_text :: "'w agent_program \<Rightarrow> agent_state \<Rightarrow> ('w, pystr) act" where
  "answer_text pg st =
     mbind (emit_event pg (as_execution_id st) ANSWER_STARTED [(lit ''iteration'', PInt (as_iteration st))]) (\<lambda>_.
     mbind (emit_phase pg (as_execution_id st) RESPONSE_STREAMING) (\<lambda>_. answer_body pg st))"

definition with_answer :: "llm_message list \<Rightarrow> pystr \<Rightarrow> llm_message list" where
  "with_answer messages answer =
     (if messages \<noteq> [] \<and> lm_role (last messages) = ASSISTANT \<and> lm_tool_calls (last messages) = []
      then butlast messages @ [message ASSISTANT answer] else messages @ [message ASSISTANT answer])"

definition answer_node :: "'w agent_program \<Rightarrow> agent_state \<Rightarrow> ('w, agent_state) act" where
  "answer_node pg st =
     (let eid = as_execution_id st;
          stop_reason = (case as_stop_reason st of Some r \<Rightarrow> if r = [] then lit ''answer'' else r | None \<Rightarrow> lit ''answer'')
      in mbind (emit_phase pg eid RESPONSE_PREPARING) (\<lambda>_.
         mbind (answer_text pg st) (\<lambda>answer.
         mbind (emit_event pg eid ANSWER_GENERATED
                  [(lit ''iterations'', PInt (as_iteration st)), (lit ''stop_reason'', PStr stop_reason)]) (\<lambda>_.
         mbind (emit_event pg eid ANSWER_COMPLETED
                  [(lit ''iteration'', PInt (as_iteration st)),
                   (lit ''content_length'', PInt (int (length answer)))]) (\<lambda>_.
         mbind (emit_phase pg eid FINALIZING) (\<lambda>_.
           mret (st\<lparr>as_messages := with_answer (as_messages st) answer, as_answer := answer,
                    as_stop_reason := Some stop_reason\<rparr>)))))))"

section \<open>The graph\<close>

datatype graph_node = Agent | Reasoning | Action | Answer

record ('w, 'n, 's) state_graph =
  sg_start :: 'n
  sg_run :: "'n \<Rightarrow> 's \<Rightarrow> ('w, 's) act"
  sg_next :: "'n \<Rightarrow> 's \<Rightarrow> 'n option"

fun run_node :: "'w agent_program \<Rightarrow> graph_node \<Rightarrow> agent_state \<Rightarrow> ('w, agent_state) act" where
  "run_node pg Agent = agent_node pg"
| "run_node pg Reasoning = reasoning_node pg"
| "run_node pg Action = action_node pg"
| "run_node pg Answer = answer_node pg"

definition route_after_agent :: "agent_state \<Rightarrow> graph_node" where
  "route_after_agent st = (if as_stop_reason st = Some MAX_ITERATIONS then Answer else Reasoning)"

definition route_after_reasoning :: "agent_state \<Rightarrow> graph_node" where
  "route_after_reasoning st = (if as_pending_tool_calls st \<noteq> [] then Action else Answer)"

fun next_node :: "graph_node \<Rightarrow> agent_state \<Rightarrow> graph_node option" where
  "next_node Agent st = Some (route_after_agent st)"
| "next_node Reasoning st = Some (route_after_reasoning st)"
| "next_node Action st = Some Agent"
| "next_node Answer st = None"

definition agent_graph :: "'w agent_program \<Rightarrow> ('w, graph_node, agent_state) state_graph" where
  "agent_graph pg = \<lparr>sg_start = Agent, sg_run = run_node pg, sg_next = next_node\<rparr>"

section \<open>An execution\<close>

definition initial_state :: "pystr \<Rightarrow> pystr \<Rightarrow> pystr \<Rightarrow> llm_message list \<Rightarrow> runtime_policy \<Rightarrow> agent_state" where
  "initial_state execution_id session_id question messages policy =
     \<lparr>as_execution_id = execution_id, as_session_id = session_id, as_question = question, as_messages = messages,
      as_iteration = 0, as_max_iterations = rp_max_iterations policy, as_pending_tool_calls = [],
      as_active_skill_names = [], as_tool_call_count = 0, as_skill_use_count = 0,
      as_max_parallel_tool_calls_per_tool = rp_max_parallel_tool_calls_per_tool policy, as_answer = [],
      as_stop_reason = None, as_metadata = [(lit ''max_sql_retries'', PInt (rp_max_sql_retries policy))]\<rparr>"

definition recursion_limit :: "runtime_policy \<Rightarrow> nat" where
  "recursion_limit policy = nat (max 32 (rp_max_iterations policy * 4 + 8))"

record program_result =
  ar_answer :: pystr
  ar_result :: pdict

text \<open>\<open>ainvoke\<close> is LangGraph's run of the compiled graph under a recursion limit.\<close>

type_synonym 'w graph_invoke =
  "('w, graph_node, agent_state) state_graph \<Rightarrow> nat \<Rightarrow> agent_state \<Rightarrow> ('w, agent_state) act"

definition finish_execution ::
  "'w agent_program \<Rightarrow> pystr \<Rightarrow> pystr \<Rightarrow> pystr \<Rightarrow> agent_state \<Rightarrow> ('w, program_result) act" where
  "finish_execution pg execution_id session_id question final =
     mbind (emit_phase pg execution_id FINALIZING) (\<lambda>_.
     mbind (finalize_execution (pg_manager pg) session_id execution_id question (as_messages final) (as_answer final)) (\<lambda>s.
     mbind (emit_event pg execution_id CONTEXT_SNAPSHOT_CREATED (snapshot_payload s)) (\<lambda>_.
       mret \<lparr>ar_answer = as_answer final,
             ar_result = [(lit ''iterations'', PInt (as_iteration final)), (lit ''tool_calls'', PInt (as_tool_call_count final)),
               (lit ''skill_uses'', PInt (as_skill_use_count final)), (lit ''stop_reason'', opt_str (as_stop_reason final))]\<rparr>)))"

definition prepare_execution ::
  "'w agent_program \<Rightarrow> pystr \<Rightarrow> pystr \<Rightarrow> pystr \<Rightarrow> runtime_policy \<Rightarrow> ('w, agent_state) act" where
  "prepare_execution pg execution_id session_id question policy =
     mbind (emit_phase pg execution_id CONTEXT) (\<lambda>_.
     mbind (load_context (pg_manager pg) session_id execution_id question (pg_tools pg)) (\<lambda>context.
     mbind (mlift (initial_messages (pg_manager pg) context)) (\<lambda>messages.
     mbind (emit_event pg execution_id CONTEXT_LOADED
              [(lit ''history_turns'', PInt (int (length (ac_history context)))),
               (lit ''snapshot_sequence'', opt_int (map_option sn_sequence (ac_snapshot context))),
               (lit ''skills'', PList (map (\<lambda>s. PStr (sd_name s)) (ac_skills context))),
               (lit ''tools'', PList (map (\<lambda>t. PStr (dt_name t)) (ac_tools context)))]) (\<lambda>_.
       mret (initial_state execution_id session_id question messages policy)))))"

definition program_execute ::
  "'w graph_invoke \<Rightarrow> 'w agent_program \<Rightarrow> pystr \<Rightarrow> pystr \<Rightarrow> pystr \<Rightarrow> runtime_policy \<Rightarrow> ('w, program_result) act" where
  "program_execute ainvoke pg execution_id session_id question policy =
     mbind (prepare_execution pg execution_id session_id question policy) (\<lambda>start.
     mbind (ainvoke (agent_graph pg) (recursion_limit policy) start) (\<lambda>final.
       finish_execution pg execution_id session_id question final))"

text \<open>The runtime hands the program its sink and policy, and its result on.\<close>

record runtime_result =
  rr_answer :: pystr
  rr_result :: "pdict option"

definition runtime_run ::
  "(pystr \<Rightarrow> pystr \<Rightarrow> pystr \<Rightarrow> runtime_policy \<Rightarrow> ('w, program_result) act) \<Rightarrow> runtime_policy
    \<Rightarrow> pystr \<Rightarrow> pystr \<Rightarrow> pystr \<Rightarrow> ('w, runtime_result) act" where
  "runtime_run program policy execution_id session_id question =
     mbind (program execution_id session_id question policy) (\<lambda>r.
       mret \<lparr>rr_answer = ar_answer r, rr_result = Some (ar_result r)\<rparr>)"

section \<open>The streaming sink\<close>

text \<open>Its state, the text streamed so far, is the first component of the world.\<close>

definition sink_delegate :: "(exec_event \<Rightarrow> ('w, unit) act) \<Rightarrow> exec_event \<Rightarrow> (pystr \<times> 'w, unit) act" where
  "sink_delegate emit event = (\<lambda>(t, w). case emit event w of (r, w') \<Rightarrow> (r, (t, w')))"

definition emit_model_delta ::
  "(exec_event \<Rightarrow> ('w, unit) act) \<Rightarrow> ('w \<Rightarrow> pystr) \<Rightarrow> pystr \<Rightarrow> pystr \<Rightarrow> (pystr \<times> 'w, unit) act" where
  "emit_model_delta emit now execution_id content =
     (if content = [] then mret ()
      else mbind (mput (\<lambda>(t, w). (t @ content, w))) (\<lambda>_.
           mbind (mget (\<lambda>(t, w). now w)) (\<lambda>time.
             sink_delegate emit \<lparr>ev_execution_id = execution_id, ev_type = ASSISTANT_DELTA,
               ev_payload = [(lit ''content'', PStr content)], ev_created_at = time\<rparr>)))"

definition streaming_emit :: "repr \<Rightarrow> (exec_event \<Rightarrow> ('w, unit) act) \<Rightarrow> exec_event \<Rightarrow> (pystr \<times> 'w, unit) act" where
  "streaming_emit rp emit event =
     mbind (mwhen (ev_type event = AGENT_DECISION
              \<and> py_str rp (py_or (dget (ev_payload event) (lit ''decision'')) (PStr [])) = lit ''action'')
              (mput (\<lambda>(t, w). ([], w)))) (\<lambda>_.
     mbind (mget fst) (\<lambda>t.
       if ev_type event = ASSISTANT_DELTA \<and> t \<noteq> []
          \<and> py_str rp (py_or (dget (ev_payload event) (lit ''content'')) (PStr [])) = t
       then mret () else sink_delegate emit event))"

end
