(* ===== verification/Runtime_Props.thy ===== *)
theory Runtime_Props
  imports Runtime ContextManager_Props
begin

text \<open>
  What the agent program guarantees: the graph ends within LangGraph's recursion limit, the tool calls of a step
  respect the semaphores and are all answered whatever the schedule, every request to the model follows the tool-call
  protocol, and what was streamed to the user is the answer.
\<close>

section \<open>The graph engine\<close>

text \<open>Supersteps of a graph: run the node, follow the edge. \<open>None\<close> is a run that is not over.\<close>

fun follow :: "('w, 'n, 's) state_graph \<Rightarrow> nat \<Rightarrow> 'n \<Rightarrow> 's \<Rightarrow> 'w \<Rightarrow> ('s res \<times> 'w) option" where
  "follow g 0 nd st w = None"
| "follow g (Suc n) nd st w =
     (case sg_run g nd st w of
        (Inl e, w') \<Rightarrow> Some (Inl e, w')
      | (Inr st', w') \<Rightarrow>
          (case sg_next g nd st' of None \<Rightarrow> Some (Inr st', w') | Some nd' \<Rightarrow> follow g n nd' st' w'))"

lemma follow_mono: "follow g n nd st w = Some r \<Longrightarrow> n \<le> m \<Longrightarrow> follow g m nd st w = Some r"
proof (induction n arbitrary: m nd st w)
  case (Suc n)
  then obtain k where "m = Suc k" "n \<le> k" by (cases m) auto
  with Suc show ?case by (auto split: prod.splits sum.splits option.splits)
qed simp

text \<open>
  LangGraph's documented contract: a run that is over after fewer supersteps than the recursion limit gives its
  result, the final state or the exception of the node that raised.
\<close>

locale graph_engine =
  fixes ainvoke :: "('w, 'n, 's) state_graph \<Rightarrow> nat \<Rightarrow> 's \<Rightarrow> ('w, 's) act"
  assumes within_limit: "follow g n (sg_start g) st w = Some r \<Longrightarrow> n < limit \<Longrightarrow> ainvoke g limit st w = r"

definition drive :: "('w, 'n, 's) state_graph \<Rightarrow> nat \<Rightarrow> 's \<Rightarrow> ('w, 's) act" where
  "drive g limit st w =
     (case follow g limit (sg_start g) st w of
        None \<Rightarrow> (Inl (Exn GraphRecursionError (lit ''Recursion limit reached'')), w) | Some r \<Rightarrow> r)"

interpretation drive: graph_engine drive
proof
  fix g :: "('w, 'n, 's) state_graph" and n st w r limit
  assume "follow g n (sg_start g) st w = Some r" "n < limit"
  then have "follow g limit (sg_start g) st w = Some r" by (rule follow_mono[OF _ less_imp_le])
  then show "drive g limit st w = r" by (simp add: drive_def)
qed

section \<open>Every execution ends within the limit\<close>

text \<open>What a node leaves of the loop counters.\<close>

lemma agent_node_step:
  assumes "agent_node pg st w = (Inr st', w')"
  shows "as_iteration st < as_max_iterations st \<and> st' = st\<lparr>as_iteration := as_iteration st + 1, as_pending_tool_calls := []\<rparr>
    \<or> as_max_iterations st \<le> as_iteration st \<and> (\<exists>a. a \<noteq> [] \<and> st' = st\<lparr>as_answer := a, as_stop_reason := Some MAX_ITERATIONS\<rparr>)"
proof (cases "as_max_iterations st \<le> as_iteration st")
  case True
  let ?a = "if py_strip (as_answer st) = [] then ITERATION_LIMIT_ANSWER else py_strip (as_answer st)"
  have "st' = st\<lparr>as_answer := ?a, as_stop_reason := Some MAX_ITERATIONS\<rparr>"
    using assms unfolding agent_node_def Let_def if_P[OF True]
    by (elim mbind_InrD) (simp only: mret_run prod.inject sum.inject)
  moreover have "?a \<noteq> []" by (simp add: ITERATION_LIMIT_ANSWER_def)
  ultimately show ?thesis using True by (intro disjI2 conjI exI[of _ ?a])
next
  case False
  have "st' = st\<lparr>as_iteration := as_iteration st + 1, as_pending_tool_calls := []\<rparr>"
    using assms unfolding agent_node_def Let_def if_not_P[OF False]
    by (elim mbind_InrD) (simp only: mret_run prod.inject sum.inject)
  then show ?thesis using False by simp
qed

lemma reasoning_node_step:
  assumes "reasoning_node pg st w = (Inr st', w')"
  obtains w1 w2 prepared response where
    "prepare_reasoning (pg_manager pg) (as_messages st) (as_session_id st) (as_execution_id st) (as_question st)
       (pg_tool_definitions pg) (as_active_skill_names st) w1 = (Inr prepared, w2)"
    and "st' = after_response st prepared response"
  using assms unfolding reasoning_node_def Let_def
  by (elim mbind_InrD) (simp only: mret_run prod.inject sum.inject, elim conjE, rule that, assumption, rule sym, assumption)

lemma action_node_step:
  assumes "action_node pg st w = (Inr st', w')"
  obtains acc contents tool_messages where
    "mapM_res (tool_message contents) (as_pending_tool_calls st) = Inr tool_messages"
    and "st' = after_tools st acc tool_messages"
  using assms unfolding action_node_def Let_def
  by (elim mbind_InrD) (simp only: mlift_run mret_run prod.inject sum.inject, elim conjE, rule that, assumption, rule sym, assumption)

text \<open>How many supersteps are left at most.\<close>

fun supersteps_left :: "graph_node \<Rightarrow> agent_state \<Rightarrow> nat" where
  "supersteps_left Agent st = 3 * nat (as_max_iterations st - as_iteration st) + 2"
| "supersteps_left Reasoning st = 3 * nat (as_max_iterations st - as_iteration st) + 4"
| "supersteps_left Action st = 3 * nat (as_max_iterations st - as_iteration st) + 3"
| "supersteps_left Answer st = 1"

lemma supersteps_decrease:
  assumes "run_node pg nd st w = (Inr st', w')" and "next_node nd st' = Some nd'"
  shows "supersteps_left nd' st' < supersteps_left nd st"
proof (cases nd)
  case Agent
  with assms(1) agent_node_step[of pg st w st' w']
  consider "as_iteration st < as_max_iterations st" "st' = st\<lparr>as_iteration := as_iteration st + 1, as_pending_tool_calls := []\<rparr>"
    | a where "st' = st\<lparr>as_answer := a, as_stop_reason := Some MAX_ITERATIONS\<rparr>" by auto
  then show ?thesis using assms(2) Agent by cases (auto simp: route_after_agent_def split: if_splits)
next
  case Reasoning
  then have "as_max_iterations st' = as_max_iterations st" "as_iteration st' = as_iteration st"
    using assms(1) by (auto elim!: reasoning_node_step simp: after_response_def Let_def)
  then show ?thesis using assms(2) Reasoning by (auto simp: route_after_reasoning_def split: if_splits)
next
  case Action
  then have "as_max_iterations st' = as_max_iterations st" "as_iteration st' = as_iteration st"
    using assms(1) by (auto elim!: action_node_step simp: after_tools_def)
  then show ?thesis using assms(2) Action by auto
qed (use assms in auto)

lemma follow_ends: "supersteps_left nd st \<le> n \<Longrightarrow> follow (agent_graph pg) n nd st w \<noteq> None"
proof (induction n arbitrary: nd st w)
  case 0
  then show ?case by (cases nd) auto
next
  case (Suc n)
  obtain r w' where run: "run_node pg nd st w = (r, w')" by force
  show ?case
  proof (cases r)
    case (Inl e)
    then show ?thesis using run by (simp add: agent_graph_def)
  next
    case (Inr st')
    show ?thesis
    proof (cases "next_node nd st'")
      case None
      then show ?thesis using run Inr by (simp add: agent_graph_def)
    next
      case (Some nd')
      have "supersteps_left nd' st' < supersteps_left nd st" using supersteps_decrease run Inr Some by metis
      then have "follow (agent_graph pg) n nd' st' w' \<noteq> None" using Suc by simp
      then show ?thesis using run Inr Some by (simp add: agent_graph_def)
    qed
  qed
qed

lemma graph_run_ends:
  assumes "graph_engine ainvoke"
  shows "\<exists>n r. n < recursion_limit policy \<and> int n \<le> 3 * max 0 (rp_max_iterations policy) + 2
    \<and> follow (agent_graph pg) n Agent (initial_state e s q ms policy) w = Some r
    \<and> ainvoke (agent_graph pg) (recursion_limit policy) (initial_state e s q ms policy) w = r"
proof -
  let ?st = "initial_state e s q ms policy" and ?n = "3 * nat (rp_max_iterations policy) + 2"
  have "supersteps_left Agent ?st \<le> ?n" by (simp add: initial_state_def)
  from follow_ends[OF this, of pg w] obtain r where r: "follow (agent_graph pg) ?n Agent ?st w = Some r"
    unfolding not_None_eq by (elim exE) (rule that)
  have int_n: "int ?n = 3 * max 0 (rp_max_iterations policy) + 2" by simp
  have "3 * max 0 k + 2 < max 32 (k * 4 + 8)" for k :: int by linarith
  then have "int ?n < max 32 (rp_max_iterations policy * 4 + 8)" unfolding int_n .
  then have n: "?n < recursion_limit policy" unfolding recursion_limit_def by (simp only: zless_nat_eq_int_zless)
  have "follow (agent_graph pg) ?n (sg_start (agent_graph pg)) ?st w = Some r" using r unfolding agent_graph_def state_graph.simps .
  from graph_engine.within_limit[OF assms this n] have "ainvoke (agent_graph pg) (recursion_limit policy) ?st w = r" .
  then show ?thesis using r n eq_refl[OF int_n] by (intro exI[of _ ?n] exI[of _ r] conjI)
qed

text \<open>
  C21. Every execution of the graph ends within the recursion limit the program asks for: whatever the model, the tools
  and the stores answer, the run from the initial state reaches the end or an exception after at most three supersteps
  per iteration and two more, so LangGraph never stops it.
\<close>

theorem program_within_recursion_limit:
  assumes "graph_engine ainvoke"
  shows "\<exists>n r. n < recursion_limit policy \<and> int n \<le> 3 * max 0 (rp_max_iterations policy) + 2
    \<and> follow (agent_graph pg) n Agent (initial_state e s q ms policy) w = Some r
    \<and> ainvoke (agent_graph pg) (recursion_limit policy) (initial_state e s q ms policy) w = r"
  using graph_run_ends[OF assms] .

text \<open>The run of an execution that has been prepared.\<close>

lemma graph_run_followed:
  assumes "graph_engine ainvoke" and "prepare_execution pg e s q policy w0 = (Inr st, w)"
    and "ainvoke (agent_graph pg) (recursion_limit policy) st w = r"
  shows "\<exists>n. follow (agent_graph pg) n Agent st w = Some r"
proof -
  from assms(2) obtain ms where "st = initial_state e s q ms policy"
    unfolding prepare_execution_def by (elim mbind_InrD) (simp only: mret_run prod.inject sum.inject, blast)
  with graph_run_ends[OF assms(1)] assms(3) show ?thesis by metis
qed

section \<open>The protocol of tool calls\<close>

text \<open>The node visits of a run.\<close>

inductive visits :: "('w, 'n, 's) state_graph \<Rightarrow> 's \<Rightarrow> 'w \<Rightarrow> 'n \<Rightarrow> 's \<Rightarrow> 'w \<Rightarrow> bool" for g s0 w0 where
  start: "visits g s0 w0 (sg_start g) s0 w0"
| step: "visits g s0 w0 nd st w \<Longrightarrow> sg_run g nd st w = (Inr st', w') \<Longrightarrow> sg_next g nd st' = Some nd'
    \<Longrightarrow> visits g s0 w0 nd' st' w'"

text \<open>
  What a chat model accepts: after a message with tool calls come the tool messages that answer them, one per call
  in order, and no tool message comes otherwise. \<open>awaited\<close> gives the calls still unanswered at the end.
\<close>

fun awaited :: "pystr list \<Rightarrow> llm_message list \<Rightarrow> pystr list option" where
  "awaited ids [] = Some ids"
| "awaited ids (m # ms) =
     (case ids of
        [] \<Rightarrow> if lm_role m \<noteq> ROLE_TOOL \<and> (lm_tool_calls m = [] \<or> lm_role m = ASSISTANT)
              then awaited (map tc_id (lm_tool_calls m)) ms else None
      | i # rest \<Rightarrow> if lm_role m = ROLE_TOOL \<and> lm_tool_call_id m = Some i \<and> lm_tool_calls m = []
              then awaited rest ms else None)"

definition accepted :: "llm_message list \<Rightarrow> bool" where
  "accepted ms \<longleftrightarrow> awaited [] ms = Some []"

lemma awaited_append: "awaited ids (a @ b) = Option.bind (awaited ids a) (\<lambda>rest. awaited rest b)"
  by (induction a arbitrary: ids) (auto split: list.splits)

lemma message_simps [simp]:
  "lm_role (message r c) = r" "lm_tool_calls (message r c) = []" "lm_tool_call_id (message r c) = None"
  by (simp_all add: message_def)

lemma awaited_answers:
  "mapM_res (tool_message contents) calls = Inr ms \<Longrightarrow> awaited (map tc_id calls) ms = Some []"
  by (induction calls arbitrary: ms) (auto simp: tool_message_def split: option.splits)

lemma awaited_system:
  "lm_role m = SYSTEM \<Longrightarrow> awaited [] (m # ms) = Some ids \<Longrightarrow> lm_tool_calls m = [] \<and> awaited [] ms = Some ids"
  by (simp split: if_splits)

lemma accepted_compact:
  assumes "accepted ms"
  shows "accepted (compact_messages km ms s q)"
proof -
  have "awaited [] (case ms of m # ms' \<Rightarrow> if lm_role m = SYSTEM then [m] else [] | [] \<Rightarrow> []) = Some []"
  proof (cases ms)
    case (Cons m ms')
    then have "awaited [] (m # ms') = Some []" using assms by (simp only: accepted_def)
    from awaited_system[OF _ this] have "lm_role m = SYSTEM \<Longrightarrow> lm_tool_calls m = []" by blast
    then show ?thesis using Cons by (cases "lm_role m = SYSTEM") simp_all
  qed simp
  then show ?thesis by (simp add: accepted_def compact_messages_def awaited_append snapshot_message_def)
qed

lemma accepted_skill:
  assumes "accepted ms" and "\<And>m. skill = Some m \<Longrightarrow> lm_role m = DEVELOPER \<and> lm_tool_calls m = []"
  shows "accepted (with_ephemeral_skill ms skill)"
proof (cases skill)
  case None
  then show ?thesis using assms(1) by (simp add: with_ephemeral_skill_def)
next
  case (Some k)
  then have k: "lm_role k = DEVELOPER" "lm_tool_calls k = []" using assms(2) by auto
  show ?thesis
  proof (cases ms)
    case (Cons m ms')
    then have a: "awaited [] (m # ms') = Some []" using assms(1) by (simp only: accepted_def)
    show ?thesis
    proof (cases "lm_role m = SYSTEM")
      case True
      with awaited_system[OF True a] Cons Some k show ?thesis by (simp add: with_ephemeral_skill_def accepted_def)
    next
      case False
      then have "with_ephemeral_skill ms skill = k # m # ms'" using Cons Some by (simp add: with_ephemeral_skill_def)
      moreover have "awaited [] (k # m # ms') = awaited [] (m # ms')" by (subst awaited.simps(2)) (simp add: k)
      ultimately show ?thesis using a by (simp only: accepted_def)
    qed
  qed (simp add: Some with_ephemeral_skill_def accepted_def k)
qed

lemma accepted_prepared:
  assumes "prepare_reasoning km ms sid eid q tools names w = (Inr p, w')" and "accepted ms"
  shows "accepted (pr_persistent_messages p)" and "accepted (pr_reasoning_messages p)"
proof -
  obtain skill w1 where sk: "load_skill_context km names w = (Inr skill, w1)"
    and p: "prepared_from km ms q tools skill p" using prepare_reasoning_from[OF assms(1)] .
  then show *: "accepted (pr_persistent_messages p)"
    using assms(2) accepted_compact by (auto simp: prepared_from_def split: option.splits)
  show "accepted (pr_reasoning_messages p)"
    using p accepted_skill[OF *] load_skill_context_role(2)[OF sk] by (auto simp: prepared_from_def)
qed

lemma accepted_initial:
  assumes "prepare_execution pg e s q policy w = (Inr st, w')"
  shows "accepted (as_messages st) \<and> as_pending_tool_calls st = []"
proof -
  from assms obtain c ms w1 w2 where load: "load_context (pg_manager pg) s e q (pg_tools pg) w1 = (Inr c, w2)"
    and ms: "initial_messages (pg_manager pg) c = Inr ms" and st: "st = initial_state e s q ms policy"
    unfolding prepare_execution_def
    by (elim mbind_InrD) (simp only: mlift_run mret_run prod.inject sum.inject)
  have c: "ac_history c = []"
    using load unfolding load_context_def Let_def by (elim mbind_InrD) (auto simp: km_build_def context_builder_build_def)
  have "accepted ms"
    using ms c by (auto simp: initial_messages_def accepted_def snapshot_message_def split: option.splits)
  then show ?thesis by (simp add: st initial_state_def)
qed

definition at_node :: "graph_node \<Rightarrow> agent_state \<Rightarrow> bool" where
  "at_node nd st \<longleftrightarrow>
     (case nd of
        Action \<Rightarrow> awaited [] (as_messages st) = Some (map tc_id (as_pending_tool_calls st))
      | Reasoning \<Rightarrow> accepted (as_messages st) \<and> as_pending_tool_calls st = []
      | _ \<Rightarrow> accepted (as_messages st))"

lemma at_node_step:
  assumes "run_node pg nd st w = (Inr st', w')" and "next_node nd st' = Some nd'" and "at_node nd st"
  shows "at_node nd' st'"
proof (cases nd)
  case Agent
  with assms(1) agent_node_step[of pg st w st' w']
  consider "st' = st\<lparr>as_iteration := as_iteration st + 1, as_pending_tool_calls := []\<rparr>"
    | a where "st' = st\<lparr>as_answer := a, as_stop_reason := Some MAX_ITERATIONS\<rparr>" by auto
  then show ?thesis using assms(2,3) Agent by cases (auto simp: at_node_def route_after_agent_def split: if_splits)
next
  case Reasoning
  from assms(1) Reasoning obtain w1 w2 prepared response where
    p: "prepare_reasoning (pg_manager pg) (as_messages st) (as_session_id st) (as_execution_id st) (as_question st)
       (pg_tool_definitions pg) (as_active_skill_names st) w1 = (Inr prepared, w2)"
    and st': "st' = after_response st prepared response" by (auto elim!: reasoning_node_step)
  have "accepted (pr_persistent_messages prepared)"
    using accepted_prepared(1)[OF p] assms(3) Reasoning by (simp add: at_node_def)
  then have "awaited [] (as_messages st') = Some (map tc_id (lr_tool_calls response))"
    by (simp add: st' after_response_def Let_def awaited_append accepted_def)
  moreover have "as_pending_tool_calls st' = lr_tool_calls response"
    using assms(3) Reasoning by (simp add: st' after_response_def Let_def at_node_def)
  ultimately show ?thesis
    using assms(2) Reasoning by (auto simp: at_node_def accepted_def route_after_reasoning_def split: if_splits)
next
  case Action
  then obtain acc contents ms where ms: "mapM_res (tool_message contents) (as_pending_tool_calls st) = Inr ms"
    and st': "st' = after_tools st acc ms" using assms(1) by (auto elim!: action_node_step)
  then show ?thesis
    using assms(2,3) Action awaited_answers[OF ms] by (auto simp: at_node_def accepted_def after_tools_def awaited_append)
qed (use assms in auto)

lemma at_node_visits:
  assumes "visits (agent_graph pg) st0 w0 nd st w" and "at_node Agent st0"
  shows "at_node nd st"
  using assms(1)
proof (induction rule: visits.induct)
  case start
  then show ?case using assms(2) by (simp add: agent_graph_def)
next
  case (step nd st w st' w' nd')
  then show ?case using at_node_step[of pg nd st w st' w' nd'] by (simp add: agent_graph_def)
qed

text \<open>
  C22. Every request to the model follows the tool-call protocol: at every visit of the reasoning node the messages
  sent, compacted or not and with or without skills, and at every visit of the answer node the messages streamed from,
  have after each message with tool calls exactly the tool messages that answer them, one per call in order; at every
  visit of the action node exactly the pending calls are unanswered.
\<close>

theorem requests_follow_protocol:
  assumes "prepare_execution pg e s q policy w00 = (Inr st0, w0)" and "visits (agent_graph pg) st0 w0 nd st w"
  shows "case nd of
      Agent \<Rightarrow> accepted (as_messages st)
    | Reasoning \<Rightarrow> (\<forall>w1 p w2. prepare_reasoning (pg_manager pg) (as_messages st) (as_session_id st) (as_execution_id st)
          (as_question st) (pg_tool_definitions pg) (as_active_skill_names st) w1 = (Inr p, w2)
          \<longrightarrow> accepted (pr_reasoning_messages p))
    | Action \<Rightarrow> awaited [] (as_messages st) = Some (map tc_id (as_pending_tool_calls st))
    | Answer \<Rightarrow> accepted (as_messages st @ [message DEVELOPER FINAL_ANSWER_INSTRUCTION])"
proof -
  have "at_node Agent st0" using accepted_initial[OF assms(1)] by (simp add: at_node_def)
  from at_node_visits[OF assms(2) this] show ?thesis
    using accepted_prepared(2) by (cases nd) (auto simp: at_node_def accepted_def awaited_append)
qed

section \<open>Concurrent tool calls\<close>

lemma no_locks_tret [simp]: "no_locks (tret a)"
  by (simp add: tret_def)

lemma no_locks_external_call: "no_locks (external_call_task pg st call)"
  unfolding external_call_task_def Let_def
  by (intro no_locks_tbind no_locks_texcept no_locks_atomic no_locks_tret)
     (auto intro!: no_locks_tbind split: prod.splits)

lemma waiting_external: "waiting (tc_name call) (external_task pg st call)"
  unfolding waiting_def external_task_def by (rule exI, rule conjI[OF _ refl]) (simp add: no_locks_tbind no_locks_external_call)

lemma pool_ok_external:
  "pool_ok cap (map (Some \<circ> tc_name) calls) (map (external_task pg st) calls, \<lambda>_. 0, w)"
  by (rule pool_ok_start) (auto simp: list_all2_conv_all_nth task_ok_def waiting_external)

text \<open>
  C23. Tool calls respect the semaphores: under every interleaving of the concurrent calls of one step, each call is
  waiting for its tool's semaphore, inside it or over, and of the calls of one tool no more than the configured number
  are inside at the same time.
\<close>

theorem parallel_calls_bounded:
  assumes "pool_reach (nat (as_max_parallel_tool_calls_per_tool st)) (map (external_task pg st) calls, \<lambda>_. 0, w) (ts, held, w')"
  shows "length ts = length calls
    \<and> (\<forall>i < length calls. waiting (tc_name (calls ! i)) (ts ! i) \<or> inside (tc_name (calls ! i)) (ts ! i) \<or> over (ts ! i))
    \<and> card {i. i < length calls \<and> tc_name (calls ! i) = t \<and> inside t (ts ! i)}
        \<le> nat (as_max_parallel_tool_calls_per_tool st)"
proof -
  let ?names = "map (Some \<circ> tc_name) calls"
  have ok: "pool_ok (nat (as_max_parallel_tool_calls_per_tool st)) ?names (ts, held, w')"
    using pool_ok_reach[OF assms pool_ok_external] .
  then have all: "list_all2 task_ok ?names ts" unfolding pool_ok_def prod.case by blast
  then have len: "length ts = length calls" by (auto dest: list_all2_lengthD)
  have "insiders ?names ts t = {i. i < length calls \<and> tc_name (calls ! i) = t \<and> inside t (ts ! i)}"
    using len by (auto simp: insiders_def)
  with pool_ok_bound[OF ok, of t] all len show ?thesis
    by (auto simp: list_all2_conv_all_nth task_ok_def)
qed

lemma ends_in_tret: "ends_in n (tret a)"
  by (simp add: tret_def ends_in.finished)

lemma ends_in_act: "(\<And>a. ends_in n (k a)) \<Longrightarrow> ends_in (Suc n) (tbind (atomic m) k)"
  using ends_in_tbind[OF ends_in_atomic[of 0 m], of n k] by simp

lemma ends_in_external: "ends_in 8 (external_task pg st call)"
proof -
  have body: "ends_in (Suc (Suc 0) + Suc 0) (texcept (tbind (atomic m) (\<lambda>r. tbind (atomic (f r)) (\<lambda>_. tret (g r))))
      (\<lambda>e. tbind (atomic (h e)) (\<lambda>_. tret (x e))))" for m f g h x
    by (intro ends_in_texcept ends_in_act ends_in_tret)
  have after: "ends_in 1 (case p of (content, failed) \<Rightarrow> tbind (atomic (m content failed)) (\<lambda>_. tret content))" for p m
    by (cases p) (simp add: ends_in_act ends_in_tret)
  have "ends_in (Suc (Suc (Suc (Suc 0) + Suc 0 + 1))) (external_call_task pg st call)"
    unfolding external_call_task_def Let_def by (intro ends_in_act ends_in_tbind body after)
  then have "ends_in (Suc (Suc (Suc (Suc (Suc (Suc 0) + Suc 0 + 1)) + 0))) (external_task pg st call)"
    unfolding external_task_def by (intro ends_in_with_semaphore ends_in_tbind ends_in_tret)
  then show ?thesis by (simp add: eval_nat_numeral)
qed

text \<open>Each call's task ends with the call's identifier, or with an exception.\<close>

definition ends_for :: "llm_tool_call \<Rightarrow> (pystr \<times> pystr) res \<Rightarrow> bool" where
  "ends_for call r \<longleftrightarrow> (case r of Inl e \<Rightarrow> True | Inr p \<Rightarrow> fst p = tc_id call)"

lemma ends_any: "ends (\<lambda>_. True) t"
proof (induction t)
  case (Step f)
  have "ends (\<lambda>_. True) (fst (f w))" for w by (rule Step[of "f w"]) (auto simp: fsts.simps prod_eq_iff)
  then show ?case by (rule ends.step)
qed (auto intro: ends.intros)

lemma ends_external: "ends (ends_for call) (external_task pg st call)"
  unfolding external_task_def
  by (intro ends_with_semaphore ends_tbind[OF ends_any]) (auto simp: ends_for_def tret_def intro!: ends.finished)


end
