(* ===== verification/Observation.thy ===== *)
theory Observation
  imports Sse
begin

text \<open>
  What the interface makes of the frames it observes (\<open>ui/observation.py\<close>): the text shown, the phase, the flags of
  the response and the list of activities, updated frame by frame. The state is mutated in place, so the reducer is an
  action on it: an exception leaves what was written before it. A state is always one that
  \<open>new_observation_state\<close> made, so its keys are the fields of a record.
\<close>

section \<open>Activities and state\<close>

datatype frame_kind = STATE_FRAME | ACTIVITY_FRAME | RESPONSE_FRAME | TRANSPORT_FRAME | TERMINAL_FRAME

record activity_presentation =
  ap_sequence :: "int option"
  ap_event_type :: pystr
  ap_title :: pystr
  ap_detail :: "pystr option"
  ap_status :: pystr

definition activity :: "int option \<Rightarrow> pystr \<Rightarrow> pystr \<Rightarrow> pystr option \<Rightarrow> string \<Rightarrow> activity_presentation" where
  "activity sequence event_type title detail status =
     \<lparr>ap_sequence = sequence, ap_event_type = event_type, ap_title = title, ap_detail = detail, ap_status = lit status\<rparr>"

definition activity_dict :: "activity_presentation \<Rightarrow> pdict" where
  "activity_dict a =
     [(lit ''sequence'', opt_int (ap_sequence a)), (lit ''event_type'', PStr (ap_event_type a)),
      (lit ''title'', PStr (ap_title a)), (lit ''detail'', opt_str (ap_detail a)), (lit ''status'', PStr (ap_status a))]"

record observation =
  ob_execution_id :: pystr
  ob_content :: pystr
  ob_phase :: pystr
  ob_result :: "pdict option"
  ob_error :: "pystr option"
  ob_cancel_requested :: bool
  ob_response_started :: bool
  ob_response_completed :: bool
  ob_activities :: "activity_presentation list"
  ob_seen_activity_sequences :: "int set"
  ob_realtime_degraded :: bool

record observation_update =
  ou_kind :: frame_kind
  ou_content_changed :: bool
  ou_terminal_status :: "pystr option"
  ou_response_started :: bool
  ou_response_completed :: bool
  ou_transport_degraded :: bool
  ou_new_activities :: "activity_presentation list"

definition new_observation_state :: "pystr \<Rightarrow> observation" where
  "new_observation_state execution_id =
     \<lparr>ob_execution_id = execution_id, ob_content = [], ob_phase = lit ''pending'', ob_result = None, ob_error = None,
      ob_cancel_requested = False, ob_response_started = False, ob_response_completed = False, ob_activities = [],
      ob_seen_activity_sequences = {}, ob_realtime_degraded = False\<rparr>"

definition RESPONSE_EVENTS :: "pystr list" where
  "RESPONSE_EVENTS = [lit ''answer.started'', lit ''answer.generated'', lit ''answer.completed'', lit ''assistant.delta'']"

definition TERMINAL_EVENTS :: "(pystr \<times> pystr) list" where
  "TERMINAL_EVENTS =
     [(lit ''execution.completed'', lit ''completed''), (lit ''execution.failed'', lit ''failed''),
      (lit ''execution.cancelled'', lit ''cancelled'')]"

definition TRANSPORT_EVENTS :: "pystr list" where
  "TRANSPORT_EVENTS = [lit ''heartbeat'', lit ''execution.realtime_unavailable'']"

definition PHASE_LABELS :: "(pystr \<times> pystr) list" where
  "PHASE_LABELS =
    [
     (lit ''pending'', lit ''Aguardando o agente...''),
     (lit ''context'', lit ''Carregando contexto...''),
     (lit ''reasoning'', lit ''Analisando a solicita'' @ [231, 227] @ lit ''o...''),
     (lit ''skill'', lit ''Carregando conhecimento necess'' @ [225] @ lit ''rio...''),
     (lit ''tool'', lit ''Consultando os dados...''),
     (lit ''response_preparing'', lit ''Preparando a resposta...''),
     (lit ''response_streaming'', lit ''Respondendo...''),
     (lit ''finalizing'', lit ''Finalizando a sess'' @ [227] @ lit ''o...''),
     (lit ''cancel_requested'', lit ''Interrompendo a resposta...''),
     (lit ''cancelled'', lit ''Interrompido''),
     (lit ''completed'', lit ''Conclu'' @ [237] @ lit ''do''),
     (lit ''failed'', lit ''Falha na execu'' @ [231, 227] @ lit ''o'')]"

definition phase_label :: "pystr \<Rightarrow> pystr option" where
  "phase_label phase = map_of PHASE_LABELS phase"

definition classify_frame :: "observed_frame \<Rightarrow> frame_kind" where
  "classify_frame frame =
     (if of_type frame = lit ''execution.state'' then STATE_FRAME
      else if of_type frame \<in> fst ` set TERMINAL_EVENTS then TERMINAL_FRAME
      else if of_type frame \<in> set TRANSPORT_EVENTS then TRANSPORT_FRAME
      else if of_type frame \<in> set RESPONSE_EVENTS then RESPONSE_FRAME
      else ACTIVITY_FRAME)"

section \<open>Presenting an activity\<close>

text \<open>\<open>json.dumps(value, ensure_ascii=False, indent=2)\<close>; \<open>n\<close> is the depth.\<close>

definition new_line :: "nat \<Rightarrow> pystr" where
  "new_line n = 10 # replicate (2 * n) 32"

fun indented :: "(rat \<Rightarrow> pystr) \<Rightarrow> nat \<Rightarrow> pyval \<Rightarrow> pystr"
  and indented_items :: "(rat \<Rightarrow> pystr) \<Rightarrow> nat \<Rightarrow> pyval list \<Rightarrow> pystr"
  and indented_members :: "(rat \<Rightarrow> pystr) \<Rightarrow> nat \<Rightarrow> pdict \<Rightarrow> pystr" where
  "indented ft n PNone = lit ''null''"
| "indented ft n (PBool b) = (if b then lit ''true'' else lit ''false'')"
| "indented ft n (PInt i) = dec_int i"
| "indented ft n (PFloat r) = ft r"
| "indented ft n (PStr s) = json_quote s"
| "indented ft n (PList xs) =
     (if xs = [] then lit ''[]'' else 91 # indented_items ft (Suc n) xs @ new_line n @ [93])"
| "indented ft n (PTuple xs) =
     (if xs = [] then lit ''[]'' else 91 # indented_items ft (Suc n) xs @ new_line n @ [93])"
| "indented ft n (PDict d) =
     (if d = [] then [123, 125] else 123 # indented_members ft (Suc n) d @ new_line n @ [125])"
| "indented_items ft n [] = []"
| "indented_items ft n (x # xs) =
     new_line n @ indented ft n x @ (if xs = [] then [] else [44]) @ indented_items ft n xs"
| "indented_members ft n [] = []"
| "indented_members ft n ((k, v) # ms) =
     new_line n @ json_quote k @ lit '': '' @ indented ft n v @ (if ms = [] then [] else [44]) @ indented_members ft n ms"

definition non_empty :: "pystr \<Rightarrow> pystr option" where
  "non_empty s = (if s = [] then None else Some s)"

definition format_detail :: "py_text \<Rightarrow> pyval \<Rightarrow> pystr option" where
  "format_detail tx value =
     (case value of PNone \<Rightarrow> None | PStr s \<Rightarrow> non_empty s | _ \<Rightarrow> Some (indented (tx_float tx) 0 value))"

text \<open>\<open>", ".join(str(value) for value in values)\<close>\<close>

definition joined :: "repr \<Rightarrow> pyval \<Rightarrow> pystr res" where
  "joined rp values = rbind (py_list values) (\<lambda>vs. Inr (py_join (lit '', '') (map (py_str rp) vs)))"

definition present_phase :: "int option \<Rightarrow> pystr \<Rightarrow> pystr \<Rightarrow> activity_presentation option res" where
  "present_phase sequence event_type phase =
     (case phase_label phase of
        None \<Rightarrow> Inr None
      | Some label \<Rightarrow>
          Inr (Some (activity sequence event_type (strip_end (\<lambda>c. c = 46) label) None
            (if phase \<in> {lit ''response_streaming'', lit ''finalizing'', lit ''completed''} then ''success'' else ''running''))))"

definition present_activity ::
  "py_text \<Rightarrow> pystr \<Rightarrow> int option \<Rightarrow> pdict \<Rightarrow> activity_presentation option res" where
  "present_activity tx event_type sequence payload =
    (let rp = tx_repr tx in
     (if event_type \<in> {lit ''assistant.delta'', lit ''heartbeat'', lit ''execution.state'', lit ''execution.realtime_unavailable''}
      then Inr None
      else if event_type = lit ''execution.started'' then
        Inr (Some (activity sequence event_type (lit ''Execu'' @ [231, 227] @ lit ''o iniciada'') (None) ''success''))
      else if event_type = lit ''execution.phase.changed'' then
        present_phase sequence event_type (py_str rp (get_or payload (lit ''phase'') (PStr ([]))))
      else if event_type = lit ''agent.iteration.started'' then
        Inr (Some (activity sequence event_type (lit ''An'' @ [225] @ lit ''lise '' @ [183] @ lit '' itera'' @ [231, 227] @ lit ''o '' @ py_str rp (dget payload (lit ''iteration'')) @ lit '' de ''
          @ py_str rp (dget payload (lit ''max_iterations''))) (None) ''running''))
      else if event_type = lit ''agent.decision'' then
        rbind (joined rp (get_or payload (lit ''actions'') (PList []))) (\<lambda>actions.
          Inr (Some (activity sequence event_type (lit ''Pr'' @ [243] @ lit ''xima a'' @ [231, 227] @ lit ''o definida'') (if truthy (get_or payload (lit ''actions'') (PList [])) then Some actions else non_empty (py_str rp (get_or payload (lit ''decision'') (PStr ([]))))) ''success'')))
      else if event_type = lit ''agent.max_iterations_reached'' then
        Inr (Some (activity sequence event_type (lit ''Limite de itera'' @ [231, 245] @ lit ''es atingido'') (Some (py_str rp (dget payload (lit ''iterations'')) @ lit '' de '' @ py_str rp (dget payload (lit ''max_iterations'')))) ''error''))
      else if event_type = lit ''context.loaded'' then
        Inr (Some (activity sequence event_type (lit ''Contexto carregado'') (case dget payload (lit ''history_turns'') of PNone \<Rightarrow> None | turns \<Rightarrow> Some (py_str rp turns @ lit '' turnos de hist'' @ [243] @ lit ''rico'')) ''success''))
      else if event_type = lit ''context.budget.exceeded'' then
        Inr (Some (activity sequence event_type (lit ''Contexto compactado para respeitar o budget'') (None) ''success''))
      else if event_type = lit ''context.snapshot.created'' then
        Inr (Some (activity sequence event_type (lit ''Snapshot de contexto criado'') (if truthy (dget payload (lit ''reason'')) then Some (lit ''motivo: '' @ py_str rp (dget payload (lit ''reason''))) else None) ''success''))
      else if event_type = lit ''context.retrieved'' then
        Inr (Some (activity sequence event_type (lit ''Contexto global recuperado'') (Some (py_str rp (dget_or payload (lit ''matches'') (PInt 0)) @ lit '' correspond'' @ [234] @ lit ''ncias'')) ''success''))
      else if event_type = lit ''skill.requested'' then
        rbind (joined rp (get_or payload (lit ''skills'') (PList []))) (\<lambda>names.
          Inr (Some (activity sequence event_type (lit ''Skill solicitada'') (non_empty names) ''running'')))
      else if event_type = lit ''skill.context.loaded'' then
        rbind (joined rp (get_or payload (lit ''skills'') (PList []))) (\<lambda>names.
          Inr (Some (activity sequence event_type (lit ''Conhecimento da skill carregado'') (non_empty names) ''success'')))
      else if event_type = lit ''skill.context.released'' then
        rbind (joined rp (get_or payload (lit ''skills'') (PList []))) (\<lambda>names.
          Inr (Some (activity sequence event_type (lit ''Contexto tempor'' @ [225] @ lit ''rio da skill liberado'') (non_empty names) ''success'')))
      else if event_type = lit ''schema.inspected'' then
        Inr (Some (activity sequence event_type (lit ''Schema do banco inspecionado'') (Some (py_str rp (dget_or payload (lit ''table_count'') (PInt 0)) @ lit '' tabelas'')) ''success''))
      else if event_type = lit ''plan.created'' then
        Inr (Some (activity sequence event_type (lit ''Plano de an'' @ [225] @ lit ''lise criado'') (Some (py_str rp (dget_or payload (lit ''step_count'') (PInt 0)) @ lit '' etapas'')) ''success''))
      else if event_type = lit ''llm.started'' then
        Inr (Some (activity sequence event_type (lit ''Analisando evid'' @ [234] @ lit ''ncias'') (None) ''running''))
      else if event_type = lit ''llm.completed'' then
        Inr (Some (activity sequence event_type (lit ''An'' @ [225] @ lit ''lise do modelo conclu'' @ [237] @ lit ''da'') (None) ''success''))
      else if event_type = lit ''tool.started'' then
        (let tool = py_str rp (get_or payload (lit ''tool'') (PStr (lit ''ferramenta'')))
         in Inr (Some (activity sequence event_type (if tool = lit ''database'' then lit ''Consultando o banco de dados'' else lit ''Executando ferramenta: '' @ tool) (format_detail tx (dget payload (lit ''arguments''))) ''running'')))
      else if event_type = lit ''tool.completed'' then
        Inr (Some (activity sequence event_type (lit ''Ferramenta conclu'' @ [237] @ lit ''da: '' @ py_str rp (get_or payload (lit ''tool'') (PStr (lit ''ferramenta'')))) (format_detail tx (dget payload (lit ''result''))) ''success''))
      else if event_type = lit ''tool.failed'' then
        Inr (Some (activity sequence event_type (lit ''Falha na ferramenta: '' @ py_str rp (get_or payload (lit ''tool'') (PStr (lit ''ferramenta'')))) (Some (py_str rp (get_or payload (lit ''error'') (PStr (lit ''erro desconhecido''))))) ''error''))
      else if event_type = lit ''sql.generated'' then
        Inr (Some (activity sequence event_type (lit ''Consulta SQL preparada'') (non_empty (py_str rp (get_or payload (lit ''sql'') (PStr ([]))))) ''success''))
      else if event_type = lit ''sql.executed'' then
        Inr (Some (activity sequence event_type (lit ''Consulta SQL executada'') (Some (py_str rp (dget_or payload (lit ''row_count'') (PInt 0)) @ lit '' linhas''
          @ (if truthy (dget payload (lit ''truncated'')) then lit '' '' @ [183] @ lit '' resultado truncado'' else []))) ''success''))
      else if event_type = lit ''visualization.selected'' then
        Inr (Some (activity sequence event_type (lit ''Visualiza'' @ [231, 227] @ lit ''o selecionada'') (Some (py_str rp (get_or payload (lit ''title'') (get_or payload (lit ''type'') (PStr (lit ''Visualiza'' @ [231, 227] @ lit ''o'')))))) ''success''))
      else if event_type = lit ''answer.started'' then
        Inr (Some (activity sequence event_type (lit ''Resposta iniciada'') (None) ''success''))
      else if event_type = lit ''answer.generated'' then
        Inr (Some (activity sequence event_type (lit ''Resposta gerada'') (None) ''success''))
      else if event_type = lit ''answer.completed'' then
        Inr (Some (activity sequence event_type (lit ''Resposta conclu'' @ [237] @ lit ''da'') (None) ''success''))
      else if event_type = lit ''execution.cancel_requested'' then
        Inr (Some (activity sequence event_type (lit ''Cancelamento solicitado'') (None) ''running''))
      else if event_type = lit ''execution.cancelled'' then
        Inr (Some (activity sequence event_type (lit ''Execu'' @ [231, 227] @ lit ''o interrompida'') (None) ''success''))
      else if event_type = lit ''execution.completed'' then
        Inr (Some (activity sequence event_type (lit ''Execu'' @ [231, 227] @ lit ''o conclu'' @ [237] @ lit ''da'') (None) ''success''))
      else if event_type = lit ''execution.failed'' then
        Inr (Some (activity sequence event_type (lit ''Execu'' @ [231, 227] @ lit ''o falhou'') (Some (py_str rp (get_or payload (lit ''error'') (PStr (lit ''erro desconhecido''))))) ''error''))
      else Inr (Some (activity sequence event_type event_type (format_detail tx (PDict payload)) ''info''))))"

definition present_activity_frame :: "py_text \<Rightarrow> observed_frame \<Rightarrow> activity_presentation option res" where
  "present_activity_frame tx frame = present_activity tx (of_type frame) (of_sequence frame) (of_payload frame)"

definition present_activity_record :: "py_text \<Rightarrow> pdict \<Rightarrow> activity_presentation option res" where
  "present_activity_record tx d =
     present_activity tx (py_str (tx_repr tx) (get_or d (lit ''type'') (PStr [])))
       (case dget d (lit ''sequence'') of PInt n \<Rightarrow> Some n | _ \<Rightarrow> None)
       (case dget d (lit ''payload'') of PDict p \<Rightarrow> p | _ \<Rightarrow> [])"

section \<open>The reducer\<close>

definition remember_activity :: "activity_presentation \<Rightarrow> observation \<Rightarrow> bool \<times> observation" where
  "remember_activity a ob =
     (if (case ap_sequence a of None \<Rightarrow> False | Some n \<Rightarrow> n \<in> ob_seen_activity_sequences ob) then (False, ob)
      else (True, ob\<lparr>ob_seen_activity_sequences :=
                       (case ap_sequence a of None \<Rightarrow> ob_seen_activity_sequences ob
                        | Some n \<Rightarrow> insert n (ob_seen_activity_sequences ob)),
                     ob_activities := ob_activities ob @ [a]\<rparr>))"

definition apply_state_answer :: "pystr \<Rightarrow> observation \<Rightarrow> bool \<times> observation" where
  "apply_state_answer candidate ob =
     (if candidate = [] \<or> candidate = ob_content ob then (False, ob)
      else if prefix (ob_content ob) candidate then (True, ob\<lparr>ob_content := candidate\<rparr>)
      else if prefix candidate (ob_content ob) then (False, ob)
      else (True, ob\<lparr>ob_content := candidate\<rparr>))"

text \<open>\<open>if presentation is not None and _remember_activity(active, presentation)\<close>\<close>

definition remember :: "activity_presentation option res \<Rightarrow> (observation, activity_presentation list) act" where
  "remember presented =
     mbind (mlift presented) (\<lambda>p.
       case p of
         None \<Rightarrow> mret []
       | Some a \<Rightarrow> (\<lambda>ob. case remember_activity a ob of (new, ob') \<Rightarrow> (Inr (if new then [a] else []), ob')))"

fun remember_records :: "py_text \<Rightarrow> pyval list \<Rightarrow> (observation, activity_presentation list) act" where
  "remember_records tx [] = mret []"
| "remember_records tx (v # vs) =
     mbind (case v of PDict d \<Rightarrow> remember (present_activity_record tx d) | _ \<Rightarrow> mret []) (\<lambda>new.
     mbind (remember_records tx vs) (\<lambda>rest. mret (new @ rest)))"

definition offer_answer :: "pystr \<Rightarrow> (observation, bool) act" where
  "offer_answer candidate = (\<lambda>ob. case apply_state_answer candidate ob of (changed, ob') \<Rightarrow> (Inr changed, ob'))"

text \<open>What a branch computes beside the state: \<open>content_changed\<close>, \<open>terminal_status\<close>, the two flags, the activities.\<close>

record frame_outcome =
  fo_changed :: bool
  fo_terminal :: "pystr option"
  fo_started :: bool
  fo_completed :: bool
  fo_degraded :: bool
  fo_new :: "activity_presentation list"

definition outcome :: "observation \<Rightarrow> frame_outcome" where
  "outcome ob = \<lparr>fo_changed = False, fo_terminal = None, fo_started = ob_response_started ob,
     fo_completed = ob_response_completed ob, fo_degraded = False, fo_new = []\<rparr>"

definition state_phase :: "repr \<Rightarrow> pdict \<Rightarrow> observation \<Rightarrow> pystr" where
  "state_phase rp payload ob =
     py_str rp (get_or payload (lit ''phase'') (get_or payload (lit ''stage'') (get_or payload (lit ''status'')
       (py_or (PStr (ob_phase ob)) (PStr (lit ''pending''))))))"

definition apply_state :: "py_text \<Rightarrow> pdict \<Rightarrow> (observation, frame_outcome) act" where
  "apply_state tx payload =
     (let rp = tx_repr tx; candidate = get_or payload (lit ''partial_answer'') (dget payload (lit ''answer''))
      in mbind (mget outcome) (\<lambda>out.
         mbind (mget (state_phase rp payload)) (\<lambda>phase.
         mbind (mput (\<lambda>ob. ob\<lparr>ob_phase := phase\<rparr>)) (\<lambda>_.
         mbind (if truthy candidate then offer_answer (py_str rp candidate) else mret False) (\<lambda>changed.
         mbind (mput (\<lambda>ob. case dget payload (lit ''result'') of PDict r \<Rightarrow> ob\<lparr>ob_result := Some r\<rparr> | _ \<Rightarrow> ob)) (\<lambda>_.
         mbind (mput (\<lambda>ob. if truthy (dget payload (lit ''error''))
                            then ob\<lparr>ob_error := Some (py_str rp (dget payload (lit ''error'')))\<rparr> else ob)) (\<lambda>_.
         mbind (case dget payload (lit ''activities'') of PList vs \<Rightarrow> remember_records tx vs | _ \<Rightarrow> mret []) (\<lambda>new.
         mbind (mget ob_content) (\<lambda>content.
         let status = py_str rp (get_or payload (lit ''status'') (PStr []));
             terminal = (if status \<in> {lit ''completed'', lit ''failed'', lit ''cancelled''} then Some status else None);
             started = (fo_started out \<or> phase \<in> {lit ''response_streaming'', lit ''finalizing'', lit ''completed''}
                        \<or> content \<noteq> []);
             completed = (if phase \<in> {lit ''finalizing'', lit ''completed''}
                          then content \<noteq> [] \<or> phase = lit ''completed'' else fo_completed out)
         in mbind (mput (\<lambda>ob. ob\<lparr>ob_realtime_degraded :=
                      \<not> truthy (dget_or payload (lit ''realtime_available'') (PBool True))\<rparr>)) (\<lambda>_.
            mret \<lparr>fo_changed = changed, fo_terminal = terminal, fo_started = started, fo_completed = completed,
                  fo_degraded = False, fo_new = new\<rparr>))))))))))"

definition apply_delta :: "repr \<Rightarrow> pdict \<Rightarrow> (observation, frame_outcome) act" where
  "apply_delta rp payload =
     (let content = py_str rp (get_or payload (lit ''content'') (PStr []))
      in mbind (mget outcome) (\<lambda>out.
         mbind (mput (\<lambda>ob. ob\<lparr>ob_content := ob_content ob @ content, ob_phase := lit ''response_streaming''\<rparr>)) (\<lambda>_.
           mret (out\<lparr>fo_changed := content \<noteq> [], fo_started := True\<rparr>))))"

text \<open>What the payload of a terminal event adds.\<close>

definition terminal_payload :: "repr \<Rightarrow> pystr \<Rightarrow> pdict \<Rightarrow> frame_outcome \<Rightarrow> (observation, frame_outcome) act" where
  "terminal_payload rp type payload out =
     (if type = lit ''execution.completed'' then
        let answer = py_str rp (get_or payload (lit ''answer'') (PStr []))
        in mbind (if answer \<noteq> [] then offer_answer answer else mret False) (\<lambda>changed.
           mbind (mput (\<lambda>ob. case dget payload (lit ''result'') of PDict r \<Rightarrow> ob\<lparr>ob_result := Some r\<rparr> | _ \<Rightarrow> ob)) (\<lambda>_.
             mret (out\<lparr>fo_changed := changed, fo_started := True, fo_completed := True\<rparr>)))
      else if type = lit ''execution.failed'' then
        mbind (mput (\<lambda>ob. ob\<lparr>ob_error :=
                 Some (py_str rp (get_or payload (lit ''error'') (PStr (lit ''erro desconhecido''))))\<rparr>)) (\<lambda>_. mret out)
      else if type = lit ''execution.cancelled'' then
        mbind (if truthy (dget payload (lit ''partial_answer''))
               then offer_answer (py_str rp (dget payload (lit ''partial_answer''))) else mret False) (\<lambda>changed.
          mret (out\<lparr>fo_changed := changed\<rparr>))
      else mret out)"

definition apply_terminal :: "py_text \<Rightarrow> observed_frame \<Rightarrow> pystr \<Rightarrow> (observation, frame_outcome) act" where
  "apply_terminal tx frame status =
     mbind (mget outcome) (\<lambda>out.
     mbind (mput (\<lambda>ob. ob\<lparr>ob_phase := status\<rparr>)) (\<lambda>_.
     mbind (terminal_payload (tx_repr tx) (of_type frame) (of_payload frame) out) (\<lambda>out'.
     mbind (remember (present_activity_frame tx frame)) (\<lambda>new.
       mret (out'\<lparr>fo_terminal := Some status, fo_new := new\<rparr>)))))"

definition phase_outcome :: "pystr \<Rightarrow> observation \<Rightarrow> frame_outcome \<Rightarrow> frame_outcome" where
  "phase_outcome phase ob out =
     (if phase = lit ''response_streaming'' then out\<lparr>fo_started := True\<rparr>
      else if phase = lit ''finalizing'' \<and> ob_content ob \<noteq> [] then out\<lparr>fo_started := True, fo_completed := True\<rparr>
      else out)"

definition apply_activity :: "py_text \<Rightarrow> observed_frame \<Rightarrow> (observation, frame_outcome) act" where
  "apply_activity tx frame =
     (let phase = py_str (tx_repr tx) (get_or (of_payload frame) (lit ''phase'') (PStr []))
      in mbind (mget outcome) (\<lambda>out.
         mbind
           (if of_type frame = lit ''execution.phase.changed'' then
              (if phase = [] then mret out
               else mbind (mput (\<lambda>ob. ob\<lparr>ob_phase := phase,
                              ob_cancel_requested := (phase = lit ''cancel_requested'' \<or> ob_cancel_requested ob)\<rparr>)) (\<lambda>_.
                    mbind (mget (\<lambda>ob. phase_outcome phase ob out)) mret))
            else if of_type frame = lit ''execution.cancel_requested'' then
              mbind (mput (\<lambda>ob. ob\<lparr>ob_phase := lit ''cancel_requested'', ob_cancel_requested := True\<rparr>)) (\<lambda>_. mret out)
            else mret out) (\<lambda>out'.
         mbind (remember (present_activity_frame tx frame)) (\<lambda>new.
           mret (out'\<lparr>fo_new := new\<rparr>)))))"

definition apply_response :: "py_text \<Rightarrow> observed_frame \<Rightarrow> pystr option \<Rightarrow> bool \<Rightarrow> (observation, frame_outcome) act" where
  "apply_response tx frame phase completes =
     mbind (mget outcome) (\<lambda>out.
     mbind (mput (\<lambda>ob. case phase of None \<Rightarrow> ob | Some p \<Rightarrow> ob\<lparr>ob_phase := p\<rparr>)) (\<lambda>_.
     mbind (remember (present_activity_frame tx frame)) (\<lambda>new.
       mret (out\<lparr>fo_started := True, fo_completed := (completes \<or> fo_completed out), fo_new := new\<rparr>))))"

definition apply_frame :: "py_text \<Rightarrow> observed_frame \<Rightarrow> (observation, frame_outcome) act" where
  "apply_frame tx frame =
     (let kind = classify_frame frame; type = of_type frame
      in if kind = STATE_FRAME then apply_state tx (of_payload frame)
         else if type = lit ''assistant.delta'' then apply_delta (tx_repr tx) (of_payload frame)
         else if type = lit ''answer.started'' then apply_response tx frame (Some (lit ''response_streaming'')) False
         else if type = lit ''answer.completed'' then apply_response tx frame (Some (lit ''finalizing'')) True
         else if type = lit ''answer.generated'' then apply_response tx frame None False
         else (case map_of TERMINAL_EVENTS type of
             Some status \<Rightarrow> apply_terminal tx frame status
           | None \<Rightarrow>
               if kind = TRANSPORT_FRAME then
                 mbind (mget outcome) (\<lambda>out.
                   if type = lit ''execution.realtime_unavailable''
                   then mbind (mput (\<lambda>ob. ob\<lparr>ob_realtime_degraded := True\<rparr>)) (\<lambda>_. mret (out\<lparr>fo_degraded := True\<rparr>))
                   else mret out)
               else apply_activity tx frame))"

definition apply_observed_frame :: "py_text \<Rightarrow> observed_frame \<Rightarrow> (observation, observation_update) act" where
  "apply_observed_frame tx frame =
     mbind (apply_frame tx frame) (\<lambda>out.
     mbind (mput (\<lambda>ob. ob\<lparr>ob_response_started := fo_started out, ob_response_completed := fo_completed out\<rparr>)) (\<lambda>_.
       mret \<lparr>ou_kind = classify_frame frame, ou_content_changed = fo_changed out, ou_terminal_status = fo_terminal out,
             ou_response_started = fo_started out, ou_response_completed = fo_completed out,
             ou_transport_degraded = fo_degraded out, ou_new_activities = fo_new out\<rparr>))"

section \<open>Watching\<close>

text \<open>The frames of an observation, one after the other; the first exception ends it.\<close>

definition watch :: "py_text \<Rightarrow> observed_frame list \<Rightarrow> (observation, unit) act" where
  "watch tx frames = mfor frames (\<lambda>frame. mbind (apply_observed_frame tx frame) (\<lambda>_. mret ()))"

text \<open>A payload whose \<open>actions\<close> and \<open>skills\<close>, where it has them, are lists.\<close>

definition listed :: "pdict \<Rightarrow> bool" where
  "listed payload \<longleftrightarrow> (\<forall>k \<in> {lit ''actions'', lit ''skills''}. dget payload k \<in> insert PNone (range PList))"

end
