(* ===== verification/Observation_Props.thy ===== *)
theory Observation_Props
  imports Observation Projection_Props Sse_Props
begin

text \<open>
  What the interface guarantees: it shows the answer of the projection it attached to, wherever it attached; no
  activity is listed twice; and a payload whose lists are lists never makes it raise.
\<close>

section \<open>Presenting never raises on listed payloads\<close>

lemma py_list_listed: "listed payload \<Longrightarrow> k \<in> {lit ''actions'', lit ''skills''} \<Longrightarrow> \<exists>vs. py_list (get_or payload k (PList [])) = Inr vs"
  unfolding listed_def by (drule bspec, assumption) (auto simp: py_or_def)

lemma joined_listed:
  assumes "listed payload" and "k \<in> {lit ''actions'', lit ''skills''}"
  shows "\<exists>s. joined rp (get_or payload k (PList [])) = Inr s"
  using py_list_listed[OF assms] by (auto simp: joined_def)

lemma present_phase_total: "\<exists>a. present_phase sequence type phase = Inr a"
  by (simp add: present_phase_def split: option.splits)

lemma present_listed:
  assumes "listed payload"
  shows "\<exists>a. present_activity tx type sequence payload = Inr a"
proof -
  obtain sk where sk: "joined (tx_repr tx) (get_or payload (lit ''skills'') (PList [])) = Inr sk"
    using joined_listed[OF assms] by blast
  obtain ac where ac: "joined (tx_repr tx) (get_or payload (lit ''actions'') (PList [])) = Inr ac"
    using joined_listed[OF assms] by blast
  obtain ph where ph: "present_phase sequence type (py_str (tx_repr tx) (get_or payload (lit ''phase'') (PStr []))) = Inr ph"
    using present_phase_total by blast
  show ?thesis
    unfolding present_activity_def Let_def sk ac ph rbind_simps by (simp only: if_distrib[of "\<lambda>x. \<exists>a. x = Inr a"] sum.inject simp_thms if_cancel) 
qed

section \<open>The text shown\<close>

abbreviation shown :: "pystr \<Rightarrow> observation \<Rightarrow> bool" where
  "shown c ob \<equiv> ob_content ob = c"

lemma shown_remember: "\<exists>p. presented = Inr p \<Longrightarrow> attains (shown c) (remember presented) (\<lambda>_. shown c)"
  by (rule attainsI) (auto simp: remember_def remember_activity_def mbind_def split: option.splits)

lemma shown_records:
  "(\<And>d. PDict d \<in> set vs \<Longrightarrow> \<exists>p. present_activity_record tx d = Inr p)
     \<Longrightarrow> attains (shown c) (remember_records tx vs) (\<lambda>_. shown c)"
proof (induction vs)
  case Nil
  then show ?case by (simp add: attains_def)
next
  case (Cons v vs)
  have "attains (shown c) (case v of PDict d \<Rightarrow> remember (present_activity_record tx d) | _ \<Rightarrow> mret []) (\<lambda>_. shown c)"
  proof (cases v)
    case (PDict d)
    then show ?thesis using Cons.prems[of d] by (simp add: shown_remember)
  qed (simp_all add: attains_def)
  moreover have "attains (shown c) (remember_records tx vs) (\<lambda>_. shown c)" using Cons by simp
  moreover have "attains (shown c) (mret xs) (\<lambda>_. shown c)" for xs :: "activity_presentation list" by (simp add: attains_def)
  ultimately show ?case unfolding remember_records.simps by (intro attains_then)
qed

lemma shown_mput: "(\<And>ob. ob_content (u ob) = ob_content ob) \<Longrightarrow> attains (shown c) (mput u) (\<lambda>_. shown c)"
  and shown_mget: "attains (shown c) (mget f) (\<lambda>_. shown c)"
  and shown_mret: "attains (shown c) (mret a) (\<lambda>_. shown c)"
  by (simp_all add: attains_def)

lemmas shown_intros = attains_then[OF shown_mget] attains_then[OF shown_mput] shown_mput shown_mget shown_mret

lemma shown_if:
  "(b \<Longrightarrow> attains P m (\<lambda>_. shown c)) \<Longrightarrow> (\<not> b \<Longrightarrow> attains P n (\<lambda>_. shown d))
     \<Longrightarrow> attains P (if b then m else n) (\<lambda>_. shown (if b then c else d))"
  by simp

lemma attains_if:
  "(b \<Longrightarrow> attains P m Q) \<Longrightarrow> (\<not> b \<Longrightarrow> attains P n Q) \<Longrightarrow> attains P (if b then m else n) Q"
  by simp

lemma attains_option:
  "(x = None \<Longrightarrow> attains P m Q) \<Longrightarrow> (\<And>a. x = Some a \<Longrightarrow> attains P (f a) Q)
     \<Longrightarrow> attains P (case x of None \<Rightarrow> m | Some a \<Rightarrow> f a) Q"
  by (cases x) auto

lemma shown_observed:
  "attains P (apply_frame tx frame) (\<lambda>_. shown c) \<Longrightarrow> attains P (apply_observed_frame tx frame) (\<lambda>_. shown c)"
  unfolding apply_observed_frame_def by (erule attains_mbind) (intro shown_intros, simp)

text \<open>What an answer becomes on the screen when text is already there.\<close>

definition merged :: "pystr \<Rightarrow> pystr \<Rightarrow> pystr" where
  "merged current candidate = (if prefix candidate current then current else candidate)"

lemma merged_simps [simp]: "merged [] a = a" "merged c c = c" "merged c [] = c"
  by (simp_all add: merged_def)

lemma shown_offer: "attains (shown c) (offer_answer a) (\<lambda>_. shown (merged c a))"
  by (rule attainsI) (auto simp: offer_answer_def apply_state_answer_def merged_def)

lemma shown_response:
  assumes "listed (of_payload frame)"
  shows "attains (shown c) (apply_response tx frame ph b) (\<lambda>_. shown c)"
  using present_listed[OF assms] unfolding apply_response_def present_activity_frame_def
  by (intro shown_intros attains_then[OF shown_remember]) (auto split: option.splits)

lemma shown_delta:
  "attains (shown c) (apply_delta rp payload) (\<lambda>_. shown (c @ py_str rp (get_or payload (lit ''content'') (PStr []))))"
  by (rule attainsI) (simp add: apply_delta_def Let_def)

lemma shown_activity:
  assumes "listed (of_payload frame)"
  shows "attains (shown c) (apply_activity tx frame) (\<lambda>_. shown c)"
proof -
  let ?phase = "py_str (tx_repr tx) (get_or (of_payload frame) (lit ''phase'') (PStr []))"
  have "attains (shown c)
      (if of_type frame = lit ''execution.phase.changed'' then
         (if ?phase = [] then mret out
          else mbind (mput (\<lambda>ob. ob\<lparr>ob_phase := ?phase,
                 ob_cancel_requested := (?phase = lit ''cancel_requested'' \<or> ob_cancel_requested ob)\<rparr>)) (\<lambda>_.
               mbind (mget (\<lambda>ob. phase_outcome ?phase ob out)) mret))
       else if of_type frame = lit ''execution.cancel_requested'' then
         mbind (mput (\<lambda>ob. ob\<lparr>ob_phase := lit ''cancel_requested'', ob_cancel_requested := True\<rparr>)) (\<lambda>_. mret out)
       else mret out) (\<lambda>_. shown c)" for out
    by (auto intro!: shown_intros)
  then show ?thesis
    using present_listed[OF assms] unfolding apply_activity_def present_activity_frame_def Let_def
    by (intro shown_intros attains_then[OF shown_remember] attains_then)
qed

text \<open>The event types that reach each branch.\<close>

lemma TERMINAL_EVENTS_lookup:
  "map_of TERMINAL_EVENTS t =
     (if t = event_value EXECUTION_COMPLETED then Some (lit ''completed'')
      else if t = event_value EXECUTION_FAILED then Some (lit ''failed'')
      else if t = event_value EXECUTION_CANCELLED then Some (lit ''cancelled'') else None)"
  by (simp add: TERMINAL_EVENTS_def event_value.simps)

definition terminal_text :: "repr \<Rightarrow> pystr \<Rightarrow> pdict \<Rightarrow> pystr \<Rightarrow> pystr" where
  "terminal_text rp type payload c =
     (if type = event_value EXECUTION_COMPLETED then merged c (py_str rp (get_or payload (lit ''answer'') (PStr [])))
      else if type = event_value EXECUTION_CANCELLED \<and> truthy (dget payload (lit ''partial_answer''))
      then merged c (py_str rp (dget payload (lit ''partial_answer''))) else c)"

lemma shown_offer_if: "attains (shown c) (if b then offer_answer a else mret False) (\<lambda>_. shown (if b then merged c a else c))"
  by (rule shown_if[OF shown_offer shown_mret])

lemma shown_terminal_payload:
  "attains (shown c) (terminal_payload rp type payload out) (\<lambda>_. shown (terminal_text rp type payload c))"
proof -
  let ?answer = "py_str rp (get_or payload (lit ''answer'') (PStr []))"
  consider "type = lit ''execution.completed''" | "type = lit ''execution.failed''" | "type = lit ''execution.cancelled''"
    | "type \<noteq> lit ''execution.completed''" "type \<noteq> lit ''execution.failed''" "type \<noteq> lit ''execution.cancelled''" by blast
  then show ?thesis
  proof cases
    case 1
    have t: "terminal_text rp type payload c = (if ?answer \<noteq> [] then merged c ?answer else c)"
      using 1 by (simp add: terminal_text_def event_value.simps)
    have "terminal_payload rp type payload out = mbind (if ?answer \<noteq> [] then offer_answer ?answer else mret False) (\<lambda>changed.
        mbind (mput (\<lambda>ob. case dget payload (lit ''result'') of PDict r \<Rightarrow> ob\<lparr>ob_result := Some r\<rparr> | _ \<Rightarrow> ob)) (\<lambda>_.
          mret (out\<lparr>fo_changed := changed, fo_started := True, fo_completed := True\<rparr>)))"
      using 1 unfolding terminal_payload_def Let_def by (simp only: if_P refl)
    then show ?thesis
      unfolding t by (simp only:) (rule attains_mbind[OF shown_offer_if], intro shown_intros, simp split: pyval.splits)
  next
    case 2
    then show ?thesis by (simp add: terminal_payload_def terminal_text_def event_value.simps) (intro shown_intros, simp)
  next
    case 3
    have t: "terminal_text rp type payload c =
        (if truthy (dget payload (lit ''partial_answer'')) then merged c (py_str rp (dget payload (lit ''partial_answer''))) else c)"
      using 3 by (simp add: terminal_text_def event_value.simps)
    have "terminal_payload rp type payload out = mbind (if truthy (dget payload (lit ''partial_answer''))
        then offer_answer (py_str rp (dget payload (lit ''partial_answer''))) else mret False)
        (\<lambda>changed. mret (out\<lparr>fo_changed := changed\<rparr>))"
      using 3 by (simp add: terminal_payload_def)
    then show ?thesis unfolding t by (simp only:) (rule attains_mbind[OF shown_offer_if shown_mret])
  next
    case 4
    then show ?thesis by (simp add: terminal_payload_def terminal_text_def event_value.simps shown_mret)
  qed
qed

lemma shown_terminal:
  assumes "listed (of_payload frame)"
  shows "attains (shown c) (apply_terminal tx frame status)
    (\<lambda>_. shown (terminal_text (tx_repr tx) (of_type frame) (of_payload frame) c))"
proof -
  have "attains (shown d) (mbind (remember (present_activity_frame tx frame)) (\<lambda>new. mret (f new))) (\<lambda>_. shown d)"
    for d and f :: "activity_presentation list \<Rightarrow> frame_outcome"
    using present_listed[OF assms] unfolding present_activity_frame_def
    by (intro attains_then[OF shown_remember] shown_mret)
  then show ?thesis
    unfolding apply_terminal_def
    by (intro attains_then[OF shown_mget] attains_then[OF shown_mput] attains_mbind[OF shown_terminal_payload]) simp_all
qed

section \<open>Frames of published events\<close>

text \<open>A dictionary as Python has it, its keys distinct, whose lists are lists.\<close>

definition plain :: "pdict \<Rightarrow> bool" where
  "plain d \<longleftrightarrow> listed d \<and> distinct (map fst d)"

text \<open>The observer's frame of a published event, as the interface reads it.\<close>

definition item_frame :: "pystr \<Rightarrow> stream_item \<Rightarrow> observed_frame" where
  "item_frame eid item = (case item of (n, t, p) \<Rightarrow>
     \<lparr>of_execution_id = eid, of_type = t, of_sequence = Some n,
      of_payload = dmerge [(lit ''execution_id'', PStr eid), (lit ''sequence'', PInt n)] p\<rparr>)"

lemma item_frame_simps [simp]:
  "of_type (item_frame eid (n, t, p)) = t" "of_sequence (item_frame eid (n, t, p)) = Some n"
  by (simp_all add: item_frame_def)

lemma item_frame_get:
  "distinct (map fst p) \<Longrightarrow> k \<noteq> lit ''execution_id'' \<Longrightarrow> k \<noteq> lit ''sequence'' \<Longrightarrow>
     dget (of_payload (item_frame eid (n, t, p))) k = dget p k"
  by (simp add: item_frame_def dget_def map_of_dmerge_distinct split: option.splits)

lemma item_frame_listed: "plain p \<Longrightarrow> listed (of_payload (item_frame eid (n, t, p)))"
  by (simp add: plain_def listed_def item_frame_get)

lemma shown_item:
  assumes "plain p" and "\<not> rewrites_answer (n, t, p)" and "t \<noteq> lit ''execution.state''"
  shows "attains (shown c) (apply_observed_frame tx (item_frame eid (n, t, p)))
    (\<lambda>_. shown (c @ delta_text (tx_repr tx) (n, t, p)))"
proof -
  let ?f = "item_frame eid (n, t, p)" and ?c = "c @ delta_text (tx_repr tx) (n, t, p)"
  note l = item_frame_listed[OF assms(1), of eid n t]
  have "attains (shown c) (apply_frame tx ?f) (\<lambda>_. shown ?c)"
  proof (cases "t = event_value ASSISTANT_DELTA")
    case True
    then have "apply_frame tx ?f = apply_delta (tx_repr tx) (of_payload ?f)"
      by (simp add: apply_frame_def classify_frame_def TERMINAL_EVENTS_def TRANSPORT_EVENTS_def RESPONSE_EVENTS_def event_value.simps)
    moreover have "?c = c @ py_str (tx_repr tx) (get_or (of_payload ?f) (lit ''content'') (PStr []))"
      using assms(1) True by (simp add: delta_text_def item_frame_get plain_def)
    ultimately show ?thesis using shown_delta by metis
  next
    case False
    then have c: "?c = c" by (simp add: delta_text_def)
    have "attains (shown c) (apply_terminal tx ?f st) (\<lambda>_. shown c)" for st
      using shown_terminal[OF l, of c tx st] assms(2) by (simp add: rewrites_answer_def terminal_text_def)
    then show ?thesis
      unfolding apply_frame_def Let_def c
      using False assms(3)
      by (intro attains_if attains_option shown_response[OF l] shown_activity[OF l] shown_intros)
        (simp_all add: classify_frame_def event_value.simps split: if_splits)
  qed
  then show ?thesis by (rule shown_observed)
qed

lemma watch_items:
  assumes "list_all (\<lambda>(n, t, p). plain p \<and> t \<noteq> lit ''execution.state'') es" and "list_all (\<lambda>e. \<not> rewrites_answer e) es"
  shows "attains (shown c) (watch tx (map (item_frame eid) es)) (\<lambda>_. shown (c @ concat (map (delta_text (tx_repr tx)) es)))"
  using assms
proof (induction es arbitrary: c)
  case Nil
  then show ?case by (simp add: watch_def attains_def)
next
  case (Cons e es)
  obtain n t p where e: "e = (n, t, p)" by (cases e)
  have "plain p" "\<not> rewrites_answer (n, t, p)" "t \<noteq> lit ''execution.state''" using Cons.prems by (simp_all add: e)
  then have 1: "attains (shown c) (mbind (apply_observed_frame tx (item_frame eid e)) (\<lambda>_. mret ()))
      (\<lambda>_. shown (c @ delta_text (tx_repr tx) e))"
    unfolding e by (intro attains_mbind[OF shown_item] shown_mret)
  show ?case
    using attains_mbind[OF 1 Cons.IH] Cons.prems by (simp add: watch_def)
qed

section \<open>Attaching to a projection\<close>

definition acts_plain :: "pdict \<Rightarrow> bool" where
  "acts_plain s \<longleftrightarrow> (\<exists>acts. dget s (lit ''activities'') = PList acts
     \<and> (\<forall>d. PDict d \<in> set acts \<longrightarrow> (\<exists>q. dget d (lit ''payload'') = PDict q \<and> listed q)))"

definition unanswered :: "pdict \<Rightarrow> bool" where
  "unanswered s \<longleftrightarrow> dget s (lit ''answer'') = PNone \<and> (\<exists>t. dget s (lit ''partial_answer'') = PStr t)"

lemma reduce_event_keeps_answer:
  assumes "reduce_event rp t p s = Inr s'" and "t \<noteq> event_value EXECUTION_COMPLETED"
  shows "dget s' (lit ''answer'') = dget s (lit ''answer'')"
proof (cases "t \<in> range event_value")
  case False
  then have "reduce_event rp t p s = Inr s" by (auto simp: reduce_event_def)
  with assms show ?thesis by simp
next
  case True
  then obtain e where "t = event_value e" by auto
  with assms show ?thesis
    by (cases e) (auto simp: reduce_event_def Let_def clear_active_def tools_frame dict_simps)
qed

lemma listed_dkeep: "listed p \<Longrightarrow> listed (dkeep f p)"
  by (auto simp: listed_def dict_simps)

lemma reduce_projection_plain:
  assumes "reduce_projection rp t p n m s = Inr s'" and "listed p" and "acts_plain s"
  shows "acts_plain s'"
proof -
  from assms(1) obtain s1 where r: "reduce_event rp t p (stamp n t p s) = Inr s1"
    and a: "append_activity m n t p s1 = Inr s'" by (rule reduce_projection_cases)
  have "dget s1 (lit ''activities'') = dget s (lit ''activities'')"
    using reduce_event_sequence[OF r] by (simp add: dict_simps)
  with assms(3) obtain acts where acts: "dget s1 (lit ''activities'') = PList acts"
    and pl: "\<And>d. PDict d \<in> set acts \<Longrightarrow> \<exists>q. dget d (lit ''payload'') = PDict q \<and> listed q"
    unfolding acts_plain_def by metis
  have new: "\<exists>q. dget d (lit ''payload'') = PDict q \<and> listed q" if "PDict d = activity_record n t p" for d
    using that listed_dkeep[OF assms(2)] by (simp add: activity_record_def dict_simps)
  have tail: "set (py_tail m xs) \<subseteq> set xs" for xs :: "pyval list" by (simp add: py_tail_def set_last_n)
  show ?thesis
  proof (cases "t = event_value ASSISTANT_DELTA")
    case True
    then show ?thesis using a acts pl by (auto simp: append_activity_def acts_plain_def)
  next
    case False
    then have "dget s' (lit ''activities'') = PList (py_tail m (acts @ [activity_record n t p]))"
      using a acts by (auto simp: append_activity_def dict_simps)
    moreover have "\<exists>q. dget d (lit ''payload'') = PDict q \<and> listed q"
      if "PDict d \<in> set (py_tail m (acts @ [activity_record n t p]))" for d
      using subsetD[OF tail that] pl new by auto
    ultimately show ?thesis unfolding acts_plain_def by blast
  qed
qed

lemma reduce_projection_unanswered:
  assumes "reduce_projection rp t p n m s = Inr s'" and "t \<noteq> event_value EXECUTION_COMPLETED"
  shows "dget s' (lit ''answer'') = dget s (lit ''answer'')"
proof -
  from assms(1) obtain s1 where r: "reduce_event rp t p (stamp n t p s) = Inr s1"
    and a: "append_activity m n t p s1 = Inr s'" by (rule reduce_projection_cases)
  show ?thesis using reduce_event_keeps_answer[OF r assms(2)] append_activity_frame[OF a] by (simp add: dict_simps)
qed

lemma shown_state:
  assumes "acts_plain s" and "dget s (lit ''answer'') = PNone" and "dget s (lit ''partial_answer'') = PStr t"
  shows "attains (shown []) (apply_observed_frame tx (observed (live_frame eid high seen s))) (\<lambda>_. shown t)"
proof -
  let ?payload = "fr_payload (live_frame eid high seen s)"
  have g: "dget ?payload k = dget s k" if "k \<in> {lit ''activities'', lit ''answer'', lit ''partial_answer''}" for k
    using that unfolding live_frame_def state_frame_def put_reattached_def public_projection_def
    by (auto simp: dict_simps PROJECTION_KEYS_def split: option.splits)
  have cand: "get_or ?payload (lit ''partial_answer'') (dget ?payload (lit ''answer'')) = (if t = [] then PNone else PStr t)"
    by (simp add: g assms(2,3) py_or_def)
  obtain acts where acts: "dget ?payload (lit ''activities'') = PList acts"
    and pl: "\<And>d. PDict d \<in> set acts \<Longrightarrow> \<exists>q. dget d (lit ''payload'') = PDict q \<and> listed q"
    using assms(1) g[of "lit ''activities''"] unfolding acts_plain_def by auto
  have recs: "attains (shown t) (remember_records tx acts) (\<lambda>_. shown t)"
  proof (rule shown_records)
    fix d
    assume "PDict d \<in> set acts"
    with pl obtain q where "dget d (lit ''payload'') = PDict q" "listed q" by blast
    then show "\<exists>a. present_activity_record tx d = Inr a"
      unfolding present_activity_record_def using present_listed by simp
  qed
  have offer: "attains (shown []) (if truthy (if t = [] then PNone else PStr t)
      then offer_answer (py_str (tx_repr tx) (if t = [] then PNone else PStr t)) else mret False) (\<lambda>_. shown t)"
    using shown_offer[of "[]" t] by (simp add: shown_mret)
  have "attains (shown []) (apply_state tx ?payload) (\<lambda>_. shown t)"
    unfolding apply_state_def Let_def cand acts pyval.case
    by (intro attains_then[OF shown_mget] attains_then[OF shown_mput] attains_mbind[OF offer] attains_then[OF recs] shown_mret)
      (simp_all split: pyval.splits)
  moreover have "apply_frame tx (observed (live_frame eid high seen s)) = apply_state tx ?payload"
    by (simp add: apply_frame_def classify_frame_def observed_def live_frame_def state_frame_def EXECUTION_STATE_FRAME_def)
  ultimately show ?thesis by (intro shown_observed) simp
qed

lemma reduce_all_attachable:
  assumes "reduce_all rp m (initial_projection rp eid None) es = Inr s" and "list_all (\<lambda>(n, t, p). plain p) es"
    and "list_all (\<lambda>e. \<not> rewrites_answer e) es"
  shows "acts_plain s \<and> dget s (lit ''answer'') = PNone"
proof (rule reduce_all_invariant[OF assms(1), of "\<lambda>s. acts_plain s \<and> dget s (lit ''answer'') = PNone"])
  show "acts_plain (initial_projection rp eid None) \<and> dget (initial_projection rp eid None) (lit ''answer'') = PNone"
    by (simp add: acts_plain_def initial_projection_def Let_def dict_simps)
next
  fix n t p s s'
  assume e: "(n, t, p) \<in> set es" and r: "reduce_projection rp t p n m s = Inr s'"
    and s: "acts_plain s \<and> dget s (lit ''answer'') = PNone"
  have "listed p" "\<not> rewrites_answer (n, t, p)" using e assms(2,3) by (auto simp: list_all_iff plain_def)
  then show "acts_plain s' \<and> dget s' (lit ''answer'') = PNone"
    using reduce_projection_plain[OF r] reduce_projection_unanswered[OF r] s by (auto simp: rewrites_answer_def)
qed

lemma shown_last:
  assumes "plain p" and "rewrites_answer (n, t, p)"
  shows "attains (shown c) (apply_observed_frame tx (item_frame eid (n, t, p))) (\<lambda>_. shown (terminal_text (tx_repr tx) t p c))"
proof -
  let ?f = "item_frame eid (n, t, p)"
  obtain st where "map_of TERMINAL_EVENTS t = Some st"
    using assms(2) by (auto simp: rewrites_answer_def TERMINAL_EVENTS_lookup)
  then have "apply_frame tx ?f = apply_terminal tx ?f st"
    using assms(2) by (auto simp: rewrites_answer_def apply_frame_def classify_frame_def TERMINAL_EVENTS_def event_value.simps)
  moreover have "terminal_text (tx_repr tx) t (of_payload ?f) c = terminal_text (tx_repr tx) t p c"
    using assms(1) by (simp add: terminal_text_def item_frame_get plain_def)
  ultimately have "attains (shown c) (apply_frame tx ?f) (\<lambda>_. shown (terminal_text (tx_repr tx) t p c))"
    using shown_terminal[OF item_frame_listed[OF assms(1)], of c tx eid n t st] by simp
  then show ?thesis by (rule shown_observed)
qed

definition publishable :: "stream_item \<Rightarrow> bool" where
  "publishable item \<longleftrightarrow> (case item of (n, t, p) \<Rightarrow> plain p \<and> payload_ok t p \<and> t \<noteq> lit ''execution.state'')"

definition settled :: "repr \<Rightarrow> stream_item list \<Rightarrow> pystr \<Rightarrow> pystr" where
  "settled rp fin c = fold (\<lambda>(n, t, p). terminal_text rp t p) fin c"

lemma watch_last:
  "list_all publishable fin \<Longrightarrow> list_all rewrites_answer fin \<Longrightarrow>
     attains (shown c) (watch tx (map (item_frame eid) fin)) (\<lambda>_. shown (settled (tx_repr tx) fin c))"
proof (induction fin arbitrary: c)
  case Nil
  then show ?case by (simp add: watch_def settled_def attains_def)
next
  case (Cons e es)
  obtain n t p where e: "e = (n, t, p)" by (cases e)
  have "plain p" "rewrites_answer (n, t, p)" using Cons.prems by (simp_all add: e publishable_def)
  then have 1: "attains (shown c) (mbind (apply_observed_frame tx (item_frame eid e)) (\<lambda>_. mret ()))
      (\<lambda>_. shown (terminal_text (tx_repr tx) t p c))"
    unfolding e by (intro attains_mbind[OF shown_last] shown_mret)
  show ?case
    using attains_mbind[OF 1 Cons.IH] Cons.prems by (simp add: watch_def settled_def e)
qed

lemma mfor_append: "mfor (xs @ ys) f = mbind (mfor xs f) (\<lambda>_. mfor ys f)"
  by (induction xs) (simp_all add: mbind_assoc, simp add: mbind_def mret_def)

lemma attached_shows:
  assumes "list_all publishable (es1 @ es2 @ fin)" and "list_all (\<lambda>e. \<not> rewrites_answer e) (es1 @ es2)"
    and "list_all rewrites_answer fin"
  shows "\<exists>p1 p2 ob. reduce_all (tx_repr tx) m (initial_projection (tx_repr tx) eid None) es1 = Inr p1
    \<and> reduce_all (tx_repr tx) m (initial_projection (tx_repr tx) eid None) (es1 @ es2) = Inr p2
    \<and> watch tx (observed (live_frame eid high seen p1) # map (item_frame eid) (es2 @ fin)) (new_observation_state eid) = (Inr (), ob)
    \<and> ob_content ob = settled (tx_repr tx) fin (answer_text (tx_repr tx) p2)"
proof -
  let ?rp = "tx_repr tx" and ?p0 = "initial_projection (tx_repr tx) eid None"
  have pay: "list_all (\<lambda>(n, t, p). payload_ok t p) es" "list_all (\<lambda>(n, t, p). plain p \<and> t \<noteq> lit ''execution.state'') es"
      "list_all (\<lambda>(n, t, p). plain p) es" if "list_all publishable es" for es
    using that by (auto simp: list_all_iff publishable_def)
  have ok: "list_all publishable es1" "list_all publishable es2" "list_all publishable fin"
    "list_all (\<lambda>e. \<not> rewrites_answer e) es1" "list_all (\<lambda>e. \<not> rewrites_answer e) es2" using assms(1,2) by simp_all
  obtain p1 where p1: "reduce_all ?rp m ?p0 es1 = Inr p1" and wf: "proj_wf p1"
    using reduce_all_wf[OF initial_projection_wf pay(1)[OF ok(1)]] by blast
  obtain p2 where p2: "reduce_all ?rp m p1 es2 = Inr p2" using reduce_all_wf[OF wf pay(1)[OF ok(2)]] by blast
  obtain t where t: "dget p1 (lit ''partial_answer'') = PStr t" using wf by (auto simp: proj_wf_def)
  have start: "attains (shown []) (mbind (apply_observed_frame tx (observed (live_frame eid high seen p1))) (\<lambda>_. mret ())) (\<lambda>_. shown t)"
    using reduce_all_attachable[OF p1 pay(3)[OF ok(1)] ok(4)] t by (intro attains_mbind[OF shown_state shown_mret]) simp_all
  have t2: "answer_text ?rp p2 = t @ concat (map (delta_text ?rp) es2)"
    using deltas_concatenate[OF p2 ok(5)] t by (simp add: answer_text_def)
  have "attains (shown t) (watch tx (map (item_frame eid) (es2 @ fin))) (\<lambda>_. shown (settled ?rp fin (answer_text ?rp p2)))"
    using attains_mbind[OF watch_items[OF pay(2)[OF ok(2)] ok(5)] watch_last[OF ok(3) assms(3)]]
    unfolding t2 by (simp add: watch_def mfor_append)
  then have "attains (shown []) (watch tx (observed (live_frame eid high seen p1) # map (item_frame eid) (es2 @ fin)))
      (\<lambda>_. shown (settled ?rp fin (answer_text ?rp p2)))"
    unfolding watch_def mfor.simps by (rule attains_mbind[OF start])
  moreover have "shown [] (new_observation_state eid)" by (simp add: new_observation_state_def)
  ultimately obtain u ob where "watch tx (observed (live_frame eid high seen p1) # map (item_frame eid) (es2 @ fin))
      (new_observation_state eid) = (Inr u, ob)" "shown (settled ?rp fin (answer_text ?rp p2)) ob" by (rule attainsD)
  then show ?thesis using p1 p2 by (intro exI[of _ p1] exI[of _ p2] exI[of _ ob]) (simp add: reduce_all_append)
qed

text \<open>
  C26. Wherever the interface attaches, it shows the same text. Whatever events a run has published before and after the
  interface attaches, none of which replaces the answer, the interface that reads the projection's state frame and then
  the frames of the later events shows exactly the partial answer of the projection of all of them; after the final
  event, completion or cancellation, it shows the final text, except that it keeps what is already on the screen when
  the final text is a beginning of it. It never raises on the way.
\<close>

theorem reattached_interface_agrees:
  assumes "list_all publishable (es1 @ es2 @ fin)" and "list_all (\<lambda>e. \<not> rewrites_answer e) (es1 @ es2)"
    and "list_all rewrites_answer fin"
  shows "\<exists>p1 p2 ob. reduce_all (tx_repr tx) m (initial_projection (tx_repr tx) eid None) es1 = Inr p1
    \<and> reduce_all (tx_repr tx) m (initial_projection (tx_repr tx) eid None) (es1 @ es2) = Inr p2
    \<and> watch tx (observed (live_frame eid high seen p1) # map (item_frame eid) (es2 @ fin)) (new_observation_state eid) = (Inr (), ob)
    \<and> ob_content ob = settled (tx_repr tx) fin (answer_text (tx_repr tx) p2)"
  using attached_shows[OF assms] .

abbreviation one_delta :: stream_item where
  "one_delta \<equiv> (1, event_value ASSISTANT_DELTA, [(lit ''content'', PStr (lit ''hel''))])"

abbreviation the_answer :: stream_item where
  "the_answer \<equiv> (2, event_value EXECUTION_COMPLETED, [(lit ''answer'', PStr (lit ''hello''))])"

theorem reattached_interface_agrees_witness:
  "\<exists>p1 ob. watch (\<lparr>tx_repr = (\<lambda>_. []), tx_float = (\<lambda>_. []), tx_read = (\<lambda>_. 0)\<rparr>)
       (observed (live_frame (lit ''e'') 1 None p1) # map (item_frame (lit ''e'')) [the_answer])
       (new_observation_state (lit ''e'')) = (Inr (), ob)
     \<and> ob_content ob = lit ''hello''"
proof -
  let ?tx = "\<lparr>tx_repr = (\<lambda>_. []), tx_float = (\<lambda>_. []), tx_read = (\<lambda>_. 0)\<rparr>"
  have ok: "list_all publishable ([one_delta] @ [] @ [the_answer])"
    by (simp add: publishable_def plain_def listed_def payload_ok_def dict_simps event_value.simps)
  have fin: "list_all rewrites_answer [the_answer]" and run: "list_all (\<lambda>e. \<not> rewrites_answer e) ([one_delta] @ [])"
    by (simp_all add: rewrites_answer_def)
  from reattached_interface_agrees[OF ok run fin, of ?tx 5 "lit ''e''" 1 None] obtain p1 p2 ob where
    p2: "reduce_all (tx_repr ?tx) 5 (initial_projection (tx_repr ?tx) (lit ''e'') None) ([one_delta] @ []) = Inr p2"
    and w: "watch ?tx (observed (live_frame (lit ''e'') 1 None p1) # map (item_frame (lit ''e'')) ([] @ [the_answer]))
       (new_observation_state (lit ''e'')) = (Inr (), ob)"
    and c: "ob_content ob = settled (tx_repr ?tx) [the_answer] (answer_text (tx_repr ?tx) p2)" by blast
  have "answer_text (tx_repr ?tx) p2 = lit ''hel''"
    using deltas_concatenate[OF p2 run]
    by (simp add: answer_text_def initial_projection_def Let_def dict_simps delta_text_def)
  then have "ob_content ob = lit ''hello''"
    unfolding c by (simp add: settled_def terminal_text_def merged_def dict_simps lit_def)
  then show ?thesis using w by (intro exI[of _ p1] exI[of _ ob]) simp
qed

section \<open>Activities\<close>

definition activity_sequences :: "observation \<Rightarrow> int list" where
  "activity_sequences ob = concat (map (\<lambda>a. case ap_sequence a of None \<Rightarrow> [] | Some n \<Rightarrow> [n]) (ob_activities ob))"

definition once :: "observation \<Rightarrow> bool" where
  "once ob \<longleftrightarrow> distinct (activity_sequences ob) \<and> set (activity_sequences ob) = ob_seen_activity_sequences ob"

lemma once_remember: "keeps once (remember presented)"
  by (rule keepsI)
    (auto simp: remember_def remember_activity_def once_def activity_sequences_def mbind_def
      split: option.splits sum.splits if_splits)

lemma once_mput:
  "(\<And>ob. ob_activities (u ob) = ob_activities ob \<and> ob_seen_activity_sequences (u ob) = ob_seen_activity_sequences ob)
     \<Longrightarrow> keeps once (mput u)"
  by (rule keeps_mput) (simp add: once_def activity_sequences_def)

lemma once_offer: "keeps once (offer_answer a)"
  by (rule keepsI) (auto simp: offer_answer_def apply_state_answer_def once_def activity_sequences_def split: if_splits)

lemma once_records: "keeps once (remember_records tx vs)"
proof (induction vs)
  case (Cons v vs)
  have "keeps once (case v of PDict d \<Rightarrow> remember (present_activity_record tx d) | _ \<Rightarrow> mret [])"
    by (cases v) (simp_all only: pyval.case once_remember keeps_mret)
  with Cons show ?case unfolding remember_records.simps by (intro keeps_intros)
next
  case Nil
  show ?case by (rule keepsI) simp
qed

lemmas once_rules = keeps_intros once_remember once_offer once_records once_mput

lemma once_frame: "keeps once (apply_frame tx frame)"
proof -
  have state: "keeps once (apply_state tx d)" for d
    unfolding apply_state_def Let_def by (intro once_rules) (auto intro: once_rules split: pyval.splits)
  have delta: "keeps once (apply_delta rp d)" for rp d
    unfolding apply_delta_def Let_def by (intro once_rules) simp
  have terminal: "keeps once (apply_terminal tx f st)" for f st
    unfolding apply_terminal_def terminal_payload_def Let_def by (intro once_rules) (auto split: pyval.splits)
  have response: "keeps once (apply_response tx f ph b)" for f ph b
    unfolding apply_response_def by (intro once_rules) (simp split: option.splits)
  have act: "keeps once (apply_activity tx f)" for f
    unfolding apply_activity_def Let_def by (intro once_rules) simp_all
  show ?thesis
    unfolding apply_frame_def Let_def by (intro once_rules state delta terminal response act) simp
qed

text \<open>
  No event is listed twice: whatever frames the interface reads, state frames that repeat activities it already has
  included, and wherever it stops, no two of the activities it lists have the same sequence number.
\<close>

theorem activities_listed_once:
  "distinct (activity_sequences (snd (watch tx frames (new_observation_state eid))))"
proof -
  have "once (new_observation_state eid)" by (simp add: once_def activity_sequences_def new_observation_state_def)
  moreover have k: "keeps once (watch tx frames)"
    unfolding watch_def apply_observed_frame_def by (intro once_rules once_frame) simp
  ultimately have "once (snd (watch tx frames (new_observation_state eid)))" using keepsD[OF k] by (metis prod.collapse)
  then show ?thesis by (simp add: once_def)
qed

end
