(* ===== verification/Runtime_Stream.thy ===== *)
theory Runtime_Stream
  imports Runtime_Props Observation_Props
begin

text \<open>
  What the user sees streamed is the answer. The events of a program are observed through a view of its world
  (locale \<open>event_view\<close>); tracing any program gives such a view.
\<close>

section \<open>Stripped answers\<close>

lemma strip_blank: "py_strip x = [] \<longleftrightarrow> (\<forall>c \<in> set x. is_space c)"
proof
  assume "py_strip x = []"
  then have "dropWhile is_space (rev (py_lstrip x)) = []" by (simp add: py_strip_def py_rstrip_def strip_end_def)
  then have "\<forall>c \<in> set (py_lstrip x). is_space c" by (simp add: dropWhile_eq_Nil_conv)
  then have "py_lstrip x = []" using py_lstrip_hd[of x] by (cases "py_lstrip x") auto
  then show "\<forall>c \<in> set x. is_space c" by (simp add: py_lstrip_def dropWhile_eq_Nil_conv)
next
  assume "\<forall>c \<in> set x. is_space c"
  then have "py_lstrip x = []" by (simp add: py_lstrip_def dropWhile_eq_Nil_conv)
  then show "py_strip x = []" by (simp add: py_strip_def py_rstrip_def strip_end_def)
qed

lemma strip_after_blank:
  assumes "py_strip x = []" and "py_strip f = f" and "f \<noteq> []"
  shows "py_strip (x @ f) = f"
proof -
  have "\<not> is_space (hd f)" using py_strip_edges[of f] assms(2,3) by auto
  then have "py_lstrip (x @ f) = py_lstrip f"
    using assms(1) unfolding strip_blank py_lstrip_def by simp
  then show ?thesis using assms(2) by (simp add: py_strip_def)
qed

section \<open>Watching the events of a program\<close>

definition delta_of :: "exec_event \<Rightarrow> pystr list" where
  "delta_of e =
     (if ev_type e = ASSISTANT_DELTA then (case dget (ev_payload e) (lit ''content'') of PStr s \<Rightarrow> [s] | _ \<Rightarrow> []) else [])"

definition deltas_of :: "exec_event list \<Rightarrow> pystr list" where
  "deltas_of es = concat (map delta_of es)"

text \<open>
  An event of the program itself: not a final one, which the runner publishes, and with a payload of the shape the
  projection and the interface read.
\<close>

definition clean :: "event_type \<Rightarrow> pdict \<Rightarrow> bool" where
  "clean type payload \<longleftrightarrow> type \<noteq> EXECUTION_COMPLETED \<and> type \<noteq> EXECUTION_CANCELLED \<and> plain payload \<and> payload_ok (event_value type) payload
     \<and> (type = ASSISTANT_DELTA \<longrightarrow> (\<exists>s. dget payload (lit ''content'') = PStr s))"

abbreviation clean_event :: "exec_event \<Rightarrow> bool" where
  "clean_event e \<equiv> clean (ev_type e) (ev_payload e)"

definition silent :: "exec_event \<Rightarrow> bool" where
  "silent e \<longleftrightarrow> ev_type e \<noteq> ASSISTANT_DELTA \<and> ev_type e \<noteq> ANSWER_STARTED \<and> clean_event e"

lemmas clean_simps = clean_def plain_def listed_def payload_ok_def dict_simps snapshot_payload_def skills_payload_def
  tool_started_payload_def tool_result_payload_def

text \<open>Only the sink adds events; the model, the tools, the skills and the memory do not.\<close>

locale event_view =
  fixes pg :: "'v agent_program" and events :: "'v \<Rightarrow> exec_event list"
  assumes emitted: "pg_emit pg e w = (Inr u, w') \<Longrightarrow> events w' = events w @ [e]"
    and not_emitted: "pg_emit pg e w = (Inl x, w') \<Longrightarrow> events w' = events w"
    and llm_quiet: "keeps (\<lambda>w. events w = E) (li_invoke (pg_llm pg) ms ts)"
      "li_stream (pg_llm pg) ms w = (c, w') \<Longrightarrow> events w' = events w"
    and tool_quiet: "tool_get (pg_tools pg) name = Inr t \<Longrightarrow> keeps (\<lambda>w. events w = E) (tl_invoke t args)"
    and skill_quiet: "skill_get (km_skills (pg_manager pg)) name = Inr sk \<Longrightarrow> keeps (\<lambda>w. events w = E) (sk_load sk)"
    and summarize_quiet: "keeps (\<lambda>w. events w = E) (km_summarize (pg_manager pg) prev ms q)"
    and latest_quiet: "keeps (\<lambda>w. events w = E) (km_latest (pg_manager pg) sid)"
    and create_quiet: "keeps (\<lambda>w. events w = E) (km_create (pg_manager pg) sid eid reason su n)"
    and append_quiet: "keeps (\<lambda>w. events w = E) (km_append (pg_manager pg) sid eid k txt d)"
    and search_quiet: "keeps (\<lambda>w. events w = E) (rt_search (km_retriever (pg_manager pg)) sid q n)"
begin

definition since :: "exec_event list \<Rightarrow> 'v \<Rightarrow> bool" where
  "since E w \<longleftrightarrow> (\<exists>es. events w = E @ es \<and> (\<forall>e \<in> set es. silent e))"

lemma since_quiet: "(\<And>E. keeps (\<lambda>w. events w = E) m) \<Longrightarrow> keeps (since E) m"
proof (rule keepsI)
  fix w r w'
  assume q: "\<And>E. keeps (\<lambda>w. events w = E) m" and s: "since E w" and m: "m w = (r, w')"
  have "events w' = events w" using keepsD[OF q[of "events w"] refl m] .
  then show "since E w'" using s by (simp add: since_def)
qed

lemma since_emit: "type \<noteq> ASSISTANT_DELTA \<Longrightarrow> type \<noteq> ANSWER_STARTED \<Longrightarrow> clean type payload \<Longrightarrow> keeps (since E) (emit_event pg eid type payload)"
proof (rule keepsI)
  fix w r w'
  assume t: "type \<noteq> ASSISTANT_DELTA" "type \<noteq> ANSWER_STARTED" "clean type payload" and s: "since E w"
    and m: "emit_event pg eid type payload w = (r, w')"
  let ?e = "\<lparr>ev_execution_id = eid, ev_type = type, ev_payload = payload, ev_created_at = pg_now pg w\<rparr>"
  from m have "pg_emit pg ?e w = (r, w')" by (simp add: emit_event_def)
  then have "events w' = events w @ (case r of Inl x \<Rightarrow> [] | Inr u \<Rightarrow> [?e])"
    using emitted[of ?e w _ w'] not_emitted[of ?e w _ w'] by (cases r) auto
  moreover have "silent ?e" using t by (simp add: silent_def)
  ultimately show "since E w'" using s by (auto simp: since_def split: sum.splits)
qed

lemma since_phase: "keeps (since E) (emit_phase pg eid p)"
  unfolding emit_phase_def by (rule since_emit) (simp_all add: clean_simps)

lemmas memory_quiet = summarize_quiet latest_quiet create_quiet append_quiet search_quiet

lemmas since_rules = keeps_intros keeps_task_intros keeps_gather since_phase since_emit
  since_quiet[OF llm_quiet(1)] since_quiet[OF summarize_quiet] since_quiet[OF latest_quiet]
  since_quiet[OF create_quiet] since_quiet[OF append_quiet] since_quiet[OF search_quiet]

lemma since_agent: "keeps (since E) (agent_node pg st)"
  unfolding agent_node_def Let_def by (intro since_rules) (simp_all add: clean_simps)

lemma since_snapshot: "keeps (since E) (create_snapshot (pg_manager pg) s e q ms r)"
  unfolding create_snapshot_def by (intro since_rules)

lemma since_skills: "keeps (since E) (load_skill_context (pg_manager pg) names)"
proof (rule keepsI)
  fix w r w'
  assume w: "since E w" and m: "load_skill_context (pg_manager pg) names w = (r, w')"
  let ?names = "unique_names names" and ?reg = "km_skills (pg_manager pg)"
  show "since E w'"
  proof (cases "?names = [] \<or> (\<exists>x. mapM_res (skill_get ?reg) ?names = Inl x)")
    case True
    then have "w' = w" using m by (cases "?names = []") (auto simp: load_skill_context_def Let_def)
    then show ?thesis using w by simp
  next
    case False
    then obtain skills where sk: "mapM_res (skill_get ?reg) ?names = Inr skills" and ne: "?names \<noteq> []"
      by (cases "mapM_res (skill_get ?reg) ?names") auto
    have "keeps (since E) (sk_load s)" if "s \<in> set skills" for s
    proof -
      from that obtain i where "i < length skills" and i: "skills ! i = s" unfolding in_set_conv_nth by (elim exE conjE)
      then have "skill_get ?reg (?names ! i) = Inr (skills ! i)" using list_all2_nthD2[OF mapM_res_Inr[OF sk]] by simp
      then have "skill_get ?reg (?names ! i) = Inr s" by (simp only: i)
      then show ?thesis by (intro since_quiet skill_quiet)
    qed
    then have "keeps (since E) (gather 1 1 (km_pick (pg_manager pg)) (map (\<lambda>s. atomic (sk_load s)) skills))"
      by (intro keeps_gather) (metis (no_types, lifting) imageE keeps_task_atomic set_map)
    then have "keeps (since E) (mbind (gather 1 1 (km_pick (pg_manager pg)) (map (\<lambda>s. atomic (sk_load s)) skills))
        (\<lambda>contents. mret (Some (message DEVELOPER (render_active_skills (zip ?names contents))))))"
      by (intro keeps_intros)
    from keepsD[OF this w] show ?thesis using m sk ne by (simp add: load_skill_context_def Let_def)
  qed
qed

lemma since_prepare: "keeps (since E) (prepare_reasoning (pg_manager pg) ms s e q tools names)"
  unfolding prepare_reasoning_def prepare_with_skill_def compact_context_def Let_def
  by (intro since_rules since_skills since_snapshot)

lemma since_reasoning: "keeps (since E) (reasoning_node pg st)"
  unfolding reasoning_node_def announce_prepared_def announce_response_def Let_def
  by (intro since_rules since_prepare) (simp_all add: clean_simps)

lemma since_tool: "keeps (since E) (invoke_tool pg call)"
proof (rule keepsI)
  fix w r w'
  assume w: "since E w" and m: "invoke_tool pg call w = (r, w')"
  show "since E w'"
  proof (cases "tool_get (pg_tools pg) (tc_name call)")
    case (Inl e)
    then show ?thesis using w m by (simp add: invoke_tool_def)
  next
    case (Inr t)
    then have "keeps (since E) (tl_invoke t (tc_arguments call))" by (intro since_quiet tool_quiet)
    from keepsD[OF this w] show ?thesis using m Inr by (simp add: invoke_tool_def)
  qed
qed

lemma since_failed: "keeps (since E) (emit_tool_failed pg st call e)"
  unfolding emit_tool_failed_def by (rule since_emit) (simp_all add: clean_simps)

lemma since_search: "keeps (since E) (search_global_context (pg_manager pg) s call)"
  unfolding search_global_context_def retriever_invoke_def by (intro since_rules)

lemma since_search_task: "keeps_task (since E) (context_search_task pg st call)"
  unfolding context_search_task_def Let_def
  by (intro since_rules since_failed since_search) (simp_all add: clean_simps)

lemma since_external_task: "keeps_task (since E) (external_task pg st call)"
proof -
  have "keeps_task (since E) (case p of (c, f) \<Rightarrow> tbind (atomic (record_tool_observation (pg_manager pg) s eid n i args c f))
      (\<lambda>_. tret c))" for p s eid n i args
    unfolding record_tool_observation_def by (cases p) (auto intro!: since_rules)
  then show ?thesis
    unfolding external_task_def external_call_task_def Let_def
    by (intro since_rules since_failed since_tool) (simp_all add: clean_simps)
qed

lemma since_sort: "keeps (since E) (sort_calls pg st calls acc)"
proof (induction calls arbitrary: acc)
  case (Cons call calls)
  have fail: "keeps (since E) (fail_skill_request pg st call acc' e)" for acc' e
    unfolding fail_skill_request_def by (intro since_rules since_failed)
  have "keeps (since E) (skill_request_step pg st call acc)"
    unfolding skill_request_step_def Let_def mexcept_def
    by (cases "requested_skills (pg_manager pg) call") (auto simp: clean_simps intro!: since_rules fail)
  then show ?case unfolding sort_calls.simps sort_call_def by (intro since_rules Cons.IH)
qed (auto intro: since_rules)

lemma since_action: "keeps (since E) (action_node pg st)"
  unfolding action_node_def execute_external_calls_def execute_context_searches_def Let_def
  by (intro since_rules since_sort) (auto intro: since_external_task since_search_task)

lemma since_start: "keeps (since E) (prepare_execution pg e s q policy)"
  unfolding prepare_execution_def load_context_def Let_def by (intro since_rules) (simp_all add: clean_simps)

lemma since_finish: "keeps (since E) (finish_execution pg e s q fin)"
  unfolding finish_execution_def finalize_execution_def by (intro since_rules since_snapshot) (simp_all add: clean_simps)

text \<open>The answer node: quiet, then \<open>ANSWER_STARTED\<close>, then the deltas among quiet events.\<close>

definition spoken :: "exec_event list \<Rightarrow> pystr list \<Rightarrow> 'v \<Rightarrow> bool" where
  "spoken E ds w \<longleftrightarrow> (\<exists>es. events w = E @ es \<and> deltas_of es = ds \<and> list_all clean_event es)"

lemma spoken_emit:
  assumes "emit_event pg eid type payload w = (Inr u, w')" and "clean type payload" and "spoken E ds w"
  shows "spoken E (ds @ delta_of \<lparr>ev_execution_id = eid, ev_type = type, ev_payload = payload, ev_created_at = pg_now pg w\<rparr>) w'"
  using assms emitted by (fastforce simp: emit_event_def spoken_def deltas_of_def)

lemma spoken_other:
  "emit_event pg eid type payload w = (Inr u, w') \<Longrightarrow> type \<noteq> ASSISTANT_DELTA \<Longrightarrow> clean type payload
     \<Longrightarrow> spoken E ds w \<Longrightarrow> spoken E ds w'"
  using spoken_emit[of eid type payload w u w' E ds] by (simp add: delta_of_def)

lemma spoken_phase: "emit_phase pg eid p w = (Inr u, w') \<Longrightarrow> spoken E ds w \<Longrightarrow> spoken E ds w'"
  unfolding emit_phase_def by (erule spoken_other) (simp_all add: clean_simps)

lemma spoken_delta: "emit_delta pg st c w = (Inr u, w') \<Longrightarrow> spoken E ds w \<Longrightarrow> spoken E (ds @ [c]) w'"
  unfolding emit_delta_def using spoken_emit[of "as_execution_id st" ASSISTANT_DELTA "[(lit ''content'', PStr c)]" w u w' E ds]
  by (simp add: delta_of_def dict_simps clean_simps)

lemma spoken_deltas: "mfor cs (emit_delta pg st) w = (Inr u, w') \<Longrightarrow> spoken E ds w \<Longrightarrow> spoken E (ds @ cs) w'"
proof (induction cs arbitrary: w ds)
  case (Cons c cs)
  from Cons.prems(1) obtain w1 where "emit_delta pg st c w = (Inr (), w1)" "mfor cs (emit_delta pg st) w1 = (Inr u, w')"
    by (auto elim!: mbind_InrD)
  with Cons.IH[OF this(2) spoken_delta[OF this(1) Cons.prems(2)]] show ?case by simp
qed simp

lemma spoken_stream:
  assumes "stream_answer pg st ms w = (Inr chunks, w')" and "spoken E ds w"
  shows "spoken E (ds @ chunks) w'"
proof -
  obtain contents fin w1 where st: "li_stream (pg_llm pg) ms w = ((contents, fin), w1)" by (metis prod.collapse)
  have "spoken E ds w1" using llm_quiet(2)[OF st] assms(2) by (simp add: spoken_def)
  moreover obtain w2 where "mfor (filter (\<lambda>c. c \<noteq> []) contents) (emit_delta pg st) w1 = (Inr (), w2)"
      and "w2 = w'" "chunks = filter (\<lambda>c. c \<noteq> []) contents"
    using assms(1) by (auto simp: stream_answer_def st Let_def elim!: mbind_InrD split: option.splits)
  ultimately show ?thesis using spoken_deltas by metis
qed

lemma draft_stripped: "py_strip (draft_answer st) = draft_answer st" "draft_answer st \<noteq> []"
proof -
  have "py_strip NO_FINAL_ANSWER = NO_FINAL_ANSWER" by (rule py_strip_fix) (simp add: NO_FINAL_ANSWER_def lit_def is_space_def)
  moreover have "NO_FINAL_ANSWER \<noteq> []" by (simp add: NO_FINAL_ANSWER_def)
  ultimately show "py_strip (draft_answer st) = draft_answer st" "draft_answer st \<noteq> []" by (simp_all add: draft_answer_def)
qed

lemma spoken_draft:
  assumes "mbind (emit_delta pg st (draft_answer st)) (\<lambda>_. mret (draft_answer st)) w = (Inr answer, w')"
    and "spoken E ds w" and "py_strip (concat ds) = []"
  shows "\<exists>ds. spoken E ds w' \<and> py_strip (concat ds) = answer \<and> answer \<noteq> []"
proof -
  from assms(1) obtain "emit_delta pg st (draft_answer st) w = (Inr (), w')" and "answer = draft_answer st"
    by (auto elim!: mbind_InrD)
  with spoken_delta[OF this(1) assms(2)] strip_after_blank[OF assms(3) draft_stripped] draft_stripped(2)
  show ?thesis by (intro exI[of _ "ds @ [draft_answer st]"]) simp
qed

lemma answer_body_spoken:
  assumes "answer_body pg st w = (Inr answer, w')" and "spoken E [] w"
  shows "\<exists>ds. spoken E ds w' \<and> py_strip (concat ds) = answer \<and> answer \<noteq> []"
proof (cases "as_stop_reason st = Some MAX_ITERATIONS")
  case True
  have "py_strip (concat ([] :: pystr list)) = []" by (simp add: strip_blank)
  with assms True show ?thesis
    by (intro spoken_draft[of st w answer w' E "[]"]) (simp_all add: answer_body_def Let_def)
next
  case False
  with mbind_InrD[OF assms(1)[unfolded answer_body_def Let_def if_not_P[OF False]]] obtain chunks w3 where
    st: "stream_answer pg st (as_messages st @ [message DEVELOPER FINAL_ANSWER_INSTRUCTION]) w = (Inr chunks, w3)"
    and rest: "(if py_strip (concat chunks) = [] then mbind (emit_delta pg st (draft_answer st)) (\<lambda>_. mret (draft_answer st))
              else mret (py_strip (concat chunks))) w3 = (Inr answer, w')" by metis
  have s3: "spoken E chunks w3" using spoken_stream[OF st assms(2)] by simp
  show ?thesis
  proof (cases "py_strip (concat chunks) = []")
    case True
    then show ?thesis using rest s3 by (intro spoken_draft) simp_all
  next
    case False
    with rest s3 show ?thesis by (intro exI[of _ chunks]) simp
  qed
qed

lemma answer_text_spoken:
  assumes "answer_text pg st w = (Inr answer, w')"
  shows "\<exists>e ds. ev_type e = ANSWER_STARTED \<and> clean_event e \<and> spoken (events w @ [e]) ds w' \<and> py_strip (concat ds) = answer \<and> answer \<noteq> []"
proof -
  from assms obtain w1 w2 where
    w1: "emit_event pg (as_execution_id st) ANSWER_STARTED [(lit ''iteration'', PInt (as_iteration st))] w = (Inr (), w1)"
    and w2: "emit_phase pg (as_execution_id st) RESPONSE_STREAMING w1 = (Inr (), w2)"
    and body: "answer_body pg st w2 = (Inr answer, w')"
    unfolding answer_text_def by (elim mbind_InrD) auto
  obtain e where e: "ev_type e = ANSWER_STARTED" "events w1 = events w @ [e]"
      "ev_payload e = [(lit ''iteration'', PInt (as_iteration st))]"
    using w1 emitted by (fastforce simp: emit_event_def)
  then have "clean_event e" by (simp add: clean_simps)
  have "spoken (events w @ [e]) [] w1" using e(2) by (simp add: spoken_def deltas_of_def)
  then have "spoken (events w @ [e]) [] w2" by (rule spoken_phase[OF w2])
  from answer_body_spoken[OF body this] e(1) \<open>clean_event e\<close> show ?thesis by blast
qed

definition told :: "exec_event list \<Rightarrow> pystr \<Rightarrow> 'v \<Rightarrow> bool" where
  "told E answer w \<longleftrightarrow>
     (\<exists>pre e post. events w = E @ pre @ e # post \<and> (\<forall>x \<in> set pre. silent x) \<and> ev_type e = ANSWER_STARTED
        \<and> py_strip (concat (deltas_of post)) = answer \<and> list_all clean_event (e # post))"

lemma told_since:
  assumes "told E answer w" and "since (events w) w'"
  shows "told E answer w'"
proof -
  from assms(2) obtain es where es: "events w' = events w @ es" "\<forall>e \<in> set es. silent e" by (auto simp: since_def)
  have q: "deltas_of es = []" using es(2) by (auto simp: deltas_of_def silent_def delta_of_def)
  have c: "list_all clean_event es" using es(2) by (simp add: list_all_iff silent_def)
  from assms(1) obtain pre e post where w: "events w = E @ pre @ e # post" and pre: "\<forall>x \<in> set pre. silent x"
    and e: "ev_type e = ANSWER_STARTED" and post: "py_strip (concat (deltas_of post)) = answer"
    and clean: "list_all clean_event (e # post)" unfolding told_def by blast
  have "events w' = E @ pre @ e # (post @ es)" using es(1) w by simp
  moreover have "deltas_of (post @ es) = deltas_of post" using q by (simp add: deltas_of_def)
  moreover have "list_all clean_event (e # (post @ es))" using clean c by simp
  ultimately show ?thesis
    unfolding told_def using pre e post by (intro exI[of _ pre] exI[of _ e] exI[of _ "post @ es"] conjI) simp_all
qed

lemma answer_node_told:
  assumes "answer_node pg st w = (Inr st', w')" and "since E w"
  shows "told E (as_answer st') w' \<and> as_answer st' \<noteq> []"
proof -
  from assms(1) obtain a b c d answer stop w1 w2 w3 w4 where
    w1: "emit_phase pg (as_execution_id st) RESPONSE_PREPARING w = (Inr a, w1)"
    and w2: "answer_text pg st w1 = (Inr answer, w2)"
    and w3: "emit_event pg (as_execution_id st) ANSWER_GENERATED
                  [(lit ''iterations'', PInt (as_iteration st)), (lit ''stop_reason'', PStr stop)] w2 = (Inr b, w3)"
    and w4: "emit_event pg (as_execution_id st) ANSWER_COMPLETED
                  [(lit ''iteration'', PInt (as_iteration st)),
                   (lit ''content_length'', PInt (int (length answer)))] w3 = (Inr c, w4)"
    and w5: "emit_phase pg (as_execution_id st) FINALIZING w4 = (Inr d, w')"
    and st: "st' = st\<lparr>as_messages := with_answer (as_messages st) answer, as_answer := answer, as_stop_reason := Some stop\<rparr>"
    unfolding answer_node_def Let_def by (elim mbind_InrD) (simp only: mret_run prod.inject sum.inject)
  have st': "as_answer st' = answer" by (simp add: st)
  have "since E w1" using keepsD[OF since_phase assms(2) w1] .
  then obtain pre where pre: "events w1 = E @ pre" "\<forall>e \<in> set pre. silent e" by (auto simp: since_def)
  from answer_text_spoken[OF w2] obtain e es where e: "ev_type e = ANSWER_STARTED" "list_all clean_event (e # es)"
    "events w2 = (events w1 @ [e]) @ es" "py_strip (concat (deltas_of es)) = answer" "answer \<noteq> []"
    by (auto simp: spoken_def)
  have "told E answer w2"
    unfolding told_def using e pre by (intro exI[of _ pre] exI[of _ e] exI[of _ es] conjI) simp_all
  moreover have "since (events w2) w'"
  proof -
    have "since (events w2) w2" by (simp add: since_def)
    then have "since (events w2) w3" by (rule keepsD[OF since_emit _ w3, rotated 3]) (simp_all add: clean_simps)
    then have "since (events w2) w4" by (rule keepsD[OF since_emit _ w4, rotated 3]) (simp_all add: clean_simps)
    then show ?thesis by (rule keepsD[OF since_phase _ w5])
  qed
  ultimately show ?thesis using told_since e(5) by (simp add: st')
qed

lemma follow_told:
  assumes "follow (agent_graph pg) n nd st w = Some (Inr fin, w')" and "since E w"
  shows "told E (as_answer fin) w' \<and> as_answer fin \<noteq> []"
  using assms
proof (induction n arbitrary: nd st w)
  case (Suc n)
  obtain st1 w1 where run: "run_node pg nd st w = (Inr st1, w1)"
    using Suc.prems(1) by (auto simp: agent_graph_def split: prod.splits sum.splits)
  show ?case
  proof (cases nd)
    case Answer
    then have "answer_node pg st w = (Inr fin, w')" using Suc.prems(1) run by (simp add: agent_graph_def)
    then show ?thesis by (rule answer_node_told) (rule Suc.prems(2))
  next
    case Agent
    have "since E w1" using keepsD[OF since_agent Suc.prems(2)] run Agent by simp
    then show ?thesis using Suc.IH[of "route_after_agent st1" st1 w1] Suc.prems(1) run Agent by (simp add: agent_graph_def)
  next
    case Reasoning
    have "since E w1" using keepsD[OF since_reasoning Suc.prems(2)] run Reasoning by simp
    then show ?thesis using Suc.IH[of "route_after_reasoning st1" st1 w1] Suc.prems(1) run Reasoning by (simp add: agent_graph_def)
  next
    case Action
    have "since E w1" using keepsD[OF since_action Suc.prems(2)] run Action by simp
    then show ?thesis using Suc.IH[of Agent st1 w1] Suc.prems(1) run Action by (simp add: agent_graph_def)
  qed
qed simp

end

section \<open>Tracing a program\<close>

text \<open>The same program, over a world that also keeps the list of the events its sink has taken.\<close>

type_synonym 'w logged = "'w \<times> exec_event list"

definition untouched :: "('w, 'a) act \<Rightarrow> ('w logged, 'a) act" where
  "untouched m = (\<lambda>(w, l). case m w of (r, w') \<Rightarrow> (r, (w', l)))"

definition taken :: "(exec_event \<Rightarrow> ('w, unit) act) \<Rightarrow> exec_event \<Rightarrow> ('w logged, unit) act" where
  "taken emit e = (\<lambda>(w, l). case emit e w of (Inl x, w') \<Rightarrow> (Inl x, (w', l)) | (Inr u, w') \<Rightarrow> (Inr u, (w', l @ [e])))"

definition traced_tool :: "'w tool \<Rightarrow> 'w logged tool" where
  "traced_tool t = \<lparr>tl_name = tl_name t, tl_description = tl_description t, tl_input_schema = tl_input_schema t,
     tl_invoke = (\<lambda>args. untouched (tl_invoke t args))\<rparr>"

definition traced_skill :: "'w skill \<Rightarrow> 'w logged skill" where
  "traced_skill s = \<lparr>sk_name = sk_name s, sk_description = sk_description s, sk_load = untouched (sk_load s)\<rparr>"

definition traced_llm :: "'w llm_client \<Rightarrow> 'w logged llm_client" where
  "traced_llm c = \<lparr>li_invoke = (\<lambda>ms ts. untouched (li_invoke c ms ts)),
     li_stream = (\<lambda>ms (w, l). case li_stream c ms w of (x, w') \<Rightarrow> (x, (w', l))),
     li_count_text = li_count_text c, li_count = li_count c\<rparr>"

definition traced_manager :: "'w context_manager \<Rightarrow> 'w logged context_manager" where
  "traced_manager km = \<lparr>km_text = km_text km, km_skills = map traced_skill (km_skills km),
     km_system_prompt = km_system_prompt km, km_estimator = km_estimator km, km_policy = km_policy km,
     km_summarize = (\<lambda>prev ms q. untouched (km_summarize km prev ms q)), km_latest = (\<lambda>sid. untouched (km_latest km sid)),
     km_create = (\<lambda>sid eid reason su n. untouched (km_create km sid eid reason su n)),
     km_append = (\<lambda>sid eid k txt d. untouched (km_append km sid eid k txt d)),
     km_retriever = \<lparr>rt_search = (\<lambda>sid q n. untouched (rt_search (km_retriever km) sid q n)),
       rt_default_limit = rt_default_limit (km_retriever km), rt_max_limit = rt_max_limit (km_retriever km)\<rparr>,
     km_pick = (\<lambda>(w, l). km_pick km w)\<rparr>"

definition traced :: "'w agent_program \<Rightarrow> 'w logged agent_program" where
  "traced pg = \<lparr>pg_llm = traced_llm (pg_llm pg), pg_tools = map (\<lambda>(k, t). (k, traced_tool t)) (pg_tools pg),
     pg_manager = traced_manager (pg_manager pg), pg_tool_definitions = pg_tool_definitions pg,
     pg_emit = taken (pg_emit pg), pg_now = (\<lambda>(w, l). pg_now pg w), pg_pick = (\<lambda>(w, l). pg_pick pg w)\<rparr>"

lemma untouched_quiet: "keeps (\<lambda>w. snd w = E) (untouched m)"
  by (rule keepsI) (auto simp: untouched_def split: prod.splits)

lemma traced_tool_get: "tool_get (map (\<lambda>(k, t). (k, traced_tool t)) r) name = Inr t \<Longrightarrow> \<exists>u. t = traced_tool u"
  by (induction r) (auto simp: tool_get_def split: if_splits option.splits)

lemma traced_skill_get: "skill_get (map traced_skill r) name = Inr s \<Longrightarrow> \<exists>u. s = traced_skill u"
  by (induction r) (auto simp: skill_get_def split: if_splits option.splits)

interpretation traced: event_view "traced pg" snd for pg :: "'w agent_program"
proof
  fix e :: exec_event and u :: unit and x w w'
  show "pg_emit (traced pg) e w = (Inr u, w') \<Longrightarrow> snd w' = snd w @ [e]"
    by (auto simp: traced_def taken_def split: prod.splits sum.splits)
  show "pg_emit (traced pg) e w = (Inl x, w') \<Longrightarrow> snd w' = snd w"
    by (auto simp: traced_def taken_def split: prod.splits sum.splits)
next
  fix E ms ts
  show "keeps (\<lambda>w. snd w = E) (li_invoke (pg_llm (traced pg)) ms ts)" by (simp add: traced_def traced_llm_def untouched_quiet)
next
  fix ms c and w w' :: "'w logged"
  show "li_stream (pg_llm (traced pg)) ms w = (c, w') \<Longrightarrow> snd w' = snd w"
    by (auto simp: traced_def traced_llm_def split: prod.splits)
next
  fix name t E args
  assume "tool_get (pg_tools (traced pg)) name = Inr t"
  then obtain u where "t = traced_tool u" using traced_tool_get by (force simp: traced_def)
  then show "keeps (\<lambda>w. snd w = E) (tl_invoke t args)" by (simp add: traced_tool_def untouched_quiet)
next
  fix name sk E
  assume "skill_get (km_skills (pg_manager (traced pg))) name = Inr sk"
  then obtain u where "sk = traced_skill u" using traced_skill_get by (force simp: traced_def traced_manager_def)
  then show "keeps (\<lambda>w. snd w = E) (sk_load sk)" by (simp add: traced_skill_def untouched_quiet)
qed (simp_all add: traced_def traced_manager_def untouched_quiet)

lemma told_answer:
  assumes "graph_engine ainvoke"
    and "program_execute ainvoke (traced pg) e s q policy (w, []) = (Inr res, (w', log_events))"
  obtains pre started post where "ar_answer res \<noteq> []" and "log_events = pre @ started # post"
    and "\<forall>x \<in> set pre. silent x" and "ev_type started = ANSWER_STARTED"
    and "py_strip (concat (deltas_of post)) = ar_answer res" and "list_all clean_event (started # post)"
proof -
  let ?pg = "traced pg"
  from assms(2) obtain st fin w1 w2 where start: "prepare_execution ?pg e s q policy (w, []) = (Inr st, w1)"
    and run: "ainvoke (agent_graph ?pg) (recursion_limit policy) st w1 = (Inr fin, w2)"
    and finish: "finish_execution ?pg e s q fin w2 = (Inr res, (w', log_events))"
    unfolding program_execute_def by (elim mbind_InrD) (rule that)
  obtain n where "follow (agent_graph ?pg) n Agent st w1 = Some (Inr fin, w2)"
    using graph_run_followed[OF assms(1) start run] by blast
  moreover have "traced.since [] w1" using keepsD[OF traced.since_start _ start] by (simp add: traced.since_def)
  ultimately have told: "traced.told [] (as_answer fin) w2" and ne: "as_answer fin \<noteq> []" using traced.follow_told by blast+
  have "traced.since (snd w2) (w', log_events)"
    using keepsD[OF traced.since_finish _ finish] by (simp add: traced.since_def)
  with told have "traced.told [] (as_answer fin) (w', log_events)" by (rule traced.told_since)
  then obtain pre started post where "log_events = pre @ started # post" "\<forall>x \<in> set pre. silent x"
    "ev_type started = ANSWER_STARTED" "py_strip (concat (deltas_of post)) = as_answer fin"
    "list_all clean_event (started # post)" unfolding traced.told_def snd_conv append_Nil by blast
  moreover have "ar_answer res = as_answer fin"
    using finish unfolding finish_execution_def by (elim mbind_InrD) (auto simp: mret_run)
  ultimately show ?thesis using ne by (intro that[of pre started post]) simp_all
qed

text \<open>
  C25. What is streamed to the user is the answer. In every execution that returns, the events up to
  \<open>ANSWER_STARTED\<close> contain no delta and no other start of an answer; the deltas after it, joined and stripped, are
  exactly the answer of the result, and it is not empty: not on the way through the iteration limit, not when the
  model streams nothing but blanks.
\<close>

theorem streamed_answer:
  assumes "graph_engine ainvoke"
    and "program_execute ainvoke (traced pg) e s q policy (w, []) = (Inr res, (w', log_events))"
  shows "ar_answer res \<noteq> [] \<and>
    (\<exists>pre started post. log_events = pre @ started # post \<and> ev_type started = ANSWER_STARTED
       \<and> (\<forall>x \<in> set pre. ev_type x \<noteq> ASSISTANT_DELTA \<and> ev_type x \<noteq> ANSWER_STARTED)
       \<and> py_strip (concat (deltas_of post)) = ar_answer res)"
proof -
  obtain pre started post where "ar_answer res \<noteq> []" "log_events = pre @ started # post" "\<forall>x \<in> set pre. silent x"
    "ev_type started = ANSWER_STARTED" "py_strip (concat (deltas_of post)) = ar_answer res" using told_answer[OF assms] .
  then show ?thesis by (intro conjI exI[of _ pre] exI[of _ started] exI[of _ post]) (simp_all add: silent_def)
qed

end
