(* ===== verification/Runtime_Examples.thy ===== *)
theory Runtime_Examples
  imports Runtime_Stream
begin

text \<open>
  Concrete executions of the agent program: a model, a tool and a memory with which the properties of
  \<open>Runtime_Props\<close> and \<open>Runtime_Stream\<close> are applied, and the rules of actions that return.
\<close>

section \<open>A program to run\<close>

text \<open>A model that makes the given calls and answers once it sees their results; its tool \<open>echo\<close> gives back its arguments.\<close>

definition demo_llm :: "llm_tool_call list \<Rightarrow> unit llm_client" where
  "demo_llm calls =
     \<lparr>li_invoke = (\<lambda>ms _. mret \<lparr>lr_content = lit ''draft'', lr_tool_calls = (if lm_role (last ms) = ROLE_TOOL then [] else calls)\<rparr>),
      li_stream = (\<lambda>_ w. (([lit '' fi'', [], lit ''ne''], None), w)), li_count_text = (\<lambda>s. Inr 1), li_count = (\<lambda>_ _. Inr 1)\<rparr>"

definition demo_summary :: context_summary where
  "demo_summary = \<lparr>su_current_request = [], su_objective = None, su_established_facts = [], su_constraints = [],
     su_decisions = [], su_open_questions = [], su_relevant_references = [], su_continuity_notes = []\<rparr>"

definition demo_manager :: "unit context_manager" where
  "demo_manager = example_manager\<lparr>km_summarize := (\<lambda>_ _ _. mret demo_summary),
     km_estimator := \<lparr>te_text = (\<lambda>s. Inr 1), te_messages = (\<lambda>ms. Inr 1), te_tools = (\<lambda>ts. Inr 1)\<rparr>,
     km_create := (\<lambda>sid eid reason su n. mret \<lparr>sn_id = None, sn_session_id = sid, sn_execution_id = eid, sn_sequence = 1,
       sn_reason = reason, sn_summary = su, sn_estimated_tokens = n, sn_created_at = None\<rparr>),
     km_append := (\<lambda>sid eid k txt d. mret \<lparr>ge_id = None, ge_session_id = sid, ge_execution_id = eid, ge_sequence = 1,
       ge_kind = k, ge_content = txt, ge_metadata = d, ge_created_at = None\<rparr>)\<rparr>"

definition demo_program :: "llm_tool_call list \<Rightarrow> unit agent_program" where
  "demo_program calls = new_agent_program (demo_llm calls)
     [(lit ''echo'', \<lparr>tl_name = lit ''echo'', tl_description = [], tl_input_schema = [], tl_invoke = (\<lambda>d. mret (PDict d))\<rparr>)]
     demo_manager (\<lambda>_. mret ()) (\<lambda>_. []) (\<lambda>_ _. 0)"

definition demo_policy :: runtime_policy where
  "demo_policy = \<lparr>rp_max_iterations = 3, rp_max_sql_retries = 0, rp_max_parallel_tool_calls_per_tool = 1\<rparr>"

text \<open>An action that returns, whatever the world, with a result in \<open>Q\<close>.\<close>

definition returns :: "('w, 'a) act \<Rightarrow> ('a \<Rightarrow> bool) \<Rightarrow> bool" where
  "returns m Q \<longleftrightarrow> attains (\<lambda>_. True) m (\<lambda>a _. Q a)"

lemma returns_run: "returns m Q \<longleftrightarrow> (\<forall>w. \<exists>a w'. m w = (Inr a, w') \<and> Q a)"
  by (simp add: returns_def attains_def)

lemma returnsD:
  assumes "returns m Q"
  obtains a w' where "m w = (Inr a, w')" and "Q a"
  using assms unfolding returns_run by blast

lemma returns_mret: "Q a \<Longrightarrow> returns (mret a) Q"
  by (simp add: returns_run)

lemma returns_mbind:
  assumes "returns m P" and "\<And>a. P a \<Longrightarrow> returns (f a) Q"
  shows "returns (mbind m f) Q"
  unfolding returns_def
proof (rule attains_mbind)
  show "attains (\<lambda>_. True) m (\<lambda>a _. P a)" using assms(1) by (simp add: returns_def)
  show "attains (\<lambda>_. P a) (f a) (\<lambda>b _. Q b)" for a using assms(2)[of a] by (simp add: returns_def attains_def)
qed

lemma returns_then: "returns m (\<lambda>_. True) \<Longrightarrow> (\<And>a. returns (f a) Q) \<Longrightarrow> returns (mbind m f) Q"
  by (rule returns_mbind)

lemma returns_mwhen: "returns m (\<lambda>_. True) \<Longrightarrow> returns (mwhen b m) (\<lambda>_. True)"
  by (simp add: mwhen_def returns_mret)

lemma returns_mfor: "(\<And>x. returns (f x) (\<lambda>_. True)) \<Longrightarrow> returns (mfor xs f) (\<lambda>_. True)"
  by (induction xs) (auto intro: returns_mret returns_then)

lemma returns_mfinally:
  assumes "returns m Q" and "returns c (\<lambda>_. True)"
  shows "returns (mfinally m c) Q"
  unfolding returns_run
proof
  fix w
  obtain a w1 where m: "m w = (Inr a, w1)" and "Q a" using returnsD[OF assms(1)] .
  moreover obtain b w2 where "c w1 = (Inr b, w2)" using returnsD[OF assms(2)] .
  ultimately show "\<exists>a w'. mfinally m c w = (Inr a, w') \<and> Q a" by (simp add: mfinally_def)
qed

lemma returns_mlift: "r = Inr a \<Longrightarrow> Q a \<Longrightarrow> returns (mlift r) Q"
  by (simp add: returns_run)

abbreviation demo :: "llm_tool_call list \<Rightarrow> unit logged agent_program" where
  "demo calls \<equiv> traced (demo_program calls)"

lemma demo_emit: "returns (emit_event (demo calls) eid type payload) (\<lambda>_. True)"
  by (simp add: returns_run emit_event_def traced_def taken_def demo_program_def new_agent_program_def)

lemma demo_phase: "returns (emit_phase (demo calls) eid p) (\<lambda>_. True)"
  by (simp add: emit_phase_def demo_emit)

lemma returns_untouched: "returns m Q \<Longrightarrow> returns (untouched m) Q"
  by (auto simp: returns_run untouched_def split: prod.splits) (metis Pair_inject)

lemmas demo_rules = returns_then[OF demo_emit] returns_then[OF demo_phase] returns_mwhen demo_emit demo_phase

lemmas demo_parts = traced_def traced_manager_def traced_llm_def demo_program_def new_agent_program_def demo_manager_def
  example_manager_def

lemma demo_latest: "returns (km_latest (pg_manager (demo calls)) sid) (\<lambda>s. s = None)"
  and demo_append: "returns (km_append (pg_manager (demo calls)) sid eid k txt d) (\<lambda>_. True)"
  and demo_create: "returns (km_create (pg_manager (demo calls)) sid eid reason su n) (\<lambda>_. True)"
  and demo_summarize: "returns (km_summarize (pg_manager (demo calls)) prev ms q) (\<lambda>_. True)"
  by (simp_all add: demo_parts returns_untouched returns_mret)

lemma demo_prepare:
  "returns (prepare_execution (demo calls) e s q policy) (\<lambda>st. \<exists>ms. st = initial_state e s q (ms @ [message USER q]) policy)"
proof -
  have load: "returns (load_context (pg_manager (demo calls)) s e q ts)
      (\<lambda>c. ac_history c = [] \<and> ac_snapshot c = None \<and> ac_question c = q)" for ts
    unfolding load_context_def Let_def
    by (intro returns_mbind[OF demo_latest] returns_then[OF demo_append] returns_mret)
       (simp add: km_build_def context_builder_build_def)
  have init: "returns (mlift (initial_messages (pg_manager (demo calls)) c)) (\<lambda>ms. \<exists>ms'. ms = ms' @ [message USER q])"
    if "ac_history c = [] \<and> ac_snapshot c = None \<and> ac_question c = q" for c
    using that by (intro returns_mlift) (auto simp: initial_messages_def)
  show ?thesis
    unfolding prepare_execution_def
    by (intro demo_rules returns_mbind[OF load] returns_mbind[OF init] returns_mret) (auto)
qed

lemma demo_agent:
  assumes "as_iteration st < as_max_iterations st"
  shows "returns (agent_node (demo calls) st) (\<lambda>st'. st' = st\<lparr>as_iteration := as_iteration st + 1, as_pending_tool_calls := []\<rparr>)"
proof -
  from assms have "\<not> as_max_iterations st \<le> as_iteration st" by simp
  then show ?thesis unfolding agent_node_def Let_def by (simp only: if_False) (intro demo_rules returns_mret refl)
qed

lemma demo_reasoning:
  assumes "as_active_skill_names st = []" and "lm_role (last (as_messages st)) = USER"
  shows "returns (reasoning_node (demo calls) st) (\<lambda>st'. \<exists>p. pr_persistent_messages p = as_messages st
           \<and> st' = after_response st p \<lparr>lr_content = lit ''draft'', lr_tool_calls = calls\<rparr>)"
proof -
  have prep: "returns (prepare_reasoning (pg_manager (demo calls)) (as_messages st) sid eid q ts [])
     (\<lambda>p. pr_persistent_messages p = as_messages st \<and> pr_reasoning_messages p = as_messages st)" for sid eid q ts
    by (simp add: prepare_reasoning_def load_skill_context_def unique_names_def prepare_with_skill_def with_ephemeral_skill_def
        measure_budget_def budget_measure_def returns_run Let_def) (simp add: demo_parts dynamic_budget_tokens_def)
  have llm: "returns (li_invoke (pg_llm (demo calls)) ms ts)
      (\<lambda>r. r = \<lparr>lr_content = lit ''draft'', lr_tool_calls = calls\<rparr>)" if "lm_role (last ms) = USER" for ms ts
    using that by (simp add: demo_parts demo_llm_def returns_untouched returns_mret)
  have prepared: "returns (announce_prepared (demo calls) st p) (\<lambda>_. True)" for p
    unfolding announce_prepared_def Let_def
    by (intro demo_rules returns_then) (auto split: option.splits intro!: demo_rules returns_mret)
  have response: "returns (announce_response (demo calls) st p) (\<lambda>_. True)" for p
    unfolding announce_response_def Let_def by (intro demo_rules)
  show ?thesis
    unfolding reasoning_node_def Let_def assms(1)
    by (intro demo_rules returns_mbind[OF prep] returns_then[OF prepared] returns_then[OF response] returns_mret
        returns_mbind[OF returns_mfinally[OF llm]]) (auto simp: assms(2) intro: demo_rules)
qed

lemma demo_answer: "returns (answer_node (demo calls) st) (\<lambda>_. True)"
proof -
  have deltas: "returns (mbind (mfor chunks (emit_delta (demo calls) st)) (\<lambda>_. mret chunks)) (\<lambda>_. True)" for chunks
    unfolding emit_delta_def by (intro returns_then[OF returns_mfor] demo_rules returns_mret TrueI)
  have stream: "returns (stream_answer (demo calls) st ms) (\<lambda>_. True)" for ms
    unfolding returns_run
  proof
    fix w :: "unit logged"
    let ?chunks = "filter (\<lambda>c. c \<noteq> []) [lit '' fi'', [], lit ''ne'']"
    have "li_stream (pg_llm (demo calls)) ms w = (([lit '' fi'', [], lit ''ne''], None), w)"
      by (cases w) (simp add: demo_parts demo_llm_def)
    then have "stream_answer (demo calls) st ms w = mbind (mfor ?chunks (emit_delta (demo calls) st)) (\<lambda>_. mret ?chunks) w"
      by (simp only: stream_answer_def Let_def prod.case option.case)
    with returnsD[OF deltas] show "\<exists>a w'. stream_answer (demo calls) st ms w = (Inr a, w') \<and> True" by metis
  qed
  have body: "returns (answer_body (demo calls) st) (\<lambda>_. True)"
    unfolding answer_body_def Let_def emit_delta_def
    by (auto intro!: demo_rules returns_mret returns_then[OF stream])
  have answer: "returns (answer_text (demo calls) st) (\<lambda>_. True)"
    unfolding answer_text_def by (intro demo_rules body)
  show ?thesis
    unfolding answer_node_def Let_def by (intro demo_rules returns_then[OF answer] returns_mret TrueI)
qed

lemma demo_finish: "returns (finish_execution (demo calls) e s q fin) (\<lambda>_. True)"
proof -
  have snap: "returns (finalize_execution (pg_manager (demo calls)) s e q ms a) (\<lambda>_. True)" for ms a
  proof -
    have "returns (mlift (te_text (km_estimator (pg_manager (demo calls))) t)) (\<lambda>_. True)" for t
      by (simp add: returns_run demo_parts)
    then show ?thesis
      unfolding finalize_execution_def create_snapshot_def
      by (intro returns_then[OF demo_append] returns_mbind[OF demo_latest] returns_then[OF demo_summarize] returns_then demo_create)
  qed
  show ?thesis
    unfolding finish_execution_def by (intro demo_rules returns_then[OF snap] returns_mret TrueI)
qed


text \<open>Its runs: without calls through three nodes, with two calls to the action node.\<close>

lemma demo_answers:
  "\<exists>res w'. program_execute drive (demo []) e s q demo_policy w = (Inr res, w')"
proof -
  let ?g = "agent_graph (demo [])"
  obtain st w1 where start: "prepare_execution (demo []) e s q demo_policy w = (Inr st, w1)"
    and st: "\<exists>ms. st = initial_state e s q (ms @ [message USER q]) demo_policy" using returnsD[OF demo_prepare] by metis
  let ?st1 = "st\<lparr>as_iteration := as_iteration st + 1, as_pending_tool_calls := []\<rparr>"
  have agent: "as_iteration st < as_max_iterations st" and stop: "as_stop_reason ?st1 = None"
    and act: "as_active_skill_names ?st1 = []" "lm_role (last (as_messages ?st1)) = USER"
    using st by (auto simp: initial_state_def demo_policy_def)
  obtain w2 where r1: "agent_node (demo []) st w1 = (Inr ?st1, w2)" using returnsD[OF demo_agent[OF agent]] by metis
  obtain p st2 w3 where r2: "reasoning_node (demo []) ?st1 w2 = (Inr st2, w3)"
    and st2: "st2 = after_response ?st1 p \<lparr>lr_content = lit ''draft'', lr_tool_calls = []\<rparr>"
    using returnsD[OF demo_reasoning[OF act]] by metis
  obtain fin w4 where r3: "answer_node (demo []) st2 w3 = (Inr fin, w4)" using returnsD[OF demo_answer] by metis
  have "route_after_agent ?st1 = Reasoning" "route_after_reasoning st2 = Answer"
    using stop by (simp_all add: route_after_agent_def route_after_reasoning_def st2 after_response_def Let_def)
  then have "follow ?g (Suc (Suc (Suc 0))) (sg_start ?g) st w1 = Some (Inr fin, w4)"
    using r1 r2 r3 by (simp add: agent_graph_def)
  then have "drive ?g (recursion_limit demo_policy) st w1 = (Inr fin, w4)"
    by (rule drive.within_limit) (simp add: recursion_limit_def demo_policy_def)
  moreover obtain res w5 where "finish_execution (demo []) e s q fin w4 = (Inr res, w5)" using returnsD[OF demo_finish] by metis
  ultimately have "program_execute drive (demo []) e s q demo_policy w = (Inr res, w5)"
    using start by (simp add: program_execute_def mbind_def)
  then show ?thesis by (intro exI)
qed

lemma demo_calls:
  "\<exists>st0 w0 st w. prepare_execution (demo calls) e s q demo_policy v = (Inr st0, w0)
     \<and> (calls \<noteq> [] \<longrightarrow> visits (agent_graph (demo calls)) st0 w0 Action st w) \<and> as_pending_tool_calls st = calls"
proof -
  let ?g = "agent_graph (demo calls)"
  obtain st w1 where start: "prepare_execution (demo calls) e s q demo_policy v = (Inr st, w1)"
    and st: "\<exists>ms. st = initial_state e s q (ms @ [message USER q]) demo_policy" using returnsD[OF demo_prepare] by metis
  let ?st1 = "st\<lparr>as_iteration := as_iteration st + 1, as_pending_tool_calls := []\<rparr>"
  have agent: "as_iteration st < as_max_iterations st" and stop: "as_stop_reason ?st1 = None"
    and act: "as_active_skill_names ?st1 = []" "lm_role (last (as_messages ?st1)) = USER"
    using st by (auto simp: initial_state_def demo_policy_def)
  obtain w2 where r1: "agent_node (demo calls) st w1 = (Inr ?st1, w2)" using returnsD[OF demo_agent[OF agent]] by metis
  obtain p st2 w3 where r2: "reasoning_node (demo calls) ?st1 w2 = (Inr st2, w3)"
    and st2: "st2 = after_response ?st1 p \<lparr>lr_content = lit ''draft'', lr_tool_calls = calls\<rparr>"
    using returnsD[OF demo_reasoning[OF act]] by metis
  have pending: "as_pending_tool_calls st2 = calls" by (simp add: st2 after_response_def Let_def)
  have "visits ?g st w1 Agent st w1" using visits.start[of ?g st w1] by (simp add: agent_graph_def)
  then have v: "visits ?g st w1 Reasoning ?st1 w2"
    by (rule visits.step) (simp_all add: agent_graph_def r1 route_after_agent_def stop[simplified])
  have "visits ?g st w1 Action st2 w3" if "calls \<noteq> []"
    using that pending r2 by (intro visits.step[OF v]) (simp_all add: agent_graph_def route_after_reasoning_def)
  with start pending show ?thesis by (intro exI conjI impI)
qed

section \<open>Witnesses\<close>

abbreviation two_calls :: "llm_tool_call list" where
  "two_calls \<equiv> [\<lparr>tc_id = lit ''1'', tc_name = lit ''echo'', tc_arguments = []\<rparr>,
               \<lparr>tc_id = lit ''2'', tc_name = lit ''echo'', tc_arguments = []\<rparr>]"

theorem program_within_recursion_limit_witness:
  "\<exists>n r. n < recursion_limit demo_policy \<and> int n \<le> 11
     \<and> drive (agent_graph (demo two_calls)) (recursion_limit demo_policy) (initial_state [] [] [] [] demo_policy) ((), []) = r
     \<and> follow (agent_graph (demo two_calls)) n Agent (initial_state [] [] [] [] demo_policy) ((), []) = Some r"
  using program_within_recursion_limit[OF drive.graph_engine_axioms, of demo_policy "demo two_calls" "[]" "[]" "[]" "[]" "((), [])"]
  by (elim exE conjE) (intro exI conjI, assumption, simp add: demo_policy_def, assumption+)

theorem requests_follow_protocol_witness:
  "\<exists>st0 w0 st w. prepare_execution (demo two_calls) [] [] [] demo_policy ((), []) = (Inr st0, w0)
     \<and> visits (agent_graph (demo two_calls)) st0 w0 Action st w \<and> awaited [] (as_messages st) = Some [lit ''1'', lit ''2'']"
proof -
  obtain st0 w0 st w where p: "prepare_execution (demo two_calls) [] [] [] demo_policy ((), []) = (Inr st0, w0)"
    and v: "visits (agent_graph (demo two_calls)) st0 w0 Action st w" and c: "as_pending_tool_calls st = two_calls"
    using demo_calls[of two_calls "[]" "[]" "[]" "((), [])"] by (elim exE conjE) (rule that, assumption, simp_all)
  have "awaited [] (as_messages st) = Some [lit ''1'', lit ''2'']" using requests_follow_protocol[OF p v] c by simp
  with p v show ?thesis by (intro exI conjI)
qed

theorem streamed_answer_witness:
  "\<exists>res w' log_events pre started post.
     program_execute drive (demo []) [] [] (lit ''q'') demo_policy ((), []) = (Inr res, (w', log_events))
     \<and> log_events = pre @ started # post \<and> py_strip (concat (deltas_of post)) = ar_answer res"
proof -
  obtain res w' l where r: "program_execute drive (demo []) [] [] (lit ''q'') demo_policy ((), []) = (Inr res, (w', l))"
    using demo_answers by (metis prod.collapse)
  from streamed_answer[OF drive.graph_engine_axioms r] r show ?thesis by blast
qed

abbreviation two_state :: "int \<Rightarrow> agent_state" where
  "two_state n \<equiv> initial_state [] [] [] [] (demo_policy\<lparr>rp_max_parallel_tool_calls_per_tool := n\<rparr>)"

abbreviation demo_pool :: "int \<Rightarrow> (unit, pystr \<times> pystr) task list" where
  "demo_pool n \<equiv> map (external_task (demo_program []) (two_state n)) two_calls"

lemma two_state_cap: "as_max_parallel_tool_calls_per_tool (two_state n) = n"
  by (simp add: initial_state_def)

theorem parallel_calls_bounded_witness:
  "\<exists>ts held. pool_reach 1 (demo_pool 1, \<lambda>_. 0, ()) (ts, held, ())
     \<and> inside (lit ''echo'') (ts ! 0) \<and> card {i. i < 2 \<and> inside (lit ''echo'') (ts ! i)} \<le> 1"
proof -
  let ?body = "tbind (external_call_task (demo_program []) (two_state 1) (two_calls ! 0)) (\<lambda>content. tret (lit ''1'', content))"
  let ?t = "release_after (lit ''echo'') ?body"
  have first: "demo_pool 1 ! 0 = Acquire (lit ''echo'') ?t" by (simp add: external_task_def with_semaphore_def)
  have "pool_step 1 (demo_pool 1, \<lambda>_. 0, ()) ((demo_pool 1)[0 := ?t], (\<lambda>_. 0)(lit ''echo'' := 1), ())"
    by (rule pool_step.step) (simp_all only: first, simp_all)
  then have reach: "pool_reach 1 (demo_pool 1, \<lambda>_. 0, ()) ((demo_pool 1)[0 := ?t], (\<lambda>_. 0)(lit ''echo'' := 1), ())"
    by (rule pool_reach.more[OF pool_reach.start])
  have "inside (lit ''echo'') ?t" unfolding inside_def
    by (intro exI[of _ ?body] conjI refl no_locks_tbind no_locks_external_call) simp
  then have "inside (lit ''echo'') ((demo_pool 1)[0 := ?t] ! 0)" by simp
  moreover have "card {i. i < 2 \<and> inside (lit ''echo'') ((demo_pool 1)[0 := ?t] ! i)} \<le> 1"
  proof -
    have "{i. i < length two_calls \<and> tc_name (two_calls ! i) = lit ''echo'' \<and> inside (lit ''echo'') ((demo_pool 1)[0 := ?t] ! i)}
        = {i. i < 2 \<and> inside (lit ''echo'') ((demo_pool 1)[0 := ?t] ! i)}" by (auto simp: less_2_cases_iff)
    moreover have "pool_reach (nat (as_max_parallel_tool_calls_per_tool (two_state 1))) (demo_pool 1, \<lambda>_. 0, ())
        ((demo_pool 1)[0 := ?t], (\<lambda>_. 0)(lit ''echo'' := 1), ())" using reach by (simp only: two_state_cap) simp
    from parallel_calls_bounded[OF this, of "lit ''echo''"] have
      "card {i. i < length two_calls \<and> tc_name (two_calls ! i) = lit ''echo'' \<and> inside (lit ''echo'') ((demo_pool 1)[0 := ?t] ! i)} \<le> 1"
      by (simp only: two_state_cap) simp
    ultimately show ?thesis by (simp only:)
  qed
  ultimately show ?thesis using reach by (intro exI conjI)
qed


end
