(* ===== verification/Interface.thy ===== *)
theory Interface
  imports Runtime_Examples Runner
begin

text \<open>
  From the agent to the screen: the events of an execution, numbered and published, with the runner's final event, as
  the interface sees them through the state frame of the projection and the frames that follow it.
\<close>

section \<open>Publication\<close>

definition published :: "nat \<times> exec_event \<Rightarrow> stream_item" where
  "published ne = (int (fst ne), event_value (ev_type (snd ne)), public_payload (snd ne))"

definition publications :: "exec_event list \<Rightarrow> stream_item list" where
  "publications es = map published (enumerate 1 es)"

definition completed_event :: "pystr \<Rightarrow> pystr \<Rightarrow> program_result \<Rightarrow> exec_event" where
  "completed_event execution_id now res =
     \<lparr>ev_execution_id = execution_id, ev_type = EXECUTION_COMPLETED,
      ev_payload = result_payload (ar_answer res, Some (ar_result res)), ev_created_at = now\<rparr>"

lemma in_publications: "x \<in> set (publications es) \<Longrightarrow> \<exists>n e. e \<in> set es \<and> x = published (n, e)"
proof -
  assume "x \<in> set (publications es)"
  then obtain ne where x: "x = published ne" "ne \<in> set (enumerate 1 es)" by (auto simp: publications_def)
  then have "snd ne \<in> set es" by (metis enumerate_eq_zip set_zip_rightD surjective_pairing)
  with x show ?thesis by (metis surjective_pairing)
qed

lemma public_plain: "plain d \<Longrightarrow> d = ev_payload e \<Longrightarrow> plain (public_payload e)"
  by (auto simp: plain_def listed_def dget_public_payload distinct_public_payload)

lemma published_clean:
  assumes "clean_event e"
  shows "publishable (published (n, e))" and "\<not> rewrites_answer (published (n, e))"
    and "delta_text rp (published (n, e)) = concat (delta_of e)"
proof -
  have state: "event_value t \<noteq> lit ''execution.state''" for t by (cases t) (simp_all add: event_value.simps)
  then show "publishable (published (n, e))"
    using assms public_plain[of "ev_payload e" e]
    by (auto simp: publishable_def published_def clean_def payload_ok_def dget_public_payload state)
  show "\<not> rewrites_answer (published (n, e))" using assms by (simp add: rewrites_answer_def published_def clean_def)
  show "delta_text rp (published (n, e)) = concat (delta_of e)"
    using assms by (auto simp: delta_text_def published_def delta_of_def clean_def dget_public_payload)
qed

lemma deltas_published:
  "list_all clean_event es \<Longrightarrow> concat (map (delta_text rp) (publications es)) = concat (deltas_of es)"
  unfolding publications_def
proof (induction es arbitrary: rule: rev_induct)
  case (snoc e es)
  then show ?case by (simp add: enumerate_append_eq published_clean(3) deltas_of_def)
qed (simp add: deltas_of_def)

lemma settled_strips:
  assumes "py_strip t = a" and "ar_answer res = a"
  shows "py_strip (settled rp [published (n, completed_event eid now res)] t) = a"
proof -
  have "settled rp [published (n, completed_event eid now res)] t = merged t a"
    using assms(2) by (simp add: settled_def published_def terminal_text_def completed_event_def dget_public_payload
        result_payload_def dict_simps)
  moreover have "py_strip a = a" using assms(1) by auto
  ultimately show ?thesis using assms(1) by (simp add: merged_def)
qed

lemma completed_publishable:
  "publishable (published (n, completed_event eid now res))" "rewrites_answer (published (n, completed_event eid now res))"
proof -
  have "plain (ev_payload (completed_event eid now res))"
    by (simp add: completed_event_def result_payload_def plain_def listed_def dict_simps)
  then show "publishable (published (n, completed_event eid now res))"
    using public_plain by (auto simp: publishable_def published_def completed_event_def payload_ok_def event_value.simps)
  show "rewrites_answer (published (n, completed_event eid now res))"
    by (simp add: rewrites_answer_def published_def completed_event_def)
qed

text \<open>
  C3. The user sees the answer. For every execution of the agent that returns, whatever the model, the tools and the
  stores did, and at whatever point the interface attaches to it, the interface that reads the state frame of the
  projection so far and then the frames of the later events, the runner's completion last, raises nothing and ends with
  a text that is, up to surrounding space, the answer the execution returned.
\<close>

theorem interface_shows_answer:
  assumes "graph_engine ainvoke"
    and "program_execute ainvoke (traced pg) e s q policy (w, []) = (Inr res, (w', log_events))"
    and "n \<le> length log_events"
  shows "\<exists>p1 ob. reduce_all (tx_repr tx) m (initial_projection (tx_repr tx) e None) (take n (publications log_events)) = Inr p1
    \<and> watch tx (observed (live_frame e high seen p1)
          # map (item_frame e) (drop n (publications (log_events @ [completed_event e now res]))))
        (new_observation_state e) = (Inr (), ob)
    \<and> py_strip (ob_content ob) = ar_answer res \<and> ar_answer res \<noteq> []"
proof -
  obtain pre started post where ne: "ar_answer res \<noteq> []" and log: "log_events = pre @ started # post"
    and pre: "\<forall>x \<in> set pre. silent x" and st: "ev_type started = ANSWER_STARTED"
    and said: "py_strip (concat (deltas_of post)) = ar_answer res" and post: "list_all clean_event (started # post)"
    using told_answer[OF assms(1,2)] .
  let ?items = "publications log_events" and ?fin = "published (Suc (length log_events), completed_event e now res)"
  have clean: "list_all clean_event log_events" using pre post unfolding log list_all_append by (simp add: list_all_iff silent_def)
  have "publishable x \<and> \<not> rewrites_answer x" if x_in: "x \<in> set ?items" for x
  proof -
    obtain k y where "y \<in> set log_events" and x: "x = published (k, y)" using in_publications[OF x_in] by blast
    then have "clean_event y" using clean by (simp add: list_all_iff)
    then show ?thesis unfolding x using published_clean(1,2) by blast
  qed
  then have ok: "list_all publishable ?items" "list_all (\<lambda>x. \<not> rewrites_answer x) ?items" by (simp_all add: list_all_iff)
  have all: "publications (log_events @ [completed_event e now res]) = ?items @ [?fin]"
    by (simp add: publications_def enumerate_append_eq)
  have split: "take n ?items @ drop n ?items = ?items" by simp
  have last: "list_all publishable [?fin]" "list_all rewrites_answer [?fin]" using completed_publishable by simp_all
  have "list_all publishable (take n ?items @ drop n ?items @ [?fin])" using ok(1) last(1) by (simp only: append_assoc[symmetric] split list_all_append)
  moreover have "list_all (\<lambda>x. \<not> rewrites_answer x) (take n ?items @ drop n ?items)" using ok(2) by (simp only: split)
  ultimately obtain p1 p2 ob where p1: "reduce_all (tx_repr tx) m (initial_projection (tx_repr tx) e None) (take n ?items) = Inr p1"
    and p2: "reduce_all (tx_repr tx) m (initial_projection (tx_repr tx) e None) (take n ?items @ drop n ?items) = Inr p2"
    and run: "watch tx (observed (live_frame e high seen p1) # map (item_frame e) (drop n ?items @ [?fin])) (new_observation_state e)
        = (Inr (), ob)"
    and final: "ob_content ob = settled (tx_repr tx) [?fin] (Projection_Props.answer_text (tx_repr tx) p2)"
    using attached_shows[OF _ _ last(2), of "take n ?items" "drop n ?items" tx m e high seen] by blast
  have none: "deltas_of pre = []" using pre by (simp add: deltas_of_def silent_def delta_of_def)
  have cons: "deltas_of (x # xs) = delta_of x @ deltas_of xs" "deltas_of (xs @ ys) = deltas_of xs @ deltas_of ys" for x xs ys
    by (simp_all add: deltas_of_def)
  have "delta_of started = []" using st by (simp add: delta_of_def)
  then have quiet: "concat (deltas_of log_events) = concat (deltas_of post)" by (simp add: log cons none)
  have "Projection_Props.answer_text (tx_repr tx) p2
      = Projection_Props.answer_text (tx_repr tx) (initial_projection (tx_repr tx) e None) @ concat (map (delta_text (tx_repr tx)) ?items)"
    using deltas_concatenate[OF p2[unfolded split] ok(2)] .
  then have "Projection_Props.answer_text (tx_repr tx) p2 = concat (deltas_of post)"
    using deltas_published[OF clean, of "tx_repr tx"] quiet
    by (simp add: Projection_Props.answer_text_def initial_projection_def Let_def dict_simps)
  then have "py_strip (ob_content ob) = ar_answer res"
    unfolding final using said by (intro settled_strips) simp_all
  moreover have "drop n (publications (log_events @ [completed_event e now res])) = drop n ?items @ [?fin]"
    using assms(3) unfolding all drop_append by (simp add: publications_def)
  ultimately show ?thesis using p1 run ne by (intro exI[of _ p1] exI[of _ ob]) (simp only: simp_thms)
qed

theorem interface_shows_answer_witness:
  "\<exists>res w' log_events p1 ob. program_execute drive (demo []) (lit ''e'') [] (lit ''q'') demo_policy ((), []) = (Inr res, (w', log_events))
     \<and> watch summary_text (observed (live_frame (lit ''e'') 0 None p1)
          # map (item_frame (lit ''e'')) (drop 0 (publications (log_events @ [completed_event (lit ''e'') [] res]))))
        (new_observation_state (lit ''e'')) = (Inr (), ob)
     \<and> py_strip (ob_content ob) = ar_answer res"
proof -
  obtain res w' l where r: "program_execute drive (demo []) (lit ''e'') [] (lit ''q'') demo_policy ((), []) = (Inr res, (w', l))"
    using demo_answers by (metis prod.collapse)
  from interface_shows_answer[OF drive.graph_engine_axioms r, of 0 summary_text 5 0 None "[]"] r show ?thesis by blast
qed

end
