(* ===== verification/Visualization.thy ===== *)
theory Visualization
  imports EventLog
begin

text \<open>
  The visualizations an answer may carry (\<open>ui/visualization.py\<close>): the validation of an inline directive, which either
  raises a \<open>ValueError\<close> or returns a chart that can be drawn, and the older contract of a result with rows. The text of
  a float or a container and \<open>str.lower\<close> outside ASCII are parameters. A chart that was accepted is \<open>drawable\<close>.
\<close>

section \<open>Values\<close>

definition MAX_INLINE_VISUALIZATION_ROWS :: nat where
  "MAX_INLINE_VISUALIZATION_ROWS = 100"

definition MAX_INLINE_VISUALIZATION_SERIES :: nat where
  "MAX_INLINE_VISUALIZATION_SERIES = 8"

record prepared_visualization =
  pv_type :: pystr
  pv_title :: "pystr option"
  pv_rows :: "pdict list"
  pv_x :: "pystr option"
  pv_y :: "pystr list"
  pv_hue :: "pystr option"
  pv_x_label :: "pystr option"
  pv_y_label :: "pystr option"
  pv_orientation :: pystr

text \<open>The dataclass with its defaults.\<close>

definition table_of :: "pystr option \<Rightarrow> pdict list \<Rightarrow> prepared_visualization" where
  "table_of title rows =
     \<lparr>pv_type = lit ''table'', pv_title = title, pv_rows = rows, pv_x = None, pv_y = [], pv_hue = None,
      pv_x_label = None, pv_y_label = None, pv_orientation = lit ''vertical''\<rparr>"

text \<open>What depends on Python's text of values: \<open>repr\<close>, \<open>str.lower\<close> and the reading of a fractional number.\<close>

record viz_text =
  vt_repr :: repr
  vt_lower :: "pystr \<Rightarrow> pystr"
  vt_read :: "pystr \<Rightarrow> rat"

section \<open>Reading names\<close>

definition optional_text :: "repr \<Rightarrow> pyval \<Rightarrow> pystr option" where
  "optional_text rp value =
     (if value = PNone then None
      else let normalized = py_strip (py_str rp value) in if normalized = [] then None else Some normalized)"

definition required_text :: "repr \<Rightarrow> pyval \<Rightarrow> pystr \<Rightarrow> pystr res" where
  "required_text rp value field =
     (case optional_text rp value of
        None \<Rightarrow> Inl (Exn ValueError (lit ''Visualization requires a non-empty '' @ field @ lit '' field''))
      | Some normalized \<Rightarrow> Inr normalized)"

fun normalize_y :: "repr \<Rightarrow> pyval \<Rightarrow> pystr list" where
  "normalize_y rp (PStr s) = (if py_strip s = [] then [] else [py_strip s])"
| "normalize_y rp (PList items) = filter (\<lambda>s. s \<noteq> []) (map (\<lambda>item. py_strip (py_str rp item)) items)"
| "normalize_y rp _ = []"

fun is_number :: "pyval \<Rightarrow> bool" where
  "is_number (PInt _) = True"
| "is_number (PFloat _) = True"
| "is_number _ = False"

text \<open>\<open>require_numeric_column\<close>, with \<open>found\<close> the flag of its loop.\<close>

fun numeric_loop :: "repr \<Rightarrow> pystr \<Rightarrow> bool \<Rightarrow> pdict list \<Rightarrow> unit res" where
  "numeric_loop rp field found [] =
     guard found (Exn ValueError (lit ''Visualization field '' @ rp (PStr field) @ lit '' has no numeric values''))"
| "numeric_loop rp field found (row # rows) =
     (let value = dget row field
      in if value = PNone then numeric_loop rp field found rows
         else if \<not> is_number value
         then Inl (Exn ValueError (lit ''Visualization field '' @ rp (PStr field) @ lit '' must contain numeric values''))
         else numeric_loop rp field True rows)"

definition require_numeric_column :: "repr \<Rightarrow> pdict list \<Rightarrow> pystr \<Rightarrow> unit res" where
  "require_numeric_column rp rows field = numeric_loop rp field False rows"

text \<open>
  A key is hashed and compared: lists and dictionaries have no hash, and numbers of every kind are equal when their
  values are, which is what \<open>same_key\<close> identifies.
\<close>

fun hashable :: "pyval \<Rightarrow> bool" where
  "hashable (PList _) = False"
| "hashable (PDict _) = False"
| "hashable (PTuple vs) = (\<forall>v \<in> set vs. hashable v)"
| "hashable _ = True"

fun same_key :: "pyval \<Rightarrow> pyval" where
  "same_key (PBool b) = PFloat (if b then 1 else 0)"
| "same_key (PInt i) = PFloat (of_int i)"
| "same_key (PTuple vs) = PTuple (map same_key vs)"
| "same_key v = v"

definition grain_key :: "pystr list \<Rightarrow> pdict \<Rightarrow> pyval list" where
  "grain_key names row = map (\<lambda>field. dget row field) names"

fun grain_loop :: "pystr list \<Rightarrow> pyval list set \<Rightarrow> pdict list \<Rightarrow> unit res" where
  "grain_loop names seen [] = Inr ()"
| "grain_loop names seen (row # rows) =
     (let key = grain_key names row
      in if \<not> (\<forall>v \<in> set key. hashable v)
         then Inl (Exn ValueError (lit ''Chart grouping names must contain scalar values''))
         else if map same_key key \<in> seen
         then Inl (Exn ValueError (lit ''Chart data must already be aggregated to the presentation grain; duplicate values were found for ''
                @ py_join (lit '', '') names))
         else grain_loop names (insert (map same_key key) seen) rows)"

definition require_unique_grain :: "pdict list \<Rightarrow> pystr list \<Rightarrow> unit res" where
  "require_unique_grain rows names = grain_loop names {} rows"

section \<open>The inline directive\<close>

text \<open>The columns, the rows, and then what a chart needs, in the order of the code.\<close>

definition inline_columns :: "pyval \<Rightarrow> pystr list res" where
  "inline_columns columns =
     (case columns of
        PList cs \<Rightarrow>
          if cs = [] then Inl (Exn ValueError (lit ''Visualization data.columns must be a non-empty list''))
          else if 64 < length cs \<or> \<not> (\<forall>c \<in> set cs. is_str c)
          then Inl (Exn ValueError (lit ''Visualization data.columns contains invalid values''))
          else
            (let normalized = map (\<lambda>c. py_strip (py_str (\<lambda>_. []) c)) cs
             in if [] \<in> set normalized then Inl (Exn ValueError (lit ''Visualization columns must be non-empty''))
                else if card (set normalized) \<noteq> length normalized
                then Inl (Exn ValueError (lit ''Visualization columns must be unique''))
                else Inr normalized)
      | _ \<Rightarrow> Inl (Exn ValueError (lit ''Visualization data.columns must be a non-empty list'')))"

fun row_loop :: "repr \<Rightarrow> pystr list \<Rightarrow> nat \<Rightarrow> pyval list \<Rightarrow> pdict list res" where
  "row_loop rp columns index [] = Inr []"
| "row_loop rp columns index (PDict row # rows) =
     (let missing = filter (\<lambda>column. \<not> dhas row column) columns
      in if missing \<noteq> []
         then Inl (Exn ValueError (lit ''Visualization row '' @ dec_nat index @ lit '' is missing columns: ''
                @ rp (PList (map PStr missing))))
         else rbind (row_loop rp columns (Suc index) rows) (\<lambda>rest.
                Inr (map (\<lambda>column. (column, dget row column)) columns # rest)))"
| "row_loop rp columns index (_ # rows) = Inl (Exn ValueError (lit ''Visualization rows must be objects''))"

definition inline_rows :: "repr \<Rightarrow> pystr list \<Rightarrow> pyval \<Rightarrow> pdict list res" where
  "inline_rows rp columns rows =
     (case rows of
        PList rs \<Rightarrow>
          if rs = [] then Inl (Exn ValueError (lit ''Visualization data.rows must be a non-empty list''))
          else if MAX_INLINE_VISUALIZATION_ROWS < length rs
          then Inl (Exn ValueError (lit ''Visualization cannot contain more than ''
                 @ dec_nat MAX_INLINE_VISUALIZATION_ROWS @ lit '' rows''))
          else if \<not> (\<forall>r \<in> set rs. is_dict r) then Inl (Exn ValueError (lit ''Visualization rows must be objects''))
          else row_loop rp columns 0 rs
      | _ \<Rightarrow> Inl (Exn ValueError (lit ''Visualization data.rows must be a non-empty list'')))"

definition chart_y :: "repr \<Rightarrow> pystr list \<Rightarrow> pyval \<Rightarrow> pystr list res" where
  "chart_y rp columns raw =
     (let y = normalize_y rp raw; missing_y = filter (\<lambda>field. field \<notin> set columns) y
      in if y = [] then Inl (Exn ValueError (lit ''Chart visualization requires at least one y field''))
         else if MAX_INLINE_VISUALIZATION_SERIES < length y
         then Inl (Exn ValueError (lit ''Visualization cannot contain more than ''
                @ dec_nat MAX_INLINE_VISUALIZATION_SERIES @ lit '' series''))
         else if missing_y \<noteq> []
         then Inl (Exn ValueError (lit ''Visualization y names do not exist in data: '' @ rp (PList (map PStr missing_y))))
         else Inr y)"

definition chart_hue :: "repr \<Rightarrow> pystr list \<Rightarrow> pystr list \<Rightarrow> pyval \<Rightarrow> pystr option res" where
  "chart_hue rp columns y raw =
     (case optional_text rp raw of
        None \<Rightarrow> Inr None
      | Some hue \<Rightarrow>
          if hue \<notin> set columns
          then Inl (Exn ValueError (lit ''Visualization hue field '' @ rp (PStr hue) @ lit '' does not exist in data''))
          else if 1 < length y then Inl (Exn ValueError (lit ''Multiple y series cannot be combined with hue''))
          else Inr (Some hue))"

definition chart_orientation :: "viz_text \<Rightarrow> pystr \<Rightarrow> pyval \<Rightarrow> pystr res" where
  "chart_orientation vt kind raw =
     (let orientation = vt_lower vt (py_strip (py_str (vt_repr vt) (py_or raw (PStr (lit ''vertical'')))))
      in if orientation \<noteq> lit ''vertical'' \<and> orientation \<noteq> lit ''horizontal''
         then Inl (Exn ValueError (lit ''Visualization orientation must be vertical or horizontal''))
         else if orientation = lit ''horizontal'' \<and> kind \<noteq> lit ''bar''
         then Inl (Exn ValueError (lit ''Horizontal orientation is supported only for bar visualizations''))
         else Inr orientation)"

fun each :: "('a \<Rightarrow> unit res) \<Rightarrow> 'a list \<Rightarrow> unit res" where
  "each f [] = Inr ()"
| "each f (x # xs) = rbind (f x) (\<lambda>_. each f xs)"

definition chart_checks :: "repr \<Rightarrow> pystr \<Rightarrow> pdict list \<Rightarrow> pystr \<Rightarrow> pystr list \<Rightarrow> pystr option \<Rightarrow> unit res" where
  "chart_checks rp kind rows x y hue =
     rbind (guard (kind = lit ''scatter'' \<longrightarrow> length y = 1)
              (Exn ValueError (lit ''Scatter visualization requires exactly one y field''))) (\<lambda>_.
     rbind (each (require_numeric_column rp rows) y) (\<lambda>_.
     rbind (if kind = lit ''scatter'' then require_numeric_column rp rows x else Inr ()) (\<lambda>_.
       if kind \<in> {lit ''bar'', lit ''line''}
       then require_unique_grain rows (x # (case hue of None \<Rightarrow> [] | Some h \<Rightarrow> [h]))
       else Inr ())))"

definition inline_chart ::
  "viz_text \<Rightarrow> pdict \<Rightarrow> pystr \<Rightarrow> pystr list \<Rightarrow> pdict list \<Rightarrow> prepared_visualization \<Rightarrow> prepared_visualization res" where
  "inline_chart vt payload kind columns rows table =
     (let rp = vt_repr vt in
      rbind (required_text rp (dget payload (lit ''x'')) (lit ''x'')) (\<lambda>x.
      rbind (guard (x \<in> set columns)
               (Exn ValueError (lit ''Visualization x field '' @ rp (PStr x) @ lit '' does not exist in data''))) (\<lambda>_.
      rbind (chart_y rp columns (dget payload (lit ''y''))) (\<lambda>y.
      rbind (chart_hue rp columns y (dget payload (lit ''hue''))) (\<lambda>hue.
      rbind (chart_orientation vt kind (dget payload (lit ''orientation''))) (\<lambda>orientation.
      rbind (chart_checks rp kind rows x y hue) (\<lambda>_.
        Inr (table\<lparr>pv_type := kind, pv_x := Some x, pv_y := y, pv_hue := hue, pv_orientation := orientation\<rparr>))))))))"

definition CHART_TYPES :: "pystr set" where
  "CHART_TYPES = {lit ''table'', lit ''bar'', lit ''line'', lit ''scatter''}"

definition prepare_inline_visualization :: "viz_text \<Rightarrow> pdict \<Rightarrow> prepared_visualization res" where
  "prepare_inline_visualization vt payload =
     (let rp = vt_repr vt;
          kind = vt_lower vt (py_strip (py_str rp (py_or (dget payload (lit ''type'')) (PStr []))))
      in rbind (guard (num_val (dget payload (lit ''version'')) = Some 1)
                 (Exn ValueError (lit ''Visualization version must be 1''))) (\<lambda>_.
         rbind (guard (kind \<in> CHART_TYPES)
                 (Exn ValueError (lit ''Unsupported visualization type: '' @ (if kind = [] then lit ''missing'' else kind)))) (\<lambda>_.
           (case dget payload (lit ''data'') of
              PDict data \<Rightarrow>
                rbind (inline_columns (dget data (lit ''columns''))) (\<lambda>columns.
                rbind (inline_rows rp columns (dget data (lit ''rows''))) (\<lambda>rows.
                  let table = (table_of (optional_text rp (dget payload (lit ''title''))) rows)
                        \<lparr>pv_x_label := optional_text rp (dget payload (lit ''x_label'')),
                         pv_y_label := optional_text rp (dget payload (lit ''y_label''))\<rparr>
                  in if kind = lit ''table'' then Inr table else inline_chart vt payload kind columns rows table))
            | _ \<Rightarrow> Inl (Exn ValueError (lit ''Visualization data must be an object''))))))"

section \<open>The contract of a result with rows\<close>

definition normalize_mapping_rows :: "pyval list \<Rightarrow> pdict list" where
  "normalize_mapping_rows rows =
     (if \<forall>r \<in> set rows. is_dict r then map (\<lambda>r. case r of PDict d \<Rightarrow> d | _ \<Rightarrow> []) rows else [])"

text \<open>\<open>dict(zip(columns, row))\<close> for a row given as a sequence.\<close>

fun zip_rows :: "pystr list \<Rightarrow> pyval list \<Rightarrow> pdict list option" where
  "zip_rows columns [] = Some []"
| "zip_rows columns (r # rows) =
     (case (case r of PList vs \<Rightarrow> Some vs | PTuple vs \<Rightarrow> Some vs | _ \<Rightarrow> None) of
        None \<Rightarrow> None
      | Some vs \<Rightarrow>
          if length vs \<noteq> length columns then None
          else map_option (\<lambda>rest. dmerge [] (zip columns vs) # rest) (zip_rows columns rows))"

definition rows_from_candidate :: "pyval \<Rightarrow> pdict list" where
  "rows_from_candidate candidate =
     (case candidate of
        PList rs \<Rightarrow> normalize_mapping_rows rs
      | PDict d \<Rightarrow>
          (case dget d (lit ''rows'') of
             PList rs \<Rightarrow>
               if normalize_mapping_rows rs \<noteq> [] then normalize_mapping_rows rs
               else (case dget d (lit ''columns'') of
                 PList cs \<Rightarrow>
                   if \<forall>c \<in> set cs. is_str c
                   then (case zip_rows (map (py_str (\<lambda>_. [])) cs) rs of None \<Rightarrow> [] | Some rows \<Rightarrow> rows)
                   else []
               | _ \<Rightarrow> [])
           | _ \<Rightarrow> [])
      | _ \<Rightarrow> [])"

definition extract_rows :: "pdict \<Rightarrow> pdict list" where
  "extract_rows result =
     (let rows = rows_from_candidate (dget result (lit ''data''))
      in if rows \<noteq> [] then rows else rows_from_candidate (PDict result))"

definition prepare_visualization :: "viz_text \<Rightarrow> pdict option \<Rightarrow> prepared_visualization option" where
  "prepare_visualization vt result =
     (let rp = vt_repr vt; r = (case result of None \<Rightarrow> [] | Some d \<Rightarrow> d); rows = extract_rows r
      in if r = [] \<or> rows = [] then None
         else (case dget r (lit ''visualization'') of
           PDict raw \<Rightarrow>
             let kind = vt_lower vt (py_strip (py_str rp (py_or (dget raw (lit ''type'')) (PStr (lit ''table'')))));
                 title = optional_text rp (dget raw (lit ''title''));
                 x = optional_text rp (dget raw (lit ''x''));
                 y = normalize_y rp (dget raw (lit ''y''))
             in if kind = lit ''none'' then None
                else if kind \<notin> CHART_TYPES - {lit ''table''} then Some (table_of title rows)
                else if x = None \<or> the x \<notin> dkeys (hd rows) \<or> y = [] \<or> \<not> set y \<subseteq> dkeys (hd rows)
                then Some (table_of title rows)
                else Some ((table_of title rows)
                       \<lparr>pv_type := kind, pv_x := x, pv_y := (if kind = lit ''scatter'' then take 1 y else y)\<rparr>)
         | _ \<Rightarrow> Some (table_of None rows)))"

section \<open>Charts that can be drawn\<close>

definition stripped :: "pystr \<Rightarrow> bool" where
  "stripped s \<longleftrightarrow> s \<noteq> [] \<and> py_strip s = s"

definition text_ok :: "pystr option \<Rightarrow> bool" where
  "text_ok t = (case t of None \<Rightarrow> True | Some s \<Rightarrow> stripped s)"

definition columns_ok :: "pystr list \<Rightarrow> bool" where
  "columns_ok columns \<longleftrightarrow> columns \<noteq> [] \<and> length columns \<le> 64 \<and> distinct columns \<and> (\<forall>c \<in> set columns. stripped c)"

definition numeric_column :: "pdict list \<Rightarrow> pystr \<Rightarrow> bool" where
  "numeric_column rows field \<longleftrightarrow>
     (\<forall>row \<in> set rows. dget row field = PNone \<or> is_number (dget row field))
   \<and> (\<exists>row \<in> set rows. is_number (dget row field))"

text \<open>No two rows draw to the same place.\<close>

definition unique_grain :: "pystr list \<Rightarrow> pdict list \<Rightarrow> bool" where
  "unique_grain names rows \<longleftrightarrow>
     (\<forall>row \<in> set rows. \<forall>v \<in> set (grain_key names row). hashable v)
   \<and> distinct (map (\<lambda>row. map same_key (grain_key names row)) rows)"

definition chart_ok ::
  "pystr \<Rightarrow> pystr list \<Rightarrow> pdict list \<Rightarrow> pystr \<Rightarrow> pystr list \<Rightarrow> pystr option \<Rightarrow> pystr \<Rightarrow> bool" where
  "chart_ok kind columns rows x y hue orientation \<longleftrightarrow>
     x \<in> set columns \<and> y \<noteq> [] \<and> length y \<le> 8 \<and> set y \<subseteq> set columns
   \<and> (case hue of None \<Rightarrow> True | Some h \<Rightarrow> h \<in> set columns \<and> length y = 1)
   \<and> (orientation = lit ''vertical'' \<or> (orientation = lit ''horizontal'' \<and> kind = lit ''bar''))
   \<and> (\<forall>f \<in> set y. numeric_column rows f)
   \<and> (kind = lit ''scatter'' \<longrightarrow> length y = 1 \<and> numeric_column rows x)
   \<and> (kind \<in> {lit ''bar'', lit ''line''} \<longrightarrow> unique_grain (x # (case hue of None \<Rightarrow> [] | Some h \<Rightarrow> [h])) rows)"

definition table_ok :: "pystr list \<Rightarrow> pdict list \<Rightarrow> bool" where
  "table_ok columns rows \<longleftrightarrow>
     columns_ok columns \<and> rows \<noteq> [] \<and> length rows \<le> 100 \<and> (\<forall>row \<in> set rows. map fst row = columns)"

definition drawable :: "prepared_visualization \<Rightarrow> bool" where
  "drawable v \<longleftrightarrow>
     (let rows = pv_rows v; columns = map fst (hd rows)
      in table_ok columns rows \<and> text_ok (pv_title v) \<and> text_ok (pv_x_label v) \<and> text_ok (pv_y_label v)
       \<and> (if pv_type v = lit ''table''
          then pv_x v = None \<and> pv_y v = [] \<and> pv_hue v = None \<and> pv_orientation v = lit ''vertical''
          else pv_type v \<in> {lit ''bar'', lit ''line'', lit ''scatter''}
             \<and> (case pv_x v of None \<Rightarrow> False
                | Some x \<Rightarrow> chart_ok (pv_type v) columns rows x (pv_y v) (pv_hue v) (pv_orientation v))))"

text \<open>The directive that asks for a given chart.\<close>

definition payload_of :: "prepared_visualization \<Rightarrow> pdict" where
  "payload_of v =
     [(lit ''version'', PInt 1), (lit ''type'', PStr (pv_type v)), (lit ''title'', opt_str (pv_title v)),
      (lit ''data'', PDict [(lit ''columns'', PList (map (PStr \<circ> fst) (hd (pv_rows v)))),
         (lit ''rows'', PList (map PDict (pv_rows v)))]),
      (lit ''x'', opt_str (pv_x v)), (lit ''y'', PList (map PStr (pv_y v))), (lit ''hue'', opt_str (pv_hue v)),
      (lit ''x_label'', opt_str (pv_x_label v)), (lit ''y_label'', opt_str (pv_y_label v)),
      (lit ''orientation'', PStr (pv_orientation v))]"

text \<open>\<open>str.lower\<close> leaves the words of the directive as they are.\<close>

definition lower_ok :: "viz_text \<Rightarrow> bool" where
  "lower_ok vt \<longleftrightarrow>
     (\<forall>s \<in> {lit ''table'', lit ''bar'', lit ''line'', lit ''scatter'', lit ''vertical'', lit ''horizontal''}. vt_lower vt s = s)"

section \<open>What the checks establish\<close>

lemma stripped_strip: "py_strip s \<noteq> [] \<Longrightarrow> stripped (py_strip s)"
  by (simp add: stripped_def)

lemma optional_text_ok: "text_ok (optional_text rp value)"
  by (simp add: optional_text_def text_ok_def Let_def stripped_strip)

lemma optional_text_back: "text_ok t \<Longrightarrow> optional_text rp (opt_str t) = t"
  by (cases t) (auto simp: optional_text_def text_ok_def opt_str_def stripped_def)

lemma required_text_Inr: "required_text rp value field = Inr x \<longleftrightarrow> optional_text rp value = Some x"
  by (simp add: required_text_def split: option.splits)

lemma each_Inr: "each f xs = Inr u \<longleftrightarrow> (\<forall>x \<in> set xs. f x = Inr ())"
  by (induction xs) auto

lemma numeric_loop_Inr:
  "numeric_loop rp field found rows = Inr u \<longleftrightarrow>
     (\<forall>row \<in> set rows. dget row field = PNone \<or> is_number (dget row field))
   \<and> (found \<or> (\<exists>row \<in> set rows. is_number (dget row field)))"
  by (induction rows arbitrary: found) (auto simp: Let_def)

lemma require_numeric_Inr: "require_numeric_column rp rows field = Inr u \<longleftrightarrow> numeric_column rows field"
  by (simp add: require_numeric_column_def numeric_loop_Inr numeric_column_def)

lemma grain_loop_Inr:
  "grain_loop names seen rows = Inr u \<longleftrightarrow>
     unique_grain names rows \<and> (\<forall>row \<in> set rows. map same_key (grain_key names row) \<notin> seen)"
  by (induction rows arbitrary: seen) (auto simp: Let_def unique_grain_def image_iff eq_commute)

lemma require_grain_Inr: "require_unique_grain rows names = Inr u \<longleftrightarrow> unique_grain names rows"
  by (simp add: require_unique_grain_def grain_loop_Inr)

lemma normalize_y_stripped: "f \<in> set (normalize_y rp v) \<Longrightarrow> stripped f"
  by (cases v) (auto simp: stripped_strip split: if_splits)

lemma normalize_y_back: "\<forall>f \<in> set ys. stripped f \<Longrightarrow> normalize_y rp (PList (map PStr ys)) = ys"
  by (induction ys) (auto simp: stripped_def)

lemma chart_y_Inr:
  "chart_y rp columns raw = Inr y \<longleftrightarrow>
     y = normalize_y rp raw \<and> y \<noteq> [] \<and> length y \<le> 8 \<and> set y \<subseteq> set columns"
  by (auto simp: chart_y_def Let_def MAX_INLINE_VISUALIZATION_SERIES_def filter_empty_conv split: if_splits)

lemma chart_hue_Inr:
  "chart_hue rp columns y raw = Inr hue \<longleftrightarrow>
     hue = optional_text rp raw \<and> (case hue of None \<Rightarrow> True | Some h \<Rightarrow> h \<in> set columns \<and> length y \<le> 1)"
  by (auto simp: chart_hue_def split: option.splits)

lemma chart_orientation_Inr:
  "chart_orientation vt kind raw = Inr r \<longleftrightarrow>
     r = vt_lower vt (py_strip (py_str (vt_repr vt) (py_or raw (PStr (lit ''vertical'')))))
   \<and> (r = lit ''vertical'' \<or> (r = lit ''horizontal'' \<and> kind = lit ''bar''))"
  by (auto simp: chart_orientation_def Let_def)

lemma chart_checks_Inr:
  "chart_checks rp kind rows x y hue = Inr u \<longleftrightarrow>
     (\<forall>f \<in> set y. numeric_column rows f)
   \<and> (kind = lit ''scatter'' \<longrightarrow> length y = 1 \<and> numeric_column rows x)
   \<and> (kind \<in> {lit ''bar'', lit ''line''} \<longrightarrow> unique_grain (x # (case hue of None \<Rightarrow> [] | Some h \<Rightarrow> [h])) rows)"
  by (auto simp: chart_checks_def each_Inr require_numeric_Inr require_grain_Inr)

lemma inline_columns_ok: "inline_columns c = Inr columns \<Longrightarrow> columns_ok columns"
  by (auto simp: inline_columns_def columns_ok_def Let_def card_distinct stripped_def split: pyval.splits if_splits)

lemma inline_columns_back: "columns_ok columns \<Longrightarrow> inline_columns (PList (map PStr columns)) = Inr columns"
proof -
  assume ok: "columns_ok columns"
  then have "map (py_strip \<circ> py_str (\<lambda>_. []) \<circ> PStr) columns = columns"
    by (intro map_idI) (simp add: columns_ok_def stripped_def)
  with ok show ?thesis
    by (auto simp: inline_columns_def columns_ok_def Let_def distinct_card stripped_def comp_def)
qed

lemma row_loop_ok:
  "row_loop rp columns i rs = Inr rows \<Longrightarrow> length rows = length rs \<and> (\<forall>row \<in> set rows. map fst row = columns)"
  by (induction rp columns i rs arbitrary: rows rule: row_loop.induct) (auto simp: Let_def comp_def split: if_splits)

lemma row_loop_back:
  "distinct columns \<Longrightarrow> \<forall>row \<in> set rows. map fst row = columns \<Longrightarrow> row_loop rp columns i (map PDict rows) = Inr rows"
proof (induction rows arbitrary: i)
  case (Cons row rows)
  then have keys: "map fst row = columns" by simp
  have "map (\<lambda>column. (column, dget row column)) columns = row"
    using Cons.prems(1) unfolding keys[symmetric] by (auto simp: comp_def dget_def intro!: map_idI)
  moreover have "\<forall>column \<in> set columns. dhas row column"
    unfolding keys[symmetric] by (simp add: dhas_def)
  ultimately show ?case using Cons by (simp add: filter_empty_conv Let_def)
qed simp

lemma inline_rows_ok:
  "inline_rows rp columns rs = Inr rows \<Longrightarrow> rows \<noteq> [] \<and> length rows \<le> 100 \<and> (\<forall>row \<in> set rows. map fst row = columns)"
  by (auto simp: inline_rows_def MAX_INLINE_VISUALIZATION_ROWS_def dest: row_loop_ok split: pyval.splits if_splits)

lemma inline_rows_back:
  "distinct columns \<Longrightarrow> rows \<noteq> [] \<Longrightarrow> length rows \<le> 100 \<Longrightarrow> \<forall>row \<in> set rows. map fst row = columns \<Longrightarrow>
   inline_rows rp columns (PList (map PDict rows)) = Inr rows"
  by (auto simp: inline_rows_def MAX_INLINE_VISUALIZATION_ROWS_def row_loop_back)


section \<open>Exactly the drawable charts\<close>

abbreviation labelled :: "pystr option \<Rightarrow> pystr option \<Rightarrow> pystr option \<Rightarrow> pdict list \<Rightarrow> prepared_visualization" where
  "labelled t xl yl rows \<equiv> (table_of t rows)\<lparr>pv_x_label := xl, pv_y_label := yl\<rparr>"

abbreviation charted ::
  "prepared_visualization \<Rightarrow> pystr \<Rightarrow> pystr \<Rightarrow> pystr list \<Rightarrow> pystr option \<Rightarrow> pystr \<Rightarrow> prepared_visualization" where
  "charted table kind x y hue orientation \<equiv>
     table\<lparr>pv_type := kind, pv_x := Some x, pv_y := y, pv_hue := hue, pv_orientation := orientation\<rparr>"

lemma chart_ok_iff:
  "chart_ok kind columns rows x y hue orientation \<longleftrightarrow>
     x \<in> set columns \<and> (y \<noteq> [] \<and> length y \<le> 8 \<and> set y \<subseteq> set columns)
   \<and> (case hue of None \<Rightarrow> True | Some h \<Rightarrow> h \<in> set columns \<and> length y \<le> 1)
   \<and> (orientation = lit ''vertical'' \<or> (orientation = lit ''horizontal'' \<and> kind = lit ''bar''))
   \<and> chart_checks rp kind rows x y hue = Inr ()"
  by (cases y; cases hue) (auto simp: chart_ok_def chart_checks_Inr)

lemma inline_chart_Inr:
  "inline_chart vt payload kind columns rows table = Inr v \<longleftrightarrow>
     (\<exists>x y hue orientation.
        optional_text (vt_repr vt) (dget payload (lit ''x'')) = Some x
      \<and> y = normalize_y (vt_repr vt) (dget payload (lit ''y''))
      \<and> hue = optional_text (vt_repr vt) (dget payload (lit ''hue''))
      \<and> orientation = vt_lower vt (py_strip (py_str (vt_repr vt) (py_or (dget payload (lit ''orientation'')) (PStr (lit ''vertical'')))))
      \<and> chart_ok kind columns rows x y hue orientation
      \<and> v = charted table kind x y hue orientation)"
  by (simp add: inline_chart_def Let_def required_text_Inr chart_y_Inr chart_hue_Inr chart_orientation_Inr chart_ok_iff[where rp = "vt_repr vt"])
    blast

lemma table_ok_stages:
  assumes "inline_columns c = Inr columns" and "inline_rows rp columns rs = Inr rows"
  shows "table_ok columns rows" and "map fst (hd rows) = columns"
  using inline_columns_ok[OF assms(1)] inline_rows_ok[OF assms(2)] by (auto simp: table_ok_def)

lemma drawable_labelled:
  "table_ok (map fst (hd rows)) rows \<Longrightarrow> text_ok t \<Longrightarrow> text_ok xl \<Longrightarrow> text_ok yl \<Longrightarrow> drawable (labelled t xl yl rows)"
  by (simp add: drawable_def table_of_def Let_def)

lemma drawable_charted:
  "table_ok (map fst (hd rows)) rows \<Longrightarrow> text_ok t \<Longrightarrow> text_ok xl \<Longrightarrow> text_ok yl \<Longrightarrow>
   kind \<in> {lit ''bar'', lit ''line'', lit ''scatter''} \<Longrightarrow> chart_ok kind (map fst (hd rows)) rows x y hue orientation \<Longrightarrow>
   drawable (charted (labelled t xl yl rows) kind x y hue orientation)"
  by (auto simp: drawable_def table_of_def Let_def)

lemma inline_sound:
  assumes "prepare_inline_visualization vt payload = Inr v"
  shows "drawable v"
proof -
  define rp where "rp = vt_repr vt"
  define kind where "kind = vt_lower vt (py_strip (py_str rp (py_or (dget payload (lit ''type'')) (PStr []))))"
  define t xl yl where "t = optional_text rp (dget payload (lit ''title''))"
    and "xl = optional_text rp (dget payload (lit ''x_label''))" and "yl = optional_text rp (dget payload (lit ''y_label''))"
  from assms obtain data columns rows
    where kind: "kind \<in> CHART_TYPES" and columns: "inline_columns (dget data (lit ''columns'')) = Inr columns"
      and rows: "inline_rows rp columns (dget data (lit ''rows'')) = Inr rows"
      and v: "(if kind = lit ''table'' then Inr (labelled t xl yl rows)
        else inline_chart vt payload kind columns rows (labelled t xl yl rows)) = Inr v"
    by (auto simp: prepare_inline_visualization_def Let_def simp flip: rp_def kind_def t_def xl_def yl_def split: pyval.splits cong: if_cong)
  note table = table_ok_stages[OF columns rows]
  have texts: "text_ok t" "text_ok xl" "text_ok yl"
    by (simp_all add: t_def xl_def yl_def optional_text_ok)
  show ?thesis
  proof (cases "kind = lit ''table''")
    case True
    then show ?thesis using v table texts by (auto intro: drawable_labelled)
  next
    case False
    with kind have "kind \<in> {lit ''bar'', lit ''line'', lit ''scatter''}" by (auto simp: CHART_TYPES_def)
    with v False table texts show ?thesis by (auto simp: inline_chart_Inr intro!: drawable_charted)
  qed
qed

text \<open>Reading the directive of a chart back, field by field.\<close>

lemma payload_fields:
  "dget (payload_of v) (lit ''version'') = PInt 1" "dget (payload_of v) (lit ''type'') = PStr (pv_type v)"
  "dget (payload_of v) (lit ''title'') = opt_str (pv_title v)" "dget (payload_of v) (lit ''x'') = opt_str (pv_x v)"
  "dget (payload_of v) (lit ''y'') = PList (map PStr (pv_y v))" "dget (payload_of v) (lit ''hue'') = opt_str (pv_hue v)"
  "dget (payload_of v) (lit ''x_label'') = opt_str (pv_x_label v)"
  "dget (payload_of v) (lit ''y_label'') = opt_str (pv_y_label v)"
  "dget (payload_of v) (lit ''orientation'') = PStr (pv_orientation v)"
  "dget (payload_of v) (lit ''data'') =
     PDict [(lit ''columns'', PList (map (PStr \<circ> fst) (hd (pv_rows v)))), (lit ''rows'', PList (map PDict (pv_rows v)))]"
  by (simp_all add: payload_of_def dict_simps)

lemma strip_words:
  "py_strip (lit ''table'') = lit ''table''" "py_strip (lit ''bar'') = lit ''bar''" "py_strip (lit ''line'') = lit ''line''"
  "py_strip (lit ''scatter'') = lit ''scatter''" "py_strip (lit ''vertical'') = lit ''vertical''"
  "py_strip (lit ''horizontal'') = lit ''horizontal''"
  by (rule py_strip_fix, simp add: lit_def is_space_def)+

lemma lower_strip:
  assumes "lower_ok vt"
  shows "vt_lower vt (py_strip (lit ''table'')) = lit ''table''" "vt_lower vt (py_strip (lit ''bar'')) = lit ''bar''"
    "vt_lower vt (py_strip (lit ''line'')) = lit ''line''" "vt_lower vt (py_strip (lit ''scatter'')) = lit ''scatter''"
    "vt_lower vt (py_strip (lit ''vertical'')) = lit ''vertical''"
    "vt_lower vt (py_strip (lit ''horizontal'')) = lit ''horizontal''"
  using assms by (simp_all add: strip_words lower_ok_def)

lemma chart_ok_texts:
  assumes "columns_ok columns" and "chart_ok kind columns rows x y hue orientation"
  shows "text_ok (Some x) \<and> text_ok hue \<and> (\<forall>f \<in> set y. stripped f)"
  using assms by (auto simp: chart_ok_def columns_ok_def text_ok_def split: option.splits)

lemma inline_complete:
  assumes lower: "lower_ok vt" and v: "drawable v"
  shows "prepare_inline_visualization vt (payload_of v) = Inr v"
proof -
  define rows columns where "rows = pv_rows v" and "columns = map fst (hd rows)"
  have table: "table_ok columns rows" and texts: "text_ok (pv_title v)" "text_ok (pv_x_label v)" "text_ok (pv_y_label v)"
    using v by (auto simp: drawable_def Let_def columns_def rows_def)
  have stages: "inline_columns (PList (map (PStr \<circ> fst) (hd rows))) = Inr columns"
    "inline_rows (vt_repr vt) columns (PList (map PDict rows)) = Inr rows"
  proof -
    have "map (PStr \<circ> fst) (hd rows) = map PStr columns" by (simp add: columns_def)
    then show "inline_columns (PList (map (PStr \<circ> fst) (hd rows))) = Inr columns"
      using table by (simp only: inline_columns_back table_ok_def)
    show "inline_rows (vt_repr vt) columns (PList (map PDict rows)) = Inr rows"
      by (rule inline_rows_back) (use table in \<open>simp_all add: table_ok_def columns_ok_def\<close>)
  qed
  have kind: "pv_type v \<in> CHART_TYPES" using v by (auto simp: drawable_def Let_def CHART_TYPES_def split: if_splits)
  have lowered: "vt_lower vt (py_strip (pv_type v)) = pv_type v" "pv_type v \<noteq> []"
    using kind lower_strip[OF lower] by (auto simp: CHART_TYPES_def)
  have run: "prepare_inline_visualization vt (payload_of v) =
    (let table = labelled (pv_title v) (pv_x_label v) (pv_y_label v) rows
     in if pv_type v = lit ''table'' then Inr table else inline_chart vt (payload_of v) (pv_type v) columns rows table)"
    using kind lowered texts stages
    by (simp add: prepare_inline_visualization_def Let_def payload_fields dict_simps optional_text_back py_or_def rows_def)
  show ?thesis
  proof (cases "pv_type v = lit ''table''")
    case True
    with v have "labelled (pv_title v) (pv_x_label v) (pv_y_label v) rows = v"
      by (cases v) (auto simp: drawable_def Let_def table_of_def rows_def)
    with True show ?thesis by (simp add: run)
  next
    case False
    then obtain x where x: "pv_x v = Some x"
      and chart: "chart_ok (pv_type v) columns rows x (pv_y v) (pv_hue v) (pv_orientation v)"
      using v by (auto simp: drawable_def Let_def columns_def rows_def split: option.splits)
    have "columns_ok columns" using table by (simp add: table_ok_def)
    note fields' = chart_ok_texts[OF this chart]
    have "vt_lower vt (py_strip (pv_orientation v)) = pv_orientation v" "pv_orientation v \<noteq> []"
      using chart lower_strip[OF lower] by (auto simp: chart_ok_def)
    then have "inline_chart vt (payload_of v) (pv_type v) columns rows (labelled (pv_title v) (pv_x_label v) (pv_y_label v) rows)
        = Inr (charted (labelled (pv_title v) (pv_x_label v) (pv_y_label v) rows) (pv_type v) x (pv_y v) (pv_hue v) (pv_orientation v))"
      using chart fields'
      by (simp add: inline_chart_Inr payload_fields normalize_y_back optional_text_back py_or_def x del: normalize_y.simps)
    also have "charted (labelled (pv_title v) (pv_x_label v) (pv_y_label v) rows) (pv_type v) x (pv_y v) (pv_hue v) (pv_orientation v) = v"
      by (cases v) (use x in \<open>simp add: table_of_def rows_def\<close>)
    finally show ?thesis using False by (simp add: run)
  qed
qed


text \<open>
  C27. The validation of an inline directive accepts exactly what can be drawn: a chart it returns has one to a hundred
  rows over the same distinct, non-empty columns, at most eight numeric series taken from them, no two rows drawn to the
  same place, and the directive written out for any such chart is accepted and returns that chart, field by field.
\<close>

theorem inline_visualization_exact:
  assumes "lower_ok vt"
  shows "(prepare_inline_visualization vt payload = Inr v \<longrightarrow> drawable v)
    \<and> (drawable v \<longrightarrow> prepare_inline_visualization vt (payload_of v) = Inr v)"
  using inline_sound inline_complete[OF assms] by blast

definition plain_viz :: viz_text where
  "plain_viz = \<lparr>vt_repr = (\<lambda>_. []), vt_lower = (\<lambda>s. s), vt_read = (\<lambda>_. 0)\<rparr>"

definition sales_row :: "string \<Rightarrow> int \<Rightarrow> pdict" where
  "sales_row month n = [(lit ''month'', PStr (lit month)), (lit ''total'', PInt n)]"

definition sales_chart :: "pdict list \<Rightarrow> prepared_visualization" where
  "sales_chart rows = charted (labelled (Some (lit ''Sales'')) None None rows) (lit ''bar'') (lit ''month'') [lit ''total''] None
     (lit ''vertical'')"

lemma stripped_words: "stripped (lit ''month'')" "stripped (lit ''total'')" "stripped (lit ''Sales'')"
  by (simp_all add: stripped_def, (rule py_strip_fix, simp add: lit_def is_space_def)+)

lemma sales_drawable: "drawable (sales_chart [sales_row ''jan'' 3, sales_row ''feb'' 5])"
  by (simp add: drawable_def sales_chart_def table_of_def sales_row_def table_ok_def columns_ok_def text_ok_def
      chart_ok_def numeric_column_def unique_grain_def grain_key_def dict_simps Let_def stripped_words)

lemma inline_visualization_exact_witness:
  "prepare_inline_visualization plain_viz (payload_of (sales_chart [sales_row ''jan'' 3, sales_row ''feb'' 5]))
     = Inr (sales_chart [sales_row ''jan'' 3, sales_row ''feb'' 5])
   \<and> prepare_inline_visualization plain_viz [] \<noteq> Inr (sales_chart [sales_row ''jan'' 3, sales_row ''jan'' 5])"
proof -
  have lower: "lower_ok plain_viz" by (simp add: lower_ok_def plain_viz_def)
  have "\<not> drawable (sales_chart [sales_row ''jan'' 3, sales_row ''jan'' 5])"
    by (simp add: drawable_def sales_chart_def table_of_def sales_row_def chart_ok_def unique_grain_def grain_key_def
        dict_simps Let_def)
  then show ?thesis using inline_visualization_exact[OF lower] sales_drawable by blast
qed

end
