(* ===== verification/RichContent.thy ===== *)
theory RichContent
  imports Visualization
begin

text \<open>
  Answers with visualizations in them (\<open>ui/rich_content.py\<close>): the parser that splits a text into markdown and fenced
  directives, and the lexical pass that hides directives while an answer is still streaming. The two regular
  expressions are matched by hand: each match starts at the beginning of a line and eats it whole, so both loops
  always go on at the beginning of a line.
\<close>

section \<open>The fences\<close>

definition OPENING_TOKEN :: pystr where
  "OPENING_TOKEN = lit ''```visualization''"

definition CLOSING_TOKEN :: pystr where
  "CLOSING_TOKEN = lit ''```''"

definition MAX_INLINE_VISUALIZATIONS :: int where
  "MAX_INLINE_VISUALIZATIONS = 5"

definition blank :: "pychar \<Rightarrow> bool" where
  "blank c \<longleftrightarrow> c = 32 \<or> c = 9"

text \<open>\<open>\r?\n\<close>, as what it leaves.\<close>

fun line_end :: "pystr \<Rightarrow> pystr option" where
  "line_end [] = None"
| "line_end (c # cs) =
     (if c = 10 then Some cs
      else if c = 13 then (case cs of [] \<Rightarrow> None | d # ds \<Rightarrow> if d = 10 then Some ds else None)
      else None)"

text \<open>The two expressions, tried at the beginning of a line; the result is what follows the match.\<close>

definition match_open :: "pystr \<Rightarrow> pystr option" where
  "match_open s =
     (if prefix OPENING_TOKEN s then line_end (dropWhile blank (drop (length OPENING_TOKEN) s)) else None)"

definition match_close :: "pystr \<Rightarrow> pystr option" where
  "match_close s =
     (if prefix CLOSING_TOKEN s
      then let rest = dropWhile blank (drop (length CLOSING_TOKEN) s) in if rest = [] then Some [] else line_end rest
      else None)"

text \<open>
  \<open>pattern.search\<close>, as the text before the first match and the text after it; \<open>bol\<close> says whether the
  search stands at the beginning of a line.
\<close>

fun search :: "(pystr \<Rightarrow> pystr option) \<Rightarrow> bool \<Rightarrow> pystr \<Rightarrow> (pystr \<times> pystr) option" where
  "search m bol [] = (if bol then map_option (Pair []) (m []) else None)"
| "search m bol (c # cs) =
     (case (if bol then m (c # cs) else None) of
        Some rest \<Rightarrow> Some ([], rest)
      | None \<Rightarrow> map_option (\<lambda>(before, rest). (c # before, rest)) (search m (c = 10) cs))"

text \<open>The index of a last line that may be an opening fence still being written.\<close>

definition last_line :: "pystr \<Rightarrow> pystr" where
  "last_line s = rev (takeWhile (\<lambda>c. c \<noteq> 10) (rev s))"

definition partial_opening_index :: "pystr \<Rightarrow> nat option" where
  "partial_opening_index content =
     (let line_start = length content - length (last_line content);
          candidate = strip_end (\<lambda>c. c = 13) (drop line_start content)
      in if candidate = [] then None
         else if prefix candidate OPENING_TOKEN then Some line_start
         else if prefix OPENING_TOKEN candidate \<and> 10 \<notin> set candidate then Some line_start
         else None)"

lemma line_end_shorter: "line_end s = Some rest \<Longrightarrow> length rest < length s"
  by (cases s rule: line_end.cases) (auto split: if_splits list.splits)

lemma match_open_shorter: "match_open s = Some rest \<Longrightarrow> length rest < length s"
proof -
  assume m: "match_open s = Some rest"
  have "length (dropWhile blank (drop (length OPENING_TOKEN) s)) \<le> length s"
    using length_dropWhile_le[of blank "drop (length OPENING_TOKEN) s"] by simp
  with m line_end_shorter show ?thesis by (fastforce simp: match_open_def split: if_splits)
qed

lemma match_close_shorter: "match_close s = Some rest \<Longrightarrow> length rest < length s"
proof -
  assume m: "match_close s = Some rest"
  have "length (dropWhile blank (drop (length CLOSING_TOKEN) s)) \<le> length s"
    using length_dropWhile_le[of blank "drop (length CLOSING_TOKEN) s"] by simp
  moreover have "s \<noteq> []" using m by (auto simp: match_close_def CLOSING_TOKEN_def split: if_splits)
  ultimately show ?thesis using m line_end_shorter by (fastforce simp: match_close_def Let_def split: if_splits)
qed

lemma search_shorter:
  "(\<And>s rest. m s = Some rest \<Longrightarrow> length rest < length s) \<Longrightarrow>
   search m bol s = Some (before, rest) \<Longrightarrow> length rest < length s"
proof (induction m bol s arbitrary: before rest rule: search.induct)
  case (1 m bol)
  then show ?case by (cases "m []") (auto split: if_splits dest: "1.prems"(1))
next
  case (2 m bol c cs)
  then show ?case using "2.prems"(1)[of "c # cs"] by (fastforce split: option.splits if_splits)
qed

lemma past_directive_shorter:
  assumes "search match_open True s = Some (before, rest)" and "search match_close True rest = Some (payload, after)"
  shows "length after < length s"
  using search_shorter[of match_open, OF match_open_shorter assms(1)]
    search_shorter[of match_close, OF match_close_shorter assms(2)] by simp

section \<open>Parsing\<close>

datatype rich_block =
    MarkdownBlock pystr
  | VisualizationBlock prepared_visualization
  | PendingVisualizationBlock
  | InvalidVisualizationBlock pystr

definition append_markdown :: "pystr \<Rightarrow> rich_block list" where
  "append_markdown content = (if content = [] then [] else [MarkdownBlock content])"

definition parse_visualization_block :: "viz_text \<Rightarrow> pystr \<Rightarrow> rich_block" where
  "parse_visualization_block vt raw_payload =
     (case json_loads (vt_read vt) raw_payload of
        None \<Rightarrow> InvalidVisualizationBlock (lit ''JSON de visualiza'' @ [231, 227] @ lit ''o inv'' @ [225] @ lit ''lido.'')
      | Some payload \<Rightarrow>
          (case payload of
             PDict d \<Rightarrow>
               (case prepare_inline_visualization vt d of
                  Inl e \<Rightarrow> InvalidVisualizationBlock (exn_msg e)
                | Inr visualization \<Rightarrow> VisualizationBlock visualization)
           | _ \<Rightarrow> InvalidVisualizationBlock (lit ''A visualiza'' @ [231, 227] @ lit ''o deve ser um objeto JSON.'')))"

fun is_visualization :: "rich_block \<Rightarrow> bool" where
  "is_visualization (VisualizationBlock _) = True"
| "is_visualization _ = False"

function parse_blocks :: "viz_text \<Rightarrow> bool \<Rightarrow> int \<Rightarrow> int \<Rightarrow> pystr \<Rightarrow> rich_block list" where
  "parse_blocks vt allow_partial max_visualizations count content =
     (if content = [] then []
      else
        (case search match_open True content of
           None \<Rightarrow>
             (case (if allow_partial then partial_opening_index content else None) of
                None \<Rightarrow> append_markdown content
              | Some partial_index \<Rightarrow> append_markdown (take partial_index content) @ [PendingVisualizationBlock])
         | Some (before, rest) \<Rightarrow>
             append_markdown before @
             (case search match_close True rest of
                None \<Rightarrow> if allow_partial then [PendingVisualizationBlock] else []
              | Some (payload, after) \<Rightarrow>
                  let block =
                    (if max_visualizations \<le> count
                     then InvalidVisualizationBlock (lit ''A resposta excedeu o limite de '' @ dec_int max_visualizations
                            @ lit '' visualiza'' @ [231, 245] @ lit ''es.'')
                     else parse_visualization_block vt (py_strip payload))
                  in block # parse_blocks vt allow_partial max_visualizations
                       (if is_visualization block then count + 1 else count) after)))"
  by pat_completeness auto

termination
  by (relation "measure (\<lambda>(_, _, _, _, content). length content)")
    (auto intro: past_directive_shorter)

declare parse_blocks.simps [simp del]

definition parse_rich_content :: "viz_text \<Rightarrow> pystr \<Rightarrow> bool \<Rightarrow> int \<Rightarrow> rich_block list" where
  "parse_rich_content vt content allow_partial max_visualizations =
     (if content = [] then [] else parse_blocks vt allow_partial max_visualizations 0 content)"

section \<open>Hiding directives\<close>

text \<open>The loop of \<open>strip_visualization_blocks\<close>, as the list of markdown it collects.\<close>

function strip_loop :: "pystr \<Rightarrow> pystr list" where
  "strip_loop content =
     (if content = [] then []
      else
        (case search match_open True content of
           None \<Rightarrow>
             let shown = (case partial_opening_index content of None \<Rightarrow> content | Some partial_index \<Rightarrow> take partial_index content)
             in if shown = [] then [] else [shown]
         | Some (before, rest) \<Rightarrow>
             (if before = [] then [] else [before]) @
             (case search match_close True rest of None \<Rightarrow> [] | Some (_, after) \<Rightarrow> strip_loop after)))"
  by pat_completeness auto

termination
  by (relation "measure length") (auto intro: past_directive_shorter)

declare strip_loop.simps [simp del]

definition strip_newlines :: "pystr \<Rightarrow> pystr" where
  "strip_newlines s = strip_end (\<lambda>c. c = 10) (dropWhile (\<lambda>c. c = 10) s)"

definition join_markdown :: "pystr list \<Rightarrow> pystr" where
  "join_markdown markdown = py_strip (py_join [10] (map strip_newlines (filter (\<lambda>part. py_strip part \<noteq> []) markdown)))"

definition strip_visualization_blocks :: "pystr \<Rightarrow> pystr" where
  "strip_visualization_blocks content = (if content = [] then [] else join_markdown (strip_loop content))"

end
