(* ===== verification/RichContent_Props.thy ===== *)
theory RichContent_Props
  imports RichContent
begin

text \<open>
  Answers read line by line: a fence is a line, so the searches of the parser obey one equation per line, and facts
  about a text follow by induction on its lines. With them: the lexical pass that runs while an answer streams shows
  exactly the markdown the parser finds, what it has shown it never takes back, and a drawable chart written into an
  answer is found again.
\<close>

section \<open>Lines\<close>

lemma line_induct [case_names last_line line]:
  assumes "\<And>l. 10 \<notin> set l \<Longrightarrow> P l" and "\<And>l s. 10 \<notin> set l \<Longrightarrow> P s \<Longrightarrow> P (l @ 10 # s)"
  shows "P (s :: pystr)"
proof (induction s rule: length_induct)
  case (1 s)
  show ?case
  proof (cases "10 \<in> set s")
    case True
    then obtain l r where "s = l @ 10 # r" "10 \<notin> set l" by (metis split_list_first)
    with 1 assms(2) show ?thesis by simp
  qed (rule assms(1))
qed

text \<open>What follows a token on the line of a fence: blanks and perhaps a carriage return.\<close>

definition fence_tail :: "pystr \<Rightarrow> bool" where
  "fence_tail s \<longleftrightarrow> dropWhile blank s = [] \<or> dropWhile blank s = [13]"

definition open_line :: "pystr \<Rightarrow> bool" where
  "open_line l \<longleftrightarrow> prefix OPENING_TOKEN l \<and> fence_tail (drop (length OPENING_TOKEN) l)"

definition close_line :: "pystr \<Rightarrow> bool" where
  "close_line l \<longleftrightarrow> prefix CLOSING_TOKEN l \<and> fence_tail (drop (length CLOSING_TOKEN) l)"

definition close_end :: "pystr \<Rightarrow> bool" where
  "close_end l \<longleftrightarrow> prefix CLOSING_TOKEN l \<and> dropWhile blank (drop (length CLOSING_TOKEN) l) = []"

lemma not_blank [simp]: "\<not> blank 10" "\<not> blank 13"
  by (simp_all add: blank_def)

lemma tokens_one_line [simp]: "10 \<notin> set OPENING_TOKEN" "10 \<notin> set CLOSING_TOKEN" "13 \<notin> set OPENING_TOKEN"
  by (simp_all add: OPENING_TOKEN_def CLOSING_TOKEN_def lit_def)

lemma token_last [simp]: "last OPENING_TOKEN \<noteq> 13"
  by (simp add: OPENING_TOKEN_def lit_def)

lemma tokens_not_Nil [simp]: "OPENING_TOKEN \<noteq> []" "CLOSING_TOKEN \<noteq> []"
  by (simp_all add: OPENING_TOKEN_def CLOSING_TOKEN_def)

lemma dropWhile_line: "\<not> p x \<Longrightarrow> dropWhile p (l @ x # s) = dropWhile p l @ x # s"
  by (induction l) auto

lemma line_end_line: "10 \<notin> set l \<Longrightarrow> line_end (l @ 10 # s) = (if l = [] \<or> l = [13] then Some s else None)"
proof (cases l rule: line_end.cases)
  case (2 c cs)
  then show "10 \<notin> set l \<Longrightarrow> ?thesis" by (cases cs) auto
qed simp

lemma line_end_none: "10 \<notin> set l \<Longrightarrow> line_end l = None"
  by (cases l rule: line_end.cases) (auto split: list.splits)

lemma set_blank: "x \<notin> set l \<Longrightarrow> x \<notin> set (dropWhile blank l)"
  by (meson set_dropWhileD)

lemma set_blank_drop: "x \<notin> set l \<Longrightarrow> x \<notin> set (dropWhile blank (drop n l))"
  by (meson in_set_dropD set_dropWhileD)

lemma prefix_line: "x \<notin> set t \<Longrightarrow> prefix t (l @ x # s) \<longleftrightarrow> prefix t l"
proof (induction t arbitrary: l)
  case (Cons a t)
  then show ?case by (cases l) auto
qed simp

lemma match_open_line:
  assumes "10 \<notin> set l"
  shows "match_open (l @ 10 # s) = (if open_line l then Some s else None)"
proof (cases "prefix OPENING_TOKEN l")
  case True
  then obtain k where "l = OPENING_TOKEN @ k" by (auto simp: prefix_def)
  with assms show ?thesis
    by (simp add: match_open_def open_line_def fence_tail_def dropWhile_line line_end_line set_blank[of 10 k])
qed (simp add: match_open_def open_line_def prefix_line)

lemma match_open_none: "10 \<notin> set l \<Longrightarrow> match_open l = None"
  by (simp add: match_open_def line_end_none set_blank_drop)

lemma match_close_line:
  assumes "10 \<notin> set l"
  shows "match_close (l @ 10 # s) = (if close_line l then Some s else None)"
proof (cases "prefix CLOSING_TOKEN l")
  case True
  then obtain k where "l = CLOSING_TOKEN @ k" by (auto simp: prefix_def)
  with assms show ?thesis
    by (simp add: match_close_def close_line_def fence_tail_def dropWhile_line line_end_line set_blank[of 10 k] Let_def)
qed (simp add: match_close_def close_line_def prefix_line)

lemma match_close_end: "10 \<notin> set l \<Longrightarrow> match_close l = (if close_end l then Some [] else None)"
  by (auto simp: match_close_def close_end_def line_end_none set_blank_drop Let_def)

section \<open>The searches, line by line\<close>

lemma search_mid: "10 \<notin> set l \<Longrightarrow> search m False (l @ 10 # s) = map_option (\<lambda>(b, r). (l @ 10 # b, r)) (search m True s)"
  by (induction l) (auto simp: option.map_comp comp_def case_prod_unfold)

lemma search_mid_none: "10 \<notin> set l \<Longrightarrow> search m False l = None"
  by (induction l) auto

lemma search_line:
  assumes "10 \<notin> set l" and "m (l @ 10 # s) = (if c then Some s else None)"
  shows "search m True (l @ 10 # s) =
    (if c then Some ([], s) else map_option (\<lambda>(b, r). (l @ 10 # b, r)) (search m True s))"
  using assms search_mid[of _ m s] by (cases l) (auto simp: option.map_comp comp_def case_prod_unfold)

lemma search_last:
  assumes "10 \<notin> set l"
  shows "search m True l = map_option (Pair []) (m l)"
  using assms search_mid_none[of _ m] by (cases l) (auto split: option.splits)

lemma search_open_line: "10 \<notin> set l \<Longrightarrow> search match_open True (l @ 10 # s) =
    (if open_line l then Some ([], s) else map_option (\<lambda>(b, r). (l @ 10 # b, r)) (search match_open True s))"
  by (rule search_line) (simp_all add: match_open_line)

lemma search_open_last: "10 \<notin> set l \<Longrightarrow> search match_open True l = None"
  by (simp add: search_last match_open_none)

lemma search_close_line: "10 \<notin> set l \<Longrightarrow> search match_close True (l @ 10 # s) =
    (if close_line l then Some ([], s) else map_option (\<lambda>(b, r). (l @ 10 # b, r)) (search match_close True s))"
  by (rule search_line) (simp_all add: match_close_line)

lemma search_close_last: "10 \<notin> set l \<Longrightarrow> search match_close True l = (if close_end l then Some ([], []) else None)"
  by (simp add: search_last match_close_end)


section \<open>The text between the directives\<close>

fun markdown_texts :: "rich_block list \<Rightarrow> pystr list" where
  "markdown_texts [] = []"
| "markdown_texts (MarkdownBlock t # blocks) = t # markdown_texts blocks"
| "markdown_texts (_ # blocks) = markdown_texts blocks"

text \<open>Both loops collect the same pieces of text; \<open>p\<close> tells whether the end of the text may still be growing.\<close>

function segments :: "bool \<Rightarrow> pystr \<Rightarrow> pystr list" where
  "segments p content =
     (if content = [] then []
      else
        (case search match_open True content of
           None \<Rightarrow>
             let shown = (case (if p then partial_opening_index content else None) of
                 None \<Rightarrow> content | Some i \<Rightarrow> take i content)
             in if shown = [] then [] else [shown]
         | Some (before, rest) \<Rightarrow>
             (if before = [] then [] else [before]) @
             (case search match_close True rest of None \<Rightarrow> [] | Some (_, after) \<Rightarrow> segments p after)))"
  by pat_completeness auto

termination
  by (relation "measure (length \<circ> snd)") (auto intro: past_directive_shorter)

declare segments.simps [simp del]

lemma markdown_texts_append: "markdown_texts (a @ b) = markdown_texts a @ markdown_texts b"
  by (induction a rule: markdown_texts.induct) auto

lemma markdown_texts_one: "markdown_texts (append_markdown t) = (if t = [] then [] else [t])"
  by (simp add: append_markdown_def)

lemma parse_block_no_text: "markdown_texts (parse_visualization_block vt raw # blocks) = markdown_texts blocks"
  by (simp add: parse_visualization_block_def split: option.split pyval.split sum.split)

lemma segments_Nil [simp]: "segments p [] = []"
  by (simp add: segments.simps)

lemma parse_segments: "markdown_texts (parse_blocks vt p n i s) = segments p s"
proof (induction s arbitrary: i rule: length_induct)
  case (1 s)
  then have "markdown_texts (parse_blocks vt p n j after) = segments p after"
    if "search match_open True s = Some (before, rest)" "search match_close True rest = Some (raw, after)"
    for j before rest raw after using past_directive_shorter[OF that] by blast
  then show ?case
    by (subst parse_blocks.simps, subst segments.simps)
      (auto simp: markdown_texts_append markdown_texts_one parse_block_no_text Let_def split: option.split)
qed

lemma strip_segments: "strip_loop s = segments True s"
proof (induction s rule: strip_loop.induct)
  case (1 s)
  show ?case by (subst strip_loop.simps, subst segments.simps) (auto simp: Let_def 1 split: option.split)
qed

definition narrative :: "bool \<Rightarrow> pystr \<Rightarrow> pystr" where
  "narrative p s = concat (segments p s)"

definition past_directive :: "bool \<Rightarrow> pystr \<Rightarrow> pystr" where
  "past_directive p s = (case search match_close True s of None \<Rightarrow> [] | Some (_, after) \<Rightarrow> narrative p after)"

definition may_open :: "pystr \<Rightarrow> bool" where
  "may_open l \<longleftrightarrow>
     (let candidate = strip_end (\<lambda>c. c = 13) l
      in candidate \<noteq> [] \<and> (prefix candidate OPENING_TOKEN \<or> prefix OPENING_TOKEN candidate))"

lemma narrative_Nil [simp]: "narrative p [] = []"
  by (simp add: narrative_def)

lemma last_line_line: "last_line (l @ 10 # s) = last_line s"
  by (simp add: last_line_def takeWhile_tail)

lemma last_line_last: "10 \<notin> set l \<Longrightarrow> last_line l = l"
  by (auto simp: last_line_def rev_swap takeWhile_eq_all_conv)

lemma length_last_line: "length (last_line s) \<le> length s"
  by (simp add: last_line_def length_takeWhile_le[of _ "rev s", simplified])

lemma partial_line: "partial_opening_index (l @ 10 # s) = map_option (\<lambda>i. length l + 1 + i) (partial_opening_index s)"
  using length_last_line[of s] by (simp add: partial_opening_index_def last_line_line Let_def Suc_diff_le)

lemma partial_last: "10 \<notin> set l \<Longrightarrow> partial_opening_index l = (if may_open l then Some 0 else None)"
  using set_mono_prefix[OF strip_end_prefix[of "\<lambda>c. c = 13" l]]
  by (auto simp: partial_opening_index_def last_line_last may_open_def Let_def)

lemma narrative_last: "10 \<notin> set l \<Longrightarrow> narrative p l = (if p \<and> may_open l then [] else l)"
  by (simp add: narrative_def segments.simps search_open_last partial_last)

lemma narrative_line:
  assumes "10 \<notin> set l"
  shows "narrative p (l @ 10 # s) = (if open_line l then past_directive p s else l @ 10 # narrative p s)"
proof (cases "s = []")
  case True
  have "partial_opening_index [] = None" by (simp add: partial_opening_index_def last_line_def strip_end_def)
  with True show ?thesis
    using assms by (auto simp: narrative_def past_directive_def segments.simps[of p "l @ [10]"] search_open_line[of l "[]"]
        partial_line[of l "[]"] match_open_none match_close_end close_end_def split: option.split)
next
  case False
  then show ?thesis
    using assms by (auto simp: narrative_def past_directive_def segments.simps[of p "l @ 10 # s"] segments.simps[of p s]
        search_open_line partial_line Let_def split: option.split)
qed

lemma past_last: "10 \<notin> set l \<Longrightarrow> past_directive p l = []"
  by (simp add: past_directive_def search_close_last)

lemma past_line: "10 \<notin> set l \<Longrightarrow> past_directive p (l @ 10 # s) = (if close_line l then narrative p s else past_directive p s)"
  by (auto simp: past_directive_def search_close_line split: option.split)


section \<open>What was shown stays shown\<close>

lemma strip_end_append: "a \<noteq> [] \<Longrightarrow> \<not> p (last a) \<Longrightarrow> strip_end p (a @ k) = a @ strip_end p k"
  by (cases a rule: rev_cases) (auto simp: strip_end_def dropWhile_append)

lemma strip_end_all: "\<forall>c \<in> set k. p c \<Longrightarrow> strip_end p k = []"
  by (simp add: strip_end_def)

lemma strip_end_rest: "\<exists>k. s = strip_end p s @ k \<and> (\<forall>c \<in> set k. p c)"
proof -
  have "s = rev (takeWhile p (rev s) @ dropWhile p (rev s))" by simp
  then have "s = strip_end p s @ rev (takeWhile p (rev s))"
    by (simp only: rev_append strip_end_def)
  then show ?thesis using set_takeWhileD by fastforce
qed

lemma token_may_open:
  assumes "prefix OPENING_TOKEN l"
  shows "may_open l"
proof -
  obtain k where l: "l = OPENING_TOKEN @ k" using assms by (auto simp: prefix_def)
  have "strip_end (\<lambda>c. c = 13) l = OPENING_TOKEN @ strip_end (\<lambda>c. c = 13) k"
    unfolding l by (rule strip_end_append) simp_all
  then show ?thesis by (simp add: may_open_def)
qed

lemma front_may_open:
  assumes "prefix d OPENING_TOKEN" and "d \<noteq> []" and "\<forall>c \<in> set k. c = 13"
  shows "may_open (d @ k)"
proof -
  have "13 \<notin> set d" using set_mono_prefix[OF assms(1)] by auto
  then have "last d \<noteq> 13" using assms(2) last_in_set by fastforce
  then show ?thesis using assms by (simp add: may_open_def strip_end_append strip_end_all)
qed

lemma open_may_open: "open_line l \<Longrightarrow> may_open l"
  by (simp add: open_line_def token_may_open)

lemma may_open_grown:
  assumes "may_open (l @ k)" and "l \<noteq> []"
  shows "may_open l"
proof -
  define d where "d = strip_end (\<lambda>c. c = 13) (l @ k)"
  obtain x where x: "l @ k = d @ x" "\<forall>c \<in> set x. c = 13"
    using strip_end_rest[of "l @ k" "\<lambda>c. c = 13"] by (auto simp: d_def)
  have front: "may_open l" if "prefix l OPENING_TOKEN" using front_may_open[OF that assms(2), of "[]"] by simp
  from assms(1) consider "prefix OPENING_TOKEN d" | "prefix d OPENING_TOKEN" "d \<noteq> []"
    by (auto simp: may_open_def d_def Let_def)
  then show ?thesis
  proof cases
    case 1
    then have "prefix OPENING_TOKEN (l @ k)" using x(1) by simp
    then have "prefix OPENING_TOKEN l \<or> prefix l OPENING_TOKEN" by (metis prefix_append prefix_def prefix_same_cases)
    then show ?thesis using token_may_open front by blast
  next
    case 2
    have "prefix d l \<or> prefix l d" using x(1) by (metis prefix_def prefix_same_cases)
    then show ?thesis
    proof
      assume "prefix d l"
      then obtain y where y: "l = d @ y" by (auto simp: prefix_def)
      with x have "\<forall>c \<in> set y. c = 13" by auto
      then show ?thesis unfolding y by (rule front_may_open[OF 2])
    next
      assume "prefix l d"
      with 2(1) show ?thesis using front prefix_order.trans by blast
    qed
  qed
qed

lemma narrative_grows:
  "prefix (narrative True s) (narrative p (s @ q)) \<and> prefix (past_directive True s) (past_directive p (s @ q))"
proof (induction s rule: line_induct)
  case (last_line l)
  show ?case
  proof (cases "may_open l \<or> l = []")
    case True
    then show ?thesis using last_line by (auto simp: narrative_last past_last)
  next
    case False
    then have closed: "\<not> may_open (l @ k)" for k using may_open_grown by blast
    have "prefix l (narrative p (l @ q))"
    proof (cases "10 \<in> set q")
      case True
      then obtain k r where "q = k @ 10 # r" "10 \<notin> set k" by (metis split_list_first)
      then show ?thesis using last_line closed[of k] open_may_open narrative_line[of "l @ k" p r] by auto
    next
      case False
      then show ?thesis using last_line closed[of q] narrative_last[of "l @ q" p] by auto
    qed
    then show ?thesis using last_line False by (simp add: narrative_last past_last)
  qed
next
  case (line l s)
  then show ?case by (simp add: narrative_line past_line)
qed


lemma narrative_whole: "prefix (narrative True s) (narrative False s) \<and> prefix (past_directive True s) (past_directive False s)"
  using narrative_grows[of s False "[]"] by simp

text \<open>What remains of a text without its blanks: the display drops and adds blanks between the pieces it shows.\<close>

definition solid :: "pystr \<Rightarrow> pystr" where
  "solid s = filter (\<lambda>c. \<not> is_space c) s"

lemma solid_append: "solid (a @ b) = solid a @ solid b"
  by (simp add: solid_def)

lemma solid_dropWhile: "(\<And>c. p c \<Longrightarrow> is_space c) \<Longrightarrow> solid (dropWhile p s) = solid s"
  by (induction s) (auto simp: solid_def)

lemma solid_strip_end:
  assumes "\<And>c. p c \<Longrightarrow> is_space c"
  shows "solid (strip_end p s) = solid s"
proof -
  obtain k where k: "s = strip_end p s @ k" "\<forall>c \<in> set k. p c" using strip_end_rest by blast
  then have "solid k = []" using assms by (simp add: solid_def)
  with k(1) show ?thesis by (metis solid_append append_Nil2)
qed

lemma solid_py_strip: "solid (py_strip s) = solid s"
  by (simp add: py_strip_def py_rstrip_def py_lstrip_def solid_strip_end solid_dropWhile)

lemma solid_strip_newlines: "solid (strip_newlines s) = solid s"
  unfolding strip_newlines_def by (subst solid_strip_end, simp add: is_space_def, rule solid_dropWhile, simp add: is_space_def)

lemma solid_join: "solid sep = [] \<Longrightarrow> solid (py_join sep ps) = concat (map solid ps)"
  by (induction sep ps rule: py_join.induct) (auto simp: solid_append solid_def)

lemma solid_join_markdown: "solid (join_markdown ps) = solid (concat ps)"
proof -
  have "concat (map solid (map strip_newlines (filter (\<lambda>part. py_strip part \<noteq> []) ps))) = solid (concat ps)"
  proof (induction ps)
    case (Cons p ps)
    have "py_strip p = [] \<Longrightarrow> solid p = []" using solid_py_strip[of p] by (simp add: solid_def)
    then show ?case using Cons by (auto simp: solid_append solid_strip_newlines)
  qed (simp add: solid_def)
  then show ?thesis
    by (simp add: join_markdown_def solid_py_strip solid_join solid_def[of "[10]"] is_space_def)
qed

lemma prefix_solid: "prefix a b \<Longrightarrow> prefix (solid a) (solid b)"
  by (auto simp: prefix_def solid_append)

lemma solid_strip_visualization: "solid (strip_visualization_blocks s) = solid (narrative True s)"
proof (cases "s = []")
  case False
  then show ?thesis by (simp add: strip_visualization_blocks_def solid_join_markdown strip_segments narrative_def)
qed (simp add: strip_visualization_blocks_def)

text \<open>
  The lexical pass that runs on every delta of a streaming answer shows the markdown the full parser finds, for every
  text and whatever the directives in it hold: it hides complete directives, a directive that is still open, and a last
  line that may become one.
\<close>

theorem lexical_pass_agrees:
  "strip_visualization_blocks content = join_markdown (markdown_texts (parse_rich_content vt content True max_visualizations))"
  by (simp add: strip_visualization_blocks_def parse_rich_content_def parse_segments strip_segments join_markdown_def)

text \<open>
  C28. The text an answer shows while it streams only grows: up to blanks, what is shown for the deltas so far is the
  beginning of what is shown after any further delta, and of the text the final rendering shows around the charts. No
  part of a directive ever appears and is taken back, and no text shown disappears.
\<close>

theorem shown_text_only_grows:
  "prefix (solid (strip_visualization_blocks so_far)) (solid (strip_visualization_blocks (so_far @ delta)))
   \<and> prefix (solid (strip_visualization_blocks so_far))
       (solid (concat (markdown_texts (parse_rich_content vt (so_far @ delta) False max_visualizations))))"
proof -
  have "concat (markdown_texts (parse_rich_content vt s False n)) = narrative False s" for s n
    by (simp add: parse_rich_content_def parse_segments narrative_def)
  then show ?thesis
    using narrative_grows[of so_far] by (simp add: solid_strip_visualization prefix_solid)
qed


section \<open>Charts written into an answer\<close>

text \<open>An answer: pieces of text, each followed by the directive of a chart, and a last piece.\<close>

fun write_answer :: "(rat \<Rightarrow> pystr) \<Rightarrow> (pystr \<times> prepared_visualization) list \<Rightarrow> pystr \<Rightarrow> pystr" where
  "write_answer ft [] final = final"
| "write_answer ft ((t, v) # parts) final =
     t @ OPENING_TOKEN @ 10 # json_dumps (default_style ft) (PDict (payload_of v)) @ 10 # CLOSING_TOKEN @ 10 #
     write_answer ft parts final"

fun answer_blocks :: "(pystr \<times> prepared_visualization) list \<Rightarrow> pystr \<Rightarrow> rich_block list" where
  "answer_blocks [] final = append_markdown final"
| "answer_blocks ((t, v) # parts) final = append_markdown t @ VisualizationBlock v # answer_blocks parts final"

text \<open>Text without an opening fence, and text that ends its last line.\<close>

definition quiet :: "pystr \<Rightarrow> bool" where
  "quiet t \<longleftrightarrow> search match_open True t = None"

definition whole_lines :: "pystr \<Rightarrow> bool" where
  "whole_lines t \<longleftrightarrow> t = [] \<or> last t = 10"

lemma search_past_quiet:
  "quiet t \<Longrightarrow> whole_lines t \<Longrightarrow>
   search match_open True (t @ s) = map_option (\<lambda>(b, r). (t @ b, r)) (search match_open True s)"
proof (induction t rule: line_induct)
  case (last_line l)
  then have "l = []" using last_in_set by (fastforce simp: whole_lines_def)
  then show ?case by (cases "search match_open True s") auto
next
  case (line l t)
  then have "\<not> open_line l" "quiet t" "whole_lines t"
    by (auto simp: quiet_def whole_lines_def search_open_line split: if_splits)
  with line show ?case by (simp add: search_open_line option.map_comp comp_def case_prod_unfold)
qed

lemma json_quote_newline: "10 \<notin> set (json_quote s)"
proof -
  have "10 \<notin> set (esc_char c)" for c
  proof -
    have "c div 16 < 2" if "c < 32" using that by (simp add: less_mult_imp_div_less)
    then show ?thesis by (auto simp: esc_char_def hex_digit_def)
  qed
  then show ?thesis by (auto simp: json_quote_def)
qed

lemma dumps_newline:
  assumes "\<And>r. 10 \<notin> set (ft r)"
  shows "st = default_style ft \<Longrightarrow> 10 \<notin> set (json_dumps st v)"
    and "st = default_style ft \<Longrightarrow> 10 \<notin> set (json_items st vs)"
    and "st = default_style ft \<Longrightarrow> 10 \<notin> set (json_members st ms)"
proof (induction st v and st vs and st ms rule: json_dumps_json_items_json_members.induct)
qed (use assms json_quote_newline in \<open>auto simp: default_style_def lit_def dest: dec_int_chars\<close>)

lemma dict_text_open: "\<not> close_line (json_dumps st (PDict d))"
  by (simp add: close_line_def CLOSING_TOKEN_def lit_def)

lemma strip_dict_text: "py_strip (json_dumps st (PDict d) @ [10]) = json_dumps st (PDict d)"
proof -
  have "py_lstrip (123 # t) = 123 # t" for t by (simp add: py_lstrip_def is_space_def)
  moreover have "strip_end is_space (t @ [125, 10]) = t @ [125]" for t by (simp add: strip_end_def is_space_def)
  from this[of "123 # json_members st d"] have "strip_end is_space (123 # json_members st d @ [125, 10]) = 123 # json_members st d @ [125]"
    by simp
  ultimately show ?thesis by (simp add: py_strip_def py_rstrip_def)
qed

lemma fences_alone: "open_line OPENING_TOKEN" "close_line CLOSING_TOKEN"
  by (simp_all add: open_line_def close_line_def fence_tail_def)

lemma parse_written:
  assumes lower: "lower_ok vt" and floats: "floats_ok (default_style ft) (vt_read vt) fok" "\<And>r. 10 \<notin> set (ft r)"
    and final: "quiet final"
  shows "\<forall>(t, v) \<in> set parts. quiet t \<and> whole_lines t \<and> drawable v \<and> json_ok fok (PDict (payload_of v)) \<Longrightarrow>
    n + int (length parts) \<le> m \<Longrightarrow> parse_blocks vt False m n (write_answer ft parts final) = answer_blocks parts final"
proof (induction parts arbitrary: n)
  case Nil
  then show ?case using final by (simp add: parse_blocks.simps quiet_def append_markdown_def)
next
  case (Cons part parts)
  obtain t v where part: "part = (t, v)" by force
  define doc where "doc = json_dumps (default_style ft) (PDict (payload_of v))"
  have v: "quiet t" "whole_lines t" "drawable v" "json_ok fok (PDict (payload_of v))" using Cons.prems part by auto
  have line: "10 \<notin> set doc" "\<not> close_line doc"
    using dumps_newline(1)[OF floats(2) refl] dict_text_open by (simp_all only: doc_def not_False_eq_True)
  have block: "parse_visualization_block vt (py_strip (doc @ [10])) = VisualizationBlock v"
    using json_round_trip[OF style_ok_styles(1) floats(1) v(4)] inline_complete[OF lower v(3)]
    by (simp only: doc_def strip_dict_text) (simp add: parse_visualization_block_def)
  have opened: "search match_open True (write_answer ft (part # parts) final)
      = Some (t, doc @ 10 # CLOSING_TOKEN @ 10 # write_answer ft parts final)"
    using search_past_quiet[OF v(1,2)] by (simp add: part search_open_line fences_alone doc_def)
  have closed: "search match_close True (doc @ 10 # CLOSING_TOKEN @ 10 # write_answer ft parts final)
      = Some (doc @ [10], write_answer ft parts final)"
    using line by (simp add: search_close_line fences_alone)
  have "parse_blocks vt False m (n + 1) (write_answer ft parts final) = answer_blocks parts final"
    by (rule Cons.IH) (use Cons.prems in auto)
  moreover have "\<not> m \<le> n" using Cons.prems by simp
  moreover have "write_answer ft (part # parts) final \<noteq> []" by (simp add: part)
  ultimately have "parse_blocks vt False m n (write_answer ft (part # parts) final)
      = append_markdown t @ VisualizationBlock v # answer_blocks parts final"
    by (subst parse_blocks.simps) (simp add: opened closed block del: write_answer.simps)
  then show ?case by (simp add: part)
qed


text \<open>
  C29. Up to the limit, every drawable chart written into an answer as a directive is found again by the final
  rendering, whole and in its place between the texts around it: the parse of the answer is the list of its texts and
  its charts.
\<close>

theorem charts_found_again:
  assumes "lower_ok vt" and "floats_ok (default_style ft) (vt_read vt) fok" and "\<And>r. 10 \<notin> set (ft r)"
    and "quiet final" and "int (length parts) \<le> max_visualizations"
    and "\<forall>(t, v) \<in> set parts. quiet t \<and> whole_lines t \<and> drawable v \<and> json_ok fok (PDict (payload_of v))"
  shows "parse_rich_content vt (write_answer ft parts final) False max_visualizations = answer_blocks parts final"
proof (cases "write_answer ft parts final = []")
  case True
  then have "parts = []" "final = []" by (cases parts; auto)+
  then show ?thesis by (simp add: parse_rich_content_def append_markdown_def)
next
  case False
  then show ?thesis using parse_written[OF assms(1-4,6), of 0] assms(5) by (simp add: parse_rich_content_def)
qed

lemma charts_found_again_witness:
  "parse_rich_content plain_viz
     (write_answer (\<lambda>_. []) [(lit ''Sales:'' @ [10], sales_chart [sales_row ''jan'' 3, sales_row ''feb'' 5])] (lit ''Done.'')) False
     MAX_INLINE_VISUALIZATIONS
   = [MarkdownBlock (lit ''Sales:'' @ [10]), VisualizationBlock (sales_chart [sales_row ''jan'' 3, sales_row ''feb'' 5]),
      MarkdownBlock (lit ''Done.'')]"
proof -
  have lower: "lower_ok plain_viz" by (simp add: lower_ok_def plain_viz_def)
  have calm: "quiet (lit ''Done.'')" "quiet (lit ''Sales:'' @ [10])"
    by (simp_all add: quiet_def lit_def match_open_def OPENING_TOKEN_def)
  have whole: "whole_lines (lit ''Sales:'' @ [10])" by (simp add: whole_lines_def)
  have ok: "json_ok (\<lambda>_. False) (PDict (payload_of (sales_chart [sales_row ''jan'' 3, sales_row ''feb'' 5])))"
    by (simp add: payload_of_def sales_chart_def table_of_def sales_row_def opt_str_def)
  show ?thesis
    using charts_found_again[OF lower floats_ok_none _ calm(1), where ft = "\<lambda>_. []" and max_visualizations = MAX_INLINE_VISUALIZATIONS
        and parts = "[(lit ''Sales:'' @ [10], sales_chart [sales_row ''jan'' 3, sales_row ''feb'' 5])]"]
      calm whole ok sales_drawable
    by (simp add: MAX_INLINE_VISUALIZATIONS_def append_markdown_def)
qed

end
