(* ===== verification/Rendering.thy ===== *)
theory Rendering
  imports RichContent_Props Effects
begin

text \<open>
  Drawing an answer (\<open>ui/rendering.py\<close>). Every call of Streamlit, matplotlib and seaborn is one \<open>draw_call\<close>, and what
  such a call does, raising included, is the parameter \<open>draw\<close>; a pandas frame is kept as what it is made of. The lock
  around a chart and the cleanup of its figure are the code's. Whatever call fails, no figure is left open.
\<close>

section \<open>Calls\<close>

datatype data_frame =
    DataFrame "pdict list"
  | Melted data_frame pystr "pystr list"

datatype draw_call =
    St_markdown pystr
  | St_caption pystr
  | St_dataframe data_frame
  | Plt_subplots
  | Sns_barplot data_frame pystr pystr "pystr option"
  | Sns_lineplot data_frame pystr pystr "pystr option"
  | Sns_scatterplot data_frame pystr pystr "pystr option"
  | Set_title pystr
  | Set_xlabel pystr
  | Set_ylabel pystr
  | Tight_layout
  | St_pyplot
  | Plt_close
  | St_html pystr
  | Components_html pystr
  | St_chat_message pystr
  | St_empty
  | St_error pystr
  | St_warning pystr
  | St_title pystr
  | St_subheader pystr
  | St_sidebar_error pystr
  | St_composer pystr bool
  | Conversation_sidebar pdict int

type_synonym 'w canvas = "draw_call \<Rightarrow> ('w, unit) act"

text \<open>\<open>if text: call(text)\<close> for an optional text.\<close>

definition when_text :: "pystr option \<Rightarrow> (pystr \<Rightarrow> ('w, unit) act) \<Rightarrow> ('w, unit) act" where
  "when_text text call = (case text of None \<Rightarrow> mret () | Some t \<Rightarrow> if t = [] then mret () else call t)"

section \<open>Charts\<close>

definition required_x :: "prepared_visualization \<Rightarrow> ('w, pystr) act" where
  "required_x v =
     (case pv_x v of None \<Rightarrow> mraise (Exn ValueError (lit ''Chart visualization requires an x field'')) | Some x \<Rightarrow> mret x)"

definition melt_series :: "data_frame \<Rightarrow> pystr \<Rightarrow> pystr list \<Rightarrow> data_frame" where
  "melt_series frame x y = Melted frame x y"

definition render_bar :: "'w canvas \<Rightarrow> data_frame \<Rightarrow> prepared_visualization \<Rightarrow> ('w, unit) act" where
  "render_bar draw frame v =
     mbind (required_x v) (\<lambda>x.
       let horizontal = (pv_orientation v = lit ''horizontal'')
       in if length (pv_y v) = 1
          then if horizontal then draw (Sns_barplot frame (hd (pv_y v)) x (pv_hue v))
               else draw (Sns_barplot frame x (hd (pv_y v)) (pv_hue v))
          else let melted = melt_series frame x (pv_y v)
               in if horizontal then draw (Sns_barplot melted (lit ''_value'') x (Some (lit ''_series'')))
                  else draw (Sns_barplot melted x (lit ''_value'') (Some (lit ''_series''))))"

definition render_line :: "'w canvas \<Rightarrow> data_frame \<Rightarrow> prepared_visualization \<Rightarrow> ('w, unit) act" where
  "render_line draw frame v =
     mbind (required_x v) (\<lambda>x.
       if length (pv_y v) = 1 then draw (Sns_lineplot frame x (hd (pv_y v)) (pv_hue v))
       else draw (Sns_lineplot (melt_series frame x (pv_y v)) x (lit ''_value'') (Some (lit ''_series''))))"

text \<open>\<open>y[0]\<close> raises on a chart without series.\<close>

definition render_scatter :: "'w canvas \<Rightarrow> data_frame \<Rightarrow> prepared_visualization \<Rightarrow> ('w, unit) act" where
  "render_scatter draw frame v =
     mbind (required_x v) (\<lambda>x.
       (case pv_y v of
          [] \<Rightarrow> mraise (Exn (OtherError (lit ''IndexError'')) (lit ''tuple index out of range''))
        | y # _ \<Rightarrow> draw (Sns_scatterplot frame x y (pv_hue v))))"

definition render_chart :: "'w canvas \<Rightarrow> data_frame \<Rightarrow> prepared_visualization \<Rightarrow> ('w, unit) act" where
  "render_chart draw frame v =
     mbind (if pv_type v = lit ''bar'' then render_bar draw frame v
            else if pv_type v = lit ''line'' then render_line draw frame v
            else if pv_type v = lit ''scatter'' then render_scatter draw frame v
            else mraise (Exn ValueError (lit ''Unsupported chart type: '' @ pv_type v))) (\<lambda>_.
     mbind (when_text (pv_title v) (\<lambda>t. draw (Set_title t))) (\<lambda>_.
       if pv_type v = lit ''bar'' \<and> pv_orientation v = lit ''horizontal''
       then mbind (when_text (pv_y_label v) (\<lambda>t. draw (Set_xlabel t))) (\<lambda>_.
              when_text (pv_x_label v) (\<lambda>t. draw (Set_ylabel t)))
       else mbind (when_text (pv_x_label v) (\<lambda>t. draw (Set_xlabel t))) (\<lambda>_.
              when_text (pv_y_label v) (\<lambda>t. draw (Set_ylabel t)))))"

definition render_visualization :: "'w canvas \<Rightarrow> prepared_visualization \<Rightarrow> ('w, unit) act" where
  "render_visualization draw v =
     (let frame = DataFrame (pv_rows v)
      in if pv_type v = lit ''table''
         then mbind (when_text (pv_title v) (\<lambda>t. draw (St_markdown (lit ''**'' @ t @ lit ''**'')))) (\<lambda>_.
                draw (St_dataframe frame))
         else mbind (draw Plt_subplots) (\<lambda>_.
                mfinally
                  (mbind (render_chart draw frame v) (\<lambda>_. mbind (draw Tight_layout) (\<lambda>_. draw St_pyplot)))
                  (draw Plt_close)))"

definition render_result :: "'w canvas \<Rightarrow> viz_text \<Rightarrow> pdict option \<Rightarrow> ('w, unit) act" where
  "render_result draw vt result =
     (case prepare_visualization vt result of None \<Rightarrow> mret () | Some v \<Rightarrow> render_visualization draw v)"

section \<open>Answers\<close>

definition render_block :: "'w canvas \<Rightarrow> rich_block \<Rightarrow> ('w, unit) act" where
  "render_block draw block =
     (case block of
        MarkdownBlock content \<Rightarrow> mwhen (py_strip content \<noteq> []) (draw (St_markdown content))
      | VisualizationBlock v \<Rightarrow> render_visualization draw v
      | PendingVisualizationBlock \<Rightarrow> draw (St_caption (lit ''Preparando visualiza'' @ [231, 227] @ lit ''o...''))
      | InvalidVisualizationBlock _ \<Rightarrow> draw (St_caption (lit ''N'' @ [227] @ lit ''o foi poss'' @ [237]
          @ lit ''vel renderizar uma visualiza'' @ [231, 227] @ lit ''o desta resposta.'')))"

fun render_blocks :: "'w canvas \<Rightarrow> int \<Rightarrow> rich_block list \<Rightarrow> ('w, int) act" where
  "render_blocks draw rendered [] = mret rendered"
| "render_blocks draw rendered (block # blocks) =
     mbind (render_block draw block) (\<lambda>_.
       render_blocks draw (if is_visualization block then rendered + 1 else rendered) blocks)"

definition render_rich_content :: "'w canvas \<Rightarrow> viz_text \<Rightarrow> pystr \<Rightarrow> bool \<Rightarrow> ('w, int) act" where
  "render_rich_content draw vt content allow_partial =
     (if allow_partial
      then let narrative = strip_visualization_blocks content
           in mbind (mwhen (narrative \<noteq> []) (draw (St_markdown narrative))) (\<lambda>_. mret 0)
      else render_blocks draw 0 (parse_rich_content vt content False MAX_INLINE_VISUALIZATIONS))"

section \<open>Figures\<close>

text \<open>
  A canvas that records every call with whether it succeeded; \<open>fails\<close> decides, from the calls made so far, which call
  raises and with what.
\<close>

type_synonym drawing = "(draw_call \<times> bool) list"

definition recording :: "(drawing \<Rightarrow> draw_call \<Rightarrow> py_exn option) \<Rightarrow> drawing canvas" where
  "recording fails call calls =
     (case fails calls call of None \<Rightarrow> (Inr (), calls @ [(call, True)]) | Some e \<Rightarrow> (Inl e, calls @ [(call, False)]))"

text \<open>The figures opened and not closed: closing is attempted once for each figure that was created.\<close>

definition open_figures :: "drawing \<Rightarrow> int" where
  "open_figures calls =
     int (count_list calls (Plt_subplots, True)) - int (length (filter (\<lambda>(call, _). call = Plt_close) calls))"

definition figures :: "int \<Rightarrow> drawing \<Rightarrow> bool" where
  "figures n calls \<longleftrightarrow> open_figures calls = n"

lemma open_figures_snoc:
  "open_figures (calls @ [(call, ok)]) =
     open_figures calls + (if call = Plt_subplots \<and> ok then 1 else 0) - (if call = Plt_close then 1 else 0)"
  by (simp add: open_figures_def)

lemma keeps_draw: "call \<noteq> Plt_subplots \<Longrightarrow> call \<noteq> Plt_close \<Longrightarrow> keeps (figures n) (recording fails call)"
  by (rule keepsI) (auto simp: recording_def figures_def open_figures_snoc split: option.splits)

lemma keeps_when_text: "(\<And>t. keeps P (call t)) \<Longrightarrow> keeps P (when_text text call)"
  by (simp add: when_text_def keeps_mret split: option.split)

lemma keeps_chart: "keeps (figures n) (render_chart (recording fails) frame v)"
  unfolding render_chart_def render_bar_def render_line_def render_scatter_def required_x_def Let_def
  by (intro keeps_intros keeps_when_text keeps_draw) (auto intro!: keeps_intros keeps_draw split: list.split)

lemma keeps_visualization: "keeps (figures n) (render_visualization (recording fails) v)"
proof (rule keepsI)
  fix calls r calls'
  assume start: "figures n calls" and run: "render_visualization (recording fails) v calls = (r, calls')"
  let ?body = "mbind (render_chart (recording fails) (DataFrame (pv_rows v)) v) (\<lambda>_.
    mbind (recording fails Tight_layout) (\<lambda>_. recording fails St_pyplot))"
  have body: "keeps (figures (n + 1)) ?body" by (intro keeps_intros keeps_chart keeps_draw) simp_all
  show "figures n calls'"
  proof (cases "pv_type v = lit ''table''")
    case True
    have "keeps (figures n) (mbind (when_text (pv_title v) (\<lambda>t. recording fails (St_markdown (lit ''**'' @ t @ lit ''**''))))
        (\<lambda>_. recording fails (St_dataframe (DataFrame (pv_rows v)))))"
      by (intro keeps_intros keeps_when_text keeps_draw) simp_all
    from keepsD[OF this start] run True show ?thesis by (simp add: render_visualization_def)
  next
    case False
    show ?thesis
    proof (cases "fails calls Plt_subplots")
      case None
      obtain s calls1 where one: "?body (calls @ [(Plt_subplots, True)]) = (s, calls1)" by force
      then have "figures (n + 1) calls1"
        using keepsD[OF body _ one] start by (simp add: figures_def open_figures_snoc)
      with one None False run show ?thesis
        by (auto simp: render_visualization_def mbind_def[of "recording fails Plt_subplots"] mfinally_def recording_def[of fails Plt_close]
            recording_def[of fails Plt_subplots] figures_def open_figures_snoc Let_def split: option.splits)
    next
      case (Some e)
      with False run start show ?thesis
        by (auto simp: render_visualization_def mbind_def recording_def figures_def open_figures_snoc Let_def)
    qed
  qed
qed

lemma keeps_blocks: "keeps (figures n) (render_blocks (recording fails) i blocks)"
proof (induction blocks arbitrary: i)
  case (Cons block blocks)
  have "keeps (figures n) (render_block (recording fails) block)"
    by (cases block) (auto simp: render_block_def intro!: keeps_intros keeps_visualization keeps_draw)
  then show ?case by (auto intro!: keeps_mbind Cons.IH)
qed (simp add: keeps_mret)

lemma keeps_rendering: "keeps (figures n) (render_rich_content (recording fails) vt content allow_partial)"
  unfolding render_rich_content_def Let_def
  by (intro keeps_if keeps_blocks keeps_mbind keeps_mwhen keeps_draw keeps_mret) simp_all


section \<open>Rendering returns\<close>

definition calm :: "('w, 'a) act \<Rightarrow> bool" where
  "calm m \<longleftrightarrow> attains (\<lambda>_. True) m (\<lambda>_ _. True)"

lemma calmI: "(\<And>w. \<exists>a w'. m w = (Inr a, w')) \<Longrightarrow> calm m"
  by (simp add: calm_def attains_def)

lemma calmD: "calm m \<Longrightarrow> \<exists>a w'. m w = (Inr a, w')"
  by (simp add: calm_def attains_def)

lemma calm_mbind: "calm m \<Longrightarrow> (\<And>a. calm (f a)) \<Longrightarrow> calm (mbind m f)"
  unfolding calm_def by (rule attains_then)

lemma calm_mret: "calm (mret a)"
  by (rule calmI) simp

lemma calm_mfinally:
  assumes "calm m" and "calm c"
  shows "calm (mfinally m c)"
proof (rule calmI)
  fix w
  obtain a w1 where m: "m w = (Inr a, w1)" using calmD[OF assms(1)] by blast
  obtain u w2 where "c w1 = (Inr u, w2)" using calmD[OF assms(2)] by blast
  with m show "\<exists>a w'. mfinally m c w = (Inr a, w')" by (simp add: mfinally_def)
qed

lemma calm_when_text: "(\<And>t. calm (call t)) \<Longrightarrow> calm (when_text text call)"
  by (simp add: when_text_def calm_mret split: option.split)

lemma calm_chart:
  assumes draw: "\<And>call. calm (draw call)" and v: "drawable v" "pv_type v \<noteq> lit ''table''"
  shows "calm (render_chart draw frame v)"
proof -
  obtain x where x: "pv_x v = Some x" and type: "pv_type v \<in> {lit ''bar'', lit ''line'', lit ''scatter''}" and y: "pv_y v \<noteq> []"
    using v by (auto simp: drawable_def Let_def chart_ok_def split: option.splits)
  have "calm (render_bar draw frame v)" "calm (render_line draw frame v)"
    unfolding render_bar_def render_line_def required_x_def x Let_def by (auto intro!: calm_mbind calm_mret draw)
  moreover have "calm (render_scatter draw frame v)"
    using y unfolding render_scatter_def required_x_def x by (auto intro!: calm_mbind calm_mret draw split: list.split)
  ultimately show ?thesis
    using type unfolding render_chart_def by (auto intro!: calm_mbind calm_when_text draw)
qed

lemma calm_visualization:
  assumes "\<And>call. calm (draw call)" and "drawable v"
  shows "calm (render_visualization draw v)"
  unfolding render_visualization_def Let_def
  using assms calm_chart by (auto intro!: calm_mbind calm_mfinally calm_when_text)

lemma calm_block:
  assumes "\<And>call. calm (draw call)" and "\<And>v. block = VisualizationBlock v \<Longrightarrow> drawable v"
  shows "calm (render_block draw block)"
  using assms calm_visualization by (cases block) (auto simp: render_block_def mwhen_def calm_mret)

lemma rendered_count:
  assumes "\<And>call. calm (draw call)"
  shows "\<forall>v. VisualizationBlock v \<in> set blocks \<longrightarrow> drawable v \<Longrightarrow>
    attains (\<lambda>_. True) (render_blocks draw i blocks) (\<lambda>n _. n = i + int (length (filter is_visualization blocks)))"
proof (induction blocks arbitrary: i)
  case Nil
  show ?case unfolding render_blocks.simps by (rule attains_mret) simp
next
  case (Cons block blocks)
  let ?j = "if is_visualization block then i + 1 else i"
  have "calm (render_block draw block)" using Cons.prems by (intro calm_block assms) auto
  moreover have "attains (\<lambda>_. True) (render_blocks draw ?j blocks)
      (\<lambda>n _. n = i + int (length (filter is_visualization (block # blocks))))"
    by (rule attains_weaken[OF Cons.IH]) (use Cons.prems in auto)
  ultimately show ?case unfolding calm_def render_blocks.simps by (rule attains_mbind)
qed

lemma parsed_visualization:
  assumes "VisualizationBlock v \<in> set (parse_blocks vt p m i s)"
  shows "\<exists>before rest raw after j. search match_open True s = Some (before, rest) \<and> search match_close True rest = Some (raw, after)
    \<and> (parse_visualization_block vt (py_strip raw) = VisualizationBlock v
       \<or> VisualizationBlock v \<in> set (parse_blocks vt p m j after))"
proof (cases "search match_open True s")
  case None
  with assms show ?thesis
    by (subst (asm) parse_blocks.simps) (auto simp: append_markdown_def split: if_splits option.splits)
next
  case (Some found)
  obtain before rest where found: "found = (before, rest)" by force
  show ?thesis
  proof (cases "search match_close True rest")
    case None
    with assms Some found show ?thesis
      by (subst (asm) parse_blocks.simps) (simp add: append_markdown_def split: if_splits)
  next
    case (Some closed)
    obtain raw after where "closed = (raw, after)" by force
    with assms \<open>search match_open True s = Some found\<close> found Some show ?thesis
      by (subst (asm) parse_blocks.simps) (simp add: append_markdown_def Let_def split: if_splits, metis+)
  qed
qed

lemma parsed_drawable: "VisualizationBlock v \<in> set (parse_blocks vt p m i s) \<Longrightarrow> drawable v"
proof (induction s arbitrary: i rule: length_induct)
  case (1 s)
  obtain before rest raw after j
    where past: "search match_open True s = Some (before, rest)" "search match_close True rest = Some (raw, after)"
      and "parse_visualization_block vt (py_strip raw) = VisualizationBlock v
         \<or> VisualizationBlock v \<in> set (parse_blocks vt p m j after)"
    using parsed_visualization[OF 1(2)] by blast
  then show ?case
  proof (elim disjE)
    assume "parse_visualization_block vt (py_strip raw) = VisualizationBlock v"
    then show ?thesis
      using inline_sound by (auto simp: parse_visualization_block_def split: option.splits pyval.splits sum.splits)
  next
    assume "VisualizationBlock v \<in> set (parse_blocks vt p m j after)"
    then show ?thesis using 1(1) past_directive_shorter[OF past] by blast
  qed
qed

lemma parsed_count:
  "i \<le> m \<Longrightarrow> i + int (length (filter is_visualization (parse_blocks vt p m i s))) \<le> m"
proof (induction s arbitrary: i rule: length_induct)
  case (1 s)
  show ?case
  proof (cases "\<exists>before rest raw after. search match_open True s = Some (before, rest) \<and> search match_close True rest = Some (raw, after)")
    case True
    then obtain before rest raw after
      where past: "search match_open True s = Some (before, rest)" "search match_close True rest = Some (raw, after)" by blast
    have step: "j + int (length (filter is_visualization (parse_blocks vt p m j after))) \<le> m" if "j \<le> m" for j
      using 1(1) past_directive_shorter[OF past] that by blast
    have "s \<noteq> []" using past_directive_shorter[OF past] by auto
    then show ?thesis
      using 1(2) step[of i] step[of "i + 1"] by (subst parse_blocks.simps) (auto simp: append_markdown_def Let_def past)
  next
    case False
    then show ?thesis
      using 1(2) by (subst parse_blocks.simps) (auto simp: append_markdown_def split: option.split)
  qed
qed



end
