(* ===== verification/ActivityPanel.thy ===== *)
theory ActivityPanel
  imports Rendering Unicode Observation
begin

text \<open>
  The panel of activities (\<open>ui/components/activity_panel.py\<close>, \<open>ui/components/assets.py\<close>): a page fragment and a script
  made from template files by replacing markers, with every value escaped for the place it goes to. The template files
  are a parameter. An execution identifier may come from the address bar, so the literal that carries it into the
  script must not be able to close the script.
\<close>

section \<open>Templates\<close>

text \<open>\<open>s.replace(old, new)\<close>.\<close>

function py_replace :: "pystr \<Rightarrow> pystr \<Rightarrow> pystr \<Rightarrow> pystr" where
  "py_replace old new s =
     (if old = [] \<or> s = [] then s
      else if prefix old s then new @ py_replace old new (drop (length old) s)
      else hd s # py_replace old new (tl s))"
  by pat_completeness auto

termination
  by (relation "measure (\<lambda>(_, _, s). length s)") (auto simp: Suc_le_eq neq_Nil_conv)

declare py_replace.simps [simp del]

type_synonym assets = "pystr \<Rightarrow> pystr"

definition load_asset :: "assets \<Rightarrow> pystr \<Rightarrow> pystr res" where
  "load_asset files name =
     (if name = [] \<or> 47 \<in> set name \<or> 92 \<in> set name \<or> prefix [46] name
      then Inl (Exn ValueError (lit ''asset name must be a simple file name''))
      else Inr (files name))"

definition marker :: "pystr \<Rightarrow> pystr" where
  "marker key = lit ''__'' @ key @ lit ''__''"

definition render_asset :: "assets \<Rightarrow> string \<Rightarrow> (string \<times> pystr) list \<Rightarrow> pystr res" where
  "render_asset files name replacements =
     rbind (load_asset files (lit name)) (\<lambda>text.
       Inr (fold (\<lambda>(key, v) rendered. py_replace (marker (lit key)) v rendered) replacements text))"

definition inject_style_asset :: "assets \<Rightarrow> 'w canvas \<Rightarrow> string \<Rightarrow> (string \<times> pystr) list \<Rightarrow> ('w, unit) act" where
  "inject_style_asset files draw name replacements =
     mbind (mlift (render_asset files name replacements)) (\<lambda>css.
     mbind (mlift (render_asset files ''style_host.html'' [(''CONTENT'', css)])) (\<lambda>html. draw (St_markdown html)))"

definition mount_script_asset :: "assets \<Rightarrow> 'w canvas \<Rightarrow> string \<Rightarrow> (string \<times> pystr) list \<Rightarrow> ('w, unit) act" where
  "mount_script_asset files draw name replacements =
     mbind (mlift (render_asset files name replacements)) (\<lambda>javascript.
     mbind (mlift (render_asset files ''script_host.html'' [(''CONTENT'', javascript)])) (\<lambda>html. draw (Components_html html)))"

section \<open>Escaping\<close>

text \<open>\<open>json.dumps\<close> of a string as it is by default, in ASCII: other characters become \<open>u\<close> escapes, as pairs above \<open>0xFFFF\<close>.\<close>

definition u_escape :: "nat \<Rightarrow> pystr" where
  "u_escape n = [92, 117, hex_digit (n div 4096), hex_digit (n div 256 mod 16), hex_digit (n div 16 mod 16), hex_digit (n mod 16)]"

definition ascii_esc :: "pychar \<Rightarrow> pystr" where
  "ascii_esc c =
     (if c < 32 \<or> c = 34 \<or> c = 92 then esc_char c
      else if c < 127 then [c]
      else if c < 65536 then u_escape c
      else u_escape (55296 + (c - 65536) div 1024) @ u_escape (56320 + (c - 65536) mod 1024))"

definition json_quote_ascii :: "pystr \<Rightarrow> pystr" where
  "json_quote_ascii s = 34 # concat (map ascii_esc s) @ [34]"

definition javascript_json :: "pystr \<Rightarrow> pystr" where
  "javascript_json v =
     py_replace [38] (lit [CHR 0x5C] @ lit ''u0026'')
       (py_replace [62] (lit [CHR 0x5C] @ lit ''u003e'')
         (py_replace [60] (lit [CHR 0x5C] @ lit ''u003c'') (json_quote_ascii v)))"

text \<open>\<open>html.escape\<close>, which also escapes both quotes.\<close>

definition html_escape :: "pystr \<Rightarrow> pystr" where
  "html_escape s =
     py_replace [39] (lit ''&#x27;'') (py_replace [34] (lit ''&quot;'')
       (py_replace [62] (lit ''&gt;'') (py_replace [60] (lit ''&lt;'') (py_replace [38] (lit ''&amp;'') s))))"

section \<open>The panel\<close>

definition ACTIVITY_PANEL_HEIGHT_PX :: int where
  "ACTIVITY_PANEL_HEIGHT_PX = 156"

definition ALLOWED_PANEL_STATES :: "pystr set" where
  "ALLOWED_PANEL_STATES = {lit ''running'', lit ''complete'', lit ''error''}"

definition ACTIVITY_ICONS :: "(pystr \<times> pystr) list" where
  "ACTIVITY_ICONS = [(lit ''running'', [9676]), (lit ''success'', [10003]), (lit ''error'', [10005]), (lit ''info'', [8226])]"

definition activity_panel_storage_key :: "pystr \<Rightarrow> pystr" where
  "activity_panel_storage_key execution_id = lit ''franq:execution:'' @ execution_id @ lit '':activities-open''"

definition script_replacements :: "pystr \<Rightarrow> (string \<times> pystr) list" where
  "script_replacements execution_id =
     [(''EXECUTION_ID_JSON'', javascript_json execution_id),
      (''STORAGE_KEY_JSON'', javascript_json (activity_panel_storage_key execution_id))]"

definition build_activity_panel_script :: "assets \<Rightarrow> pystr \<Rightarrow> pystr res" where
  "build_activity_panel_script files execution_id =
     render_asset files ''activity_panel.js'' (script_replacements execution_id)"

text \<open>The stored values are those of \<open>as_dict\<close>, in which no sequence number is a boolean.\<close>

definition activity_from_mapping :: "repr \<Rightarrow> pdict \<Rightarrow> activity_presentation" where
  "activity_from_mapping rp d =
     \<lparr>ap_sequence = (case dget d (lit ''sequence'') of PInt n \<Rightarrow> Some n | _ \<Rightarrow> None),
      ap_event_type = py_str rp (py_or (dget d (lit ''event_type'')) (PStr [])),
      ap_title = py_str rp (py_or (dget d (lit ''title'')) (py_or (dget d (lit ''event_type'')) (PStr (lit ''Atividade'')))),
      ap_detail = (if truthy (dget d (lit ''detail'')) then Some (py_str rp (dget d (lit ''detail''))) else None),
      ap_status = py_str rp (py_or (dget d (lit ''status'')) (PStr (lit ''info'')))\<rparr>"

definition latest_activity :: "repr \<Rightarrow> pyval list \<Rightarrow> activity_presentation option" where
  "latest_activity rp values =
     (case filter is_dict (rev values) of
        PDict d # _ \<Rightarrow> Some (activity_from_mapping rp d)
      | _ \<Rightarrow> None)"

definition activity_detail_html :: "unicode \<Rightarrow> assets \<Rightarrow> activity_presentation \<Rightarrow> pystr res" where
  "activity_detail_html u files a =
     (case ap_detail a of
        None \<Rightarrow> Inr []
      | Some detail \<Rightarrow>
          if detail = [] then Inr []
          else if ap_event_type a = lit ''sql.generated'' \<or> str_in (lit ''SELECT '') (to_upper u detail)
          then render_asset files ''activity_sql_detail.html'' [(''DETAIL'', html_escape detail)]
          else render_asset files ''activity_detail.html'' [(''DETAIL'', html_escape detail)])"

definition activity_html :: "unicode \<Rightarrow> assets \<Rightarrow> activity_presentation \<Rightarrow> pystr res" where
  "activity_html u files a =
     (let status = (if ap_status a \<in> fst ` set ACTIVITY_ICONS then ap_status a else lit ''info'');
          sequence = (case ap_sequence a of None \<Rightarrow> [] | Some n \<Rightarrow> dec_int n)
      in rbind (activity_detail_html u files a) (\<lambda>detail.
           render_asset files ''activity_item.html''
             [(''STATUS'', status), (''SEQUENCE'', html_escape sequence), (''ICON'', the (map_of ACTIVITY_ICONS status)),
              (''TITLE'', html_escape (ap_title a)), (''DETAIL'', detail)]))"

definition allowed_state :: "pystr \<Rightarrow> pystr" where
  "allowed_state state = (if state \<in> ALLOWED_PANEL_STATES then state else lit ''running'')"

definition render_activity_panel_html ::
  "unicode \<Rightarrow> assets \<Rightarrow> pystr \<Rightarrow> pystr \<Rightarrow> pystr \<Rightarrow> activity_presentation list \<Rightarrow> pystr res" where
  "render_activity_panel_html u files execution_id label state activities =
     rbind (mapM_res (activity_html u files) activities) (\<lambda>items.
       render_asset files ''activity_panel.html''
         [(''STATE'', allowed_state state), (''EXECUTION_ID'', html_escape execution_id),
          (''LABEL'', html_escape label), (''ACTIVITIES'', concat items)])"

record activity_panel =
  pn_execution_id :: pystr
  pn_label :: pystr
  pn_state :: pystr
  pn_activities :: "activity_presentation list"

definition new_panel :: "pystr \<Rightarrow> pystr \<Rightarrow> pystr \<Rightarrow> activity_presentation list \<Rightarrow> activity_panel" where
  "new_panel execution_id label state activities =
     \<lparr>pn_execution_id = execution_id, pn_label = label, pn_state = allowed_state state, pn_activities = activities\<rparr>"

definition render_panel :: "unicode \<Rightarrow> assets \<Rightarrow> 'w canvas \<Rightarrow> activity_panel \<Rightarrow> ('w, unit) act" where
  "render_panel u files draw p =
     mbind (mlift (render_activity_panel_html u files (pn_execution_id p) (pn_label p) (pn_state p) (pn_activities p)))
       (\<lambda>html. draw (St_html html))"

definition mount_panel :: "unicode \<Rightarrow> assets \<Rightarrow> 'w canvas \<Rightarrow> activity_panel \<Rightarrow> ('w, unit) act" where
  "mount_panel u files draw p =
     mbind (inject_style_asset files draw ''activity_panel.css'' [(''PANEL_HEIGHT_PX'', dec_int ACTIVITY_PANEL_HEIGHT_PX)]) (\<lambda>_.
     mbind (draw St_empty) (\<lambda>_.
     mbind (render_panel u files draw p) (\<lambda>_.
       mount_script_asset files draw ''activity_panel.js'' (script_replacements (pn_execution_id p)))))"

definition panel_appended :: "activity_presentation \<Rightarrow> activity_panel \<Rightarrow> activity_panel" where
  "panel_appended a p = p\<lparr>pn_activities := pn_activities p @ [a]\<rparr>"

text \<open>An update that changes nothing is not drawn.\<close>

definition panel_updated :: "pystr \<Rightarrow> pystr \<Rightarrow> activity_panel \<Rightarrow> activity_panel option" where
  "panel_updated label state p =
     (if label = pn_label p \<and> allowed_state state = pn_state p then None
      else Some (p\<lparr>pn_label := label, pn_state := allowed_state state\<rparr>))"

section \<open>The literal in the script\<close>

lemma py_replace_char: "py_replace [x] new s = concat (map (\<lambda>c. if c = x then new else [c]) s)"
proof (induction s)
  case Nil
  show ?case by (subst py_replace.simps) simp
next
  case (Cons c s)
  then show ?case by (subst py_replace.simps) auto
qed

definition markup_char :: "pychar \<Rightarrow> bool" where
  "markup_char c \<longleftrightarrow> c = 38 \<or> c = 60 \<or> c = 62"

definition js_esc :: "pychar \<Rightarrow> pystr" where
  "js_esc c = (if markup_char c then u_escape c else ascii_esc c)"

definition replaced :: "pychar \<Rightarrow> pystr" where
  "replaced c = (if markup_char c then u_escape c else [c])"

lemma u_escape_markup:
  "lit [CHR 0x5C] @ lit ''u0026'' = u_escape 38" "lit [CHR 0x5C] @ lit ''u003e'' = u_escape 62"
  "lit [CHR 0x5C] @ lit ''u003c'' = u_escape 60"
  by (simp_all add: u_escape_def lit_def hex_digit_def)

text \<open>A printable ASCII character that markup does not read.\<close>

definition plain :: "pychar \<Rightarrow> bool" where
  "plain c \<longleftrightarrow> 32 \<le> c \<and> c < 127 \<and> \<not> markup_char c"

lemma plain_chars [simp]: "plain 34" "plain 48" "plain 92" "plain 98" "plain 102" "plain 110" "plain 114" "plain 116" "plain 117"
  by (simp_all add: plain_def markup_char_def)

lemma hex_digit_plain: "n < 16 \<Longrightarrow> plain (hex_digit n)"
  by (auto simp: hex_digit_def plain_def markup_char_def)

lemma u_escape_plain: "n < 65536 \<Longrightarrow> list_all plain (u_escape n)"
  by (simp add: u_escape_def hex_digit_plain less_mult_imp_div_less)

lemma replaced_plain: "\<forall>c \<in> set s. \<not> markup_char c \<Longrightarrow> concat (map replaced s) = s"
  by (induction s) (auto simp: replaced_def)

lemma replace_markup:
  "py_replace [38] (u_escape 38) (py_replace [62] (u_escape 62) (py_replace [60] (u_escape 60) s)) = concat (map replaced s)"
proof (induction s)
  case Nil
  show ?case by (simp add: py_replace_char)
next
  case (Cons c s)
  have "u_escape 60 = [92, 117, 48, 48, 51, 99]" "u_escape 62 = [92, 117, 48, 48, 51, 101]" "u_escape 38 = [92, 117, 48, 48, 50, 54]"
    by (simp_all add: u_escape_def hex_digit_def)
  with Cons show ?case by (simp add: py_replace_char replaced_def markup_char_def)
qed

text \<open>A code point of a Python string that is not half of a surrogate pair.\<close>

definition scalar :: "pychar \<Rightarrow> bool" where
  "scalar c \<longleftrightarrow> c < 1114112 \<and> \<not> (55296 \<le> c \<and> c \<le> 57343)"

lemma pair_halves:
  assumes "c < (1114112 :: nat)"
  shows "(c - 65536) div 1024 < 1024"
proof -
  have "c - 65536 < 1024 * 1024" using assms by simp
  then show ?thesis by (rule less_mult_imp_div_less)
qed

lemma esc_char_plain: "c < 32 \<or> c = 34 \<or> c = 92 \<Longrightarrow> list_all plain (esc_char c)"
  using hex_digit_plain[of "c div 16"] hex_digit_plain[of "c mod 16"] by (auto simp: esc_char_def)

lemma ascii_esc_plain:
  assumes "scalar c" and "\<not> markup_char c"
  shows "list_all plain (ascii_esc c)"
proof -
  have "list_all plain (u_escape (55296 + (c - 65536) div 1024))" "list_all plain (u_escape (56320 + (c - 65536) mod 1024))"
  proof -
    have "(c - 65536) div 1024 < 1024" by (rule pair_halves) (use assms(1) in \<open>simp add: scalar_def\<close>)
    then show "list_all plain (u_escape (55296 + (c - 65536) div 1024))" by (intro u_escape_plain) linarith
    have "(c - 65536) mod 1024 < 1024" by simp
    then show "list_all plain (u_escape (56320 + (c - 65536) mod 1024))" by (intro u_escape_plain) linarith
  qed
  moreover have "list_all plain [c]" if "\<not> c < 32" "c < 127" using that assms(2) by (simp add: plain_def)
  ultimately show ?thesis
    unfolding ascii_esc_def using esc_char_plain[of c] u_escape_plain[of c] by (simp add: list_all_append)
qed

lemma js_esc_plain: "scalar c \<Longrightarrow> list_all plain (js_esc c)"
  using ascii_esc_plain[of c] u_escape_plain[of c] by (auto simp: js_esc_def markup_char_def)

lemma javascript_json_esc: "\<forall>c \<in> set v. scalar c \<Longrightarrow> javascript_json v = 34 # concat (map js_esc v) @ [34]"
proof -
  have one: "concat (map replaced (ascii_esc c)) = js_esc c" if "scalar c" for c
  proof (cases "markup_char c")
    case True
    then show ?thesis by (auto simp: markup_char_def ascii_esc_def js_esc_def replaced_def)
  next
    case False
    then have "\<forall>x \<in> set (ascii_esc c). \<not> markup_char x"
      using ascii_esc_plain[OF that] by (simp add: list_all_iff plain_def)
    with False show ?thesis by (simp add: replaced_plain js_esc_def)
  qed
  have quote: "replaced 34 = [34]" by (simp add: replaced_def markup_char_def)
  assume "\<forall>c \<in> set v. scalar c"
  then have "concat (map replaced (concat (map ascii_esc v))) = concat (map js_esc v)"
    by (induction v) (simp_all add: one)
  then show ?thesis
    by (simp add: javascript_json_def u_escape_markup replace_markup json_quote_ascii_def quote)
qed

section \<open>Reading the literal back\<close>

lemma hex4_u_escape: "n < 65536 \<Longrightarrow> hex4 (drop 2 (u_escape n) @ r) = Some (n, r)"
proof -
  assume n: "n < 65536"
  have "n div 4096 < 16" using n by (simp add: less_mult_imp_div_less)
  moreover have "((n div 4096 * 16 + n div 256 mod 16) * 16 + n div 16 mod 16) * 16 + n mod 16 = n"
  proof -
    have "n div 4096 = n div 256 div 16" "n div 256 = n div 16 div 16" by (simp_all add: div_mult2_eq[symmetric])
    then show ?thesis by (metis div_mult_mod_eq)
  qed
  ultimately show ?thesis by (simp add: u_escape_def hex_digit_val)
qed

lemma unicode_escape_single:
  assumes "n < 65536" and "\<not> (55296 \<le> n \<and> n \<le> 57343)"
  shows "unicode_escape (drop 2 (u_escape n) @ r) = Some (n, r)"
  using hex4_u_escape[OF assms(1), of r] assms(2) by (auto simp: unicode_escape_def)

lemma u_escape_head: "u_escape n = 92 # 117 # drop 2 (u_escape n)"
  by (simp add: u_escape_def)

lemma unicode_escape_pair:
  assumes "a < 1024" and "b < 1024"
  shows "unicode_escape (drop 2 (u_escape (55296 + a)) @ u_escape (56320 + b) @ r) = Some (65536 + (a * 1024 + b), r)"
proof -
  have "hex4 (drop 2 (u_escape (55296 + a)) @ u_escape (56320 + b) @ r) = Some (55296 + a, u_escape (56320 + b) @ r)"
    by (rule hex4_u_escape) (use assms in simp)
  moreover have "hex4 (drop 2 (u_escape (56320 + b) @ r)) = Some (56320 + b, r)"
    using hex4_u_escape[of "56320 + b" r] assms by (simp add: u_escape_def)
  moreover have "prefix [92, 117] (u_escape (56320 + b) @ r)" by (simp add: u_escape_def)
  ultimately show ?thesis using assms by (simp add: unicode_escape_def)
qed

lemma json_string_u: "unicode_escape (drop 2 (u_escape n) @ t) = Some (c, r) \<Longrightarrow>
    json_string (u_escape n @ t) = map_option (\<lambda>(s, r'). (c # s, r')) (json_string r)"
  by (subst u_escape_head) simp

lemma json_string_js: "scalar c \<Longrightarrow> json_string (js_esc c @ r) = map_option (\<lambda>(t, r'). (c # t, r')) (json_string r)"
proof -
  assume c: "scalar c"
  consider "markup_char c" | "\<not> markup_char c" "c < 32 \<or> c = 34 \<or> c = 92"
    | "\<not> markup_char c" "\<not> (c < 32 \<or> c = 34 \<or> c = 92)" "c < 127"
    | "\<not> markup_char c" "127 \<le> c" "c < 65536" | "\<not> markup_char c" "65536 \<le> c" by linarith
  then show ?thesis
  proof cases
    case 1
    then show ?thesis unfolding js_esc_def by (simp, intro json_string_u unicode_escape_single) (auto simp: markup_char_def)
  next
    case 2
    then show ?thesis by (simp add: js_esc_def ascii_esc_def json_string_esc)
  next
    case 3
    then show ?thesis by (simp add: js_esc_def ascii_esc_def)
  next
    case 4
    then show ?thesis
      using c unfolding js_esc_def ascii_esc_def by (simp, intro json_string_u unicode_escape_single) (auto simp: scalar_def)
  next
    case 5
    have "(c - 65536) div 1024 < 1024" by (rule pair_halves) (use c in \<open>simp add: scalar_def\<close>)
    moreover have "65536 + ((c - 65536) div 1024 * 1024 + (c - 65536) mod 1024) = c" using 5 by simp
    ultimately have "unicode_escape (drop 2 (u_escape (55296 + (c - 65536) div 1024)) @ u_escape (56320 + (c - 65536) mod 1024) @ r)
        = Some (c, r)"
      using unicode_escape_pair[of "(c - 65536) div 1024" "(c - 65536) mod 1024" r] by simp
    from json_string_u[OF this] 5 show ?thesis by (simp add: js_esc_def ascii_esc_def)
  qed
qed

lemma json_string_literal: "\<forall>c \<in> set v. scalar c \<Longrightarrow> json_string (concat (map js_esc v) @ [34]) = Some (v, [])"
  by (induction v) (simp_all add: json_string_js)

text \<open>
  C31. The literal that carries a value into the panel's script is safe and faithful: for every text of Unicode scalar
  values, an execution identifier taken from the address bar among them, the literal is printable ASCII without
  \<open><\<close>, \<open>>\<close> or \<open>&\<close>, so that no value can close the script element or open another, and it reads back as the value.
\<close>

theorem script_literal_safe:
  assumes "\<forall>c \<in> set v. scalar c"
  shows "list_all plain (javascript_json v) \<and> json_loads read (javascript_json v) = Some (PStr v)"
proof
  show "list_all plain (javascript_json v)"
    using assms js_esc_plain by (auto simp: javascript_json_esc[OF assms] list_all_iff)
  have "json_value read (Suc (length (javascript_json v))) (javascript_json v) = Some (PStr v, [])"
    by (simp add: javascript_json_esc[OF assms] json_string_literal[OF assms])
  moreover have "skip_ws (javascript_json v) = javascript_json v"
    by (simp add: javascript_json_esc[OF assms] skip_ws_def json_ws_def)
  ultimately show "json_loads read (javascript_json v) = Some (PStr v)"
    by (simp add: json_loads_def skip_ws_def)
qed

lemma script_literal_safe_witness:
  "list_all plain (javascript_json (lit ''</script>'' @ [8232, 128512]))
   \<and> json_loads (\<lambda>_. 0) (javascript_json (lit ''</script>'' @ [8232, 128512])) = Some (PStr (lit ''</script>'' @ [8232, 128512]))"
  by (rule script_literal_safe) (simp add: scalar_def lit_def)

end
