(* ===== verification/App.thy ===== *)
theory App
  imports ActivityPanel
begin

text \<open>
  The interface (\<open>ui/app.py\<close>, \<open>ui/components/composer.py\<close>, \<open>ui/components/conversation_sidebar.py\<close>): a script that runs from top
  to bottom on every interaction and keeps what survives a run in the session state and in the address bar. The state
  of a run is the record \<open>app\<close>; the HTTP library, the drawing calls and the template files are parameters, and what the
  user did since the last run is an input. A rerun is the exception Streamlit raises for it.
\<close>

section \<open>The state of a session\<close>

record chat_message =
  cm_role :: pystr
  cm_content :: pystr
  cm_result :: pyval
  cm_execution_id :: pystr
  cm_status :: "pystr option"
  cm_cancelled :: bool

text \<open>The locals of \<open>_observe_execution\<close> that an exception leaves as they are.\<close>

record observing =
  rl_panel :: activity_panel
  rl_terminal :: "pystr option"
  rl_degraded :: bool

text \<open>
  \<open>st.session_state\<close>, with \<open>None\<close> for a missing list of messages, \<open>st.query_params\<close>, the locals and the world of the
  libraries. The stored response is the object the observation mutates, so there is one copy of it.
\<close>

record 'w app =
  st_session_id :: "pystr option"
  st_messages :: "chat_message list option"
  st_active_execution_id :: "pystr option"
  st_active_response :: "observation option"
  st_last_sequence :: "int option"
  st_trace_cache :: "(pystr \<times> pdict list) list"
  st_query :: "(pystr \<times> pystr) list"
  st_observing :: observing
  st_world :: 'w

record 'w app_env =
  ae_text :: py_text
  ae_viz :: viz_text
  ae_unicode :: unicode
  ae_files :: assets
  ae_http :: "'w http_api"
  ae_client :: api_client
  ae_draw :: "'w canvas"

definition outer :: "('w, 'a) act \<Rightarrow> ('w app, 'a) act" where
  "outer m = (\<lambda>app. case m (st_world app) of (r, w) \<Rightarrow> (r, app\<lparr>st_world := w\<rparr>))"

definition call :: "'w app_env \<Rightarrow> (repr \<Rightarrow> 'w http_api \<Rightarrow> api_client \<Rightarrow> ('w, 'a) act) \<Rightarrow> ('w app, 'a) act" where
  "call env f = outer (f (tx_repr (ae_text env)) (ae_http env) (ae_client env))"

definition show_call :: "'w app_env \<Rightarrow> draw_call \<Rightarrow> ('w app, unit) act" where
  "show_call env c = outer (ae_draw env c)"

definition rerun :: "('w, 'a) act" where
  "rerun = mraise (Exn (OtherError (lit ''RerunException'')) [])"

definition stop :: "('w, 'a) act" where
  "stop = mraise (Exn (OtherError (lit ''StopException'')) [])"

text \<open>\<open>httpx.HTTPError\<close>: an error status, or a failure of the transport.\<close>

definition http_error :: "py_exn \<Rightarrow> bool" where
  "http_error e \<longleftrightarrow> (case exn_kind e of HTTPStatus _ \<Rightarrow> True | OtherError name \<Rightarrow> name = lit ''HTTPError'' | _ \<Rightarrow> False)"

definition http_or_value_error :: "py_exn \<Rightarrow> bool" where
  "http_or_value_error e \<longleftrightarrow> http_error e \<or> exn_kind e = ValueError"

definition catching :: "(py_exn \<Rightarrow> bool) \<Rightarrow> ('w, 'a) act \<Rightarrow> (py_exn \<Rightarrow> ('w, 'a) act) \<Rightarrow> ('w, 'a) act" where
  "catching p m h = mtry m (\<lambda>e. if p e then h e else mraise e)"

definition as_dict :: "pyval \<Rightarrow> ('w, pdict) act" where
  "as_dict v = (case v of PDict d \<Rightarrow> mret d | _ \<Rightarrow> mraise (Exn (OtherError (lit ''AttributeError'')) (lit ''get'')))"

definition item :: "pdict \<Rightarrow> pystr \<Rightarrow> pyval res" where
  "item d key = (if dhas d key then Inr (dget d key) else Inl (Exn KeyError key))"

definition query_value :: "string \<Rightarrow> 'w app \<Rightarrow> pystr option" where
  "query_value name app = (case map_of (st_query app) (lit name) of None \<Rightarrow> None | Some v \<Rightarrow> if v = [] then None else Some v)"

definition query_put :: "string \<Rightarrow> pystr \<Rightarrow> ('w app, unit) act" where
  "query_put name v = mput (\<lambda>app. app\<lparr>st_query := AList.update (lit name) v (st_query app)\<rparr>)"

definition query_drop :: "string \<Rightarrow> ('w app, unit) act" where
  "query_drop name = mput (\<lambda>app. app\<lparr>st_query := AList.delete (lit name) (st_query app)\<rparr>)"

definition set_session :: "pystr \<Rightarrow> ('w app, unit) act" where
  "set_session session_id =
     mbind (mput (\<lambda>app. app\<lparr>st_session_id := Some session_id\<rparr>)) (\<lambda>_. query_put ''session_id'' session_id)"

text \<open>The response the state holds, or a new one when it is another execution's.\<close>

definition active_response :: "pystr \<Rightarrow> ('w app, observation) act" where
  "active_response execution_id =
     (\<lambda>app. case st_active_response app of
        Some ob \<Rightarrow>
          if ob_execution_id ob = execution_id then (Inr ob, app)
          else (Inr (new_observation_state execution_id), app\<lparr>st_active_response := Some (new_observation_state execution_id)\<rparr>)
      | None \<Rightarrow> (Inr (new_observation_state execution_id), app\<lparr>st_active_response := Some (new_observation_state execution_id)\<rparr>))"

text \<open>An update of the stored response; there is one whenever this is called.\<close>

definition on_active :: "(observation, 'a) act \<Rightarrow> ('w app, 'a) act" where
  "on_active m =
     (\<lambda>app. case st_active_response app of
        None \<Rightarrow> (Inl (Exn KeyError (lit ''active_response'')), app)
      | Some ob \<Rightarrow> (case m ob of (r, ob') \<Rightarrow> (r, app\<lparr>st_active_response := Some ob'\<rparr>)))"

definition clear_active_execution :: "('w app, unit) act" where
  "clear_active_execution =
     mbind (mput (\<lambda>app. app\<lparr>st_active_execution_id := None, st_active_response := None, st_last_sequence := None\<rparr>)) (\<lambda>_.
       query_drop ''execution_id'')"

definition reset_to_new_conversation :: "('w app, unit) act" where
  "reset_to_new_conversation =
     mbind (mput (\<lambda>app. app\<lparr>st_session_id := None, st_messages := Some [], st_active_execution_id := None,
              st_active_response := None, st_last_sequence := None\<rparr>)) (\<lambda>_.
     mbind (query_drop ''session_id'') (\<lambda>_. query_drop ''execution_id''))"

section \<open>History\<close>

definition cache_execution_activities :: "pystr \<Rightarrow> activity_presentation list \<Rightarrow> ('w app, unit) act" where
  "cache_execution_activities execution_id activities =
     mput (\<lambda>app. app\<lparr>st_trace_cache := AList.update execution_id (map activity_dict activities) (st_trace_cache app)\<rparr>)"

text \<open>The steps of a trace as activities; the entries that are not objects are passed over.\<close>

fun present_steps :: "py_text \<Rightarrow> pystr \<Rightarrow> pyval list \<Rightarrow> pdict list res" where
  "present_steps tx execution_id [] = Inr []"
| "present_steps tx execution_id (step # steps) =
     (case step of
        PDict d \<Rightarrow>
          rbind (present_activity_frame tx
              \<lparr>of_execution_id = execution_id, of_type = py_str (tx_repr tx) (py_or (dget d (lit ''event_type'')) (PStr [])),
               of_sequence = (case dget d (lit ''sequence'') of PInt n \<Rightarrow> Some n | _ \<Rightarrow> None),
               of_payload = (case dget d (lit ''payload'') of PDict p \<Rightarrow> p | _ \<Rightarrow> [])\<rparr>) (\<lambda>presentation.
          rbind (present_steps tx execution_id steps) (\<lambda>rest.
            Inr (case presentation of None \<Rightarrow> rest | Some a \<Rightarrow> activity_dict a # rest)))
      | _ \<Rightarrow> present_steps tx execution_id steps)"

definition historical_activities :: "'w app_env \<Rightarrow> pystr \<Rightarrow> ('w app, activity_presentation list) act" where
  "historical_activities env execution_id =
     mbind (mget (\<lambda>app. map_of (st_trace_cache app) execution_id)) (\<lambda>cached.
     mbind (case cached of
          Some stored \<Rightarrow> mret stored
        | None \<Rightarrow>
            mbind (catching http_or_value_error (call env (\<lambda>rp ht c. client_get_trace rp ht c execution_id)) (\<lambda>_. mret [])) (\<lambda>trace.
            mbind (mlift (present_steps (ae_text env) execution_id trace)) (\<lambda>stored.
            mbind (mput (\<lambda>app. app\<lparr>st_trace_cache := AList.update execution_id stored (st_trace_cache app)\<rparr>)) (\<lambda>_.
              mret stored)))) (\<lambda>stored.
       mret (map (activity_from_mapping (tx_repr (ae_text env))) stored)))"

definition failed_text :: "repr \<Rightarrow> pyval \<Rightarrow> pystr" where
  "failed_text rp error =
     lit ''N'' @ [227] @ lit ''o foi poss'' @ [237] @ lit ''vel concluir a execu'' @ [231, 227] @ lit ''o: ''
       @ py_str rp (py_or error (PStr (lit ''erro desconhecido'')))"

definition user_message :: "pystr \<Rightarrow> pystr \<Rightarrow> chat_message" where
  "user_message execution_id content =
     \<lparr>cm_role = lit ''user'', cm_content = content, cm_result = PNone, cm_execution_id = execution_id, cm_status = None,
      cm_cancelled = False\<rparr>"

definition assistant_message :: "pystr \<Rightarrow> pystr \<Rightarrow> pyval \<Rightarrow> string \<Rightarrow> chat_message" where
  "assistant_message execution_id content result status =
     \<lparr>cm_role = lit ''assistant'', cm_content = content, cm_result = result, cm_execution_id = execution_id,
      cm_status = Some (lit status), cm_cancelled = (status = ''cancelled'')\<rparr>"

text \<open>The messages of one execution, and its identifier when it is still running.\<close>

definition history_row :: "repr \<Rightarrow> pyval \<Rightarrow> (chat_message list \<times> pystr option) res" where
  "history_row rp v =
     (case v of
        PDict d \<Rightarrow>
          rbind (item d (lit ''id'')) (\<lambda>raw_id.
          rbind (item d (lit ''question'')) (\<lambda>question.
            let execution_id = py_str rp raw_id; user = user_message execution_id (py_str rp question);
                status = py_str rp (py_or (dget d (lit ''status'')) (PStr []));
                answer = py_str rp (py_or (dget d (lit ''answer'')) (PStr []))
            in if status = lit ''completed''
               then Inr ([user, assistant_message execution_id answer (dget d (lit ''result'')) ''completed''], None)
               else if status = lit ''failed''
               then Inr ([user, assistant_message execution_id (failed_text rp (dget d (lit ''error''))) PNone ''failed''], None)
               else if status = lit ''cancelled''
               then Inr ([user, assistant_message execution_id answer (dget d (lit ''result'')) ''cancelled''], None)
               else if status \<in> {lit ''pending'', lit ''running'', lit ''cancel_requested''}
               then Inr ([user], Some execution_id)
               else Inr ([user], None)))
      | _ \<Rightarrow> Inl (Exn TypeError (lit ''execution'')))"

fun history_loop :: "repr \<Rightarrow> chat_message list \<Rightarrow> pystr option \<Rightarrow> pyval list \<Rightarrow> (chat_message list \<times> pystr option) res" where
  "history_loop rp messages active [] = Inr (messages, active)"
| "history_loop rp messages active (v # vs) =
     rbind (history_row rp v) (\<lambda>(new, running).
       history_loop rp (messages @ new) (if running = None then active else running) vs)"

definition load_history :: "'w app_env \<Rightarrow> pystr \<Rightarrow> ('w app, unit) act" where
  "load_history env session_id =
     mbind (call env (\<lambda>rp ht c. client_list_executions rp ht c session_id)) (\<lambda>executions.
     mbind (mlift (history_loop (tx_repr (ae_text env)) [] None executions)) (\<lambda>(messages, active).
     let active_id = (case active of None \<Rightarrow> [] | Some i \<Rightarrow> i)
     in mbind (mput (\<lambda>app. app\<lparr>st_messages := Some messages, st_active_execution_id := active,
              st_active_response := (if active_id = [] then None else Some (new_observation_state active_id)),
              st_last_sequence := None\<rparr>)) (\<lambda>_.
          if active_id \<noteq> [] then query_put ''execution_id'' active_id else query_drop ''execution_id'')))"

definition ensure_session :: "'w app_env \<Rightarrow> ('w app, pystr option) act" where
  "ensure_session env =
     mbind (mget (query_value ''session_id'')) (\<lambda>requested.
     mbind (mget st_session_id) (\<lambda>current.
     mbind (if requested \<noteq> None \<and> requested \<noteq> current
            then catching http_error
                   (mbind (call env (\<lambda>rp ht c. client_get_session rp ht c (the requested))) (\<lambda>_. mret True))
                   (\<lambda>_. mbind (query_drop ''session_id'') (\<lambda>_. mret False))
            else mret False) (\<lambda>found.
       if found
       then mbind (set_session (the requested)) (\<lambda>_. mbind (load_history env (the requested)) (\<lambda>_. mret requested))
       else if current \<noteq> None \<and> current \<noteq> Some []
       then mbind (query_put ''session_id'' (the current)) (\<lambda>_.
            mbind (mget st_messages) (\<lambda>messages.
            mbind (if messages = None then load_history env (the current) else mret ()) (\<lambda>_. mret current)))
       else mbind (mput (\<lambda>app. app\<lparr>st_messages := (case st_messages app of None \<Rightarrow> Some [] | Some ms \<Rightarrow> Some ms)\<rparr>)) (\<lambda>_.
              mret None))))"


section \<open>The sidebar\<close>

definition DEFAULT_CONVERSATION_PAGE_SIZE :: int where
  "DEFAULT_CONVERSATION_PAGE_SIZE = 20"

definition sessions_limit :: "'w app \<Rightarrow> int" where
  "sessions_limit app =
     (case query_value ''sessions_limit'' app of
        None \<Rightarrow> DEFAULT_CONVERSATION_PAGE_SIZE
      | Some raw \<Rightarrow>
          (case parse_int raw of
             None \<Rightarrow> DEFAULT_CONVERSATION_PAGE_SIZE
           | Some parsed \<Rightarrow> max DEFAULT_CONVERSATION_PAGE_SIZE (min parsed 200)))"

definition could_not :: "string \<Rightarrow> pystr \<Rightarrow> repr \<Rightarrow> py_exn \<Rightarrow> pystr" where
  "could_not verb what rp e =
     lit ''N'' @ [227] @ lit ''o foi poss'' @ [237] @ lit ''vel '' @ lit verb @ lit '' '' @ what @ lit '': '' @ exn_str rp e"

definition the_execution :: pystr where
  "the_execution = lit ''a execu'' @ [231, 227] @ lit ''o''"

definition handle_sidebar_actions :: "'w app_env \<Rightarrow> ('w app, unit) act" where
  "handle_sidebar_actions env =
     (let rp = tx_repr (ae_text env) in
      mbind (mget (query_value ''rename_session_id'')) (\<lambda>rename_id.
      mbind (mget (query_value ''rename_session_title'')) (\<lambda>rename_title.
      mbind (case rename_id of
           None \<Rightarrow> mret ()
         | Some i \<Rightarrow>
             mbind (query_drop ''rename_session_id'') (\<lambda>_.
             mbind (query_drop ''rename_session_title'') (\<lambda>_.
               case rename_title of
                 None \<Rightarrow> mret ()
               | Some title \<Rightarrow>
                   mbind (catching http_error
                       (mbind (call env (\<lambda>rp ht c. client_update_session_title rp ht c i title)) (\<lambda>_. mret True))
                       (\<lambda>e. mbind (show_call env (St_sidebar_error (could_not ''renomear'' (lit ''a conversa'') rp e))) (\<lambda>_. mret False)))
                     (\<lambda>renamed. if renamed then rerun else mret ())))) (\<lambda>_.
      mbind (mget (query_value ''delete_session_id'')) (\<lambda>delete_id.
        case delete_id of
          None \<Rightarrow> mret ()
        | Some i \<Rightarrow>
            mbind (query_drop ''delete_session_id'') (\<lambda>_.
            mbind (catching http_error
                (mbind (call env (\<lambda>rp ht c. client_delete_session rp ht c i)) (\<lambda>_. mret True))
                (\<lambda>e. mbind (show_call env (St_sidebar_error (could_not ''excluir'' (lit ''a conversa'') rp e))) (\<lambda>_. mret False)))
              (\<lambda>deleted.
                if deleted
                then mbind (mget st_session_id) (\<lambda>current.
                     mbind (if (case current of None \<Rightarrow> [] | Some s \<Rightarrow> s) = i then reset_to_new_conversation else mret ()) (\<lambda>_.
                       rerun))
                else mret ())))))))"

text \<open>The rows of the sidebar, its height and the call of the component.\<close>

fun visible_sessions :: "repr \<Rightarrow> pdict list \<Rightarrow> pyval list" where
  "visible_sessions rp [] = []"
| "visible_sessions rp (d # ds) =
     (let session_id = py_str rp (py_or (dget d (lit ''id'')) (PStr []))
      in if session_id = [] then visible_sessions rp ds
         else PDict [(lit ''id'', PStr session_id),
                     (lit ''title'', PStr (py_str rp (py_or (dget d (lit ''title'')) (PStr (lit ''Conversa'')))))]
              # visible_sessions rp ds)"

definition render_conversation_sidebar ::
  "'w app_env \<Rightarrow> pdict list \<Rightarrow> pystr option \<Rightarrow> int \<Rightarrow> bool \<Rightarrow> ('w app, unit) act" where
  "render_conversation_sidebar env sessions active_session_id current_limit has_more =
     (let visible = visible_sessions (tx_repr (ae_text env)) sessions;
          content_height = max 120 (min 560 (int (length visible) * 38 + 8))
      in show_call env (Conversation_sidebar
           [(lit ''sessions'', PList visible), (lit ''active_session_id'', opt_str active_session_id),
            (lit ''current_limit'', PInt (max current_limit DEFAULT_CONVERSATION_PAGE_SIZE)),
            (lit ''page_size'', PInt DEFAULT_CONVERSATION_PAGE_SIZE), (lit ''has_more'', PBool has_more)] content_height))"

definition render_conversations :: "'w app_env \<Rightarrow> pystr option \<Rightarrow> ('w app, unit) act" where
  "render_conversations env session_id =
     (let rp = tx_repr (ae_text env) in
      mbind (mget sessions_limit) (\<lambda>limit.
      mbind (catching http_or_value_error
          (mbind (call env (\<lambda>rp ht c. client_list_sessions rp ht c (min (limit + 1) 200) 0)) (\<lambda>sessions. mret (Some sessions)))
          (\<lambda>e. mbind (show_call env (St_warning (could_not ''carregar'' (lit ''as conversas'') rp e))) (\<lambda>_. mret None))) (\<lambda>loaded.
        case loaded of
          None \<Rightarrow> mret ()
        | Some sessions \<Rightarrow>
            mbind (mmap as_dict (take (nat limit) sessions)) (\<lambda>visible.
            let visible_ids = map (\<lambda>d. py_str rp (py_or (dget d (lit ''id'')) (PStr []))) visible
            in mbind (case session_id of
                   None \<Rightarrow> mret []
                 | Some i \<Rightarrow>
                     if i = [] \<or> i \<in> set visible_ids then mret []
                     else catching http_error
                            (mbind (call env (\<lambda>rp ht c. client_get_session rp ht c i)) (\<lambda>selected.
                               if truthy selected then mbind (as_dict selected) (\<lambda>d. mret [d]) else mret []))
                            (\<lambda>_. mret [])) (\<lambda>selected.
                 render_conversation_sidebar env (selected @ visible) session_id limit
                   (limit < int (length sessions)))))))"

section \<open>Drawing the history\<close>

definition concluded :: pystr where
  "concluded = lit ''Conclu'' @ [237] @ lit ''do''"

definition execution_failed_label :: pystr where
  "execution_failed_label = lit ''Falha na execu'' @ [231, 227] @ lit ''o''"

definition analysis_done :: pystr where
  "analysis_done = lit ''An'' @ [225] @ lit ''lise conclu'' @ [237] @ lit ''da''"

definition reconnecting :: pystr where
  "reconnecting = lit ''Reconectando '' @ [224] @ lit '' execu'' @ [231, 227] @ lit ''o...''"

definition interrupted_caption :: pystr where
  "interrupted_caption = lit ''Resposta interrompida pelo usu'' @ [225] @ lit ''rio.''"

definition history_panel_state :: "chat_message \<Rightarrow> pystr \<times> pystr" where
  "history_panel_state message =
     (let status = (case cm_status message of None \<Rightarrow> lit ''completed'' | Some s \<Rightarrow> if s = [] then lit ''completed'' else s)
      in if status = lit ''failed'' then (execution_failed_label, lit ''error'')
         else if status = lit ''cancelled'' then (lit ''Interrompido'', lit ''complete'')
         else (concluded, lit ''complete''))"

definition draw_panel :: "'w app_env \<Rightarrow> activity_panel \<Rightarrow> ('w app, unit) act" where
  "draw_panel env panel = outer (mount_panel (ae_unicode env) (ae_files env) (ae_draw env) panel)"

definition draw_rich :: "'w app_env \<Rightarrow> pystr \<Rightarrow> bool \<Rightarrow> ('w app, unit) act" where
  "draw_rich env content allow_partial =
     mbind (outer (render_rich_content (ae_draw env) (ae_viz env) content allow_partial)) (\<lambda>_. mret ())"

definition render_message :: "'w app_env \<Rightarrow> chat_message \<Rightarrow> ('w app, unit) act" where
  "render_message env message =
     mbind (show_call env (St_chat_message (cm_role message))) (\<lambda>_.
     mbind (if cm_role message = lit ''assistant'' \<and> cm_execution_id message \<noteq> []
            then mbind (historical_activities env (cm_execution_id message)) (\<lambda>activities.
                 if activities = [] then mret ()
                 else case history_panel_state message of
                   (label, state) \<Rightarrow> draw_panel env (new_panel (cm_execution_id message) label state activities))
            else mret ()) (\<lambda>_.
     mbind (if cm_content message = [] then mret ()
            else if cm_role message = lit ''assistant'' then draw_rich env (cm_content message) False
            else show_call env (St_markdown (cm_content message))) (\<lambda>_.
       mwhen (cm_cancelled message) (show_call env (St_caption interrupted_caption)))))"

definition render_history :: "'w app_env \<Rightarrow> ('w app, unit) act" where
  "render_history env =
     mbind (mget st_messages) (\<lambda>messages. mfor (case messages of None \<Rightarrow> [] | Some ms \<Rightarrow> ms) (render_message env))"

section \<open>Durable results\<close>

definition refresh_durable_result ::
  "'w app_env \<Rightarrow> pystr \<Rightarrow> pystr \<Rightarrow> pdict option
   \<Rightarrow> ('w app, pystr option \<times> pystr \<times> pdict option \<times> pystr option) act" where
  "refresh_durable_result env execution_id current_answer current_result =
     (let rp = tx_repr (ae_text env) in
      mbind (catching http_error
          (mbind (call env (\<lambda>rp ht c. client_get_execution rp ht c execution_id)) (\<lambda>v. mret (Some v))) (\<lambda>_. mret None)) (\<lambda>loaded.
        case loaded of
          None \<Rightarrow> mret (None, current_answer, current_result, None)
        | Some v \<Rightarrow>
            mbind (as_dict v) (\<lambda>execution.
              mret (Some (py_str rp (py_or (dget execution (lit ''status'')) (PStr []))),
                    py_str rp (py_or (dget execution (lit ''answer'')) (PStr current_answer)),
                    (case dget execution (lit ''result'') of PDict r \<Rightarrow> Some r | _ \<Rightarrow> current_result),
                    (if truthy (dget execution (lit ''error'')) then Some (py_str rp (dget execution (lit ''error''))) else None)))))"

definition apply_durable_result ::
  "pystr option \<Rightarrow> pystr \<Rightarrow> pdict option \<Rightarrow> pystr option \<Rightarrow> observation \<Rightarrow> bool \<times> observation" where
  "apply_durable_result status answer result error ob =
     (let current = ob_content ob;
          changed = (answer \<noteq> [] \<and> answer \<noteq> current \<and> (prefix current answer \<or> \<not> prefix answer current));
          ob1 = (if changed then ob\<lparr>ob_content := answer\<rparr> else ob);
          ob2 = (case result of None \<Rightarrow> ob1 | Some r \<Rightarrow> ob1\<lparr>ob_result := Some r\<rparr>);
          ob3 = (case error of None \<Rightarrow> ob2 | Some e \<Rightarrow> if e = [] then ob2 else ob2\<lparr>ob_error := Some e\<rparr>);
          ob4 = (case status of
              None \<Rightarrow> ob3
            | Some s \<Rightarrow>
                if s = [] then ob3
                else if s = lit ''completed''
                then ob3\<lparr>ob_phase := s, ob_response_started := True, ob_response_completed := True\<rparr>
                else ob3\<lparr>ob_phase := s\<rparr>)
      in (changed, ob4))"

definition running_status_label :: "observation \<Rightarrow> activity_presentation option \<Rightarrow> pystr" where
  "running_status_label ob latest =
     (if ob_response_started ob then analysis_done
      else
        (case latest of
           Some a \<Rightarrow> strip_end (\<lambda>c. c = 46) (ap_title a) @ lit ''...''
         | None \<Rightarrow>
             (case phase_label (if ob_phase ob = [] then lit ''pending'' else ob_phase ob) of
                Some label \<Rightarrow> label
              | None \<Rightarrow> lit ''Execu'' @ [231, 227] @ lit ''o em andamento...'')))"


section \<open>Observing an execution\<close>

definition render_message_view :: "'w app_env \<Rightarrow> pystr \<Rightarrow> bool \<Rightarrow> ('w app, unit) act" where
  "render_message_view env content allow_partial =
     mbind (show_call env St_empty) (\<lambda>_. draw_rich env content allow_partial)"

text \<open>The panel is updated before it is drawn, so a failed drawing leaves the new state.\<close>

definition put_panel :: "'w app_env \<Rightarrow> activity_panel \<Rightarrow> ('w app, unit) act" where
  "put_panel env panel =
     mbind (mput (\<lambda>app. app\<lparr>st_observing := (st_observing app)\<lparr>rl_panel := panel\<rparr>\<rparr>)) (\<lambda>_.
       outer (render_panel (ae_unicode env) (ae_files env) (ae_draw env) panel))"

definition panel_append :: "'w app_env \<Rightarrow> activity_presentation \<Rightarrow> ('w app, unit) act" where
  "panel_append env a = mbind (mget (\<lambda>app. rl_panel (st_observing app))) (\<lambda>panel. put_panel env (panel_appended a panel))"

definition panel_update :: "'w app_env \<Rightarrow> pystr \<Rightarrow> string \<Rightarrow> ('w app, unit) act" where
  "panel_update env label state =
     mbind (mget (\<lambda>app. rl_panel (st_observing app))) (\<lambda>panel.
       case panel_updated label (lit state) panel of None \<Rightarrow> mret () | Some panel' \<Rightarrow> put_panel env panel')"

definition TERMINAL :: "pystr set" where
  "TERMINAL = {lit ''completed'', lit ''failed'', lit ''cancelled''}"

definition set_terminal :: "pystr option \<Rightarrow> ('w app, unit) act" where
  "set_terminal status = mput (\<lambda>app. app\<lparr>st_observing := (st_observing app)\<lparr>rl_terminal := status\<rparr>\<rparr>)"

definition set_degraded :: "('w app, unit) act" where
  "set_degraded = mput (\<lambda>app. app\<lparr>st_observing := (st_observing app)\<lparr>rl_degraded := True\<rparr>\<rparr>)"

text \<open>The stored response, as it is now.\<close>

definition active :: "(observation \<Rightarrow> 'a) \<Rightarrow> ('w app, 'a) act" where
  "active f = on_active (mget f)"

text \<open>One frame of the feed.\<close>

definition on_frame :: "'w app_env \<Rightarrow> observed_frame \<Rightarrow> ('w app, unit) act" where
  "on_frame env frame =
     mbind (mwhen (of_sequence frame \<noteq> None) (mput (\<lambda>app. app\<lparr>st_last_sequence := of_sequence frame\<rparr>))) (\<lambda>_.
     mbind (on_active (apply_observed_frame (ae_text env) frame)) (\<lambda>update.
     mbind (mfor (ou_new_activities update) (panel_append env)) (\<lambda>_.
     let latest = (if ou_new_activities update = [] then None else Some (last (ou_new_activities update))) in
     mbind (active ob_content) (\<lambda>content.
     mbind (mwhen (ou_content_changed update) (render_message_view env content True)) (\<lambda>_.
     mbind (active (\<lambda>ob. ob)) (\<lambda>ob.
     mbind
       (if ou_transport_degraded update
        then mbind set_degraded (\<lambda>_. mwhen (\<not> ob_response_started ob) (panel_update env reconnecting ''running''))
        else if ob_response_started ob then panel_update env analysis_done ''complete''
        else if ou_terminal_status update = Some (lit ''failed'') then panel_update env execution_failed_label ''error''
        else panel_update env (running_status_label ob latest) ''running'') (\<lambda>_.
       mwhen (ou_terminal_status update \<noteq> None) (set_terminal (ou_terminal_status update)))))))))"

text \<open>The feed: its frames, then its end or the exception that ends it.\<close>

definition follow_feed :: "'w app_env \<Rightarrow> pystr \<Rightarrow> ('w app, unit) act" where
  "follow_feed env execution_id =
     mbind (mget st_last_sequence) (\<lambda>last_sequence.
     mbind (call env (\<lambda>rp ht c. client_observe (ae_text env) ht c execution_id last_sequence)) (\<lambda>(frames, failure).
     mbind (mfor frames (on_frame env)) (\<lambda>_.
       case failure of None \<Rightarrow> mret () | Some e \<Rightarrow> mraise e)))"

text \<open>The stored execution, asked for and applied; the result is its status.\<close>

definition apply_durable :: "'w app_env \<Rightarrow> pystr \<Rightarrow> ('w app, pystr option) act" where
  "apply_durable env execution_id =
     mbind (active ob_content) (\<lambda>content.
     mbind (active ob_result) (\<lambda>result.
     mbind (refresh_durable_result env execution_id content result) (\<lambda>(status, answer, result, error).
     mbind (on_active (\<lambda>ob. case apply_durable_result status answer result error ob of (c, ob') \<Rightarrow> (Inr c, ob'))) (\<lambda>changed.
     mbind (active ob_content) (\<lambda>content.
     mbind (mwhen changed (render_message_view env content True)) (\<lambda>_. mret status))))))"

definition feed_failed :: "'w app_env \<Rightarrow> pystr \<Rightarrow> ('w app, unit) act" where
  "feed_failed env execution_id =
     mbind set_degraded (\<lambda>_.
     mbind (apply_durable env execution_id) (\<lambda>status.
     mbind (active ob_response_started) (\<lambda>started.
       if status \<noteq> None \<and> the status \<in> TERMINAL then set_terminal status
       else mwhen (\<not> started) (panel_update env reconnecting ''running''))))"

text \<open>When the feed ended without a terminal status; \<open>False\<close> when the stored execution has none either.\<close>

definition settle_from_store :: "'w app_env \<Rightarrow> pystr \<Rightarrow> ('w app, bool) act" where
  "settle_from_store env execution_id =
     mbind (apply_durable env execution_id) (\<lambda>status.
     if status \<noteq> None \<and> the status \<in> TERMINAL then mbind (set_terminal status) (\<lambda>_. mret True)
     else
       mbind (active ob_response_started) (\<lambda>started.
       mbind (mget (\<lambda>app. rl_degraded (st_observing app))) (\<lambda>degraded.
       mbind (if degraded \<and> \<not> started then panel_update env reconnecting ''running''
              else mwhen started (panel_update env analysis_done ''complete'')) (\<lambda>_. mret False))))"

definition append_message :: "chat_message \<Rightarrow> ('w app, unit) act" where
  "append_message message =
     (\<lambda>app. case st_messages app of
        None \<Rightarrow> (Inl (Exn (OtherError (lit ''AttributeError'')) (lit ''messages'')), app)
      | Some ms \<Rightarrow> (Inr (), app\<lparr>st_messages := Some (ms @ [message])\<rparr>))"

definition result_value :: "pdict option \<Rightarrow> pyval" where
  "result_value result = (case result of None \<Rightarrow> PNone | Some r \<Rightarrow> PDict r)"

text \<open>The end of a settled execution: the last drawing, the message of the history, the state cleared.\<close>

definition finish_observation :: "'w app_env \<Rightarrow> pystr \<Rightarrow> pystr option \<Rightarrow> ('w app, bool) act" where
  "finish_observation env execution_id terminal_status =
     (let rp = tx_repr (ae_text env) in
      mbind (active (\<lambda>ob. ob)) (\<lambda>ob.
      mbind (cache_execution_activities execution_id (ob_activities ob)) (\<lambda>_.
        if terminal_status = Some (lit ''completed'') then
          let final_answer = (if ob_content ob = [] then lit ''Execu'' @ [231, 227] @ lit ''o conclu'' @ [237]
                                @ lit ''da sem conte'' @ [250] @ lit ''do textual.'' else ob_content ob)
          in mbind (render_message_view env final_answer False) (\<lambda>_.
             mbind (panel_update env concluded ''complete'') (\<lambda>_.
             mbind (append_message (assistant_message execution_id final_answer (result_value (ob_result ob)) ''completed'')) (\<lambda>_.
             mbind clear_active_execution (\<lambda>_. mret True))))
        else if terminal_status = Some (lit ''cancelled'') then
          mbind (if ob_content ob = [] then mret () else render_message_view env (ob_content ob) False) (\<lambda>_.
          mbind (show_call env (St_caption interrupted_caption)) (\<lambda>_.
          mbind (panel_update env (lit ''Interrompido'') ''complete'') (\<lambda>_.
          mbind (append_message (assistant_message execution_id (ob_content ob) (result_value (ob_result ob)) ''cancelled'')) (\<lambda>_.
          mbind clear_active_execution (\<lambda>_. mret True)))))
        else if terminal_status = Some (lit ''failed'') then
          let final_error = failed_text rp (opt_str (ob_error ob))
          in mbind (show_call env (St_error final_error)) (\<lambda>_.
             mbind (panel_update env execution_failed_label ''error'') (\<lambda>_.
             mbind (append_message (assistant_message execution_id final_error PNone ''failed'')) (\<lambda>_.
             mbind clear_active_execution (\<lambda>_. mret True))))
        else mret False)))"

definition start_observing :: "activity_panel \<Rightarrow> ('w app, unit) act" where
  "start_observing panel = mput (\<lambda>app. app\<lparr>st_observing := \<lparr>rl_panel = panel, rl_terminal = None, rl_degraded = False\<rparr>\<rparr>)"

definition observe_execution :: "'w app_env \<Rightarrow> pystr \<Rightarrow> ('w app, bool) act" where
  "observe_execution env execution_id =
     (let rp = tx_repr (ae_text env) in
      mbind (active_response execution_id) (\<lambda>ob.
      mbind (show_call env (St_chat_message (lit ''assistant''))) (\<lambda>_.
      let stored = map (\<lambda>a. activity_from_mapping rp (activity_dict a)) (ob_activities ob);
          latest = latest_activity rp (map (\<lambda>a. PDict (activity_dict a)) (ob_activities ob));
          panel = new_panel execution_id (running_status_label ob latest)
            (if ob_response_started ob then lit ''complete'' else lit ''running'') stored
      in mbind (start_observing panel) (\<lambda>_.
         mbind (draw_panel env panel) (\<lambda>_.
         mbind (show_call env St_empty) (\<lambda>_.
         mbind (if ob_content ob = [] then mret () else render_message_view env (ob_content ob) True) (\<lambda>_.
         mbind (catching http_or_value_error (follow_feed env execution_id) (\<lambda>_. feed_failed env execution_id)) (\<lambda>_.
         mbind (mget (\<lambda>app. rl_terminal (st_observing app))) (\<lambda>terminal.
         mbind (if terminal \<noteq> None \<and> the terminal \<in> TERMINAL then mret True else settle_from_store env execution_id) (\<lambda>settled.
           if \<not> settled then mret False
           else mbind (mget (\<lambda>app. rl_terminal (st_observing app))) (\<lambda>terminal.
                  finish_observation env execution_id terminal)))))))))))"


section \<open>Asking and stopping\<close>

definition request_stop :: "'w app_env \<Rightarrow> pystr \<Rightarrow> ('w app, unit) act" where
  "request_stop env execution_id =
     mbind (active_response execution_id) (\<lambda>_.
     mbind (catching http_error
         (mbind (call env (\<lambda>rp ht c. client_stop_execution rp ht c execution_id)) (\<lambda>_. mret True))
         (\<lambda>e. mbind (show_call env (St_error (could_not ''interromper'' the_execution (tx_repr (ae_text env)) e))) (\<lambda>_. mret False)))
       (\<lambda>stopped.
         if stopped
         then on_active (mput (\<lambda>ob. ob\<lparr>ob_cancel_requested := True, ob_phase := lit ''cancel_requested''\<rparr>))
         else mret ()))"

text \<open>A first question opens a conversation, a later one joins it; the result is the execution as the API returned it.\<close>

definition start_execution :: "'w app_env \<Rightarrow> pystr option \<Rightarrow> pystr \<Rightarrow> ('w app, pdict) act" where
  "start_execution env session_id question =
     (case session_id of
        None \<Rightarrow>
          mbind (mbind (call env (\<lambda>rp ht c. client_start_session rp ht c question)) as_dict) (\<lambda>started.
            (case (dget started (lit ''session''), dget started (lit ''execution'')) of
               (PDict session, PDict execution) \<Rightarrow>
                 mbind (mlift (item session (lit ''id''))) (\<lambda>raw_id.
                 mbind (set_session (py_str (tx_repr (ae_text env)) raw_id)) (\<lambda>_. mret execution))
             | _ \<Rightarrow> mraise (Exn ValueError (lit ''Invalid start-session response''))))
      | Some i \<Rightarrow> mbind (call env (\<lambda>rp ht c. client_create_execution rp ht c i question)) as_dict)"

definition submit_question :: "'w app_env \<Rightarrow> pystr option \<Rightarrow> pystr \<Rightarrow> ('w app, unit) act" where
  "submit_question env session_id question =
     (let rp = tx_repr (ae_text env) in
      mbind (catching http_or_value_error
          (mbind (start_execution env session_id question) (\<lambda>execution. mret (Some execution)))
          (\<lambda>e. mbind (show_call env (St_chat_message (lit ''assistant''))) (\<lambda>_.
               mbind (show_call env (St_error (could_not ''iniciar'' the_execution rp e))) (\<lambda>_. mret None)))) (\<lambda>started.
        case started of
          None \<Rightarrow> mret ()
        | Some execution \<Rightarrow>
            mbind (mlift (item execution (lit ''id''))) (\<lambda>raw_id.
            let execution_id = py_str rp raw_id
            in mbind (append_message (user_message execution_id question)) (\<lambda>_.
               mbind (mput (\<lambda>app. app\<lparr>st_active_execution_id := Some execution_id,
                        st_active_response := Some (new_observation_state execution_id), st_last_sequence := None\<rparr>)) (\<lambda>_.
               mbind (query_put ''execution_id'' execution_id) (\<lambda>_. rerun))))))"

section \<open>The composer and one run of the script\<close>

datatype composer_mode = SEND | STOP

definition composer_mode_of :: "pystr option \<Rightarrow> composer_mode" where
  "composer_mode_of active_execution_id =
     (case active_execution_id of None \<Rightarrow> SEND | Some i \<Rightarrow> if i = [] then SEND else STOP)"

definition action_label :: "composer_mode \<Rightarrow> pystr" where
  "action_label mode = (case mode of STOP \<Rightarrow> [9632] | SEND \<Rightarrow> [10148])"

text \<open>What the user did since the last run: a new conversation asked for, the form sent, the text in it.\<close>

record user_input =
  ui_new_conversation :: bool
  ui_submitted :: bool
  ui_question :: pystr

definition render_chat_composer :: "'w app_env \<Rightarrow> user_input \<Rightarrow> pystr option \<Rightarrow> ('w app, pystr option \<times> bool) act" where
  "render_chat_composer env inp active_execution_id =
     (let mode = composer_mode_of active_execution_id; normalized = py_strip (ui_question inp) in
      mbind (outer (inject_style_asset (ae_files env) (ae_draw env) ''composer.css'' [])) (\<lambda>_.
      mbind (show_call env (St_composer (action_label mode) (mode = STOP))) (\<lambda>_.
        mret (if \<not> ui_submitted inp then (None, False)
              else if mode = STOP then (None, True)
              else (if normalized = [] then None else Some normalized, False)))))"

definition sidebar :: "'w app_env \<Rightarrow> user_input \<Rightarrow> pystr option \<Rightarrow> ('w app, unit) act" where
  "sidebar env inp session_id =
     mbind (show_call env (St_subheader (lit ''Conversas''))) (\<lambda>_.
     mbind (mget st_active_execution_id) (\<lambda>active_execution.
     mbind (if ui_new_conversation inp \<and> composer_mode_of active_execution = SEND
            then mbind reset_to_new_conversation (\<lambda>_. rerun) else mret ()) (\<lambda>_.
     mbind (render_conversations env session_id) (\<lambda>_.
       show_call env (St_caption (lit ''Clique duas vezes para renomear. Clique com o bot'' @ [227] @ lit ''o direito para op''
         @ [231, 245] @ lit ''es.''))))))"

text \<open>The identifier in the address bar wins over the stored one.\<close>

definition active_execution :: "'w app \<Rightarrow> pystr option" where
  "active_execution app = (case query_value ''execution_id'' app of None \<Rightarrow> st_active_execution_id app | Some i \<Rightarrow> Some i)"

definition main :: "'w app_env \<Rightarrow> user_input \<Rightarrow> ('w app, unit) act" where
  "main env inp =
     (let rp = tx_repr (ae_text env) in
      mbind (show_call env (St_title (lit ''Assistente Virtual de Dados''))) (\<lambda>_.
      mbind (show_call env (St_caption (lit ''Fa'' @ [231] @ lit ''a perguntas sobre os dados em linguagem natural.''))) (\<lambda>_.
      mbind (handle_sidebar_actions env) (\<lambda>_.
      mbind (catching http_error (ensure_session env)
          (\<lambda>e. mbind (show_call env (St_error (lit ''N'' @ [227] @ lit ''o foi poss'' @ [237] @ lit ''vel conectar ''
                  @ [224] @ lit '' API: '' @ exn_str rp e))) (\<lambda>_. stop))) (\<lambda>session_id.
      mbind (sidebar env inp session_id) (\<lambda>_.
      mbind (render_history env) (\<lambda>_.
      mbind (mget active_execution) (\<lambda>active_id.
      mbind (render_chat_composer env inp (if composer_mode_of active_id = STOP then active_id else None)) (\<lambda>(question, stop_requested).
      mbind (outer (mount_script_asset (ae_files env) (ae_draw env) ''sticky_chat_scroll.js'' [])) (\<lambda>_.
        if composer_mode_of active_id = STOP
        then let execution_id = the active_id
             in mbind (mput (\<lambda>app. app\<lparr>st_active_execution_id := Some execution_id\<rparr>)) (\<lambda>_.
                mbind (query_put ''execution_id'' execution_id) (\<lambda>_.
                mbind (if stop_requested then request_stop env execution_id else mret ()) (\<lambda>_.
                mbind (observe_execution env execution_id) (\<lambda>_. rerun))))
        else (case question of None \<Rightarrow> mret () | Some q \<Rightarrow> submit_question env session_id q)))))))))))"

end
