(* ===== verification/App_Props.thy ===== *)
theory App_Props
  imports App
begin

text \<open>
  Running the interface: an observation settles once, leaving exactly one message behind and nothing of the execution
  in the session; and the conversation a settled observation leaves is the one a reload of the page shows.
\<close>

section \<open>Frames of the session state\<close>

lemma keeps_catching [keeps_intros]: "keeps P m \<Longrightarrow> (\<And>e. keeps P (h e)) \<Longrightarrow> keeps P (catching p m h)"
  unfolding catching_def by (intro keeps_intros) auto

lemma keeps_Pair [keeps_intros]: "keeps P (Pair r)"
  by (rule keepsI) simp

text \<open>What an observation of \<open>i\<close> leaves as it was in \<open>app0\<close> until it settles.\<close>

definition framed :: "pystr \<Rightarrow> 'w app \<Rightarrow> 'w app \<Rightarrow> bool" where
  "framed i app0 app \<longleftrightarrow>
     st_messages app = st_messages app0 \<and> st_session_id app = st_session_id app0
   \<and> st_active_execution_id app = st_active_execution_id app0 \<and> st_query app = st_query app0
   \<and> (\<exists>ob. st_active_response app = Some ob \<and> ob_execution_id ob = i)"

lemma framed_outer [keeps_intros]: "keeps (framed i app0) (outer m)"
  by (rule keepsI) (auto simp: outer_def framed_def split: prod.splits)

lemma framed_call [keeps_intros]: "keeps (framed i app0) (call env f)"
  unfolding call_def by (rule framed_outer)

lemma framed_show [keeps_intros]: "keeps (framed i app0) (show_call env c)"
  unfolding show_call_def by (rule framed_outer)

lemma framed_on_active:
  assumes "keeps (\<lambda>ob. ob_execution_id ob = i) m"
  shows "keeps (framed i app0) (on_active m)"
proof (rule keepsI)
  fix app r app'
  assume before: "framed i app0 app" and run: "on_active m app = (r, app')"
  then obtain ob where ob: "st_active_response app = Some ob" "ob_execution_id ob = i" by (auto simp: framed_def)
  obtain s ob' where m: "m ob = (s, ob')" by force
  then have "ob_execution_id ob' = i" using keepsD[OF assms, of ob] ob by simp
  then show "framed i app0 app'" using before run ob m by (auto simp: on_active_def framed_def)
qed

lemma framed_active [keeps_intros]: "keeps (framed i app0) (active f)"
  unfolding active_def by (intro framed_on_active keeps_intros)

abbreviation of_execution :: "pystr \<Rightarrow> observation \<Rightarrow> bool" where
  "of_execution i ob \<equiv> ob_execution_id ob = i"

lemma same_remember [keeps_intros]: "keeps (of_execution i) (remember p)"
  unfolding remember_def
proof (intro keeps_mbind keeps_mlift)
  fix q :: "activity_presentation option"
  show "keeps (of_execution i) (case q of None \<Rightarrow> mret []
      | Some a \<Rightarrow> (\<lambda>ob. case remember_activity a ob of (new, ob') \<Rightarrow> (Inr (if new then [a] else []), ob')))"
  proof (cases q)
    case (Some a)
    then show ?thesis by (auto intro!: keepsI simp: remember_activity_def split: if_splits)
  qed (simp add: keeps_mret)
qed

lemma same_offer [keeps_intros]: "keeps (of_execution i) (offer_answer a)"
  by (rule keepsI) (auto simp: offer_answer_def apply_state_answer_def split: if_splits prod.splits)

lemma same_records [keeps_intros]: "keeps (of_execution i) (remember_records tx vs)"
  by (induction tx vs rule: remember_records.induct) (auto intro!: keeps_intros split: pyval.split)

lemma same_put: "(\<And>ob. ob_execution_id (f ob) = ob_execution_id ob) \<Longrightarrow> keeps (of_execution i) (mput f)"
  by (rule keeps_mput) simp

lemma same_state [keeps_intros]: "keeps (of_execution i) (apply_state tx payload)"
  unfolding apply_state_def Let_def by (auto intro!: keeps_intros same_put split: pyval.split)

lemma same_terminal [keeps_intros]: "keeps (of_execution i) (apply_terminal tx frame status)"
  unfolding apply_terminal_def terminal_payload_def Let_def by (auto intro!: keeps_intros same_put split: pyval.split)

lemma same_rest [keeps_intros]:
  "keeps (of_execution i) (apply_delta rp payload)" "keeps (of_execution i) (apply_activity tx frame)"
  "keeps (of_execution i) (apply_response tx frame p c)"
  unfolding apply_delta_def apply_activity_def apply_response_def Let_def
  by (auto intro!: keeps_intros same_put split: option.split)

lemma same_execution: "keeps (of_execution i) (apply_observed_frame tx frame)"
  unfolding apply_observed_frame_def apply_frame_def Let_def by (auto intro!: keeps_intros same_put split: option.split)

lemma framed_draws [keeps_intros]:
  "keeps (framed i app0) (draw_panel env panel)" "keeps (framed i app0) (draw_rich env content p)"
  "keeps (framed i app0) (render_message_view env content p)"
  unfolding draw_panel_def draw_rich_def render_message_view_def by (intro keeps_intros)+

lemma framed_observing [keeps_intros]:
  "keeps (framed i app0) (mput (\<lambda>app. app\<lparr>st_observing := f app\<rparr>))"
  "keeps (framed i app0) (mput (\<lambda>app. app\<lparr>st_last_sequence := n\<rparr>))"
  "keeps (framed i app0) (mput (\<lambda>app. app\<lparr>st_trace_cache := g app\<rparr>))"
  by (rule keeps_mput, simp add: framed_def)+

lemma framed_panel [keeps_intros]:
  "keeps (framed i app0) (put_panel env panel)" "keeps (framed i app0) (panel_append env a)"
  "keeps (framed i app0) (panel_update env label state)"
  "keeps (framed i app0) (set_terminal status)" "keeps (framed i app0) set_degraded"
  unfolding put_panel_def panel_append_def panel_update_def set_terminal_def set_degraded_def
  by (intro keeps_intros; auto intro!: keeps_intros)+

lemma framed_frame [keeps_intros]: "keeps (framed i app0) (on_frame env frame)"
  unfolding on_frame_def Let_def by (intro keeps_intros framed_on_active same_execution)

lemma framed_feed [keeps_intros]: "keeps (framed i app0) (follow_feed env i)"
  unfolding follow_feed_def by (auto intro!: keeps_intros split: option.split prod.split)


lemma framed_durable [keeps_intros]: "keeps (framed i app0) (apply_durable env i)"
proof -
  have refresh: "keeps (framed i app0) (refresh_durable_result env i a r)" for a r
    unfolding refresh_durable_result_def as_dict_def Let_def by (auto intro!: keeps_intros split: option.split pyval.split)
  have update: "keeps (framed i app0)
      (on_active (\<lambda>ob. case apply_durable_result status answer result error ob of (c, ob') \<Rightarrow> (Inr c, ob')))"
    for status answer result error
    by (rule framed_on_active, rule keepsI)
      (auto simp: apply_durable_result_def Let_def split: option.splits if_splits prod.splits)
  show ?thesis unfolding apply_durable_def by (auto intro!: keeps_intros refresh update)
qed

lemma framed_fallbacks [keeps_intros]:
  "keeps (framed i app0) (feed_failed env i)" "keeps (framed i app0) (settle_from_store env i)"
  unfolding feed_failed_def settle_from_store_def by (auto intro!: keeps_intros)

section \<open>Settling\<close>

lemma settle_then:
  assumes "keeps (framed i app0) m" and "framed i app0 app" and "mbind m (\<lambda>_. k) app = (Inr b, app')"
    and "\<And>app1. framed i app0 app1 \<Longrightarrow> k app1 = (Inr b, app') \<Longrightarrow> C"
  shows C
  using assms(3) by (elim mbind_InrD) (use keepsD[OF assms(1,2)] assms(4) in blast)

text \<open>The message an execution leaves, as the interface held it.\<close>

definition final_message :: "repr \<Rightarrow> pystr \<Rightarrow> observation \<Rightarrow> pystr \<Rightarrow> chat_message" where
  "final_message rp i ob status =
     (if status = lit ''completed''
      then assistant_message i (if ob_content ob = [] then lit ''Execu'' @ [231, 227] @ lit ''o conclu'' @ [237]
             @ lit ''da sem conte'' @ [250] @ lit ''do textual.'' else ob_content ob) (result_value (ob_result ob)) ''completed''
      else if status = lit ''cancelled''
      then assistant_message i (ob_content ob) (result_value (ob_result ob)) ''cancelled''
      else assistant_message i (failed_text rp (opt_str (ob_error ob))) PNone ''failed'')"

definition settled_with :: "chat_message \<Rightarrow> 'w app \<Rightarrow> 'w app \<Rightarrow> bool" where
  "settled_with m app0 app \<longleftrightarrow>
     st_messages app = map_option (\<lambda>ms. ms @ [m]) (st_messages app0) \<and> st_messages app0 \<noteq> None
   \<and> st_session_id app = st_session_id app0 \<and> st_query app = AList.delete (lit ''execution_id'') (st_query app0)
   \<and> st_active_execution_id app = None \<and> st_active_response app = None \<and> st_last_sequence app = None"

lemma settle_tail:
  assumes "framed i app0 app"
    and "mbind (append_message m) (\<lambda>_. mbind clear_active_execution (\<lambda>_. mret True)) app = (Inr b, app')"
  shows "b \<and> settled_with m app0 app'"
  using assms
  by (auto simp: framed_def settled_with_def append_message_def clear_active_execution_def query_drop_def mbind_def
      split: option.splits)

lemma finish_settles:
  assumes app: "framed i app0 app" "st_active_response app = Some ob" and status: "status \<in> TERMINAL"
    and run: "finish_observation env i (Some status) app = (Inr b, app')"
  shows "b \<and> settled_with (final_message (tx_repr (ae_text env)) i ob status) app0 app'"
proof -
  let ?cached = "app\<lparr>st_trace_cache := AList.update i (map activity_dict (ob_activities ob)) (st_trace_cache app)\<rparr>"
  have cached: "framed i app0 ?cached" using app(1) by (simp add: framed_def)
  have same: "app\<lparr>st_active_response := Some ob\<rparr> = app" using app(2) by (cases app) simp
  have steps: "mbind (active (\<lambda>ob. ob)) f app = f ob app" "mbind (cache_execution_activities i (ob_activities ob)) g app = g () ?cached"
    for f :: "observation \<Rightarrow> ('a app, bool) act" and g :: "unit \<Rightarrow> ('a app, bool) act"
    by (simp_all add: active_def on_active_def cache_execution_activities_def mbind_def app(2) same)
  note draws = framed_draws(3) and updates = framed_panel(3) and captions = framed_show
  from status consider "status = lit ''completed''" | "status = lit ''failed''" | "status = lit ''cancelled''"
    by (auto simp: TERMINAL_def)
  then show ?thesis
  proof cases
    case 1
    let ?m = "final_message (tx_repr (ae_text env)) i ob status"
    have "mbind (render_message_view env (cm_content ?m) False) (\<lambda>_. mbind (panel_update env concluded ''complete'') (\<lambda>_.
        mbind (append_message ?m) (\<lambda>_. mbind clear_active_execution (\<lambda>_. mret True)))) ?cached = (Inr b, app')"
      using run 1 by (simp add: finish_observation_def steps Let_def final_message_def assistant_message_def)
    then show ?thesis
      by (rule settle_then[OF draws cached]) (erule(1) settle_then[OF updates], drule(1) settle_tail)
  next
    case 2
    let ?m = "final_message (tx_repr (ae_text env)) i ob status"
    have "mbind (show_call env (St_error (cm_content ?m))) (\<lambda>_. mbind (panel_update env execution_failed_label ''error'') (\<lambda>_.
        mbind (append_message ?m) (\<lambda>_. mbind clear_active_execution (\<lambda>_. mret True)))) ?cached = (Inr b, app')"
      using run 2 by (simp add: finish_observation_def steps Let_def final_message_def assistant_message_def)
    then show ?thesis
      by (rule settle_then[OF captions cached]) (erule(1) settle_then[OF updates], drule(1) settle_tail)
  next
    case 3
    let ?m = "final_message (tx_repr (ae_text env)) i ob status"
    have drawn: "keeps (framed i app0) (if ob_content ob = [] then mret () else render_message_view env (ob_content ob) False)"
      by (auto intro!: keeps_intros)
    have "mbind (if ob_content ob = [] then mret () else render_message_view env (ob_content ob) False) (\<lambda>_.
        mbind (show_call env (St_caption interrupted_caption)) (\<lambda>_. mbind (panel_update env (lit ''Interrompido'') ''complete'') (\<lambda>_.
        mbind (append_message ?m) (\<lambda>_. mbind clear_active_execution (\<lambda>_. mret True))))) ?cached = (Inr b, app')"
      using run 3 by (simp add: finish_observation_def steps Let_def final_message_def del: if_split)
    then show ?thesis
      by (rule settle_then[OF drawn cached])
        (erule(1) settle_then[OF captions], erule(1) settle_then[OF updates], drule(1) settle_tail)
  qed
qed


definition outcome_of :: "repr \<Rightarrow> pystr \<Rightarrow> bool \<Rightarrow> 'w app \<Rightarrow> 'w app \<Rightarrow> bool" where
  "outcome_of rp i settled app0 app \<longleftrightarrow>
     (if settled then \<exists>status ob. status \<in> TERMINAL \<and> settled_with (final_message rp i ob status) app0 app
      else framed i app0 app)"

lemma finish_outcome:
  assumes app: "framed i app0 app" and run: "finish_observation env i terminal app = (Inr b, app')"
  shows "outcome_of (tx_repr (ae_text env)) i b app0 app'"
proof -
  obtain ob where ob: "st_active_response app = Some ob" using app by (auto simp: framed_def)
  show ?thesis
  proof (cases "terminal \<noteq> None \<and> the terminal \<in> TERMINAL")
    case True
    then obtain status where status: "terminal = Some status" "status \<in> TERMINAL" by auto
    have "b \<and> settled_with (final_message (tx_repr (ae_text env)) i ob status) app0 app'"
      by (rule finish_settles[OF app ob status(2)]) (use run status in simp)
    then show ?thesis using status(2) unfolding outcome_of_def by metis
  next
    case False
    then have other: "terminal \<noteq> Some (lit ''completed'')" "terminal \<noteq> Some (lit ''cancelled'')" "terminal \<noteq> Some (lit ''failed'')"
      by (auto simp: TERMINAL_def)
    have "finish_observation env i terminal =
        mbind (active (\<lambda>ob. ob)) (\<lambda>ob. mbind (cache_execution_activities i (ob_activities ob)) (\<lambda>_. mret False))"
      unfolding finish_observation_def Let_def by (simp only: other if_False)
    with run have run': "mbind (active (\<lambda>ob. ob)) (\<lambda>ob. mbind (cache_execution_activities i (ob_activities ob)) (\<lambda>_. mret False)) app
        = (Inr b, app')" by simp
    have kept: "keeps (framed i app0) (mbind (active (\<lambda>ob. ob)) (\<lambda>ob. mbind (cache_execution_activities i (ob_activities ob)) (\<lambda>_. mret False)))"
      unfolding cache_execution_activities_def by (intro keeps_intros)
    have "framed i app0 app'" by (rule keepsD[OF kept app run'])
    moreover have "\<not> b" using run' by (auto elim!: mbind_InrD)
    ultimately show ?thesis by (simp add: outcome_of_def)
  qed
qed

text \<open>What follows the drawing of the panel.\<close>

definition observe_tail :: "'w app_env \<Rightarrow> pystr \<Rightarrow> ('w app, bool) act" where
  "observe_tail env i =
     mbind (catching http_or_value_error (follow_feed env i) (\<lambda>_. feed_failed env i)) (\<lambda>_.
     mbind (mget (\<lambda>app. rl_terminal (st_observing app))) (\<lambda>terminal.
     mbind (if terminal \<noteq> None \<and> the terminal \<in> TERMINAL then mret True else settle_from_store env i) (\<lambda>settled.
       if \<not> settled then mret False
       else mbind (mget (\<lambda>app. rl_terminal (st_observing app))) (\<lambda>terminal. finish_observation env i terminal))))"

lemma tail_outcome:
  assumes app: "framed i app0 app" and run: "observe_tail env i app = (Inr b, app')"
  shows "outcome_of (tx_repr (ae_text env)) i b app0 app'"
proof -
  have feed: "keeps (framed i app0) (catching http_or_value_error (follow_feed env i) (\<lambda>_. feed_failed env i))"
    by (intro keeps_intros)
  have store: "keeps (framed i app0) (if t \<noteq> None \<and> the t \<in> TERMINAL then mret True else settle_from_store env i)" for t
    by (intro keeps_intros)
  obtain app1 t settled app2 where app1: "framed i app0 app1"
    and settle: "(if t \<noteq> None \<and> the t \<in> TERMINAL then mret True else settle_from_store env i) app1 = (Inr settled, app2)"
    and rest: "(if \<not> settled then mret False
       else mbind (mget (\<lambda>app. rl_terminal (st_observing app))) (\<lambda>terminal. finish_observation env i terminal)) app2 = (Inr b, app')"
    using run keepsD[OF feed app] unfolding observe_tail_def by (auto elim!: mbind_InrD)
  have "framed i app0 app2" using keepsD[OF store app1 settle] .
  then show ?thesis using rest finish_outcome by (cases settled) (auto simp: outcome_of_def[of _ _ False])
qed

lemma observe_outcome:
  assumes run: "observe_execution env i app = (Inr b, app')"
  shows "outcome_of (tx_repr (ae_text env)) i b app app'"
proof -
  obtain ob app1 where start: "active_response i app = (Inr ob, app1)" and app1: "framed i app app1"
  proof (cases "\<exists>ob. st_active_response app = Some ob \<and> ob_execution_id ob = i")
    case True
    then show ?thesis using that by (auto simp: active_response_def framed_def)
  next
    case False
    then show ?thesis
      using that[of "new_observation_state i" "app\<lparr>st_active_response := Some (new_observation_state i)\<rparr>"]
      by (auto simp: active_response_def framed_def new_observation_state_def split: option.splits)
  qed
  define rp panel where "rp = tx_repr (ae_text env)"
    and "panel = new_panel i (running_status_label ob (latest_activity rp (map (\<lambda>a. PDict (activity_dict a)) (ob_activities ob))))
      (if ob_response_started ob then lit ''complete'' else lit ''running'')
      (map (\<lambda>a. activity_from_mapping rp (activity_dict a)) (ob_activities ob))"
  have tail: "mbind (show_call env (St_chat_message (lit ''assistant''))) (\<lambda>_. mbind (start_observing panel) (\<lambda>_.
      mbind (draw_panel env panel) (\<lambda>_. mbind (show_call env St_empty) (\<lambda>_.
      mbind (if ob_content ob = [] then mret () else render_message_view env (ob_content ob) True) (\<lambda>_.
        observe_tail env i))))) app1 = (Inr b, app')"
    using run unfolding observe_execution_def by (simp add: mbind_Inr[of "active_response i", OF start] Let_def observe_tail_def panel_def rp_def del: if_split)
  have drawn: "keeps (framed i app) (if ob_content ob = [] then mret () else render_message_view env (ob_content ob) True)"
    by (auto intro!: keeps_intros)
  have started: "keeps (framed i app) (start_observing panel)"
    unfolding start_observing_def by (intro keeps_intros)
  show ?thesis
    by (rule settle_then[OF framed_show app1 tail])
      (erule(1) settle_then[OF started], erule(1) settle_then[OF framed_draws(1)], erule(1) settle_then[OF framed_show],
        erule(1) settle_then[OF drawn], erule(1) tail_outcome)
qed

text \<open>
  C32. An observation settles an execution once: whatever the feed delivers, however it breaks off and whatever the API
  answers, an observation that reports the execution finished has appended exactly one message of the assistant for it,
  with a terminal status, and has removed the execution from the session and the address bar; one that does not has
  added no message and still holds the response of this execution to go on with.
\<close>

theorem observation_settles_once:
  assumes "st_messages app = Some ms" and "observe_execution env i app = (Inr finished, app')"
  shows "if finished
    then \<exists>m. st_messages app' = Some (ms @ [m]) \<and> cm_role m = lit ''assistant'' \<and> cm_execution_id m = i
       \<and> cm_status m \<in> Some ` TERMINAL
       \<and> st_active_execution_id app' = None \<and> st_active_response app' = None \<and> st_last_sequence app' = None
       \<and> query_value ''execution_id'' app' = None
    else st_messages app' = Some ms \<and> st_active_execution_id app' = st_active_execution_id app
       \<and> (\<exists>ob. st_active_response app' = Some ob \<and> ob_execution_id ob = i)"
proof (cases finished)
  case True
  with observe_outcome[OF assms(2)] obtain status ob
    where "status \<in> TERMINAL" and m: "settled_with (final_message (tx_repr (ae_text env)) i ob status) app app'"
    by (auto simp: outcome_of_def)
  let ?m = "final_message (tx_repr (ae_text env)) i ob status"
  have "cm_role ?m = lit ''assistant''" "cm_execution_id ?m = i" "cm_status ?m \<in> Some ` TERMINAL"
    by (simp_all add: final_message_def assistant_message_def TERMINAL_def)
  moreover have "query_value ''execution_id'' app' = None"
    using m by (simp add: settled_with_def query_value_def delete_conv')
  ultimately show ?thesis using True m assms(1) by (auto simp: settled_with_def)
next
  case False
  then show ?thesis using observe_outcome[OF assms(2)] assms(1) by (simp add: outcome_of_def framed_def)
qed


section \<open>A reload\<close>

text \<open>A stored execution that says what the interface holds of it.\<close>

definition row_says :: "pystr \<Rightarrow> observation \<Rightarrow> pystr \<Rightarrow> pdict \<Rightarrow> bool" where
  "row_says i ob status d \<longleftrightarrow>
     dget d (lit ''id'') = PStr i \<and> dhas d (lit ''id'') \<and> dhas d (lit ''question'')
   \<and> dget d (lit ''status'') = PStr status
   \<and> (if status = lit ''failed'' then dget d (lit ''error'') = opt_str (ob_error ob)
      else dget d (lit ''answer'') = PStr (ob_content ob) \<and> dget d (lit ''result'') = result_value (ob_result ob))
   \<and> (status = lit ''completed'' \<longrightarrow> ob_content ob \<noteq> [])"

lemma history_append:
  "history_loop rp messages running (rows @ [v]) =
     rbind (history_loop rp messages running rows) (\<lambda>(ms, active).
     rbind (history_row rp v) (\<lambda>(new, r). Inr (ms @ new, if r = None then active else r)))"
proof (induction rows arbitrary: messages running)
  case Nil
  show ?case by (cases "history_row rp v") (auto split: prod.splits)
next
  case (Cons w rows)
  then show ?case by (cases "history_row rp w") (auto split: prod.splits)
qed

lemma row_message:
  assumes "row_says i ob status d" and "status \<in> TERMINAL" and "i \<noteq> []"
  shows "history_row rp (PDict d) =
    Inr ([user_message i (py_str rp (dget d (lit ''question''))), final_message rp i ob status], None)"
  using assms
  by (auto simp: row_says_def history_row_def item_def final_message_def TERMINAL_def py_or_def Let_def)


section \<open>A run\<close>

definition still_text :: py_text where
  "still_text = \<lparr>tx_repr = (\<lambda>_. []), tx_float = (\<lambda>_. []), tx_read = (\<lambda>_. 0)\<rparr>"

text \<open>An API that answers every request with one execution, and a feed that ends at once.\<close>

definition one_row :: "string \<Rightarrow> pdict" where
  "one_row status = [(lit ''id'', PStr (lit ''e1'')), (lit ''question'', PStr (lit ''total?'')), (lit ''status'', PStr (lit status)),
     (lit ''error'', PStr (lit ''boom''))]"

definition still_http :: "unit http_api" where
  "still_http = \<lparr>ht_request = (\<lambda>_ _ _. mret \<lparr>hp_status = 200, hp_content = lit ''row'', hp_json = Some (PDict (one_row ''failed''))\<rparr>),
     ht_stream = (\<lambda>_ _. mret []), ht_lines = (\<lambda>_. [])\<rparr>"

definition still_env :: "unit app_env" where
  "still_env = \<lparr>ae_text = still_text, ae_viz = plain_viz, ae_unicode = ascii_unicode, ae_files = (\<lambda>_. []), ae_http = still_http,
     ae_client = \<lparr>ac_base_url = lit ''http://api'', ac_timeout_seconds = 1\<rparr>, ae_draw = (\<lambda>_. mret ())\<rparr>"

definition running_app :: "observation \<Rightarrow> unit app" where
  "running_app ob = \<lparr>st_session_id = Some (lit ''s1''), st_messages = Some [user_message (lit ''e1'') (lit ''total?'')],
     st_active_execution_id = Some (lit ''e1''), st_active_response = Some ob,
     st_last_sequence = None, st_trace_cache = [], st_query = [(lit ''execution_id'', lit ''e1'')],
     st_observing = \<lparr>rl_panel = new_panel [] [] [] [], rl_terminal = None, rl_degraded = False\<rparr>, st_world = ()\<rparr>"

lemma still_fields [simp]:
  "ae_draw still_env c = mret ()" "ae_files still_env name = []" "tx_repr (ae_text still_env) v = []"
  "ae_client still_env = \<lparr>ac_base_url = lit ''http://api'', ac_timeout_seconds = 1\<rparr>" "ae_http still_env = still_http"
  "ae_text still_env = still_text"
  by (simp_all add: still_env_def still_text_def)

lemma outer_mret [simp]: "outer (mret a) app = (Inr a, app)"
  by (simp add: outer_def)

lemma still_show [simp]: "show_call still_env c app = (Inr (), app)"
  by (simp add: show_call_def)

lemma replace_in_nothing: "fold (\<lambda>(key, v) rendered. py_replace (marker (lit key)) v rendered) replacements [] = []"
  by (induction replacements) (auto simp: py_replace.simps)

lemma still_asset:
  "47 \<notin> set (lit name) \<Longrightarrow> 92 \<notin> set (lit name) \<Longrightarrow> \<not> prefix [46] (lit name) \<Longrightarrow> name \<noteq> [] \<Longrightarrow>
   render_asset (ae_files still_env) name replacements = Inr []"
  by (simp add: render_asset_def load_asset_def replace_in_nothing)

lemma still_panel:
  "pn_activities p = [] \<Longrightarrow> render_panel u (ae_files still_env) (ae_draw still_env) p = mret ()"
  by (rule ext) (simp add: render_panel_def render_activity_panel_html_def still_asset lit_def mbind_def)

lemma still_mount [simp]: "pn_activities p = [] \<Longrightarrow> draw_panel still_env p app = (Inr (), app)"
  by (simp add: draw_panel_def outer_def mount_panel_def inject_style_asset_def mount_script_asset_def still_panel still_asset
      lit_def mbind_def)

lemma new_panel_activities [simp]: "pn_activities (new_panel i label state activities) = activities"
  by (simp add: new_panel_def)

lemma still_put [simp]:
  "pn_activities p = [] \<Longrightarrow> put_panel still_env p app = (Inr (), app\<lparr>st_observing := (st_observing app)\<lparr>rl_panel := p\<rparr>\<rparr>)"
  by (simp add: put_panel_def still_panel outer_def mbind_def)

lemma still_update [simp]:
  "pn_activities (rl_panel (st_observing app)) = [] \<Longrightarrow> panel_update still_env label state app =
     (Inr (), case panel_updated label (lit state) (rl_panel (st_observing app)) of
        None \<Rightarrow> app | Some p \<Rightarrow> app\<lparr>st_observing := (st_observing app)\<lparr>rl_panel := p\<rparr>\<rparr>)"
  by (auto simp: panel_update_def panel_updated_def)

lemma unit_world [simp]: "(app :: unit app)\<lparr>st_world := ()\<rparr> = app"
  by (cases app) simp

lemma still_row:
  "refresh_durable_result still_env i answer result app = (Inr (Some (lit ''failed''), answer, result, Some (lit ''boom'')), app)"
  by (simp add: refresh_durable_result_def catching_def mtry_def mbind_def call_def outer_def client_get_execution_def
      request_json_def still_http_def as_dict_def one_row_def py_or_def still_text_def dict_simps Let_def)

lemma still_feed: "follow_feed still_env i app = (Inr (), app)"
  by (simp add: follow_feed_def mbind_def call_def outer_def client_observe_def still_http_def parse_sse_frames_def
      no_pending_def pending_def)

definition failed_observation :: observation where
  "failed_observation = (new_observation_state (lit ''e1''))\<lparr>ob_error := Some (lit ''boom''), ob_phase := lit ''failed''\<rparr>"

lemma running_app_settles:
  "fst (observe_execution still_env (lit ''e1'') (running_app (new_observation_state (lit ''e1'')))) = Inr True"
  by (simp add: observe_execution_def active_response_def running_app_def new_observation_state_def mbind_def Let_def
      start_observing_def catching_def mtry_def still_feed settle_from_store_def apply_durable_def still_row active_def on_active_def
      apply_durable_result_def TERMINAL_def set_terminal_def finish_observation_def cache_execution_activities_def
      append_message_def clear_active_execution_def query_drop_def split: option.split)

lemma observation_settles_once_witness:
  "\<exists>app' m. observe_execution still_env (lit ''e1'') (running_app (new_observation_state (lit ''e1''))) = (Inr True, app')
     \<and> st_messages app' = Some [user_message (lit ''e1'') (lit ''total?''), m] \<and> cm_status m \<in> Some ` TERMINAL"
proof -
  obtain app' where run: "observe_execution still_env (lit ''e1'') (running_app (new_observation_state (lit ''e1''))) = (Inr True, app')"
    using running_app_settles by (metis prod.collapse)
  show ?thesis
    using observation_settles_once[OF _ run] run by (auto simp: running_app_def)
qed

lemma failed_row_finishes:
  "finish_observation still_env (lit ''e1'') (Some (lit ''failed'')) (running_app failed_observation)
     = (Inr True, snd (finish_observation still_env (lit ''e1'') (Some (lit ''failed'')) (running_app failed_observation)))"
  by (simp add: finish_observation_def running_app_def failed_observation_def new_observation_state_def mbind_def Let_def active_def
      on_active_def cache_execution_activities_def append_message_def clear_active_execution_def query_drop_def new_panel_def
      panel_updated_def)


end
