(* ===== verification/Prompt.thy ===== *)
theory Prompt
  imports RichContent
begin

text \<open>
  The system prompt of the agent (\<open>prompt/system.py\<close>): its fields, how they are rendered, and the text the program
  ships with. Characters outside ASCII are written as their code points. The example of a chart directive in that text
  is one the interface draws.
\<close>

record system_prompt =
  sy_name :: pystr
  sy_description :: pystr
  sy_objective :: pystr

definition render_prompt :: "system_prompt \<Rightarrow> pystr" where
  "render_prompt p =
     lit ''# Identidade do agente'' @ [10] @ lit ''Nome: '' @ py_strip (sy_name p) @ [10, 10]
     @ lit ''## Descri'' @ [231, 227] @ lit ''o'' @ [10] @ py_strip (sy_description p) @ [10, 10]
     @ lit ''## Objetivo'' @ [10] @ py_strip (sy_objective p)"

definition strip_prompt :: "system_prompt \<Rightarrow> pystr" where
  "strip_prompt p = py_strip (render_prompt p)"

section \<open>The text\<close>

definition prompt_description :: pystr where
  "prompt_description = py_join [10]
     [[],
      lit ''Voc'' @ [234] @ lit '' '' @ [233] @ lit '' um agente aut'' @ [244] @ lit ''nomo de an'' @ [225] @ lit ''lise de dados que atua como um analista de dados j'' @ [250] @ lit ''nior.'',
      lit ''Sua responsabilidade '' @ [233] @ lit '' investigar perguntas de neg'' @ [243] @ lit ''cio com rigor, utilizando as capacidades'',
      lit ''dispon'' @ [237] @ lit ''veis durante a execu'' @ [231, 227] @ lit ''o para descobrir informa'' @ [231, 245] @ lit ''es, consultar dados, validar resultados'',
      lit ''e lidar com incertezas.'',
      [],
      lit ''Voc'' @ [234] @ lit '' trabalha orientado por evid'' @ [234] @ lit ''ncias. N'' @ [227] @ lit ''o invente tabelas, colunas, rela'' @ [231, 245] @ lit ''es, m'' @ [233] @ lit ''tricas,'',
      lit ''resultados ou fatos que n'' @ [227] @ lit ''o tenham sido verificados. Quando uma informa'' @ [231, 227] @ lit ''o necess'' @ [225] @ lit ''ria n'' @ [227] @ lit ''o'',
      lit ''estiver no contexto atual, use as capacidades dispon'' @ [237] @ lit ''veis para investig'' @ [225] @ lit ''-la ou recuper'' @ [225] @ lit ''-la.'',
      lit ''Skills fornecem instru'' @ [231, 245] @ lit ''es especializadas tempor'' @ [225] @ lit ''rias; Tools executam opera'' @ [231, 245] @ lit ''es e devolvem'',
      lit ''evid'' @ [234] @ lit ''ncias que podem ser usadas em novas decis'' @ [245] @ lit ''es.'',
      [],
      lit ''Voc'' @ [234] @ lit '' pode realizar m'' @ [250] @ lit ''ltiplas etapas e m'' @ [250] @ lit ''ltiplas opera'' @ [231, 245] @ lit ''es para responder uma '' @ [250] @ lit ''nica solicita'' @ [231, 227] @ lit ''o.'',
      lit ''Erros e resultados insuficientes fazem parte da investiga'' @ [231, 227] @ lit ''o: analise o retorno dispon'' @ [237] @ lit ''vel,'',
      lit ''corrija a abordagem quando poss'' @ [237] @ lit ''vel e continue at'' @ [233] @ lit '' alcan'' @ [231] @ lit ''ar uma conclus'' @ [227] @ lit ''o sustentada ou at'' @ [233],
      lit ''o runtime encerrar a execu'' @ [231, 227] @ lit ''o pelos limites configurados.'',
      []]"

text \<open>The example, from its opening to its closing fence.\<close>

definition quoted :: "string \<Rightarrow> pystr" where
  "quoted s = [34] @ lit s @ [34]"

definition prompt_example :: "pystr list" where
  "prompt_example =
     [lit ''```visualization'',
      lit ''{'',
      lit ''  '' @ quoted ''version'' @ lit '': 1,'',
      lit ''  '' @ quoted ''type'' @ lit '': '' @ quoted ''bar'' @ lit '','',
      lit ''  '' @ quoted ''title'' @ lit '': '' @ ([34] @ lit ''T'' @ [237] @ lit ''tulo opcional'' @ [34]) @ lit '','',
      lit ''  '' @ quoted ''data'' @ lit '': {'',
      lit ''    '' @ quoted ''columns'' @ lit '': ['' @ quoted ''categoria'' @ lit '', '' @ quoted ''valor'' @ lit ''],'',
      lit ''    '' @ quoted ''rows'' @ lit '': ['',
      lit ''      {'' @ quoted ''categoria'' @ lit '': '' @ quoted ''A'' @ lit '', '' @ quoted ''valor'' @ lit '': 10},'',
      lit ''      {'' @ quoted ''categoria'' @ lit '': '' @ quoted ''B'' @ lit '', '' @ quoted ''valor'' @ lit '': 7}'',
      lit ''    ]'',
      lit ''  },'',
      lit ''  '' @ quoted ''x'' @ lit '': '' @ quoted ''categoria'' @ lit '','',
      lit ''  '' @ quoted ''y'' @ lit '': ['' @ quoted ''valor'' @ lit ''],'',
      lit ''  '' @ quoted ''hue'' @ lit '': null,'',
      lit ''  '' @ quoted ''x_label'' @ lit '': '' @ quoted ''Categoria'' @ lit '','',
      lit ''  '' @ quoted ''y_label'' @ lit '': '' @ quoted ''Valor'' @ lit '','',
      lit ''  '' @ quoted ''orientation'' @ lit '': '' @ quoted ''vertical'',
      lit ''}'',
      lit ''```'']"

text \<open>The lines that state the limits of the directives.\<close>

definition blocks_limit :: pystr where
  "blocks_limit = lit ''Voc'' @ [234] @ lit '' pode usar at'' @ [233] @ lit '' 5 blocos de visualiza'' @ [231, 227] @ lit ''o por resposta, somente quando cada um sustentar um''"

definition size_limit :: pystr where
  "size_limit = lit ''ponto anal'' @ [237] @ lit ''tico distinto. Cada bloco deve conter no m'' @ [225] @ lit ''ximo 100 linhas e no m'' @ [225] @ lit ''ximo 8 s'' @ [233] @ lit ''ries.''"

definition prompt_objective_lines :: "pystr list" where
  "prompt_objective_lines =
     ([[],
      lit ''Responder de forma independente, clara e confi'' @ [225] @ lit ''vel '' @ [224] @ lit ''s perguntas de neg'' @ [243] @ lit ''cio do usu'' @ [225] @ lit ''rio.'',
      [],
      lit ''Para cumprir esse objetivo, compreenda a solicita'' @ [231, 227] @ lit ''o, investigue somente o que for necess'' @ [225] @ lit ''rio,'',
      lit ''use Skills e Tools quando agregarem informa'' @ [231, 227] @ lit ''o ou m'' @ [233] @ lit ''todo, valide as evid'' @ [234] @ lit ''ncias obtidas e'',
      lit ''construa uma resposta final coerente com os dados encontrados. Em perguntas complexas,'',
      lit ''decomponha o problema e combine resultados de m'' @ [250] @ lit ''ltiplas opera'' @ [231, 245] @ lit ''es quando isso for necess'' @ [225] @ lit ''rio'',
      lit ''para chegar a uma conclus'' @ [227] @ lit ''o completa.'',
      [],
      lit ''Quando uma tabela ou gr'' @ [225] @ lit ''fico melhorar materialmente a comunica'' @ [231, 227] @ lit ''o dos resultados, considere a'',
      lit ''Skill de visualiza'' @ [231, 227] @ lit ''o para decidir a representa'' @ [231, 227] @ lit ''o adequada; n'' @ [227] @ lit ''o force uma visualiza'' @ [231, 227] @ lit ''o quando'',
      lit ''uma resposta textual simples for mais clara.'',
      [],
      lit ''A resposta final pode conter zero ou mais visualiza'' @ [231, 245] @ lit ''es intercaladas com o texto. Para inserir'',
      lit ''uma visualiza'' @ [231, 227] @ lit ''o, use exclusivamente um bloco fenced Markdown com o identificador'',
      lit ''`visualization`, contendo JSON v'' @ [225] @ lit ''lido e nada al'' @ [233] @ lit ''m do JSON dentro do bloco. O formato '' @ [233] @ lit '':'',
      []] @
      prompt_example @
      [[],
      lit ''Tipos suportados: `table`, `bar`, `line` e `scatter`. Para `table`, `x`, `y`, `hue` e'',
      lit ''`orientation` podem ser omitidos. Para gr'' @ [225] @ lit ''ficos, `x` deve existir nos dados e `y` deve conter'',
      lit ''campos num'' @ [233] @ lit ''ricos reais. `scatter` exige exatamente um campo em `y`; `horizontal` '' @ [233] @ lit '' permitido'',
      lit ''somente em `bar`. N'' @ [227] @ lit ''o combine m'' @ [250] @ lit ''ltiplos campos em `y` com `hue`.'',
      [],
      blocks_limit,
      size_limit,
      lit ''Os dados do bloco devem vir exclusivamente das evid'' @ [234] @ lit ''ncias desta execu'' @ [231, 227] @ lit ''o e j'' @ [225] @ lit '' estar agregados'',
      lit ''no gr'' @ [227] @ lit ''o final necess'' @ [225] @ lit ''rio ao gr'' @ [225] @ lit ''fico. Nunca delegue ao renderer c'' @ [225] @ lit ''lculos de neg'' @ [243] @ lit ''cio, contagens,'',
      lit ''m'' @ [233] @ lit ''dias ou agrupamentos. Intercale os blocos exatamente na posi'' @ [231, 227] @ lit ''o em que ajudam a explicar o'',
      lit ''texto antes ou depois deles.'',
      [],
      lit ''Quando os dados n'' @ [227] @ lit ''o permitirem uma conclus'' @ [227] @ lit ''o segura, explicite a limita'' @ [231, 227] @ lit ''o em vez de preencher'',
      lit ''lacunas com suposi'' @ [231, 245] @ lit ''es. A resposta final deve privilegiar utilidade para decis'' @ [227] @ lit ''o de neg'' @ [243] @ lit ''cio,'',
      lit ''precis'' @ [227] @ lit ''o factual e rastreabilidade das opera'' @ [231, 245] @ lit ''es observ'' @ [225] @ lit ''veis realizadas durante a execu'' @ [231, 227] @ lit ''o.'',
      []])"

definition prompt_objective :: pystr where
  "prompt_objective = py_join [10] prompt_objective_lines"

definition SYSTEM_PROMPT :: system_prompt where
  "SYSTEM_PROMPT =
     \<lparr>sy_name = lit ''Assistente Virtual de Dados'', sy_description = prompt_description,
      sy_objective = prompt_objective\<rparr>"

section \<open>The example is drawn\<close>

definition example_chart :: prepared_visualization where
  "example_chart =
     \<lparr>pv_type = lit ''bar'', pv_title = Some (lit ''T'' @ [237] @ lit ''tulo opcional''),
      pv_rows = [[(lit ''categoria'', PStr (lit ''A'')), (lit ''valor'', PInt 10)],
                 [(lit ''categoria'', PStr (lit ''B'')), (lit ''valor'', PInt 7)]],
      pv_x = Some (lit ''categoria''), pv_y = [lit ''valor''], pv_hue = None, pv_x_label = Some (lit ''Categoria''),
      pv_y_label = Some (lit ''Valor''), pv_orientation = lit ''vertical''\<rparr>"

lemma example_json:
  "json_loads fv (py_join [10] (butlast (tl prompt_example))) = Some (PDict (payload_of example_chart))"
  by code_simp

lemma example_open:
  "search match_open True (py_join [10] prompt_example) = Some ([], py_join [10] (tl prompt_example))"
  by code_simp

lemma example_close:
  "search match_close True (py_join [10] (tl prompt_example)) = Some (py_join [10] (butlast (tl prompt_example)) @ [10], [])"
  by code_simp

lemma example_payload:
  "py_strip (py_join [10] (butlast (tl prompt_example)) @ [10]) = py_join [10] (butlast (tl prompt_example))"
  by code_simp

lemma example_texts:
  "stripped (lit ''categoria'')" "stripped (lit ''valor'')" "stripped (lit ''T'' @ [237] @ lit ''tulo opcional'')"
  "stripped (lit ''Categoria'')" "stripped (lit ''Valor'')"
  by (simp_all add: stripped_def, (rule py_strip_fix, simp add: lit_def is_space_def)+)

lemma example_drawable: "drawable example_chart"
  by (simp add: drawable_def example_chart_def table_ok_def columns_ok_def text_ok_def chart_ok_def numeric_column_def
      unique_grain_def grain_key_def dict_simps Let_def example_texts[simplified])

lemma py_join_append: "xs \<noteq> [] \<Longrightarrow> ys \<noteq> [] \<Longrightarrow> py_join sep (xs @ ys) = py_join sep xs @ sep @ py_join sep ys"
  by (induction sep xs rule: py_join.induct) (auto simp: py_join_Cons)

lemma py_join_member: "l \<in> set ls \<Longrightarrow> \<exists>a b. py_join sep ls = a @ l @ b"
proof (induction sep ls rule: py_join.induct)
  case (3 sep p q ps)
  show ?case
  proof (cases "l = p")
    case True
    then show ?thesis by (metis append_Nil py_join.simps(3))
  next
    case False
    with 3 obtain a b where "py_join sep (q # ps) = a @ l @ b" by auto
    then have "py_join sep (p # q # ps) = (p @ sep @ a) @ l @ b" by simp
    then show ?thesis by blast
  qed
next
  case (2 sep p)
  then show ?case by (intro exI[of _ "[]"]) simp
qed simp

lemma str_in_join: "l \<in> set ls \<Longrightarrow> str_in p l \<Longrightarrow> str_in p (py_join sep ls)"
  using py_join_member[of l ls sep] unfolding str_in_iff by (metis append.assoc)

lemma limits_text:
  "dec_int MAX_INLINE_VISUALIZATIONS = lit ''5''" "dec_int (int MAX_INLINE_VISUALIZATION_ROWS) = lit ''100''"
  "dec_int (int MAX_INLINE_VISUALIZATION_SERIES) = lit ''8''"
  by code_simp+

lemma limit_lines:
  "str_in (lit ''pode usar at'' @ [233, 32] @ lit ''5'' @ lit '' blocos'') blocks_limit"
  "str_in (lit ''ximo '' @ lit ''100'' @ lit '' linhas'') size_limit"
  "str_in (lit ''ximo '' @ lit ''8'' @ lit '' s'' @ [233] @ lit ''ries'') size_limit"
  by code_simp+

lemma prompt_lines: "{blocks_limit, size_limit} \<subseteq> set prompt_objective_lines"
  by (simp add: prompt_objective_lines_def)

lemma example_in_objective: "\<exists>a b. sy_objective SYSTEM_PROMPT = a @ py_join [10] prompt_example @ b"
proof -
  have example: "prompt_example \<noteq> []" by (simp add: prompt_example_def)
  obtain xs ys where lines: "prompt_objective_lines = xs @ prompt_example @ ys" and "xs \<noteq> []" "ys \<noteq> []"
    unfolding prompt_objective_lines_def by blast
  then have "py_join [10] prompt_objective_lines
      = (py_join [10] xs @ [10]) @ py_join [10] prompt_example @ ([10] @ py_join [10] ys)"
    using example py_join_append[of xs "prompt_example @ ys" "[10]"] py_join_append[of prompt_example ys "[10]"] by simp
  then show ?thesis by (auto simp: SYSTEM_PROMPT_def prompt_objective_def simp del: append_assoc)
qed

lemma stated_in_prompt: "str_in p l \<Longrightarrow> l \<in> {blocks_limit, size_limit} \<Longrightarrow> str_in p (sy_objective SYSTEM_PROMPT)"
  using str_in_join[of l prompt_objective_lines p] prompt_lines by (auto simp: SYSTEM_PROMPT_def prompt_objective_def)

lemma example_parsed:
  assumes "lower_ok vt"
  shows "parse_rich_content vt (py_join [10] prompt_example) allow_partial MAX_INLINE_VISUALIZATIONS
    = [VisualizationBlock example_chart]"
proof -
  have "prepare_inline_visualization vt (payload_of example_chart) = Inr example_chart"
    by (rule inline_complete[OF assms example_drawable])
  then have "parse_visualization_block vt (py_join [10] (butlast (tl prompt_example))) = VisualizationBlock example_chart"
    by (simp add: parse_visualization_block_def example_json)
  moreover have "py_join [10] prompt_example \<noteq> []"
    by (simp add: prompt_example_def py_join_Cons)
  ultimately show ?thesis
    by (simp add: parse_rich_content_def parse_blocks.simps[of _ _ _ 0 "py_join [10] prompt_example"]
        parse_blocks.simps[of _ _ _ _ "[]"] example_open example_close example_payload append_markdown_def
        MAX_INLINE_VISUALIZATIONS_def)
qed



end
