(* ===== verification/Composition.thy ===== *)
theory Composition
  imports Runtime Publisher Runner RunnerHealth Prompt
begin

text \<open>
  Starting a runner (\<open>runner/main.py\<close> and \<open>runner/composition\<close>): the settings become a model client, a context
  manager, an agent program, a runtime factory and a worker; the outcome is announced as the runner's health; then the
  worker runs next to the heartbeat until a shutdown, and everything is closed. The libraries (the chat models, the
  Redis client, the database engine, the file system) are fields of the environment \<open>process_env\<close>.
\<close>

section \<open>Settings\<close>

datatype llm_provider = OPENAI | DEEPSEEK

fun provider_value :: "llm_provider \<Rightarrow> pystr" where
  "provider_value OPENAI = lit ''openai''"
| "provider_value DEEPSEEK = lit ''deepseek''"

datatype reasoning_effort = EFFORT_NONE | EFFORT_LOW | EFFORT_MEDIUM | EFFORT_HIGH | EFFORT_XHIGH | EFFORT_MAX

fun effort_value :: "reasoning_effort \<Rightarrow> pystr" where
  "effort_value EFFORT_NONE = lit ''none''"
| "effort_value EFFORT_LOW = lit ''low''"
| "effort_value EFFORT_MEDIUM = lit ''medium''"
| "effort_value EFFORT_HIGH = lit ''high''"
| "effort_value EFFORT_XHIGH = lit ''xhigh''"
| "effort_value EFFORT_MAX = lit ''max''"

text \<open>The settings of a provider and the configuration of its client have the same shape; DeepSeek has no \<open>store\<close>.\<close>

record provider_settings =
  ps_api_key :: pystr
  ps_base_url :: pystr
  ps_model :: pystr
  ps_timeout_seconds :: rat
  ps_max_output_tokens :: int
  ps_max_retries :: int
  ps_reasoning_effort :: reasoning_effort

record openai_settings = provider_settings +
  ps_store :: bool

record runner_settings =
  rs_agent_database_url :: pystr
  rs_redis_url :: pystr
  rs_redis_key_prefix :: pystr
  rs_execution_hot_state_ttl_seconds :: nat
  rs_redis_stream_maxlen :: nat
  rs_redis_stream_read_block_ms :: nat
  rs_redis_stream_read_count :: nat
  rs_user_database_path :: pystr
  rs_user_database_connection_timeout_seconds :: rat
  rs_user_database_query_timeout_seconds :: rat
  rs_user_database_max_rows :: nat
  rs_user_database_progress_handler_steps :: nat
  rs_llm_provider :: llm_provider
  rs_agent_runtime_max_iterations :: int
  rs_agent_runtime_max_sql_retries :: int
  rs_agent_tool_max_concurrency_per_tool :: int
  rs_agent_context_budget_percent :: rat
  rs_agent_context_summary_fallback_max_messages :: int
  rs_agent_context_summary_fallback_max_chars_per_message :: int
  rs_agent_context_retriever_default_limit :: int
  rs_agent_context_retriever_max_limit :: int
  rs_observer_projection_max_activities :: nat
  rs_runner_id :: pystr
  rs_runner_health_ttl_seconds :: int
  rs_runner_health_heartbeat_seconds :: rat
  rs_runner_cancellation_poll_seconds :: rat
  rs_outbox_poll_interval_seconds :: rat
  rs_outbox_batch_size :: nat
  rs_outbox_max_attempts :: int
  rs_outbox_retry_base_delay_seconds :: rat
  rs_outbox_retry_max_delay_seconds :: rat
  rs_outbox_retry_exponent_cap :: int

section \<open>The environment\<close>

text \<open>
  The repositories over a session factory, the files of the skills, and everything a library provides. A constructor of a
  library either gives its object or raises.
\<close>

record 'w repositories =
  re_latest :: "pystr \<Rightarrow> ('w, context_snapshot option) act"
  re_create :: "pystr \<Rightarrow> pystr \<Rightarrow> snapshot_reason \<Rightarrow> context_summary \<Rightarrow> int \<Rightarrow> ('w, context_snapshot) act"
  re_append :: "pystr \<Rightarrow> pystr \<Rightarrow> context_kind \<Rightarrow> pystr \<Rightarrow> pdict \<Rightarrow> ('w, context_entry) act"
  re_search :: "pystr \<Rightarrow> pystr \<Rightarrow> int \<Rightarrow> ('w, context_match list) act"
  re_record_trace :: "exec_event \<Rightarrow> int \<Rightarrow> ('w, unit) act"

record skill_files =
  sf_root :: pystr
  sf_exists :: bool
  sf_directories :: "pystr list"
  sf_read :: "pystr \<Rightarrow> pystr res"

record 'w process_env =
  pe_settings :: "runner_settings res"
  pe_openai_settings :: "openai_settings res"
  pe_deepseek_settings :: "provider_settings res"
  pe_engine :: "pystr \<Rightarrow> 'w repositories res"
  pe_redis :: "pystr \<Rightarrow> ('w redis_api \<times> 'w health_api) res"
  pe_sqlite :: "pystr \<Rightarrow> rat \<Rightarrow> 'w sqlite_api"
  pe_chat_openai :: "openai_settings \<Rightarrow> 'w chat_api res"
  pe_chat_deepseek :: "provider_settings \<Rightarrow> 'w chat_api res"
  pe_tokenizer :: "pystr \<Rightarrow> nat res"
  pe_skills :: skill_files
  pe_text :: py_text
  pe_unicode :: unicode
  pe_now :: "'w \<Rightarrow> pystr"
  pe_pick :: "'w \<Rightarrow> nat \<Rightarrow> nat"
  pe_close_redis :: "('w, unit) act"
  pe_dispose_engine :: "('w, unit) act"

section \<open>The parts of an agent\<close>

text \<open>\<open>compose_llm\<close>; the client comes with its profile, which is computed when it is asked for.\<close>

definition openai_llm :: "py_text \<Rightarrow> openai_settings \<Rightarrow> 'w chat_api \<Rightarrow> 'w llm_client \<times> llm_profile res" where
  "openai_llm tx config chat =
     (langchain_client tx class_name chat,
      chat_profile (tx_repr tx) chat \<lparr>cc_provider = provider_value OPENAI, cc_model_name = ps_model config\<rparr>)"

definition deepseek_llm ::
  "py_text \<Rightarrow> (pystr \<Rightarrow> nat res) \<Rightarrow> provider_settings \<Rightarrow> 'w chat_api \<Rightarrow> 'w llm_client \<times> llm_profile res" where
  "deepseek_llm tx tokenizer config chat =
     ((langchain_client tx class_name chat)
        \<lparr>li_count_text := deepseek_text_tokens (tx_repr tx) class_name (ps_model config) tokenizer,
         li_count := deepseek_tokens (tx_repr tx) class_name (tx_float tx) (ps_model config) tokenizer\<rparr>,
      deepseek_profile (tx_repr tx) chat \<lparr>cc_provider = provider_value DEEPSEEK, cc_model_name = ps_model config\<rparr>)"

definition compose_llm :: "'w process_env \<Rightarrow> runner_settings \<Rightarrow> ('w llm_client \<times> llm_profile res) res" where
  "compose_llm env st =
     (case rs_llm_provider st of
        OPENAI \<Rightarrow>
          rbind (pe_openai_settings env) (\<lambda>provider.
            let api_key = py_strip (ps_api_key provider)
            in if api_key = [] then Inl (Exn ValueError (lit ''OPENAI_API_KEY is not configured''))
               else let config = provider\<lparr>ps_api_key := api_key\<rparr>
                    in rbind (pe_chat_openai env config) (\<lambda>chat. Inr (openai_llm (pe_text env) config chat)))
      | DEEPSEEK \<Rightarrow>
          rbind (pe_deepseek_settings env) (\<lambda>provider.
            let api_key = py_strip (ps_api_key provider)
            in if api_key = [] then Inl (Exn ValueError (lit ''DEEPSEEK_API_KEY is not configured''))
               else let config = provider\<lparr>ps_api_key := api_key\<rparr>
                    in rbind (pe_chat_deepseek env config) (\<lambda>chat.
                         Inr (deepseek_llm (pe_text env) (pe_tokenizer env) config chat))))"

definition compose_user_database_tool :: "'w process_env \<Rightarrow> runner_settings \<Rightarrow> 'w tool" where
  "compose_user_database_tool env st =
     database_tool (pe_unicode env) (tx_repr (pe_text env))
       \<lparr>ud_query_timeout_seconds = rs_user_database_query_timeout_seconds st, ud_max_rows = rs_user_database_max_rows st,
        ud_progress_handler_steps = rs_user_database_progress_handler_steps st\<rparr>
       (pe_sqlite env (rs_user_database_path st) (rs_user_database_connection_timeout_seconds st))"

definition compose_tools :: "'w tool list \<Rightarrow> 'w tool_registry" where
  "compose_tools tools = new_tool_registry tools"

definition compose_default_skills :: "'w process_env \<Rightarrow> 'w skill_registry res" where
  "compose_default_skills env =
     (let f = pe_skills env
      in rbind (skill_discover (tx_repr (pe_text env)) (pe_unicode env) (sf_read f) (sf_root f) (sf_exists f)
                  (sf_directories f)) (\<lambda>found.
           new_skill_registry (map (to_skill (sf_read f)) found)))"

definition compose_context_manager ::
  "'w process_env \<Rightarrow> runner_settings \<Rightarrow> 'w repositories \<Rightarrow> 'w llm_client \<Rightarrow> llm_profile res \<Rightarrow> 'w skill_registry
    \<Rightarrow> 'w context_manager res" where
  "compose_context_manager env st repos llm profile skills =
     rbind profile (\<lambda>p.
     rbind (new_budget_policy (lp_context_window_tokens p) (rs_agent_context_budget_percent st)) (\<lambda>policy.
     rbind (new_retriever (re_search repos) (rs_agent_context_retriever_default_limit st)
              (rs_agent_context_retriever_max_limit st)) (\<lambda>retriever.
     rbind (new_fallback_summarizer (rs_agent_context_summary_fallback_max_messages st)
              (rs_agent_context_summary_fallback_max_chars_per_message st)) (\<lambda>fallback.
       Inr \<lparr>km_text = pe_text env, km_skills = skills, km_system_prompt = strip_prompt SYSTEM_PROMPT,
            km_estimator = model_estimator llm, km_policy = policy, km_summarize = llm_summarize (pe_text env) llm fallback,
            km_latest = re_latest repos, km_create = re_create repos, km_append = re_append repos,
            km_retriever = retriever, km_pick = pe_pick env\<rparr>))))"

section \<open>Runtime factories\<close>

text \<open>The program waits for the sink of its run; the factory hands it one for each execution.\<close>

record 'w agent_factory =
  af_program :: "(exec_event \<Rightarrow> ('w, unit) act) \<Rightarrow> 'w agent_program"
  af_text :: py_text
  af_redis :: "'w redis_api"
  af_hot_state :: hot_conf
  af_event_stream :: stream_conf
  af_record_trace :: "exec_event \<Rightarrow> int \<Rightarrow> ('w, unit) act"
  af_max_iterations :: int
  af_max_sql_retries :: int
  af_max_parallel_tool_calls_per_tool :: int
  af_projection_max_activities :: nat

datatype 'w runtime_factory = Agent_Factory "'w agent_factory" | Unavailable_Factory pystr

text \<open>\<open>UnavailableRuntimeFactory\<close> has the method \<open>create\<close> only.\<close>

definition no_such_method :: "string \<Rightarrow> string \<Rightarrow> py_exn" where
  "no_such_method c m = Exn (OtherError (lit ''AttributeError'')) ([39] @ lit c @ [39] @ lit '' object has no attribute '' @ [39] @ lit m @ [39])"

definition agent_event_sink :: "'w agent_factory \<Rightarrow> 'w sink_conf res" where
  "agent_event_sink f =
     new_event_sink (af_text f) (af_redis f) (af_event_stream f) (af_hot_state f) (af_projection_max_activities f)
       (Some (af_record_trace f))"

fun create_event_sink :: "'w runtime_factory \<Rightarrow> 'w sink_conf res" where
  "create_event_sink (Agent_Factory f) = agent_event_sink f"
| "create_event_sink (Unavailable_Factory error) = Inl (no_such_method ''UnavailableRuntimeFactory'' ''create_event_sink'')"

text \<open>A runtime: the program bound to a sink, and its policy.\<close>

fun create_runtime :: "'w runtime_factory \<Rightarrow> ('w agent_program \<times> runtime_policy) res" where
  "create_runtime (Agent_Factory f) =
     rbind (create_runtime_policy (af_max_iterations f) (af_max_sql_retries f) (af_max_parallel_tool_calls_per_tool f)) (\<lambda>policy.
     rbind (agent_event_sink f) (\<lambda>sink. Inr (af_program f (emit sink), policy)))"
| "create_runtime (Unavailable_Factory error) = rbind (unavailable_runtime error) (\<lambda>_. Inl (Exn RuntimeError []))"

text \<open>The body of the \<open>try\<close> in \<open>run\<close>, up to the report.\<close>

definition compose_agent ::
  "'w process_env \<Rightarrow> runner_settings \<Rightarrow> 'w repositories \<Rightarrow> 'w redis_api \<Rightarrow> hot_conf \<Rightarrow> stream_conf
    \<Rightarrow> ('w agent_factory \<times> llm_profile) res" where
  "compose_agent env st repos redis hot stream =
     (let tools = compose_tools [compose_user_database_tool env st]
      in rbind (compose_default_skills env) (\<lambda>skills.
         rbind (compose_llm env st) (\<lambda>(llm, profile).
         rbind profile (\<lambda>p.
         rbind (compose_context_manager env st repos llm profile skills) (\<lambda>manager.
           Inr (\<lparr>af_program = (\<lambda>sink. new_agent_program llm tools manager sink (pe_now env) (pe_pick env)),
                 af_text = pe_text env, af_redis = redis, af_hot_state = hot, af_event_stream = stream,
                 af_record_trace = re_record_trace repos, af_max_iterations = rs_agent_runtime_max_iterations st,
                 af_max_sql_retries = rs_agent_runtime_max_sql_retries st,
                 af_max_parallel_tool_calls_per_tool = rs_agent_tool_max_concurrency_per_tool st,
                 af_projection_max_activities = rs_observer_projection_max_activities st\<rparr>, p))))))"

section \<open>The worker\<close>

record 'w composed_worker =
  cw_factory :: "'w runtime_factory"
  cw_sink :: "'w sink_conf"
  cw_consumer :: runner_conf
  cw_poll_interval_seconds :: rat

definition compose_worker :: "runner_settings \<Rightarrow> 'w runtime_factory \<Rightarrow> 'w composed_worker res" where
  "compose_worker st factory =
     (let policy = \<lparr>rp_base_delay_seconds = rs_outbox_retry_base_delay_seconds st,
            rp_max_delay_seconds = rs_outbox_retry_max_delay_seconds st, rp_exponent_cap = rs_outbox_retry_exponent_cap st\<rparr>
      in rbind (create_event_sink factory) (\<lambda>sink.
         rbind (new_consumer (rs_runner_id st) (rs_outbox_batch_size st) (rs_outbox_max_attempts st)
                  (rs_runner_cancellation_poll_seconds st) policy True) (\<lambda>consumer.
           Inr \<lparr>cw_factory = factory, cw_sink = sink, cw_consumer = consumer,
                cw_poll_interval_seconds = rs_outbox_poll_interval_seconds st\<rparr>)))"

section \<open>The reporter at work\<close>

definition publish_now :: "'w process_env \<Rightarrow> 'w health_api \<Rightarrow> health_conf \<Rightarrow> health_reporter \<Rightarrow> ('w, unit) act" where
  "publish_now env api c r =
     mbind (mget (pe_now env)) (\<lambda>now. mbind (reporter_publish (pe_text env) api c now r) (\<lambda>_. mret ()))"

definition mark_ready ::
  "'w process_env \<Rightarrow> 'w health_api \<Rightarrow> health_conf \<Rightarrow> pystr \<Rightarrow> pystr \<Rightarrow> health_reporter \<Rightarrow> ('w, health_reporter) act" where
  "mark_ready env api c provider model r =
     (let r' = reporter_ready provider model r in mbind (publish_now env api c r') (\<lambda>_. mret r'))"

definition report_unavailable ::
  "'w process_env \<Rightarrow> 'w health_api \<Rightarrow> health_conf \<Rightarrow> pystr \<Rightarrow> pystr \<Rightarrow> health_reporter \<Rightarrow> ('w, health_reporter) act" where
  "report_unavailable env api c provider error r =
     (let r' = reporter_unavailable provider None error r in mbind (publish_now env api c r') (\<lambda>_. mret r'))"

text \<open>The heartbeat task: one report in each of its rounds before the shutdown is requested.\<close>

fun reporter_run :: "nat \<Rightarrow> 'w process_env \<Rightarrow> 'w health_api \<Rightarrow> health_conf \<Rightarrow> health_reporter \<Rightarrow> ('w, unit) act" where
  "reporter_run 0 env api c r = mret ()"
| "reporter_run (Suc n) env api c r = mbind (publish_now env api c r) (\<lambda>_. reporter_run n env api c r)"

section \<open>One run of the process\<close>

text \<open>What \<open>run\<close> builds before it tries to compose an agent.\<close>

record 'w services =
  sv_settings :: runner_settings
  sv_repositories :: "'w repositories"
  sv_redis :: "'w redis_api"
  sv_health :: "'w health_api"
  sv_hot_state :: hot_conf
  sv_event_stream :: stream_conf
  sv_health_store :: health_conf
  sv_reporter :: health_reporter

definition compose_redis :: "'w process_env \<Rightarrow> runner_settings \<Rightarrow> ('w redis_api \<times> 'w health_api \<times> hot_conf \<times> stream_conf) res" where
  "compose_redis env st =
     rbind (pe_redis env (rs_redis_url st)) (\<lambda>(redis, health).
     rbind (new_hot_state (rs_redis_key_prefix st) (rs_execution_hot_state_ttl_seconds st)) (\<lambda>hot.
     rbind (new_event_stream (rs_redis_key_prefix st) (rs_redis_stream_maxlen st) (rs_execution_hot_state_ttl_seconds st)
              (rs_redis_stream_read_block_ms st) (rs_redis_stream_read_count st)) (\<lambda>stream.
       Inr (redis, health, hot, stream))))"

definition compose_services :: "'w process_env \<Rightarrow> 'w services res" where
  "compose_services env =
     rbind (pe_settings env) (\<lambda>st.
     rbind (pe_engine env (rs_agent_database_url st)) (\<lambda>repos.
     rbind (compose_redis env st) (\<lambda>(redis, health, hot, stream).
     rbind (new_health_store (rs_redis_key_prefix st) (rs_runner_health_ttl_seconds st)) (\<lambda>store.
     rbind (new_reporter (rs_runner_id st) (rs_runner_health_heartbeat_seconds st)) (\<lambda>reporter.
       Inr \<lparr>sv_settings = st, sv_repositories = repos, sv_redis = redis, sv_health = health, sv_hot_state = hot,
            sv_event_stream = stream, sv_health_store = store, sv_reporter = reporter\<rparr>)))))"

definition unavailable_message :: "pystr \<Rightarrow> pystr" where
  "unavailable_message error =
     lit ''Agente indispon'' @ [237] @ lit ''vel: n'' @ [227] @ lit ''o foi poss'' @ [237]
     @ lit ''vel inicializar o provider LLM: '' @ error"

text \<open>The \<open>try\<close> of \<open>run\<close>: an agent and the report that it is ready, or the stand-in and the report that it is not.\<close>

definition announce_agent :: "'w process_env \<Rightarrow> 'w services \<Rightarrow> ('w, 'w runtime_factory \<times> health_reporter) act" where
  "announce_agent env sv =
     (let st = sv_settings sv
      in mexcept
           (mbind (mlift (compose_agent env st (sv_repositories sv) (sv_redis sv) (sv_hot_state sv) (sv_event_stream sv)))
              (\<lambda>(factory, profile).
            mbind (mark_ready env (sv_health sv) (sv_health_store sv) (lp_provider profile) (lp_model profile) (sv_reporter sv))
              (\<lambda>reporter. mret (Agent_Factory factory, reporter))))
           (\<lambda>e. let error = error_text (tx_repr (pe_text env)) e
                in mbind (report_unavailable env (sv_health sv) (sv_health_store sv) (provider_value (rs_llm_provider st))
                            error (sv_reporter sv))
                     (\<lambda>reporter. mret (Unavailable_Factory (unavailable_message error), reporter))))"

text \<open>
  \<open>serve\<close> is \<open>worker.run()\<close> with the heartbeat task next to it, \<open>await_heartbeat\<close> the outcome of that task once the
  shutdown is requested. Each step of the cleanup is reached only if the one before it did not raise.
\<close>

definition runner_cleanup :: "'w process_env \<Rightarrow> 'w services \<Rightarrow> ('w, unit) act \<Rightarrow> ('w, unit) act" where
  "runner_cleanup env sv await_heartbeat =
     mbind await_heartbeat (\<lambda>_.
     mbind (health_clear (sv_health sv) (sv_health_store sv) (hr_runner_id (sv_reporter sv))) (\<lambda>_.
     mbind (pe_close_redis env) (\<lambda>_. pe_dispose_engine env)))"

definition runner_run ::
  "'w process_env \<Rightarrow> ('w composed_worker \<Rightarrow> health_reporter \<Rightarrow> ('w, unit) act) \<Rightarrow> (health_reporter \<Rightarrow> ('w, unit) act)
    \<Rightarrow> ('w, unit) act" where
  "runner_run env serve await_heartbeat =
     mbind (mlift (compose_services env)) (\<lambda>sv.
     mbind (announce_agent env sv) (\<lambda>(factory, reporter).
     mbind (mlift (compose_worker (sv_settings sv) factory)) (\<lambda>worker.
       mfinally (serve worker reporter) (runner_cleanup env sv (await_heartbeat reporter)))))"

end
