(* ===== verification/Composition_Props.thy ===== *)
theory Composition_Props
  imports Composition
begin

text \<open>
  What starting a runner guarantees: which settings it accepts and when it finds out, what it leaves behind when it ends,
  and that a runner without an agent does not survive its own announcement.
\<close>

section \<open>Which settings are accepted\<close>

definition settings_sound :: "runner_settings \<Rightarrow> bool" where
  "settings_sound st \<longleftrightarrow>
     0 < rs_agent_context_budget_percent st \<and> rs_agent_context_budget_percent st \<le> 100
   \<and> 1 \<le> rs_agent_context_retriever_default_limit st
   \<and> rs_agent_context_retriever_default_limit st \<le> rs_agent_context_retriever_max_limit st
   \<and> 1 \<le> rs_agent_context_summary_fallback_max_messages st
   \<and> 1 \<le> rs_agent_context_summary_fallback_max_chars_per_message st"

lemma rbind_Inr_iff: "rbind m f = Inr b \<longleftrightarrow> (\<exists>a. m = Inr a \<and> f a = Inr b)"
  by (cases m) auto

lemma chat_profile_positive: "chat_profile rp ch c = Inr p \<Longrightarrow> 0 < lp_context_window_tokens p"
  by (auto simp: chat_profile_def split: pyval.splits if_splits)

lemma deepseek_profile_positive: "deepseek_profile rp ch c = Inr p \<Longrightarrow> 0 < lp_context_window_tokens p"
  by (auto simp: deepseek_profile_def DEEPSEEK_CONTEXT_WINDOWS_def dest: chat_profile_positive
      split: sum.splits option.splits if_splits)

lemma compose_llm_positive: "compose_llm env st = Inr (llm, Inr p) \<Longrightarrow> 0 < lp_context_window_tokens p"
  by (auto simp: compose_llm_def rbind_Inr_iff Let_def openai_llm_def deepseek_llm_def
      dest: chat_profile_positive deepseek_profile_positive split: llm_provider.splits if_splits)

lemma context_manager_composed:
  assumes "0 < lp_context_window_tokens p"
  shows "(\<exists>manager. compose_context_manager env st repos llm (Inr p) skills = Inr manager) \<longleftrightarrow> settings_sound st"
  using assms
  by (auto simp: compose_context_manager_def settings_sound_def new_budget_policy_def new_retriever_def
      new_fallback_summarizer_def rbind_Inr_iff split: if_splits)

lemma agent_composed:
  "(\<exists>result. compose_agent env st repos redis hot stream = Inr result) \<longleftrightarrow>
     (\<exists>skills. compose_default_skills env = Inr skills) \<and> (\<exists>llm p. compose_llm env st = Inr (llm, Inr p)) \<and> settings_sound st"
proof -
  have "(\<exists>result. compose_agent env st repos redis hot stream = Inr result) \<longleftrightarrow>
     (\<exists>skills llm p manager. compose_default_skills env = Inr skills \<and> compose_llm env st = Inr (llm, Inr p)
        \<and> compose_context_manager env st repos llm (Inr p) skills = Inr manager)"
    by (fastforce simp: compose_agent_def rbind_Inr_iff Let_def split: prod.splits)
  also have "\<dots> \<longleftrightarrow> (\<exists>skills llm p. compose_default_skills env = Inr skills \<and> compose_llm env st = Inr (llm, Inr p)
      \<and> settings_sound st)"
    using context_manager_composed[OF compose_llm_positive, where env = env and st = st and repos = repos] by meson
  finally show ?thesis by blast
qed

text \<open>What a composed factory remembers of the settings.\<close>

lemma factory_settings:
  assumes "compose_agent env st repos redis hot stream = Inr (f, p)"
  shows "af_max_iterations f = rs_agent_runtime_max_iterations st"
    and "af_max_sql_retries f = rs_agent_runtime_max_sql_retries st"
    and "af_max_parallel_tool_calls_per_tool f = rs_agent_tool_max_concurrency_per_tool st"
    and "af_projection_max_activities f = rs_observer_projection_max_activities st"
  using assms by (auto simp: compose_agent_def rbind_Inr_iff Let_def split: prod.splits)

lemma sink_composed: "(\<exists>sink. agent_event_sink f = Inr sink) \<longleftrightarrow> 1 \<le> af_projection_max_activities f"
  by (auto simp: agent_event_sink_def new_event_sink_def)

lemma worker_composed:
  "(\<exists>worker. compose_worker st factory = Inr worker) \<longleftrightarrow>
     (\<exists>sink. create_event_sink factory = Inr sink) \<and> 1 \<le> rs_outbox_max_attempts st \<and> 0 < rs_runner_cancellation_poll_seconds st"
  by (auto simp: compose_worker_def new_consumer_def rbind_Inr_iff Let_def split: if_splits)

lemma runtime_composed:
  "(\<exists>runtime. create_runtime (Agent_Factory f) = Inr runtime) \<longleftrightarrow>
     1 \<le> af_max_iterations f \<and> 0 \<le> af_max_sql_retries f \<and> 1 \<le> af_max_parallel_tool_calls_per_tool f
     \<and> 1 \<le> af_projection_max_activities f"
  using sink_composed[of f] by (auto simp: create_runtime_policy_def rbind_Inr_iff split: if_splits)

text \<open>
  The checks at the start of a runner are exactly these. An agent is composed if and only if the skills load, the
  provider is configured with a model whose window is known, and the context settings are in range; the worker then starts
  if and only if the activity, retry and polling settings are in range; and the limits of the runtime are looked at only
  when an execution starts, so a runner that has announced itself as ready fails every execution when one of them is out
  of range.
\<close>

theorem startup_checks_exact:
  "((\<exists>result. compose_agent env st repos redis hot stream = Inr result) \<longleftrightarrow>
      (\<exists>skills. compose_default_skills env = Inr skills) \<and> (\<exists>llm p. compose_llm env st = Inr (llm, Inr p)) \<and> settings_sound st)
   \<and> (\<forall>f p. compose_agent env st repos redis hot stream = Inr (f, p) \<longrightarrow>
       ((\<exists>worker. compose_worker st (Agent_Factory f) = Inr worker) \<longleftrightarrow>
          1 \<le> rs_observer_projection_max_activities st \<and> 1 \<le> rs_outbox_max_attempts st
          \<and> 0 < rs_runner_cancellation_poll_seconds st)
     \<and> ((\<exists>runtime. create_runtime (Agent_Factory f) = Inr runtime) \<longleftrightarrow>
          1 \<le> rs_agent_runtime_max_iterations st \<and> 0 \<le> rs_agent_runtime_max_sql_retries st
          \<and> 1 \<le> rs_agent_tool_max_concurrency_per_tool st \<and> 1 \<le> rs_observer_projection_max_activities st))"
proof (intro conjI allI impI)
  show "(\<exists>result. compose_agent env st repos redis hot stream = Inr result) \<longleftrightarrow>
      (\<exists>skills. compose_default_skills env = Inr skills) \<and> (\<exists>llm p. compose_llm env st = Inr (llm, Inr p)) \<and> settings_sound st"
    by (rule agent_composed)
next
  fix f p
  assume "compose_agent env st repos redis hot stream = Inr (f, p)"
  note f = factory_settings[OF this]
  show "(\<exists>worker. compose_worker st (Agent_Factory f) = Inr worker) \<longleftrightarrow>
      1 \<le> rs_observer_projection_max_activities st \<and> 1 \<le> rs_outbox_max_attempts st \<and> 0 < rs_runner_cancellation_poll_seconds st"
    by (simp add: worker_composed sink_composed f)
  show "(\<exists>runtime. create_runtime (Agent_Factory f) = Inr runtime) \<longleftrightarrow>
      1 \<le> rs_agent_runtime_max_iterations st \<and> 0 \<le> rs_agent_runtime_max_sql_retries st
      \<and> 1 \<le> rs_agent_tool_max_concurrency_per_tool st \<and> 1 \<le> rs_observer_projection_max_activities st"
    unfolding runtime_composed f by (rule refl)
qed

section \<open>A runner without an agent\<close>

lemma announced_unavailable:
  assumes "compose_agent env (sv_settings sv) (sv_repositories sv) (sv_redis sv) (sv_hot_state sv) (sv_event_stream sv) = Inl e"
    and "exn_kind e \<noteq> CancelledError"
    and "publish_now env (sv_health sv) (sv_health_store sv)
           (reporter_unavailable (provider_value (rs_llm_provider (sv_settings sv))) None (error_text (tx_repr (pe_text env)) e)
             (sv_reporter sv)) w = (Inr (), w')"
  shows "announce_agent env sv w =
    (Inr (Unavailable_Factory (unavailable_message (error_text (tx_repr (pe_text env)) e)),
          reporter_unavailable (provider_value (rs_llm_provider (sv_settings sv))) None (error_text (tx_repr (pe_text env)) e)
            (sv_reporter sv)), w')"
  using assms by (simp add: announce_agent_def Let_def mexcept_def mtry_def mbind_def report_unavailable_def)

text \<open>
  C35. A runner that cannot compose its agent does not stay up to say so. When anything in the composition of the agent
  raises, the runner reports itself as unavailable with the error, and then the composition of the worker raises
  \<open>AttributeError\<close>: the stand-in factory has no \<open>create_event_sink\<close>. No message is ever claimed, whatever the worker would
  have done, and nothing is cleaned up: the run ends in the world the report left.
\<close>

theorem unavailable_runner_crashes:
  assumes "compose_services env = Inr sv"
    and "compose_agent env (sv_settings sv) (sv_repositories sv) (sv_redis sv) (sv_hot_state sv) (sv_event_stream sv) = Inl e"
    and "exn_kind e \<noteq> CancelledError"
    and "publish_now env (sv_health sv) (sv_health_store sv)
           (reporter_unavailable (provider_value (rs_llm_provider (sv_settings sv))) None (error_text (tx_repr (pe_text env)) e)
             (sv_reporter sv)) w = (Inr (), w')"
  shows "runner_run env serve await_heartbeat w =
    (Inl (no_such_method ''UnavailableRuntimeFactory'' ''create_event_sink''), w')"
  using assms(1) announced_unavailable[OF assms(2-4)]
  by (simp add: runner_run_def mbind_def compose_worker_def Let_def)

section \<open>From the report to the cleanup\<close>

text \<open>A process: the keys of Redis, the connections, and whatever else there is.\<close>

record process =
  pw_keys :: key_store
  pw_redis_open :: bool
  pw_engine_open :: bool

definition on_keys :: "(key_store, 'a) act \<Rightarrow> ('x process_scheme, 'a) act" where
  "on_keys m w = (case m (pw_keys w) of (r, k) \<Rightarrow> (r, w\<lparr>pw_keys := k\<rparr>))"

definition process_health :: "'x process_scheme health_api" where
  "process_health =
     \<lparr>ha_set = (\<lambda>k v ttl. on_keys (ha_set store_api k v ttl)), ha_delete = (\<lambda>k. on_keys (ha_delete store_api k)),
      ha_scan = (\<lambda>p. on_keys (ha_scan store_api p)), ha_get = (\<lambda>k. on_keys (ha_get store_api k))\<rparr>"

interpretation process_keys: key_scan process_health "\<lambda>w. map_of (pw_keys w)"
proof unfold_locales
  fix k v ttl and w :: "'x process_scheme"
  show "\<exists>w'. ha_set process_health k v ttl w = (Inr (), w') \<and> map_of (pw_keys w') = (map_of (pw_keys w))(k \<mapsto> v)"
    using health.set_law[of k v ttl "pw_keys w"] by (auto simp: process_health_def on_keys_def)
next
  fix k and w :: "'x process_scheme"
  show "\<exists>w'. ha_delete process_health k w = (Inr (), w') \<and> map_of (pw_keys w') = (map_of (pw_keys w))(k := None)"
    using health.delete_law[of k "pw_keys w"] by (auto simp: process_health_def on_keys_def)
  show "\<exists>w'. ha_get process_health k w = (Inr (map_of (pw_keys w) k), w') \<and> map_of (pw_keys w') = map_of (pw_keys w)"
    using health.get_law[of k "pw_keys w"] by (auto simp: process_health_def on_keys_def)
next
  fix a b and w :: "'x process_scheme"
  assume "plain a" "plain b"
  then show "\<exists>ks w'. ha_scan process_health (a @ 42 # b) w = (Inr ks, w') \<and> map_of (pw_keys w') = map_of (pw_keys w)
      \<and> set ks = {k. map_of (pw_keys w) k \<noteq> None \<and> (\<exists>m. k = a @ m @ b)}"
    using health.scan_law[of a b "pw_keys w"] by (fastforce simp: process_health_def on_keys_def)
qed

text \<open>A process whose health reports go to its keys and whose connections are closed by their closing calls.\<close>

definition hosted :: "'x process_scheme process_env \<Rightarrow> bool" where
  "hosted env \<longleftrightarrow>
     (\<forall>url redis health. pe_redis env url = Inr (redis, health) \<longrightarrow> health = process_health)
   \<and> pe_close_redis env = mput (\<lambda>w. w\<lparr>pw_redis_open := False\<rparr>)
   \<and> pe_dispose_engine env = mput (\<lambda>w. w\<lparr>pw_engine_open := False\<rparr>)"

definition ready_reporter :: "llm_profile \<Rightarrow> 'w services \<Rightarrow> health_reporter" where
  "ready_reporter p sv = reporter_ready (lp_provider p) (lp_model p) (sv_reporter sv)"

definition runner_key :: "'w services \<Rightarrow> pystr" where
  "runner_key sv = health_key (sv_health_store sv) (hr_runner_id (sv_reporter sv))"

definition report_text :: "'w process_env \<Rightarrow> pystr \<Rightarrow> health_reporter \<Rightarrow> pystr" where
  "report_text env now r =
     dumps (pe_text env) (PDict (health_payload
       (new_snapshot now (hr_runner_id r) (hr_status r) (hr_provider r) (hr_model r) (hr_error r))))"

lemma hosted_health: "hosted env \<Longrightarrow> compose_services env = Inr sv \<Longrightarrow> sv_health sv = process_health"
  by (auto simp: compose_services_def compose_redis_def hosted_def rbind_Inr_iff split: prod.splits)

lemma published:
  "\<exists>k. publish_now env process_health c r w = (Inr (), w\<lparr>pw_keys := k\<rparr>)
     \<and> map_of k = (map_of (pw_keys w))(health_key c (hr_runner_id r) \<mapsto> report_text env (pe_now env w) r)"
  using health.set_law[of "health_key c (hr_runner_id r)" "report_text env (pe_now env w) r" "hh_ttl_seconds c" "pw_keys w"]
  by (auto simp: publish_now_def reporter_publish_def health_publish_def report_text_def mbind_def Let_def process_health_def
      on_keys_def)

lemma cleaned:
  assumes "hosted env" and "compose_services env = Inr sv" and "await w2 = (Inr (), w3)"
  shows "\<exists>w4. runner_cleanup env sv await w2 = (Inr (), w4) \<and> map_of (pw_keys w4) = (map_of (pw_keys w3))(runner_key sv := None)
    \<and> \<not> pw_redis_open w4 \<and> \<not> pw_engine_open w4"
proof -
  obtain w where "health_clear process_health (sv_health_store sv) (hr_runner_id (sv_reporter sv)) w3 = (Inr (), w)"
    and "map_of (pw_keys w) = (map_of (pw_keys w3))(runner_key sv := None)"
    using process_keys.delete_law[of "runner_key sv" w3] by (auto simp: health_clear_def runner_key_def)
  with assms show ?thesis
    by (simp add: runner_cleanup_def hosted_health[OF assms(1,2)] mbind_def) (simp add: hosted_def)
qed

lemma ready_id [simp]: "hr_runner_id (ready_reporter p sv) = hr_runner_id (sv_reporter sv)"
  by (simp add: ready_reporter_def reporter_ready_def)

lemma announced_ready:
  assumes "hosted env" and "compose_services env = Inr sv"
    and "compose_agent env (sv_settings sv) (sv_repositories sv) (sv_redis sv) (sv_hot_state sv) (sv_event_stream sv) = Inr (f, p)"
  shows "\<exists>k. announce_agent env sv w = (Inr (Agent_Factory f, ready_reporter p sv), w\<lparr>pw_keys := k\<rparr>)
    \<and> map_of k = (map_of (pw_keys w))(runner_key sv \<mapsto> report_text env (pe_now env w) (ready_reporter p sv))"
proof -
  obtain k where "publish_now env process_health (sv_health_store sv) (ready_reporter p sv) w = (Inr (), w\<lparr>pw_keys := k\<rparr>)"
    and "map_of k = (map_of (pw_keys w))(runner_key sv \<mapsto> report_text env (pe_now env w) (ready_reporter p sv))"
    using published[of env "sv_health_store sv" "ready_reporter p sv" w] by (auto simp: runner_key_def)
  with assms(3) show ?thesis
    by (intro exI[of _ k]) (simp add: announce_agent_def Let_def mexcept_def mtry_def mbind_def mark_ready_def hosted_health[OF assms(1,2)]
        ready_reporter_def)
qed


section \<open>A concrete runner\<close>

text \<open>DeepSeek with a model whose adapter has no profile, no skills, and a worker that finds an empty outbox.\<close>

record runner_process = process +
  pw_runner :: runner_world

definition example_settings :: runner_settings where
  "example_settings =
     \<lparr>rs_agent_database_url = lit ''db'', rs_redis_url = lit ''redis'', rs_redis_key_prefix = lit ''franq'',
      rs_execution_hot_state_ttl_seconds = 60, rs_redis_stream_maxlen = 100, rs_redis_stream_read_block_ms = 10,
      rs_redis_stream_read_count = 10, rs_user_database_path = lit ''db'', rs_user_database_connection_timeout_seconds = 1,
      rs_user_database_query_timeout_seconds = 1, rs_user_database_max_rows = 10,
      rs_user_database_progress_handler_steps = 100, rs_llm_provider = DEEPSEEK, rs_agent_runtime_max_iterations = 0,
      rs_agent_runtime_max_sql_retries = 1, rs_agent_tool_max_concurrency_per_tool = 1, rs_agent_context_budget_percent = 50,
      rs_agent_context_summary_fallback_max_messages = 1, rs_agent_context_summary_fallback_max_chars_per_message = 1,
      rs_agent_context_retriever_default_limit = 1, rs_agent_context_retriever_max_limit = 1,
      rs_observer_projection_max_activities = 1, rs_runner_id = lit ''r1'', rs_runner_health_ttl_seconds = 15,
      rs_runner_health_heartbeat_seconds = 5, rs_runner_cancellation_poll_seconds = 1, rs_outbox_poll_interval_seconds = 1,
      rs_outbox_batch_size = 1, rs_outbox_max_attempts = 3, rs_outbox_retry_base_delay_seconds = 1,
      rs_outbox_retry_max_delay_seconds = 1, rs_outbox_retry_exponent_cap = 1\<rparr>"

definition example_provider :: "string \<Rightarrow> provider_settings" where
  "example_provider key =
     \<lparr>ps_api_key = lit key, ps_base_url = lit ''url'', ps_model = lit ''deepseek-v4-flash'', ps_timeout_seconds = 1,
      ps_max_output_tokens = 1, ps_max_retries = 0, ps_reasoning_effort = EFFORT_LOW\<rparr>"

definition example_chat :: "'w chat_api" where
  "example_chat =
     \<lparr>ch_invoke = (\<lambda>_ _ w. (Inr (PStr [], []), w)), ch_stream = (\<lambda>_ w. (([], None), w)), ch_profile = PNone,
      ch_num_tokens = (\<lambda>_. 0), ch_num_message_tokens = (\<lambda>_. Inr 0)\<rparr>"

definition down :: "('w, 'a) act" where
  "down = mraise (Exn RuntimeError (lit ''down''))"

definition example_env :: "string \<Rightarrow> 'x process_scheme process_env" where
  "example_env key =
     \<lparr>pe_settings = Inr example_settings, pe_openai_settings = Inl (Exn ValueError (lit ''unset'')),
      pe_deepseek_settings = Inr (example_provider key),
      pe_engine = (\<lambda>_. Inr \<lparr>re_latest = (\<lambda>_. down), re_create = (\<lambda>_ _ _ _ _. down), re_append = (\<lambda>_ _ _ _ _. down),
        re_search = (\<lambda>_ _ _. down), re_record_trace = (\<lambda>_ _. down)\<rparr>),
      pe_redis = (\<lambda>_. Inr (\<lparr>rd_incr = (\<lambda>_. down), rd_xadd = (\<lambda>_ _ _. down), rd_xread = (\<lambda>_ _ _ _. down),
        rd_xrange = (\<lambda>_ _. down), rd_xrevrange = (\<lambda>_ _. down), rd_expire = (\<lambda>_ _. down),
        rd_set = (\<lambda>_ _ _. down), rd_get = (\<lambda>_. down)\<rparr>, process_health)),
      pe_sqlite = (\<lambda>_ _. \<lparr>sq_monotonic = down, sq_open = down, sq_close = down, sq_set_handler = (\<lambda>_. down),
        sq_query = (\<lambda>_ _. down), sq_fetch_all = (\<lambda>_. down)\<rparr>),
      pe_chat_openai = (\<lambda>_. Inr example_chat), pe_chat_deepseek = (\<lambda>_. Inr example_chat), pe_tokenizer = (\<lambda>s. Inr (length s)),
      pe_skills = \<lparr>sf_root = lit ''skills'', sf_exists = True, sf_directories = [], sf_read = (\<lambda>_. Inr [])\<rparr>,
      pe_text = health_text, pe_unicode = \<lparr>un_upper = (\<lambda>c. [ascii_up c]), un_casefold = (\<lambda>c. [ascii_down c]), un_word = ascii_word, un_same = ascii_down\<rparr>, pe_now = (\<lambda>_. lit ''now''), pe_pick = (\<lambda>_ _. 0),
      pe_close_redis = mput (\<lambda>w. w\<lparr>pw_redis_open := False\<rparr>), pe_dispose_engine = mput (\<lambda>w. w\<lparr>pw_engine_open := False\<rparr>)\<rparr>"

lemma example_hosted: "hosted (example_env key)"
  by (simp add: hosted_def example_env_def)

definition example_services :: "'x process_scheme services" where
  "example_services = projr (compose_services (example_env ''key''))"

lemma example_prefix: "strip_colons (lit ''franq'') = lit ''franq''"
  by (simp add: strip_colons_def strip_end_def lit_def)

lemma example_services: "compose_services (example_env key) = Inr example_services"
  by (simp add: example_services_def compose_services_def compose_redis_def example_env_def example_settings_def
      new_hot_state_def new_event_stream_def new_health_store_def new_reporter_def example_prefix Let_def)

lemma example_services_parts [simp]:
  "sv_settings example_services = example_settings" "sv_health example_services = process_health"
  "sv_health_store example_services = \<lparr>hh_key_prefix = lit ''franq'', hh_ttl_seconds = 15\<rparr>"
  "hr_runner_id (sv_reporter example_services) = lit ''r1''"
  by (simp_all add: example_services_def compose_services_def compose_redis_def example_env_def example_settings_def
      new_hot_state_def new_event_stream_def new_health_store_def new_reporter_def example_prefix Let_def)

lemma example_key: "py_strip (lit '' '') = []" "py_strip (lit ''key'') = lit ''key''"
  by (simp_all add: py_strip_def py_lstrip_def py_rstrip_def strip_end_def lit_def is_space_def)

lemma example_skills: "compose_default_skills (example_env key) = Inr []"
  by (simp add: compose_default_skills_def example_env_def skill_discover_def new_skill_registry_def)

lemma example_agent:
  "\<exists>f p. compose_agent (example_env ''key'') example_settings repos redis hot stream = Inr (f, p)
     \<and> af_projection_max_activities f = 1"
proof -
  have "\<exists>llm p. compose_llm (example_env ''key'') example_settings = Inr (llm, Inr p)"
    by (simp add: compose_llm_def example_env_def example_settings_def example_provider_def example_key deepseek_llm_def
        deepseek_profile_def chat_profile_def example_chat_def DEEPSEEK_CONTEXT_WINDOWS_def)
  moreover have "settings_sound example_settings" by (simp add: settings_sound_def example_settings_def)
  ultimately obtain f p where "compose_agent (example_env ''key'') example_settings repos redis hot stream = Inr (f, p)"
    using agent_composed[of "example_env ''key''" example_settings repos redis hot stream] example_skills[of "''key''"]
    by auto
  moreover from factory_settings(4)[OF this] have "af_projection_max_activities f = 1" by (simp add: example_settings_def)
  ultimately show ?thesis by blast
qed

lemma example_no_key:
  "compose_agent (example_env '' '') example_settings repos redis hot stream
     = Inl (Exn ValueError (lit ''DEEPSEEK_API_KEY is not configured''))"
  by (simp add: compose_agent_def example_skills compose_llm_def example_settings_def)
     (simp add: example_env_def example_provider_def example_key)

theorem unavailable_runner_crashes_witness:
  "\<forall>serve await_heartbeat. \<exists>w'.
     runner_run (example_env '' '') serve await_heartbeat \<lparr>pw_keys = [], pw_redis_open = True, pw_engine_open = True\<rparr>
       = (Inl (no_such_method ''UnavailableRuntimeFactory'' ''create_event_sink''), w')
     \<and> map_of (pw_keys w') (runner_key (example_services :: process services)) \<noteq> None"
proof (intro allI)
  fix serve and await_heartbeat :: "health_reporter \<Rightarrow> (process, unit) act"
  let ?e = "Exn ValueError (lit ''DEEPSEEK_API_KEY is not configured'')"
  let ?r = "reporter_unavailable (provider_value (rs_llm_provider (sv_settings (example_services :: process services)))) None
      (error_text (tx_repr (pe_text (example_env '' '' :: process process_env))) ?e) (sv_reporter (example_services :: process services))"
  let ?w = "\<lparr>pw_keys = [], pw_redis_open = True, pw_engine_open = True\<rparr>"
  obtain k where k: "publish_now (example_env '' '') process_health (sv_health_store (example_services :: process services)) ?r ?w
      = (Inr (), ?w\<lparr>pw_keys := k\<rparr>)"
    and keys: "map_of k (health_key (sv_health_store (example_services :: process services)) (hr_runner_id ?r)) \<noteq> None"
    using published[of "example_env '' ''" "sv_health_store (example_services :: process services)" ?r ?w] by fastforce
  have "runner_run (example_env '' '') serve await_heartbeat ?w
      = (Inl (no_such_method ''UnavailableRuntimeFactory'' ''create_event_sink''), ?w\<lparr>pw_keys := k\<rparr>)"
    by (rule unavailable_runner_crashes[where e = ?e, OF example_services]) (use k in \<open>simp_all add: example_no_key\<close>)
  then show "\<exists>w'. runner_run (example_env '' '') serve await_heartbeat ?w
      = (Inl (no_such_method ''UnavailableRuntimeFactory'' ''create_event_sink''), w')
      \<and> map_of (pw_keys w') (runner_key (example_services :: process services)) \<noteq> None"
    using keys by (auto simp: runner_key_def reporter_unavailable_def)
qed

text \<open>The worker of \<open>Runner\<close> as what this process serves with.\<close>

definition serve_worker ::
  "nat \<Rightarrow> repr \<Rightarrow> (outbox_row \<Rightarrow> run_oracle) \<Rightarrow> (nat \<Rightarrow> bool) \<Rightarrow> runner_process composed_worker \<Rightarrow> health_reporter
    \<Rightarrow> (runner_process, unit) act" where
  "serve_worker n rp oracle shutdown worker reporter w =
     (case worker_run n rp (cw_consumer worker) oracle shutdown (pw_runner w) of (r, x) \<Rightarrow> (r, w\<lparr>pw_runner := x\<rparr>))"

definition idle_world :: runner_world where
  "idle_world =
     \<lparr>rw_db = \<lparr>db_sessions = [], db_executions = [], db_outbox = [], db_traces = [], db_ids = (\<lambda>_. []), db_next = 0\<rparr>,
      rw_emitted = [], rw_health = [], rw_tick = 0, rw_now = of_nat, rw_others = (\<lambda>_. id), rw_fail = (\<lambda>_. None),
      rw_sink_fail = (\<lambda>_. None), rw_health_fail = (\<lambda>_. None)\<rparr>"

lemma idle_round:
  "\<exists>x. worker_run 1 rp c oracle shutdown idle_world = (Inr (), x)"
  by (simp add: idle_world_def consume_once_def transaction_def claim_batch_def mbind_def Let_def numeral_eq_Suc)

definition idle_oracle :: run_oracle where
  "idle_oracle = \<lparr>ro_create = Inr (), ro_polls = 0, ro_result = Inr ([], None), ro_on_cancel = Inr ([], None)\<rparr>"

definition idle_service :: "runner_process composed_worker \<Rightarrow> health_reporter \<Rightarrow> (runner_process, unit) act" where
  "idle_service = serve_worker 1 (\<lambda>_. []) (\<lambda>_. idle_oracle) (\<lambda>_. False)"

definition one_beat :: "health_reporter \<Rightarrow> (runner_process, unit) act" where
  "one_beat = reporter_run 1 (example_env ''key'') process_health (sv_health_store (example_services :: runner_process services))"


end
