(* ===== verification/Migrations.thy ===== *)
theory Migrations
  imports Api
begin

text \<open>
  The schema of the durable store and its history: the tables as the models declare them (\<open>database/models\<close>), the two
  Alembic revisions (\<open>migrations/versions\<close>) and the bootstrap that decides how an existing database is taken over
  (\<open>migrations/bootstrap.py\<close>). A revision is the list of the statements it issues; what PostgreSQL does with a statement is
  \<open>execute_ddl\<close> on a catalog of tables and indexes, and Alembic runs the pending revisions in one transaction.
\<close>

section \<open>The catalog\<close>

datatype column_type = STRING nat | TEXT | INTEGER | JSON | TIMESTAMPTZ

record column =
  co_name :: pystr
  co_type :: column_type
  co_nullable :: bool

record foreign_key =
  fk_column :: pystr
  fk_table :: pystr
  fk_target :: pystr
  fk_cascade :: bool

record table_def =
  tb_name :: pystr
  tb_columns :: "column list"
  tb_primary :: "pystr list"
  tb_foreign :: "foreign_key list"
  tb_unique :: "(pystr \<times> pystr list) list"

record index_def =
  ix_name :: pystr
  ix_table :: pystr
  ix_columns :: "pystr list"

record catalog =
  ct_tables :: "table_def list"
  ct_indexes :: "index_def list"

definition column_names :: "table_def \<Rightarrow> pystr list" where
  "column_names t = map co_name (tb_columns t)"

definition find_table :: "pystr \<Rightarrow> catalog \<Rightarrow> table_def option" where
  "find_table n c = find (\<lambda>t. tb_name t = n) (ct_tables c)"

text \<open>Tables, indexes and named unique constraints share one space of names.\<close>

definition relation_names :: "catalog \<Rightarrow> pystr list" where
  "relation_names c =
     map tb_name (ct_tables c) @ concat (map (map fst \<circ> tb_unique) (ct_tables c)) @ map ix_name (ct_indexes c)"

section \<open>Statements\<close>

datatype ddl =
    Create_Table table_def
  | Create_Index index_def
  | Add_Column pystr column
  | Fill_Titles
  | Drop_Index pystr
  | Drop_Table pystr
  | Drop_Column pystr pystr

definition sql_error :: "string \<Rightarrow> pystr \<Rightarrow> py_exn" where
  "sql_error what name = Exn SQLAlchemyError (lit what @ lit '': '' @ name)"

definition key_exists :: "catalog \<Rightarrow> foreign_key \<Rightarrow> bool" where
  "key_exists c k = (case find_table (fk_table k) c of None \<Rightarrow> False | Some t \<Rightarrow> tb_primary t = [fk_target k])"

definition update_table :: "pystr \<Rightarrow> (table_def \<Rightarrow> table_def) \<Rightarrow> catalog \<Rightarrow> catalog" where
  "update_table n f c = c\<lparr>ct_tables := map (\<lambda>t. if tb_name t = n then f t else t) (ct_tables c)\<rparr>"

text \<open>What PostgreSQL does to the catalog; \<open>Fill_Titles\<close> changes rows only.\<close>

fun execute_ddl :: "ddl \<Rightarrow> catalog \<Rightarrow> catalog res" where
  "execute_ddl (Create_Table t) c =
     (if tb_name t \<in> set (relation_names c) then Inl (sql_error ''DuplicateTable'' (tb_name t))
      else if set (map fst (tb_unique t)) \<inter> set (relation_names c) \<noteq> {}
      then Inl (sql_error ''DuplicateTable'' (tb_name t))
      else if \<not> list_all (key_exists c) (tb_foreign t) then Inl (sql_error ''UndefinedTable'' (tb_name t))
      else Inr (c\<lparr>ct_tables := ct_tables c @ [t]\<rparr>))"
| "execute_ddl (Create_Index i) c =
     (if ix_name i \<in> set (relation_names c) then Inl (sql_error ''DuplicateTable'' (ix_name i))
      else (case find_table (ix_table i) c of
              None \<Rightarrow> Inl (sql_error ''UndefinedTable'' (ix_table i))
            | Some t \<Rightarrow>
                if \<not> list_all (\<lambda>x. x \<in> set (column_names t)) (ix_columns i)
                then Inl (sql_error ''UndefinedColumn'' (ix_name i))
                else Inr (c\<lparr>ct_indexes := ct_indexes c @ [i]\<rparr>)))"
| "execute_ddl (Add_Column n col) c =
     (case find_table n c of
        None \<Rightarrow> Inl (sql_error ''UndefinedTable'' n)
      | Some t \<Rightarrow>
          if co_name col \<in> set (column_names t) then Inl (sql_error ''DuplicateColumn'' (co_name col))
          else Inr (update_table n (\<lambda>t. t\<lparr>tb_columns := tb_columns t @ [col]\<rparr>) c))"
| "execute_ddl Fill_Titles c =
     (case find_table (lit ''agent_sessions'') c of
        None \<Rightarrow> Inl (sql_error ''UndefinedTable'' (lit ''agent_sessions''))
      | Some t \<Rightarrow>
          if lit ''title'' \<in> set (column_names t) then Inr c else Inl (sql_error ''UndefinedColumn'' (lit ''title'')))"
| "execute_ddl (Drop_Index n) c =
     (if n \<in> set (map ix_name (ct_indexes c))
      then Inr (c\<lparr>ct_indexes := filter (\<lambda>i. ix_name i \<noteq> n) (ct_indexes c)\<rparr>)
      else Inl (sql_error ''UndefinedObject'' n))"
| "execute_ddl (Drop_Table n) c =
     (if find_table n c = None then Inl (sql_error ''UndefinedTable'' n)
      else if \<exists>t \<in> set (ct_tables c). tb_name t \<noteq> n \<and> n \<in> set (map fk_table (tb_foreign t))
      then Inl (sql_error ''DependentObjectsStillExist'' n)
      else Inr (c\<lparr>ct_tables := filter (\<lambda>t. tb_name t \<noteq> n) (ct_tables c),
                  ct_indexes := filter (\<lambda>i. ix_table i \<noteq> n) (ct_indexes c)\<rparr>))"
| "execute_ddl (Drop_Column n x) c =
     (case find_table n c of
        None \<Rightarrow> Inl (sql_error ''UndefinedTable'' n)
      | Some t \<Rightarrow>
          if x \<notin> set (column_names t) then Inl (sql_error ''UndefinedColumn'' x)
          else Inr (update_table n (\<lambda>t. t\<lparr>tb_columns := filter (\<lambda>col. co_name col \<noteq> x) (tb_columns t)\<rparr>) c))"

fun run_ddl :: "ddl list \<Rightarrow> catalog \<Rightarrow> catalog res" where
  "run_ddl [] c = Inr c"
| "run_ddl (s # ss) c = rbind (execute_ddl s c) (run_ddl ss)"

lemma run_ddl_append: "run_ddl (a @ b) c = rbind (run_ddl a c) (run_ddl b)"
  by (induction a arbitrary: c) (auto split: sum.splits simp: rbind_def)

section \<open>Revisions\<close>

definition required :: "string \<Rightarrow> column_type \<Rightarrow> column" where
  "required n t = \<lparr>co_name = lit n, co_type = t, co_nullable = False\<rparr>"

definition optional :: "string \<Rightarrow> column_type \<Rightarrow> column" where
  "optional n t = \<lparr>co_name = lit n, co_type = t, co_nullable = True\<rparr>"

text \<open>A foreign key to the \<open>id\<close> of another table that deletes with it.\<close>

definition reference :: "string \<Rightarrow> string \<Rightarrow> foreign_key" where
  "reference c t = \<lparr>fk_column = lit c, fk_table = lit t, fk_target = lit ''id'', fk_cascade = True\<rparr>"

definition table :: "string \<Rightarrow> column list \<Rightarrow> foreign_key list \<Rightarrow> (pystr \<times> pystr list) list \<Rightarrow> table_def" where
  "table n columns foreign unique =
     \<lparr>tb_name = lit n, tb_columns = columns, tb_primary = [lit ''id''], tb_foreign = foreign, tb_unique = unique\<rparr>"

definition index_name :: "string \<Rightarrow> string \<Rightarrow> pystr" where
  "index_name t c = lit ''ix_'' @ lit t @ lit ''_'' @ lit c"

definition index_on :: "string \<Rightarrow> string \<Rightarrow> index_def" where
  "index_on t c = \<lparr>ix_name = index_name t c, ix_table = lit t, ix_columns = [lit c]\<rparr>"

text \<open>Revision 0001.\<close>

definition INITIAL_REVISION :: pystr where
  "INITIAL_REVISION = lit ''0001_initial_schema''"

definition agent_sessions_0001 :: table_def where
  "agent_sessions_0001 =
     table ''agent_sessions''
       [required ''id'' (STRING 36),
        required ''metadata_json'' JSON,
        required ''created_at'' TIMESTAMPTZ,
        required ''updated_at'' TIMESTAMPTZ]
       [] []"

definition agent_executions_0001 :: table_def where
  "agent_executions_0001 =
     table ''agent_executions''
       [required ''id'' (STRING 36),
        required ''created_at'' TIMESTAMPTZ,
        required ''updated_at'' TIMESTAMPTZ,
        required ''session_id'' (STRING 36),
        required ''question'' TEXT,
        required ''status'' (STRING 32),
        optional ''answer'' TEXT,
        optional ''error'' TEXT,
        optional ''result'' JSON,
        optional ''started_at'' TIMESTAMPTZ,
        optional ''completed_at'' TIMESTAMPTZ]
       [reference ''session_id'' ''agent_sessions''] []"

definition outbox_messages_0001 :: table_def where
  "outbox_messages_0001 =
     table ''outbox_messages''
       [required ''id'' (STRING 36),
        required ''event_type'' (STRING 64),
        required ''aggregate_id'' (STRING 36),
        required ''payload'' JSON,
        required ''status'' (STRING 32),
        required ''attempts'' INTEGER,
        required ''available_at'' TIMESTAMPTZ,
        optional ''locked_at'' TIMESTAMPTZ,
        optional ''locked_by'' (STRING 128),
        optional ''last_error'' (STRING 1000),
        required ''created_at'' TIMESTAMPTZ,
        optional ''processed_at'' TIMESTAMPTZ]
       [] []"

definition context_snapshots_0001 :: table_def where
  "context_snapshots_0001 =
     table ''context_snapshots''
       [required ''id'' (STRING 36),
        required ''created_at'' TIMESTAMPTZ,
        required ''updated_at'' TIMESTAMPTZ,
        required ''session_id'' (STRING 36),
        required ''execution_id'' (STRING 36),
        required ''sequence'' INTEGER,
        required ''reason'' (STRING 32),
        required ''summary_json'' JSON,
        required ''estimated_tokens'' INTEGER]
       [reference ''execution_id'' ''agent_executions'', reference ''session_id'' ''agent_sessions'']
       [(lit ''uq_context_snapshot_session_sequence'', [lit ''session_id'', lit ''sequence''])]"

definition global_context_entries_0001 :: table_def where
  "global_context_entries_0001 =
     table ''global_context_entries''
       [required ''id'' (STRING 36),
        required ''created_at'' TIMESTAMPTZ,
        required ''updated_at'' TIMESTAMPTZ,
        required ''session_id'' (STRING 36),
        required ''execution_id'' (STRING 36),
        required ''sequence'' INTEGER,
        required ''kind'' (STRING 32),
        required ''content'' TEXT,
        required ''metadata_json'' JSON]
       [reference ''execution_id'' ''agent_executions'', reference ''session_id'' ''agent_sessions'']
       [(lit ''uq_global_context_session_sequence'', [lit ''session_id'', lit ''sequence''])]"

definition execution_traces_0001 :: table_def where
  "execution_traces_0001 =
     table ''execution_traces''
       [required ''id'' (STRING 36),
        required ''execution_id'' (STRING 36),
        required ''sequence'' INTEGER,
        required ''event_type'' (STRING 64),
        required ''payload'' JSON,
        required ''created_at'' TIMESTAMPTZ]
       [reference ''execution_id'' ''agent_executions''] []"

definition upgrade_0001 :: "ddl list" where
  "upgrade_0001 =
     [Create_Table agent_sessions_0001,
      Create_Table agent_executions_0001,
      Create_Index (index_on ''agent_executions'' ''session_id''),
      Create_Index (index_on ''agent_executions'' ''status''),
      Create_Table outbox_messages_0001,
      Create_Index (index_on ''outbox_messages'' ''aggregate_id''),
      Create_Index (index_on ''outbox_messages'' ''available_at''),
      Create_Index (index_on ''outbox_messages'' ''event_type''),
      Create_Index (index_on ''outbox_messages'' ''status''),
      Create_Table context_snapshots_0001,
      Create_Index (index_on ''context_snapshots'' ''execution_id''),
      Create_Index (index_on ''context_snapshots'' ''session_id''),
      Create_Table global_context_entries_0001,
      Create_Index (index_on ''global_context_entries'' ''execution_id''),
      Create_Index (index_on ''global_context_entries'' ''kind''),
      Create_Index (index_on ''global_context_entries'' ''session_id''),
      Create_Table execution_traces_0001,
      Create_Index (index_on ''execution_traces'' ''execution_id'')]"

definition downgrade_0001 :: "ddl list" where
  "downgrade_0001 =
     [Drop_Index (index_name ''execution_traces'' ''execution_id''),
      Drop_Table (lit ''execution_traces''),
      Drop_Index (index_name ''global_context_entries'' ''session_id''),
      Drop_Index (index_name ''global_context_entries'' ''kind''),
      Drop_Index (index_name ''global_context_entries'' ''execution_id''),
      Drop_Table (lit ''global_context_entries''),
      Drop_Index (index_name ''context_snapshots'' ''session_id''),
      Drop_Index (index_name ''context_snapshots'' ''execution_id''),
      Drop_Table (lit ''context_snapshots''),
      Drop_Index (index_name ''outbox_messages'' ''status''),
      Drop_Index (index_name ''outbox_messages'' ''event_type''),
      Drop_Index (index_name ''outbox_messages'' ''available_at''),
      Drop_Index (index_name ''outbox_messages'' ''aggregate_id''),
      Drop_Table (lit ''outbox_messages''),
      Drop_Index (index_name ''agent_executions'' ''status''),
      Drop_Index (index_name ''agent_executions'' ''session_id''),
      Drop_Table (lit ''agent_executions''),
      Drop_Table (lit ''agent_sessions'')]"

text \<open>Revision 0002; the \<open>UPDATE\<close> it executes is \<open>Fill_Titles\<close>.\<close>

definition HEAD_REVISION :: pystr where
  "HEAD_REVISION = lit ''0002_add_session_titles''"

definition title_column :: column where
  "title_column = optional ''title'' (STRING 160)"

definition upgrade_0002 :: "ddl list" where
  "upgrade_0002 = [Add_Column (lit ''agent_sessions'') title_column, Fill_Titles]"

definition downgrade_0002 :: "ddl list" where
  "downgrade_0002 = [Drop_Column (lit ''agent_sessions'') (lit ''title'')]"

definition REVISIONS :: "(pystr \<times> ddl list) list" where
  "REVISIONS = [(INITIAL_REVISION, upgrade_0001), (HEAD_REVISION, upgrade_0002)]"

section \<open>The tables the models declare\<close>

text \<open>\<open>Base\<close> gives the mixins: a key of 36 characters, and the two instants.\<close>

definition key_mixin :: "column list" where
  "key_mixin = [required ''id'' (STRING 36)]"

definition timestamp_mixin :: "column list" where
  "timestamp_mixin = [required ''created_at'' TIMESTAMPTZ, required ''updated_at'' TIMESTAMPTZ]"

definition AgentSession_table :: table_def where
  "AgentSession_table = table ''agent_sessions''
     (key_mixin @ timestamp_mixin @
       [optional ''title'' (STRING 160),
        required ''metadata_json'' JSON])
     [] []"

definition AgentExecution_table :: table_def where
  "AgentExecution_table = table ''agent_executions''
     (key_mixin @ timestamp_mixin @
       [required ''session_id'' (STRING 36),
        required ''question'' TEXT,
        required ''status'' (STRING 32),
        optional ''answer'' TEXT,
        optional ''error'' TEXT,
        optional ''result'' JSON,
        optional ''started_at'' TIMESTAMPTZ,
        optional ''completed_at'' TIMESTAMPTZ])
     [reference ''session_id'' ''agent_sessions''] []"

definition OutboxMessage_table :: table_def where
  "OutboxMessage_table = table ''outbox_messages''
     (key_mixin @
       [required ''event_type'' (STRING 64),
        required ''aggregate_id'' (STRING 36),
        required ''payload'' JSON,
        required ''status'' (STRING 32),
        required ''attempts'' INTEGER,
        required ''available_at'' TIMESTAMPTZ,
        optional ''locked_at'' TIMESTAMPTZ,
        optional ''locked_by'' (STRING 128),
        optional ''last_error'' (STRING 1000),
        required ''created_at'' TIMESTAMPTZ,
        optional ''processed_at'' TIMESTAMPTZ])
     [] []"

definition ContextSnapshotRecord_table :: table_def where
  "ContextSnapshotRecord_table = table ''context_snapshots''
     (key_mixin @ timestamp_mixin @
       [required ''session_id'' (STRING 36),
        required ''execution_id'' (STRING 36),
        required ''sequence'' INTEGER,
        required ''reason'' (STRING 32),
        required ''summary_json'' JSON,
        required ''estimated_tokens'' INTEGER])
     [reference ''session_id'' ''agent_sessions'', reference ''execution_id'' ''agent_executions'']
     [(lit ''uq_context_snapshot_session_sequence'', [lit ''session_id'', lit ''sequence''])]"

definition GlobalContextEntryRecord_table :: table_def where
  "GlobalContextEntryRecord_table = table ''global_context_entries''
     (key_mixin @ timestamp_mixin @
       [required ''session_id'' (STRING 36),
        required ''execution_id'' (STRING 36),
        required ''sequence'' INTEGER,
        required ''kind'' (STRING 32),
        required ''content'' TEXT,
        required ''metadata_json'' JSON])
     [reference ''session_id'' ''agent_sessions'', reference ''execution_id'' ''agent_executions'']
     [(lit ''uq_global_context_session_sequence'', [lit ''session_id'', lit ''sequence''])]"

definition ExecutionTrace_table :: table_def where
  "ExecutionTrace_table = table ''execution_traces''
     (key_mixin @
       [required ''execution_id'' (STRING 36),
        required ''sequence'' INTEGER,
        required ''event_type'' (STRING 64),
        required ''payload'' JSON,
        required ''created_at'' TIMESTAMPTZ])
     [reference ''execution_id'' ''agent_executions''] []"

text \<open>\<open>Base.metadata\<close>; a column declared with \<open>index=True\<close> has an index of its own.\<close>

definition models_catalog :: catalog where
  "models_catalog =
     \<lparr>ct_tables = [AgentSession_table, AgentExecution_table, OutboxMessage_table, ContextSnapshotRecord_table, GlobalContextEntryRecord_table, ExecutionTrace_table],
      ct_indexes =
        [index_on ''agent_executions'' ''session_id'', index_on ''agent_executions'' ''status'',
         index_on ''outbox_messages'' ''event_type'', index_on ''outbox_messages'' ''aggregate_id'', index_on ''outbox_messages'' ''status'', index_on ''outbox_messages'' ''available_at'',
         index_on ''context_snapshots'' ''session_id'', index_on ''context_snapshots'' ''execution_id'',
         index_on ''global_context_entries'' ''session_id'', index_on ''global_context_entries'' ''execution_id'', index_on ''global_context_entries'' ''kind'',
         index_on ''execution_traces'' ''execution_id'']\<rparr>"

end
