(* ===== verification/Bootstrap.thy ===== *)
theory Bootstrap
  imports Migrations
begin

text \<open>
  Taking a database over (\<open>migrations/bootstrap.py\<close>, \<open>migrations/env.py\<close>): an unversioned database is classified by its
  tables and columns, stamped or refused, and then Alembic runs the pending revisions in one transaction. With the rows go
  the titles the second revision fills in.
\<close>

section \<open>Filling in the titles\<close>

text \<open>
  PostgreSQL's classes of characters and its text of JSON values are parameters: \<open>st_space\<close> is what \<open>\s\<close> matches, \<open>st_json\<close>
  the text \<open>->>\<close> gives of a value that is neither a string nor null.
\<close>

record sql_text =
  st_space :: "pychar \<Rightarrow> bool"
  st_json :: "pyval \<Rightarrow> pystr"

text \<open>\<open>REGEXP_REPLACE(question, '\s+', ' ', 'g')\<close>.\<close>

function collapse :: "(pychar \<Rightarrow> bool) \<Rightarrow> pystr \<Rightarrow> pystr" where
  "collapse sp [] = []"
| "collapse sp (c # cs) = (if sp c then 32 # collapse sp (dropWhile sp cs) else c # collapse sp cs)"
  by pat_completeness auto
termination
  by (relation "measure (length \<circ> snd)") (auto simp: le_imp_less_Suc length_dropWhile_le)

text \<open>\<open>BTRIM\<close> and \<open>RTRIM\<close> take spaces only.\<close>

definition rtrim :: "pystr \<Rightarrow> pystr" where
  "rtrim s = strip_end (\<lambda>c. c = 32) s"

definition btrim :: "pystr \<Rightarrow> pystr" where
  "btrim s = rtrim (dropWhile (\<lambda>c. c = 32) s)"

definition question_title :: "sql_text \<Rightarrow> pystr \<Rightarrow> pystr" where
  "question_title sx question =
     (let normalized = collapse (st_space sx) question
      in if length normalized \<le> 56 then normalized else rtrim (take 53 normalized) @ lit ''...'')"

definition metadata_text :: "sql_text \<Rightarrow> pdict \<Rightarrow> pystr option" where
  "metadata_text sx d =
     (case map_of d (lit ''title'') of
        None \<Rightarrow> None
      | Some v \<Rightarrow> (case v of PNone \<Rightarrow> None | PStr s \<Rightarrow> Some s | _ \<Rightarrow> Some (st_json sx v)))"

text \<open>The oldest execution of the session; between equally old ones, the one stored first.\<close>

definition first_question :: "db \<Rightarrow> pystr \<Rightarrow> pystr option" where
  "first_question d session_id =
     (case sort_key ex_created_at (filter (\<lambda>x. ex_session_id x = session_id) (db_executions d)) of
        [] \<Rightarrow> None | x # _ \<Rightarrow> Some (ex_question x))"

definition filled_title :: "sql_text \<Rightarrow> db \<Rightarrow> session_row \<Rightarrow> pystr option" where
  "filled_title sx d s =
     (case metadata_text sx (ss_metadata s) of
        Some t \<Rightarrow> if btrim t \<noteq> [] then Some (btrim t) else map_option (question_title sx) (first_question d (ss_id s))
      | None \<Rightarrow> map_option (question_title sx) (first_question d (ss_id s)))"

text \<open>The statement fails as a whole when one title does not fit its column.\<close>

definition fits :: "pystr option \<Rightarrow> bool" where
  "fits t = (case t of None \<Rightarrow> True | Some s \<Rightarrow> length s \<le> 160)"

definition fill_titles :: "sql_text \<Rightarrow> db \<Rightarrow> db res" where
  "fill_titles sx d =
     (if list_all (\<lambda>s. fits (filled_title sx d s)) (db_sessions d)
      then Inr (d\<lparr>db_sessions := map (\<lambda>s. s\<lparr>ss_title := filled_title sx d s\<rparr>) (db_sessions d)\<rparr>)
      else Inl (sql_error ''StringDataRightTruncation'' (lit ''title'')))"

section \<open>Running revisions\<close>

text \<open>A database: its catalog, the content of \<open>alembic_version\<close> if that table exists, and its rows.\<close>

record server =
  dbs_catalog :: catalog
  dbs_version :: "pystr option option"
  dbs_rows :: db

definition run_statement :: "sql_text \<Rightarrow> ddl \<Rightarrow> server \<Rightarrow> server res" where
  "run_statement sx s d =
     rbind (execute_ddl s (dbs_catalog d)) (\<lambda>c.
     rbind (if s = Fill_Titles then fill_titles sx (dbs_rows d) else Inr (dbs_rows d)) (\<lambda>rows.
       Inr (d\<lparr>dbs_catalog := c, dbs_rows := rows\<rparr>)))"

fun run_statements :: "sql_text \<Rightarrow> ddl list \<Rightarrow> server \<Rightarrow> server res" where
  "run_statements sx [] d = Inr d"
| "run_statements sx (s # ss) d = rbind (run_statement sx s d) (run_statements sx ss)"

text \<open>The revisions after the current one; \<open>None\<close> when the current one is not known.\<close>

fun revisions_after :: "pystr \<Rightarrow> (pystr \<times> ddl list) list \<Rightarrow> (pystr \<times> ddl list) list option" where
  "revisions_after r [] = None"
| "revisions_after r ((n, ss) # rest) = (if n = r then Some rest else revisions_after r rest)"

definition pending_revisions :: "pystr option option \<Rightarrow> (pystr \<times> ddl list) list option" where
  "pending_revisions v =
     (case v of Some (Some r) \<Rightarrow> revisions_after r REVISIONS | _ \<Rightarrow> Some REVISIONS)"

text \<open>\<open>command.upgrade(config, "head")\<close>: all pending revisions and the new version in one transaction (\<open>env.py\<close>).\<close>

definition upgrade_head :: "sql_text \<Rightarrow> (server, unit) act" where
  "upgrade_head sx d =
     (case pending_revisions (dbs_version d) of
        None \<Rightarrow> (Inl (Exn (OtherError (lit ''CommandError'')) (lit ''Can't locate revision'')), d)
      | Some revisions \<Rightarrow>
          (case run_statements sx (concat (map snd revisions)) d of
             Inl e \<Rightarrow> (Inl e, d)
           | Inr d' \<Rightarrow>
               (Inr (), if revisions = [] then d' else d'\<lparr>dbs_version := Some (Some (fst (last revisions)))\<rparr>)))"

text \<open>\<open>command.stamp\<close> writes the version and runs nothing.\<close>

definition stamp :: "pystr \<Rightarrow> (server, unit) act" where
  "stamp r = mput (\<lambda>d. d\<lparr>dbs_version := Some (Some r)\<rparr>)"

section \<open>Classifying a schema\<close>

datatype schema_state = EMPTY | VERSIONED | LEGACY_COMPATIBLE | LEGACY_INCOMPATIBLE

record schema_inspection =
  si_state :: schema_state
  si_missing_tables :: "pystr list"
  si_missing_columns :: "pystr list"

text \<open>A dictionary from table names to sets of column names, with the sets as lists.\<close>

type_synonym columns_of = "(pystr \<times> pystr list) list"

definition difference :: "pystr list \<Rightarrow> pystr list \<Rightarrow> pystr list" where
  "difference xs ys = sort (filter (\<lambda>x. x \<notin> set ys) xs)"

definition columns_in :: "columns_of \<Rightarrow> pystr \<Rightarrow> pystr list" where
  "columns_in s t = (case map_of s t of None \<Rightarrow> [] | Some cs \<Rightarrow> cs)"

definition classify_schema :: "columns_of \<Rightarrow> columns_of \<Rightarrow> schema_inspection" where
  "classify_schema actual expected =
     (if lit ''alembic_version'' \<in> fst ` set actual
      then \<lparr>si_state = VERSIONED, si_missing_tables = [], si_missing_columns = []\<rparr>
      else
        let present = filter (\<lambda>t. t \<in> fst ` set actual) (map fst expected)
        in if present = [] then \<lparr>si_state = EMPTY, si_missing_tables = [], si_missing_columns = []\<rparr>
           else
             let missing_tables = difference (map fst expected) (map fst actual);
                 missing_columns = concat (map (\<lambda>t. map (\<lambda>c. t @ lit ''.'' @ c)
                     (difference (columns_in expected t) (columns_in actual t))) (sort present))
             in if missing_tables \<noteq> [] \<or> missing_columns \<noteq> []
                then \<lparr>si_state = LEGACY_INCOMPATIBLE, si_missing_tables = missing_tables, si_missing_columns = missing_columns\<rparr>
                else \<lparr>si_state = LEGACY_COMPATIBLE, si_missing_tables = [], si_missing_columns = []\<rparr>)"

definition inspect_database :: "server \<Rightarrow> columns_of" where
  "inspect_database d =
     map (\<lambda>t. (tb_name t, column_names t)) (ct_tables (dbs_catalog d))
     @ (if dbs_version d = None then [] else [(lit ''alembic_version'', [lit ''version_num''])])"

definition expected_schema :: columns_of where
  "expected_schema = map (\<lambda>t. (tb_name t, column_names t)) (ct_tables models_catalog)"

definition expected_legacy_schema :: columns_of where
  "expected_legacy_schema =
     map (\<lambda>(t, cs). (t, if t = lit ''agent_sessions'' then filter (\<lambda>c. c \<noteq> lit ''title'') cs else cs)) expected_schema"

section \<open>The bootstrap\<close>

definition incompatible_error :: "schema_inspection \<Rightarrow> py_exn" where
  "incompatible_error i =
     Exn RuntimeError
       (lit ''Existing database schema is partially compatible but cannot be safely adopted; ''
        @ py_join (lit ''; '')
            ((if si_missing_tables i \<noteq> [] then [lit ''missing tables: '' @ py_join (lit '', '') (si_missing_tables i)] else [])
             @ (if si_missing_columns i \<noteq> []
                then [lit ''missing columns: '' @ py_join (lit '', '') (si_missing_columns i)] else [])))"

text \<open>\<open>main\<close>, with the value of \<open>AGENT_DATABASE_URL\<close>.\<close>

definition bootstrap :: "sql_text \<Rightarrow> pystr option \<Rightarrow> (server, unit) act" where
  "bootstrap sx database_url =
     (if database_url = None \<or> database_url = Some []
      then mraise (Exn RuntimeError (lit ''AGENT_DATABASE_URL is required to bootstrap migrations''))
      else
        mbind (mget (\<lambda>d. classify_schema (inspect_database d) expected_legacy_schema)) (\<lambda>i.
          if si_state i = LEGACY_INCOMPATIBLE then mraise (incompatible_error i)
          else mbind (mwhen (si_state i = LEGACY_COMPATIBLE) (stamp INITIAL_REVISION)) (\<lambda>_. upgrade_head sx)))"

end
