(* ===== verification/Bootstrap_Props.thy ===== *)
theory Bootstrap_Props
  imports Bootstrap Api_Props
begin

text \<open>
  What the migrations and their bootstrap do: on an empty database they build the schema the models declare; an existing
  database is refused with everything it lacks, adopted, or left behind half adopted; and the titles they fill in are the
  ones the API would have given.
\<close>

section \<open>A fresh database\<close>

text \<open>Two catalogs with the same tables, up to the order of columns, keys and indexes.\<close>

definition same_table :: "table_def \<Rightarrow> table_def \<Rightarrow> bool" where
  "same_table a b \<longleftrightarrow> tb_name a = tb_name b \<and> set (tb_columns a) = set (tb_columns b) \<and> tb_primary a = tb_primary b
     \<and> set (tb_foreign a) = set (tb_foreign b) \<and> set (tb_unique a) = set (tb_unique b)"

definition same_catalog :: "catalog \<Rightarrow> catalog \<Rightarrow> bool" where
  "same_catalog a b \<longleftrightarrow> list_all2 same_table (ct_tables a) (ct_tables b) \<and> set (ct_indexes a) = set (ct_indexes b)"

definition no_tables :: catalog where
  "no_tables = \<lparr>ct_tables = [], ct_indexes = []\<rparr>"

definition initial_catalog :: catalog where
  "initial_catalog =
     \<lparr>ct_tables = [agent_sessions_0001, agent_executions_0001, outbox_messages_0001, context_snapshots_0001,
        global_context_entries_0001, execution_traces_0001],
      ct_indexes = concat (map (\<lambda>s. case s of Create_Index i \<Rightarrow> [i] | _ \<Rightarrow> []) upgrade_0001)\<rparr>"

definition head_catalog :: catalog where
  "head_catalog = update_table (lit ''agent_sessions'') (\<lambda>t. t\<lparr>tb_columns := tb_columns t @ [title_column]\<rparr>) initial_catalog"

lemmas table_defs = agent_sessions_0001_def agent_executions_0001_def outbox_messages_0001_def context_snapshots_0001_def
  global_context_entries_0001_def execution_traces_0001_def table_def required_def optional_def reference_def

lemmas model_defs = AgentSession_table_def AgentExecution_table_def OutboxMessage_table_def ContextSnapshotRecord_table_def
  GlobalContextEntryRecord_table_def ExecutionTrace_table_def key_mixin_def timestamp_mixin_def models_catalog_def

lemmas ddl_simps = find_table_def relation_names_def column_names_def key_exists_def update_table_def index_on_def
  index_name_def rbind_def

lemma lit_append: "lit a @ lit b = lit (a @ b)"
  by (simp add: lit_def)

lemma index_name_lit: "index_name t c = lit (''ix_'' @ t @ ''_'' @ c)"
  by (simp add: index_name_def lit_append)

lemma initial_built: "run_ddl upgrade_0001 no_tables = Inr initial_catalog"
  by (simp add: upgrade_0001_def no_tables_def initial_catalog_def table_defs find_table_def relation_names_def column_names_def
      key_exists_def index_on_def index_name_lit rbind_def)

lemma sessions_found [simp]:
  "find_table (lit ''agent_sessions'') initial_catalog = Some agent_sessions_0001"
  "find_table (lit ''agent_sessions'') head_catalog
     = Some (agent_sessions_0001\<lparr>tb_columns := tb_columns agent_sessions_0001 @ [title_column]\<rparr>)"
  by (simp_all add: initial_catalog_def head_catalog_def update_table_def find_table_def table_def agent_sessions_0001_def)

lemma sessions_columns [simp]: "lit ''title'' \<notin> set (column_names agent_sessions_0001)" "co_name title_column = lit ''title''"
  by (simp_all add: column_names_def agent_sessions_0001_def table_def required_def optional_def title_column_def)

lemma head_built: "run_ddl upgrade_0002 initial_catalog = Inr head_catalog"
  by (simp add: upgrade_0002_def rbind_def head_catalog_def) (simp add: column_names_def flip: head_catalog_def)

lemma head_matches_models: "same_catalog head_catalog models_catalog"
  by (simp add: same_catalog_def same_table_def head_catalog_def initial_catalog_def update_table_def table_defs model_defs
      title_column_def upgrade_0001_def insert_commute)

lemma head_undone: "run_ddl (downgrade_0002 @ downgrade_0001) head_catalog = Inr no_tables"
  by (simp add: downgrade_0002_def downgrade_0001_def head_catalog_def initial_catalog_def update_table_def table_defs
      title_column_def upgrade_0001_def find_table_def column_names_def index_on_def index_name_lit rbind_def no_tables_def)

lemma run_statements_append: "run_statements sx (a @ b) d = rbind (run_statements sx a d) (run_statements sx b)"
  by (induction a arbitrary: d) (auto simp: rbind_def split: sum.splits)

text \<open>Statements that leave the rows alone act on the catalog only.\<close>

lemma run_statements_ddl:
  "Fill_Titles \<notin> set ss \<Longrightarrow>
   run_statements sx ss d = rbind (run_ddl ss (dbs_catalog d)) (\<lambda>c. Inr (d\<lparr>dbs_catalog := c\<rparr>))"
  by (induction ss arbitrary: d) (auto simp: run_statement_def rbind_def split: sum.splits)

lemma run_statements_0002:
  "run_statements sx upgrade_0002 d =
     rbind (run_ddl upgrade_0002 (dbs_catalog d)) (\<lambda>c. rbind (fill_titles sx (dbs_rows d)) (\<lambda>rows.
       Inr (d\<lparr>dbs_catalog := c, dbs_rows := rows\<rparr>)))"
  by (auto simp: upgrade_0002_def run_statement_def rbind_def simp del: execute_ddl.simps split: sum.splits)

lemma no_fill_0001 [simp]: "Fill_Titles \<notin> set upgrade_0001"
  by (simp add: upgrade_0001_def)

lemma revisions_distinct [simp]: "INITIAL_REVISION \<noteq> HEAD_REVISION" "HEAD_REVISION \<noteq> INITIAL_REVISION"
  by (simp_all add: INITIAL_REVISION_def HEAD_REVISION_def)

lemma pending_simps [simp]:
  "pending_revisions None = Some [(INITIAL_REVISION, upgrade_0001), (HEAD_REVISION, upgrade_0002)]"
  "pending_revisions (Some (Some INITIAL_REVISION)) = Some [(HEAD_REVISION, upgrade_0002)]"
  "pending_revisions (Some (Some HEAD_REVISION)) = Some []"
  by (simp_all add: pending_revisions_def REVISIONS_def)

lemma upgrade_from_initial:
  "dbs_version d = Some (Some INITIAL_REVISION) \<Longrightarrow> upgrade_head sx d =
     (case run_ddl upgrade_0002 (dbs_catalog d) of
        Inl e \<Rightarrow> (Inl e, d)
      | Inr c \<Rightarrow> (case fill_titles sx (dbs_rows d) of
          Inl e \<Rightarrow> (Inl e, d)
        | Inr rows \<Rightarrow> (Inr (), d\<lparr>dbs_catalog := c, dbs_rows := rows, dbs_version := Some (Some HEAD_REVISION)\<rparr>)))"
  by (simp add: upgrade_head_def run_statements_0002 rbind_def split: sum.splits)

lemma upgrade_at_head: "dbs_version d = Some (Some HEAD_REVISION) \<Longrightarrow> upgrade_head sx d = (Inr (), d)"
  by (simp add: upgrade_head_def)

text \<open>A versioned database is handed to Alembic as it is.\<close>

lemma bootstrap_versioned:
  assumes "dbs_version d \<noteq> None" and "url \<noteq> []"
  shows "bootstrap sx (Some url) d = upgrade_head sx d"
proof -
  from assms(1) obtain v where "dbs_version d = Some v" by blast
  then have "lit ''alembic_version'' \<in> fst ` set (inspect_database d)" by (simp add: inspect_database_def)
  with assms(2) show ?thesis by (simp add: bootstrap_def classify_schema_def mbind_def)
qed

lemma fill_no_rows: "db_sessions d = [] \<Longrightarrow> fill_titles sx d = Inr d"
  by (simp add: fill_titles_def)

text \<open>
  C37. On an empty database the bootstrap builds exactly the schema the models declare: tables, columns with their types and
  nullability, keys, cascading foreign keys, unique constraints and indexes. Running it again changes nothing, and the
  downgrades take the database back to where it was.
\<close>

theorem fresh_database_matches_models:
  assumes "dbs_catalog d = no_tables" and "dbs_version d = None" and "db_sessions (dbs_rows d) = []" and "url \<noteq> []"
  shows "\<exists>d'. bootstrap sx (Some url) d = (Inr (), d')
    \<and> same_catalog (dbs_catalog d') models_catalog \<and> dbs_version d' = Some (Some HEAD_REVISION)
    \<and> bootstrap sx (Some url) d' = (Inr (), d')
    \<and> run_ddl (downgrade_0002 @ downgrade_0001) (dbs_catalog d') = Inr (dbs_catalog d)"
proof -
  let ?d = "d\<lparr>dbs_catalog := head_catalog, dbs_version := Some (Some HEAD_REVISION)\<rparr>"
  have "bootstrap sx (Some url) d = (Inr (), ?d)"
    using assms
    by (simp add: bootstrap_def classify_schema_def inspect_database_def no_tables_def mbind_def upgrade_head_def
        run_statements_append run_statements_ddl run_statements_0002 initial_built[unfolded no_tables_def] head_built
        fill_no_rows rbind_def)
  then show ?thesis
    using bootstrap_versioned[of ?d url sx] upgrade_at_head[of ?d sx] head_matches_models head_undone assms by auto
qed

theorem fresh_database_matches_models_witness:
  "\<exists>d'. bootstrap \<lparr>st_space = is_space, st_json = (\<lambda>_. [])\<rparr> (Some (lit ''postgresql://db''))
      \<lparr>dbs_catalog = no_tables, dbs_version = None,
       dbs_rows = \<lparr>db_sessions = [], db_executions = [], db_outbox = [], db_traces = [], db_ids = (\<lambda>_. []), db_next = 0\<rparr>\<rparr>
     = (Inr (), d') \<and> same_catalog (dbs_catalog d') models_catalog"
  using fresh_database_matches_models[of "\<lparr>dbs_catalog = no_tables, dbs_version = None,
       dbs_rows = \<lparr>db_sessions = [], db_executions = [], db_outbox = [], db_traces = [], db_ids = (\<lambda>_. []), db_next = 0\<rparr>\<rparr>"
      "lit ''postgresql://db''"] by auto

end
