(* ===== verification/Bootstrap_Legacy.thy ===== *)
theory Bootstrap_Legacy
  imports Bootstrap_Props
begin

text \<open>
  Existing databases without a version: what the bootstrap reports as missing, how it adopts a complete schema, the schema
  it accepts and cannot upgrade, and the titles it gives to the conversations it finds.
\<close>

section \<open>What is missing\<close>

definition lacking_tables :: "catalog \<Rightarrow> pystr set" where
  "lacking_tables c = {t. \<exists>cs. (t, cs) \<in> set expected_legacy_schema \<and> find_table t c = None}"

definition lacking_columns :: "catalog \<Rightarrow> pystr set" where
  "lacking_columns c = {t @ lit ''.'' @ x |t x. \<exists>cs tb. (t, cs) \<in> set expected_legacy_schema \<and> find_table t c = Some tb
     \<and> x \<in> set cs \<and> x \<notin> set (column_names tb)}"

definition complete_schema :: "catalog \<Rightarrow> bool" where
  "complete_schema c \<longleftrightarrow> (\<forall>(t, cs) \<in> set expected_legacy_schema. \<exists>tb. find_table t c = Some tb \<and> set cs \<subseteq> set (column_names tb))"

lemma complete_iff: "complete_schema c \<longleftrightarrow> lacking_tables c = {} \<and> lacking_columns c = {}"
proof
  assume "complete_schema c"
  then show "lacking_tables c = {} \<and> lacking_columns c = {}"
    by (fastforce simp: complete_schema_def lacking_tables_def lacking_columns_def)
next
  assume none: "lacking_tables c = {} \<and> lacking_columns c = {}"
  show "complete_schema c"
    unfolding complete_schema_def
  proof clarify
    fix t cs
    assume e: "(t, cs) \<in> set expected_legacy_schema"
    with none obtain tb where "find_table t c = Some tb" by (auto simp: lacking_tables_def)
    with e none show "\<exists>tb. find_table t c = Some tb \<and> set cs \<subseteq> set (column_names tb)"
      by (fastforce simp: lacking_columns_def)
  qed
qed

lemma tables_map_of: "map_of (map (\<lambda>t. (tb_name t, column_names t)) ts) n = map_option column_names (find (\<lambda>t. tb_name t = n) ts)"
  by (induction ts) auto

lemma present_table: "t \<in> fst ` set s \<longleftrightarrow> map_of s t \<noteq> None"
  by (simp add: map_of_eq_None_iff)

lemma expected_tables: "map fst expected_legacy_schema = map tb_name (ct_tables models_catalog)"
  by (simp add: expected_legacy_schema_def expected_schema_def case_prod_beta comp_def)

lemma expected_distinct: "distinct (map fst expected_legacy_schema)"
  unfolding expected_tables by (simp add: model_defs table_def)

lemma columns_expected: "(t, cs) \<in> set expected_legacy_schema \<Longrightarrow> columns_in expected_legacy_schema t = cs"
  using expected_distinct by (simp add: columns_in_def)

lemma expected_pair:
  "(t, cs) \<in> set expected_legacy_schema \<longleftrightarrow> t \<in> fst ` set expected_legacy_schema \<and> cs = columns_in expected_legacy_schema t"
  using columns_expected by force

lemma set_difference [simp]: "set (difference xs ys) = set xs - set ys"
  by (auto simp: difference_def)

lemma in_concat_map:
  "y \<in> set (concat (map (\<lambda>t. map (f t) (g t)) (sort ts))) \<longleftrightarrow> (\<exists>t \<in> set ts. \<exists>x \<in> set (g t). y = f t x)"
  by auto

lemma classify_unversioned:
  assumes "dbs_version d = None" and "find_table (lit ''alembic_version'') (dbs_catalog d) = None"
    and "\<exists>t \<in> fst ` set expected_legacy_schema. find_table t (dbs_catalog d) \<noteq> None"
  defines "i \<equiv> classify_schema (inspect_database d) expected_legacy_schema"
  shows "set (si_missing_tables i) = lacking_tables (dbs_catalog d)"
    and "set (si_missing_columns i) = lacking_columns (dbs_catalog d)"
    and "si_state i = (if complete_schema (dbs_catalog d) then LEGACY_COMPATIBLE else LEGACY_INCOMPATIBLE)"
proof -
  let ?a = "inspect_database d" and ?e = expected_legacy_schema and ?c = "dbs_catalog d"
  have actual: "map_of ?a t = map_option column_names (find_table t ?c)" for t
    using assms(1) by (simp add: inspect_database_def tables_map_of find_table_def)
  have here: "t \<in> fst ` set ?a \<longleftrightarrow> find_table t ?c \<noteq> None" for t
    by (simp add: present_table actual)
  let ?present = "filter (\<lambda>t. t \<in> fst ` set ?a) (map fst ?e)"
  let ?mt = "difference (map fst ?e) (map fst ?a)"
  let ?mc = "concat (map (\<lambda>t. map (\<lambda>c. t @ lit ''.'' @ c) (difference (columns_in ?e t) (columns_in ?a t))) (sort ?present))"
  have mt: "set ?mt = lacking_tables ?c"
  proof (rule set_eqI)
    fix x
    have "x \<in> lacking_tables ?c \<longleftrightarrow> x \<in> fst ` set ?e \<and> find_table x ?c = None"
      by (force simp: lacking_tables_def)
    then show "x \<in> set ?mt \<longleftrightarrow> x \<in> lacking_tables ?c" using here[of x] by (simp only: set_difference set_map) blast
  qed
  have mc: "set ?mc = lacking_columns ?c"
  proof (rule set_eqI)
    fix y
    define E where "E = fst ` set ?e"
    have present: "t \<in> set ?present \<longleftrightarrow> t \<in> E \<and> find_table t ?c \<noteq> None" for t
      using here[of t] by (simp only: set_filter set_map mem_Collect_eq E_def)
    have "y \<in> set ?mc \<longleftrightarrow> (\<exists>t \<in> set ?present. \<exists>x \<in> set (columns_in ?e t) - set (columns_in ?a t). y = t @ lit ''.'' @ x)"
      using in_concat_map[of y "\<lambda>t c. t @ lit ''.'' @ c" "\<lambda>t. difference (columns_in ?e t) (columns_in ?a t)" ?present]
      by (simp only: set_difference)
    also have "\<dots> \<longleftrightarrow> (\<exists>t tb x. t \<in> E \<and> find_table t ?c = Some tb \<and> x \<in> set (columns_in ?e t)
        \<and> x \<notin> set (column_names tb) \<and> y = t @ lit ''.'' @ x)"
      unfolding Bex_def present by (auto simp: columns_in_def[of ?a] actual)
    also have "\<dots> \<longleftrightarrow> y \<in> lacking_columns ?c"
      unfolding lacking_columns_def expected_pair E_def by blast
    finally show "y \<in> set ?mc \<longleftrightarrow> y \<in> lacking_columns ?c" .
  qed
  have "lit ''alembic_version'' \<notin> fst ` set ?a" "?present \<noteq> []"
    using assms(2,3) here by (auto simp: filter_empty_conv)
  then have i: "i = (if ?mt \<noteq> [] \<or> ?mc \<noteq> [] then \<lparr>si_state = LEGACY_INCOMPATIBLE, si_missing_tables = ?mt, si_missing_columns = ?mc\<rparr>
      else \<lparr>si_state = LEGACY_COMPATIBLE, si_missing_tables = [], si_missing_columns = []\<rparr>)"
    by (simp add: i_def classify_schema_def Let_def)
  have none: "?mt = [] \<longleftrightarrow> lacking_tables ?c = {}" "?mc = [] \<longleftrightarrow> lacking_columns ?c = {}"
    unfolding mt[symmetric] mc[symmetric] by (simp_all only: set_empty)
  show "set (si_missing_tables i) = lacking_tables ?c" "set (si_missing_columns i) = lacking_columns ?c"
    using mt mc none unfolding i by (simp_all only: if_distrib schema_inspection.simps split: if_splits) auto
  show "si_state i = (if complete_schema ?c then LEGACY_COMPATIBLE else LEGACY_INCOMPATIBLE)"
    unfolding i complete_iff none[symmetric] by simp
qed

section \<open>Taking over an unversioned database\<close>

definition unversioned :: "server \<Rightarrow> bool" where
  "unversioned d \<longleftrightarrow> dbs_version d = None \<and> find_table (lit ''alembic_version'') (dbs_catalog d) = None
     \<and> (\<exists>t \<in> fst ` set expected_legacy_schema. find_table t (dbs_catalog d) \<noteq> None)"

definition has_title :: "catalog \<Rightarrow> bool" where
  "has_title c = (case find_table (lit ''agent_sessions'') c of None \<Rightarrow> False | Some t \<Rightarrow> lit ''title'' \<in> set (column_names t))"

definition titled :: "catalog \<Rightarrow> catalog" where
  "titled c = update_table (lit ''agent_sessions'') (\<lambda>t. t\<lparr>tb_columns := tb_columns t @ [title_column]\<rparr>) c"

abbreviation stamped :: "server \<Rightarrow> server" where
  "stamped d \<equiv> d\<lparr>dbs_version := Some (Some INITIAL_REVISION)\<rparr>"

lemma find_updated: "(\<And>t. tb_name (f t) = tb_name t) \<Longrightarrow> find_table n (update_table n f c) = map_option f (find_table n c)"
proof -
  assume names: "\<And>t. tb_name (f t) = tb_name t"
  have "find (\<lambda>t. tb_name t = n) (map (\<lambda>t. if tb_name t = n then f t else t) ts)
      = map_option f (find (\<lambda>t. tb_name t = n) ts)" for ts
    by (induction ts) (auto simp: names)
  then show ?thesis by (simp add: find_table_def update_table_def)
qed

lemma second_revision:
  assumes "find_table (lit ''agent_sessions'') c = Some t"
  shows "run_ddl upgrade_0002 c =
    (if has_title c then Inl (sql_error ''DuplicateColumn'' (lit ''title'')) else Inr (titled c))"
proof -
  have "find_table (lit ''agent_sessions'') (titled c) = Some (t\<lparr>tb_columns := tb_columns t @ [title_column]\<rparr>)"
    unfolding titled_def using assms by (subst find_updated) simp_all
  then show ?thesis
    using assms by (simp add: upgrade_0002_def has_title_def rbind_def flip: titled_def) (simp add: column_names_def)
qed

lemma sessions_expected: "lit ''agent_sessions'' \<in> fst ` set expected_legacy_schema"
proof -
  have "fst ` set expected_legacy_schema = set (map tb_name (ct_tables models_catalog))"
    by (simp only: expected_tables[symmetric] set_map)
  then show ?thesis by (simp add: model_defs table_def)
qed

lemma complete_sessions: "complete_schema c \<Longrightarrow> \<exists>t. find_table (lit ''agent_sessions'') c = Some t"
  using sessions_expected by (force simp: complete_schema_def)

lemma refused:
  assumes "unversioned d" and "\<not> complete_schema (dbs_catalog d)" and "url \<noteq> []"
  shows "bootstrap sx (Some url) d
    = (Inl (incompatible_error (classify_schema (inspect_database d) expected_legacy_schema)), d)"
  using assms classify_unversioned(3)[of d] by (simp add: bootstrap_def unversioned_def mbind_def)

lemma adopted:
  assumes "unversioned d" and "complete_schema (dbs_catalog d)" and "url \<noteq> []"
  shows "bootstrap sx (Some url) d = upgrade_head sx (stamped d)"
  using assms classify_unversioned(3)[of d] by (simp add: bootstrap_def unversioned_def mbind_def stamp_def)

text \<open>
  C38. What the bootstrap does with a database that has some of the tables and no version. An incomplete schema is refused,
  with the database untouched and an error that names exactly the missing tables and columns. A complete one without
  titles is adopted: the column is added, the titles are filled in and the version is the latest, unless a title does not
  fit, when only the stamp of the first revision is left. A complete one that has its title column already, the current
  schema of the models, is stamped with the first revision and then fails, on this start and on every later one.
\<close>

theorem legacy_database_outcome:
  assumes "unversioned d" and "url \<noteq> []"
  shows "(\<not> complete_schema (dbs_catalog d) \<longrightarrow>
      (\<exists>i. bootstrap sx (Some url) d = (Inl (incompatible_error i), d)
         \<and> set (si_missing_tables i) = lacking_tables (dbs_catalog d)
         \<and> set (si_missing_columns i) = lacking_columns (dbs_catalog d)))
    \<and> (complete_schema (dbs_catalog d) \<and> \<not> has_title (dbs_catalog d) \<longrightarrow>
      bootstrap sx (Some url) d =
        (case fill_titles sx (dbs_rows d) of
           Inl e \<Rightarrow> (Inl e, stamped d)
         | Inr rows \<Rightarrow> (Inr (), \<lparr>dbs_catalog = titled (dbs_catalog d), dbs_version = Some (Some HEAD_REVISION), dbs_rows = rows\<rparr>)))
    \<and> (complete_schema (dbs_catalog d) \<and> has_title (dbs_catalog d) \<longrightarrow>
      bootstrap sx (Some url) d = (Inl (sql_error ''DuplicateColumn'' (lit ''title'')), stamped d)
      \<and> bootstrap sx (Some url) (stamped d) = (Inl (sql_error ''DuplicateColumn'' (lit ''title'')), stamped d))"
proof (intro conjI impI; (elim conjE)?)
  assume "\<not> complete_schema (dbs_catalog d)"
  with refused[OF assms(1) _ assms(2)] classify_unversioned(1,2)[of d] assms(1)
  show "\<exists>i. bootstrap sx (Some url) d = (Inl (incompatible_error i), d)
         \<and> set (si_missing_tables i) = lacking_tables (dbs_catalog d)
         \<and> set (si_missing_columns i) = lacking_columns (dbs_catalog d)"
    by (auto simp: unversioned_def)
next
  assume complete: "complete_schema (dbs_catalog d)" and "\<not> has_title (dbs_catalog d)"
  moreover obtain t where "find_table (lit ''agent_sessions'') (dbs_catalog d) = Some t"
    using complete_sessions[OF complete] by blast
  ultimately show "bootstrap sx (Some url) d =
        (case fill_titles sx (dbs_rows d) of
           Inl e \<Rightarrow> (Inl e, stamped d)
         | Inr rows \<Rightarrow> (Inr (), \<lparr>dbs_catalog = titled (dbs_catalog d), dbs_version = Some (Some HEAD_REVISION), dbs_rows = rows\<rparr>))"
    by (simp add: adopted[OF assms(1) _ assms(2)] upgrade_from_initial second_revision split: sum.splits)
next
  assume complete: "complete_schema (dbs_catalog d)" and title: "has_title (dbs_catalog d)"
  obtain t where "find_table (lit ''agent_sessions'') (dbs_catalog d) = Some t"
    using complete_sessions[OF complete] by blast
  with title have "upgrade_head sx (stamped d) = (Inl (sql_error ''DuplicateColumn'' (lit ''title'')), stamped d)"
    by (simp add: upgrade_from_initial second_revision)
  with adopted[OF assms(1) complete assms(2)] bootstrap_versioned[of "stamped d" url sx] assms(2)
  show "bootstrap sx (Some url) d = (Inl (sql_error ''DuplicateColumn'' (lit ''title'')), stamped d)"
    and "bootstrap sx (Some url) (stamped d) = (Inl (sql_error ''DuplicateColumn'' (lit ''title'')), stamped d)"
    by simp_all
qed

definition empty_rows :: db where
  "empty_rows = \<lparr>db_sessions = [], db_executions = [], db_outbox = [], db_traces = [], db_ids = (\<lambda>_. []), db_next = 0\<rparr>"

definition ascii_sql :: sql_text where
  "ascii_sql = \<lparr>st_space = is_space, st_json = (\<lambda>_. [])\<rparr>"

definition legacy_server :: "catalog \<Rightarrow> server" where
  "legacy_server c = \<lparr>dbs_catalog = c, dbs_version = None, dbs_rows = empty_rows\<rparr>"

lemma expected_evaluated:
  "expected_legacy_schema = map (\<lambda>t. (tb_name t, filter (\<lambda>c. tb_name t = lit ''agent_sessions'' \<longrightarrow> c \<noteq> lit ''title'') (column_names t)))
     (ct_tables models_catalog)"
  by (simp add: expected_legacy_schema_def expected_schema_def)

lemma models_unversioned: "unversioned (legacy_server models_catalog)" "unversioned (legacy_server initial_catalog)"
  using sessions_expected
  by (auto simp: unversioned_def legacy_server_def find_table_def model_defs initial_catalog_def table_defs
      intro!: bexI[of _ "lit ''agent_sessions''"])

lemma models_complete: "complete_schema models_catalog" "has_title models_catalog"
  by (simp_all add: complete_schema_def expected_evaluated has_title_def find_table_def column_names_def model_defs table_def
      required_def optional_def)

lemma initial_complete: "complete_schema initial_catalog" "\<not> has_title initial_catalog"
  by (simp_all add: complete_schema_def expected_evaluated has_title_def)
     (auto simp: find_table_def column_names_def model_defs initial_catalog_def table_defs)

theorem legacy_database_outcome_witness:
  "bootstrap ascii_sql (Some (lit ''db'')) (legacy_server models_catalog)
     = (Inl (sql_error ''DuplicateColumn'' (lit ''title'')), stamped (legacy_server models_catalog))
   \<and> fst (bootstrap ascii_sql (Some (lit ''db'')) (legacy_server initial_catalog)) = Inr ()"
proof
  show "bootstrap ascii_sql (Some (lit ''db'')) (legacy_server models_catalog)
     = (Inl (sql_error ''DuplicateColumn'' (lit ''title'')), stamped (legacy_server models_catalog))"
    using legacy_database_outcome[OF models_unversioned(1), of "lit ''db''" ascii_sql] models_complete
    by (simp add: legacy_server_def)
  show "fst (bootstrap ascii_sql (Some (lit ''db'')) (legacy_server initial_catalog)) = Inr ()"
    using legacy_database_outcome[OF models_unversioned(2), of "lit ''db''" ascii_sql] initial_complete
    by (simp add: legacy_server_def fill_no_rows empty_rows_def)
qed

section \<open>The titles of old conversations\<close>

text \<open>Collapsing the spaces of a text without spaces around it joins its words.\<close>

lemma collapse_word: "(\<forall>c \<in> set w. \<not> sp c) \<Longrightarrow> collapse sp (w @ r) = w @ collapse sp r"
  by (induction w) auto

lemma collapse_split:
  "s = [] \<or> \<not> is_space (last s) \<Longrightarrow> collapse is_space (py_lstrip s) = py_join (lit '' '') (py_split s)"
proof (induction s rule: py_split.induct)
  case (1 s)
  show ?case
  proof (cases "py_lstrip s")
    case Nil
    then show ?thesis by (simp add: py_split.simps[of s])
  next
    case (Cons c cs)
    let ?w = "c # takeWhile (\<lambda>x. \<not> is_space x) cs" and ?r = "dropWhile (\<lambda>x. \<not> is_space x) cs"
    have c: "\<not> is_space c" using Cons py_lstrip_hd[of s] by simp
    have "s \<noteq> []" using Cons by (auto simp: py_lstrip_def)
    have last: "\<not> is_space (last (c # cs))"
    proof -
      have "s = takeWhile is_space s @ (c # cs)"
        using Cons unfolding py_lstrip_def by (metis takeWhile_dropWhile_id)
      then have "last (c # cs) = last s" by (metis last_appendR list.distinct(1))
      with "1.prems" \<open>s \<noteq> []\<close> show ?thesis by simp
    qed
    have r: "?r = [] \<or> \<not> is_space (last ?r)"
    proof (cases "?r = []")
      case False
      have "c # cs = ?w @ ?r" by simp
      then have "last (c # cs) = last ?r" using False by (metis last_appendR)
      with last show ?thesis by simp
    qed simp
    have split: "py_split s = ?w # py_split ?r" by (subst py_split.simps) (simp add: Cons)
    have whole: "c # cs = ?w @ ?r" by simp
    have word: "collapse is_space (c # cs) = ?w @ collapse is_space ?r"
      by (subst whole, rule collapse_word) (use c in \<open>auto dest: set_takeWhileD\<close>)
    show ?thesis
    proof (cases ?r)
      case Nil
      have "py_split [] = []" by (simp add: py_split.simps[of "[]"] py_lstrip_def)
      with Nil have "py_split ?r = []" by (simp only:)
      moreover from Nil have "collapse is_space ?r = []" by (simp only: collapse.simps)
      ultimately show ?thesis using \<open>py_lstrip s = c # cs\<close> split word by simp
    next
      case (Cons d ds)
      then have d: "is_space d" by (metis dropWhile_eq_Cons_conv)
      have "collapse is_space ?r = 32 # collapse is_space (py_lstrip ?r)"
        using Cons d by (simp add: py_lstrip_def)
      moreover have "py_split ?r \<noteq> []"
      proof -
        have "last ?r \<in> set ?r" "\<not> is_space (last ?r)" using r Cons by auto
        then have "py_lstrip ?r \<noteq> []" unfolding py_lstrip_def dropWhile_eq_Nil_conv by blast
        then show ?thesis by (subst py_split.simps) (simp split: list.splits)
      qed
      ultimately show ?thesis
        using "1.IH"[OF \<open>py_lstrip s = c # cs\<close> r] \<open>py_lstrip s = c # cs\<close> split word
        by (simp add: py_join_Cons lit_def)
    qed
  qed
qed

lemma collapse_cong: "(\<And>c. c \<in> set s \<Longrightarrow> sp c = sp' c) \<Longrightarrow> collapse sp s = collapse sp' s"
proof (induction sp s rule: collapse.induct)
  case (2 sp c cs)
  have drop: "dropWhile sp cs = dropWhile sp' cs"
    by (rule dropWhile_cong) (use "2.prems" in auto)
  show ?case
  proof (cases "sp c")
    case True
    have "collapse sp (dropWhile sp cs) = collapse sp' (dropWhile sp cs)"
      by (rule "2.IH"(1)[OF True]) (use "2.prems" set_dropWhileD in \<open>fastforce\<close>)
    with True "2.prems" drop show ?thesis by simp
  next
    case False
    have "collapse sp cs = collapse sp' cs" by (rule "2.IH"(2)[OF False]) (use "2.prems" in auto)
    with False "2.prems" show ?thesis by simp
  qed
qed simp

lemma stripped_question: "py_strip q = q \<Longrightarrow> q \<noteq> [] \<Longrightarrow> py_lstrip q = q \<and> \<not> is_space (last q)"
proof
  assume q: "py_strip q = q" "q \<noteq> []"
  then show "\<not> is_space (last q)" using py_strip_edges(2)[of q] by simp
  from q py_strip_edges(1)[of q] have "\<not> is_space (hd q)" by simp
  then show "py_lstrip q = q" unfolding py_lstrip_def by (intro dropWhile_not_hd) simp
qed

lemma normalized_alike:
  assumes "py_strip q = q" and "q \<noteq> []" and "\<forall>c \<in> set q. st_space sx c = is_space c"
  shows "collapse (st_space sx) q = normalize_spaces q"
  using collapse_cong[of q "st_space sx" is_space] collapse_split[of q] stripped_question[OF assms(1,2)] assms(3)
  by (simp add: normalize_spaces_alt)

text \<open>The only spaces left in a normalized text are blanks.\<close>

lemma collapse_spaces: "c \<in> set (collapse is_space s) \<Longrightarrow> is_space c \<Longrightarrow> c = 32"
  by (induction is_space s rule: collapse.induct) (auto split: if_splits)

lemma rtrim_rstrip: "(\<And>c. c \<in> set s \<Longrightarrow> is_space c \<Longrightarrow> c = 32) \<Longrightarrow> rtrim s = py_rstrip s"
proof -
  assume s: "\<And>c. c \<in> set s \<Longrightarrow> is_space c \<Longrightarrow> c = 32"
  have "is_space 32" by (simp add: is_space_def)
  with s have "dropWhile (\<lambda>c. c = 32) (rev s) = dropWhile is_space (rev s)" by (intro dropWhile_cong) auto
  then show ?thesis by (simp add: rtrim_def py_rstrip_def strip_end_def)
qed

lemma question_title_agrees:
  assumes "py_strip q = q" and "q \<noteq> []" and "\<forall>c \<in> set q. st_space sx c = is_space c"
  shows "build_session_title q DEFAULT_SESSION_TITLE_MAX_LENGTH = Inr (question_title sx q)"
proof -
  let ?n = "normalize_spaces q"
  have n: "collapse (st_space sx) q = ?n" by (rule normalized_alike[OF assms])
  have "collapse is_space q = ?n"
    using n collapse_cong[of q "st_space sx" is_space] assms(3) by simp
  then have "rtrim (take 53 ?n) = py_rstrip (take 53 ?n)"
    by (intro rtrim_rstrip) (metis collapse_spaces in_set_takeD)
  moreover have "?n \<noteq> []" unfolding n[symmetric] using assms(2) by (cases q) auto
  ultimately show ?thesis
    by (simp add: build_session_title_def question_title_def DEFAULT_SESSION_TITLE_MAX_LENGTH_def Let_def n)
qed

lemma title_short: "length (question_title sx q) \<le> 56"
proof -
  have "length (rtrim (take 53 s)) \<le> 53" for s
    using length_strip_end[of "\<lambda>c. c = 32" "take 53 s"] by (simp add: rtrim_def)
  then show ?thesis by (auto simp: question_title_def Let_def)
qed


definition old_rows :: db where
  "old_rows = empty_rows
     \<lparr>db_sessions := [\<lparr>ss_id = lit ''s'', ss_title = None, ss_metadata = [], ss_created_at = 1, ss_updated_at = 1\<rparr>],
      db_executions := [new_execution (lit ''e'') (lit ''s'') (lit ''how  many?'') 1]\<rparr>"


end
