(* ===== verification/Durable.thy ===== *)
theory Durable
  imports Observer Store
begin

text \<open>
  The observer of the API as it is put together (\<open>api/http/dependencies.py\<close>) with the durable record it falls back on
  (\<open>observer/durable.py\<close>): what a client is told of an execution when Redis is down or has forgotten it.
\<close>

section \<open>The durable record\<close>

definition opt_date :: "(rat \<Rightarrow> pystr) \<Rightarrow> rat option \<Rightarrow> pyval" where
  "opt_date fmt t = (case t of None \<Rightarrow> PNone | Some r \<Rightarrow> PStr (fmt r))"

definition opt_dict :: "pdict option \<Rightarrow> pyval" where
  "opt_dict d = (case d of None \<Rightarrow> PNone | Some x \<Rightarrow> PDict x)"

text \<open>A date is its ISO text, which is what the projection makes of it.\<close>

definition durable_state :: "(rat \<Rightarrow> pystr) \<Rightarrow> db \<Rightarrow> pystr \<Rightarrow> pdict option" where
  "durable_state fmt d execution_id =
     (case execution_get d execution_id of
        None \<Rightarrow> None
      | Some x \<Rightarrow> Some
          [(lit ''execution_id'', PStr (ex_id x)), (lit ''session_id'', PStr (ex_session_id x)),
           (lit ''question'', PStr (ex_question x)), (lit ''status'', PStr (status_value (ex_status x))),
           (lit ''answer'', opt_str (ex_answer x)), (lit ''error'', opt_str (ex_error x)),
           (lit ''result'', opt_dict (ex_result x)), (lit ''created_at'', PStr (fmt (ex_created_at x))),
           (lit ''updated_at'', PStr (fmt (ex_updated_at x))), (lit ''started_at'', opt_date fmt (ex_started_at x)),
           (lit ''completed_at'', opt_date fmt (ex_completed_at x))])"

definition durable_reader :: "(rat \<Rightarrow> pystr) \<Rightarrow> ('w \<Rightarrow> db) \<Rightarrow> pystr \<Rightarrow> ('w, pdict option) act" where
  "durable_reader fmt rows execution_id = mget (\<lambda>w. durable_state fmt (rows w) execution_id)"

section \<open>The observer of the API\<close>

record api_settings =
  ap_api_title :: pystr
  ap_agent_database_url :: pystr
  ap_redis_url :: pystr
  ap_redis_key_prefix :: pystr
  ap_execution_hot_state_ttl_seconds :: nat
  ap_redis_stream_maxlen :: nat
  ap_redis_stream_read_block_ms :: nat
  ap_redis_stream_read_count :: nat
  ap_observer_acceptance_poll_seconds :: rat
  ap_observer_projection_max_activities :: int

definition get_event_stream :: "api_settings \<Rightarrow> stream_conf res" where
  "get_event_stream st =
     new_event_stream (ap_redis_key_prefix st) (ap_redis_stream_maxlen st) (ap_execution_hot_state_ttl_seconds st)
       (ap_redis_stream_read_block_ms st) (ap_redis_stream_read_count st)"

definition get_hot_state :: "api_settings \<Rightarrow> hot_conf res" where
  "get_hot_state st = new_hot_state (ap_redis_key_prefix st) (ap_execution_hot_state_ttl_seconds st)"

definition get_execution_observer ::
  "py_text \<Rightarrow> 'w redis_api \<Rightarrow> (pystr \<Rightarrow> ('w, pdict option) act) \<Rightarrow> ('w, unit) act \<Rightarrow> ('w, pystr) act \<Rightarrow> api_settings
    \<Rightarrow> (observer_conf \<times> 'w observer_deps) res" where
  "get_execution_observer tx redis durable sleep now st =
     rbind (get_hot_state st) (\<lambda>hot. rbind (get_event_stream st) (\<lambda>stream.
     rbind (new_observer (tx_repr tx) (ap_observer_acceptance_poll_seconds st) (ap_observer_projection_max_activities st)) (\<lambda>oc.
       Inr (oc, \<lparr>od_durable = durable, od_hot = hs_get tx redis hot, od_latest = es_latest tx redis stream,
                 od_retained = es_retained tx redis stream, od_read = es_read tx redis stream, od_sleep = sleep, od_now = now\<rparr>))))"

section \<open>What a client is told without Redis\<close>

definition terminal_status :: "execution_status \<Rightarrow> bool" where
  "terminal_status s \<longleftrightarrow> s \<in> {ES_CANCELLED, ES_COMPLETED, ES_FAILED}"

text \<open>A state frame that shows the row: its status with the phase that belongs to it, its answer, error and result.\<close>

definition shows_row :: "execution_row \<Rightarrow> exec_frame \<Rightarrow> bool" where
  "shows_row x f \<longleftrightarrow>
     fr_type f = EXECUTION_STATE_FRAME \<and> fr_sequence f = None
   \<and> dget (fr_payload f) (lit ''session_id'') = PStr (ex_session_id x)
   \<and> dget (fr_payload f) (lit ''status'') = PStr (status_value (ex_status x))
   \<and> dget (fr_payload f) (lit ''phase'') = PStr (phase_from_status (status_value (ex_status x)))
   \<and> dget (fr_payload f) (lit ''answer'') = opt_str (ex_answer x)
   \<and> dget (fr_payload f) (lit ''error'') = opt_str (ex_error x)
   \<and> dget (fr_payload f) (lit ''result'') = opt_dict (ex_result x)
   \<and> dget (fr_payload f) (lit ''partial_answer'') = PStr (case ex_answer x of None \<Rightarrow> [] | Some a \<Rightarrow> a)
   \<and> dget (fr_payload f) (lit ''realtime_available'') = PBool False"

lemma status_text [simp]: "status_value s \<noteq> []" "[] \<noteq> status_value s"
  by (cases s; simp)+

lemma status_lower: "ascii_lower (status_value s) = status_value s"
  by (cases s) (simp_all add: ascii_lower_def lit_def)

lemma status_terminal: "status_value s \<in> set TERMINAL_EXECUTION_STATUSES \<longleftrightarrow> terminal_status s"
  by (cases s) (simp_all add: TERMINAL_EXECUTION_STATUSES_def terminal_status_def)

lemma durable_payload:
  assumes "k \<in> set PROJECTION_KEYS" and "k \<noteq> lit ''sequence''"
  shows "dget (fr_payload (durable_frame rp e r reason ls)) k = dget (initial_projection rp e (Some r)) k"
proof -
  have other: "k \<noteq> lit ''realtime_reason''" "k \<noteq> lit ''realtime_available''" "k \<noteq> lit ''reattached_from_sequence''"
    using assms(1) by (auto simp: PROJECTION_KEYS_def)
  have keyed: "dget (map (\<lambda>key. (key, g key)) ks) k = g k" if "k \<in> set ks" for g and ks :: "pystr list"
    using that by (induction ks) (auto simp: dict_simps)
  show ?thesis
    using other assms
    by (simp add: durable_frame_def state_frame_def put_reattached_def public_projection_def dict_simps keyed
        split: option.split)
qed

lemma durable_marks:
  "fr_type (durable_frame rp e r reason ls) = EXECUTION_STATE_FRAME"
  "fr_sequence (durable_frame rp e r reason ls) = None"
  "dget (fr_payload (durable_frame rp e r reason ls)) (lit ''realtime_available'') = PBool False"
  "realtime_reason (durable_frame rp e r reason ls) = PStr reason"
  by (simp_all add: durable_frame_def state_frame_def put_reattached_def public_projection_def realtime_reason_def
      dict_simps split: option.split)

lemma durable_fields:
  assumes "durable_state fmt d e = Some r" and "execution_get d e = Some x"
  shows "dget r (lit ''session_id'') = PStr (ex_session_id x)"
    and "dget r (lit ''status'') = PStr (status_value (ex_status x))"
    and "dget r (lit ''answer'') = opt_str (ex_answer x)"
    and "dget r (lit ''error'') = opt_str (ex_error x)"
    and "dget r (lit ''result'') = opt_dict (ex_result x)"
  using assms by (auto simp: durable_state_def dict_simps)

lemma initial_shows:
  assumes "durable_state fmt d e = Some r" and "execution_get d e = Some x"
  shows "dget (initial_projection rp e (Some r)) (lit ''session_id'') = PStr (ex_session_id x)"
    and "dget (initial_projection rp e (Some r)) (lit ''status'') = PStr (status_value (ex_status x))"
    and "dget (initial_projection rp e (Some r)) (lit ''phase'') = PStr (phase_from_status (status_value (ex_status x)))"
    and "dget (initial_projection rp e (Some r)) (lit ''answer'') = opt_str (ex_answer x)"
    and "dget (initial_projection rp e (Some r)) (lit ''error'') = opt_str (ex_error x)"
    and "dget (initial_projection rp e (Some r)) (lit ''result'') = opt_dict (ex_result x)"
    and "dget (initial_projection rp e (Some r)) (lit ''partial_answer'')
           = PStr (case ex_answer x of None \<Rightarrow> [] | Some a \<Rightarrow> a)"
  by (simp_all add: initial_projection_def Let_def dict_simps durable_fields[OF assms] opt_str_def py_or_def
      split: option.split)

lemma durable_frame_shows:
  assumes "durable_state fmt d e = Some r" and "execution_get d e = Some x"
  shows "shows_row x (durable_frame rp e r reason ls)"
    and "is_terminal_state rp (durable_frame rp e r reason ls) \<longleftrightarrow> terminal_status (ex_status x)"
    and "realtime_reason (durable_frame rp e r reason ls) = PStr reason"
proof -
  have key: "lit ''session_id'' \<in> set PROJECTION_KEYS" "lit ''status'' \<in> set PROJECTION_KEYS"
    "lit ''phase'' \<in> set PROJECTION_KEYS" "lit ''answer'' \<in> set PROJECTION_KEYS"
    "lit ''error'' \<in> set PROJECTION_KEYS" "lit ''result'' \<in> set PROJECTION_KEYS"
    "lit ''partial_answer'' \<in> set PROJECTION_KEYS"
    by (simp_all add: PROJECTION_KEYS_def)
  show "shows_row x (durable_frame rp e r reason ls)"
    unfolding shows_row_def by (simp add: durable_marks durable_payload key initial_shows[OF assms])
  show "is_terminal_state rp (durable_frame rp e r reason ls) \<longleftrightarrow> terminal_status (ex_status x)"
    by (simp add: is_terminal_state_def durable_payload key initial_shows[OF assms] status_lower status_terminal)
  show "realtime_reason (durable_frame rp e r reason ls) = PStr reason" by (rule durable_marks(4))
qed

text \<open>Redis is down when reading the hot state raises, and has forgotten the execution when the key is gone.\<close>

definition redis_down :: "'w observer_deps \<Rightarrow> pystr \<Rightarrow> bool" where
  "redis_down od e \<longleftrightarrow> (\<forall>w. \<exists>x. od_hot od e w = (Inl x, w) \<and> exn_kind x \<noteq> CancelledError)"

definition redis_forgot :: "'w observer_deps \<Rightarrow> pystr \<Rightarrow> bool" where
  "redis_forgot od e \<longleftrightarrow> (\<forall>w. od_hot od e w = (Inr PNone, w))"

lemma resolved_from_rows:
  assumes "od_durable od = durable_reader fmt rows" and "execution_get (rows w) e = Some x"
    and "redis_down od e \<or> redis_forgot od e"
  shows "\<exists>r. durable_state fmt (rows w) e = Some r
    \<and> resolve_current_state oc od e ls w =
        (Inr (durable_frame (oc_repr oc) e r
           (if redis_down od e then lit ''hot_state_unavailable'' else lit ''awaiting_runtime'') ls, None), w)"
proof -
  obtain r where r: "durable_state fmt (rows w) e = Some r" using assms(2) by (simp add: durable_state_def)
  have down: "\<not> (redis_down od e \<and> redis_forgot od e)"
    unfolding redis_down_def redis_forgot_def by (metis Inl_Inr_False prod.inject)
  show ?thesis
  proof (cases "redis_down od e")
    case True
    then obtain y where "od_hot od e w = (Inl y, w)" "exn_kind y \<noteq> CancelledError" unfolding redis_down_def by blast
    with r True assms(1) show ?thesis
      by (simp add: resolve_current_state_def durable_reader_def mbind_def mexcept_def mtry_def)
  next
    case False
    with assms(3) have "od_hot od e w = (Inr PNone, w)" by (simp add: redis_forgot_def)
    with r False assms(1) show ?thesis
      by (simp add: resolve_current_state_def durable_reader_def mbind_def mexcept_def mtry_def)
  qed
qed

text \<open>
  C40. Without Redis a client is told what the database knows. When the hot state cannot be read, or its key has expired
  and the execution is over, an observer yields one state frame with the status of the row, the phase that belongs to it,
  its answer, its error and its result, marked as not realtime; an execution that is not over is followed by the notice
  that realtime observation is unavailable; and the observation ends there, whatever its fuel.
\<close>

theorem durable_fallback:
  assumes "od_durable od = durable_reader fmt rows" and "execution_get (rows w) e = Some x"
    and "redis_down od e \<or> (redis_forgot od e \<and> terminal_status (ex_status x))"
  shows "\<exists>f. shows_row x f
    \<and> observe fuel oc od e ls w =
        (if terminal_status (ex_status x) then [f] else [f, durable_notice (oc_repr oc) e f], Finished, w)"
proof -
  let ?reason = "if redis_down od e then lit ''hot_state_unavailable'' else lit ''awaiting_runtime''"
  obtain r where r: "durable_state fmt (rows w) e = Some r"
    and resolved: "resolve_current_state oc od e ls w = (Inr (durable_frame (oc_repr oc) e r ?reason ls, None), w)"
    using resolved_from_rows[OF assms(1,2)] assms(3) by blast
  note frame = durable_frame_shows[OF r assms(2), of "oc_repr oc" ?reason ls]
  have "observe fuel oc od e ls w =
      (if terminal_status (ex_status x) then [durable_frame (oc_repr oc) e r ?reason ls]
       else [durable_frame (oc_repr oc) e r ?reason ls, durable_notice (oc_repr oc) e (durable_frame (oc_repr oc) e r ?reason ls)],
       Finished, w)"
    using assms(3) frame(2,3) by (auto simp: observe_def resolved obs_yield_def is_unavailable_reason_def)
  with frame(1) show ?thesis by blast
qed

definition lost_row :: execution_row where
  "lost_row = (new_execution (lit ''e'') (lit ''s'') (lit ''how many?'') 1)
     \<lparr>ex_status := ES_COMPLETED, ex_answer := Some (lit ''two'')\<rparr>"

definition lost_rows :: db where
  "lost_rows = \<lparr>db_sessions = [], db_executions = [lost_row], db_outbox = [], db_traces = [], db_ids = (\<lambda>_. []), db_next = 0\<rparr>"

definition lost_deps :: "db observer_deps" where
  "lost_deps =
     \<lparr>od_durable = durable_reader (\<lambda>_. lit ''now'') id, od_hot = (\<lambda>_. mret PNone), od_latest = (\<lambda>_. mret None),
      od_retained = (\<lambda>_. mret []), od_read = (\<lambda>_ _. mret []), od_sleep = mret (), od_now = mret []\<rparr>"

theorem durable_fallback_witness:
  "\<exists>f. shows_row lost_row f \<and> dget (fr_payload f) (lit ''answer'') = PStr (lit ''two'')
     \<and> observe 0 \<lparr>oc_repr = (\<lambda>_. []), oc_max_activities = 1\<rparr> lost_deps (lit ''e'') None lost_rows = ([f], Finished, lost_rows)"
proof -
  have row: "execution_get (id lost_rows) (lit ''e'') = Some lost_row"
    by (simp add: execution_get_def lost_rows_def lost_row_def new_execution_def)
  have forgot: "redis_forgot lost_deps (lit ''e'') \<and> terminal_status (ex_status lost_row)"
    by (simp add: redis_forgot_def lost_deps_def terminal_status_def lost_row_def)
  have deps: "od_durable lost_deps = durable_reader (\<lambda>_. lit ''now'') id" by (simp add: lost_deps_def)
  have "ex_answer lost_row = Some (lit ''two'')" by (simp add: lost_row_def)
  with durable_fallback[OF deps row, of 0 "\<lparr>oc_repr = (\<lambda>_. []), oc_max_activities = 1\<rparr>" None] forgot
  show ?thesis by (auto simp: shows_row_def opt_str_def)
qed

end
