(* ===== verification/Spec2Isabelle.thy ===== *)
theory Spec2Isabelle
  imports Projection_Props Observer_Store Api_Props Runner_Props RunnerHealth Sse_Props Tools_Props Skills ContextStores
    ContextManager_Props Interface App_Props Composition_Props Bootstrap_Props Bootstrap_Legacy Durable
begin

text \<open>
  A verification library for the data assistant of this repository: a runner executes questions with a language model and
  tools, an HTTP API accepts questions and streams what happens, a Streamlit interface shows it.

  \<^bold>\<open>The program and its parts.\<close> A user submits a question through the interface (\<open>packages/ui\<close>). The API
  (\<open>packages/api\<close>) stores an execution row and an outbox message in one transaction. A runner (\<open>packages/runner\<close>)
  claims the message, runs the agent of \<open>packages/core\<close> on the question and settles row and message. While it runs, every
  fact is an event: numbered by a Redis counter, appended to a Redis stream, folded into a hot projection and, for the
  traceable types, recorded in the database. An observer composes the durable row, the hot projection and the retained
  stream into one state, then follows the stream; the API sends its frames as server-sent events; the client parses them
  and the interface folds them into what it shows.

  \<^bold>\<open>Theories and code.\<close> Paths are below \<open>src/packages/core/src/package/agent\<close> unless another package is named.

  \<^item> \<open>Prelude\<close>, \<open>PyValue\<close>, \<open>Unicode\<close>, \<open>Json\<close>, \<open>Effects\<close>: Python strings as code points, dynamic values, dictionaries with
    insertion order, exceptions as values, the \<open>json\<close> module, and effectful code as functions from a world to a result
    or an exception and a new world, with the invariant (\<open>keeps\<close>) and total-correctness (\<open>attains\<close>) rules.
  \<^item> \<open>Events\<close> (\<open>observer/events.py\<close>, \<open>frames.py\<close>, \<open>trace\<close>), \<open>Projection\<close> and \<open>Projection_Props\<close>
    (\<open>observer/projection.py\<close>): the event types, the public fields, and the reducer with its refinement of the abstract
    set of open calls.
  \<^item> \<open>EventLog\<close> (\<open>cache/event_stream.py\<close>, \<open>cache/execution_state.py\<close>), \<open>Publisher\<close> (\<open>observer/publisher.py\<close>,
    \<open>composite.py\<close>), \<open>RedisModel\<close> (an executable Redis the laws are interpreted on).
  \<^item> \<open>Observer\<close>, \<open>Observer_Props\<close>, \<open>Observer_Store\<close> (\<open>observer/observer.py\<close>): state resolution and live tail, first over
    any store, then over the modelled stream.
  \<^item> \<open>Store\<close>, \<open>Lifecycle\<close> (\<open>database/models\<close>, \<open>database/repositories\<close>): rows, repositories, the life of a row as a step
    relation; \<open>Api\<close>, \<open>Api_Props\<close> (\<open>packages/api\<close> routes, schemas, presentation, \<open>session_title.py\<close>).
  \<^item> \<open>Runner\<close>, \<open>Runner_Props\<close>, \<open>RunnerHealth\<close> (\<open>packages/runner\<close> consumers and runtime, \<open>cache/runner_health.py\<close>).
  \<^item> \<open>Sse\<close>, \<open>Sse_Props\<close> (\<open>packages/api\<close> \<open>routes/events.py\<close>, \<open>packages/ui\<close> \<open>client.py\<close>).
  \<^item> \<open>Llm\<close> (\<open>llm\<close>), \<open>Tools\<close>, \<open>Tools_Props\<close> (\<open>tools\<close>), \<open>Skills\<close> (\<open>skills\<close>).
  \<^item> \<open>Context\<close>, \<open>ContextStores\<close> (\<open>context/models.py\<close>, \<open>memory.py\<close>, \<open>database/repositories/context.py\<close>), \<open>Budget\<close>,
    \<open>Summary\<close> (\<open>context/budget.py\<close>, \<open>summary.py\<close>, \<open>retrieval.py\<close>), \<open>ContextManager\<close>, \<open>ContextManager_Props\<close>
    (\<open>context/manager.py\<close>, \<open>builder.py\<close>).
  \<^item> \<open>Async\<close> (concurrent coroutines under semaphores), \<open>Runtime\<close>, \<open>Runtime_Props\<close>, \<open>Runtime_Stream\<close>, \<open>Runtime_Examples\<close>
    (\<open>runtime/program.py\<close> and its neighbours).
  \<^item> \<open>Observation\<close>, \<open>Observation_Props\<close> (\<open>packages/ui\<close> \<open>observation.py\<close>), \<open>Interface\<close> (from the agent's events to the
    screen), \<open>Visualization\<close>, \<open>RichContent\<close>, \<open>RichContent_Props\<close>, \<open>Rendering\<close>, \<open>ActivityPanel\<close>, \<open>App\<close>, \<open>App_Props\<close> (the
    files of those names in \<open>packages/ui\<close>).
  \<^item> \<open>Prompt\<close> (\<open>prompt/system.py\<close>): the text of the system prompt, character by character, against the validator and parser
    of the interface.
  \<^item> \<open>Composition\<close>, \<open>Composition_Props\<close> (\<open>packages/runner\<close> \<open>main.py\<close>, \<open>settings.py\<close> and \<open>composition\<close>,
    \<open>llm/config.py\<close>, \<open>composer\<close>): one run of the runner's process, from the settings to the cleanup, over an environment whose
    fields are the constructors of the libraries. The definitions of the other theories are what it composes.
  \<^item> \<open>Durable\<close> (\<open>observer/durable.py\<close>, \<open>packages/api\<close> \<open>http/dependencies.py\<close>, \<open>settings.py\<close>): the observer of the API with
    the database it falls back on.
  \<^item> \<open>Migrations\<close>, \<open>Bootstrap\<close>, \<open>Bootstrap_Props\<close>, \<open>Bootstrap_Legacy\<close> (\<open>packages/core/migrations\<close>, \<open>database/models\<close>): the
    two revisions as lists of statements, the tables the models declare, the update that fills in titles, and the bootstrap
    that refuses, adopts or creates a database.

  \<^bold>\<open>State and operations.\<close> A dictionary whose keys the code treats as data is an association list (\<open>pdict\<close>); a class or
  a row is a record; an enumeration is a datatype with its value function; a table is the list of its rows in insertion
  order. A coroutine is an action of a world type that stays a parameter, so one definition runs over the modelled Redis,
  over the database and over the world of a concrete example. A transaction of the runner is one atomic step before which
  the other processes may have committed anything.

  \<^bold>\<open>What the lemmas show.\<close> The locales state what one part relies on in another: \<open>redis_server\<close>, \<open>redis_up\<close> and
  \<open>execution_log\<close> (what the sink and the observer need of the store, interpreted on the modelled Redis and event log), \<open>key_scan\<close> (runner
  health, interpreted on the keys of a store and on those of a whole process), \<open>context_store\<close> (session memory, interpreted on the database and on the memory implementation),
  \<open>graph_engine\<close> (LangGraph, interpreted on a loop that runs the graph) and
  \<open>event_view\<close> (the events an agent run emits). On them rest the refinements: the hot state is the fold of the published
  events; an observer that attaches at any moment sees that fold and then exactly the events after it; the interface ends
  with the answer of the execution; the open calls and the health reports refine their abstract specifications. The
  invariants are about rows and the outbox under every transaction of the system. The negative theorems exhibit
  executions in which the code does what it does not mean to do; they are listed as findings.

  \<^bold>\<open>Bounds and fuel.\<close> The runtime's graph is run by a fuelled loop; the recursion limit the program asks for is proved to
  be enough. A concurrent step is scheduled by a function of the world; eight scheduling steps per call are proved to
  finish every task. The observer and the worker loop are bounded runs of generators that need not end; what is claimed
  of them holds for every bound. The JSON reader's fuel is the length of its text. The rich content parser and the skill reader recurse on
  the rest of their text, with their measures proved to decrease.

  \<^bold>\<open>Assumptions.\<close> Floats are rationals. The clock, UUIDs, \<open>repr\<close> of values, the text of a float, the Unicode tables,
  Redis, SQLite, the HTTP client, the chat model, LangGraph's scheduler, the drawing library and the template files are
  arguments. A statement of a migration acts on a catalog as PostgreSQL documents it (\<open>execute_ddl\<close>: names are unique, a foreign
  key needs its table, a column is added or dropped once), and the pending revisions run in one transaction, as
  \<open>migrations/env.py\<close> asks for; the stamp of a revision is a transaction of its own. The live feed is read one element at a time and a blocking read is one action. After one of several concurrent
  calls raises, the others are left out (the code leaves them running and ignores them). Key expiry is not modelled.

  \<^bold>\<open>Not modelled.\<close> The FastAPI application object (\<open>api/http/app.py\<close>), the constructors of engines, session factories and Redis
  clients (\<open>database/config\<close>, \<open>cache/config.py\<close>, \<open>cache/connection.py\<close>), the loading of settings from the environment and the
  signal handlers are calls of libraries without logic of their own. \<open>runtime/lifecycle.py\<close> wraps an event of \<open>asyncio\<close>; the
  heartbeat and the worker loop take the rounds before the shutdown as a number. \<open>llm/realtime.py\<close> is a context variable; in the
  model the handler of text deltas is an argument. The offline mode of the migrations prints SQL. The package files
  \<open>__init__.py\<close> re-export names. CSS, JavaScript and HTML templates are not Python.
\<close>

end
